(* ===== verification/Go_Prelude.thy ===== *)
theory Go_Prelude
  imports Main "HOL-Library.AList" "HOL-Library.Multiset"
    "HOL-Library.Char_ord" "HOL-Library.List_Lexorder"
begin

text \<open>
  Shared vocabulary of the development: Go maps as association lists with distinct keys,
  Go strings (decimal conversion, splitting, trimming), slices with a capacity, and the
  insertion sort that \<^verbatim>\<open>sort.Sort\<close> and \<^verbatim>\<open>sort.Slice\<close> run on short slices.
  The named collections gather the facts that the component theories hand to the simplifier.
\<close>

named_theorems gomap_simps \<open>lookups after updates of Go maps\<close>
named_theorems api_defs \<open>the accessors of the API objects\<close>
named_theorems kind_defs \<open>the predicates that classify a workload by its kind\<close>

section \<open>Go maps\<close>

text \<open>
  A Go map is an association list with distinct keys; the order of the list is one of the
  iteration orders the runtime may choose. A nil map is the empty list: no code modelled here
  can tell the two apart.
\<close>

type_synonym ('k, 'v) gomap = "('k \<times> 'v) list"
type_synonym strmap = "(string, string) gomap"

definition wf_map :: "('k, 'v) gomap \<Rightarrow> bool" where
  "wf_map m \<longleftrightarrow> distinct (map fst m)"

abbreviation mget :: "('k, 'v) gomap \<Rightarrow> 'k \<Rightarrow> 'v option" where
  "mget m k \<equiv> map_of m k"

definition mhas :: "('k, 'v) gomap \<Rightarrow> 'k \<Rightarrow> bool" where
  "mhas m k \<longleftrightarrow> mget m k \<noteq> None"

definition mput :: "('k, 'v) gomap \<Rightarrow> 'k \<Rightarrow> 'v \<Rightarrow> ('k, 'v) gomap" where
  "mput m k v = AList.update k v m"

definition mdel :: "('k, 'v) gomap \<Rightarrow> 'k \<Rightarrow> ('k, 'v) gomap" where
  "mdel m k = AList.delete k m"

text \<open>Reading a missing key yields the zero value of the element type.\<close>

definition mget0 :: "'v \<Rightarrow> ('k, 'v) gomap \<Rightarrow> 'k \<Rightarrow> 'v" where
  "mget0 z m k = (case mget m k of None \<Rightarrow> z | Some v \<Rightarrow> v)"

lemma mget_mput [simp, gomap_simps]: "mget (mput m k v) k' = (if k' = k then Some v else mget m k')"
  by (simp add: mput_def update_conv')

lemma mget_mdel [simp, gomap_simps]: "mget (mdel m k) k' = (if k' = k then None else mget m k')"
  by (simp add: mdel_def delete_conv')

lemma mhas_mput [simp, gomap_simps]: "mhas (mput m k v) k' \<longleftrightarrow> k' = k \<or> mhas m k'"
  by (simp add: mhas_def)

lemma mhas_mdel [simp, gomap_simps]: "mhas (mdel m k) k' \<longleftrightarrow> k' \<noteq> k \<and> mhas m k'"
  by (simp add: mhas_def)

lemma mhas_Nil [simp]: "\<not> mhas [] k"
  by (simp add: mhas_def)

lemma mhas_Cons [simp]: "mhas ((k, v) # m) k' \<longleftrightarrow> k' = k \<or> mhas m k'"
  by (auto simp: mhas_def)

lemma mhas_iff: "mhas m k \<longleftrightarrow> k \<in> fst ` set m"
  by (simp add: mhas_def map_of_eq_None_iff)

lemma wf_map_Nil [simp, intro]: "wf_map []"
  by (simp add: wf_map_def)

lemma wf_map_Cons [simp]: "wf_map ((k, v) # m) \<longleftrightarrow> \<not> mhas m k \<and> wf_map m"
  by (auto simp: wf_map_def mhas_iff)

lemma wf_mput [simp, intro]: "wf_map m \<Longrightarrow> wf_map (mput m k v)"
  by (simp add: wf_map_def mput_def distinct_update)

lemma wf_mdel [simp, intro]: "wf_map m \<Longrightarrow> wf_map (mdel m k)"
  by (simp add: wf_map_def mdel_def distinct_delete)

lemma wf_filter [simp, intro]: "wf_map m \<Longrightarrow> wf_map (filter P m)"
  by (induction m) (auto simp: mhas_iff)

lemma mget_filter_key:
  "mget (filter (\<lambda>kv. P (fst kv)) m) k = (if P k then mget m k else None)"
  by (induction m) auto

lemma mget_map_val: "mget (map (\<lambda>(k, v). (k, f k v)) m) k = map_option (f k) (mget m k)"
  by (induction m) auto

lemma wf_map_map_val [simp]: "wf_map (map (\<lambda>(k, v). (k, f k v)) m) \<longleftrightarrow> wf_map m"
proof -
  have "map fst (map (\<lambda>(k, v). (k, f k v)) m) = map fst m"
    by (induction m) auto
  then show ?thesis by (simp only: wf_map_def)
qed

lemma length_gomap: "wf_map m \<Longrightarrow> length m = card (dom (mget m))"
  by (metis wf_map_def dom_map_of_conv_image_fst distinct_card length_map list.set_map)

lemma mget0_mput [simp, gomap_simps]: "mget0 z (mput m k v) k' = (if k' = k then v else mget0 z m k')"
  by (simp add: mget0_def)

lemma mget0_Nil [simp]: "mget0 z [] k = z"
  by (simp add: mget0_def)

lemma mget0_Cons [simp]: "mget0 z ((k, v) # m) k' = (if k' = k then v else mget0 z m k')"
  by (simp add: mget0_def)

lemma mget0_notin: "\<not> mhas m k \<Longrightarrow> mget0 z m k = z"
  by (simp add: mget0_def mhas_def)

section \<open>Go strings\<close>

definition is_digit :: "char \<Rightarrow> bool" where
  "is_digit c \<longleftrightarrow> CHR ''0'' \<le> c \<and> c \<le> CHR ''9''"

definition digit_val :: "char \<Rightarrow> int" where
  "digit_val c = int (of_char c) - 48"

definition digit_char :: "nat \<Rightarrow> char" where
  "digit_char d = char_of (48 + d)"

fun nat_digits :: "nat \<Rightarrow> string" where
  "nat_digits n = (if n < 10 then [digit_char n] else nat_digits (n div 10) @ [digit_char (n mod 10)])"

declare nat_digits.simps [simp del]

text \<open>\<^verbatim>\<open>strconv.Itoa\<close>.\<close>

definition itoa :: "int \<Rightarrow> string" where
  "itoa n = (if n < 0 then CHR ''-'' # nat_digits (nat (- n)) else nat_digits (nat n))"

fun digits_val :: "int \<Rightarrow> string \<Rightarrow> int option" where
  "digits_val acc [] = Some acc"
| "digits_val acc (c # cs) = (if is_digit c then digits_val (10 * acc + digit_val c) cs else None)"

definition in_int64 :: "int \<Rightarrow> bool" where
  "in_int64 n \<longleftrightarrow> - (2 ^ 63) \<le> n \<and> n < 2 ^ 63"

text \<open>
  \<^verbatim>\<open>strconv.Atoi\<close> and \<^verbatim>\<open>strconv.ParseInt(_, 10, 64)\<close>: an optional sign, then at least one
  digit, and the result must fit in 64 bits; \<^const>\<open>None\<close> stands for the error.
\<close>

definition parse_unsigned :: "string \<Rightarrow> int option" where
  "parse_unsigned s = (if s = [] then None else digits_val 0 s)"

definition go_atoi :: "string \<Rightarrow> int option" where
  "go_atoi s =
     (let r = (case s of
                 [] \<Rightarrow> None
               | c # cs \<Rightarrow>
                   if c = CHR ''-'' then map_option uminus (parse_unsigned cs)
                   else if c = CHR ''+'' then parse_unsigned cs
                   else parse_unsigned s)
      in case r of None \<Rightarrow> None | Some n \<Rightarrow> if in_int64 n then Some n else None)"

text \<open>\<^verbatim>\<open>strings.Split\<close> with a one-byte separator.\<close>

fun go_split :: "char \<Rightarrow> string \<Rightarrow> string list" where
  "go_split sep [] = [[]]"
| "go_split sep (c # cs) =
     (if c = sep then [] # go_split sep cs
      else case go_split sep cs of [] \<Rightarrow> [[c]] | p # ps \<Rightarrow> (c # p) # ps)"

definition is_space :: "char \<Rightarrow> bool" where
  "is_space c \<longleftrightarrow> c = CHR '' '' \<or> (9 \<le> (of_char c :: nat) \<and> (of_char c :: nat) \<le> 13)"

text \<open>\<^verbatim>\<open>strings.TrimSpace\<close> on ASCII strings.\<close>

definition trim_space :: "string \<Rightarrow> string" where
  "trim_space s = rev (dropWhile is_space (rev (dropWhile is_space s)))"

text \<open>\<^verbatim>\<open>strings.Contains\<close> and \<^verbatim>\<open>strings.HasPrefix\<close>.\<close>

fun has_prefix :: "string \<Rightarrow> string \<Rightarrow> bool" where
  "has_prefix s [] = True"
| "has_prefix [] (p # ps) = False"
| "has_prefix (c # cs) (p # ps) = (c = p \<and> has_prefix cs ps)"

fun str_contains :: "string \<Rightarrow> string \<Rightarrow> bool" where
  "str_contains [] p = (p = [])"
| "str_contains (c # cs) p = (has_prefix (c # cs) p \<or> str_contains cs p)"

definition lower_char :: "char \<Rightarrow> char" where
  "lower_char c = (if CHR ''A'' \<le> c \<and> c \<le> CHR ''Z'' then char_of ((of_char c :: nat) + 32) else c)"

text \<open>\<^verbatim>\<open>strings.ToLower\<close> on ASCII strings.\<close>

definition to_lower :: "string \<Rightarrow> string" where
  "to_lower s = map lower_char s"

subsection \<open>Decimal round trip\<close>

lemma digit_char_props:
  assumes "d < 10"
  shows "is_digit (digit_char d)" and "digit_val (digit_char d) = int d"
    and "digit_char d \<noteq> CHR ''-''" and "digit_char d \<noteq> CHR ''+''"
proof -
  have "d \<in> {0, 1, 2, 3, 4, 5, 6, 7, 8, 9}" using assms by auto
  then show "is_digit (digit_char d)" and "digit_val (digit_char d) = int d"
    and "digit_char d \<noteq> CHR ''-''" and "digit_char d \<noteq> CHR ''+''"
    by (auto simp: is_digit_def digit_val_def digit_char_def less_eq_char_def char_of_eq_iff)
qed

lemma digits_val_append:
  "digits_val acc (xs @ ys) = (case digits_val acc xs of None \<Rightarrow> None | Some a \<Rightarrow> digits_val a ys)"
  by (induction acc xs rule: digits_val.induct) auto

lemma nat_digits_nonempty: "nat_digits n \<noteq> []"
  by (subst nat_digits.simps) simp

lemma digits_val_nat_digits: "digits_val 0 (nat_digits n) = Some (int n)"
proof (induction n rule: nat_digits.induct)
  case (1 n)
  show ?case
  proof (cases "n < 10")
    case True
    then show ?thesis by (subst nat_digits.simps) (simp add: digit_char_props)
  next
    case False
    have "digit_val (digit_char (n mod 10)) = int (n mod 10)" "is_digit (digit_char (n mod 10))"
      by (simp_all add: digit_char_props)
    moreover have "10 * int (n div 10) + int (n mod 10) = int n"
      by (metis mult_div_mod_eq of_nat_add of_nat_mult of_nat_numeral)
    ultimately show ?thesis
      using False "1.IH" by (subst nat_digits.simps) (simp add: digits_val_append)
  qed
qed

lemma hd_nat_digits: "\<exists>d cs. d < 10 \<and> nat_digits n = digit_char d # cs"
proof (induction n rule: nat_digits.induct)
  case (1 n)
  show ?case
  proof (cases "n < 10")
    case True
    then show ?thesis by (subst nat_digits.simps) auto
  next
    case False
    with "1.IH" show ?thesis by (subst nat_digits.simps) fastforce
  qed
qed

lemma go_atoi_itoa: "in_int64 n \<Longrightarrow> go_atoi (itoa n) = Some n"
proof -
  assume n: "in_int64 n"
  show ?thesis
  proof (cases "n < 0")
    case True
    with n show ?thesis
      by (simp add: go_atoi_def itoa_def parse_unsigned_def nat_digits_nonempty digits_val_nat_digits)
  next
    case False
    obtain d cs where d: "d < 10" "nat_digits (nat n) = digit_char d # cs"
      using hd_nat_digits by blast
    have "digits_val 0 (digit_char d # cs) = Some n"
      using digits_val_nat_digits [of "nat n"] d(2) False by simp
    with False n d show ?thesis
      by (simp add: go_atoi_def itoa_def parse_unsigned_def digit_char_props del: digits_val.simps)
  qed
qed

lemma itoa_inj: "in_int64 m \<Longrightarrow> in_int64 n \<Longrightarrow> itoa m = itoa n \<longleftrightarrow> m = n"
  by (metis go_atoi_itoa option.inject)

lemma go_split_nonempty [simp]: "go_split sep s \<noteq> []"
  by (induction sep s rule: go_split.induct) (auto split: list.splits)

section \<open>Errors as values\<close>

text \<open>
  An error value carries the reason, the HTTP code and the message of a Kubernetes status error; a
  plain \<^verbatim>\<open>fmt.Errorf\<close> error has an empty reason and code 0.
\<close>

record goerr =
  err_Reason :: string
  err_Code :: int
  err_Message :: string

definition plain_error :: "string \<Rightarrow> goerr" where
  "plain_error msg = \<lparr>err_Reason = [], err_Code = 0, err_Message = msg\<rparr>"

text \<open>
  \<open>ebind\<close> is the early return of \<^verbatim>\<open>if err != nil { return ..., err }\<close>.
\<close>

definition ebind :: "'e + 'a \<Rightarrow> ('a \<Rightarrow> 'e + 'b) \<Rightarrow> 'e + 'b" where
  "ebind x f = (case x of Inl e \<Rightarrow> Inl e | Inr a \<Rightarrow> f a)"

lemma ebind_simps [simp]: "ebind (Inl e) f = Inl e" "ebind (Inr a) f = f a"
  by (simp_all add: ebind_def)

lemma ebind_assoc: "ebind (ebind x f) g = ebind x (\<lambda>a. ebind (f a) g)"
  by (cases x) simp_all

lemma ebind_Inr_iff: "ebind x f = Inr b \<longleftrightarrow> (\<exists>a. x = Inr a \<and> f a = Inr b)"
  by (cases x) simp_all

lemma ebind_Inl_iff: "ebind x f = Inl e \<longleftrightarrow> x = Inl e \<or> (\<exists>a. x = Inr a \<and> f a = Inl e)"
  by (cases x) simp_all

lemma ebind_Inr_right [simp]: "ebind x Inr = x"
  by (cases x) simp_all

section \<open>Slices with spare capacity\<close>

text \<open>
  The slice expression \<^verbatim>\<open>s[:n]\<close>: within the length it is a prefix, between the length and the
  capacity it exposes zero values of the backing array, beyond the capacity it panics
  (\<^const>\<open>None\<close>).
\<close>

definition slice_to :: "(nat \<Rightarrow> nat) \<Rightarrow> 'a \<Rightarrow> 'a list \<Rightarrow> nat \<Rightarrow> 'a list option" where
  "slice_to cap z xs n =
     (if n \<le> length xs then Some (take n xs)
      else if n \<le> cap (length xs) then Some (xs @ replicate (n - length xs) z)
      else None)"

lemma slice_to_within [simp]: "n \<le> length xs \<Longrightarrow> slice_to cap z xs n = Some (take n xs)"
  by (simp add: slice_to_def)

lemma slice_to_length: "slice_to cap z xs n = Some ys \<Longrightarrow> length ys = n"
  by (auto simp: slice_to_def split: if_splits)

text \<open>Conversion to \<^verbatim>\<open>int8\<close>.\<close>

definition wrap8 :: "int \<Rightarrow> int" where
  "wrap8 n = (n + 128) mod 256 - 128"

lemma wrap8_id: "-128 \<le> n \<Longrightarrow> n < 128 \<Longrightarrow> wrap8 n = n"
  by (simp add: wrap8_def)

end
