(* ===== verification/Go_Float.thy ===== *)
theory Go_Float
  imports Complex_Main "HOL-Library.Log_Nat" Go_Prelude
begin

text \<open>
  Go's \<^verbatim>\<open>float64\<close> arithmetic. A finite double is the rational number it denotes, and every
  operation rounds its exact result to the nearest rational with a 53-bit significand, ties to
  even. Overflow to infinity and the subnormal range (magnitudes from \<open>2\<^sup>1\<^sup>0\<^sup>2\<^sup>4\<close> up and below
  \<open>2\<^sup>-\<^sup>1\<^sup>0\<^sup>2\<^sup>2\<close>) do not occur in the modelled code and are not represented. The main fact is that
  integers up to \<open>2\<^sup>5\<^sup>3\<close> in magnitude are exact.
\<close>

type_synonym float64 = rat

definition round_half_even :: "rat \<Rightarrow> int" where
  "round_half_even x =
     (let f = \<lfloor>x\<rfloor>; d = x - of_int f
      in if d < 1 / 2 then f else if d > 1 / 2 then f + 1 else if even f then f else f + 1)"

text \<open>The exponent \<open>e\<close> with \<open>2\<^sup>e \<le> x < 2\<^sup>e\<^sup>+\<^sup>1\<close> of a positive rational.\<close>

definition ilog2 :: "rat \<Rightarrow> int" where
  "ilog2 x =
     (let (p, q) = quotient_of x;
          k = int (floorlog 2 (nat p)) - int (floorlog 2 (nat q))
      in if 2 powi k \<le> x then k else k - 1)"

definition f64 :: "rat \<Rightarrow> float64" where
  "f64 x =
     (if x = 0 then 0
      else let s = 2 powi (ilog2 \<bar>x\<bar> - 52) in of_int (round_half_even (x / s)) * s)"

definition f64_of_int :: "int \<Rightarrow> float64" where
  "f64_of_int n = f64 (of_int n)"

definition f64_add :: "float64 \<Rightarrow> float64 \<Rightarrow> float64" where
  "f64_add a b = f64 (a + b)"

definition f64_sub :: "float64 \<Rightarrow> float64 \<Rightarrow> float64" where
  "f64_sub a b = f64 (a - b)"

definition f64_mul :: "float64 \<Rightarrow> float64 \<Rightarrow> float64" where
  "f64_mul a b = f64 (a * b)"

definition f64_div :: "float64 \<Rightarrow> float64 \<Rightarrow> float64" where
  "f64_div a b = f64 (a / b)"

text \<open>\<^verbatim>\<open>math.Round\<close> rounds halves away from zero; the conversion \<^verbatim>\<open>int64(f)\<close> truncates.\<close>

definition math_Round :: "float64 \<Rightarrow> int" where
  "math_Round x = (if 0 \<le> x then \<lfloor>x + 1 / 2\<rfloor> else \<lceil>x - 1 / 2\<rceil>)"

definition math_Ceil :: "float64 \<Rightarrow> int" where
  "math_Ceil x = \<lceil>x\<rceil>"

definition f64_to_int :: "float64 \<Rightarrow> int" where
  "f64_to_int x = (if 0 \<le> x then \<lfloor>x\<rfloor> else \<lceil>x\<rceil>)"

text \<open>
  Converting a float whose truncation does not fit into \<^verbatim>\<open>int64\<close> yields the smallest integer,
  as amd64 does.
\<close>

definition to_int64 :: "int \<Rightarrow> int" where
  "to_int64 n = (if in_int64 n then n else - (2 ^ 63))"

lemma to_int64_id [simp]: "\<bar>n\<bar> < 2 ^ 53 \<Longrightarrow> to_int64 n = n"
  by (auto simp: to_int64_def in_int64_def)

text \<open>\<^verbatim>\<open>int\<close> arithmetic on a 64-bit machine, as a signed wrap-around.\<close>

definition wrap64 :: "int \<Rightarrow> int" where
  "wrap64 n = (n + 2 ^ 63) mod 2 ^ 64 - 2 ^ 63"

lemma wrap64_id: "in_int64 n \<Longrightarrow> wrap64 n = n"
  by (simp add: wrap64_def in_int64_def)

lemma in_int64_wrap64: "in_int64 (wrap64 n)"
  by (simp add: wrap64_def in_int64_def)

text \<open>\<^verbatim>\<open>floatutil.FloatEqual\<close>: equality up to the double nearest to \<^verbatim>\<open>1e-9\<close>.\<close>

definition epsilon :: float64 where
  "epsilon = f64 (1 / 1000000000)"

definition FloatEqual :: "float64 \<Rightarrow> float64 \<Rightarrow> bool" where
  "FloatEqual f1 f2 \<longleftrightarrow> \<bar>f64_sub f1 f2\<bar> \<le> epsilon"

section \<open>Exactness of integers\<close>

lemma round_half_even_int [simp]: "round_half_even (of_int n) = n"
  by (simp add: round_half_even_def)

lemma f64_0 [simp]: "f64 0 = 0"
  by (simp add: f64_def)

lemma ilog2_le:
  assumes "0 < x"
  shows "2 powi (ilog2 x) \<le> x"
proof -
  obtain p q where pq: "quotient_of x = (p, q)" by (metis surj_pair)
  from pq have q: "0 < q" by (rule quotient_of_denom_pos)
  have x: "x = of_int p / of_int q" using pq by (rule quotient_of_div)
  have p: "0 < p" using assms q by (simp add: x zero_less_divide_iff)
  define a b where "a = floorlog 2 (nat p)" and "b = floorlog 2 (nat q)"
  have ap: "0 < a" using p by (simp add: a_def floorlog_def)
  have le: "2 ^ (a - 1) \<le> nat p" and lt: "nat q < 2 ^ b"
    using floorlog_bounds [of "nat p" 2] floorlog_bounds [of "nat q" 2] p q
    by (simp_all add: a_def b_def)
  from le p have lp: "(2::rat) ^ (a - 1) \<le> of_int p"
    by (metis of_int_le_iff of_int_numeral of_int_power nat_le_iff of_nat_numeral of_nat_power
        le_nat_iff less_imp_le)
  from lt q have lq: "(of_int q :: rat) \<le> 2 ^ b"
    by (metis less_imp_le nat_le_iff of_int_le_iff of_int_numeral of_int_power of_nat_numeral
        of_nat_power)
  have "(2::rat) powi (int a - int b - 1) = 2 powi (int (a - 1)) / 2 powi (int b)"
    using ap by (subst power_int_diff [symmetric]) (simp_all add: of_nat_diff algebra_simps)
  also have "\<dots> \<le> of_int p / of_int q"
    using lp lq q p by (intro frac_le) (simp_all del: of_int_le_iff)
  finally have "(2::rat) powi (int a - int b - 1) \<le> x" by (simp add: x)
  then show ?thesis
    by (simp add: ilog2_def pq a_def b_def Let_def)
qed

lemma f64_exact: "x / 2 powi (ilog2 \<bar>x\<bar> - 52) = of_int m \<Longrightarrow> f64 x = x"
proof -
  assume m: "x / 2 powi (ilog2 \<bar>x\<bar> - 52) = of_int m"
  have "(2::rat) powi (ilog2 \<bar>x\<bar> - 52) \<noteq> 0" by simp
  with m have "of_int m * 2 powi (ilog2 \<bar>x\<bar> - 52) = x" by (simp add: field_simps)
  with m show ?thesis by (simp add: f64_def Let_def)
qed

lemma f64_int_exact:
  assumes "\<bar>n\<bar> < 2 ^ 53"
  shows "f64 (of_int n) = of_int n"
proof (cases "n = 0")
  case False
  let ?e = "ilog2 \<bar>of_int n :: rat\<bar>"
  have "(2::rat) powi ?e \<le> of_int \<bar>n\<bar>" using ilog2_le [of "\<bar>of_int n\<bar>"] False by simp
  also have "(of_int \<bar>n\<bar> :: rat) < 2 powi 53"
    using assms by (metis of_int_less_iff of_int_numeral of_int_power power_int_numeral)
  finally have lt: "(2::rat) powi ?e < 2 powi 53" .
  have "?e \<le> 52"
  proof (rule ccontr)
    assume "\<not> ?e \<le> 52"
    then have "(2::rat) powi 53 \<le> 2 powi ?e" by (intro power_int_increasing) auto
    with lt show False by simp
  qed
  then have eq: "(2::rat) powi (?e - 52) = 1 / 2 ^ nat (52 - ?e)"
    by (simp add: power_int_def field_simps)
  have "of_int n / (2::rat) powi (?e - 52) = of_int (n * 2 ^ nat (52 - ?e))"
    by (subst eq) simp
  then show ?thesis by (rule f64_exact)
qed simp

lemma f64_of_int_exact [simp]: "\<bar>n\<bar> < 2 ^ 53 \<Longrightarrow> f64_of_int n = of_int n"
  by (simp add: f64_of_int_def f64_int_exact)

lemma f64_mul_ints:
  "\<bar>a\<bar> < 2 ^ 53 \<Longrightarrow> \<bar>b\<bar> < 2 ^ 53 \<Longrightarrow> \<bar>a * b\<bar> < 2 ^ 53 \<Longrightarrow>
     f64_mul (f64_of_int a) (f64_of_int b) = of_int (a * b)"
  using f64_int_exact [of "a * b"] by (simp add: f64_mul_def)

lemma math_Round_int [simp]: "math_Round (of_int n) = n"
proof -
  have "\<lfloor>(of_int n :: rat) + 1 / 2\<rfloor> = n" by (simp add: floor_eq_iff)
  moreover have "\<lceil>(of_int n :: rat) - 1 / 2\<rceil> = n" by (simp add: ceiling_eq_iff)
  ultimately show ?thesis by (simp add: math_Round_def)
qed

lemma f64_to_int_of_int [simp]: "f64_to_int (of_int n) = n"
  by (simp add: f64_to_int_def)

lemma f64_pos_bounds:
  assumes "0 < x"
  shows "0 < f64 x" and "f64 x \<le> 2 * x"
proof -
  define s where "s = (2::rat) powi (ilog2 x - 52)"
  define y where "y = x / s"
  have s: "0 < s" by (simp add: s_def)
  have "s \<le> 2 powi (ilog2 x)" unfolding s_def by (intro power_int_increasing) auto
  also have "\<dots> \<le> x" using assms by (rule ilog2_le)
  finally have y1: "1 \<le> y" using s by (simp add: y_def)
  have x: "x = y * s" using s by (simp add: y_def)
  have f: "f64 x = of_int (round_half_even y) * s"
    using assms by (simp add: f64_def s_def y_def Let_def)
  have "\<lfloor>y\<rfloor> \<le> round_half_even y" and "round_half_even y \<le> \<lfloor>y\<rfloor> + 1"
    by (auto simp: round_half_even_def Let_def)
  moreover have "1 \<le> \<lfloor>y\<rfloor>" and "of_int \<lfloor>y\<rfloor> \<le> y" using y1 by (simp_all add: le_floor_iff)
  ultimately have r: "1 \<le> round_half_even y" and "of_int (round_half_even y) \<le> y + 1"
    by linarith+
  then have r2: "of_int (round_half_even y) \<le> 2 * y" using y1 by linarith
  have "(0::rat) < of_int (round_half_even y)" using r by simp
  then show "0 < f64 x" using s by (simp add: f)
  have "of_int (round_half_even y) * s \<le> 2 * y * s" using r2 s by (simp add: mult_right_mono)
  then show "f64 x \<le> 2 * x" unfolding f using s by (simp add: y_def)
qed

lemma epsilon_bounds: "0 < epsilon \<and> epsilon < 1"
  using f64_pos_bounds [of "1 / 1000000000"] by (simp add: epsilon_def)

lemma FloatEqual_int:
  assumes "\<bar>n - m\<bar> < 2 ^ 53"
  shows "FloatEqual (of_int n) (of_int m) \<longleftrightarrow> n = m"
proof -
  have "f64_sub (of_int n) (of_int m) = of_int (n - m)"
    using assms f64_int_exact [of "n - m"] by (simp add: f64_sub_def)
  then have *: "FloatEqual (of_int n) (of_int m) \<longleftrightarrow> (of_int \<bar>n - m\<bar> :: rat) \<le> epsilon"
    by (simp add: FloatEqual_def)
  show ?thesis
  proof (cases "n = m")
    case True
    then show ?thesis using * epsilon_bounds by simp
  next
    case False
    then have "1 \<le> \<bar>n - m\<bar>" by simp
    then have "(1::rat) \<le> of_int \<bar>n - m\<bar>" by linarith
    with * False epsilon_bounds show ?thesis by simp
  qed
qed

section \<open>Rounding error\<close>

lemma ilog2_less:
  assumes "0 < x" and "x < 2 powi k"
  shows "ilog2 x < k"
proof (rule ccontr)
  assume "\<not> ilog2 x < k"
  then have "(2::rat) powi k \<le> 2 powi (ilog2 x)" by (intro power_int_increasing) auto
  then show False using ilog2_le [OF assms(1)] assms(2) by linarith
qed

lemma round_half_even_error: "\<bar>of_int (round_half_even y) - y\<bar> \<le> 1 / 2"
proof -
  have "of_int \<lfloor>y\<rfloor> \<le> y" "y < of_int \<lfloor>y\<rfloor> + 1" by linarith+
  then show ?thesis by (auto simp: round_half_even_def Let_def abs_if) (use of_int_floor_le [of y] in linarith)
qed

lemma f64_error:
  assumes "0 < x" and "x < 2 powi k"
  shows "\<bar>f64 x - x\<bar> \<le> 2 powi (k - 54)"
proof -
  define s where "s = (2::rat) powi (ilog2 x - 52)"
  have s: "0 < s" by (simp add: s_def)
  have f: "f64 x = of_int (round_half_even (x / s)) * s" using assms(1) by (simp add: f64_def s_def Let_def)
  have "f64 x - x = (of_int (round_half_even (x / s)) - x / s) * s" using s by (simp add: f field_simps)
  then have "\<bar>f64 x - x\<bar> \<le> 1 / 2 * s"
    using round_half_even_error [of "x / s"] s by (simp add: abs_mult mult_right_mono)
  also have "1 / 2 * s \<le> 1 / 2 * 2 powi (k - 53)"
    unfolding s_def using ilog2_less [OF assms] by (intro mult_left_mono power_int_increasing) auto
  also have "\<dots> = 2 powi (k - 54)" using power_int_add [of "2::rat" "k - 54" 1] by simp
  finally show ?thesis .
qed

end
