(* ===== verification/Quantity.thy ===== *)
theory Quantity
  imports Go_Float
begin

text \<open>
  \<^verbatim>\<open>common/pkg/quantity\<close>: arithmetic on Kubernetes resource lists. The quantity type of
  \<^verbatim>\<open>k8s.io/apimachinery\<close> is a type parameter \<open>'q\<close> whose exact addition, subtraction, negation and
  comparison are those of a linearly ordered group; its conversions to and from integers and
  strings, and the configuration values the code reads, are fields of the parameter \<open>ext\<close>.
\<close>

record 'q ext =
  q_Value :: "'q \<Rightarrow> int"
  q_New :: "int \<Rightarrow> 'q"
  q_Parse :: "string \<Rightarrow> string + 'q"
  RdmaName :: string
  MemoryReservePercent :: float64
  CpuReservePercent :: float64
  EphemeralStoreReservePercent :: float64
  MaxEphemeralStorePercent :: float64
  api_IsNotFound :: "goerr \<Rightarrow> bool"
  api_IsConflict :: "goerr \<Rightarrow> bool"
  api_IsInvalid :: "goerr \<Rightarrow> bool"
  api_IsForbidden :: "goerr \<Rightarrow> bool"
  api_IsTooLarge :: "goerr \<Rightarrow> bool"
  api_IsAlreadyExists :: "goerr \<Rightarrow> bool"

type_synonym 'q resource_list = "(string, 'q) gomap"

definition ResourceCPU :: string where "ResourceCPU = ''cpu''"
definition ResourceMemory :: string where "ResourceMemory = ''memory''"
definition ResourceStorage :: string where "ResourceStorage = ''storage''"
definition ResourceEphemeralStorage :: string where "ResourceEphemeralStorage = ''ephemeral-storage''"
definition NvidiaGpu :: string where "NvidiaGpu = ''nvidia.com/gpu''"
definition AmdGpu :: string where "AmdGpu = ''amd.com/gpu''"

lemmas resource_name_defs = ResourceCPU_def ResourceMemory_def ResourceStorage_def
  ResourceEphemeralStorage_def NvidiaGpu_def AmdGpu_def

definition IsConcernedResource :: "('q, 'z) ext_scheme \<Rightarrow> string \<Rightarrow> bool" where
  "IsConcernedResource E name \<longleftrightarrow>
     (if name = NvidiaGpu \<or> name = AmdGpu then True
      else if name = ResourceCPU \<or> name = ResourceMemory then True
      else if name = ResourceStorage \<or> name = ResourceEphemeralStorage then True
      else name = RdmaName E)"

definition add_entry :: "('q::linordered_ab_group_add, 'z) ext_scheme \<Rightarrow> string \<times> 'q \<Rightarrow> 'q resource_list \<Rightarrow> 'q resource_list" where
  "add_entry E kv result =
     (if \<not> IsConcernedResource E (fst kv) then result
      else mput result (fst kv)
        (case mget result (fst kv) of Some s \<Rightarrow> snd kv + s | None \<Rightarrow> snd kv))"

definition AddResource :: "('q::linordered_ab_group_add, 'z) ext_scheme \<Rightarrow> 'q resource_list list \<Rightarrow> 'q resource_list" where
  "AddResource E resources = fold (\<lambda>res result. fold (add_entry E) res result) resources []"

definition Normalize :: "('q, 'z) ext_scheme \<Rightarrow> 'q resource_list \<Rightarrow> 'q resource_list" where
  "Normalize E rl = filter (\<lambda>kv. IsConcernedResource E (fst kv)) rl"

definition equal_lists :: "'q::linordered_ab_group_add resource_list \<Rightarrow> 'q resource_list \<Rightarrow> bool" where
  "equal_lists rl1 rl2 \<longleftrightarrow>
     (if length rl1 \<noteq> length rl2 then False
      else list_all (\<lambda>(k, v). v = mget0 0 rl2 k) rl1)"

definition Equal :: "('q::linordered_ab_group_add, 'z) ext_scheme \<Rightarrow> 'q resource_list \<Rightarrow> 'q resource_list \<Rightarrow> bool" where
  "Equal E rl1 rl2 \<longleftrightarrow> equal_lists (Normalize E rl1) (Normalize E rl2)"

text \<open>The two loops of \<^verbatim>\<open>SubResource\<close> over normalised lists.\<close>

definition sub_lists :: "'q::linordered_ab_group_add resource_list \<Rightarrow> 'q resource_list \<Rightarrow> 'q resource_list" where
  "sub_lists list1 list2 =
     map (\<lambda>(k, quantity1). (k, case mget list2 k of
                                  Some quantity2 \<Rightarrow> quantity1 - quantity2
                                | None \<Rightarrow> quantity1)) list1
     @ map (\<lambda>(k, quantity2). (k, - quantity2)) (filter (\<lambda>kv. \<not> mhas list1 (fst kv)) list2)"

definition SubResource :: "('q::linordered_ab_group_add, 'z) ext_scheme \<Rightarrow> 'q resource_list \<Rightarrow> 'q resource_list \<Rightarrow> 'q resource_list" where
  "SubResource E rl1 rl2 =
     (let list1 = Normalize E rl1; list2 = Normalize E rl2 in
      if equal_lists list1 list2 then []
      else if length list2 = 0 then list1
      else sub_lists list1 list2)"

text \<open>The second component names a key that is missing or too large.\<close>

fun IsSubResource :: "'q::linordered_ab_group_add resource_list \<Rightarrow> 'q resource_list \<Rightarrow> bool \<times> string" where
  "IsSubResource [] resource2 = (True, '''')"
| "IsSubResource ((key, val1) # rest) resource2 =
     (case mget resource2 key of
        None \<Rightarrow> (False, key)
      | Some val2 \<Rightarrow> if val2 < val1 then (False, key) else IsSubResource rest resource2)"

definition Negative :: "'q::linordered_ab_group_add resource_list \<Rightarrow> 'q resource_list" where
  "Negative rl = map (\<lambda>(k, v). (k, - v)) rl"

definition NonNegative :: "('q::linordered_ab_group_add, 'z) ext_scheme \<Rightarrow> 'q resource_list \<Rightarrow> 'q resource_list" where
  "NonNegative E rl =
     (if length rl = 0 then rl
      else map (\<lambda>(k, v). (k, if v < 0 then q_New E 0 else v)) rl)"

definition Copy_list :: "'q resource_list \<Rightarrow> 'q resource_list" where
  "Copy_list rl = (if length rl = 0 then [] else rl)"

definition GetConcernedResources :: "('q::linordered_ab_group_add, 'z) ext_scheme \<Rightarrow> 'q resource_list \<Rightarrow> 'q resource_list" where
  "GetConcernedResources E res =
     filter (\<lambda>(k, v). IsConcernedResource E k \<and> v \<noteq> 0) res"

definition MultiResource :: "('q, 'z) ext_scheme \<Rightarrow> 'q resource_list \<Rightarrow> float64 \<Rightarrow> 'q resource_list" where
  "MultiResource E inputs multiplier =
     (if FloatEqual multiplier 1 then Copy_list inputs
      else map (\<lambda>(k, v). (k, q_New E (to_int64 (math_Round (f64_mul (f64_of_int (q_Value E v)) multiplier))))) inputs)"

text \<open>
  One field of \<^verbatim>\<open>CvtToResourceList\<close>: parse the string, reject a value below the bound, store
  the quantity. The error texts are those of the source.
\<close>

definition cvt_field ::
  "('q, 'z) ext_scheme \<Rightarrow> string \<Rightarrow> string \<Rightarrow> int \<Rightarrow> string \<Rightarrow> 'q resource_list \<Rightarrow> string + 'q resource_list" where
  "cvt_field E key str bound invalid result =
     (case q_Parse E str of
        Inl e \<Rightarrow> Inl (e @ '', value: '' @ str)
      | Inr quantity \<Rightarrow>
          if q_Value E quantity < bound then Inl invalid
          else Inr (mput result key quantity))"

definition CvtToResourceList ::
  "('q, 'z) ext_scheme \<Rightarrow> string \<Rightarrow> string \<Rightarrow> string \<Rightarrow> string \<Rightarrow> string \<Rightarrow> string \<Rightarrow> float64
     \<Rightarrow> string + 'q resource_list" where
  "CvtToResourceList E cpu memory gpu gpuName ephemeralStore rdmaResource replica =
     (if replica \<le> 0 then Inr []
      else
        ebind (if cpu \<noteq> '''' then cvt_field E ResourceCPU cpu 1 ''invalid cpu'' [] else Inr []) (\<lambda>r1.
        ebind (if memory \<noteq> '''' then cvt_field E ResourceMemory memory 1 ''invalid memory'' r1 else Inr r1) (\<lambda>r2.
        ebind (if gpu \<noteq> '''' \<and> gpuName \<noteq> '''' then cvt_field E gpuName gpu 0 ''invalid gpu'' r2 else Inr r2) (\<lambda>r3.
        ebind (if ephemeralStore \<noteq> ''''
               then cvt_field E ResourceEphemeralStorage ephemeralStore 1 ''invalid ephemeral store'' r3
               else Inr r3) (\<lambda>r4.
        ebind (if rdmaResource \<noteq> '''' \<and> RdmaName E \<noteq> ''''
               then cvt_field E (RdmaName E) rdmaResource 0 ''invalid rdma resource'' r4
               else Inr r4) (\<lambda>r5.
        Inr (MultiResource E r5 replica)))))))"

text \<open>One resource of \<^verbatim>\<open>GetAvailableResource\<close>: hold back the configured share, rounded up.\<close>

definition reserve :: "('q, 'z) ext_scheme \<Rightarrow> string \<Rightarrow> float64 \<Rightarrow> 'q resource_list \<Rightarrow> 'q resource_list" where
  "reserve E key percent result =
     (if FloatEqual percent 0 then result
      else case mget result key of
             None \<Rightarrow> result
           | Some q \<Rightarrow>
               mput result key
                 (q_New E (wrap64 (q_Value E q - to_int64 (math_Ceil (f64_mul (f64_of_int (q_Value E q)) percent))))))"

definition GetAvailableResource :: "('q, 'z) ext_scheme \<Rightarrow> 'q resource_list \<Rightarrow> 'q resource_list" where
  "GetAvailableResource E resources =
     (if length resources = 0 then resources
      else if FloatEqual (MemoryReservePercent E) 0 \<and> FloatEqual (CpuReservePercent E) 0
              \<and> FloatEqual (EphemeralStoreReservePercent E) 0 then resources
      else
        reserve E ResourceEphemeralStorage (EphemeralStoreReservePercent E)
          (reserve E ResourceCPU (CpuReservePercent E)
            (reserve E ResourceMemory (MemoryReservePercent E) resources)))"

definition GetMaxEphemeralStoreQuantity :: "('q, 'z) ext_scheme \<Rightarrow> 'q resource_list \<Rightarrow> string + 'q" where
  "GetMaxEphemeralStoreQuantity E resources =
     (case mget resources ResourceEphemeralStorage of
        None \<Rightarrow> Inl ''the ephemeralStore is not found''
      | Some storeQuantity \<Rightarrow>
          (let m0 = f64_sub 1 (EphemeralStoreReservePercent E);
               maxPercent = (if \<not> FloatEqual (MaxEphemeralStorePercent E) 0
                                \<and> m0 > MaxEphemeralStorePercent E
                             then MaxEphemeralStorePercent E else m0)
           in if FloatEqual maxPercent 1 then Inr storeQuantity
              else Inr (q_New E (to_int64 (f64_to_int (f64_mul (f64_of_int (q_Value E storeQuantity)) maxPercent))))))"

text \<open>Quantities as plain integers: an instance of the parameter that evaluates.\<close>

definition int_ext :: "int ext" where
  "int_ext = \<lparr>q_Value = (\<lambda>x. x), q_New = (\<lambda>x. x),
     q_Parse = (\<lambda>s. case go_atoi s of None \<Rightarrow> Inl ''bad quantity'' | Some n \<Rightarrow> Inr n),
     RdmaName = ''rdma/hca'',
     MemoryReservePercent = 0, CpuReservePercent = 0, EphemeralStoreReservePercent = 0,
     MaxEphemeralStorePercent = 0,
     api_IsNotFound = (\<lambda>e. err_Code e = 404), api_IsConflict = (\<lambda>e. err_Code e = 409),
     api_IsInvalid = (\<lambda>e. err_Code e = 422), api_IsForbidden = (\<lambda>e. err_Code e = 403),
     api_IsTooLarge = (\<lambda>e. err_Code e = 413),
     api_IsAlreadyExists = (\<lambda>e. err_Reason e = ''AlreadyExists'')\<rparr>"

section \<open>Values of resource lists\<close>

text \<open>The amount a list holds of a resource; a missing key holds nothing.\<close>

definition rval :: "'q::linordered_ab_group_add resource_list \<Rightarrow> string \<Rightarrow> 'q" where
  "rval rl k = mget0 0 rl k"

lemma rval_Nil [simp]: "rval [] k = 0"
  by (simp add: rval_def)

lemma rval_Cons [simp]: "rval ((k, v) # rl) k' = (if k' = k then v else rval rl k')"
  by (simp add: rval_def)

lemma rval_mput [simp]: "rval (mput rl k v) k' = (if k' = k then v else rval rl k')"
  by (simp add: rval_def)

lemma rval_notin: "\<not> mhas rl k \<Longrightarrow> rval rl k = 0"
  by (simp add: rval_def mget0_notin)

lemma mget_Normalize [simp]: "mget (Normalize E rl) k = (if IsConcernedResource E k then mget rl k else None)"
  by (simp add: Normalize_def mget_filter_key)

lemma mhas_Normalize [simp]: "mhas (Normalize E rl) k \<longleftrightarrow> IsConcernedResource E k \<and> mhas rl k"
  by (simp add: mhas_def)

lemma rval_Normalize [simp]: "rval (Normalize E rl) k = (if IsConcernedResource E k then rval rl k else 0)"
  by (simp add: rval_def mget0_def)

lemma wf_Normalize [simp, intro]: "wf_map rl \<Longrightarrow> wf_map (Normalize E rl)"
  by (simp add: Normalize_def)

section \<open>Addition\<close>

lemma rval_add_entry:
  "rval (add_entry E kv r) k =
     (if k = fst kv \<and> IsConcernedResource E k then snd kv + rval r k else rval r k)"
  by (auto simp: add_entry_def rval_def mget0_def split: option.splits)

lemma mhas_add_entry:
  "mhas (add_entry E kv r) k \<longleftrightarrow> mhas r k \<or> (k = fst kv \<and> IsConcernedResource E k)"
  by (auto simp: add_entry_def)

lemma wf_add_entry: "wf_map r \<Longrightarrow> wf_map (add_entry E kv r)"
  by (simp add: add_entry_def)

lemma rval_fold_add_entry:
  "wf_map res \<Longrightarrow>
     rval (fold (add_entry E) res r) k = (if IsConcernedResource E k then rval res k + rval r k else rval r k)"
proof (induction res arbitrary: r)
  case (Cons kv res)
  obtain k' v where kv: "kv = (k', v)" by force
  have "\<not> mhas res k'" using Cons.prems kv by simp
  then have "rval res k' = 0" by (rule rval_notin)
  then show ?case using Cons kv by (auto simp: rval_add_entry)
qed simp

lemma mhas_fold_add_entry:
  "mhas (fold (add_entry E) res r) k \<longleftrightarrow> mhas r k \<or> (IsConcernedResource E k \<and> mhas res k)"
proof (induction res arbitrary: r)
  case (Cons kv res)
  obtain k' v where kv: "kv = (k', v)" by force
  show ?case by (auto simp: kv Cons.IH mhas_add_entry)
qed simp

lemma wf_fold_add_entry: "wf_map r \<Longrightarrow> wf_map (fold (add_entry E) res r)"
  by (induction res arbitrary: r) (auto intro: wf_add_entry)

lemma rval_fold_add:
  "(\<forall>rl \<in> set rls. wf_map rl) \<Longrightarrow>
     rval (fold (\<lambda>res result. fold (add_entry E) res result) rls r) k =
       (if IsConcernedResource E k then sum_list (map (\<lambda>rl. rval rl k) rls) + rval r k else rval r k)"
  by (induction rls arbitrary: r) (auto simp: rval_fold_add_entry add.assoc add.left_commute add.commute)

lemma wf_AddResource [simp, intro]: "wf_map (AddResource E rls)"
proof -
  have "wf_map r \<Longrightarrow> wf_map (fold (\<lambda>res result. fold (add_entry E) res result) rls r)" for r
    by (induction rls arbitrary: r) (auto intro: wf_fold_add_entry)
  then show ?thesis by (simp add: AddResource_def)
qed

lemma rval_AddResource:
  "(\<forall>rl \<in> set rls. wf_map rl) \<Longrightarrow>
     rval (AddResource E rls) k =
       (if IsConcernedResource E k then sum_list (map (\<lambda>rl. rval rl k) rls) else 0)"
  by (simp add: AddResource_def rval_fold_add)

lemma rval_AddResource2 [simp]:
  "wf_map a \<Longrightarrow> wf_map b \<Longrightarrow>
     rval (AddResource E [a, b]) k = (if IsConcernedResource E k then rval a k + rval b k else 0)"
  by (simp add: rval_AddResource)

lemma mhas_AddResource2 [simp]:
  "mhas (AddResource E [a, b]) k \<longleftrightarrow> IsConcernedResource E k \<and> (mhas a k \<or> mhas b k)"
  by (auto simp: AddResource_def mhas_fold_add_entry)

lemma AddResource_concerned: "mhas (AddResource E [a, b]) k \<Longrightarrow> IsConcernedResource E k"
  by simp

section \<open>Comparison and subtraction\<close>

lemma IsSubResource_iff:
  "fst (IsSubResource r1 r2) \<longleftrightarrow> (\<forall>(k, v) \<in> set r1. \<exists>v2. mget r2 k = Some v2 \<and> v \<le> v2)"
  by (induction r1 r2 rule: IsSubResource.induct) (auto split: option.splits)

lemma IsSubResource_dom: "fst (IsSubResource r1 r2) \<Longrightarrow> mhas r1 k \<Longrightarrow> mhas r2 k"
  by (force simp: IsSubResource_iff mhas_def dest: map_of_SomeD)

lemma IsSubResource_rval:
  assumes "fst (IsSubResource r1 r2)" and "mhas r1 k"
  shows "rval r1 k \<le> rval r2 k"
proof -
  obtain v where v: "mget r1 k = Some v" using assms(2) by (auto simp: mhas_def)
  then have "(k, v) \<in> set r1" by (rule map_of_SomeD)
  with assms(1) obtain v2 where "mget r2 k = Some v2" "v \<le> v2" by (auto simp: IsSubResource_iff)
  with v show ?thesis by (simp add: rval_def mget0_def)
qed

lemma equal_lists_iff:
  "equal_lists a b \<longleftrightarrow> length a = length b \<and> (\<forall>(k, v) \<in> set a. v = rval b k)"
  by (auto simp: equal_lists_def list_all_iff rval_def)

lemma equal_lists_rval:
  assumes "wf_map a" "wf_map b" "equal_lists a b" "\<And>k. mget a k = Some 0 \<Longrightarrow> mhas b k"
  shows "rval a k = rval b k"
proof -
  have eq: "v = rval b k" if "mget a k = Some v" for k v
    using assms(3) map_of_SomeD [OF that] by (auto simp: equal_lists_iff)
  have sub: "dom (mget a) \<subseteq> dom (mget b)"
  proof
    fix k assume "k \<in> dom (mget a)"
    then obtain v where v: "mget a k = Some v" by auto
    show "k \<in> dom (mget b)"
    proof (cases "v = 0")
      case True
      then show ?thesis using assms(4) [of k] v by (auto simp: mhas_def)
    next
      case False
      then show ?thesis using eq [OF v] rval_notin [of b k] by (auto simp: mhas_def)
    qed
  qed
  moreover have "card (dom (mget a)) = card (dom (mget b))"
    using assms(1,2,3) by (simp add: equal_lists_iff flip: length_gomap)
  ultimately have dom: "dom (mget a) = dom (mget b)"
    by (intro card_subset_eq) (auto simp: finite_dom_map_of)
  show ?thesis
  proof (cases "mget a k")
    case None
    then have "mget b k = None" using dom by (metis domIff)
    with None show ?thesis by (simp add: rval_def mget0_def)
  next
    case (Some v)
    with eq [OF Some] show ?thesis by (simp add: rval_def mget0_def)
  qed
qed

lemma mget_sub_lists:
  "mget (sub_lists a b) k =
    (case mget a k of Some x \<Rightarrow> Some (x - rval b k) | None \<Rightarrow> map_option uminus (mget b k))"
proof -
  have neg: "mget (map (\<lambda>(k, quantity2). (k, - quantity2)) m) k = map_option uminus (mget m k)"
    for m :: "(string \<times> 'a) list"
    using mget_map_val [of "\<lambda>_. uminus" m k] by simp
  have keep: "mget (filter (\<lambda>kv. \<not> mhas a (fst kv)) b) k = (if \<not> mhas a k then mget b k else None)"
    by (rule mget_filter_key)
  show ?thesis
    by (auto simp: sub_lists_def map_add_def mget_map_val neg keep rval_def mget0_def
        split: option.splits) (auto simp: mhas_def)
qed

lemma mget_SubResource:
  assumes "\<not> equal_lists (Normalize E a) (Normalize E b)"
  shows "mget (SubResource E a b) k =
    (if \<not> IsConcernedResource E k then None
     else case mget a k of
            Some x \<Rightarrow> Some (x - rval b k)
          | None \<Rightarrow> map_option uminus (mget b k))"
proof (cases "Normalize E b = []")
  case True
  then have none: "mget b k = None" if "IsConcernedResource E k"
    using mget_Normalize [of E b k] that by simp
  show ?thesis using assms True none
    by (auto simp: SubResource_def rval_def mget0_def split: option.splits)
next
  case False
  then show ?thesis using assms
    by (simp add: SubResource_def mget_sub_lists split: option.splits)
qed

lemma wf_sub_lists:
  assumes "wf_map a" "wf_map b"
  shows "wf_map (sub_lists a b)"
proof -
  let ?m = "map (\<lambda>(k, x). (k, case mget b k of Some y \<Rightarrow> x - y | None \<Rightarrow> x)) a"
  let ?f = "filter (\<lambda>kv. \<not> mhas a (fst kv)) b"
  let ?n = "map (\<lambda>(k, y). (k, - y)) ?f"
  have fm: "map fst ?m = map fst a" by (induction a) auto
  have fn: "map fst ?n = map fst ?f" by (induction b) auto
  have "wf_map ?f" using assms(2) by (rule wf_filter)
  then have "distinct (map fst ?n)" by (simp only: fn wf_map_def)
  moreover have "distinct (map fst ?m)" using assms(1) by (simp only: fm wf_map_def)
  moreover have "set (map fst ?m) \<inter> set (map fst ?n) = {}"
    unfolding fm fn by (force simp: mhas_iff)
  ultimately show ?thesis by (simp only: wf_map_def sub_lists_def map_append distinct_append)
qed

lemma dom_equal_lists:
  assumes "wf_map a" "wf_map b" "equal_lists a b" "\<And>k. mhas b k \<Longrightarrow> mhas a k"
  shows "mhas a k \<longleftrightarrow> mhas b k"
proof -
  have "dom (mget b) \<subseteq> dom (mget a)" using assms(4) by (auto simp: mhas_def)
  moreover have "card (dom (mget a)) = card (dom (mget b))"
    using assms(1-3) by (simp add: equal_lists_iff flip: length_gomap)
  ultimately have "dom (mget b) = dom (mget a)"
    by (metis card_subset_eq finite_dom_map_of)
  then show ?thesis by (metis domIff mhas_def)
qed

text \<open>A minuend entry that is zero has to appear in the subtrahend as well.\<close>

lemma rval_SubResource:
  assumes "wf_map a" "wf_map b" "\<And>k. mget a k = Some 0 \<Longrightarrow> mhas b k"
  shows "rval (SubResource E a b) k = (if IsConcernedResource E k then rval a k - rval b k else 0)"
proof (cases "equal_lists (Normalize E a) (Normalize E b)")
  case True
  have z: "mget (Normalize E a) k = Some 0 \<Longrightarrow> mhas (Normalize E b) k" for k
    using assms(3) by (auto split: if_splits)
  have "rval (Normalize E a) k = rval (Normalize E b) k"
    by (rule equal_lists_rval [OF _ _ True z]) (use assms(1,2) in auto)
  with True show ?thesis by (auto simp: SubResource_def)
next
  case False
  then show ?thesis
    by (auto simp: rval_def mget0_def mget_SubResource split: option.splits)
qed

text \<open>When the subtrahend fits into the minuend, no side condition is needed.\<close>

lemma rval_SubResource_fit:
  assumes "wf_map a" "wf_map b" "\<And>k. mhas b k \<Longrightarrow> mhas a k"
  shows "rval (SubResource E a b) k = (if IsConcernedResource E k then rval a k - rval b k else 0)"
proof (cases "equal_lists (Normalize E a) (Normalize E b)")
  case True
  have "mhas (Normalize E a) k \<longleftrightarrow> mhas (Normalize E b) k" for k
    by (rule dom_equal_lists [OF _ _ True]) (use assms in auto)
  then have z: "mget (Normalize E a) k = Some 0 \<Longrightarrow> mhas (Normalize E b) k" for k
    by (metis mhas_def option.distinct(1))
  have "rval (Normalize E a) k = rval (Normalize E b) k"
    by (rule equal_lists_rval [OF _ _ True z]) (use assms(1,2) in auto)
  with True show ?thesis by (auto simp: SubResource_def)
next
  case False
  then show ?thesis
    by (auto simp: rval_def mget0_def mget_SubResource split: option.splits)
qed

lemma wf_SubResource [simp, intro]: "wf_map a \<Longrightarrow> wf_map b \<Longrightarrow> wf_map (SubResource E a b)"
  by (simp add: SubResource_def Let_def wf_sub_lists)

lemma SubResource_concerned: "mhas (SubResource E a b) k \<Longrightarrow> IsConcernedResource E k"
proof (cases "equal_lists (Normalize E a) (Normalize E b)")
  case False
  then show "mhas (SubResource E a b) k \<Longrightarrow> IsConcernedResource E k"
    by (simp add: mhas_def mget_SubResource split: if_splits)
qed (simp add: SubResource_def)

section \<open>Properties\<close>

text \<open>\<^verbatim>\<open>AddResource\<close> holds, for every resource the platform accounts for, exactly the sum of
  the amounts of the lists, and it drops every other resource; neither the order of the lists nor
  the iteration order of a map (the order of an association list) matters.\<close>

lemma AddResource_sums:
  assumes "\<forall>rl \<in> set rls. wf_map rl"
    and "\<forall>rl \<in> set rls'. wf_map rl"
    and "image_mset mget (mset rls) = image_mset mget (mset rls')"
  shows "wf_map (AddResource E rls) \<and>
         rval (AddResource E rls) k =
           (if IsConcernedResource E k then sum_list (map (\<lambda>rl. rval rl k) rls) else 0) \<and>
         rval (AddResource E rls') k = rval (AddResource E rls) k"
proof -
  have "rval rl k = (\<lambda>m. case m k of None \<Rightarrow> 0 | Some v \<Rightarrow> v) (mget rl)" for rl :: "'a resource_list"
    by (simp add: rval_def mget0_def)
  then have "image_mset (\<lambda>rl. rval rl k) (mset rls) = image_mset (\<lambda>rl. rval rl k) (mset rls')"
    using arg_cong [OF assms(3), of "image_mset (\<lambda>m. case m k of None \<Rightarrow> 0 | Some v \<Rightarrow> v)"]
    by (simp add: image_mset.compositionality comp_def)
  then have "sum_list (map (\<lambda>rl. rval rl k) rls) = sum_list (map (\<lambda>rl. rval rl k) rls')"
    by (metis mset_map sum_mset_sum_list)
  then show ?thesis using assms(1,2) by (simp add: rval_AddResource)
qed

text \<open>C28: when every key of the subtrahend occurs in the minuend, \<^verbatim>\<open>SubResource\<close> subtracts
  exactly, and adding the subtrahend back restores every amount: the scheduler can take a request
  off the free resources and return it later without drift.\<close>

theorem SubResource_exact:
  assumes "wf_map a" and "wf_map b" and "\<And>k. mhas b k \<Longrightarrow> mhas a k"
  shows "wf_map (SubResource E a b) \<and>
         rval (SubResource E a b) k = (if IsConcernedResource E k then rval a k - rval b k else 0) \<and>
         rval (AddResource E [SubResource E a b, b]) k = (if IsConcernedResource E k then rval a k else 0)"
proof -
  have "rval (SubResource E a b) k = (if IsConcernedResource E k then rval a k - rval b k else 0)"
    by (rule rval_SubResource_fit [OF assms])
  then show ?thesis using assms(1,2) by (simp add: rval_AddResource)
qed

lemma AddResource_sums_witness:
  "rval (AddResource int_ext [[(''cpu'', 4)], [(''cpu'', 3), (''disk'', 9)]]) ''cpu'' = 7"
  using AddResource_sums [of "[[(''cpu'', 4::int)], [(''cpu'', 3), (''disk'', 9)]]"
      "[[(''cpu'', 4::int)], [(''cpu'', 3), (''disk'', 9)]]" int_ext "''cpu''"]
  by (simp add: IsConcernedResource_def resource_name_defs)

lemma SubResource_exact_witness:
  "rval (AddResource int_ext
     [SubResource int_ext [(''cpu'', 8), (''memory'', 2)] [(''cpu'', 3)], [(''cpu'', 3)]]) ''cpu'' = 8"
  using SubResource_exact [of "[(''cpu'', 8::int), (''memory'', 2)]" "[(''cpu'', 3)]" int_ext "''cpu''"]
  by (simp add: IsConcernedResource_def resource_name_defs)

section \<open>Scaling\<close>

lemma MultiResource_one: "MultiResource E r 1 = r"
  using FloatEqual_int [of 1 1] by (simp add: MultiResource_def Copy_list_def)

lemma CvtToResourceList_scale:
  assumes "0 < replica"
  shows "CvtToResourceList E cpu memory gpu gpuName eph rdma replica =
           ebind (CvtToResourceList E cpu memory gpu gpuName eph rdma 1) (\<lambda>base. Inr (MultiResource E base replica))"
  using assms unfolding CvtToResourceList_def MultiResource_one by (simp add: ebind_assoc)

lemma MultiResource_int:
  assumes "\<And>n. q_Value E (q_New E n) = n" and "0 < r"
    and "\<And>k v. mget base k = Some v \<Longrightarrow> \<bar>q_Value E v\<bar> * r < 2 ^ 53"
  shows "map_option (q_Value E) (mget (MultiResource E base (of_int r)) k) =
         map_option (\<lambda>v. q_Value E v * r) (mget base k)"
proof (cases "mget base k")
  case None
  then show ?thesis
    by (cases "FloatEqual (of_int r) 1") (auto simp: MultiResource_def Copy_list_def mget_map_val)
next
  case (Some v)
  let ?x = "q_Value E v"
  have b: "\<bar>?x\<bar> * r < 2 ^ 53" using assms(3) Some .
  show ?thesis
  proof (cases "FloatEqual (of_int r) 1")
    case True
    show ?thesis
    proof (cases "?x = 0 \<or> r = 1")
      case True
      then show ?thesis using Some \<open>FloatEqual (of_int r) 1\<close>
        by (auto simp: MultiResource_def Copy_list_def)
    next
      case False
      then have "1 \<le> \<bar>?x\<bar>" by linarith
      then have "r \<le> \<bar>?x\<bar> * r" using assms(2) by (simp add: mult_le_cancel_right1)
      then have "\<bar>r - 1\<bar> < 2 ^ 53" using b assms(2) by linarith
      then have "r = 1" using FloatEqual_int [of r 1] True by simp
      with False show ?thesis by simp
    qed
  next
    case False
    have "f64_mul (f64_of_int ?x) (of_int r) = of_int (?x * r)"
    proof (cases "?x = 0")
      case False
      then have "1 \<le> \<bar>?x\<bar>" by linarith
      then have "\<bar>?x\<bar> \<le> \<bar>?x\<bar> * r" and "r \<le> \<bar>?x\<bar> * r"
        using assms(2) by (simp_all add: mult_le_cancel_left1 mult_le_cancel_right1)
      then have "\<bar>?x\<bar> < 2 ^ 53" and "\<bar>r\<bar> < 2 ^ 53" using b assms(2) by linarith+
      moreover have "\<bar>?x * r\<bar> < 2 ^ 53" using b assms(2) by (simp add: abs_mult)
      ultimately show ?thesis using f64_mul_ints [of ?x r] by (simp only: f64_of_int_exact)
    qed (simp add: f64_mul_def f64_of_int_def)
    moreover have "\<bar>?x * r\<bar> < 2 ^ 53" using b assms(2) by (simp add: abs_mult)
    ultimately have "to_int64 (math_Round (f64_mul (f64_of_int ?x) (of_int r))) = ?x * r"
      by (simp only: math_Round_int to_int64_id)
    with False Some assms(1) show ?thesis
      by (simp add: MultiResource_def mget_map_val)
  qed
qed

text \<open>A request for \<open>r\<close> replicas is converted exactly: the parsed values of one replica times
  \<open>r\<close>, with the same keys and the same errors, as long as no product leaves the range in which
  \<^verbatim>\<open>float64\<close> represents the integers exactly.\<close>

lemma CvtToResourceList_exact:
  assumes "\<And>n. q_Value E (q_New E n) = n" and "0 < r"
    and "\<And>base k v. CvtToResourceList E cpu memory gpu gpuName eph rdma 1 = Inr base \<Longrightarrow>
           mget base k = Some v \<Longrightarrow> \<bar>q_Value E v\<bar> * r < 2 ^ 53"
  shows "case CvtToResourceList E cpu memory gpu gpuName eph rdma 1 of
           Inl e \<Rightarrow> CvtToResourceList E cpu memory gpu gpuName eph rdma (of_int r) = Inl e
         | Inr base \<Rightarrow> \<exists>res. CvtToResourceList E cpu memory gpu gpuName eph rdma (of_int r) = Inr res \<and>
             (\<forall>k. map_option (q_Value E) (mget res k) = map_option (\<lambda>v. q_Value E v * r) (mget base k))"
proof (cases "CvtToResourceList E cpu memory gpu gpuName eph rdma 1")
  case (Inl e)
  with assms(2) show ?thesis by (simp add: CvtToResourceList_scale [of "of_int r"])
next
  case (Inr base)
  have "map_option (q_Value E) (mget (MultiResource E base (of_int r)) k) =
        map_option (\<lambda>v. q_Value E v * r) (mget base k)" for k
    by (rule MultiResource_int [OF assms(1,2) assms(3) [OF Inr]])
  with Inr assms(2) show ?thesis by (simp add: CvtToResourceList_scale [of "of_int r"])
qed

lemma CvtToResourceList_exact_witness:
  "case CvtToResourceList int_ext ''8'' ''64'' ''2'' ''amd.com/gpu'' [] [] 1 of
     Inl e \<Rightarrow> CvtToResourceList int_ext ''8'' ''64'' ''2'' ''amd.com/gpu'' [] [] (of_int 3) = Inl e
   | Inr base \<Rightarrow> \<exists>res. CvtToResourceList int_ext ''8'' ''64'' ''2'' ''amd.com/gpu'' [] [] (of_int 3) = Inr res \<and>
       (\<forall>k. map_option (q_Value int_ext) (mget res k) =
             map_option (\<lambda>v. q_Value int_ext v * 3) (mget base k))"
proof (rule CvtToResourceList_exact)
  have base: "CvtToResourceList int_ext ''8'' ''64'' ''2'' ''amd.com/gpu'' [] [] 1 =
      Inr [(''cpu'', 8), (''memory'', 64), (''amd.com/gpu'', 2)]"
    unfolding CvtToResourceList_def cvt_field_def MultiResource_one
    by (simp add: int_ext_def resource_name_defs go_atoi_def parse_unsigned_def is_digit_def
        digit_val_def in_int64_def less_eq_char_def mput_def)
  show "\<bar>q_Value int_ext v\<bar> * 3 < 2 ^ 53"
    if "CvtToResourceList int_ext ''8'' ''64'' ''2'' ''amd.com/gpu'' [] [] 1 = Inr base"
      and "mget base k = Some v" for base k v
    using that unfolding base by (auto simp: int_ext_def split: if_splits)
qed (simp_all add: int_ext_def)

text \<open>\<^verbatim>\<open>equal\<close> is not symmetric: it reads a key that the second list lacks as zero, so two lists
  of the same length can compare equal although the second holds a resource the first does not, and
  \<^verbatim>\<open>SubResource\<close> then returns no difference at all.\<close>

lemma equal_asymmetric:
  "equal_lists [(''cpu'', 0)] [(''memory'', 3)] \<and> \<not> equal_lists [(''memory'', 3)] [(''cpu'', 0::int)] \<and>
   SubResource int_ext [(''cpu'', 0)] [(''memory'', 3)] = [] \<and>
   SubResource int_ext [(''memory'', 3)] [(''cpu'', 0)] = [(''memory'', 3), (''cpu'', 0)]"
  by (simp add: equal_lists_def SubResource_def sub_lists_def Normalize_def IsConcernedResource_def
      resource_name_defs mhas_def)

end
