(* ===== verification/Errors.thy ===== *)
theory Errors
  imports Quantity
begin

text \<open>
  \<^verbatim>\<open>common/pkg/errors\<close>: the error codes of the platform, their constructors and the predicates
  by which the controllers decide whether to retry. \<^verbatim>\<open>apierrors.ReasonForError\<close> is the reason
  field of the error value; the predicates of \<^verbatim>\<open>apierrors\<close> on Kubernetes' own reasons are fields
  of the parameter \<open>ext\<close>.
\<close>

definition PrimusPrefix :: string where "PrimusPrefix = ''Primus.''"
definition InternalError :: string where "InternalError = PrimusPrefix @ ''00001''"
definition BadRequest :: string where "BadRequest = PrimusPrefix @ ''00002''"
definition Forbidden :: string where "Forbidden = PrimusPrefix @ ''00003''"
definition AlreadyExist :: string where "AlreadyExist = PrimusPrefix @ ''00004''"
definition NotFound :: string where "NotFound = PrimusPrefix @ ''00005''"
definition RequestEntityTooLarge :: string where "RequestEntityTooLarge = PrimusPrefix @ ''00006''"
definition NotImplemented :: string where "NotImplemented = PrimusPrefix @ ''00007''"
definition QuotaInsufficient :: string where "QuotaInsufficient = PrimusPrefix @ ''00008''"
definition Unauthorized :: string where "Unauthorized = PrimusPrefix @ ''00009''"
definition ResourceProcessing :: string where "ResourceProcessing = PrimusPrefix @ ''00010''"
definition UserNotRegistered :: string where "UserNotRegistered = PrimusPrefix @ ''00011''"
definition StatusConflict :: string where "StatusConflict = PrimusPrefix @ ''00012''"
definition WorkloadNotFound :: string where "WorkloadNotFound = PrimusPrefix @ ''01001''"
definition ResourceTemplateNotFound :: string where "ResourceTemplateNotFound = PrimusPrefix @ ''01002''"
definition WorkspaceNotFound :: string where "WorkspaceNotFound = PrimusPrefix @ ''02001''"
definition NodeNotFound :: string where "NodeNotFound = PrimusPrefix @ ''03002''"

lemmas error_code_defs = PrimusPrefix_def InternalError_def BadRequest_def Forbidden_def AlreadyExist_def
  NotFound_def RequestEntityTooLarge_def NotImplemented_def QuotaInsufficient_def Unauthorized_def
  ResourceProcessing_def UserNotRegistered_def StatusConflict_def WorkloadNotFound_def
  ResourceTemplateNotFound_def WorkspaceNotFound_def NodeNotFound_def

definition IsPrimus :: "goerr option \<Rightarrow> bool" where
  "IsPrimus err = (case err of None \<Rightarrow> False | Some e \<Rightarrow> has_prefix (err_Reason e) PrimusPrefix)"

definition IsAlreadyExist :: "goerr \<Rightarrow> bool" where
  "IsAlreadyExist err \<longleftrightarrow> err_Reason err = AlreadyExist"

definition IsBadRequest :: "goerr \<Rightarrow> bool" where
  "IsBadRequest err \<longleftrightarrow> err_Reason err = BadRequest"

definition IsInternal :: "goerr \<Rightarrow> bool" where
  "IsInternal err \<longleftrightarrow> err_Reason err = InternalError"

definition IsForbidden :: "goerr \<Rightarrow> bool" where
  "IsForbidden err \<longleftrightarrow> err_Reason err = Forbidden"

definition IsNotFound :: "goerr \<Rightarrow> bool" where
  "IsNotFound err \<longleftrightarrow>
     (let reason = err_Reason err in
      reason = NotFound \<or> reason = WorkloadNotFound \<or> reason = WorkspaceNotFound \<or>
      reason = NodeNotFound \<or> reason = ResourceTemplateNotFound)"

definition IgnoreFound :: "goerr option \<Rightarrow> goerr option" where
  "IgnoreFound err = (case err of None \<Rightarrow> None | Some e \<Rightarrow> if IsNotFound e then None else Some e)"

definition GetErrorCode :: "goerr option \<Rightarrow> string" where
  "GetErrorCode err =
     (case err of
        None \<Rightarrow> ''''
      | Some e \<Rightarrow> if \<not> IsPrimus (Some e) then '''' else err_Reason e)"

definition NewBadRequest :: "string \<Rightarrow> goerr" where
  "NewBadRequest message =
     \<lparr>err_Reason = BadRequest, err_Code = 400, err_Message = ''Bad request. '' @ message\<rparr>"

definition NewInternalError :: "string \<Rightarrow> goerr" where
  "NewInternalError message =
     \<lparr>err_Reason = InternalError, err_Code = 500, err_Message = ''Internal error. '' @ message\<rparr>"

definition NewAlreadyExist :: "string \<Rightarrow> goerr" where
  "NewAlreadyExist message = \<lparr>err_Reason = AlreadyExist, err_Code = 409, err_Message = message\<rparr>"

definition NewForbidden :: "string \<Rightarrow> goerr" where
  "NewForbidden message = \<lparr>err_Reason = Forbidden, err_Code = 403, err_Message = message\<rparr>"

definition NewConflict :: "string \<Rightarrow> goerr" where
  "NewConflict message = \<lparr>err_Reason = StatusConflict, err_Code = 409, err_Message = message\<rparr>"

definition NotFoundErrorCode :: "string \<Rightarrow> string" where
  "NotFoundErrorCode kind =
     (if kind = ''Workload'' then WorkloadNotFound
      else if kind = ''ResourceTemplate'' then ResourceTemplateNotFound
      else if kind = ''Workspace'' then WorkspaceNotFound
      else if kind = ''Node'' then NodeNotFound
      else NotFound)"

definition NewNotFound :: "string \<Rightarrow> string \<Rightarrow> goerr" where
  "NewNotFound kind name =
     \<lparr>err_Reason = NotFoundErrorCode kind, err_Code = 404,
      err_Message = kind @ '' '' @ name @ '' not found.''\<rparr>"

definition NewNotFoundWithMessage :: "string \<Rightarrow> goerr" where
  "NewNotFoundWithMessage message = \<lparr>err_Reason = NotFound, err_Code = 404, err_Message = message\<rparr>"

definition NewRequestEntityTooLargeError :: "string \<Rightarrow> goerr" where
  "NewRequestEntityTooLargeError message =
     \<lparr>err_Reason = RequestEntityTooLarge, err_Code = 413,
      err_Message = ''Request entity is too large: '' @ message\<rparr>"

definition NewQuotaInsufficient :: "string \<Rightarrow> goerr" where
  "NewQuotaInsufficient message = \<lparr>err_Reason = QuotaInsufficient, err_Code = 503, err_Message = message\<rparr>"

definition NewUnauthorized :: "string \<Rightarrow> goerr" where
  "NewUnauthorized message = \<lparr>err_Reason = Unauthorized, err_Code = 401, err_Message = message\<rparr>"

definition NewUserNotRegistered :: "string \<Rightarrow> goerr" where
  "NewUserNotRegistered userId =
     \<lparr>err_Reason = UserNotRegistered, err_Code = 401,
      err_Message = ''the user('' @ userId @ '') is not registered or invalid userId''\<rparr>"

definition NewResourceProcessing :: "string \<Rightarrow> goerr" where
  "NewResourceProcessing message = \<lparr>err_Reason = ResourceProcessing, err_Code = 409, err_Message = message\<rparr>"

definition NewNotImplemented :: "string \<Rightarrow> goerr" where
  "NewNotImplemented message = \<lparr>err_Reason = NotImplemented, err_Code = 501, err_Message = message\<rparr>"

definition IsNonRetryableError :: "('q, 'z) ext_scheme \<Rightarrow> goerr option \<Rightarrow> bool" where
  "IsNonRetryableError E err =
     (case err of
        None \<Rightarrow> False
      | Some e \<Rightarrow>
          if IsBadRequest e \<or> IsInternal e \<or> IsNotFound e then True
          else if api_IsForbidden E e \<or> api_IsNotFound E e then True
          else False)"

text \<open>\<^verbatim>\<open>client.IgnoreNotFound\<close> of controller-runtime.\<close>

definition IgnoreNotFound :: "('q, 'z) ext_scheme \<Rightarrow> goerr option \<Rightarrow> goerr option" where
  "IgnoreNotFound E err = (case err of None \<Rightarrow> None | Some e \<Rightarrow> if api_IsNotFound E e then None else Some e)"

lemma IsNotFound_NewNotFound [simp]: "IsNotFound (NewNotFound kind name)"
  by (simp add: IsNotFound_def NewNotFound_def NotFoundErrorCode_def)

lemma IsNonRetryableError_primus [simp]:
  "IsNonRetryableError E (Some (NewBadRequest m))"
  "IsNonRetryableError E (Some (NewInternalError m))"
  "IsNonRetryableError E (Some (NewNotFound k n))"
  "\<not> IsNonRetryableError E None"
  by (simp_all add: IsNonRetryableError_def IsBadRequest_def IsInternal_def
      NewBadRequest_def NewInternalError_def)

text \<open>A controller gives a request up exactly for a bad request, an internal error, a missing
  object of any kind, or Kubernetes' own forbidden and not-found answers; every other platform error
  (quota, conflict, authorisation, a resource being processed) is retried.\<close>

lemma retry_classification:
  assumes "\<not> api_IsForbidden E e" and "\<not> api_IsNotFound E e"
    and "has_prefix (err_Reason e) PrimusPrefix"
  shows "IsNonRetryableError E (Some e) \<longleftrightarrow>
           GetErrorCode (Some e) \<in> {BadRequest, InternalError, NotFound, WorkloadNotFound,
             ResourceTemplateNotFound, WorkspaceNotFound, NodeNotFound}"
    (is "?l \<longleftrightarrow> ?r")
  using assms by (auto simp: IsNonRetryableError_def GetErrorCode_def IsPrimus_def IsBadRequest_def
      IsInternal_def IsNotFound_def Let_def)

lemma retry_classification_witness:
  "\<not> IsNonRetryableError int_ext (Some (NewQuotaInsufficient ''no gpu''))"
  using retry_classification [of int_ext "NewQuotaInsufficient ''no gpu''"]
  by (simp add: int_ext_def NewQuotaInsufficient_def error_code_defs GetErrorCode_def IsPrimus_def)

end
