(* ===== verification/Api_Types.thy ===== *)
theory Api_Types
  imports Errors
begin

text \<open>
  The custom resources of \<^verbatim>\<open>apis/pkg/apis/amd/v1\<close> that the job manager works on: workloads,
  workspaces, nodes and node flavors as records with the fields of the Go structs, the label and
  annotation accessors of \<^verbatim>\<open>utils.go\<close>, and the methods of the types. A pointer field is an
  \<^verbatim>\<open>option\<close>; a time is a number of nanoseconds since the epoch.
\<close>

section \<open>Well-known labels and annotations\<close>

definition RetryCountAnnotation :: string where [api_defs]: "RetryCountAnnotation = ''primus-safe.retry.count''"
definition MainContainerAnnotation :: string where [api_defs]: "MainContainerAnnotation = ''primus-safe.main.container''"
definition OwnerLabel :: string where [api_defs]: "OwnerLabel = ''primus-safe.owner''"
definition ClusterIdLabel :: string where [api_defs]: "ClusterIdLabel = ''primus-safe.cluster.id''"
definition NodeFlavorIdLabel :: string where [api_defs]: "NodeFlavorIdLabel = ''primus-safe.nodeflavor.id''"
definition WorkspaceIdLabel :: string where [api_defs]: "WorkspaceIdLabel = ''primus-safe.workspace.id''"
definition WorkloadIdLabel :: string where [api_defs]: "WorkloadIdLabel = ''primus-safe.workload.id''"
definition WorkloadFinalizer :: string where "WorkloadFinalizer = ''primus-safe/workload.finalizer''"
definition ReplicaCount :: string where "ReplicaCount = ''REPLICA_COUNT''"
definition MinReplicaCount :: string where "MinReplicaCount = ''MIN_REPLICA_COUNT''"
definition CICDScaleSetIdAnnotation :: string where "CICDScaleSetIdAnnotation = ''runner-scale-set-id''"
definition WorkloadDispatchedAnnotation :: string where [api_defs]: "WorkloadDispatchedAnnotation = ''primus-safe.workload.dispatched''"
definition WorkloadScheduledAnnotation :: string where [api_defs]: "WorkloadScheduledAnnotation = ''primus-safe.workload.scheduled''"
definition WorkloadPreemptedAnnotation :: string where [api_defs]: "WorkloadPreemptedAnnotation = ''primus-safe.workload.preempted''"
definition WorkloadKindLabel :: string where [api_defs]: "WorkloadKindLabel = ''primus-safe.workload.kind''"
definition WorkloadVersionLabel :: string where [api_defs]: "WorkloadVersionLabel = ''primus-safe.workload.version''"
definition WorkloadDispatchCntLabel :: string where [api_defs]: "WorkloadDispatchCntLabel = ''primus-safe.workload.dispatch.count''"
definition WorkloadReScheduledAnnotation :: string where [api_defs]: "WorkloadReScheduledAnnotation = ''primus-safe.workload.rescheduled''"
definition WorkloadDisableFailoverAnnotation :: string where [api_defs]: "WorkloadDisableFailoverAnnotation = ''primus-safe.workload.disable.failover''"
definition WorkloadEnablePreemptAnnotation :: string where [api_defs]: "WorkloadEnablePreemptAnnotation = ''primus-safe.workload.enable.preempt''"
definition WorkloadStatusOffloadAnnotation :: string where [api_defs]: "WorkloadStatusOffloadAnnotation = ''primus-safe.workload.status.offload''"
definition CronJobTimestampAnnotation :: string where [api_defs]: "CronJobTimestampAnnotation = ''primus-safe.workload.cronjob''"
definition ResourceIdAnnotation :: string where [api_defs]: "ResourceIdAnnotation = ''primus-safe.workload.resource.id''"
definition GroupIdLabel :: string where [api_defs]: "GroupIdLabel = ''primus-safe.workload.group.id''"
definition RootWorkloadIdLabel :: string where [api_defs]: "RootWorkloadIdLabel = ''primus-safe.workload.root.id''"
definition ForceHostNetworkAnnotation :: string where [api_defs]: "ForceHostNetworkAnnotation = ''primus-safe.workload.force.host.network''"
definition RetryOnOriginalNodesAnnotation :: string where [api_defs]: "RetryOnOriginalNodesAnnotation = ''primus-safe.retry.on.original.nodes''"
definition NodesAffinityAnnotation :: string where [api_defs]: "NodesAffinityAnnotation = ''primus-safe.nodes.affinity''"
definition UserIdLabel :: string where [api_defs]: "UserIdLabel = ''primus-safe.user.id''"
definition OpsJobIdLabel :: string where [api_defs]: "OpsJobIdLabel = ''primus-safe.ops.job.id''"
definition OpsJobTypeLabel :: string where [api_defs]: "OpsJobTypeLabel = ''primus-safe.ops.job.type''"
definition DynamoServiceRolesAnnotation :: string where [api_defs]: "DynamoServiceRolesAnnotation = ''primus-safe.dynamo.service-roles''"
definition DynamoKVTransferBackendAnnotation :: string where [api_defs]: "DynamoKVTransferBackendAnnotation = ''primus-safe.dynamo.kv-transfer-backend''"
definition DynamoMultinodeRolesAnnotation :: string where [api_defs]: "DynamoMultinodeRolesAnnotation = ''primus-safe.dynamo.multinode-roles''"
definition DynamoBackendFrameworkAnnotation :: string where [api_defs]: "DynamoBackendFrameworkAnnotation = ''primus-safe.dynamo.backend-framework''"
definition InferaServiceRolesAnnotation :: string where [api_defs]: "InferaServiceRolesAnnotation = ''primus-safe.infera.service-roles''"
definition InferaKVTransferBackendAnnotation :: string where [api_defs]: "InferaKVTransferBackendAnnotation = ''primus-safe.infera.kv-transfer-backend''"
definition InferaMultinodeRolesAnnotation :: string where [api_defs]: "InferaMultinodeRolesAnnotation = ''primus-safe.infera.multinode-roles''"
definition InferaBackendFrameworkAnnotation :: string where [api_defs]: "InferaBackendFrameworkAnnotation = ''primus-safe.infera.backend-framework''"
definition CICDScaleRunnerIdLabel :: string where [api_defs]: "CICDScaleRunnerIdLabel = ''primus-safe.scale.runner.id''"
definition SourceWorkloadIdLabel :: string where [api_defs]: "SourceWorkloadIdLabel = ''source.workload.id''"
definition TrueStr :: string where [api_defs]: "TrueStr = ''true''"
definition K8sHostName :: string where [api_defs]: "K8sHostName = ''kubernetes.io/hostname''"
definition PrimusSafePrefix :: string where [api_defs]: "PrimusSafePrefix = ''primus-safe.''"

section \<open>Phases and conditions\<close>

named_theorems phase_defs \<open>phases and condition types\<close>

definition WorkloadSucceeded :: string where [phase_defs]: "WorkloadSucceeded = ''Succeeded''"
definition WorkloadFailed :: string where [phase_defs]: "WorkloadFailed = ''Failed''"
definition WorkloadPending :: string where [phase_defs]: "WorkloadPending = ''Pending''"
definition WorkloadRunning :: string where [phase_defs]: "WorkloadRunning = ''Running''"
definition WorkloadUpdating :: string where [phase_defs]: "WorkloadUpdating = ''Updating''"
definition WorkloadNotReady :: string where [phase_defs]: "WorkloadNotReady = ''NotReady''"
definition WorkloadStopped :: string where [phase_defs]: "WorkloadStopped = ''Stopped''"
definition CronStart :: string where [phase_defs]: "CronStart = ''start''"
definition CronScale :: string where [phase_defs]: "CronScale = ''scale''"
definition AdminScheduling :: string where [phase_defs]: "AdminScheduling = ''AdminScheduling''"
definition AdminScheduled :: string where [phase_defs]: "AdminScheduled = ''AdminScheduled''"
definition AdminDispatched :: string where [phase_defs]: "AdminDispatched = ''AdminDispatched''"
definition K8sPending :: string where [phase_defs]: "K8sPending = ''K8sPending''"
definition K8sSucceeded :: string where [phase_defs]: "K8sSucceeded = ''K8sSucceeded''"
definition K8sFailed :: string where [phase_defs]: "K8sFailed = ''K8sFailed''"
definition K8sNotReady :: string where [phase_defs]: "K8sNotReady = ''K8sNotReady''"
definition K8sRunning :: string where [phase_defs]: "K8sRunning = ''K8sRunning''"
definition K8sUpdating :: string where [phase_defs]: "K8sUpdating = ''K8sUpdating''"
definition K8sDeleted :: string where [phase_defs]: "K8sDeleted = ''K8sDeleted''"
definition AdminFailover :: string where [phase_defs]: "AdminFailover = ''AdminFailover''"
definition AdminFailed :: string where [phase_defs]: "AdminFailed = ''AdminFailed''"
definition AdminStopped :: string where [phase_defs]: "AdminStopped = ''AdminStopped''"

text \<open>Pod phases of \<^verbatim>\<open>corev1\<close>.\<close>

definition PodPending :: string where [phase_defs]: "PodPending = ''Pending''"
definition PodRunning :: string where [phase_defs]: "PodRunning = ''Running''"
definition PodSucceeded :: string where [phase_defs]: "PodSucceeded = ''Succeeded''"
definition PodFailed :: string where [phase_defs]: "PodFailed = ''Failed''"

section \<open>Times\<close>

text \<open>The zero \<^verbatim>\<open>time.Time\<close> is the first of January of the year 1.\<close>

type_synonym gotime = int

definition zero_time :: gotime where
  "zero_time = - 62135596800000000000"

definition time_IsZero :: "gotime option \<Rightarrow> bool" where
  "time_IsZero t = (case t of None \<Rightarrow> True | Some x \<Rightarrow> x = zero_time)"

text \<open>\<^verbatim>\<open>Time.Sub\<close> saturates at the limits of an \<^verbatim>\<open>int64\<close> of nanoseconds.\<close>

definition time_Sub :: "gotime \<Rightarrow> gotime \<Rightarrow> int" where
  "time_Sub a b = max (- (2 ^ 63)) (min (2 ^ 63 - 1) (a - b))"

text \<open>Go's integer division and remainder truncate toward zero.\<close>

definition go_div :: "int \<Rightarrow> int \<Rightarrow> int" where
  "go_div a b = (if (0 \<le> a) = (0 \<le> b) then \<bar>a\<bar> div \<bar>b\<bar> else - (\<bar>a\<bar> div \<bar>b\<bar>))"

definition go_mod :: "int \<Rightarrow> int \<Rightarrow> int" where
  "go_mod a b = a - go_div a b * b"

definition nano :: int where "nano = 1000000000"

text \<open>\<^verbatim>\<open>Duration.Seconds\<close>: whole seconds plus the rest as a fraction, in \<^verbatim>\<open>float64\<close>.\<close>

definition duration_Seconds :: "int \<Rightarrow> float64" where
  "duration_Seconds d = f64_add (f64_of_int (go_div d nano)) (f64_div (f64_of_int (go_mod d nano)) (of_int nano))"

section \<open>Objects\<close>

record OwnerReference =
  or_Kind :: string
  or_Name :: string
  or_UID :: string
  or_Controller :: bool

record ObjectMeta =
  om_Name :: string
  om_Namespace :: string
  om_UID :: string
  om_ResourceVersion :: string
  om_Generation :: int
  om_Labels :: strmap
  om_Annotations :: strmap
  om_CreationTimestamp :: gotime
  om_DeletionTimestamp :: "gotime option"
  om_Finalizers :: "string list"
  om_OwnerReferences :: "OwnerReference list"

record Condition =
  cond_Type :: string
  cond_Status :: string
  cond_LastTransitionTime :: gotime
  cond_Reason :: string
  cond_Message :: string

record GroupVersionKind =
  gvk_Group :: string
  gvk_Version :: string
  gvk_Kind :: string

record WorkloadResource =
  wr_Replica :: int
  wr_CPU :: string
  wr_GPU :: string
  wr_GPUName :: string
  wr_Memory :: string
  wr_SharedMemory :: string
  wr_EphemeralStorage :: string
  wr_RdmaResource :: string

record HealthCheck =
  hc_Path :: string
  hc_Port :: int
  hc_InitialDelaySeconds :: int
  hc_PeriodSeconds :: int
  hc_FailureThreshold :: int

record Service =
  svc_Protocol :: string
  svc_Port :: int
  svc_NodePort :: int
  svc_TargetPort :: int
  svc_ServiceType :: string
  svc_ExtraSelectors :: strmap
  svc_Extends :: strmap

record CronJob =
  cj_Schedule :: string
  cj_Action :: string

record SecretEntity =
  sec_Id :: string
  sec_Type :: string

record WorkloadSpec =
  ws_Resources :: "WorkloadResource list"
  ws_Workspace :: string
  ws_Images :: "string list"
  ws_EntryPoints :: "string list"
  ws_JobPort :: int
  ws_Env :: strmap
  ws_IsSupervised :: bool
  ws_GVK :: GroupVersionKind
  ws_MaxRetry :: int
  ws_Priority :: int
  ws_TTLSecondsAfterFinished :: "int option"
  ws_Timeout :: "int option"
  ws_CustomerLabels :: strmap
  ws_Liveness :: "HealthCheck option"
  ws_Readiness :: "HealthCheck option"
  ws_Service :: "Service option"
  ws_IsTolerateAll :: bool
  ws_Hostpath :: "string list"
  ws_Dependencies :: "string list"
  ws_CronJobs :: "CronJob list"
  ws_Secrets :: "SecretEntity list"

record Container =
  ct_Name :: string
  ct_Message :: string
  ct_ExitCode :: int

text \<open>\<^verbatim>\<open>ResourceId\<close> and \<^verbatim>\<open>GroupId\<close> are \<^verbatim>\<open>int8\<close>.\<close>

record WorkloadPod =
  pod_PodId :: string
  pod_ResourceId :: int
  pod_AdminNodeName :: string
  pod_Phase :: string
  pod_HostIp :: string
  pod_PodIp :: string
  pod_Rank :: string
  pod_StartTime :: string
  pod_EndTime :: string
  pod_FailedMessage :: string
  pod_Containers :: "Container list"
  pod_GroupId :: int

record NodePodUsage =
  npu_Node :: string
  npu_Running :: "(string, int) gomap"
  npu_Active :: "(string, int) gomap"

record WorkloadStatus =
  st_StartTime :: "gotime option"
  st_EndTime :: "gotime option"
  st_Conditions :: "Condition list"
  st_Phase :: string
  st_Message :: string
  st_QueuePosition :: int
  st_Pods :: "WorkloadPod list"
  st_Nodes :: "string list list"
  st_Ranks :: "string list list"
  st_RunnerScaleSetId :: string
  st_DependenciesPhase :: strmap
  st_TorchFTPhase :: strmap
  st_NodeUsage :: "NodePodUsage list"

record Workload =
  w_Meta :: ObjectMeta
  w_Spec :: WorkloadSpec
  w_Status :: WorkloadStatus

abbreviation w_Name :: "Workload \<Rightarrow> string" where
  "w_Name w \<equiv> om_Name (w_Meta w)"

abbreviation w_Phase :: "Workload \<Rightarrow> string" where
  "w_Phase w \<equiv> st_Phase (w_Status w)"

section \<open>Labels and annotations\<close>

definition GetLabel :: "ObjectMeta \<Rightarrow> string \<Rightarrow> string" where
  "GetLabel obj key = (case mget (om_Labels obj) key of None \<Rightarrow> '''' | Some v \<Rightarrow> v)"

definition GetAnnotation :: "ObjectMeta \<Rightarrow> string \<Rightarrow> string" where
  "GetAnnotation obj key = (case mget (om_Annotations obj) key of None \<Rightarrow> '''' | Some v \<Rightarrow> v)"

definition HasLabel :: "ObjectMeta \<Rightarrow> string \<Rightarrow> bool" where
  "HasLabel obj key \<longleftrightarrow> mhas (om_Labels obj) key"

definition HasAnnotation :: "ObjectMeta \<Rightarrow> string \<Rightarrow> bool" where
  "HasAnnotation obj key \<longleftrightarrow> mhas (om_Annotations obj) key"

text \<open>The mutators return whether they changed the object.\<close>

definition RemoveLabel :: "ObjectMeta \<Rightarrow> string \<Rightarrow> bool \<times> ObjectMeta" where
  "RemoveLabel obj key =
     (if \<not> mhas (om_Labels obj) key then (False, obj)
      else (True, obj\<lparr>om_Labels := mdel (om_Labels obj) key\<rparr>))"

definition RemoveEmptyLabel :: "ObjectMeta \<Rightarrow> string \<Rightarrow> bool \<times> ObjectMeta" where
  "RemoveEmptyLabel obj key =
     (if mget (om_Labels obj) key = Some '''' then (True, obj\<lparr>om_Labels := mdel (om_Labels obj) key\<rparr>)
      else (False, obj))"

definition RemoveAnnotation :: "ObjectMeta \<Rightarrow> string \<Rightarrow> bool \<times> ObjectMeta" where
  "RemoveAnnotation obj key =
     (if \<not> mhas (om_Annotations obj) key then (False, obj)
      else (True, obj\<lparr>om_Annotations := mdel (om_Annotations obj) key\<rparr>))"

definition SetLabel :: "ObjectMeta \<Rightarrow> string \<Rightarrow> string \<Rightarrow> bool \<times> ObjectMeta" where
  "SetLabel obj key val =
     (if mget (om_Labels obj) key = Some val then (False, obj)
      else (True, obj\<lparr>om_Labels := mput (om_Labels obj) key val\<rparr>))"

definition SetAnnotation :: "ObjectMeta \<Rightarrow> string \<Rightarrow> string \<Rightarrow> bool \<times> ObjectMeta" where
  "SetAnnotation obj key val =
     (if mget (om_Annotations obj) key = Some val then (False, obj)
      else (True, obj\<lparr>om_Annotations := mput (om_Annotations obj) key val\<rparr>))"

definition atoi :: "string \<Rightarrow> int" where
  "atoi str = (if str = '''' then 0 else case go_atoi str of None \<Rightarrow> 0 | Some n \<Rightarrow> n)"

definition GetClusterId :: "ObjectMeta \<Rightarrow> string" where
  "GetClusterId obj = GetLabel obj ClusterIdLabel"

definition GetWorkspaceId :: "ObjectMeta \<Rightarrow> string" where
  "GetWorkspaceId obj = GetLabel obj WorkspaceIdLabel"

definition GetNodeFlavorId :: "ObjectMeta \<Rightarrow> string" where
  "GetNodeFlavorId obj = GetLabel obj NodeFlavorIdLabel"

definition IsWorkloadDispatched :: "ObjectMeta \<Rightarrow> bool" where
  "IsWorkloadDispatched obj \<longleftrightarrow> HasAnnotation obj WorkloadDispatchedAnnotation"

definition IsWorkloadScheduled :: "ObjectMeta \<Rightarrow> bool" where
  "IsWorkloadScheduled obj \<longleftrightarrow> HasAnnotation obj WorkloadScheduledAnnotation"

definition IsWorkloadStatusOffloadEnabled :: "ObjectMeta \<Rightarrow> bool" where
  "IsWorkloadStatusOffloadEnabled obj \<longleftrightarrow> HasAnnotation obj WorkloadStatusOffloadAnnotation"

definition GetWorkloadDispatchCnt :: "ObjectMeta \<Rightarrow> int" where
  "GetWorkloadDispatchCnt obj = atoi (GetLabel obj WorkloadDispatchCntLabel)"

definition GetMainContainer :: "ObjectMeta \<Rightarrow> string" where
  "GetMainContainer obj = GetAnnotation obj MainContainerAnnotation"

definition GetWorkloadId :: "ObjectMeta \<Rightarrow> string" where
  "GetWorkloadId obj = GetLabel obj WorkloadIdLabel"

definition IsWorkloadDisableFailover :: "ObjectMeta \<Rightarrow> bool" where
  "IsWorkloadDisableFailover obj \<longleftrightarrow> GetAnnotation obj WorkloadDisableFailoverAnnotation = TrueStr"

definition IsWorkloadReScheduled :: "ObjectMeta \<Rightarrow> bool" where
  "IsWorkloadReScheduled obj \<longleftrightarrow> HasAnnotation obj WorkloadReScheduledAnnotation"

definition IsWorkloadEnablePreempt :: "ObjectMeta \<Rightarrow> bool" where
  "IsWorkloadEnablePreempt obj \<longleftrightarrow> GetAnnotation obj WorkloadEnablePreemptAnnotation = TrueStr"

definition IsWorkloadPreempted :: "ObjectMeta \<Rightarrow> bool" where
  "IsWorkloadPreempted obj \<longleftrightarrow> HasAnnotation obj WorkloadPreemptedAnnotation"

definition GetRetryCount :: "ObjectMeta \<Rightarrow> int" where
  "GetRetryCount obj = atoi (GetAnnotation obj RetryCountAnnotation)"

definition GetOpsJobId :: "ObjectMeta \<Rightarrow> string" where
  "GetOpsJobId obj = GetLabel obj OpsJobIdLabel"

definition GetOpsJobType :: "ObjectMeta \<Rightarrow> string" where
  "GetOpsJobType obj = GetLabel obj OpsJobTypeLabel"

definition GetCronjobTimestamp :: "ObjectMeta \<Rightarrow> string" where
  "GetCronjobTimestamp obj = GetAnnotation obj CronJobTimestampAnnotation"

definition GetRootWorkloadId :: "ObjectMeta \<Rightarrow> string" where
  "GetRootWorkloadId obj = GetLabel obj RootWorkloadIdLabel"

definition GetResourceId :: "ObjectMeta \<Rightarrow> int \<times> bool" where
  "GetResourceId obj =
     (let str = GetAnnotation obj ResourceIdAnnotation in
      if str = '''' then (0, False)
      else case go_atoi str of None \<Rightarrow> (0, False) | Some n \<Rightarrow> (n, True))"

definition GetGroupId :: "ObjectMeta \<Rightarrow> string" where
  "GetGroupId obj = GetLabel obj GroupIdLabel"

definition GetSourceWorkloadId :: "ObjectMeta \<Rightarrow> string" where
  "GetSourceWorkloadId obj = GetLabel obj SourceWorkloadIdLabel"

definition IsRetryingOnOriginal :: "ObjectMeta \<Rightarrow> bool" where
  "IsRetryingOnOriginal obj \<longleftrightarrow> GetAnnotation obj RetryOnOriginalNodesAnnotation = TrueStr"

definition IsForceHostNetwork :: "ObjectMeta \<Rightarrow> bool" where
  "IsForceHostNetwork obj \<longleftrightarrow> GetAnnotation obj ForceHostNetworkAnnotation = TrueStr"

section \<open>Workloads\<close>

definition HasGpu :: "WorkloadResource \<Rightarrow> bool" where
  "HasGpu w \<longleftrightarrow> wr_GPU w \<noteq> '''' \<and> wr_GPU w \<noteq> ''0''"

definition IsWorkloadPhaseEnded :: "string \<Rightarrow> bool" where
  "IsWorkloadPhaseEnded phase \<longleftrightarrow>
     phase = WorkloadSucceeded \<or> phase = WorkloadFailed \<or> phase = WorkloadStopped"

definition IsPending :: "Workload \<Rightarrow> bool" where
  "IsPending w \<longleftrightarrow> w_Phase w = '''' \<or> w_Phase w = WorkloadPending"

definition IsRunning :: "Workload \<Rightarrow> bool" where
  "IsRunning w \<longleftrightarrow> w_Phase w = WorkloadRunning"

definition IsEnd :: "Workload \<Rightarrow> bool" where
  "IsEnd w \<longleftrightarrow>
     (if IsWorkloadPhaseEnded (w_Phase w) then True
      else if \<not> time_IsZero (om_DeletionTimestamp (w_Meta w)) then True
      else False)"

definition EndTime :: "Workload \<Rightarrow> gotime" where
  "EndTime w = (case st_EndTime (w_Status w) of None \<Rightarrow> zero_time | Some t \<Rightarrow> t)"

definition GetTimeout :: "Workload \<Rightarrow> int" where
  "GetTimeout w = (case ws_Timeout (w_Spec w) of None \<Rightarrow> 0 | Some n \<Rightarrow> n)"

definition IsTimeout :: "gotime \<Rightarrow> Workload \<Rightarrow> bool" where
  "IsTimeout now w \<longleftrightarrow>
     (if GetTimeout w \<le> 0 then False
      else case st_StartTime (w_Status w) of
             None \<Rightarrow> False
           | Some start \<Rightarrow> GetTimeout w \<le> f64_to_int (duration_Seconds (time_Sub now start)))"

definition GetTTLSecond :: "Workload \<Rightarrow> int" where
  "GetTTLSecond w = (case ws_TTLSecondsAfterFinished (w_Spec w) of None \<Rightarrow> 0 | Some n \<Rightarrow> n)"

definition GetLastCondition :: "Workload \<Rightarrow> Condition option" where
  "GetLastCondition w =
     (let cs = st_Conditions (w_Status w) in if length cs = 0 then None else Some (cs ! (length cs - 1)))"

definition IsPodRunning :: "WorkloadPod \<Rightarrow> bool" where
  "IsPodRunning p \<longleftrightarrow> PodSucceeded \<noteq> pod_Phase p \<and> PodFailed \<noteq> pod_Phase p \<and> pod_AdminNodeName p \<noteq> ''''"

definition IsPodTerminated :: "WorkloadPod \<Rightarrow> bool" where
  "IsPodTerminated p \<longleftrightarrow> PodSucceeded = pod_Phase p \<or> PodFailed = pod_Phase p \<or> WorkloadStopped = pod_Phase p"

definition SpecKind :: "Workload \<Rightarrow> string" where
  "SpecKind w = gvk_Kind (ws_GVK (w_Spec w))"

definition SetDependenciesPhase :: "Workload \<Rightarrow> string \<Rightarrow> string \<Rightarrow> Workload" where
  "SetDependenciesPhase w workloadId phase =
     w\<lparr>w_Status := (w_Status w)\<lparr>st_DependenciesPhase := mput (st_DependenciesPhase (w_Status w)) workloadId phase\<rparr>\<rparr>"

definition GetDependenciesPhase :: "Workload \<Rightarrow> string \<Rightarrow> string option" where
  "GetDependenciesPhase w workloadId = mget (st_DependenciesPhase (w_Status w)) workloadId"

definition IsDependenciesEnd :: "Workload \<Rightarrow> bool" where
  "IsDependenciesEnd w \<longleftrightarrow>
     list_all (\<lambda>dep. case GetDependenciesPhase w dep of None \<Rightarrow> False | Some phase \<Rightarrow> IsWorkloadPhaseEnded phase)
       (ws_Dependencies (w_Spec w))"

definition HasScheduled :: "Workload \<Rightarrow> bool" where
  "HasScheduled w \<longleftrightarrow> IsWorkloadScheduled (w_Meta w) \<or> GetWorkloadDispatchCnt (w_Meta w) > 0"

definition HasSpecifiedNodes :: "Workload \<Rightarrow> bool" where
  "HasSpecifiedNodes w \<longleftrightarrow>
     (case mget (ws_CustomerLabels (w_Spec w)) K8sHostName of None \<Rightarrow> False | Some val \<Rightarrow> val \<noteq> '''')"

definition GetEnv :: "Workload \<Rightarrow> string \<Rightarrow> string" where
  "GetEnv w name = (case mget (ws_Env (w_Spec w)) name of None \<Rightarrow> '''' | Some val \<Rightarrow> val)"

definition HasHostNetwork :: "Workload \<Rightarrow> bool" where
  "HasHostNetwork w \<longleftrightarrow>
     IsForceHostNetwork (w_Meta w) \<or> list_ex (\<lambda>res. wr_RdmaResource res \<noteq> '''') (ws_Resources (w_Spec w))"

definition HasOwnerWorkload :: "Workload \<Rightarrow> bool" where
  "HasOwnerWorkload w \<longleftrightarrow> GetLabel (w_Meta w) OwnerLabel \<noteq> ''''"

section \<open>Workspaces\<close>

record 'q WorkspaceStatus =
  wss_Phase :: string
  wss_TotalResources :: "'q resource_list"
  wss_AvailableResources :: "'q resource_list"
  wss_AbnormalResources :: "'q resource_list"
  wss_AvailableReplica :: int
  wss_AbnormalReplica :: int
  wss_UpdateTime :: "gotime option"

record WorkspaceVolume =
  wv_Id :: int
  wv_Type :: string
  wv_MountPath :: string
  wv_EnableUserDir :: bool
  wv_AccessMode :: string
  wv_SubPath :: string
  wv_HostPath :: string
  wv_Capacity :: string
  wv_Selector :: strmap
  wv_StorageClass :: string

text \<open>Object references are represented by the name they refer to.\<close>

record WorkspaceSpec =
  wsp_Cluster :: string
  wsp_NodeFlavor :: string
  wsp_Replica :: int
  wsp_QueuePolicy :: string
  wsp_Scopes :: "string list"
  wsp_Volumes :: "WorkspaceVolume list"
  wsp_EnablePreempt :: bool
  wsp_Managers :: "string list"
  wsp_IsDefault :: bool
  wsp_ImageSecrets :: "string list"
  wsp_MaxRuntime :: "(string, int) gomap"
  wsp_IdleTime :: strmap

record 'q Workspace =
  wk_Meta :: ObjectMeta
  wk_Spec :: WorkspaceSpec
  wk_Status :: "'q WorkspaceStatus"

definition Workspace_IsEnd :: "'q Workspace \<Rightarrow> bool" where
  "Workspace_IsEnd w \<longleftrightarrow> wss_Phase (wk_Status w) = ''Running'' \<or> wss_Phase (wk_Status w) = ''Abnormal''"

definition Workspace_IsAbnormal :: "'q Workspace \<Rightarrow> bool" where
  "Workspace_IsAbnormal w \<longleftrightarrow> wss_Phase (wk_Status w) = ''Abnormal''"

definition Workspace_IsPending :: "'q Workspace \<Rightarrow> bool" where
  "Workspace_IsPending w \<longleftrightarrow> wss_Phase (wk_Status w) = '''' \<or> wss_Phase (wk_Status w) = ''Creating''"

definition IsEnableFifo :: "'q Workspace \<Rightarrow> bool" where
  "IsEnableFifo w \<longleftrightarrow> wsp_QueuePolicy (wk_Spec w) = '''' \<or> wsp_QueuePolicy (wk_Spec w) = ''fifo''"

definition CurrentReplica :: "'q Workspace \<Rightarrow> int" where
  "CurrentReplica w = wss_AvailableReplica (wk_Status w) + wss_AbnormalReplica (wk_Status w)"

definition HasImageSecret :: "'q Workspace \<Rightarrow> string \<Rightarrow> bool" where
  "HasImageSecret w name \<longleftrightarrow> list_ex (\<lambda>secret. secret = name) (wsp_ImageSecrets (wk_Spec w))"

definition HasScope :: "'q Workspace \<Rightarrow> string \<Rightarrow> bool" where
  "HasScope w scope \<longleftrightarrow> list_ex (\<lambda>s. s = scope) (wsp_Scopes (wk_Spec w))"

definition GetMaxRunTime :: "'q Workspace \<Rightarrow> string \<Rightarrow> int" where
  "GetMaxRunTime w scope = (case mget (wsp_MaxRuntime (wk_Spec w)) scope of None \<Rightarrow> 0 | Some n \<Rightarrow> wrap64 (n * 3600))"

definition GetIdleTime :: "'q Workspace \<Rightarrow> string \<Rightarrow> string" where
  "GetIdleTime w scope = (case mget (wsp_IdleTime (wk_Spec w)) scope of None \<Rightarrow> '''' | Some t \<Rightarrow> t)"

definition GenFullVolumeId :: "string \<Rightarrow> int \<Rightarrow> string" where
  "GenFullVolumeId volumeType vid = volumeType @ ''-'' @ itoa vid"

section \<open>Nodes and flavors\<close>

record Taint =
  taint_Key :: string
  taint_Value :: string
  taint_Effect :: string
  taint_TimeAdded :: "gotime option"

record NodeSpec =
  ns_Cluster :: "string option"
  ns_Workspace :: "string option"
  ns_NodeFlavor :: "string option"
  ns_NodeTemplate :: "string option"
  ns_Hostname :: "string option"
  ns_PrivateIP :: string
  ns_PublicIP :: string
  ns_Port :: "int option"
  ns_Taints :: "Taint list"
  ns_SSHSecret :: "string option"

record CommandStatus =
  cs_Name :: string
  cs_Phase :: string

record NodeClusterStatus =
  ncs_Phase :: string
  ncs_Cluster :: "string option"
  ncs_CommandStatus :: "CommandStatus list"

record MachineStatus =
  ms_HostName :: string
  ms_Phase :: string
  ms_PrivateIP :: string
  ms_CommandStatus :: "CommandStatus list"
  ms_UpdateTime :: "gotime option"

record 'q NodeStatus =
  nst_MachineStatus :: MachineStatus
  nst_ClusterStatus :: NodeClusterStatus
  nst_Unschedulable :: bool
  nst_Taints :: "Taint list"
  nst_Resources :: "'q resource_list"
  nst_Conditions :: "Condition list"

record 'q Node =
  n_Meta :: ObjectMeta
  n_Spec :: NodeSpec
  n_Status :: "'q NodeStatus"

definition NodeReady :: string where "NodeReady = ''Ready''"
definition NodeManaged :: string where "NodeManaged = ''Managed''"
definition StickyNodesMonitorId :: string where "StickyNodesMonitorId = ''502''"

definition NodeIdLabel :: string where "NodeIdLabel = PrimusSafePrefix @ ''node.id''"

definition GetNodeId :: "ObjectMeta \<Rightarrow> string" where
  "GetNodeId obj = GetLabel obj NodeIdLabel"

definition GetIdByTaintKey :: "string \<Rightarrow> string" where
  "GetIdByTaintKey taintKey =
     (if length taintKey \<le> length PrimusSafePrefix then '''' else drop (length PrimusSafePrefix) taintKey)"

definition IsMachineReady :: "'q Node \<Rightarrow> bool" where
  "IsMachineReady n \<longleftrightarrow> ms_Phase (nst_MachineStatus (n_Status n)) = NodeReady"

definition IsManaged :: "'q Node \<Rightarrow> bool" where
  "IsManaged n \<longleftrightarrow> ncs_Phase (nst_ClusterStatus (n_Status n)) = NodeManaged \<and> GetClusterId (n_Meta n) \<noteq> ''''"

text \<open>
  \<^verbatim>\<open>CheckAvailable\<close>: the reason is empty exactly when the node is available. The taints that block
  are returned as the list the code marshals to JSON.
\<close>

datatype unavailable_reason = NodeOk | NodeNotReady | NodeNotManaged | NodeDeleting | NodeUnschedulable
  | NodeHasTaints "string list"

definition CheckAvailable :: "'q Node \<Rightarrow> bool \<Rightarrow> bool \<times> unavailable_reason" where
  "CheckAvailable n ignoreTaint =
     (if \<not> IsMachineReady n then (False, NodeNotReady)
      else if \<not> IsManaged n then (False, NodeNotManaged)
      else if \<not> time_IsZero (om_DeletionTimestamp (n_Meta n)) then (False, NodeDeleting)
      else if nst_Unschedulable (n_Status n) then (False, NodeUnschedulable)
      else if \<not> ignoreTaint \<and> length (nst_Taints (n_Status n)) > 0 then
        (let taints = map (\<lambda>t. taint_Key t @ ''='' @ taint_Value t)
               (filter (\<lambda>t. GetIdByTaintKey (taint_Key t) \<noteq> StickyNodesMonitorId) (nst_Taints (n_Status n)))
         in if length taints > 0 then (False, NodeHasTaints taints) else (True, NodeOk))
      else (True, NodeOk))"

definition IsAvailable :: "'q Node \<Rightarrow> bool \<Rightarrow> bool" where
  "IsAvailable n ignoreTaint = fst (CheckAvailable n ignoreTaint)"

definition GetSpecCluster :: "'q Node \<Rightarrow> string" where
  "GetSpecCluster n = (case ns_Cluster (n_Spec n) of None \<Rightarrow> '''' | Some c \<Rightarrow> c)"

definition GetSpecWorkspace :: "'q Node \<Rightarrow> string" where
  "GetSpecWorkspace n = (case ns_Workspace (n_Spec n) of None \<Rightarrow> '''' | Some c \<Rightarrow> c)"

definition GetSpecNodeFlavor :: "'q Node \<Rightarrow> string" where
  "GetSpecNodeFlavor n = (case ns_NodeFlavor (n_Spec n) of None \<Rightarrow> '''' | Some c \<Rightarrow> c)"

definition GetK8sNodeName :: "'q Node \<Rightarrow> string" where
  "GetK8sNodeName n =
     (if ms_HostName (nst_MachineStatus (n_Status n)) \<noteq> '''' then ms_HostName (nst_MachineStatus (n_Status n))
      else case ns_Hostname (n_Spec n) of None \<Rightarrow> '''' | Some h \<Rightarrow> h)"

definition GetPhase :: "'q Node \<Rightarrow> string" where
  "GetPhase n =
     (if \<not> IsMachineReady n then ms_Phase (nst_MachineStatus (n_Status n))
      else if ncs_Phase (nst_ClusterStatus (n_Status n)) \<in> {''ManagedFailed'', ''UnmanagedFailed'', ''Managing'', ''Unmanaging''}
      then ncs_Phase (nst_ClusterStatus (n_Status n))
      else NodeReady)"

record 'q CpuChip =
  cpu_Product :: string
  cpu_Quantity :: 'q

record 'q GpuChip =
  gpu_Product :: string
  gpu_ResourceName :: string
  gpu_Quantity :: 'q

record 'q DiskFlavor =
  disk_Type :: string
  disk_Quantity :: 'q
  disk_Count :: int

record 'q NodeFlavorSpec =
  nfs_Cpu :: "'q CpuChip"
  nfs_Memory :: 'q
  nfs_Gpu :: "'q GpuChip option"
  nfs_RootDisk :: "'q DiskFlavor option"
  nfs_DataDisk :: "'q DiskFlavor option"
  nfs_ExtendResources :: "'q resource_list"

record 'q NodeFlavor =
  nf_Meta :: ObjectMeta
  nf_Spec :: "'q NodeFlavorSpec"

definition NodeFlavor_HasGpu :: "'q::linordered_ab_group_add NodeFlavor \<Rightarrow> bool" where
  "NodeFlavor_HasGpu nf \<longleftrightarrow> (case nfs_Gpu (nf_Spec nf) of None \<Rightarrow> False | Some g \<Rightarrow> gpu_Quantity g \<noteq> 0)"

definition GetGpuCount :: "('q, 'z) ext_scheme \<Rightarrow> 'q::linordered_ab_group_add NodeFlavor \<Rightarrow> int" where
  "GetGpuCount E nf =
     (case nfs_Gpu (nf_Spec nf) of None \<Rightarrow> 0 | Some g \<Rightarrow> if NodeFlavor_HasGpu nf then q_Value E (gpu_Quantity g) else 0)"

definition ToResourceList :: "'q::linordered_ab_group_add NodeFlavor \<Rightarrow> string \<Rightarrow> 'q resource_list" where
  "ToResourceList nf rdmaName =
     (let r0 = mput (mput [] ResourceCPU (cpu_Quantity (nfs_Cpu (nf_Spec nf)))) ResourceMemory (nfs_Memory (nf_Spec nf));
          r1 = (case mget (nfs_ExtendResources (nf_Spec nf)) ResourceEphemeralStorage of
                  None \<Rightarrow> r0 | Some storage \<Rightarrow> mput r0 ResourceEphemeralStorage storage);
          r2 = (if rdmaName \<noteq> '''' then
                  (case mget (nfs_ExtendResources (nf_Spec nf)) rdmaName of None \<Rightarrow> r1 | Some rdma \<Rightarrow> mput r1 rdmaName rdma)
                else r1)
      in case nfs_Gpu (nf_Spec nf) of
           None \<Rightarrow> r2
         | Some g \<Rightarrow> if NodeFlavor_HasGpu nf then mput r2 (gpu_ResourceName g) (gpu_Quantity g) else r2)"

section \<open>Facts about the accessors\<close>

lemma IsEnd_iff: "IsEnd w \<longleftrightarrow> IsWorkloadPhaseEnded (w_Phase w) \<or> \<not> time_IsZero (om_DeletionTimestamp (w_Meta w))"
  by (simp add: IsEnd_def)

lemma SetLabel_get [simp]:
  "GetLabel (snd (SetLabel obj k v)) k' = (if k' = k then v else GetLabel obj k')"
  by (simp add: SetLabel_def GetLabel_def)

lemma SetLabel_annotations [simp]:
  "om_Annotations (snd (SetLabel obj k v)) = om_Annotations obj"
  by (simp add: SetLabel_def)

lemma SetLabel_fixes [simp]:
  "om_Name (snd (SetLabel obj k v)) = om_Name obj"
  "om_DeletionTimestamp (snd (SetLabel obj k v)) = om_DeletionTimestamp obj"
  "HasAnnotation (snd (SetLabel obj k v)) a = HasAnnotation obj a"
  by (simp_all add: SetLabel_def HasAnnotation_def)

lemma SetAnnotation_has [simp]:
  "HasAnnotation (snd (SetAnnotation obj k v)) k' \<longleftrightarrow> k' = k \<or> HasAnnotation obj k'"
  by (auto simp: SetAnnotation_def HasAnnotation_def mhas_def)

lemma SetAnnotation_get [simp]:
  "GetAnnotation (snd (SetAnnotation obj k v)) k' = (if k' = k then v else GetAnnotation obj k')"
  by (simp add: SetAnnotation_def GetAnnotation_def)

lemma SetAnnotation_fixes [simp]:
  "om_Name (snd (SetAnnotation obj k v)) = om_Name obj"
  "om_Labels (snd (SetAnnotation obj k v)) = om_Labels obj"
  "om_CreationTimestamp (snd (SetAnnotation obj k v)) = om_CreationTimestamp obj"
  "om_DeletionTimestamp (snd (SetAnnotation obj k v)) = om_DeletionTimestamp obj"
  by (simp_all add: SetAnnotation_def)

lemma RemoveAnnotation_has [simp]:
  "HasAnnotation (snd (RemoveAnnotation obj k)) k' \<longleftrightarrow> k' \<noteq> k \<and> HasAnnotation obj k'"
  by (auto simp: RemoveAnnotation_def HasAnnotation_def)

lemma RemoveAnnotation_fixes [simp]:
  "om_Name (snd (RemoveAnnotation obj k)) = om_Name obj"
  "om_Labels (snd (RemoveAnnotation obj k)) = om_Labels obj"
  "om_CreationTimestamp (snd (RemoveAnnotation obj k)) = om_CreationTimestamp obj"
  "om_DeletionTimestamp (snd (RemoveAnnotation obj k)) = om_DeletionTimestamp obj"
  by (simp_all add: RemoveAnnotation_def)

lemma atoi_itoa: "in_int64 n \<Longrightarrow> atoi (itoa n) = n"
proof -
  assume n: "in_int64 n"
  have "itoa n \<noteq> []" by (simp add: itoa_def nat_digits_nonempty)
  then show ?thesis by (simp add: atoi_def go_atoi_itoa [OF n])
qed

lemma ended_phases [simp]:
  "IsWorkloadPhaseEnded WorkloadSucceeded" "IsWorkloadPhaseEnded WorkloadFailed"
  "IsWorkloadPhaseEnded WorkloadStopped" "\<not> IsWorkloadPhaseEnded WorkloadPending"
  "\<not> IsWorkloadPhaseEnded WorkloadRunning" "\<not> IsWorkloadPhaseEnded []"
  "\<not> IsWorkloadPhaseEnded WorkloadUpdating" "\<not> IsWorkloadPhaseEnded WorkloadNotReady"
  by (simp_all add: IsWorkloadPhaseEnded_def phase_defs)

lemma CheckAvailable_reason: "fst (CheckAvailable n b) \<longleftrightarrow> snd (CheckAvailable n b) = NodeOk"
  by (simp add: CheckAvailable_def Let_def)

lemma IsAvailable_iff:
  "IsAvailable n ignoreTaint \<longleftrightarrow>
     IsMachineReady n \<and> IsManaged n \<and> time_IsZero (om_DeletionTimestamp (n_Meta n)) \<and>
     \<not> nst_Unschedulable (n_Status n) \<and>
     (ignoreTaint \<or> (\<forall>t \<in> set (nst_Taints (n_Status n)). GetIdByTaintKey (taint_Key t) = StickyNodesMonitorId))"
  by (auto simp: IsAvailable_def CheckAvailable_def Let_def filter_empty_conv)

section \<open>Faults\<close>

definition FaultPhaseSucceeded :: string where [api_defs]: "FaultPhaseSucceeded = ''Succeeded''"
definition FaultPhaseFailed :: string where [api_defs]: "FaultPhaseFailed = ''Failed''"

record FaultNode =
  fn_ClusterName :: string
  fn_AdminName :: string

record FaultSpec =
  fs_MonitorId :: string
  fs_Message :: string
  fs_Node :: "FaultNode option"
  fs_Action :: string
  fs_IsAutoRepairEnabled :: bool

record FaultStatus =
  fst_Phase :: string
  fst_UpdateTime :: "gotime option"

record Fault =
  f_Meta :: ObjectMeta
  f_Spec :: FaultSpec
  f_Status :: FaultStatus

definition Fault_IsEnd :: "Fault \<Rightarrow> bool" where
  "Fault_IsEnd f \<longleftrightarrow> fst_Phase (f_Status f) \<noteq> ''''"

section \<open>Resource templates\<close>

record ResourceSpec =
  rs_PrePaths :: "string list"
  rs_TemplatePaths :: "string list"
  rs_ReplicasPaths :: "string list"
  rs_DefaultReplica :: int
  rs_MaxReplicasPaths :: "string list"
  rs_MinReplicasPaths :: "string list"

definition TemplatePath :: "ResourceSpec \<Rightarrow> string list" where
  "TemplatePath t = rs_PrePaths t @ rs_TemplatePaths t"

record PhaseExpression =
  pe_MatchExpressions :: strmap
  pe_Phase :: string

record ResourceStatus =
  rst_PrePaths :: "string list"
  rst_MessagePaths :: "string list"
  rst_ReasonPaths :: "string list"
  rst_Phases :: "PhaseExpression list"

record ActiveReplica =
  ar_PrePaths :: "string list"
  ar_ReplicaPath :: string

record ResourceTemplate =
  rt_Meta :: ObjectMeta
  rt_GVK :: GroupVersionKind
  rt_ResourceSpecs :: "ResourceSpec list"
  rt_ResourceStatus :: ResourceStatus
  rt_ActiveReplica :: ActiveReplica

definition rt_SpecKind :: "ResourceTemplate \<Rightarrow> string" where
  "rt_SpecKind rt = gvk_Kind (rt_GVK rt)"

end
