(* ===== verification/Pod_Rows.thy ===== *)
theory Pod_Rows
  imports Api_Types
begin

text \<open>
  \<^verbatim>\<open>common/pkg/database/client/workload_pod_convert.go\<close>: the rows of the status database that hold the pods
  and the dispatch history of a workload when they are kept out of its status. A null column is
  \<^term>\<open>None\<close>, a nil row pointer too. The encoder and decoder of \<^verbatim>\<open>encoding/json\<close> are the fields of \<open>json_lib\<close>.
\<close>

record json_lib =
  json_Containers :: "Container list \<Rightarrow> goerr + string"
  unjson_Containers :: "string \<Rightarrow> goerr + Container list"
  json_Strings :: "string list \<Rightarrow> goerr + string"
  unjson_Strings :: "string \<Rightarrow> goerr + string list"

record PodRow =
  row_WorkloadId :: string
  row_PodId :: string
  row_ResourceId :: int
  row_AdminNodeName :: "string option"
  row_HostIP :: "string option"
  row_PodIP :: "string option"
  row_Rank :: "string option"
  row_GroupId :: int
  row_Phase :: "string option"
  row_StartTime :: "string option"
  row_EndTime :: "string option"
  row_FailedMessage :: "string option"
  row_Containers :: "string option"
  row_DispatchCount :: int

record WorkloadDispatchNode =
  dn_WorkloadId :: string
  dn_DispatchIndex :: int
  dn_Nodes :: "string option"
  dn_Ranks :: "string option"

definition NullString :: "string \<Rightarrow> string option" where
  "NullString str = (if str = '''' then None else Some str)"

definition ParseNullString :: "string option \<Rightarrow> string" where
  "ParseNullString str = (case str of Some s \<Rightarrow> s | None \<Rightarrow> '''')"

definition WorkloadPodFromV1 :: "json_lib \<Rightarrow> string \<Rightarrow> int \<Rightarrow> WorkloadPod \<Rightarrow> PodRow" where
  "WorkloadPodFromV1 J workloadId dispatchCount p =
     \<lparr>row_WorkloadId = workloadId, row_PodId = pod_PodId p, row_ResourceId = pod_ResourceId p,
      row_AdminNodeName = NullString (pod_AdminNodeName p), row_HostIP = NullString (pod_HostIp p),
      row_PodIP = NullString (pod_PodIp p), row_Rank = NullString (pod_Rank p), row_GroupId = pod_GroupId p,
      row_Phase = NullString (pod_Phase p), row_StartTime = NullString (pod_StartTime p),
      row_EndTime = NullString (pod_EndTime p), row_FailedMessage = NullString (pod_FailedMessage p),
      row_Containers = (if pod_Containers p \<noteq> [] then case json_Containers J (pod_Containers p) of Inl _ \<Rightarrow> None | Inr b \<Rightarrow> NullString b
                        else None),
      row_DispatchCount = dispatchCount\<rparr>"

definition ToV1 :: "json_lib \<Rightarrow> PodRow \<Rightarrow> WorkloadPod" where
  "ToV1 J p =
     \<lparr>pod_PodId = row_PodId p, pod_ResourceId = wrap8 (row_ResourceId p),
      pod_AdminNodeName = ParseNullString (row_AdminNodeName p), pod_Phase = ParseNullString (row_Phase p),
      pod_HostIp = ParseNullString (row_HostIP p), pod_PodIp = ParseNullString (row_PodIP p),
      pod_Rank = ParseNullString (row_Rank p), pod_StartTime = ParseNullString (row_StartTime p),
      pod_EndTime = ParseNullString (row_EndTime p), pod_FailedMessage = ParseNullString (row_FailedMessage p),
      pod_Containers = (let s = ParseNullString (row_Containers p) in
                        if s \<noteq> '''' then case unjson_Containers J s of Inl _ \<Rightarrow> [] | Inr cs \<Rightarrow> cs else []),
      pod_GroupId = wrap8 (row_GroupId p)\<rparr>"

definition WorkloadPodsToV1 :: "json_lib \<Rightarrow> PodRow option list \<Rightarrow> WorkloadPod list" where
  "WorkloadPodsToV1 J rows = List.map_filter (map_option (ToV1 J)) rows"

definition encode_at :: "json_lib \<Rightarrow> string list list \<Rightarrow> nat \<Rightarrow> string option" where
  "encode_at J xs i =
     (if i < length xs then case json_Strings J (xs ! i) of Inl _ \<Rightarrow> None | Inr b \<Rightarrow> NullString b else None)"

definition WorkloadDispatchNodesFromV1 ::
  "json_lib \<Rightarrow> string \<Rightarrow> string list list \<Rightarrow> string list list \<Rightarrow> WorkloadDispatchNode option list" where
  "WorkloadDispatchNodesFromV1 J workloadId nodes ranks =
     (let n = (if length ranks > length nodes then length ranks else length nodes) in
      map (\<lambda>i. Some \<lparr>dn_WorkloadId = workloadId, dn_DispatchIndex = int i,
                       dn_Nodes = encode_at J nodes i, dn_Ranks = encode_at J ranks i\<rparr>) [0..<n])"

definition decodeStringSlice :: "json_lib \<Rightarrow> string option \<Rightarrow> string list" where
  "decodeStringSlice J ns =
     (let s = ParseNullString ns in
      if s = '''' then [] else case unjson_Strings J s of Inl _ \<Rightarrow> [] | Inr out \<Rightarrow> out)"

fun larger_index :: "WorkloadDispatchNode option \<Rightarrow> int \<Rightarrow> int" where
  "larger_index None m = m"
| "larger_index (Some d) m = (if dn_DispatchIndex d > m then dn_DispatchIndex d else m)"

definition max_index :: "WorkloadDispatchNode option list \<Rightarrow> int" where
  "max_index rows = fold larger_index rows (- 1)"

fun put_slot ::
  "(WorkloadDispatchNode \<Rightarrow> string list) \<Rightarrow> int \<Rightarrow> WorkloadDispatchNode option \<Rightarrow> string list list \<Rightarrow> string list list" where
  "put_slot decode maxIdx None out = out"
| "put_slot decode maxIdx (Some d) out =
     (if dn_DispatchIndex d < 0 \<or> dn_DispatchIndex d > maxIdx then out else out[nat (dn_DispatchIndex d) := decode d])"

definition dispatch_slots :: "json_lib \<Rightarrow> (WorkloadDispatchNode \<Rightarrow> string option) \<Rightarrow> WorkloadDispatchNode option list \<Rightarrow> string list list" where
  "dispatch_slots J col rows =
     (let maxIdx = max_index rows in
      if rows = [] \<or> maxIdx < 0 then []
      else fold (put_slot (\<lambda>d. decodeStringSlice J (col d)) maxIdx) rows (replicate (nat (maxIdx + 1)) []))"

definition DispatchNodesToV1 :: "json_lib \<Rightarrow> WorkloadDispatchNode option list \<Rightarrow> string list list" where
  "DispatchNodesToV1 J rows = dispatch_slots J dn_Nodes rows"

definition DispatchRanksToV1 :: "json_lib \<Rightarrow> WorkloadDispatchNode option list \<Rightarrow> string list list" where
  "DispatchRanksToV1 J rows = dispatch_slots J dn_Ranks rows"

definition LatestDispatchNodes :: "json_lib \<Rightarrow> WorkloadDispatchNode option list \<Rightarrow> string list" where
  "LatestDispatchNodes J rows =
     (case fold (\<lambda>r latest. case r of
                              None \<Rightarrow> latest
                            | Some d \<Rightarrow> (case latest of
                                          None \<Rightarrow> Some d
                                        | Some l \<Rightarrow> if dn_DispatchIndex d > dn_DispatchIndex l then Some d else Some l)) rows None of
        None \<Rightarrow> []
      | Some l \<Rightarrow> decodeStringSlice J (dn_Nodes l))"

section \<open>Round trips\<close>

text \<open>The encoder succeeds with a non-empty text that decodes to the value, as \<^verbatim>\<open>encoding/json\<close> does for
  strings in UTF-8.\<close>

definition containers_ok :: "json_lib \<Rightarrow> Container list \<Rightarrow> bool" where
  "containers_ok J cs \<longleftrightarrow> (\<exists>b. json_Containers J cs = Inr b \<and> b \<noteq> [] \<and> unjson_Containers J b = Inr cs)"

definition strings_ok :: "json_lib \<Rightarrow> string list \<Rightarrow> bool" where
  "strings_ok J xs \<longleftrightarrow> (\<exists>b. json_Strings J xs = Inr b \<and> b \<noteq> [] \<and> unjson_Strings J b = Inr xs)"

lemma ParseNullString_NullString [simp]: "ParseNullString (NullString s) = s"
  by (simp add: ParseNullString_def NullString_def)

lemma ToV1_FromV1:
  assumes "pod_Containers p \<noteq> [] \<longrightarrow> containers_ok J (pod_Containers p)"
    and "-128 \<le> pod_ResourceId p" "pod_ResourceId p < 128" "-128 \<le> pod_GroupId p" "pod_GroupId p < 128"
  shows "ToV1 J (WorkloadPodFromV1 J w c p) = p"
proof -
  have "(let s = ParseNullString (row_Containers (WorkloadPodFromV1 J w c p)) in
          if s \<noteq> '''' then case unjson_Containers J s of Inl _ \<Rightarrow> [] | Inr cs \<Rightarrow> cs else []) = pod_Containers p"
    using assms(1) by (cases "pod_Containers p = []") (auto simp: WorkloadPodFromV1_def containers_ok_def Let_def ParseNullString_def [of None])
  then show ?thesis using assms(2-) by (cases p) (simp add: ToV1_def WorkloadPodFromV1_def wrap8_id)
qed

lemma decode_encode:
  assumes "\<forall>x \<in> set xs. strings_ok J x"
  shows "decodeStringSlice J (encode_at J xs i) = (if i < length xs then xs ! i else [])"
proof (cases "i < length xs")
  case True
  then obtain b where "json_Strings J (xs ! i) = Inr b" "b \<noteq> []" "unjson_Strings J b = Inr (xs ! i)"
    using assms nth_mem [of i xs] unfolding strings_ok_def by blast
  then show ?thesis using True by (simp add: decodeStringSlice_def encode_at_def)
qed (simp add: decodeStringSlice_def encode_at_def ParseNullString_def)

lemma fold_larger_index:
  "k \<le> fold larger_index rows k \<and> (\<forall>d. Some d \<in> set rows \<longrightarrow> dn_DispatchIndex d \<le> fold larger_index rows k) \<and>
   (fold larger_index rows k = k \<or> (\<exists>d. Some d \<in> set rows \<and> fold larger_index rows k = dn_DispatchIndex d))"
proof (induction rows arbitrary: k)
  case (Cons r rows)
  note IH = Cons [of "larger_index r k"]
  have "k \<le> larger_index r k" "larger_index r k = k \<or> (\<exists>d. r = Some d \<and> larger_index r k = dn_DispatchIndex d)"
    "\<forall>d. r = Some d \<longrightarrow> dn_DispatchIndex d \<le> larger_index r k" by (cases r; simp)+
  with IH show ?case by (auto simp del: larger_index.simps intro: order_trans)
qed simp

text \<open>Rows with indices below \<open>n\<close>, in any order, each with the value of its index.\<close>

lemma fold_slots:
  assumes "\<And>d. Some d \<in> set rows \<Longrightarrow> 0 \<le> dn_DispatchIndex d \<and> dn_DispatchIndex d < int n \<and> g d = f (nat (dn_DispatchIndex d))"
    and "length out = n"
  shows "length (fold (put_slot g (int n - 1)) rows out) = n \<and>
         (\<forall>i < n. fold (put_slot g (int n - 1)) rows out ! i =
            (if \<exists>d. Some d \<in> set rows \<and> dn_DispatchIndex d = int i then f i else out ! i))"
  using assms
proof (induction rows arbitrary: out)
  case (Cons r rows)
  let ?out = "put_slot g (int n - 1) r out"
  have len: "length ?out = n" using Cons.prems(2) by (cases r) auto
  have out: "?out ! i = (if \<exists>d. r = Some d \<and> dn_DispatchIndex d = int i then f i else out ! i)" if "i < n" for i
    using Cons.prems that by (cases r) (auto simp: nth_list_update)
  show ?case using Cons.IH [OF _ len] Cons.prems(1) out by auto
qed simp

definition padded :: "nat \<Rightarrow> string list list \<Rightarrow> string list list" where
  "padded n xs = xs @ replicate (n - length xs) []"

lemma dispatch_slots_rows:
  assumes "set rows = set (WorkloadDispatchNodesFromV1 J w nodes ranks)"
    and "\<And>d i. Some d \<in> set rows \<Longrightarrow> dn_DispatchIndex d = int i \<Longrightarrow> decodeStringSlice J (col d) = (if i < length xs then xs ! i else [])"
    and "length xs \<le> max (length nodes) (length ranks)"
  shows "dispatch_slots J col rows = padded (max (length nodes) (length ranks)) xs"
proof -
  let ?n = "max (length nodes) (length ranks)"
  have n: "(if length ranks > length nodes then length ranks else length nodes) = ?n" by simp
  have idx: "Some d \<in> set rows \<Longrightarrow> 0 \<le> dn_DispatchIndex d \<and> dn_DispatchIndex d < int ?n" for d
    using assms(1) by (auto simp: WorkloadDispatchNodesFromV1_def n simp del: max_less_iff_conj)
  have all: "\<exists>d. Some d \<in> set rows \<and> dn_DispatchIndex d = int i" if "i < ?n" for i
    unfolding assms(1) WorkloadDispatchNodesFromV1_def n using that by (force simp: image_iff)
  have m: "max_index rows = int ?n - 1"
  proof (cases "?n = 0")
    case True
    then have "rows = []" using assms(1) by (auto simp: WorkloadDispatchNodesFromV1_def)
    then show ?thesis using True by (simp add: max_index_def)
  next
    case False
    then obtain d where "Some d \<in> set rows" "dn_DispatchIndex d = int (?n - 1)" using all [of "?n - 1"] by (metis diff_less not_gr0 zero_less_one)
    then have "int ?n - 1 \<le> max_index rows" using fold_larger_index [of "- 1" rows] False by (auto simp: max_index_def of_nat_diff)
    moreover have "max_index rows \<le> int ?n - 1" using fold_larger_index [of "- 1" rows] idx False by (auto simp: max_index_def)
    ultimately show ?thesis by simp
  qed
  show ?thesis
  proof (cases "?n = 0")
    case True
    then show ?thesis using assms(3) m by (simp add: dispatch_slots_def padded_def)
  next
    case False
    then have ne: "rows \<noteq> []" using all [of 0] by (metis empty_iff empty_set not_gr0)
    let ?f = "\<lambda>i. if i < length xs then xs ! i else []"
    have "0 \<le> dn_DispatchIndex d \<and> dn_DispatchIndex d < int ?n \<and> decodeStringSlice J (col d) = ?f (nat (dn_DispatchIndex d))"
      if "Some d \<in> set rows" for d using idx [OF that] assms(2) [OF that, of "nat (dn_DispatchIndex d)"] by simp
    from fold_slots [where g = "\<lambda>d. decodeStringSlice J (col d)" and rows = rows and out = "replicate ?n []", OF this] all
    have "length (dispatch_slots J col rows) = ?n" "\<And>i. i < ?n \<Longrightarrow> dispatch_slots J col rows ! i = ?f i"
      using ne False by (simp_all add: dispatch_slots_def m Let_def) blast
    then show ?thesis using assms(3) by (intro nth_equalityI) (auto simp: padded_def nth_append)
  qed
qed

text \<open>What the status database holds of a workload is what was written: a pod row decodes to the pod it was
  made from, and from the rows of the dispatch history, read back in any order, one gets the lists of nodes and
  ranks, each filled up with empty entries to the longer of the two.\<close>

lemma status_rows_roundtrip:
  assumes "pod_Containers p \<noteq> [] \<longrightarrow> containers_ok J (pod_Containers p)"
    and "-128 \<le> pod_ResourceId p" "pod_ResourceId p < 128" "-128 \<le> pod_GroupId p" "pod_GroupId p < 128"
    and "set rows = set (WorkloadDispatchNodesFromV1 J w nodes ranks)"
    and "\<forall>x \<in> set (nodes @ ranks). strings_ok J x"
  shows "ToV1 J (WorkloadPodFromV1 J w c p) = p \<and>
         DispatchNodesToV1 J rows = padded (max (length nodes) (length ranks)) nodes \<and>
         DispatchRanksToV1 J rows = padded (max (length nodes) (length ranks)) ranks"
proof -
  have row: "dn_Nodes d = encode_at J nodes i \<and> dn_Ranks d = encode_at J ranks i"
    if "Some d \<in> set rows" "dn_DispatchIndex d = int i" for d i
    using that assms(6) by (auto simp: WorkloadDispatchNodesFromV1_def Let_def)
  have "dispatch_slots J dn_Nodes rows = padded (max (length nodes) (length ranks)) nodes"
    using row decode_encode [of nodes J] assms(7) by (intro dispatch_slots_rows [OF assms(6)]) auto
  moreover have "dispatch_slots J dn_Ranks rows = padded (max (length nodes) (length ranks)) ranks"
    using row decode_encode [of ranks J] assms(7) by (intro dispatch_slots_rows [OF assms(6)]) auto
  ultimately show ?thesis using ToV1_FromV1 [OF assms(1-5)] by (simp add: DispatchNodesToV1_def DispatchRanksToV1_def)
qed

section \<open>Witness\<close>

text \<open>A codec for the witness: two pods' worth of texts with fixed encodings.\<close>

definition sample_codec :: json_lib where
  "sample_codec =
     \<lparr>json_Containers = (\<lambda>cs. if cs = [] then Inr ''[]'' else Inl (plain_error ''unsupported'')), unjson_Containers = (\<lambda>_. Inr []),
      json_Strings = (\<lambda>xs. if xs = [''n1''] then Inr ''[n1]'' else if xs = [''0''] then Inr ''[0]'' else Inr ''[]''),
      unjson_Strings = (\<lambda>s. if s = ''[n1]'' then Inr [''n1''] else if s = ''[0]'' then Inr [''0''] else Inr [])\<rparr>"

lemma status_rows_roundtrip_witness:
  "DispatchNodesToV1 sample_codec (rev (WorkloadDispatchNodesFromV1 sample_codec ''w'' [[''n1''], []] [[''0'']])) = [[''n1''], []] \<and>
   DispatchRanksToV1 sample_codec (rev (WorkloadDispatchNodesFromV1 sample_codec ''w'' [[''n1''], []] [[''0'']])) = [[''0''], []]"
proof -
  let ?p = "\<lparr>pod_PodId = ''p'', pod_ResourceId = -1, pod_AdminNodeName = ''n1'', pod_Phase = [], pod_HostIp = [], pod_PodIp = [],
     pod_Rank = [], pod_StartTime = [], pod_EndTime = [], pod_FailedMessage = [], pod_Containers = [], pod_GroupId = -1\<rparr>"
  have "\<forall>x \<in> set ([[''n1''], []] @ [[''0'']]). strings_ok sample_codec x" by (simp add: strings_ok_def sample_codec_def)
  then show ?thesis
    using status_rows_roundtrip [of ?p sample_codec "rev (WorkloadDispatchNodesFromV1 sample_codec ''w'' [[''n1''], []] [[''0'']])"
        "''w''" "[[''n1''], []]" "[[''0'']]"] by (simp add: padded_def)
qed

end
