(* ===== verification/Env.thy ===== *)
theory Env
  imports Pod_Rows
begin

text \<open>
  What surrounds the controllers: the Kubernetes API server behind \<^verbatim>\<open>client.Client\<close>, the clock and
  the time formats of \<^verbatim>\<open>time\<close>, as fields of the parameter \<open>env\<close>. Reads may depend on the
  writes made so far (a log of every write with its outcome), and the outcome of a write is
  arbitrary: every theorem that does not restrict these fields holds for every behaviour of the
  server. A successful write leaves the caller's in-memory object as the caller has patched it.
  \<open>PlaneDelete\<close> is a deletion in a data-plane cluster: resource, namespace, name, grace period and
  propagation policy; \<open>PlaneClearFinalizers\<close> the patch that empties the finalizers of an object there;
  the \<open>Db\<close> writes are rows of the status database.
\<close>

datatype apiwrite =
    PatchStatus Workload
  | UpdateStatus Workload
  | PatchMeta Workload
  | PatchFinalizers Workload
  | PatchWorkspaceMeta ObjectMeta
  | DeleteWorkload string
  | DeleteSecret string
  | PlaneDelete string string string "int option" string
  | PlaneClearFinalizers string string string
  | CreateFault Fault
  | DeleteFault string
  | DbUpsertPods "PodRow list"
  | DbDeletePodsNotIn string "string list"
  | DbUpsertDispatchNode WorkloadDispatchNode

type_synonym wlog = "(apiwrite \<times> goerr option) list"

record Secret =
  secret_Meta :: ObjectMeta

record 'q env = "'q ext" +
  now :: gotime
  time_Parse :: "string \<Rightarrow> string \<Rightarrow> goerr + gotime"
  time_Format :: "string \<Rightarrow> gotime \<Rightarrow> string"
  time_String :: "gotime \<Rightarrow> string"
  meta_SetStatusCondition :: "Condition list \<Rightarrow> Condition \<Rightarrow> bool \<times> Condition list"
  write_result :: "wlog \<Rightarrow> apiwrite \<Rightarrow> goerr option"
  get_Workload :: "wlog \<Rightarrow> string \<Rightarrow> goerr + Workload"
  get_Workspace :: "wlog \<Rightarrow> string \<Rightarrow> goerr + 'q Workspace"
  get_Node :: "wlog \<Rightarrow> string \<Rightarrow> goerr + 'q Node"
  get_NodeFlavor :: "wlog \<Rightarrow> string \<Rightarrow> goerr + 'q NodeFlavor"
  list_Workloads :: "wlog \<Rightarrow> (Workload \<Rightarrow> bool) \<Rightarrow> goerr + Workload list"
  list_Workspaces :: "wlog \<Rightarrow> (ObjectMeta \<Rightarrow> bool) \<Rightarrow> goerr + 'q Workspace list"
  list_ResourceTemplates :: "wlog \<Rightarrow> (ObjectMeta \<Rightarrow> bool) \<Rightarrow> goerr + ResourceTemplate list"
  list_ConfigMaps :: "wlog \<Rightarrow> (ObjectMeta \<Rightarrow> bool) \<Rightarrow> goerr + ObjectMeta list"
  list_Secrets :: "wlog \<Rightarrow> (ObjectMeta \<Rightarrow> bool) \<Rightarrow> goerr + Secret list"

definition do_write :: "('q, 'z) env_scheme \<Rightarrow> wlog \<Rightarrow> apiwrite \<Rightarrow> goerr option \<times> wlog" where
  "do_write E lg wr = (let r = write_result E lg wr in (r, lg @ [(wr, r)]))"

text \<open>The writes that took effect; the log of another process has its own type of writes.\<close>

definition effective :: "('w \<times> goerr option) list \<Rightarrow> 'w list" where
  "effective lg = map fst (filter (\<lambda>e. snd e = None) lg)"

text \<open>Label selectors.\<close>

definition label_is :: "string \<Rightarrow> string \<Rightarrow> ObjectMeta \<Rightarrow> bool" where
  "label_is key val obj \<longleftrightarrow> mget (om_Labels obj) key = Some val"

definition label_in :: "string \<Rightarrow> string list \<Rightarrow> ObjectMeta \<Rightarrow> bool" where
  "label_in key vals obj \<longleftrightarrow> (case mget (om_Labels obj) key of None \<Rightarrow> False | Some v \<Rightarrow> v \<in> set vals)"

lemma effective_do_write [simp]:
  "effective (snd (do_write E lg wr)) = effective lg @ (if fst (do_write E lg wr) = None then [wr] else [])"
  by (simp add: do_write_def effective_def Let_def)

lemma effective_Nil [simp]: "effective [] = []"
  by (simp add: effective_def)

lemma fst_do_write: "fst (do_write E lg wr) = write_result E lg wr"
  by (simp add: do_write_def Let_def)

lemma do_write_cases:
  "do_write E lg wr = (r, lg') \<Longrightarrow> lg' = lg @ [(wr, r)] \<and> r = write_result E lg wr"
  by (auto simp: do_write_def Let_def)

text \<open>A call that only appends writes of a certain kind to the log.\<close>

definition writes_only :: "('w \<Rightarrow> bool) \<Rightarrow> ('w \<times> goerr option) list \<Rightarrow> ('w \<times> goerr option) list \<Rightarrow> bool" where
  "writes_only A lg lg' \<longleftrightarrow> (\<exists>l. lg' = lg @ l \<and> (\<forall>x \<in> set l. A (fst x)))"

lemma writes_only_refl [simp, intro]: "writes_only A lg lg"
  by (simp add: writes_only_def)

lemma writes_only_trans: "writes_only A lg lg1 \<Longrightarrow> writes_only A lg1 lg2 \<Longrightarrow> writes_only A lg lg2"
  by (force simp: writes_only_def)

lemma writes_only_do_write: "do_write E lg a = (r, lg') \<Longrightarrow> A a \<Longrightarrow> writes_only A lg lg'"
  by (auto simp: writes_only_def dest!: do_write_cases)

lemma writes_only_snoc [simp]: "writes_only A lg (lg @ [(a, r)]) \<longleftrightarrow> A a"
  by (auto simp: writes_only_def)

lemma writes_only_mono: "writes_only A lg lg' \<Longrightarrow> (\<And>a. A a \<Longrightarrow> B a) \<Longrightarrow> writes_only B lg lg'"
  by (force simp: writes_only_def)

end
