(* ===== verification/Collections.thy ===== *)
theory Collections
  imports Go_Float
begin

text \<open>
  The utility packages under \<^verbatim>\<open>utils/pkg\<close>: string sets, slices of strings, string maps, name
  normalisation, durations and the conflict retry loop. Each is related to the mathematical object
  it stands for: finite sets, multisets, partial maps.
\<close>

section \<open>Sets of strings\<close>

text \<open>A \<^verbatim>\<open>Set\<close> is a map to the empty struct, so the list of its keys without duplicates.\<close>

type_synonym strset = "(string, unit) gomap"

definition set_New :: strset where
  "set_New = []"

definition set_Insert :: "string list \<Rightarrow> strset \<Rightarrow> strset" where
  "set_Insert keys s = fold (\<lambda>key s. mput s key ()) keys s"

definition NewSetByKeys :: "string list \<Rightarrow> strset" where
  "NewSetByKeys keys = set_Insert keys set_New"

definition set_Delete :: "string list \<Rightarrow> strset \<Rightarrow> strset" where
  "set_Delete keys s = fold (\<lambda>key s. mdel s key) keys s"

definition set_Has :: "strset \<Rightarrow> string \<Rightarrow> bool" where
  "set_Has s key \<longleftrightarrow> mhas s key"

definition set_Len :: "strset \<Rightarrow> int" where
  "set_Len s = int (length s)"

definition set_UnsortedList :: "strset \<Rightarrow> string list" where
  "set_UnsortedList s = map fst s"

definition set_Clear :: "strset \<Rightarrow> strset" where
  "set_Clear s = set_Delete (set_UnsortedList s) s"

definition set_Clone :: "strset \<Rightarrow> strset" where
  "set_Clone s = set_Insert (map fst s) []"

definition set_Difference :: "strset \<Rightarrow> strset \<Rightarrow> strset" where
  "set_Difference s s2 = set_Insert (filter (\<lambda>key. \<not> set_Has s2 key) (map fst s)) set_New"

definition set_Union :: "strset \<Rightarrow> strset \<Rightarrow> strset" where
  "set_Union s s2 = set_Insert (map fst s2) (set_Clone s)"

definition set_Intersection :: "strset \<Rightarrow> strset \<Rightarrow> strset" where
  "set_Intersection s s2 =
     (if set_Len s < set_Len s2
      then set_Insert (filter (set_Has s2) (map fst s)) set_New
      else set_Insert (filter (set_Has s) (map fst s2)) set_New)"

definition set_Equal :: "strset \<Rightarrow> strset \<Rightarrow> bool" where
  "set_Equal s s2 \<longleftrightarrow> (if length s \<noteq> length s2 then False else list_all (set_Has s) (map fst s2))"

section \<open>Slices of strings\<close>

definition slice_Contains :: "'a list \<Rightarrow> 'a \<Rightarrow> bool" where
  "slice_Contains s v \<longleftrightarrow> list_ex (\<lambda>elem. elem = v) s"

definition ContainsStrings :: "string list \<Rightarrow> string list \<Rightarrow> bool" where
  "ContainsStrings slice1 slice2 \<longleftrightarrow>
     (if length slice1 = 0 then False
      else if length slice2 = 0 then False
      else if length slice2 = 1 then slice_Contains slice1 (slice2 ! 0)
      else list_all (set_Has (set_Insert slice1 set_New)) slice2)"

fun take_off :: "(string, int) gomap \<Rightarrow> string list \<Rightarrow> bool" where
  "take_off rec [] = True"
| "take_off rec (val # vals) =
     (if \<not> mhas rec val then False
      else let n = mget0 0 rec val - 1;
               rec1 = mput rec val n
           in take_off (if n = 0 then mdel rec1 val else rec1) vals)"

definition EqualIgnoreOrder :: "string list \<Rightarrow> string list \<Rightarrow> bool" where
  "EqualIgnoreOrder slice1 slice2 \<longleftrightarrow>
     (if length slice1 \<noteq> length slice2 then False
      else if length slice1 = 0 then True
      else take_off (fold (\<lambda>val rec. mput rec val (mget0 0 rec val + 1)) slice1 []) slice2)"

definition RemoveString :: "string list \<Rightarrow> string \<Rightarrow> string list \<times> bool" where
  "RemoveString slice s = (filter (\<lambda>item. item \<noteq> s) slice, list_ex (\<lambda>item. item = s) slice)"

definition RemoveStrings :: "string list \<Rightarrow> string list \<Rightarrow> string list \<times> bool" where
  "RemoveStrings slice1 slice2 =
     (if length slice2 = 0 then (slice1, False)
      else if length slice2 = 1 then RemoveString slice1 (slice2 ! 0)
      else let slice2Set = set_Insert slice2 set_New
           in (filter (\<lambda>item. \<not> set_Has slice2Set item) slice1, list_ex (set_Has slice2Set) slice1))"

definition AddAndDelDuplicates :: "string list \<Rightarrow> string list \<Rightarrow> string list \<times> bool" where
  "AddAndDelDuplicates slice1 slice2 =
     (let slice1Set = set_Insert slice1 set_New;
          added = filter (\<lambda>s. \<not> set_Has slice1Set s) slice2
      in (slice1 @ added, added \<noteq> []))"

definition slice_Copy :: "string list \<Rightarrow> int \<Rightarrow> string list" where
  "slice_Copy slice n = (if n < 0 then [] else if length slice = 0 then [] else take (nat n) slice)"

definition slice_Difference :: "string list \<Rightarrow> string list \<Rightarrow> string list" where
  "slice_Difference slice1 slice2 =
     (if length slice1 = 0 then []
      else filter (\<lambda>str. \<not> set_Has (set_Insert slice2 set_New) str) slice1)"

section \<open>String maps\<close>

definition maps_Difference :: "strmap \<Rightarrow> strmap \<Rightarrow> strmap" where
  "maps_Difference m1 m2 = filter (\<lambda>kv. \<not> mhas m2 (fst kv)) m1"

definition maps_Append :: "strmap \<Rightarrow> strmap \<Rightarrow> bool \<Rightarrow> strmap" where
  "maps_Append m1 m2 overwrite =
     fold (\<lambda>(key, val) m. if mhas m key \<and> \<not> overwrite then m else mput m key val) m2 m1"

definition maps_EqualIgnoreOrder :: "strmap \<Rightarrow> strmap \<Rightarrow> bool" where
  "maps_EqualIgnoreOrder m1 m2 \<longleftrightarrow>
     (if length m1 \<noteq> length m2 then False
      else list_all (\<lambda>(key, val). mget m2 key = Some val) m1)"

definition CompareWithKeys :: "strmap \<Rightarrow> strmap \<Rightarrow> string list \<Rightarrow> bool" where
  "CompareWithKeys m1 m2 keys \<longleftrightarrow> list_all (\<lambda>key. mget m1 key = mget m2 key) keys"

definition maps_Contain :: "strmap \<Rightarrow> strmap \<Rightarrow> bool" where
  "maps_Contain m1 m2 \<longleftrightarrow>
     (if length m2 = 0 then length m1 = 0
      else list_all (\<lambda>(key, val). mget m1 key = Some val) m2)"

definition maps_Copy :: "strmap \<Rightarrow> string list \<Rightarrow> strmap" where
  "maps_Copy m ignoreKeys = filter (\<lambda>kv. fst kv \<notin> set ignoreKeys) m"

definition RemoveValue :: "strmap \<Rightarrow> string \<Rightarrow> strmap" where
  "RemoveValue m val = filter (\<lambda>kv. snd kv \<noteq> val) m"

section \<open>Names\<close>

text \<open>Strings are ASCII; every other byte would be dropped by the filter of \<^verbatim>\<open>NormalizeForDNS\<close>.\<close>

definition NormalizeName :: "string \<Rightarrow> string" where
  "NormalizeName str =
     (if str = '''' then ''''
      else filter (\<lambda>c. c \<noteq> char_of (10::nat) \<and> c \<noteq> char_of (13::nat))
             (map (\<lambda>c. if c = CHR ''_'' then CHR ''-'' else c) (trim_space (to_lower str))))"

definition dns_replace :: "char \<Rightarrow> char" where
  "dns_replace c = (if c \<in> set ''/:._ '' then CHR ''-'' else c)"

definition dns_char :: "char \<Rightarrow> bool" where
  "dns_char c \<longleftrightarrow> (CHR ''a'' \<le> c \<and> c \<le> CHR ''z'') \<or> is_digit c \<or> c = CHR ''-''"

text \<open>\<^verbatim>\<open>strings.ReplaceAll(s, "--", "-")\<close>, and the loop that repeats it while a pair of dashes is left.\<close>

fun replace_dashes :: "string \<Rightarrow> string" where
  "replace_dashes (a # b # cs) =
     (if a = CHR ''-'' \<and> b = CHR ''-'' then CHR ''-'' # replace_dashes cs else a # replace_dashes (b # cs))"
| "replace_dashes cs = cs"

lemma length_replace_dashes: "length (replace_dashes s) \<le> length s"
  by (induction s rule: replace_dashes.induct) auto

lemma length_replace_dashes_less:
  "str_contains s ''--'' \<Longrightarrow> length (replace_dashes s) < length s"
proof (induction s rule: replace_dashes.induct)
  case (1 a b cs)
  then show ?case
    using length_replace_dashes [of cs] by (auto split: if_splits)
qed auto

function collapse_dashes :: "string \<Rightarrow> string" where
  "collapse_dashes s = (if str_contains s ''--'' then collapse_dashes (replace_dashes s) else s)"
  by pat_completeness auto
termination
  by (relation "measure length") (auto simp: length_replace_dashes_less)

declare collapse_dashes.simps [simp del]

definition trim_dashes :: "string \<Rightarrow> string" where
  "trim_dashes s = rev (dropWhile (\<lambda>c. c = CHR ''-'') (rev (dropWhile (\<lambda>c. c = CHR ''-'') s)))"

definition trim_suffix_dash :: "string \<Rightarrow> string" where
  "trim_suffix_dash s = (if s \<noteq> [] \<and> last s = CHR ''-'' then butlast s else s)"

definition NormalizeForDNS :: "string \<Rightarrow> string" where
  "NormalizeForDNS s =
     (let r1 = map dns_replace (to_lower s);
          r2 = filter dns_char r1;
          r3 = collapse_dashes r2;
          r4 = trim_dashes r3;
          r5 = (if r4 \<noteq> [] \<and> is_digit (hd r4) then CHR ''n'' # r4 else r4);
          r6 = (if length r5 > 45 then trim_suffix_dash (take 45 r5) else r5)
      in if r6 = '''' then ''model'' else r6)"

definition StrCaseEqual :: "string \<Rightarrow> string \<Rightarrow> bool" where
  "StrCaseEqual str1 str2 \<longleftrightarrow> to_lower str1 = to_lower str2"

definition ExtractNumber :: "string \<Rightarrow> int" where
  "ExtractNumber s = (case go_atoi (filter is_digit s) of None \<Rightarrow> 0 | Some num \<Rightarrow> num)"

definition str_Split :: "string \<Rightarrow> char \<Rightarrow> string list" where
  "str_Split str sep =
     (if length str = 0 then []
      else filter (\<lambda>s. s \<noteq> '''') (map trim_space (go_split sep str)))"

section \<open>Durations\<close>

text \<open>
  \<^verbatim>\<open>FormatDuration\<close>. The conversion to a \<^verbatim>\<open>time.Duration\<close> wraps at 64 bits; for the durations the
  accessors \<^verbatim>\<open>Hours\<close>, \<^verbatim>\<open>Minutes\<close> and \<^verbatim>\<open>Seconds\<close> truncate to, a whole number of seconds, the
  floating-point detour is exact below \<open>2\<^sup>5\<^sup>3\<close> seconds, which every wrapped value is.
\<close>

definition FormatDuration :: "int \<Rightarrow> string" where
  "FormatDuration seconds =
     (if seconds < 0 then ''''
      else
        let d = wrap64 (seconds * 1000000000);
            hours = (if 0 \<le> d then d div 3600000000000 else - (- d div 3600000000000));
            minutes = (if 0 \<le> d then (d div 60000000000) mod 60 else - ((- d div 60000000000) mod 60));
            secs = (if 0 \<le> d then (d div 1000000000) mod 60 else - ((- d div 1000000000) mod 60));
            p1 = (if hours > 0 then itoa hours @ ''h'' else '''');
            p2 = (if minutes > 0 then itoa minutes @ ''m'' else '''');
            p3 = (if secs > 0 \<or> (p1 = '''' \<and> p2 = '''') then itoa secs @ ''s'' else '''')
        in p1 @ p2 @ p3)"

section \<open>Retries\<close>

text \<open>
  \<^verbatim>\<open>ConflictRetry\<close>: the operation runs at most \<open>count\<close> times on a state, again only after a
  conflict. The first argument recognises conflict errors.
\<close>

fun ConflictRetry :: "(goerr \<Rightarrow> bool) \<Rightarrow> nat \<Rightarrow> ('s \<Rightarrow> goerr option \<times> 's) \<Rightarrow> 's \<Rightarrow> goerr option \<times> 's" where
  "ConflictRetry isConflict 0 op s = (None, s)"
| "ConflictRetry isConflict (Suc n) op s =
     (case op s of
        (None, s') \<Rightarrow> (None, s')
      | (Some e, s') \<Rightarrow> if n = 0 \<or> \<not> isConflict e then (Some e, s') else ConflictRetry isConflict n op s')"

section \<open>Sets refine finite sets\<close>

definition set_of :: "strset \<Rightarrow> string set" where
  "set_of s = {k. set_Has s k}"

lemma set_Has_Insert [simp]: "set_Has (set_Insert keys s) k \<longleftrightarrow> k \<in> set keys \<or> set_Has s k"
  by (induction keys arbitrary: s) (auto simp: set_Insert_def set_Has_def)

lemma wf_set_Insert [simp, intro]: "wf_map s \<Longrightarrow> wf_map (set_Insert keys s)"
  by (induction keys arbitrary: s) (auto simp: set_Insert_def)

lemma set_Has_New [simp]: "\<not> set_Has set_New k"
  by (simp add: set_Has_def set_New_def)

lemma set_Has_Nil [simp]: "\<not> set_Has [] k"
  by (simp add: set_Has_def)

lemma wf_set_New [simp, intro]: "wf_map set_New"
  by (simp add: set_New_def)

lemma set_Has_keys: "k \<in> fst ` set s \<longleftrightarrow> set_Has s k"
  by (simp add: set_Has_def mhas_iff)

lemma set_Has_Delete [simp]: "set_Has (set_Delete keys s) k \<longleftrightarrow> set_Has s k \<and> k \<notin> set keys"
  by (induction keys arbitrary: s) (auto simp: set_Delete_def set_Has_def)

lemma wf_set_Delete [simp, intro]: "wf_map s \<Longrightarrow> wf_map (set_Delete keys s)"
  by (induction keys arbitrary: s) (auto simp: set_Delete_def)

lemma set_Len_card: "wf_map s \<Longrightarrow> set_Len s = int (card (set_of s))"
  by (simp add: set_Len_def set_of_def length_gomap set_Has_def mhas_def dom_def)

text \<open>The contract of a set of keys, and its implementation by Go maps.\<close>

locale string_set =
  fixes has :: "'s \<Rightarrow> string \<Rightarrow> bool" and ins :: "string list \<Rightarrow> 's \<Rightarrow> 's" and emp :: 's and inv :: "'s \<Rightarrow> bool"
    and len :: "'s \<Rightarrow> int"
  assumes has_emp: "\<not> has emp k"
    and has_ins: "has (ins ks s) k \<longleftrightarrow> k \<in> set ks \<or> has s k"
    and inv_emp: "inv emp"
    and inv_ins: "inv s \<Longrightarrow> inv (ins ks s)"
    and len_card: "inv s \<Longrightarrow> len s = int (card {k. has s k})"
begin

lemma has_of_list: "has (ins ks emp) k \<longleftrightarrow> k \<in> set ks"
  by (simp add: has_ins has_emp)

lemma len_of_list: "len (ins ks emp) = int (card (set ks))"
  by (simp add: len_card inv_ins inv_emp has_of_list)

lemma distinct_len: "distinct ks \<Longrightarrow> len (ins ks emp) = int (length ks)"
  by (simp add: len_of_list distinct_card)

end

interpretation gs: string_set set_Has set_Insert set_New wf_map set_Len
  by unfold_locales (auto simp: set_Len_card set_of_def)

text \<open>The string sets behave as finite sets: membership after union, intersection and difference
  is the corresponding Boolean combination, the length is the number of members, and
  \<^verbatim>\<open>Equal\<close> decides whether two sets have the same members.\<close>

lemma sets_refine_finite_sets:
  assumes "wf_map s" and "wf_map s2"
  shows "set_of (set_Union s s2) = set_of s \<union> set_of s2 \<and>
         set_of (set_Intersection s s2) = set_of s \<inter> set_of s2 \<and>
         set_of (set_Difference s s2) = set_of s - set_of s2 \<and>
         set_of (set_Clear s) = {} \<and>
         set_Len s = int (card (set_of s)) \<and>
         (set_Equal s s2 \<longleftrightarrow> set_of s = set_of s2)"
proof -
  have fin: "finite (set_of t)" for t
    by (rule finite_subset [of _ "fst ` set t"]) (auto simp: set_of_def set_Has_keys)
  have len: "length t = card (set_of t)" if "wf_map t" for t
    using set_Len_card [OF that] by (simp add: set_Len_def)
  have sub: "list_all (set_Has s) (map fst s2) \<longleftrightarrow> set_of s2 \<subseteq> set_of s"
    by (auto simp: list_all_iff set_of_def set_Has_keys [symmetric])
  have "set_Equal s s2 \<longleftrightarrow> set_of s = set_of s2"
    unfolding set_Equal_def sub len [OF assms(1)] len [OF assms(2)]
    using card_subset_eq [OF fin [of s], of "set_of s2"] by auto
  moreover have "set_of (set_Union s s2) = set_of s \<union> set_of s2"
    by (auto simp: set_of_def set_Union_def set_Clone_def set_Has_keys)
  moreover have "set_of (set_Intersection s s2) = set_of s \<inter> set_of s2"
    by (auto simp: set_of_def set_Intersection_def set_Has_keys)
  moreover have "set_of (set_Difference s s2) = set_of s - set_of s2"
    by (auto simp: set_of_def set_Difference_def set_Has_keys)
  moreover have "set_of (set_Clear s) = {}"
    by (auto simp: set_of_def set_Clear_def set_UnsortedList_def set_Has_keys)
  ultimately show ?thesis using set_Len_card [OF assms(1)] by blast
qed

lemma sets_refine_finite_sets_witness:
  "set_Equal [(''a'', ()), (''b'', ())] [(''b'', ()), (''a'', ())] \<longleftrightarrow>
     set_of [(''a'', ()), (''b'', ())] = set_of [(''b'', ()), (''a'', ())]"
  using sets_refine_finite_sets [of "[(''a'', ()), (''b'', ())]" "[(''b'', ()), (''a'', ())]"]
  by simp

section \<open>Slices as multisets\<close>

definition counts :: "(string, int) gomap \<Rightarrow> string multiset \<Rightarrow> bool" where
  "counts rec M \<longleftrightarrow> (\<forall>x. mget rec x = (if x \<in># M then Some (int (count M x)) else None))"

lemma counts_fold:
  "counts rec M \<Longrightarrow> counts (fold (\<lambda>val rec. mput rec val (mget0 0 rec val + 1)) xs rec) (M + mset xs)"
proof (induction xs arbitrary: rec M)
  case (Cons x xs)
  have "counts (mput rec x (mget0 0 rec x + 1)) (add_mset x M)"
    using Cons.prems by (auto simp: counts_def mget0_def not_in_iff)
  from Cons.IH [OF this] show ?case by simp
qed simp

lemma take_off_iff: "counts rec M \<Longrightarrow> take_off rec vals \<longleftrightarrow> mset vals \<subseteq># M"
proof (induction rec vals arbitrary: M rule: take_off.induct)
  case (2 rec val vals)
  have has: "mhas rec val \<longleftrightarrow> val \<in># M"
    using 2(2) by (simp add: counts_def mhas_def)
  show ?case
  proof (cases "val \<in># M")
    case True
    let ?n = "mget0 0 rec val - 1" and ?M = "M - {#val#}"
    let ?rec = "if ?n = 0 then mdel (mput rec val ?n) val else mput rec val ?n"
    have "counts ?rec ?M"
      using 2(2) True by (auto simp: counts_def mget0_def in_diff_count count_greater_zero_iff [symmetric]
          simp del: count_greater_zero_iff)
    then have "take_off ?rec vals \<longleftrightarrow> mset vals \<subseteq># ?M"
      using 2(1) has True by (simp add: Let_def)
    then show ?thesis using has True by (simp add: Let_def insert_subset_eq_iff)
  next
    case False
    then show ?thesis using has by (auto dest: mset_subset_eqD)
  qed
qed simp

text \<open>\<^verbatim>\<open>EqualIgnoreOrder\<close> decides equality as multisets: the counting loop over the second slice
  succeeds exactly when the two slices are permutations of one another.\<close>

lemma EqualIgnoreOrder_permutation: "EqualIgnoreOrder xs ys \<longleftrightarrow> mset xs = mset ys"
proof (cases "length xs = length ys")
  case True
  have "counts (fold (\<lambda>val rec. mput rec val (mget0 0 rec val + 1)) xs []) (mset xs)"
    using counts_fold [of "[]" "{#}" xs] by (simp add: counts_def)
  then have "EqualIgnoreOrder xs ys \<longleftrightarrow> mset ys \<subseteq># mset xs"
    using True by (auto simp: EqualIgnoreOrder_def take_off_iff)
  also have "\<dots> \<longleftrightarrow> mset xs = mset ys"
    using True by (metis mset_subset_size size_mset subset_mset.dual_order.refl
        subset_mset.le_imp_less_or_eq less_irrefl)
  finally show ?thesis .
next
  case False
  then show ?thesis by (auto simp: EqualIgnoreOrder_def dest: mset_eq_length)
qed

section \<open>Valid names\<close>

definition no_double_dash :: "string \<Rightarrow> bool" where
  "no_double_dash s \<longleftrightarrow> successively (\<lambda>a b. \<not> (a = CHR ''-'' \<and> b = CHR ''-'')) s"

text \<open>What the comment of \<^verbatim>\<open>NormalizeForDNS\<close> promises of its result.\<close>

definition valid_name :: "string \<Rightarrow> bool" where
  "valid_name s \<longleftrightarrow>
     s \<noteq> [] \<and> length s \<le> 45 \<and> list_all dns_char s \<and>
     CHR ''a'' \<le> hd s \<and> hd s \<le> CHR ''z'' \<and> last s \<noteq> CHR ''-'' \<and> no_double_dash s"

lemma contains_double_dash: "\<not> str_contains s ''--'' \<longleftrightarrow> no_double_dash s"
  unfolding no_double_dash_def
proof (induction s rule: replace_dashes.induct)
  case (1 a b cs)
  have "has_prefix cs []" by (cases cs) auto
  then show ?case using 1 by auto
qed auto

lemma collapse_no_double: "no_double_dash (collapse_dashes s)"
proof (induction s rule: collapse_dashes.induct)
  case (1 s)
  show ?case
  proof (cases "str_contains s ''--''")
    case True
    then show ?thesis using 1 by (simp add: collapse_dashes.simps [of s])
  next
    case False
    then show ?thesis using contains_double_dash [of s] by (simp add: collapse_dashes.simps [of s])
  qed
qed

lemma set_replace_dashes: "set (replace_dashes s) \<subseteq> set s"
  by (induction s rule: replace_dashes.induct) auto

lemma set_collapse: "set (collapse_dashes s) \<subseteq> set s"
proof (induction s rule: collapse_dashes.induct)
  case (1 s)
  then show ?case using set_replace_dashes [of s] by (auto simp: collapse_dashes.simps [of s])
qed

lemma no_double_append: "no_double_dash (xs @ ys) \<Longrightarrow> no_double_dash xs \<and> no_double_dash ys"
  by (simp add: no_double_dash_def successively_append_iff)

lemma no_double_rev: "no_double_dash (rev s) \<longleftrightarrow> no_double_dash s"
  unfolding no_double_dash_def successively_rev by (rule successively_cong) auto

lemma no_double_dropWhile: "no_double_dash s \<Longrightarrow> no_double_dash (dropWhile P s)"
  by (metis no_double_append takeWhile_dropWhile_id)

lemma trim_dashes_props:
  assumes "no_double_dash s"
  shows "no_double_dash (trim_dashes s)" and "set (trim_dashes s) \<subseteq> set s"
    and "trim_dashes s \<noteq> [] \<Longrightarrow> hd (trim_dashes s) \<noteq> CHR ''-'' \<and> last (trim_dashes s) \<noteq> CHR ''-''"
proof -
  let ?d = "dropWhile (\<lambda>c. c = CHR ''-'')"
  show "no_double_dash (trim_dashes s)"
    using assms by (simp add: trim_dashes_def no_double_rev no_double_dropWhile)
  show "set (trim_dashes s) \<subseteq> set s"
  proof
    fix x assume "x \<in> set (trim_dashes s)"
    then have "x \<in> set (?d (rev (?d s)))" by (simp add: trim_dashes_def)
    then show "x \<in> set s" by (metis set_dropWhileD set_rev)
  qed
  assume ne: "trim_dashes s \<noteq> []"
  have "last (trim_dashes s) \<noteq> CHR ''-''"
    using ne hd_dropWhile [of "\<lambda>c. c = CHR ''-''" "rev (?d s)"] by (simp add: trim_dashes_def last_rev)
  moreover obtain t where t: "?d s = trim_dashes s @ t"
    by (metis trim_dashes_def rev_append rev_rev_ident takeWhile_dropWhile_id)
  then have "hd (trim_dashes s) = hd (?d s)" using ne by simp
  moreover have "hd (?d s) \<noteq> CHR ''-''"
    using t ne hd_dropWhile [of "\<lambda>c. c = CHR ''-''" s] by force
  ultimately show "hd (trim_dashes s) \<noteq> CHR ''-'' \<and> last (trim_dashes s) \<noteq> CHR ''-''" by simp
qed

lemma take_suffix_props:
  assumes "no_double_dash s" and "45 < length s"
  shows "no_double_dash (trim_suffix_dash (take 45 s))" and "trim_suffix_dash (take 45 s) \<noteq> []"
    and "last (trim_suffix_dash (take 45 s)) \<noteq> CHR ''-''" and "hd (trim_suffix_dash (take 45 s)) = hd s"
    and "length (trim_suffix_dash (take 45 s)) \<le> 45" and "set (trim_suffix_dash (take 45 s)) \<subseteq> set s"
proof -
  obtain u a b where u: "take 45 s = u @ [a, b]" "length u = 43"
  proof -
    have "take 45 s = take 43 s @ [s ! 43, s ! 44]"
      using assms(2) take_Suc_conv_app_nth [of 43 s] take_Suc_conv_app_nth [of 44 s] by simp
    with that [of "take 43 s" "s ! 43" "s ! 44"] show thesis using assms(2) by simp
  qed
  obtain c cs where s: "s = c # cs" using assms(2) by (cases s) auto
  have uc: "u \<noteq> []" "hd u = c"
    using u s by (auto, metis append_Cons hd_append2 list.sel(1) take_Suc_Cons numeral_eq_Suc
        list.size(3) Zero_not_Suc)
  have nd: "no_double_dash (take 45 s)" using assms(1) by (metis append_take_drop_id no_double_append)
  have ab: "\<not> (a = CHR ''-'' \<and> b = CHR ''-'')"
    using nd u(1) by (simp add: no_double_dash_def successively_append_iff)
  have nda: "no_double_dash (u @ [a])"
    using nd u(1) no_double_append [of "u @ [a]" "[b]"] by simp
  have sub: "set (take 45 s) \<subseteq> set s" by (rule set_take_subset)
  show "no_double_dash (trim_suffix_dash (take 45 s))"
    using nd nda u(1) by (simp add: trim_suffix_dash_def butlast_append)
  show "trim_suffix_dash (take 45 s) \<noteq> []" using u(1) by (simp add: trim_suffix_dash_def butlast_append)
  show "last (trim_suffix_dash (take 45 s)) \<noteq> CHR ''-''"
    using ab u(1) by (auto simp: trim_suffix_dash_def butlast_append)
  show "hd (trim_suffix_dash (take 45 s)) = hd s"
    using uc s u(1) by (simp add: trim_suffix_dash_def butlast_append)
  show "length (trim_suffix_dash (take 45 s)) \<le> 45" by (auto simp: trim_suffix_dash_def)
  show "set (trim_suffix_dash (take 45 s)) \<subseteq> set s"
    using sub by (auto simp: trim_suffix_dash_def dest: in_set_butlastD)
qed

text \<open>C29: whatever string it is given, \<^verbatim>\<open>NormalizeForDNS\<close> returns a valid name: one to 45 lower-case
  letters, digits and single dashes, starting with a letter and not ending with a dash.\<close>

theorem NormalizeForDNS_valid: "valid_name (NormalizeForDNS s)"
proof -
  define r3 where "r3 = collapse_dashes (filter dns_char (map dns_replace (to_lower s)))"
  define r4 where "r4 = trim_dashes r3"
  define r5 where "r5 = (if r4 \<noteq> [] \<and> is_digit (hd r4) then CHR ''n'' # r4 else r4)"
  have c3: "\<forall>c \<in> set r3. dns_char c" using set_collapse unfolding r3_def by fastforce
  have n3: "no_double_dash r3" by (simp add: r3_def collapse_no_double)
  note t = trim_dashes_props [OF n3, folded r4_def]
  have letter: "CHR ''a'' \<le> c \<and> c \<le> CHR ''z''" if "dns_char c" "c \<noteq> CHR ''-''" "\<not> is_digit c" for c
    using that by (auto simp: dns_char_def)
  have n: "dns_char CHR ''n''" "CHR ''a'' \<le> CHR ''n''" "CHR ''n'' \<le> CHR ''z''"
    by (simp_all add: dns_char_def less_eq_char_def)
  have c5: "\<forall>c \<in> set r5. dns_char c" using c3 t(2) n by (auto simp: r5_def)
  have h5: "CHR ''a'' \<le> hd r5 \<and> hd r5 \<le> CHR ''z'' \<and> last r5 \<noteq> CHR ''-''" if "r5 \<noteq> []"
  proof (cases "is_digit (hd r4)")
    case True
    then show ?thesis using that t(3) n by (auto simp: r5_def)
  next
    case False
    then have "r5 = r4" "r4 \<noteq> []" using that by (auto simp: r5_def)
    moreover have "dns_char (hd r4)" using c3 t(2) \<open>r4 \<noteq> []\<close> by (meson hd_in_set subsetD)
    ultimately show ?thesis using letter False t(3) by auto
  qed
  have n5: "no_double_dash r5" using t(1) by (cases r4) (auto simp: r5_def no_double_dash_def)
  have res: "NormalizeForDNS s =
      (let r6 = if length r5 > 45 then trim_suffix_dash (take 45 r5) else r5 in if r6 = [] then ''model'' else r6)"
    by (simp add: NormalizeForDNS_def Let_def r3_def r4_def r5_def)
  show ?thesis
  proof (cases "45 < length r5")
    case True
    note p = take_suffix_props [OF n5 True]
    have "r5 \<noteq> []" using True by auto
    then show ?thesis using True p h5 c5 by (auto simp: res valid_name_def list_all_iff)
  next
    case False
    have "valid_name ''model''"
      by (simp add: valid_name_def dns_char_def less_eq_char_def no_double_dash_def is_digit_def)
    then show ?thesis using False h5 c5 n5 by (auto simp: res valid_name_def list_all_iff Let_def)
  qed
qed

text \<open>\<^verbatim>\<open>maps.Contain\<close> decides inclusion of the second map in the first unless the second map is
  empty: then it answers whether the first is empty too, although every map contains the empty one.\<close>

lemma maps_Contain_behaviour:
  "(m2 \<noteq> [] \<longrightarrow> wf_map m2 \<longrightarrow> (maps_Contain m1 m2 \<longleftrightarrow> mget m2 \<subseteq>\<^sub>m mget m1)) \<and>
   (maps_Contain m1 [] \<longleftrightarrow> m1 = [])"
proof -
  have "list_all (\<lambda>(key, val). mget m1 key = Some val) m2 \<longleftrightarrow> mget m2 \<subseteq>\<^sub>m mget m1" if "wf_map m2"
  proof -
    have "(k, v) \<in> set m2 \<longleftrightarrow> mget m2 k = Some v" for k v
      using that by (simp add: wf_map_def)
    then have "list_all (\<lambda>(key, val). mget m1 key = Some val) m2 \<longleftrightarrow>
        (\<forall>k v. mget m2 k = Some v \<longrightarrow> mget m1 k = Some v)"
      by (simp add: list_all_iff split_paired_all split_paired_Ball_Sigma Ball_def)
    then show ?thesis by (auto simp: map_le_def dom_def)
  qed
  then show ?thesis by (auto simp: maps_Contain_def)
qed

lemma maps_Contain_behaviour_witness:
  "(maps_Contain [(''a'', ''1''), (''b'', ''2'')] [(''a'', ''1'')] \<longleftrightarrow>
      mget [(''a'', ''1'')] \<subseteq>\<^sub>m mget [(''a'', ''1''), (''b'', ''2'')]) \<and>
   \<not> maps_Contain [(''a'', ''1'')] []"
  using maps_Contain_behaviour [of "[(''a'', ''1'')]" "[(''a'', ''1''), (''b'', ''2'')]"]
    maps_Contain_behaviour [of "[(''a'', ''1'')]" "[(''a'', ''1'')]"]
  by simp

end
