(* ===== verification/Workload_Common.thy ===== *)
theory Workload_Common
  imports Env Collections
begin

text \<open>
  \<^verbatim>\<open>common/pkg/workload/workload.go\<close>: what the controllers ask about a workload. The kind predicates,
  the roles of serving deployments, the conversion of a request to resource lists, the queries on
  the API server and the host ports in use.
\<close>

section \<open>Kinds\<close>

definition AuthoringKind :: string where [kind_defs]: "AuthoringKind = ''Authoring''"
definition PytorchJobKind :: string where [kind_defs]: "PytorchJobKind = ''PyTorchJob''"
definition JobKind :: string where [kind_defs]: "JobKind = ''Job''"
definition DeploymentKind :: string where [kind_defs]: "DeploymentKind = ''Deployment''"
definition StatefulSetKind :: string where [kind_defs]: "StatefulSetKind = ''StatefulSet''"
definition CICDScaleRunnerSetKind :: string where [kind_defs]: "CICDScaleRunnerSetKind = ''AutoscalingRunnerSet''"
definition CICDEphemeralRunnerKind :: string where [kind_defs]: "CICDEphemeralRunnerKind = ''EphemeralRunner''"
definition UnifiedJobKind :: string where [kind_defs]: "UnifiedJobKind = ''UnifiedJob''"
definition TorchFTKind :: string where [kind_defs]: "TorchFTKind = ''TorchFT''"
definition MonarchJob :: string where [kind_defs]: "MonarchJob = ''MonarchJob''"
definition MonarchMesh :: string where [kind_defs]: "MonarchMesh = ''MonarchMesh''"
definition MonarchClient :: string where [kind_defs]: "MonarchClient = ''MonarchClient''"
definition RayJobKind :: string where [kind_defs]: "RayJobKind = ''RayJob''"
definition SandboxKind :: string where [kind_defs]: "SandboxKind = ''Sandbox''"
definition DynamoDeploymentKind :: string where [kind_defs]: "DynamoDeploymentKind = ''DynamoDeployment''"
definition InferaDeploymentKind :: string where [kind_defs]: "InferaDeploymentKind = ''InferaDeployment''"

definition IsAuthoring :: "Workload \<Rightarrow> bool" where
  "IsAuthoring w \<longleftrightarrow> SpecKind w = AuthoringKind"

definition IsCICDScalingRunnerSet :: "Workload \<Rightarrow> bool" where
  "IsCICDScalingRunnerSet w \<longleftrightarrow> SpecKind w = CICDScaleRunnerSetKind"

definition IsCICDEphemeralRunner :: "Workload \<Rightarrow> bool" where
  "IsCICDEphemeralRunner w \<longleftrightarrow> SpecKind w = CICDEphemeralRunnerKind"

definition IsTorchFT :: "Workload \<Rightarrow> bool" where
  "IsTorchFT w \<longleftrightarrow> SpecKind w = TorchFTKind"

definition IsRayJob :: "Workload \<Rightarrow> bool" where
  "IsRayJob w \<longleftrightarrow> SpecKind w = RayJobKind"

definition IsDynamoDeployment :: "Workload \<Rightarrow> bool" where
  "IsDynamoDeployment w \<longleftrightarrow> SpecKind w = DynamoDeploymentKind"

definition IsInferaDeployment :: "Workload \<Rightarrow> bool" where
  "IsInferaDeployment w \<longleftrightarrow> SpecKind w = InferaDeploymentKind"

definition IsMonarchJob :: "Workload \<Rightarrow> bool" where
  "IsMonarchJob w \<longleftrightarrow> SpecKind w = MonarchJob"

definition IsMonarchMesh :: "Workload \<Rightarrow> bool" where
  "IsMonarchMesh w \<longleftrightarrow> SpecKind w = MonarchMesh"

definition IsSandBox :: "Workload \<Rightarrow> bool" where
  "IsSandBox w \<longleftrightarrow> SpecKind w = SandboxKind"

lemmas is_kind_defs = IsAuthoring_def IsCICDScalingRunnerSet_def IsCICDEphemeralRunner_def IsTorchFT_def
  IsRayJob_def IsDynamoDeployment_def IsInferaDeployment_def IsMonarchJob_def IsMonarchMesh_def IsSandBox_def

definition IsApplication :: "Workload \<Rightarrow> bool" where
  "IsApplication w \<longleftrightarrow>
     SpecKind w = DeploymentKind \<or> SpecKind w = StatefulSetKind \<or>
     SpecKind w = DynamoDeploymentKind \<or> SpecKind w = InferaDeploymentKind"

definition IsCICD :: "Workload \<Rightarrow> bool" where
  "IsCICD w \<longleftrightarrow> SpecKind w = CICDScaleRunnerSetKind \<or> SpecKind w = CICDEphemeralRunnerKind"

definition IsOpsJob :: "Workload \<Rightarrow> bool" where
  "IsOpsJob w \<longleftrightarrow> GetOpsJobId (w_Meta w) \<noteq> ''''"

definition GetScope :: "Workload \<Rightarrow> string" where
  "GetScope w =
     (let k = SpecKind w in
      if k \<in> {PytorchJobKind, UnifiedJobKind, JobKind, TorchFTKind, MonarchJob} then ''Train''
      else if k \<in> {DeploymentKind, StatefulSetKind, DynamoDeploymentKind, InferaDeploymentKind} then ''Infer''
      else if k = AuthoringKind then ''Authoring''
      else if k = CICDScaleRunnerSetKind \<or> k = CICDEphemeralRunnerKind then ''CICD''
      else if k = RayJobKind then ''Ray''
      else if k = SandboxKind then ''Sandbox''
      else '''')"

section \<open>Serving roles\<close>

text \<open>The comma-separated role lists of the annotations, trimmed, without empty parts.\<close>

definition split_roles :: "string \<Rightarrow> string list" where
  "split_roles val = filter (\<lambda>r. r \<noteq> '''') (map trim_space (go_split CHR '','' val))"

definition GetDynamoServiceRoles :: "Workload \<Rightarrow> string list" where
  "GetDynamoServiceRoles w =
     (if \<not> IsDynamoDeployment w then []
      else
        let val = GetAnnotation (w_Meta w) DynamoServiceRolesAnnotation in
        if val \<noteq> '''' then split_roles val
        else if length (ws_Resources (w_Spec w)) = 2 then [''frontend'', ''worker'']
        else if length (ws_Resources (w_Spec w)) = 3 then [''frontend'', ''worker'', ''planner'']
        else [])"

definition GetDynamoKVTransferBackend :: "Workload \<Rightarrow> string" where
  "GetDynamoKVTransferBackend w =
     (let val = GetAnnotation (w_Meta w) DynamoKVTransferBackendAnnotation in if val = '''' then ''nixl'' else val)"

definition GetDynamoMultinodeRoles :: "Workload \<Rightarrow> string list" where
  "GetDynamoMultinodeRoles w =
     (let val = GetAnnotation (w_Meta w) DynamoMultinodeRolesAnnotation in if val = '''' then [] else split_roles val)"

definition IsDynamoMultinodeRole :: "Workload \<Rightarrow> string \<Rightarrow> bool" where
  "IsDynamoMultinodeRole w role \<longleftrightarrow> list_ex (\<lambda>r. r = role) (GetDynamoMultinodeRoles w)"

definition GetDynamoBackendFramework :: "Workload \<Rightarrow> string" where
  "GetDynamoBackendFramework w =
     (let val = GetAnnotation (w_Meta w) DynamoBackendFrameworkAnnotation in if val = '''' then ''sglang'' else val)"

definition GetInferaServiceRoles :: "Workload \<Rightarrow> string list" where
  "GetInferaServiceRoles w =
     (if \<not> IsInferaDeployment w then []
      else
        let val = GetAnnotation (w_Meta w) InferaServiceRolesAnnotation in
        if val \<noteq> '''' then split_roles val
        else if length (ws_Resources (w_Spec w)) = 2 then [''frontend'', ''worker'']
        else if length (ws_Resources (w_Spec w)) = 3 then [''frontend'', ''prefill'', ''decode'']
        else [])"

definition GetInferaKVTransferBackend :: "Workload \<Rightarrow> string" where
  "GetInferaKVTransferBackend w =
     (let val = GetAnnotation (w_Meta w) InferaKVTransferBackendAnnotation in if val = '''' then ''nixl'' else val)"

definition GetInferaMultinodeRoles :: "Workload \<Rightarrow> string list" where
  "GetInferaMultinodeRoles w =
     (let val = GetAnnotation (w_Meta w) InferaMultinodeRolesAnnotation in if val = '''' then [] else split_roles val)"

definition IsInferaMultinodeRole :: "Workload \<Rightarrow> string \<Rightarrow> bool" where
  "IsInferaMultinodeRole w role \<longleftrightarrow> list_ex (\<lambda>r. r = role) (GetInferaMultinodeRoles w)"

definition GetInferaBackendFramework :: "Workload \<Rightarrow> string" where
  "GetInferaBackendFramework w =
     (let val = GetAnnotation (w_Meta w) InferaBackendFrameworkAnnotation in if val = '''' then ''sglang'' else val)"

section \<open>Requests\<close>

definition GetTotalReplica :: "Workload \<Rightarrow> int" where
  "GetTotalReplica w = fold (\<lambda>res n. n + wr_Replica res) (ws_Resources (w_Spec w)) 0"

definition GetPodResourceList ::
  "('q::linordered_ab_group_add, 'z) ext_scheme \<Rightarrow> WorkloadResource \<Rightarrow> goerr + 'q resource_list" where
  "GetPodResourceList E res =
     (case CvtToResourceList E (wr_CPU res) (wr_Memory res) (wr_GPU res) (wr_GPUName res)
             (wr_EphemeralStorage res) (wr_RdmaResource res) 1 of
        Inl e \<Rightarrow> Inl (NewBadRequest e)
      | Inr result \<Rightarrow> Inr result)"

fun toPodResourceLists_loop ::
  "('q::linordered_ab_group_add, 'z) ext_scheme \<Rightarrow> WorkloadResource list \<Rightarrow> goerr + 'q resource_list list" where
  "toPodResourceLists_loop E [] = Inr []"
| "toPodResourceLists_loop E (res # rest) =
     ebind (GetPodResourceList E res) (\<lambda>r. ebind (toPodResourceLists_loop E rest) (\<lambda>rs. Inr (r # rs)))"

definition toPodResourceLists ::
  "('q::linordered_ab_group_add, 'z) ext_scheme \<Rightarrow> Workload \<Rightarrow> goerr + 'q resource_list list" where
  "toPodResourceLists E workload = toPodResourceLists_loop E (ws_Resources (w_Spec workload))"

fun total_resources_loop ::
  "('q::linordered_ab_group_add, 'z) ext_scheme \<Rightarrow> WorkloadResource list \<Rightarrow> 'q resource_list \<Rightarrow> goerr + 'q resource_list" where
  "total_resources_loop E [] result = Inr result"
| "total_resources_loop E (res # rest) result =
     (case CvtToResourceList E (wr_CPU res) (wr_Memory res) (wr_GPU res) (wr_GPUName res)
             (wr_EphemeralStorage res) (wr_RdmaResource res) (f64_of_int (wr_Replica res)) of
        Inl e \<Rightarrow> Inl (NewBadRequest e)
      | Inr resourceList \<Rightarrow> total_resources_loop E rest (AddResource E [result, resourceList]))"

definition GetTotalResourceList ::
  "('q::linordered_ab_group_add, 'z) ext_scheme \<Rightarrow> Workload \<Rightarrow> goerr + 'q resource_list" where
  "GetTotalResourceList E workload = total_resources_loop E (ws_Resources (w_Spec workload)) []"

text \<open>A caller that discards the error sees a nil list.\<close>

definition total_or_nil :: "('q::linordered_ab_group_add, 'z) ext_scheme \<Rightarrow> Workload \<Rightarrow> 'q resource_list" where
  "total_or_nil E w = (case GetTotalResourceList E w of Inl e \<Rightarrow> [] | Inr r \<Rightarrow> r)"

definition IsResourceEqual ::
  "('q::linordered_ab_group_add, 'z) ext_scheme \<Rightarrow> Workload \<Rightarrow> Workload \<Rightarrow> bool" where
  "IsResourceEqual E workload1 workload2 \<longleftrightarrow>
     (if GetTotalReplica workload1 \<noteq> GetTotalReplica workload2 \<or>
         length (ws_Resources (w_Spec workload1)) \<noteq> length (ws_Resources (w_Spec workload2)) then False
      else case GetTotalResourceList E workload1 of
             Inl e \<Rightarrow> False
           | Inr r1 \<Rightarrow> (case GetTotalResourceList E workload2 of Inl e \<Rightarrow> False | Inr r2 \<Rightarrow> Equal E r1 r2))"

definition GenerateDispatchReason :: "int \<Rightarrow> string" where
  "GenerateDispatchReason n = ''run_'' @ itoa n @ ''_times''"

definition GeneratePriority :: "int \<Rightarrow> string" where
  "GeneratePriority priority =
     (if priority = 2 then ''high-priority'' else if priority = 1 then ''med-priority'' else ''low-priority'')"

definition ConvertResourceToList :: "WorkloadResource \<Rightarrow> string \<Rightarrow> WorkloadResource list" where
  "ConvertResourceToList workloadResource kind =
     (if wr_Replica workloadResource \<le> 0 then []
      else if kind = PytorchJobKind \<or> kind = UnifiedJobKind then
        workloadResource\<lparr>wr_Replica := 1\<rparr> #
        (if wr_Replica workloadResource > 1
         then [workloadResource\<lparr>wr_Replica := wr_Replica workloadResource - 1\<rparr>] else [])
      else [workloadResource])"

definition GetReplicaCount :: "Workload \<Rightarrow> string \<Rightarrow> goerr + int" where
  "GetReplicaCount workload key =
     (let val = mget0 '''' (ws_Env (w_Spec workload)) key in
      if val = '''' then Inl (plain_error (''the '' @ key @ '' of workload environment variables is empty''))
      else case go_atoi val of
             None \<Rightarrow> Inl (plain_error (''strconv.Atoi: parsing '' @ val))
           | Some n \<Rightarrow> Inr n)"

definition mk_gvk :: "string \<Rightarrow> string \<Rightarrow> GroupVersionKind" where
  "mk_gvk grp kind = \<lparr>gvk_Group = grp, gvk_Version = ''v1'', gvk_Kind = kind\<rparr>"

definition MonarchMeshWorkloadGVK :: GroupVersionKind where
  "MonarchMeshWorkloadGVK = mk_gvk ''monarch.pytorch.org'' MonarchMesh"

definition GetWorkloadGVK :: "Workload \<Rightarrow> GroupVersionKind list" where
  "GetWorkloadGVK workload =
     (if IsTorchFT workload then [mk_gvk ''kubeflow.org'' PytorchJobKind, mk_gvk ''apps'' DeploymentKind]
      else if IsMonarchJob workload then [mk_gvk '''' MonarchClient, MonarchMeshWorkloadGVK]
      else [ws_GVK (w_Spec workload)])"

definition GetMainContainer_kind :: "ObjectMeta \<Rightarrow> string \<Rightarrow> int \<Rightarrow> string" where
  "GetMainContainer_kind obj kind resourceId =
     (if kind = RayJobKind \<and> resourceId = 0 then ''ray-job-submitter'' else GetMainContainer obj)"

definition GetMainContainerByPod :: "ObjectMeta \<Rightarrow> string \<Rightarrow> string \<Rightarrow> string" where
  "GetMainContainerByPod obj kind podName =
     (if kind = RayJobKind \<and> podName \<noteq> '''' \<and>
         \<not> str_contains podName ''-head-'' \<and> \<not> str_contains podName ''-worker-''
      then ''ray-job-submitter'' else GetMainContainer obj)"

definition GetSpecifiedNodes :: "Workload \<Rightarrow> string list" where
  "GetSpecifiedNodes workload =
     (let lab = (\<lambda>key. mget0 '''' (ws_CustomerLabels (w_Spec workload)) key) in
      if lab ''specified-nodes'' \<noteq> '''' then go_split CHR '' '' (lab ''specified-nodes'')
      else if lab K8sHostName \<noteq> '''' then go_split CHR '' '' (lab K8sHostName)
      else [])"

definition IsEnabledHostNetwork :: "Workload \<Rightarrow> int \<Rightarrow> bool" where
  "IsEnabledHostNetwork workload resourceId \<longleftrightarrow>
     (let rs = ws_Resources (w_Spec workload) in
      if IsForceHostNetwork (w_Meta workload) then True
      else if resourceId \<ge> int (length rs) \<or> resourceId < 0 then False
      else if IsRayJob workload \<and> resourceId = 0 \<and> length rs > 1 \<and> wr_RdmaResource (rs ! 1) \<noteq> '''' then True
      else if (IsDynamoDeployment workload \<or> IsInferaDeployment workload) \<and> resourceId = 0 \<and> length rs > 1 \<and>
              list_ex (\<lambda>r. wr_RdmaResource r \<noteq> '''') (tl rs) then True
      else wr_RdmaResource (rs ! nat resourceId) \<noteq> '''')"

section \<open>Queries\<close>

definition GetWorkloadsOfWorkspace ::
  "('q, 'z) env_scheme \<Rightarrow> wlog \<Rightarrow> string \<Rightarrow> string list \<Rightarrow> (Workload \<Rightarrow> bool) \<Rightarrow> goerr + Workload list" where
  "GetWorkloadsOfWorkspace E lg clusterName workspaceNames filterFunc =
     ebind (list_Workloads E lg (\<lambda>w. (clusterName = '''' \<or> label_is ClusterIdLabel clusterName (w_Meta w)) \<and>
                               (workspaceNames = [] \<or> label_in WorkspaceIdLabel workspaceNames (w_Meta w))))
       (\<lambda>items. Inr (filter (\<lambda>w. \<not> filterFunc w) items))"

fun find_template :: "ResourceTemplate list \<Rightarrow> string \<Rightarrow> ResourceTemplate option" where
  "find_template [] kind = None"
| "find_template (item # rest) kind =
     (if slice_Contains (go_split CHR '','' (GetAnnotation (rt_Meta item) WorkloadKindLabel)) kind then Some item
      else find_template rest kind)"

definition GetResourceTemplateByGVK ::
  "('q, 'z) env_scheme \<Rightarrow> wlog \<Rightarrow> GroupVersionKind \<Rightarrow> goerr + ResourceTemplate" where
  "GetResourceTemplateByGVK E lg gvk =
     ebind (list_ResourceTemplates E lg (label_is WorkloadVersionLabel (gvk_Version gvk))) (\<lambda>items.
       case find_template items (gvk_Kind gvk) of
         Some t \<Rightarrow> Inr t
       | None \<Rightarrow> Inl (NewInternalError (''the resource template is not found, kind: '' @ gvk_Kind gvk
                       @ '', version: '' @ gvk_Version gvk)))"

definition GetResourceTemplate :: "('q, 'z) env_scheme \<Rightarrow> wlog \<Rightarrow> Workload \<Rightarrow> goerr + ResourceTemplate" where
  "GetResourceTemplate E lg workload = GetResourceTemplateByGVK E lg (ws_GVK (w_Spec workload))"

text \<open>The host ports one workload occupies, and their union over a cluster; a failed list gives none.\<close>

definition ports_of :: "Workload \<Rightarrow> int list" where
  "ports_of item =
     (if HasHostNetwork item then
        (if ws_JobPort (w_Spec item) > 0 then [ws_JobPort (w_Spec item)] else []) @
        (if IsRayJob item then [8265, 6379, 18080] else []) @
        (if IsMonarchJob item then [26600] else []) @
        (if IsDynamoDeployment item \<or> IsInferaDeployment item then [8000] else [])
      else []) @
     (case ws_Service (w_Spec item) of
        None \<Rightarrow> [] | Some svc \<Rightarrow> if svc_NodePort svc > 0 then [svc_NodePort svc] else [])"

definition GetUsedHostPorts :: "('q, 'z) env_scheme \<Rightarrow> wlog \<Rightarrow> string \<Rightarrow> int set" where
  "GetUsedHostPorts E lg clusterId =
     (case list_Workloads E lg (\<lambda>w. label_is ClusterIdLabel clusterId (w_Meta w)) of
        Inl e \<Rightarrow> {}
      | Inr items \<Rightarrow> set (concat (map ports_of items)))"

section \<open>Facts about requests\<close>

lemma wf_total_resources_loop:
  "total_resources_loop E rs acc = Inr r \<Longrightarrow> wf_map acc \<Longrightarrow> wf_map r"
  by (induction E rs acc rule: total_resources_loop.induct) (auto split: sum.splits)

lemma total_resources_loop_concerned:
  "total_resources_loop E rs acc = Inr r \<Longrightarrow> (\<And>k. mhas acc k \<Longrightarrow> IsConcernedResource E k) \<Longrightarrow>
     mhas r k \<Longrightarrow> IsConcernedResource E k"
  by (induction E rs acc rule: total_resources_loop.induct) (auto split: sum.splits)

lemma wf_GetTotalResourceList: "GetTotalResourceList E w = Inr r \<Longrightarrow> wf_map r"
  by (auto simp: GetTotalResourceList_def dest: wf_total_resources_loop)

lemma GetTotalResourceList_concerned:
  "GetTotalResourceList E w = Inr r \<Longrightarrow> mhas r k \<Longrightarrow> IsConcernedResource E k"
  unfolding GetTotalResourceList_def by (erule total_resources_loop_concerned) auto

lemma wf_total_or_nil [simp, intro]: "wf_map (total_or_nil E w)"
  by (simp add: total_or_nil_def wf_GetTotalResourceList split: sum.splits)

lemma total_or_nil_concerned: "mhas (total_or_nil E w) k \<Longrightarrow> IsConcernedResource E k"
  by (auto simp: total_or_nil_def dest: GetTotalResourceList_concerned split: sum.splits)

lemma GenerateDispatchReason_inj:
  "in_int64 m \<Longrightarrow> in_int64 n \<Longrightarrow> GenerateDispatchReason m = GenerateDispatchReason n \<longleftrightarrow> m = n"
  by (simp add: GenerateDispatchReason_def itoa_inj)

text \<open>Splitting a request for a PyTorch or unified job into master and workers keeps the number
  of replicas and every other field; the master has one replica.\<close>

lemma ConvertResourceToList_total:
  "(\<Sum>r \<leftarrow> ConvertResourceToList res kind. wr_Replica r) = max 0 (wr_Replica res) \<and>
   (\<forall>r \<in> set (ConvertResourceToList res kind). 0 < wr_Replica r \<and> r\<lparr>wr_Replica := wr_Replica res\<rparr> = res) \<and>
   length (ConvertResourceToList res kind) \<le> 2"
  by (auto simp: ConvertResourceToList_def)

lemma ConvertResourceToList_total_witness:
  "(\<Sum>r \<leftarrow> ConvertResourceToList \<lparr>wr_Replica = 4, wr_CPU = ''8'', wr_GPU = '''', wr_GPUName = '''', wr_Memory = ''1'',
       wr_SharedMemory = '''', wr_EphemeralStorage = '''', wr_RdmaResource = ''''\<rparr> ''PyTorchJob''. wr_Replica r) = 4"
  using ConvertResourceToList_total [of "\<lparr>wr_Replica = 4, wr_CPU = ''8'', wr_GPU = '''', wr_GPUName = '''',
      wr_Memory = ''1'', wr_SharedMemory = '''', wr_EphemeralStorage = '''', wr_RdmaResource = ''''\<rparr>" "''PyTorchJob''"]
  by simp

end
