(* ===== verification/Samples.thy ===== *)
theory Samples
  imports Env
begin

text \<open>
  Concrete objects for the witnesses of the theorems: empty records of the API types and an
  environment whose quantities are integers, whose writes succeed and whose store is given by lists.
\<close>

definition blank_meta :: "string \<Rightarrow> ObjectMeta" where
  "blank_meta name = \<lparr>om_Name = name, om_Namespace = [], om_UID = [], om_ResourceVersion = [], om_Generation = 1,
     om_Labels = [], om_Annotations = [], om_CreationTimestamp = 0, om_DeletionTimestamp = None, om_Finalizers = [], om_OwnerReferences = []\<rparr>"

definition blank_spec :: WorkloadSpec where
  "blank_spec = \<lparr>ws_Resources = [], ws_Workspace = ''ws'', ws_Images = [], ws_EntryPoints = [], ws_JobPort = 0,
     ws_Env = [], ws_IsSupervised = False,
     ws_GVK = \<lparr>gvk_Group = [], gvk_Version = ''v1'', gvk_Kind = ''PyTorchJob''\<rparr>,
     ws_MaxRetry = 0, ws_Priority = 0, ws_TTLSecondsAfterFinished = None, ws_Timeout = None,
     ws_CustomerLabels = [], ws_Liveness = None, ws_Readiness = None, ws_Service = None,
     ws_IsTolerateAll = False, ws_Hostpath = [], ws_Dependencies = [], ws_CronJobs = [], ws_Secrets = []\<rparr>"

definition blank_status :: WorkloadStatus where
  "blank_status = \<lparr>st_StartTime = None, st_EndTime = None, st_Conditions = [], st_Phase = [], st_Message = [],
     st_QueuePosition = 0, st_Pods = [], st_Nodes = [], st_Ranks = [], st_RunnerScaleSetId = [],
     st_DependenciesPhase = [], st_TorchFTPhase = [], st_NodeUsage = []\<rparr>"

definition blank_workload :: "string \<Rightarrow> Workload" where
  "blank_workload name = \<lparr>w_Meta = blank_meta name, w_Spec = blank_spec, w_Status = blank_status\<rparr>"

definition gpu_resource :: "int \<Rightarrow> string \<Rightarrow> WorkloadResource" where
  "gpu_resource replica gpus = \<lparr>wr_Replica = replica, wr_CPU = [], wr_GPU = gpus, wr_GPUName = ''amd.com/gpu'',
     wr_Memory = [], wr_SharedMemory = [], wr_EphemeralStorage = [], wr_RdmaResource = []\<rparr>"

definition sample_pod :: "string \<Rightarrow> string \<Rightarrow> int \<Rightarrow> WorkloadPod" where
  "sample_pod node phase rid = \<lparr>pod_PodId = [], pod_ResourceId = rid, pod_AdminNodeName = node, pod_Phase = phase,
     pod_HostIp = [], pod_PodIp = [], pod_Rank = [], pod_StartTime = [], pod_EndTime = [],
     pod_FailedMessage = [], pod_Containers = [], pod_GroupId = 0\<rparr>"

definition find_by :: "string \<Rightarrow> string \<Rightarrow> ('a \<Rightarrow> string) \<Rightarrow> 'a list \<Rightarrow> goerr + 'a" where
  "find_by kind name nm xs =
     (case find (\<lambda>x. nm x = name) xs of None \<Rightarrow> Inl (NewNotFound kind name) | Some x \<Rightarrow> Inr x)"

definition sample_env :: "Workload list \<Rightarrow> int Workspace list \<Rightarrow> int Node list \<Rightarrow> int NodeFlavor list \<Rightarrow> int env" where
  "sample_env ws wks ns nfs = ext.extend int_ext
     \<lparr>now = 0,
      time_Parse = (\<lambda>_ s. case go_atoi s of None \<Rightarrow> Inl (plain_error ''parse'') | Some n \<Rightarrow> Inr n),
      time_Format = (\<lambda>_. itoa), time_String = itoa,
      meta_SetStatusCondition = (\<lambda>cs c. (True, filter (\<lambda>d. cond_Type d \<noteq> cond_Type c) cs @ [c])),
      write_result = (\<lambda>_ _. None),
      get_Workload = (\<lambda>_ n. find_by ''Workload'' n (\<lambda>w. om_Name (w_Meta w)) ws),
      get_Workspace = (\<lambda>_ n. find_by ''Workspace'' n (\<lambda>w. om_Name (wk_Meta w)) wks),
      get_Node = (\<lambda>_ n. find_by ''Node'' n (\<lambda>w. om_Name (n_Meta w)) ns),
      get_NodeFlavor = (\<lambda>_ n. find_by ''NodeFlavor'' n (\<lambda>w. om_Name (nf_Meta w)) nfs),
      list_Workloads = (\<lambda>_ sel. Inr (filter sel ws)),
      list_Workspaces = (\<lambda>_ sel. Inr (filter (\<lambda>w. sel (wk_Meta w)) wks)),
      list_ResourceTemplates = (\<lambda>_ _. Inr []), list_ConfigMaps = (\<lambda>_ _. Inr []), list_Secrets = (\<lambda>_ _. Inr [])\<rparr>"

lemmas sample_defs = blank_meta_def blank_spec_def blank_status_def blank_workload_def gpu_resource_def
  sample_pod_def find_by_def

end
