(* ===== verification/Node_Usage.thy ===== *)
theory Node_Usage
  imports Workload_Common Samples
begin

text \<open>
  \<^verbatim>\<open>common/pkg/workload/node_usage.go\<close> and the functions of \<^verbatim>\<open>workload.go\<close> that read it: the
  resources the pods of a workload hold, computed either from the pod list or from the aggregate
  per node that replaces the list for large workloads. The main theorems state that the two agree.
\<close>

section \<open>The per-node aggregate\<close>

definition ridKey :: "int \<Rightarrow> string" where
  "ridKey rid = itoa rid"

definition parseRid :: "string \<Rightarrow> int option" where
  "parseRid key = go_atoi key"

definition count_up :: "(string, int) gomap \<Rightarrow> string \<Rightarrow> (string, int) gomap" where
  "count_up m key = mput m key (mget0 0 m key + 1)"

type_synonym usage_index = "(string, NodePodUsage) gomap \<times> string list"

definition add_pod :: "WorkloadPod \<Rightarrow> usage_index \<Rightarrow> usage_index" where
  "add_pod p st =
     (case st of (idx, order) \<Rightarrow>
        if IsPodTerminated p then (idx, order)
        else
          let node = pod_AdminNodeName p;
              fresh = \<lparr>npu_Node = node, npu_Running = [], npu_Active = []\<rparr>;
              u = mget0 fresh idx node;
              order' = (if mhas idx node then order else order @ [node]);
              key = ridKey (pod_ResourceId p);
              u1 = u\<lparr>npu_Active := count_up (npu_Active u) key\<rparr>;
              u2 = (if pod_Phase p = PodRunning then u1\<lparr>npu_Running := count_up (npu_Running u1) key\<rparr> else u1)
          in (mput idx node u2, order'))"

definition BuildNodeUsage :: "Workload \<Rightarrow> NodePodUsage list" where
  "BuildNodeUsage w =
     (if st_Pods (w_Status w) = [] then []
      else case fold add_pod (st_Pods (w_Status w)) ([], []) of
             (idx, order) \<Rightarrow> map (\<lambda>n. the (mget idx n)) order)"

definition totalNodeCountFromUsage :: "NodePodUsage list \<Rightarrow> int" where
  "totalNodeCountFromUsage usage = int (length usage)"

definition addResourceNTimes ::
  "('q::linordered_ab_group_add, 'z) ext_scheme \<Rightarrow> 'q resource_list \<Rightarrow> 'q resource_list \<Rightarrow> int \<Rightarrow> 'q resource_list" where
  "addResourceNTimes E acc podResource n = ((\<lambda>a. AddResource E [a, podResource]) ^^ nat n) acc"

text \<open>
  The loop over the active counts of one node: an identifier at or beyond the number of resources
  is skipped, a negative one panics (\<^const>\<open>None\<close>).
\<close>

fun add_active ::
  "('q::linordered_ab_group_add, 'z) ext_scheme \<Rightarrow> 'q resource_list list \<Rightarrow> (string, int) gomap
     \<Rightarrow> 'q resource_list \<Rightarrow> 'q resource_list option" where
  "add_active E res [] acc = Some acc"
| "add_active E res ((ridStr, n) # rest) acc =
     (case parseRid ridStr of
        None \<Rightarrow> add_active E res rest acc
      | Some rid \<Rightarrow>
          if rid \<ge> int (length res) \<or> n \<le> 0 then add_active E res rest acc
          else if rid < 0 then None
          else add_active E res rest (addResourceNTimes E acc (res ! nat rid) n))"

text \<open>The map entry of a node is only created once a count is added to it.\<close>

definition touches :: "'q resource_list list \<Rightarrow> (string, int) gomap \<Rightarrow> bool" where
  "touches res act \<longleftrightarrow>
     list_ex (\<lambda>(ridStr, n). case parseRid ridStr of None \<Rightarrow> False
                                 | Some rid \<Rightarrow> \<not> (rid \<ge> int (length res) \<or> n \<le> 0)) act"

fun resourcesPerNodeFromUsage ::
  "('q::linordered_ab_group_add, 'z) ext_scheme \<Rightarrow> NodePodUsage list \<Rightarrow> 'q resource_list list \<Rightarrow> string
     \<Rightarrow> (string, 'q resource_list) gomap \<Rightarrow> (string, 'q resource_list) gomap option" where
  "resourcesPerNodeFromUsage E [] res adminNodeName result = Some result"
| "resourcesPerNodeFromUsage E (u # usage) res adminNodeName result =
     (let node = npu_Node u in
      if node = '''' then resourcesPerNodeFromUsage E usage res adminNodeName result
      else if adminNodeName \<noteq> '''' \<and> adminNodeName \<noteq> node
      then resourcesPerNodeFromUsage E usage res adminNodeName result
      else case add_active E res (npu_Active u) (mget0 [] result node) of
             None \<Rightarrow> None
           | Some r \<Rightarrow> resourcesPerNodeFromUsage E usage res adminNodeName
                          (if touches res (npu_Active u) then mput result node r else result))"

fun workloadResourceUsageFromUsage ::
  "('q::linordered_ab_group_add, 'z) ext_scheme \<Rightarrow> NodePodUsage list \<Rightarrow> 'q resource_list list \<Rightarrow> (string \<Rightarrow> bool)
     \<Rightarrow> 'q resource_list \<Rightarrow> 'q resource_list \<Rightarrow> string list
     \<Rightarrow> ('q resource_list \<times> 'q resource_list \<times> string list) option" where
  "workloadResourceUsageFromUsage E [] res filterNode tot avail nodes = Some (tot, avail, nodes)"
| "workloadResourceUsageFromUsage E (u # usage) res filterNode tot avail nodes =
     (let filtered = filterNode (npu_Node u) in
      case add_active E res (npu_Active u) tot of
        None \<Rightarrow> None
      | Some tot' \<Rightarrow>
          (case (if filtered then Some avail else add_active E res (npu_Active u) avail) of
             None \<Rightarrow> None
           | Some avail' \<Rightarrow>
               workloadResourceUsageFromUsage E usage res filterNode tot' avail'
                 (if filtered then nodes else nodes @ [npu_Node u])))"

definition StripOffloadedStatus :: "Workload \<Rightarrow> Workload" where
  "StripOffloadedStatus w =
     (if st_NodeUsage (w_Status w) = [] then w
      else w\<lparr>w_Status := (w_Status w)\<lparr>st_Pods := [], st_Nodes := [], st_Ranks := []\<rparr>\<rparr>)"

section \<open>Usage\<close>

definition GetInUseNodeCount :: "Workload \<Rightarrow> int" where
  "GetInUseNodeCount w =
     (if length (st_NodeUsage (w_Status w)) > 0 then totalNodeCountFromUsage (st_NodeUsage (w_Status w))
      else set_Len (set_Insert (map pod_AdminNodeName
             (filter (\<lambda>p. \<not> IsPodTerminated p) (st_Pods (w_Status w)))) set_New))"

text \<open>One pod of \<^verbatim>\<open>GetResourcesPerNode\<close>; the comparison with the length is made in \<^verbatim>\<open>int8\<close>.\<close>

definition per_node_pod ::
  "('q::linordered_ab_group_add, 'z) ext_scheme \<Rightarrow> 'q resource_list list \<Rightarrow> string \<Rightarrow> WorkloadPod
     \<Rightarrow> (string, 'q resource_list) gomap \<Rightarrow> (string, 'q resource_list) gomap option" where
  "per_node_pod E res adminNodeName pod result =
     (if \<not> IsPodRunning pod \<or> pod_ResourceId pod \<ge> wrap8 (int (length res)) then Some result
      else if adminNodeName \<noteq> '''' \<and> adminNodeName \<noteq> pod_AdminNodeName pod then Some result
      else if pod_ResourceId pod < 0 \<or> pod_ResourceId pod \<ge> int (length res) then None
      else let podResources = res ! nat (pod_ResourceId pod) in
           case mget result (pod_AdminNodeName pod) of
             Some resList \<Rightarrow> Some (mput result (pod_AdminNodeName pod) (AddResource E [resList, podResources]))
           | None \<Rightarrow> Some (mput result (pod_AdminNodeName pod) podResources))"

fun per_node_pods ::
  "('q::linordered_ab_group_add, 'z) ext_scheme \<Rightarrow> 'q resource_list list \<Rightarrow> string \<Rightarrow> WorkloadPod list
     \<Rightarrow> (string, 'q resource_list) gomap \<Rightarrow> (string, 'q resource_list) gomap option" where
  "per_node_pods E res adminNodeName [] result = Some result"
| "per_node_pods E res adminNodeName (p # ps) result =
     (case per_node_pod E res adminNodeName p result of
        None \<Rightarrow> None | Some result' \<Rightarrow> per_node_pods E res adminNodeName ps result')"

definition GetResourcesPerNode ::
  "('q::linordered_ab_group_add, 'z) ext_scheme \<Rightarrow> Workload \<Rightarrow> string
     \<Rightarrow> (goerr + (string, 'q resource_list) gomap) option" where
  "GetResourcesPerNode E workload adminNodeName =
     (if GetTotalReplica workload = 0 then Some (Inr [])
      else case toPodResourceLists E workload of
             Inl e \<Rightarrow> Some (Inl e)
           | Inr res \<Rightarrow>
               if length (st_NodeUsage (w_Status workload)) > 0
               then map_option Inr (resourcesPerNodeFromUsage E (st_NodeUsage (w_Status workload)) res adminNodeName [])
               else map_option Inr (per_node_pods E res adminNodeName (st_Pods (w_Status workload)) []))"

text \<open>
  \<^verbatim>\<open>GetWorkloadResourceUsage\<close> fills one output slot per pod, concurrently but each slot from its own
  pod, and then sums the slots in order; a terminated pod leaves resource identifier 0.
\<close>

record usage_output =
  out_isFiltered :: bool
  out_isTerminated :: bool
  out_resourceId :: int
  out_node :: string

definition pod_output :: "(string \<Rightarrow> bool) \<Rightarrow> WorkloadPod \<Rightarrow> usage_output" where
  "pod_output filterNode pod =
     (if IsPodTerminated pod
      then \<lparr>out_isFiltered = False, out_isTerminated = True, out_resourceId = 0, out_node = pod_AdminNodeName pod\<rparr>
      else \<lparr>out_isFiltered = filterNode (pod_AdminNodeName pod), out_isTerminated = False,
             out_resourceId = pod_ResourceId pod, out_node = pod_AdminNodeName pod\<rparr>)"

fun sum_outputs ::
  "('q::linordered_ab_group_add, 'z) ext_scheme \<Rightarrow> 'q resource_list list \<Rightarrow> usage_output list
     \<Rightarrow> 'q resource_list \<Rightarrow> 'q resource_list \<Rightarrow> string list
     \<Rightarrow> ('q resource_list \<times> 'q resource_list \<times> string list) option" where
  "sum_outputs E res [] tot avail nodes = Some (tot, avail, nodes)"
| "sum_outputs E res (out # outs) tot avail nodes =
     (if out_isTerminated out \<or> out_resourceId out \<ge> int (length res) then sum_outputs E res outs tot avail nodes
      else if out_resourceId out < 0 then None
      else let podResource = res ! nat (out_resourceId out);
               tot' = AddResource E [tot, podResource]
           in if \<not> out_isFiltered out
              then sum_outputs E res outs tot' (AddResource E [avail, podResource]) (nodes @ [out_node out])
              else sum_outputs E res outs tot' avail nodes)"

definition GetWorkloadResourceUsage ::
  "('q::linordered_ab_group_add, 'z) ext_scheme \<Rightarrow> Workload \<Rightarrow> (string \<Rightarrow> bool)
     \<Rightarrow> (goerr + 'q resource_list \<times> 'q resource_list \<times> string list) option" where
  "GetWorkloadResourceUsage E workload filterNode =
     (if GetTotalReplica workload = 0 \<or>
         (length (st_Pods (w_Status workload)) = 0 \<and> length (st_NodeUsage (w_Status workload)) = 0)
      then Some (Inr ([], [], []))
      else case toPodResourceLists E workload of
             Inl e \<Rightarrow> Some (Inl e)
           | Inr res \<Rightarrow>
               if length (st_NodeUsage (w_Status workload)) > 0
               then map_option Inr
                 (workloadResourceUsageFromUsage E (st_NodeUsage (w_Status workload)) res filterNode [] [] [])
               else map_option Inr
                 (sum_outputs E res (map (pod_output filterNode) (st_Pods (w_Status workload))) [] [] []))"

section \<open>Sums over an aggregate\<close>

text \<open>The amount of a resource that one pod with a given key holds, and the amount of an aggregate.\<close>

definition key_val :: "'q::linordered_ab_group_add resource_list list \<Rightarrow> string \<Rightarrow> string \<Rightarrow> 'q" where
  "key_val res k key =
     (case parseRid key of None \<Rightarrow> 0 | Some rid \<Rightarrow> if rid \<ge> int (length res) then 0 else rval (res ! nat rid) k)"

definition ntimes :: "int \<Rightarrow> 'q::linordered_ab_group_add \<Rightarrow> 'q" where
  "ntimes n x = sum_list (replicate (nat n) x)"

definition act_sum :: "'q::linordered_ab_group_add resource_list list \<Rightarrow> string \<Rightarrow> (string, int) gomap \<Rightarrow> 'q" where
  "act_sum res k act = (\<Sum>(key, n) \<leftarrow> act. ntimes n (key_val res k key))"

definition pod_val :: "'q::linordered_ab_group_add resource_list list \<Rightarrow> string \<Rightarrow> WorkloadPod \<Rightarrow> 'q" where
  "pod_val res k p = key_val res k (ridKey (pod_ResourceId p))"

lemma ntimes_0 [simp]: "n \<le> 0 \<Longrightarrow> ntimes n x = 0"
  by (simp add: ntimes_def)

lemma ntimes_zero [simp]: "ntimes n 0 = 0"
proof -
  have "sum_list (replicate m (0::'a)) = 0" for m by (induction m) simp_all
  then show ?thesis by (simp add: ntimes_def)
qed

lemma ntimes_Suc: "0 \<le> n \<Longrightarrow> ntimes (n + 1) x = x + ntimes n x"
  by (simp add: ntimes_def nat_add_distrib)

lemma sum_list_mput:
  fixes f :: "'k \<Rightarrow> 'v \<Rightarrow> 'q::linordered_ab_group_add"
  assumes "wf_map m"
  shows "(\<Sum>(k, v) \<leftarrow> mput m key x. f k v) =
         (\<Sum>(k, v) \<leftarrow> m. f k v) - (case mget m key of None \<Rightarrow> 0 | Some v \<Rightarrow> f key v) + f key x"
  using assms
proof (induction m)
  case (Cons kv m)
  obtain a v where kv: "kv = (a, v)" by force
  have "mget m key = None" if "a = key" using Cons.prems that by (simp add: kv mhas_def)
  with Cons show ?case by (auto simp: kv mput_def split: option.splits)
qed (simp add: mput_def)

lemma act_sum_count_up:
  assumes "wf_map act" and "0 \<le> mget0 0 act key"
  shows "act_sum res k (count_up act key) = act_sum res k act + key_val res k key"
proof -
  have "(case mget act key of None \<Rightarrow> 0 | Some v \<Rightarrow> ntimes v (key_val res k key)) =
        ntimes (mget0 0 act key) (key_val res k key)"
    by (simp add: mget0_def split: option.splits)
  then show ?thesis
    using sum_list_mput [OF assms(1), of "\<lambda>key n. ntimes n (key_val res k key)" key "mget0 0 act key + 1"]
      ntimes_Suc [OF assms(2), of "key_val res k key"]
    by (simp add: act_sum_def count_up_def algebra_simps)
qed

lemma rval_addResourceNTimes:
  assumes "wf_map acc" and "wf_map pod" and "IsConcernedResource E k"
  shows "wf_map (addResourceNTimes E acc pod n) \<and>
         rval (addResourceNTimes E acc pod n) k = rval acc k + ntimes n (rval pod k)"
proof -
  have "wf_map (((\<lambda>a. AddResource E [a, pod]) ^^ m) acc) \<and>
        rval (((\<lambda>a. AddResource E [a, pod]) ^^ m) acc) k = rval acc k + sum_list (replicate m (rval pod k))" for m
    by (induction m) (use assms in \<open>auto simp: algebra_simps\<close>)
  then show ?thesis by (simp add: addResourceNTimes_def ntimes_def)
qed

definition valid_keys :: "(string, int) gomap \<Rightarrow> bool" where
  "valid_keys act \<longleftrightarrow> (\<forall>(key, n) \<in> set act. \<forall>rid. parseRid key = Some rid \<longrightarrow> 0 \<le> rid)"

lemma add_active_val:
  assumes "valid_keys act" and "wf_map acc" and "\<forall>r \<in> set res. wf_map r" and "IsConcernedResource E k"
  shows "\<exists>r. add_active E res act acc = Some r \<and> wf_map r \<and> rval r k = rval acc k + act_sum res k act \<and>
             (\<not> touches res act \<longrightarrow> r = acc)"
  using assms(1,2)
proof (induction act arbitrary: acc)
  case (Cons kn act)
  obtain key n where kn: "kn = (key, n)" by force
  have vk: "valid_keys act" using Cons.prems(1) by (simp add: valid_keys_def)
  show ?case
  proof (cases "parseRid key")
    case None
    with Cons.IH [OF vk Cons.prems(2)] show ?thesis
      by (auto simp: kn act_sum_def key_val_def touches_def)
  next
    case (Some rid)
    have rid: "0 \<le> rid" using Cons.prems(1) Some by (auto simp: kn valid_keys_def)
    show ?thesis
    proof (cases "rid \<ge> int (length res) \<or> n \<le> 0")
      case True
      with Cons.IH [OF vk Cons.prems(2)] Some show ?thesis
        by (auto simp: kn act_sum_def key_val_def touches_def)
    next
      case False
      then have "wf_map (res ! nat rid)" using assms(3) rid by auto
      note a = rval_addResourceNTimes [OF Cons.prems(2) this assms(4), of n]
      from Cons.IH [OF vk, of "addResourceNTimes E acc (res ! nat rid) n"] a False Some rid show ?thesis
        by (auto simp: kn act_sum_def key_val_def touches_def add.assoc)
    qed
  qed
qed (simp add: act_sum_def)

section \<open>The aggregate summarises the pods\<close>

abbreviation active_on :: "string \<Rightarrow> WorkloadPod \<Rightarrow> bool" where
  "active_on n p \<equiv> \<not> IsPodTerminated p \<and> pod_AdminNodeName p = n"

definition idx_act :: "(string, NodePodUsage) gomap \<Rightarrow> string \<Rightarrow> (string, int) gomap" where
  "idx_act idx n = (case mget idx n of None \<Rightarrow> [] | Some u \<Rightarrow> npu_Active u)"

definition usage_inv :: "WorkloadPod list \<Rightarrow> usage_index \<Rightarrow> bool" where
  "usage_inv ps st \<longleftrightarrow>
     (case st of (idx, order) \<Rightarrow>
        wf_map idx \<and> order = map fst idx \<and>
        (\<forall>n. mhas idx n \<longleftrightarrow> (\<exists>p \<in> set ps. active_on n p)) \<and>
        (\<forall>n u. mget idx n = Some u \<longrightarrow> npu_Node u = n) \<and>
        (\<forall>n. wf_map (idx_act idx n) \<and>
             (\<forall>(key, c) \<in> set (idx_act idx n). 0 < c \<and> (\<exists>p \<in> set ps. key = ridKey (pod_ResourceId p)))))"

lemma usage_inv_key:
  "usage_inv ps (idx, order) \<Longrightarrow> (key, c) \<in> set (idx_act idx n) \<Longrightarrow>
     0 < c \<and> (\<exists>p \<in> set ps. key = ridKey (pod_ResourceId p))"
  unfolding usage_inv_def by fast

lemma map_fst_mput: "map fst (mput m k v) = (if mhas m k then map fst m else map fst m @ [k])"
  by (induction m) (auto simp: mput_def)

lemma set_mput: "wf_map m \<Longrightarrow> set (mput m k v) \<subseteq> insert (k, v) (set m)"
  by (induction m) (auto simp: mput_def)

lemma idx_act_add_pod:
  "\<not> IsPodTerminated p \<Longrightarrow>
   idx_act (fst (add_pod p (idx, order))) n =
     (if n = pod_AdminNodeName p then count_up (idx_act idx n) (ridKey (pod_ResourceId p)) else idx_act idx n)"
  by (auto simp: add_pod_def idx_act_def Let_def mget0_def split: option.splits)

lemma mget0_pos:
  assumes "\<forall>(key, c) \<in> set m. 0 < c" shows "0 \<le> mget0 0 m (key :: string) \<and> (0::int) < mget0 0 m key + 1"
proof (cases "mget m key")
  case (Some c)
  with assms have "0 < c" by (auto dest: map_of_SomeD)
  with Some show ?thesis by (simp add: mget0_def)
qed (simp add: mget0_def)

lemma usage_inv_add_pod:
  assumes "usage_inv ps st" shows "usage_inv (ps @ [p]) (add_pod p st)"
proof (cases "IsPodTerminated p")
  case True
  with assms show ?thesis by (cases st) (fastforce simp: add_pod_def usage_inv_def)
next
  case False
  obtain idx order where st: "st = (idx, order)" by force
  let ?n = "pod_AdminNodeName p" and ?key = "ridKey (pod_ResourceId p)"
  obtain u where u: "add_pod p st = (mput idx ?n u, if mhas idx ?n then order else order @ [?n])"
      and un: "npu_Node u = ?n"
    using False assms
    by (auto simp: st add_pod_def Let_def usage_inv_def mget0_def split: option.splits)
  have act: "idx_act (mput idx ?n u) n = (if n = ?n then count_up (idx_act idx n) ?key else idx_act idx n)" for n
    using idx_act_add_pod [OF False, of idx order n] u by (simp add: st)
  have pos: "\<forall>(key, c) \<in> set (idx_act idx n). 0 < c" for n
    using assms unfolding usage_inv_def st by fastforce
  have wfa: "wf_map (idx_act idx n)" for n using assms by (simp add: st usage_inv_def)
  have old: "\<exists>p \<in> set ps. key = ridKey (pod_ResourceId p)" if "(key, c) \<in> set (idx_act idx n)" for key c n
    using assms that unfolding usage_inv_def st by fastforce
  have new: "0 < c \<and> (\<exists>q \<in> set (ps @ [p]). key = ridKey (pod_ResourceId q))"
    if "(key, c) \<in> set (idx_act (mput idx ?n u) n)" for key c n
  proof (cases "n = ?n")
    case True
    have "(key, c) \<in> insert (?key, mget0 0 (idx_act idx n) ?key + 1) (set (idx_act idx n))"
      using that set_mput [OF wfa] True unfolding act count_up_def by fastforce
    then show ?thesis using mget0_pos [OF pos, of n ?key] pos old by fastforce
  next
    case False
    then show ?thesis using that pos old unfolding act by fastforce
  qed
  have wfn: "wf_map (idx_act (mput idx ?n u) n)" for n
    using wfa by (simp add: act count_up_def)
  have dom: "mhas idx n \<longleftrightarrow> (\<exists>q \<in> set ps. active_on n q)" for n
    using assms by (simp add: st usage_inv_def)
  have "wf_map idx" "order = map fst idx" "\<forall>n u. mget idx n = Some u \<longrightarrow> npu_Node u = n"
    using assms by (auto simp: st usage_inv_def)
  moreover have "\<forall>n. wf_map (idx_act (mput idx ?n u) n) \<and> (\<forall>(key, c) \<in> set (idx_act (mput idx ?n u) n).
      0 < c \<and> (\<exists>q \<in> set (ps @ [p]). key = ridKey (pod_ResourceId q)))"
    using new wfn by fast
  ultimately show ?thesis
    unfolding u usage_inv_def prod.case by (auto simp: map_fst_mput dom un False)
qed

lemma usage_inv_fold: "usage_inv ps st \<Longrightarrow> usage_inv (ps @ qs) (fold add_pod qs st)"
proof (induction qs arbitrary: ps st)
  case (Cons q qs)
  from Cons.IH [OF usage_inv_add_pod [OF Cons.prems, of q]] show ?case by simp
qed simp

lemma usage_inv_Nil: "usage_inv [] ([], [])"
  by (simp add: usage_inv_def idx_act_def)

lemma act_sum_fold:
  "usage_inv ps st \<Longrightarrow>
   act_sum res k (idx_act (fst (fold add_pod qs st)) n) =
     act_sum res k (idx_act (fst st) n) + (\<Sum>p \<leftarrow> filter (active_on n) qs. pod_val res k p)"
proof (induction qs arbitrary: ps st)
  case (Cons q qs)
  obtain idx order where st: "st = (idx, order)" by force
  have wfa: "wf_map (idx_act idx n)" and pos: "\<forall>(key, c) \<in> set (idx_act idx n). 0 < c"
    using Cons.prems unfolding usage_inv_def st by fastforce+
  have "act_sum res k (idx_act (fst (add_pod q st)) n) =
        act_sum res k (idx_act idx n) + (if active_on n q then pod_val res k q else 0)"
  proof (cases "IsPodTerminated q")
    case True
    then show ?thesis by (simp add: st add_pod_def)
  next
    case False
    have "act_sum res k (count_up (idx_act idx n) key) = act_sum res k (idx_act idx n) + key_val res k key" for key
      by (rule act_sum_count_up [OF wfa]) (simp add: mget0_pos [OF pos])
    then show ?thesis
      using False idx_act_add_pod [OF False, of idx order n] by (simp add: st pod_val_def)
  qed
  with Cons.IH [OF usage_inv_add_pod [OF Cons.prems, of q]] show ?case by (simp add: st add.assoc)
qed simp

definition build_idx :: "WorkloadPod list \<Rightarrow> (string, NodePodUsage) gomap" where
  "build_idx ps = fst (fold add_pod ps ([], []))"

lemma build_idx_inv: "usage_inv ps (build_idx ps, map fst (build_idx ps))"
proof -
  obtain idx order where st: "fold add_pod ps ([], []) = (idx, order)" by force
  with usage_inv_fold [OF usage_inv_Nil, of ps] have "usage_inv ps (idx, order)" by simp
  moreover from this have "order = map fst idx" by (simp add: usage_inv_def)
  ultimately show ?thesis by (simp add: build_idx_def st)
qed

lemma BuildNodeUsage_eq: "BuildNodeUsage w = map snd (build_idx (st_Pods (w_Status w)))"
proof -
  let ?ps = "st_Pods (w_Status w)"
  obtain idx order where st: "fold add_pod ?ps ([], []) = (idx, order)" by force
  have inv: "usage_inv ?ps (idx, order)" using usage_inv_fold [OF usage_inv_Nil, of ?ps] st by simp
  then have wf: "wf_map idx" and order: "order = map fst idx" by (simp_all add: usage_inv_def)
  have "map (\<lambda>n. the (mget idx n)) (map fst idx) = map snd idx"
    using wf by (auto simp: wf_map_def comp_def)
  then show ?thesis using st order by (auto simp: BuildNodeUsage_def build_idx_def)
qed

lemma usage_node_sum:
  fixes f :: "NodePodUsage \<Rightarrow> 'q::linordered_ab_group_add"
  assumes "wf_map idx" and "\<forall>(m, u) \<in> set idx. npu_Node u = m"
  shows "(\<Sum>u \<leftarrow> filter (\<lambda>u. npu_Node u = n) (map snd idx). f u) = (case mget idx n of None \<Rightarrow> 0 | Some u \<Rightarrow> f u)"
  using assms
proof (induction idx)
  case (Cons mu idx)
  obtain m u where mu: "mu = (m, u)" by force
  have "mget idx n = None" if "m = n" using Cons.prems that by (simp add: mu mhas_def)
  with Cons show ?case by (auto simp: mu)
qed simp

text \<open>The facts about the aggregate that both consumers need.\<close>

lemma usage_of_pods:
  fixes res :: "'q::linordered_ab_group_add resource_list list"
  assumes "\<forall>p \<in> set ps. 0 \<le> pod_ResourceId p \<and> pod_ResourceId p < 128"
  shows "(\<Sum>u \<leftarrow> filter (\<lambda>u. npu_Node u = n) (map snd (build_idx ps)). act_sum res k (npu_Active u)) =
           (\<Sum>p \<leftarrow> filter (active_on n) ps. pod_val res k p)"
    and "\<forall>u \<in> set (map snd (build_idx ps)). valid_keys (npu_Active u)"
    and "distinct (map npu_Node (map snd (build_idx ps)))"
    and "set (map npu_Node (map snd (build_idx ps))) = pod_AdminNodeName ` {p \<in> set ps. \<not> IsPodTerminated p}"
proof -
  let ?idx = "build_idx ps"
  note inv = build_idx_inv [of ps]
  have wf: "wf_map ?idx" and node: "\<forall>n u. mget ?idx n = Some u \<longrightarrow> npu_Node u = n"
    using inv by (simp_all add: usage_inv_def)
  have node': "\<forall>(m, u) \<in> set ?idx. npu_Node u = m" using node wf by (auto simp: wf_map_def)
  have ids: "map npu_Node (map snd ?idx) = map fst ?idx" using node' by (induction ?idx) auto
  show "distinct (map npu_Node (map snd ?idx))" using wf unfolding ids by (simp add: wf_map_def)
  have dom: "mhas ?idx m \<longleftrightarrow> (\<exists>p \<in> set ps. active_on m p)" for m
    using inv by (simp add: usage_inv_def)
  have "set (map npu_Node (map snd ?idx)) = {m. mhas ?idx m}"
    unfolding ids by (simp add: mhas_iff)
  then show "set (map npu_Node (map snd ?idx)) = pod_AdminNodeName ` {p \<in> set ps. \<not> IsPodTerminated p}"
    by (auto simp: dom)
  have sum: "act_sum res k (idx_act ?idx n) = (\<Sum>p \<leftarrow> filter (active_on n) ps. pod_val res k p)"
    using act_sum_fold [OF usage_inv_Nil, of res k ps n]
    by (simp add: build_idx_def idx_act_def act_sum_def)
  show "(\<Sum>u \<leftarrow> filter (\<lambda>u. npu_Node u = n) (map snd ?idx). act_sum res k (npu_Active u)) =
      (\<Sum>p \<leftarrow> filter (active_on n) ps. pod_val res k p)"
    unfolding usage_node_sum [OF wf node'] sum [symmetric] idx_act_def
    by (simp add: act_sum_def split: option.splits)
  show "\<forall>u \<in> set (map snd ?idx). valid_keys (npu_Active u)"
  proof
    fix u assume "u \<in> set (map snd ?idx)"
    then obtain m where "(m, u) \<in> set ?idx" by force
    then have "mget ?idx m = Some u" using wf by (simp add: wf_map_def)
    then have "idx_act ?idx m = npu_Active u" by (simp add: idx_act_def)
    then have keys: "\<exists>p \<in> set ps. key = ridKey (pod_ResourceId p)" if "(key, c) \<in> set (npu_Active u)" for key c
      using usage_inv_key [OF inv, of key c m] that by simp
    have "0 \<le> rid" if kc: "(key, c) \<in> set (npu_Active u)" and rid: "parseRid key = Some rid" for key c rid
    proof -
      obtain p where p: "p \<in> set ps" "key = ridKey (pod_ResourceId p)" using keys [OF kc] by blast
      have "in_int64 (pod_ResourceId p)" using assms p(1) by (auto simp: in_int64_def)
      then have "rid = pod_ResourceId p" using rid p(2) by (simp add: parseRid_def ridKey_def go_atoi_itoa)
      then show ?thesis using assms p(1) by simp
    qed
    then show "valid_keys (npu_Active u)" unfolding valid_keys_def by fast
  qed
qed

section \<open>Both sources give the same resources\<close>

abbreviation on_node :: "string \<Rightarrow> string \<Rightarrow> bool" where
  "on_node admin n \<equiv> n \<noteq> [] \<and> (admin = [] \<or> admin = n)"

abbreviation node_val :: "(string, 'q::linordered_ab_group_add resource_list) gomap \<Rightarrow> string \<Rightarrow> string \<Rightarrow> 'q" where
  "node_val m n k \<equiv> rval (mget0 [] m n) k"

lemma resourcesPerNodeFromUsage_val:
  fixes res :: "'q::linordered_ab_group_add resource_list list"
  assumes "\<forall>r \<in> set res. wf_map r" and "IsConcernedResource E k"
  shows "\<forall>u \<in> set usage. valid_keys (npu_Active u) \<Longrightarrow> \<forall>n. wf_map (mget0 [] result n) \<Longrightarrow>
    \<exists>r. resourcesPerNodeFromUsage E usage res admin result = Some r \<and>
        (\<forall>n. node_val r n k = node_val result n k +
           (if on_node admin n
            then \<Sum>u \<leftarrow> filter (\<lambda>u. npu_Node u = n) usage. act_sum res k (npu_Active u) else 0))"
proof (induction usage arbitrary: result)
  case (Cons u usage)
  let ?n = "npu_Node u"
  have vk: "\<forall>u \<in> set usage. valid_keys (npu_Active u)" and vu: "valid_keys (npu_Active u)"
    using Cons.prems(1) by auto
  show ?case
  proof (cases "on_node admin ?n")
    case False
    then have "resourcesPerNodeFromUsage E (u # usage) res admin result =
               resourcesPerNodeFromUsage E usage res admin result"
      by (auto simp: Let_def)
    with Cons.IH [OF vk Cons.prems(2)] False show ?thesis by auto
  next
    case True
    obtain r where r: "add_active E res (npu_Active u) (mget0 [] result ?n) = Some r" "wf_map r"
        "rval r k = node_val result ?n k + act_sum res k (npu_Active u)"
        "\<not> touches res (npu_Active u) \<longrightarrow> r = mget0 [] result ?n"
      using add_active_val [OF vu _ assms] Cons.prems(2) by blast
    let ?result = "if touches res (npu_Active u) then mput result ?n r else result"
    have val: "mget0 [] ?result n = (if n = ?n then r else mget0 [] result n)" for n
      using r(4) by auto
    have wf: "\<forall>n. wf_map (mget0 [] ?result n)" unfolding val using r(2) Cons.prems(2) by auto
    have step: "resourcesPerNodeFromUsage E (u # usage) res admin result =
                resourcesPerNodeFromUsage E usage res admin ?result"
      using True r(1) by (auto simp: Let_def)
    show ?thesis unfolding step using Cons.IH [OF vk wf] r(3) True unfolding val
      by (auto simp: add.assoc)
  qed
qed simp

lemma parse_key: "0 \<le> rid \<Longrightarrow> rid < 128 \<Longrightarrow> parseRid (ridKey rid) = Some rid"
  by (simp add: parseRid_def ridKey_def go_atoi_itoa in_int64_def)

lemma pod_val_eq:
  "0 \<le> pod_ResourceId p \<Longrightarrow> pod_ResourceId p < 128 \<Longrightarrow>
   pod_val res k p = (if pod_ResourceId p \<ge> int (length res) then 0 else rval (res ! nat (pod_ResourceId p)) k)"
  by (simp add: pod_val_def key_val_def parse_key)

lemma per_node_pods_val:
  fixes res :: "'q::linordered_ab_group_add resource_list list"
  assumes "\<forall>r \<in> set res. wf_map r" and "IsConcernedResource E k" and "length res < 128"
  shows "\<forall>p \<in> set ps. 0 \<le> pod_ResourceId p \<and> pod_ResourceId p < 128 \<Longrightarrow> \<forall>n. wf_map (mget0 [] result n) \<Longrightarrow>
    \<exists>r. per_node_pods E res admin ps result = Some r \<and>
        (\<forall>n. node_val r n k = node_val result n k +
           (if on_node admin n
            then \<Sum>p \<leftarrow> filter (\<lambda>p. IsPodRunning p \<and> pod_AdminNodeName p = n) ps. pod_val res k p else 0))"
proof (induction ps arbitrary: result)
  case (Cons p ps)
  let ?n = "pod_AdminNodeName p" and ?rid = "pod_ResourceId p"
  have rest: "\<forall>p \<in> set ps. 0 \<le> pod_ResourceId p \<and> pod_ResourceId p < 128" and rid: "0 \<le> ?rid" "?rid < 128"
    using Cons.prems(1) by auto
  have w: "wrap8 (int (length res)) = int (length res)" using assms(3) by (simp add: wrap8_id)
  show ?case
  proof (cases "IsPodRunning p \<and> on_node admin ?n \<and> ?rid < int (length res)")
    case False
    then have "per_node_pod E res admin p result = Some result"
      by (auto simp: per_node_pod_def w IsPodRunning_def)
    moreover have "IsPodRunning p \<and> on_node admin ?n \<Longrightarrow> pod_val res k p = 0"
      using False by (simp add: pod_val_eq rid)
    ultimately show ?thesis using Cons.IH [OF rest Cons.prems(2)] by auto
  next
    case True
    let ?r = "case mget result ?n of Some l \<Rightarrow> AddResource E [l, res ! nat ?rid] | None \<Rightarrow> res ! nat ?rid"
    have wfr: "wf_map (res ! nat ?rid)" using assms(1) True rid by auto
    have step: "per_node_pod E res admin p result = Some (mput result ?n ?r)"
      using True rid by (auto simp: per_node_pod_def w Let_def split: option.splits)
    have wfl: "wf_map l" if "mget result ?n = Some l" for l
      using Cons.prems(2) that by (metis mget0_def option.simps(5))
    have valr: "rval ?r k = node_val result ?n k + pod_val res k p"
      using True wfr wfl assms(2)
      by (auto simp: pod_val_eq rid mget0_def rval_AddResource split: option.splits)
    have wf: "\<forall>n. wf_map (mget0 [] (mput result ?n ?r) n)"
      using Cons.prems(2) wfr by (auto split: option.splits)
    show ?thesis
      using Cons.IH [OF rest wf] valr True by (auto simp: step add.assoc)
  qed
qed simp

lemma wf_MultiResource [simp]: "wf_map (MultiResource E r m) \<longleftrightarrow> wf_map r"
  by (auto simp: MultiResource_def Copy_list_def)

lemma wf_cvt_field: "cvt_field E key str b e r = Inr r' \<Longrightarrow> wf_map r \<Longrightarrow> wf_map r'"
  by (auto simp: cvt_field_def split: sum.splits if_splits)

lemma wf_CvtToResourceList:
  "CvtToResourceList E cpu memory gpu gpuName eph rdma replica = Inr r \<Longrightarrow> wf_map r"
proof (cases "replica \<le> 0")
  case False
  have opt: "wf_map b" if "(if c then cvt_field E key str bnd e a else Inr a) = Inr b" "wf_map a" for c key str bnd e a b
    using that by (auto dest: wf_cvt_field split: if_splits)
  assume "CvtToResourceList E cpu memory gpu gpuName eph rdma replica = Inr r"
  then show ?thesis
    using False unfolding CvtToResourceList_def
    by (simp only: if_False ebind_Inr_iff) (elim exE conjE, drule opt, simp, (drule opt, assumption)+, auto)
qed (simp add: CvtToResourceList_def)

lemma toPodResourceLists_wf:
  "toPodResourceLists E w = Inr res \<Longrightarrow>
     (\<forall>r \<in> set res. wf_map r) \<and> length res = length (ws_Resources (w_Spec w))"
  unfolding toPodResourceLists_def
proof (induction "ws_Resources (w_Spec w)" arbitrary: w res)
  case (Cons a rs)
  obtain r rest where r: "GetPodResourceList E a = Inr r" "toPodResourceLists_loop E rs = Inr rest" "res = r # rest"
    using Cons(3) by (auto simp: Cons(2) [symmetric] ebind_Inr_iff)
  have "wf_map r" using r(1) by (auto simp: GetPodResourceList_def dest: wf_CvtToResourceList split: sum.splits)
  moreover have "(\<forall>r \<in> set rest. wf_map r) \<and> length rest = length rs"
    using Cons(1) [of "w\<lparr>w_Spec := (w_Spec w)\<lparr>ws_Resources := rs\<rparr>\<rparr>" rest] r(2) by simp
  ultimately show ?case using r(3) by (simp add: Cons(2) [symmetric])
qed simp

text \<open>
  The pods the aggregate is meant for: an identifier of a resource of the workload (an \<^verbatim>\<open>int8\<close>, not
  negative), and none of the pods stamped with the phase of a stopped workload.
\<close>

definition regular_pods :: "Workload \<Rightarrow> bool" where
  "regular_pods w \<longleftrightarrow>
     st_NodeUsage (w_Status w) = [] \<and> length (ws_Resources (w_Spec w)) < 128 \<and>
     (\<forall>p \<in> set (st_Pods (w_Status w)).
        0 \<le> pod_ResourceId p \<and> pod_ResourceId p < 128 \<and> pod_Phase p \<noteq> WorkloadStopped)"

definition with_usage :: "Workload \<Rightarrow> Workload" where
  "with_usage w = w\<lparr>w_Status := (w_Status w)\<lparr>st_NodeUsage := BuildNodeUsage w\<rparr>\<rparr>"

lemma with_usage_simps [simp]:
  "w_Spec (with_usage w) = w_Spec w" "st_Pods (w_Status (with_usage w)) = st_Pods (w_Status w)"
  "st_NodeUsage (w_Status (with_usage w)) = BuildNodeUsage w"
  "GetTotalReplica (with_usage w) = GetTotalReplica w"
  "toPodResourceLists E (with_usage w) = toPodResourceLists E w"
  by (simp_all add: with_usage_def GetTotalReplica_def toPodResourceLists_def)

lemma running_iff:
  "pod_Phase p \<noteq> WorkloadStopped \<Longrightarrow> IsPodRunning p \<longleftrightarrow> \<not> IsPodTerminated p \<and> pod_AdminNodeName p \<noteq> []"
  by (auto simp: IsPodRunning_def IsPodTerminated_def)


lemma idx_sum_fold:
  assumes "usage_inv ps st"
  shows "(\<Sum>(n, u) \<leftarrow> fst (fold add_pod qs st). if P n then act_sum res k (npu_Active u) else 0) =
     (\<Sum>(n, u) \<leftarrow> fst st. if P n then act_sum res k (npu_Active u) else 0) +
     (\<Sum>p \<leftarrow> filter (\<lambda>p. \<not> IsPodTerminated p \<and> P (pod_AdminNodeName p)) qs. pod_val res k p)"
  using assms
proof (induction qs arbitrary: ps st)
  case (Cons q qs)
  obtain idx order where st: "st = (idx, order)" by force
  let ?n = "pod_AdminNodeName q" and ?f = "\<lambda>n u. if P n then act_sum res k (npu_Active u) else 0"
  have "(\<Sum>(n, u) \<leftarrow> fst (add_pod q st). ?f n u) =
        (\<Sum>(n, u) \<leftarrow> idx. ?f n u) + (if \<not> IsPodTerminated q \<and> P ?n then pod_val res k q else 0)"
  proof (cases "IsPodTerminated q")
    case True
    then show ?thesis by (simp add: st add_pod_def)
  next
    case False
    obtain u where u: "fst (add_pod q st) = mput idx ?n u"
      using False by (auto simp: st add_pod_def Let_def)
    have act: "npu_Active u = count_up (idx_act idx ?n) (ridKey (pod_ResourceId q))"
      using idx_act_add_pod [OF False, of idx order ?n] u by (simp add: st idx_act_def)
    have wfa: "wf_map (idx_act idx ?n)" and wfi: "wf_map idx"
      using Cons.prems by (simp_all add: usage_inv_def st)
    have pos: "\<forall>(key, c) \<in> set (idx_act idx ?n). 0 < c"
      using usage_inv_key [OF Cons.prems [unfolded st]] by blast
    have "act_sum res k (npu_Active u) = act_sum res k (idx_act idx ?n) + pod_val res k q"
      unfolding act pod_val_def by (rule act_sum_count_up [OF wfa]) (simp add: mget0_pos [OF pos])
    moreover have "(case mget idx ?n of None \<Rightarrow> 0 | Some v \<Rightarrow> ?f ?n v) =
        (if P ?n then act_sum res k (idx_act idx ?n) else 0)"
      by (simp add: idx_act_def act_sum_def split: option.splits)
    ultimately show ?thesis
      using False sum_list_mput [OF wfi, of ?f ?n u] by (simp add: u)
  qed
  with Cons.IH [OF usage_inv_add_pod [OF Cons.prems, of q]] show ?case by (simp add: st add.assoc)
qed simp

lemma usage_total:
  "(\<Sum>u \<leftarrow> filter (\<lambda>u. P (npu_Node u)) (map snd (build_idx ps)). act_sum res k (npu_Active u)) =
   (\<Sum>p \<leftarrow> filter (\<lambda>p. \<not> IsPodTerminated p \<and> P (pod_AdminNodeName p)) ps. pod_val res k p)"
proof -
  have node: "\<forall>(n, u) \<in> set (build_idx ps). npu_Node u = n"
    using build_idx_inv [of ps] by (auto simp: usage_inv_def wf_map_def)
  have "(\<Sum>u \<leftarrow> filter (\<lambda>u. P (npu_Node u)) (map snd (build_idx ps)). act_sum res k (npu_Active u)) =
        (\<Sum>(n, u) \<leftarrow> build_idx ps. if P n then act_sum res k (npu_Active u) else 0)"
  proof -
    have "\<forall>(n, u) \<in> set idx. npu_Node u = n \<Longrightarrow>
        (\<Sum>u \<leftarrow> filter (\<lambda>u. P (npu_Node u)) (map snd idx). act_sum res k (npu_Active u)) =
        (\<Sum>(n, u) \<leftarrow> idx. if P n then act_sum res k (npu_Active u) else 0)" for idx
      by (induction idx) auto
    then show ?thesis using node .
  qed
  also have "\<dots> = (\<Sum>p \<leftarrow> filter (\<lambda>p. \<not> IsPodTerminated p \<and> P (pod_AdminNodeName p)) ps. pod_val res k p)"
    using idx_sum_fold [OF usage_inv_Nil, of P res k ps] by (simp add: build_idx_def)
  finally show ?thesis .
qed

lemma workloadResourceUsageFromUsage_val:
  assumes "\<forall>r \<in> set res. wf_map r" and "IsConcernedResource E k"
  shows "\<forall>u \<in> set usage. valid_keys (npu_Active u) \<Longrightarrow> wf_map t \<Longrightarrow> wf_map a \<Longrightarrow>
    \<exists>t' a'. workloadResourceUsageFromUsage E usage res f t a ns =
        Some (t', a', ns @ map npu_Node (filter (\<lambda>u. \<not> f (npu_Node u)) usage)) \<and>
      rval t' k = rval t k + (\<Sum>u \<leftarrow> usage. act_sum res k (npu_Active u)) \<and>
      rval a' k = rval a k + (\<Sum>u \<leftarrow> filter (\<lambda>u. \<not> f (npu_Node u)) usage. act_sum res k (npu_Active u))"
proof (induction usage arbitrary: t a ns)
  case (Cons u usage)
  have vk: "\<forall>u \<in> set usage. valid_keys (npu_Active u)" and vu: "valid_keys (npu_Active u)"
    using Cons.prems(1) by auto
  obtain t1 where t1: "add_active E res (npu_Active u) t = Some t1" "wf_map t1"
      "rval t1 k = rval t k + act_sum res k (npu_Active u)"
    using add_active_val [OF vu Cons.prems(2) assms] by blast
  obtain a1 where a1: "add_active E res (npu_Active u) a = Some a1" "wf_map a1"
      "rval a1 k = rval a k + act_sum res k (npu_Active u)"
    using add_active_val [OF vu Cons.prems(3) assms] by blast
  show ?case
  proof (cases "f (npu_Node u)")
    case True
    then show ?thesis using Cons.IH [OF vk t1(2) Cons.prems(3), of ns] t1 by (auto simp: Let_def add.assoc)
  next
    case False
    then show ?thesis
      using Cons.IH [OF vk t1(2) a1(2), of "ns @ [npu_Node u]"] t1 a1 by (auto simp: Let_def add.assoc)
  qed
qed simp

lemma sum_outputs_val:
  assumes "\<forall>r \<in> set res. wf_map r" and "IsConcernedResource E k"
  shows "\<forall>p \<in> set ps. 0 \<le> pod_ResourceId p \<and> pod_ResourceId p < 128 \<Longrightarrow> wf_map t \<Longrightarrow> wf_map a \<Longrightarrow>
    \<exists>t' a' ns'. sum_outputs E res (map (pod_output f) ps) t a ns = Some (t', a', ns') \<and>
      rval t' k = rval t k + (\<Sum>p \<leftarrow> filter (\<lambda>p. \<not> IsPodTerminated p) ps. pod_val res k p) \<and>
      rval a' k = rval a k + (\<Sum>p \<leftarrow> filter (\<lambda>p. \<not> IsPodTerminated p \<and> \<not> f (pod_AdminNodeName p)) ps. pod_val res k p)"
proof (induction ps arbitrary: t a ns)
  case (Cons p ps)
  have rest: "\<forall>p \<in> set ps. 0 \<le> pod_ResourceId p \<and> pod_ResourceId p < 128"
    and rid: "0 \<le> pod_ResourceId p" "pod_ResourceId p < 128"
    using Cons.prems(1) by auto
  show ?case
  proof (cases "IsPodTerminated p \<or> pod_ResourceId p \<ge> int (length res)")
    case True
    then show ?thesis using Cons.IH [OF rest Cons.prems(2,3), of ns]
      by (auto simp: pod_output_def pod_val_eq rid)
  next
    case False
    let ?r = "res ! nat (pod_ResourceId p)"
    have wfr: "wf_map ?r" using assms(1) False rid by auto
    have v: "rval (AddResource E [x, ?r]) k = rval x k + pod_val res k p" if "wf_map x" for x
      using that wfr False assms(2) by (simp add: pod_val_eq rid)
    show ?thesis
    proof (cases "f (pod_AdminNodeName p)")
      case True
      then show ?thesis
        using False rid Cons.IH [OF rest wf_AddResource Cons.prems(3), of E "[t, ?r]" ns] v [OF Cons.prems(2)]
        by (auto simp: pod_output_def Let_def add.assoc)
    next
      case nf: False
      then show ?thesis
        using False rid v [OF Cons.prems(2)] v [OF Cons.prems(3)]
          Cons.IH [OF rest wf_AddResource wf_AddResource, of E "[t, ?r]" E "[a, ?r]" "ns @ [pod_AdminNodeName p]"]
        by (auto simp: pod_output_def Let_def add.assoc)
    qed
  qed
qed simp

text \<open>The totals agree as well: for every node filter, the resources a workload holds and the part
  of them on unfiltered nodes are the same whether they are computed from its pods or from the
  aggregate built from them, and so is the number of nodes in use.\<close>

lemma usage_totals_match_pods:
  assumes "regular_pods w" and "IsConcernedResource E k"
  shows "GetInUseNodeCount (with_usage w) = GetInUseNodeCount w \<and>
    (\<exists>x y. GetWorkloadResourceUsage E w f = Some x \<and> GetWorkloadResourceUsage E (with_usage w) f = Some y \<and>
           (case (x, y) of
              (Inl e, Inl e') \<Rightarrow> e = e'
            | (Inr (t, a, ns), Inr (t', a', ns')) \<Rightarrow> rval t k = rval t' k \<and> rval a k = rval a' k
            | _ \<Rightarrow> False))"
    (is "?count \<and> ?usage")
proof
  let ?ps = "st_Pods (w_Status w)"
  have rid: "\<forall>p \<in> set ?ps. 0 \<le> pod_ResourceId p \<and> pod_ResourceId p < 128"
    using assms(1) by (auto simp: regular_pods_def)
  have nou: "st_NodeUsage (w_Status w) = []" using assms(1) by (simp add: regular_pods_def)
  have usage: "BuildNodeUsage w = map snd (build_idx ?ps)" by (rule BuildNodeUsage_eq)
  note u = usage_of_pods [OF rid, folded usage]
  have "card (pod_AdminNodeName ` {p \<in> set ?ps. \<not> IsPodTerminated p}) = length (BuildNodeUsage w)"
    using distinct_card [OF u(3)] unfolding u(4) by simp
  then show ?count
    using nou gs.len_of_list [of "map pod_AdminNodeName (filter (\<lambda>p. \<not> IsPodTerminated p) ?ps)"]
    by (simp add: GetInUseNodeCount_def totalNodeCountFromUsage_def)
  show ?usage
  proof (cases "GetTotalReplica w = 0 \<or> ?ps = [] \<or> (\<exists>e. toPodResourceLists E w = Inl e)")
    case True
    then show ?thesis using nou by (auto simp: GetWorkloadResourceUsage_def BuildNodeUsage_def)
  next
    case False
    then obtain res where res: "toPodResourceLists E w = Inr res" by (cases "toPodResourceLists E w") auto
    have wf: "\<forall>r \<in> set res. wf_map r" using toPodResourceLists_wf [OF res] by simp
    obtain t a ns where 1: "sum_outputs E res (map (pod_output f) ?ps) [] [] [] = Some (t, a, ns)"
        "rval t k = (\<Sum>p \<leftarrow> filter (\<lambda>p. \<not> IsPodTerminated p) ?ps. pod_val res k p)"
        "rval a k = (\<Sum>p \<leftarrow> filter (\<lambda>p. \<not> IsPodTerminated p \<and> \<not> f (pod_AdminNodeName p)) ?ps. pod_val res k p)"
      using sum_outputs_val [OF wf assms(2) rid, of "[]" "[]" f "[]"] by auto
    obtain t' a' ns' where 2: "workloadResourceUsageFromUsage E (BuildNodeUsage w) res f [] [] [] = Some (t', a', ns')"
        "rval t' k = (\<Sum>u \<leftarrow> BuildNodeUsage w. act_sum res k (npu_Active u))"
        "rval a' k = (\<Sum>u \<leftarrow> filter (\<lambda>u. \<not> f (npu_Node u)) (BuildNodeUsage w). act_sum res k (npu_Active u))"
      using workloadResourceUsageFromUsage_val [OF wf assms(2) u(2), of "[]" "[]" f "[]"] by auto
    have "rval t k = rval t' k \<and> rval a k = rval a' k"
      using usage_total [where P = "\<lambda>_. True" and ps = ?ps and res = res and k = k]
        usage_total [where P = "\<lambda>n. \<not> f n" and ps = ?ps and res = res and k = k] 1 2 by (simp add: usage)
    with False res nou 1(1) 2(1) show ?thesis
      by (auto simp: GetWorkloadResourceUsage_def)
  qed
qed

definition sample_usage_workload :: Workload where
  "sample_usage_workload = (blank_workload ''job'')
     \<lparr>w_Spec := blank_spec\<lparr>ws_Resources := [gpu_resource 2 ''8'']\<rparr>,
      w_Status := blank_status\<lparr>st_Pods := [sample_pod ''n1'' ''Running'' 0, sample_pod ''n2'' ''Pending'' 0]\<rparr>\<rparr>"

lemma sample_regular: "regular_pods sample_usage_workload"
  by (simp add: sample_usage_workload_def sample_defs regular_pods_def phase_defs)


lemma usage_totals_match_pods_witness:
  "GetInUseNodeCount (with_usage sample_usage_workload) = GetInUseNodeCount sample_usage_workload"
  using usage_totals_match_pods [OF sample_regular, of int_ext "''cpu''" "\<lambda>_. False"]
  by (simp add: IsConcernedResource_def resource_name_defs)

text \<open>Outside the regular case the two readings differ. A pod stamped \<open>Stopped\<close> that still has
  a node is counted from the pod list and not from the aggregate; and a negative resource identifier,
  documented as belonging to no resource, makes the code index the resource list at a negative
  position, which panics.\<close>

lemma stopped_and_negative_pods:
  "IsPodRunning (sample_pod ''n1'' WorkloadStopped 0) \<and>
   BuildNodeUsage ((blank_workload ''job'')\<lparr>w_Status := blank_status\<lparr>st_Pods := [sample_pod ''n1'' WorkloadStopped 0]\<rparr>\<rparr>) = [] \<and>
   per_node_pods int_ext [[(''cpu'', 8)]] [] [sample_pod ''n1'' WorkloadStopped 0] [] = Some [(''n1'', [(''cpu'', 8)])] \<and>
   per_node_pods int_ext [[(''cpu'', 8)]] [] [sample_pod ''n1'' PodRunning (- 1)] [] = None \<and>
   sum_outputs int_ext [[(''cpu'', 8)]] (map (pod_output (\<lambda>_. False)) [sample_pod ''n1'' PodRunning (- 1)]) [] [] [] = None"
  by (simp add: IsPodRunning_def IsPodTerminated_def sample_defs phase_defs BuildNodeUsage_def add_pod_def
      per_node_pod_def wrap8_def pod_output_def mput_def)

end
