(* ===== verification/Job_Utils.thy ===== *)
theory Job_Utils
  imports Node_Usage
begin

text \<open>
  \<^verbatim>\<open>job-manager/pkg/utils/utils.go\<close> and the time conversions of \<^verbatim>\<open>utils/pkg/timeutil\<close>: how the job
  manager writes the status of a workload. Every function returns the error, the extended write log
  and the workload as it is in memory afterwards.
\<close>

type_synonym wresult = "goerr option \<times> wlog \<times> Workload"

definition IsUnrecoverableError :: "('q, 'z) ext_scheme \<Rightarrow> goerr option \<Rightarrow> bool" where
  "IsUnrecoverableError E err =
     (case err of
        None \<Rightarrow> False
      | Some e \<Rightarrow>
          if IsBadRequest e \<or> IsInternal e \<or> IsNotFound e then True
          else if api_IsNotFound E e \<or> api_IsInvalid E e \<or> api_IsForbidden E e then True
          else if api_IsTooLarge E e \<or> str_contains (err_Message e) ''request is too large'' then True
          else False)"

definition FindCondition :: "Workload \<Rightarrow> Condition \<Rightarrow> Condition option" where
  "FindCondition workload condition =
     find (\<lambda>c. cond_Type c = cond_Type condition \<and> cond_Reason c = cond_Reason condition)
       (st_Conditions (w_Status workload))"

definition NewCondition :: "('q, 'z) env_scheme \<Rightarrow> string \<Rightarrow> string \<Rightarrow> string \<Rightarrow> Condition" where
  "NewCondition E conditionType message reason =
     \<lparr>cond_Type = conditionType, cond_Status = ''True'', cond_LastTransitionTime = now E,
      cond_Reason = reason, cond_Message = message\<rparr>"

text \<open>
  A status patch writes the given fields only, guarded by the resource version, and refreshes the
  in-memory object from the answer; no field, no write.
\<close>

definition PatchWorkloadStatusFields ::
  "('q, 'z) env_scheme \<Rightarrow> wlog \<Rightarrow> Workload \<Rightarrow> (WorkloadStatus \<Rightarrow> WorkloadStatus) list \<Rightarrow> wresult" where
  "PatchWorkloadStatusFields E lg workload statusFields =
     (if length statusFields = 0 then (None, lg, workload)
      else
        let w' = workload\<lparr>w_Status := fold (\<lambda>f s. f s) statusFields (w_Status workload)\<rparr> in
        case do_write E lg (PatchStatus w') of
          (None, lg') \<Rightarrow> (None, lg', w')
        | (Some e, lg') \<Rightarrow> (Some e, lg', workload))"

text \<open>\<^verbatim>\<open>SetWorkloadFailed\<close> changes the object in memory before it writes.\<close>

definition fail_status :: "('q, 'z) env_scheme \<Rightarrow> Workload \<Rightarrow> string \<Rightarrow> Workload" where
  "fail_status E workload message =
     (let s0 = w_Status workload;
          s1 = s0\<lparr>st_Phase := WorkloadFailed\<rparr>;
          s2 = (if st_EndTime s1 = None then s1\<lparr>st_EndTime := Some (now E)\<rparr> else s1);
          n0 = GetWorkloadDispatchCnt (w_Meta workload);
          n = (if n0 = 0 then 1 else n0);
          condition = NewCondition E AdminFailed message (GenerateDispatchReason n);
          s3 = (if FindCondition workload condition = None
                then s2\<lparr>st_Conditions := st_Conditions s2 @ [condition]\<rparr> else s2)
      in StripOffloadedStatus (workload\<lparr>w_Status := s3\<rparr>))"

definition SetWorkloadFailed :: "('q, 'z) env_scheme \<Rightarrow> wlog \<Rightarrow> Workload \<Rightarrow> string \<Rightarrow> wresult" where
  "SetWorkloadFailed E lg workload message =
     (let w' = fail_status E workload message in
      case do_write E lg (UpdateStatus w') of (r, lg') \<Rightarrow> (r, lg', w'))"

definition MarkWorkloadStopped :: "('q, 'z) env_scheme \<Rightarrow> wlog \<Rightarrow> Workload \<Rightarrow> string \<Rightarrow> wresult" where
  "MarkWorkloadStopped E lg workload message =
     (if w_Phase workload = WorkloadStopped then (None, lg, workload)
      else
        let endf = (if st_EndTime (w_Status workload) = None then [\<lambda>s. s\<lparr>st_EndTime := Some (now E)\<rparr>] else []);
            cond = \<lparr>cond_Type = AdminStopped, cond_Status = ''True'', cond_LastTransitionTime = zero_time,
                    cond_Reason = GenerateDispatchReason (GetWorkloadDispatchCnt (w_Meta workload)),
                    cond_Message = message\<rparr>
        in case meta_SetStatusCondition E (st_Conditions (w_Status workload)) cond of
             (changed, cs) \<Rightarrow>
               PatchWorkloadStatusFields E lg
                 (workload\<lparr>w_Status := (w_Status workload)\<lparr>st_Conditions := cs\<rparr>\<rparr>)
                 ([\<lambda>s. s\<lparr>st_Phase := WorkloadStopped\<rparr>] @ endf @
                  (if changed then [\<lambda>s. s\<lparr>st_Conditions := cs\<rparr>] else [])))"

definition SetWorkloadTimeout :: "('q, 'z) env_scheme \<Rightarrow> wlog \<Rightarrow> Workload \<Rightarrow> string \<Rightarrow> wresult" where
  "SetWorkloadTimeout E lg workload message = MarkWorkloadStopped E lg workload message"

section \<open>Times\<close>

definition TimeRFC3339Short :: string where "TimeRFC3339Short = ''2006-01-02T15:04:05''"
definition TimeRFC3339Milli :: string where "TimeRFC3339Milli = ''2006-01-02T15:04:05.999Z''"

definition FormatRFC3339 :: "('q, 'z) env_scheme \<Rightarrow> gotime \<Rightarrow> string" where
  "FormatRFC3339 E t = (if t = zero_time then '''' else time_Format E TimeRFC3339Short t)"

definition CvtStrUnixToTime :: "string \<Rightarrow> gotime" where
  "CvtStrUnixToTime strTime =
     (if strTime = '''' then zero_time
      else case go_atoi strTime of None \<Rightarrow> zero_time | Some n \<Rightarrow> n * nano)"

definition CvtStrToRFC3339Milli :: "('q, 'z) env_scheme \<Rightarrow> string \<Rightarrow> goerr + gotime" where
  "CvtStrToRFC3339Milli E timeStr =
     (if timeStr = '''' then Inl (plain_error ''invalid input'')
      else case time_Parse E TimeRFC3339Milli timeStr of
             Inr t \<Rightarrow> Inr t
           | Inl e \<Rightarrow> time_Parse E TimeRFC3339Short timeStr)"

text \<open>\<^verbatim>\<open>Time.Truncate(time.Minute)\<close> and the civil date of an instant.\<close>

definition time_Truncate_Minute :: "gotime \<Rightarrow> gotime" where
  "time_Truncate_Minute t = t - (t - zero_time) mod (60 * nano)"

definition civil_month_day :: "int \<Rightarrow> int \<times> int" where
  "civil_month_day days =
     (let z = days + 719468;
          era = z div 146097;
          doe = z - era * 146097;
          yoe = (doe - doe div 1460 + doe div 36524 - doe div 146096) div 365;
          doy = doe - (365 * yoe + yoe div 4 - yoe div 100);
          mp = (5 * doy + 2) div 153;
          d = doy - (153 * mp + 2) div 5 + 1;
          m = (if mp < 10 then mp + 3 else mp - 9)
      in (m, d))"

definition CvtTime3339ToCronStandard :: "('q, 'z) env_scheme \<Rightarrow> string \<Rightarrow> goerr + string \<times> gotime" where
  "CvtTime3339ToCronStandard E timeStr =
     ebind (CvtStrToRFC3339Milli E timeStr) (\<lambda>t0.
       let t = time_Truncate_Minute t0;
           secs = t div nano;
           days = secs div 86400;
           (month, day) = civil_month_day days
       in Inr (itoa (secs div 60 mod 60) @ '' '' @ itoa (secs div 3600 mod 24) @ '' '' @ itoa day @ '' '' @
               itoa month @ '' *'', t))"

section \<open>Properties\<close>

lemma PatchWorkloadStatusFields_meta:
  "PatchWorkloadStatusFields E lg w fs = (r, lg', w') \<Longrightarrow> w_Meta w' = w_Meta w \<and> w_Spec w' = w_Spec w"
  by (auto simp: PatchWorkloadStatusFields_def Let_def split: if_splits prod.splits option.splits)

lemma PatchWorkloadStatusFields_ok:
  "PatchWorkloadStatusFields E lg w fs = (None, lg', w') \<Longrightarrow>
     w' = w\<lparr>w_Status := fold (\<lambda>f s. f s) fs (w_Status w)\<rparr>"
  by (auto simp: PatchWorkloadStatusFields_def Let_def split: if_splits prod.splits option.splits)

lemma PatchWorkloadStatusFields_cases:
  assumes "PatchWorkloadStatusFields E lg w fs = (r, lg', w')" and "fs \<noteq> []"
  defines "x \<equiv> w\<lparr>w_Status := fold (\<lambda>f s. f s) fs (w_Status w)\<rparr>"
  shows "lg' = lg @ [(PatchStatus x, r)]" and "w' = (if r = None then x else w)"
    and "r = write_result E lg (PatchStatus x)"
proof -
  obtain r' l' where d: "do_write E lg (PatchStatus x) = (r', l')" by force
  then show "lg' = lg @ [(PatchStatus x, r)]" "w' = (if r = None then x else w)"
      "r = write_result E lg (PatchStatus x)"
    using assms(1,2) do_write_cases [OF d]
    by (auto simp: PatchWorkloadStatusFields_def x_def [symmetric] split: option.splits)
qed

lemma fail_status_phase [simp]: "w_Phase (fail_status E w m) = WorkloadFailed"
  by (simp add: fail_status_def Let_def StripOffloadedStatus_def)

lemma fail_status_meta [simp]: "w_Meta (fail_status E w m) = w_Meta w" "w_Spec (fail_status E w m) = w_Spec w"
  by (simp_all add: fail_status_def Let_def StripOffloadedStatus_def)

definition has_cond :: "Condition list \<Rightarrow> string \<Rightarrow> string \<Rightarrow> bool" where
  "has_cond cs ty reason \<longleftrightarrow> (\<exists>c \<in> set cs. cond_Type c = ty \<and> cond_Reason c = reason)"

definition fail_reason :: "Workload \<Rightarrow> string" where
  "fail_reason w = GenerateDispatchReason
     (if GetWorkloadDispatchCnt (w_Meta w) = 0 then 1 else GetWorkloadDispatchCnt (w_Meta w))"

lemma FindCondition_none:
  "FindCondition w c = None \<longleftrightarrow> \<not> has_cond (st_Conditions (w_Status w)) (cond_Type c) (cond_Reason c)"
  by (auto simp: FindCondition_def has_cond_def find_None_iff)

lemma fail_status_conditions:
  "st_Conditions (w_Status (fail_status E w m)) =
     (let cs = st_Conditions (w_Status w) in
      if has_cond cs AdminFailed (fail_reason w) then cs else cs @ [NewCondition E AdminFailed m (fail_reason w)])"
  by (simp add: fail_status_def Let_def StripOffloadedStatus_def FindCondition_none NewCondition_def fail_reason_def)

text \<open>Marking a workload failed always yields the phase \<open>Failed\<close> with an end time, at most one
  failure condition per dispatch, and repeating it changes nothing more; it never touches metadata or
  specification.\<close>

lemma fail_status_idempotent:
  "w_Phase (fail_status E w m) = WorkloadFailed \<and> st_EndTime (w_Status (fail_status E w m)) \<noteq> None \<and>
   w_Meta (fail_status E w m) = w_Meta w \<and> w_Spec (fail_status E w m) = w_Spec w \<and>
   fail_status E (fail_status E w m) m' = fail_status E w m"
proof -
  have again: "fail_status E v m' = StripOffloadedStatus v"
    if "w_Phase v = WorkloadFailed" "st_EndTime (w_Status v) \<noteq> None"
      "has_cond (st_Conditions (w_Status v)) AdminFailed (fail_reason v)" for v
  proof -
    have "(w_Status v)\<lparr>st_Phase := WorkloadFailed\<rparr> = w_Status v" using that(1) by (cases "w_Status v") simp
    then show ?thesis using that(2,3)
      by (auto simp: fail_status_def Let_def FindCondition_none NewCondition_def fail_reason_def [symmetric])
  qed
  have strip: "StripOffloadedStatus (StripOffloadedStatus v) = StripOffloadedStatus v" for v
    by (simp add: StripOffloadedStatus_def)
  have ended: "st_EndTime (w_Status (fail_status E w m)) \<noteq> None"
    by (simp add: fail_status_def Let_def StripOffloadedStatus_def)
  have "has_cond (st_Conditions (w_Status (fail_status E w m))) AdminFailed (fail_reason (fail_status E w m))"
    by (auto simp: fail_status_conditions Let_def has_cond_def NewCondition_def fail_reason_def)
  then have "fail_status E (fail_status E w m) m' = StripOffloadedStatus (fail_status E w m)"
    using again ended by simp
  also have "\<dots> = fail_status E w m" unfolding fail_status_def Let_def by (rule strip)
  finally show ?thesis using ended by simp
qed

lemma MarkWorkloadStopped_write:
  assumes "w_Phase w \<noteq> WorkloadStopped" and "MarkWorkloadStopped E lg w m = (r, lg', w')"
  shows "\<exists>x. lg' = lg @ [(PatchStatus x, r)] \<and> w_Phase x = WorkloadStopped \<and> st_EndTime (w_Status x) \<noteq> None \<and>
           w_Meta x = w_Meta w \<and> w_Spec x = w_Spec w \<and> w_Meta w' = w_Meta w \<and> w_Spec w' = w_Spec w \<and>
           (r = None \<longrightarrow> w' = x) \<and> (r \<noteq> None \<longrightarrow> w_Phase w' = w_Phase w)"
proof -
  let ?c = "\<lparr>cond_Type = AdminStopped, cond_Status = ''True'', cond_LastTransitionTime = zero_time,
      cond_Reason = GenerateDispatchReason (GetWorkloadDispatchCnt (w_Meta w)), cond_Message = m\<rparr>"
  obtain changed cs where c: "meta_SetStatusCondition E (st_Conditions (w_Status w)) ?c = (changed, cs)" by force
  define fs :: "(WorkloadStatus \<Rightarrow> WorkloadStatus) list" where "fs = [\<lambda>s. s\<lparr>st_Phase := WorkloadStopped\<rparr>] @
      (if st_EndTime (w_Status w) = None then [\<lambda>s. s\<lparr>st_EndTime := Some (now E)\<rparr>] else []) @
      (if changed then [\<lambda>s. s\<lparr>st_Conditions := cs\<rparr>] else [])"
  let ?w = "w\<lparr>w_Status := (w_Status w)\<lparr>st_Conditions := cs\<rparr>\<rparr>"
  let ?x = "?w\<lparr>w_Status := fold (\<lambda>f s. f s) fs (w_Status ?w)\<rparr>"
  have "PatchWorkloadStatusFields E lg ?w fs = (r, lg', w')"
    using assms c by (simp add: MarkWorkloadStopped_def fs_def)
  moreover have "fs \<noteq> []" by (simp add: fs_def)
  ultimately have "lg' = lg @ [(PatchStatus ?x, r)]" "w' = (if r = None then ?x else ?w)"
    by (rule PatchWorkloadStatusFields_cases)+
  moreover have "w_Phase ?x = WorkloadStopped" "st_EndTime (w_Status ?x) \<noteq> None"
    by (auto simp: fs_def)
  ultimately show ?thesis by (intro exI [of _ ?x]) auto
qed

text \<open>Stopping a workload that is not stopped writes exactly one status patch; if the write
  succeeds the workload is \<open>Stopped\<close> with an end time, and a second call writes nothing.\<close>

lemma MarkWorkloadStopped_once:
  assumes "w_Phase w \<noteq> WorkloadStopped" and "MarkWorkloadStopped E lg w m = (r, lg', w')"
  shows "(\<exists>x. lg' = lg @ [(PatchStatus x, r)] \<and> w_Phase x = WorkloadStopped \<and> st_EndTime (w_Status x) \<noteq> None) \<and>
         (r = None \<longrightarrow> w_Phase w' = WorkloadStopped \<and> st_EndTime (w_Status w') \<noteq> None \<and>
                       MarkWorkloadStopped E lg' w' m' = (None, lg', w')) \<and>
         (r \<noteq> None \<longrightarrow> w_Phase w' = w_Phase w)"
  using MarkWorkloadStopped_write [OF assms] by (auto simp: MarkWorkloadStopped_def)

lemma MarkWorkloadStopped_once_witness:
  "w_Phase (snd (snd (MarkWorkloadStopped (sample_env [] [] [] []) [] (blank_workload ''job'') ''timeout''))) = WorkloadStopped"
proof -
  let ?E = "sample_env [] [] [] []" and ?w = "blank_workload ''job''"
  obtain r lg' w' where e: "MarkWorkloadStopped ?E [] ?w ''timeout'' = (r, lg', w')" by (metis prod_cases3)
  have p: "w_Phase ?w \<noteq> WorkloadStopped" by (simp add: sample_defs phase_defs)
  have "r = None"
    using MarkWorkloadStopped_once [OF p e] e p
    by (auto simp: MarkWorkloadStopped_def PatchWorkloadStatusFields_def Let_def do_write_def sample_env_def ext.defs)
  then show ?thesis using MarkWorkloadStopped_once [OF p e] e by simp
qed

end
