(* ===== verification/Go_Sort.thy ===== *)
theory Go_Sort
  imports Go_Prelude
begin

text \<open>
  \<^verbatim>\<open>sort.Sort\<close> and \<^verbatim>\<open>sort.Slice\<close> as the insertion sort that Go runs on slices of up to twelve
  elements: each element in turn moves left while it is less than its left neighbour. For longer
  slices Go runs a pattern-defeating quicksort; the locale \<^verbatim>\<open>strict_weak\<close> states the contract
  a caller's comparison has to meet, and shows that then every correct sorting routine returns
  the same sequence of keys.
\<close>

fun sift_left :: "('a \<Rightarrow> 'a \<Rightarrow> bool) \<Rightarrow> 'a \<Rightarrow> 'a list \<Rightarrow> 'a list" where
  "sift_left lt x [] = [x]"
| "sift_left lt x (y # ys) = (if lt x y then y # sift_left lt x ys else x # y # ys)"

text \<open>The sorted prefix is kept reversed, its last element first.\<close>

definition go_sort :: "('a \<Rightarrow> 'a \<Rightarrow> bool) \<Rightarrow> 'a list \<Rightarrow> 'a list" where
  "go_sort lt xs = rev (fold (sift_left lt) xs [])"

lemma mset_sift_left [simp]: "mset (sift_left lt x ys) = add_mset x (mset ys)"
  by (induction lt x ys rule: sift_left.induct) auto

lemma mset_fold_sift: "mset (fold (sift_left lt) xs acc) = mset xs + mset acc"
  by (induction xs arbitrary: acc) auto

lemma mset_go_sort [simp]: "mset (go_sort lt xs) = mset xs"
  by (simp add: go_sort_def mset_fold_sift)

lemma set_go_sort [simp]: "set (go_sort lt xs) = set xs"
  by (metis mset_go_sort set_mset_mset)

lemma length_go_sort [simp]: "length (go_sort lt xs) = length xs"
  by (metis mset_go_sort size_mset)

lemma distinct_go_sort [simp]: "distinct (go_sort lt xs) = distinct xs"
  by (metis mset_go_sort mset_eq_imp_distinct_iff)

lemma go_sort_Nil [simp]: "go_sort lt [] = []"
  by (simp add: go_sort_def)

lemma go_sort_eq_Nil [simp]: "go_sort lt xs = [] \<longleftrightarrow> xs = []"
  by (metis length_go_sort length_0_conv)

lemma sift_left_cong:
  "(\<And>y. y \<in> set ys \<Longrightarrow> lt x y = lt' x y) \<Longrightarrow> sift_left lt x ys = sift_left lt' x ys"
  by (induction ys) auto

lemma set_sift_left [simp]: "set (sift_left lt x ys) = insert x (set ys)"
  by (metis mset_sift_left set_mset_add_mset_insert set_mset_mset)

lemma go_sort_cong:
  assumes "\<And>x y. x \<in> set xs \<Longrightarrow> y \<in> set xs \<Longrightarrow> lt x y = lt' x y"
  shows "go_sort lt xs = go_sort lt' xs"
proof -
  have "set zs \<subseteq> set xs \<Longrightarrow> set acc \<subseteq> set xs \<Longrightarrow> fold (sift_left lt) zs acc = fold (sift_left lt') zs acc" for zs acc
  proof (induction zs arbitrary: acc)
    case (Cons z zs)
    have "sift_left lt z acc = sift_left lt' z acc"
      using Cons.prems assms by (intro sift_left_cong) auto
    then show ?case using Cons by simp
  qed simp
  then show ?thesis by (simp add: go_sort_def)
qed

text \<open>The contract of a comparison function that \<^verbatim>\<open>sort\<close> documents: a strict weak order.\<close>

locale strict_weak =
  fixes lt :: "'a \<Rightarrow> 'a \<Rightarrow> bool"
  assumes less_irrefl: "\<not> lt x x"
    and less_trans: "lt x y \<Longrightarrow> lt y z \<Longrightarrow> lt x z"
    and incomp_trans: "\<not> lt x y \<Longrightarrow> \<not> lt y z \<Longrightarrow> \<not> lt x z"
begin

lemma less_asym: "lt x y \<Longrightarrow> \<not> lt y x"
  using less_irrefl less_trans by blast

lemma sift_left_sorted:
  "sorted_wrt (\<lambda>a b. \<not> lt a b) ys \<Longrightarrow> sorted_wrt (\<lambda>a b. \<not> lt a b) (sift_left lt x ys)"
proof (induction ys)
  case (Cons y ys)
  have *: "set (sift_left lt x ys) = insert x (set ys)"
    by (metis mset_sift_left set_mset_add_mset_insert set_mset_mset)
  show ?case
  proof (cases "lt x y")
    case True
    then show ?thesis using Cons * less_asym by auto
  next
    case False
    then show ?thesis using Cons.prems incomp_trans by auto
  qed
qed simp

lemma fold_sift_sorted:
  "sorted_wrt (\<lambda>a b. \<not> lt a b) acc \<Longrightarrow>
     sorted_wrt (\<lambda>a b. \<not> lt a b) (fold (sift_left lt) xs acc)"
  by (induction xs arbitrary: acc) (auto intro: sift_left_sorted)

text \<open>In the result no later element is less than an earlier one.\<close>

lemma sorted_go_sort: "sorted_wrt (\<lambda>a b. \<not> lt b a) (go_sort lt xs)"
  using fold_sift_sorted [of "[]" xs] by (simp add: go_sort_def sorted_wrt_rev)

lemma go_sort_sorted_index:
  "i < j \<Longrightarrow> j < length xs \<Longrightarrow> \<not> lt (go_sort lt xs ! j) (go_sort lt xs ! i)"
  using sorted_go_sort [of xs] by (simp add: sorted_wrt_iff_nth_less)

end

text \<open>
  A comparison that reads a key into a linear order meets the contract, and any sorted
  permutation of the input carries the same keys in the same order: which sorting algorithm runs
  does not matter.
\<close>

locale key_order =
  fixes lt :: "'a \<Rightarrow> 'a \<Rightarrow> bool" and key :: "'a \<Rightarrow> 'b::linorder"
  assumes less_key: "lt x y \<longleftrightarrow> key x < key y"
begin

lemma key_strict_weak: "strict_weak lt"
  by unfold_locales (auto simp: less_key)

lemma sorted_keys: "sorted (map key (go_sort lt xs))"
proof -
  have "sorted_wrt (\<lambda>a b. \<not> lt b a) (go_sort lt xs)"
    by (rule strict_weak.sorted_go_sort [OF key_strict_weak])
  then show ?thesis by (simp add: sorted_map less_key not_less)
qed

lemma sorted_perm_unique:
  assumes "mset ys = mset xs" and "sorted_wrt (\<lambda>a b. \<not> lt b a) ys"
    and "inj_on key (set xs)"
  shows "ys = go_sort lt xs"
proof -
  have "sorted (map key ys)" using assms(2) by (simp add: sorted_map less_key not_less)
  moreover have "mset (map key ys) = mset (map key (go_sort lt xs))" using assms(1) by simp
  ultimately have "map key ys = map key (go_sort lt xs)"
    using sorted_keys [of xs] by (metis properties_for_sort)
  moreover have "inj_on key (set ys \<union> set (go_sort lt xs))"
    using assms(1,3) by (metis set_go_sort set_mset_mset sup.idem)
  ultimately show ?thesis by (rule map_inj_on)
qed

end

text \<open>
  A comparison that only respects a classification, and answers anything within a class (even that two
  elements are both less than each other), still brings the classes into order.
\<close>

locale class_order =
  fixes lt :: "'a \<Rightarrow> 'a \<Rightarrow> bool" and cls :: "'a \<Rightarrow> 'b::linorder"
  assumes class_less: "cls x < cls y \<Longrightarrow> lt x y"
    and class_greater: "cls y < cls x \<Longrightarrow> \<not> lt x y"
begin

lemma sift_left_classes: "sorted (rev (map cls ys)) \<Longrightarrow> sorted (rev (map cls (sift_left lt x ys)))"
proof (induction ys)
  case (Cons y ys)
  have s: "set (sift_left lt x ys) = insert x (set ys)" by simp
  show ?case
  proof (cases "lt x y")
    case True
    then have "cls x \<le> cls y" using class_greater [of y x] by (metis not_less)
    then show ?thesis using Cons True s by (auto simp: sorted_append)
  next
    case False
    then have "cls y \<le> cls x" using class_less [of x y] by (metis not_less)
    then show ?thesis using Cons.prems False by (auto simp: sorted_append)
  qed
qed simp

lemma fold_sift_classes: "sorted (rev (map cls acc)) \<Longrightarrow> sorted (rev (map cls (fold (sift_left lt) xs acc)))"
  by (induction xs arbitrary: acc) (auto intro: sift_left_classes)

lemma sorted_classes: "sorted (map cls (go_sort lt xs))"
  using fold_sift_classes [of "[]" xs] by (simp add: go_sort_def rev_map)

text \<open>A prefix takes an element of a class only if it takes all of the classes before.\<close>

lemma take_classes:
  assumes "x \<in> set (take n (go_sort lt xs))" and "y \<in> set xs" and "cls y < cls x"
  shows "y \<in> set (take n (go_sort lt xs))"
proof (rule ccontr)
  assume not: "y \<notin> set (take n (go_sort lt xs))"
  have "y \<in> set (take n (go_sort lt xs)) \<union> set (drop n (go_sort lt xs))"
    using assms(2) by (metis append_take_drop_id set_append set_go_sort)
  then have "y \<in> set (drop n (go_sort lt xs))" using not by blast
  moreover have "sorted (map cls (take n (go_sort lt xs)) @ map cls (drop n (go_sort lt xs)))"
    using sorted_classes [of xs] by (metis append_take_drop_id map_append)
  ultimately have "cls x \<le> cls y" using assms(1) by (auto simp: sorted_append)
  then show False using assms(3) by simp
qed

end

sublocale key_order \<subseteq> class_order lt key
  by unfold_locales (auto simp: less_key)

text \<open>A comparison that may panic, in the same sorting routine.\<close>

fun sift_left_opt :: "('a \<Rightarrow> 'a \<Rightarrow> bool option) \<Rightarrow> 'a \<Rightarrow> 'a list \<Rightarrow> 'a list option" where
  "sift_left_opt lt x [] = Some [x]"
| "sift_left_opt lt x (y # ys) =
     (case lt x y of
        None \<Rightarrow> None
      | Some b \<Rightarrow> if b then map_option (Cons y) (sift_left_opt lt x ys) else Some (x # y # ys))"

definition go_sort_opt :: "('a \<Rightarrow> 'a \<Rightarrow> bool option) \<Rightarrow> 'a list \<Rightarrow> 'a list option" where
  "go_sort_opt lt xs = map_option rev (fold (\<lambda>x acc. Option.bind acc (sift_left_opt lt x)) xs (Some []))"

lemma sift_left_opt_total:
  "(\<And>y. y \<in> set ys \<Longrightarrow> lt x y = Some (lt' x y)) \<Longrightarrow> sift_left_opt lt x ys = Some (sift_left lt' x ys)"
  by (induction ys) auto

lemma go_sort_opt_total:
  assumes "\<And>x y. x \<in> set xs \<Longrightarrow> y \<in> set xs \<Longrightarrow> lt x y = Some (lt' x y)"
  shows "go_sort_opt lt xs = Some (go_sort lt' xs)"
proof -
  have "set zs \<subseteq> set xs \<Longrightarrow> set acc \<subseteq> set xs \<Longrightarrow>
      fold (\<lambda>x acc. Option.bind acc (sift_left_opt lt x)) zs (Some acc) = Some (fold (sift_left lt') zs acc)" for zs acc
  proof (induction zs arbitrary: acc)
    case (Cons z zs)
    have "sift_left_opt lt z acc = Some (sift_left lt' z acc)"
      using Cons.prems assms by (intro sift_left_opt_total) auto
    then show ?case using Cons by simp
  qed simp
  from this [of xs "[]"] show ?thesis by (simp add: go_sort_opt_def go_sort_def)
qed

lemma mset_sift_left_opt: "sift_left_opt lt x ys = Some zs \<Longrightarrow> mset zs = add_mset x (mset ys)"
  by (induction ys arbitrary: zs) (auto split: option.splits if_splits)

lemma fold_bind_None: "fold (\<lambda>x acc. Option.bind acc (f x)) xs None = None"
  by (induction xs) auto

lemma mset_go_sort_opt: "go_sort_opt lt xs = Some ys \<Longrightarrow> mset ys = mset xs"
proof -
  have "fold (\<lambda>x acc. Option.bind acc (sift_left_opt lt x)) zs (Some acc) = Some r \<Longrightarrow> mset r = mset zs + mset acc" for zs acc r
  proof (induction zs arbitrary: acc)
    case (Cons z zs)
    then obtain acc1 where "sift_left_opt lt z acc = Some acc1" by (cases "sift_left_opt lt z acc") (auto simp: fold_bind_None)
    then show ?case using Cons mset_sift_left_opt [of lt z acc acc1] by auto
  qed simp
  then show "go_sort_opt lt xs = Some ys \<Longrightarrow> mset ys = mset xs" by (force simp: go_sort_opt_def)
qed

end
