(* ===== verification/Preempt.thy ===== *)
theory Preempt
  imports Job_Utils Go_Sort "HOL-Library.Product_Lexorder"
begin

text \<open>
  \<^verbatim>\<open>job-manager/pkg/scheduler/preempt.go\<close> and \<^verbatim>\<open>scheduler_utils.go\<close>: the order of the queue, and the
  choice of victims when a workload does not fit. Scores are computed in \<^verbatim>\<open>float64\<close>; a node flavor
  whose capacity rounds to zero although it is not zero is outside the model (the code would divide
  by zero).
\<close>

section \<open>The order of the queue\<close>

definition isReScheduledForFailover :: "Workload \<Rightarrow> bool" where
  "isReScheduledForFailover workload \<longleftrightarrow>
     IsWorkloadReScheduled (w_Meta workload) \<and> \<not> IsWorkloadPreempted (w_Meta workload)"

abbreviation created :: "Workload \<Rightarrow> gotime" where
  "created w \<equiv> om_CreationTimestamp (w_Meta w)"

abbreviation priority :: "Workload \<Rightarrow> int" where
  "priority w \<equiv> ws_Priority (w_Spec w)"

definition WorkloadList_Less :: "Workload \<Rightarrow> Workload \<Rightarrow> bool" where
  "WorkloadList_Less wi wj \<longleftrightarrow>
     (if isReScheduledForFailover wi \<and> \<not> isReScheduledForFailover wj then True
      else if \<not> isReScheduledForFailover wi \<and> isReScheduledForFailover wj then False
      else if \<not> IsDependenciesEnd wi \<and> IsDependenciesEnd wj then False
      else if priority wi > priority wj then True
      else if priority wi < priority wj then False
      else if created wi < created wj then True
      else if created wi = created wj \<and> w_Name wi < w_Name wj then True
      else False)"

definition formatResourceName :: "string \<Rightarrow> string" where
  "formatResourceName key = (if key = NvidiaGpu \<or> key = AmdGpu then ''gpu'' else key)"

section \<open>Victims\<close>

record 'q WorkloadWrapper =
  ww_workload :: Workload
  ww_resources :: "'q resource_list"
  ww_resourceScore :: float64

definition WrapperSlice_Less :: "'q WorkloadWrapper \<Rightarrow> 'q WorkloadWrapper \<Rightarrow> bool" where
  "WrapperSlice_Less wi wj \<longleftrightarrow>
     (if priority (ww_workload wi) < priority (ww_workload wj) then True
      else if priority (ww_workload wi) > priority (ww_workload wj) then False
      else if ww_resourceScore wi > ww_resourceScore wj then True
      else if ww_resourceScore wi < ww_resourceScore wj then False
      else if created (ww_workload wi) > created (ww_workload wj) then True
      else if created (ww_workload wi) < created (ww_workload wj) then False
      else w_Name (ww_workload wi) < w_Name (ww_workload wj))"

fun first_gpu_name :: "WorkloadResource list \<Rightarrow> string" where
  "first_gpu_name [] = ''''"
| "first_gpu_name (res # rest) = (if HasGpu res then wr_GPUName res else first_gpu_name rest)"

definition buildResourceWeight ::
  "('q::linordered_ab_group_add, 'z) ext_scheme \<Rightarrow> Workload \<Rightarrow> 'q resource_list \<Rightarrow> 'q NodeFlavor \<Rightarrow> float64" where
  "buildResourceWeight E workload resources nodeFlavor =
     (if ws_Resources (w_Spec workload) = [] then 0
      else
        let gpuName = first_gpu_name (ws_Resources (w_Spec workload));
            w1 = (if gpuName \<noteq> '''' then
                    (case mget resources gpuName of
                       None \<Rightarrow> 0
                     | Some g \<Rightarrow> f64_add 0 (f64_of_int (wrap64 (q_Value E g * 10))))
                  else 0);
            mem = nfs_Memory (nf_Spec nodeFlavor);
            cpu = cpu_Quantity (nfs_Cpu (nf_Spec nodeFlavor));
            w2 = (if mem \<noteq> 0
                  then f64_add w1 (f64_div (f64_of_int (q_Value E (mget0 0 resources ResourceMemory)))
                                           (f64_of_int (q_Value E mem)))
                  else w1)
        in if cpu \<noteq> 0
           then f64_add w2 (f64_div (f64_of_int (q_Value E (mget0 0 resources ResourceCPU)))
                                    (f64_of_int (q_Value E cpu)))
           else w2)"

definition sortWorkloads ::
  "('q::linordered_ab_group_add, 'z) env_scheme \<Rightarrow> wlog \<Rightarrow> Workload \<Rightarrow> Workload list \<Rightarrow> goerr + 'q WorkloadWrapper list" where
  "sortWorkloads E lg requestWorkload targetWorkloads =
     (if length targetWorkloads = 0 then Inr []
      else
        ebind (get_NodeFlavor E lg (GetNodeFlavorId (w_Meta requestWorkload))) (\<lambda>nf.
          Inr (go_sort WrapperSlice_Less
            (map (\<lambda>w. \<lparr>ww_workload = w, ww_resources = total_or_nil E w,
                       ww_resourceScore = buildResourceWeight E requestWorkload (total_or_nil E w) nf\<rparr>)
               targetWorkloads))))"

text \<open>
  The loop over the sorted candidates. \<open>before\<close> holds the candidates already passed: when the
  request fits, all of them are victims, together with the current one.
\<close>

fun collect_victims ::
  "('q::linordered_ab_group_add, 'z) ext_scheme \<Rightarrow> Workload \<Rightarrow> 'q resource_list \<Rightarrow> Workload list
     \<Rightarrow> 'q WorkloadWrapper list \<Rightarrow> 'q resource_list \<Rightarrow> Workload list" where
  "collect_victims E requestWorkload requestResources before [] totalResources = []"
| "collect_victims E requestWorkload requestResources before (c # cs) totalResources =
     (let w = ww_workload c in
      if priority w \<ge> priority requestWorkload then []
      else if IsWorkloadPreempted (w_Meta w) then
        collect_victims E requestWorkload requestResources (before @ [w]) cs totalResources
      else
        let totalResources' = AddResource E [totalResources, ww_resources c] in
        if fst (IsSubResource requestResources totalResources') then before @ [w]
        else collect_victims E requestWorkload requestResources (before @ [w]) cs totalResources')"

definition preemptLowPriorityWorkloads ::
  "('q::linordered_ab_group_add, 'z) env_scheme \<Rightarrow> wlog \<Rightarrow> Workload \<Rightarrow> 'q resource_list \<Rightarrow> Workload list
     \<Rightarrow> goerr + Workload list" where
  "preemptLowPriorityWorkloads E lg requestWorkload leftResources scheduledWorkloads =
     (if \<not> IsWorkloadEnablePreempt (w_Meta requestWorkload) then Inr []
      else
        ebind (sortWorkloads E lg requestWorkload scheduledWorkloads) (\<lambda>sortedWorkloads.
          Inr (collect_victims E requestWorkload (total_or_nil E requestWorkload) [] sortedWorkloads
                 (Copy_list leftResources))))"

text \<open>A patch refreshes the shared in-memory object: every holder of the pointer sees the change.\<close>

definition update_named :: "Workload \<Rightarrow> Workload list \<Rightarrow> Workload list" where
  "update_named w' ws = map (\<lambda>w. if w_Name w = w_Name w' then w' else w) ws"

definition mark_preempted :: "('q, 'z) env_scheme \<Rightarrow> Workload \<Rightarrow> Workload" where
  "mark_preempted E w =
     w\<lparr>w_Meta := snd (SetAnnotation (w_Meta w) WorkloadPreemptedAnnotation (time_String E (now E)))\<rparr>"

fun preempt_patches ::
  "('q, 'z) env_scheme \<Rightarrow> wlog \<Rightarrow> Workload list \<Rightarrow> Workload list \<Rightarrow> goerr option \<times> wlog \<times> Workload list" where
  "preempt_patches E lg [] scheduledWorkloads = (None, lg, scheduledWorkloads)"
| "preempt_patches E lg (w # ws) scheduledWorkloads =
     (case do_write E lg (PatchMeta (mark_preempted E w)) of
        (Some e, lg') \<Rightarrow> (Some e, lg', scheduledWorkloads)
      | (None, lg') \<Rightarrow> preempt_patches E lg' ws (update_named (mark_preempted E w) scheduledWorkloads))"

definition preempt ::
  "('q::linordered_ab_group_add, 'z) env_scheme \<Rightarrow> wlog \<Rightarrow> Workload \<Rightarrow> Workload list \<Rightarrow> 'q resource_list
     \<Rightarrow> (bool \<times> goerr option) \<times> wlog \<times> Workload list" where
  "preempt E lg requestWorkload scheduledWorkloads leftAvailResources =
     (case preemptLowPriorityWorkloads E lg requestWorkload leftAvailResources scheduledWorkloads of
        Inl e \<Rightarrow> ((False, Some e), lg, scheduledWorkloads)
      | Inr targetWorkloads \<Rightarrow>
          if length targetWorkloads = 0 then ((False, None), lg, scheduledWorkloads)
          else case preempt_patches E lg targetWorkloads scheduledWorkloads of
                 (Some e, lg', sw) \<Rightarrow> ((False, Some e), lg', sw)
               | (None, lg', sw) \<Rightarrow> ((True, None), lg', sw))"

section \<open>The victim order is a key order\<close>

definition wrapper_key :: "'q WorkloadWrapper \<Rightarrow> int \<times> float64 \<times> int \<times> string" where
  "wrapper_key c = (priority (ww_workload c), - ww_resourceScore c, - created (ww_workload c), w_Name (ww_workload c))"

interpretation victims: key_order WrapperSlice_Less wrapper_key
  by unfold_locales (auto simp: WrapperSlice_Less_def wrapper_key_def less_prod_def)

interpretation victims_weak: strict_weak WrapperSlice_Less
  by (rule victims.key_strict_weak)

lemma sorted_priorities:
  "sorted (map (\<lambda>c. priority (ww_workload c)) (go_sort WrapperSlice_Less cs))"
proof -
  have "sorted (map wrapper_key (go_sort WrapperSlice_Less cs))" by (rule victims.sorted_keys)
  then show ?thesis unfolding sorted_map
    by (rule sorted_wrt_mono_rel [rotated]) (auto simp: wrapper_key_def less_eq_prod_def)
qed

section \<open>Properties of the victims\<close>

lemma collect_victims_prefix:
  assumes "collect_victims E req rr before cs tot = vs" and "vs \<noteq> []"
  shows "\<exists>n < length cs. vs = before @ map ww_workload (take (Suc n) cs) \<and>
           (\<forall>c \<in> set (take (Suc n) cs). priority (ww_workload c) < priority req) \<and>
           \<not> IsWorkloadPreempted (w_Meta (ww_workload (cs ! n)))"
  using assms
proof (induction E req rr before cs tot rule: collect_victims.induct)
  case (2 E req rr before c cs tot)
  let ?w = "ww_workload c" and ?t = "AddResource E [tot, ww_resources c]"
  have lt: "priority ?w < priority req" using "2.prems" by (auto simp: Let_def split: if_splits)
  have step: ?case if IH: "\<exists>n < length cs. vs = (before @ [?w]) @ map ww_workload (take (Suc n) cs) \<and>
      (\<forall>c \<in> set (take (Suc n) cs). priority (ww_workload c) < priority req) \<and>
      \<not> IsWorkloadPreempted (w_Meta (ww_workload (cs ! n)))"
  proof -
    from IH obtain n where "n < length cs" "vs = (before @ [?w]) @ map ww_workload (take (Suc n) cs)"
        "\<forall>c \<in> set (take (Suc n) cs). priority (ww_workload c) < priority req"
        "\<not> IsWorkloadPreempted (w_Meta (ww_workload (cs ! n)))" by blast
    then show ?thesis using lt by (intro exI [of _ "Suc n"]) auto
  qed
  show ?case
  proof (cases "IsWorkloadPreempted (w_Meta ?w)")
    case True
    then show ?thesis using "2.IH"(1) "2.prems" lt step by (auto simp: Let_def)
  next
    case False
    show ?thesis
    proof (cases "fst (IsSubResource rr ?t)")
      case True
      then show ?thesis using "2.prems" lt False by (intro exI [of _ 0]) (auto simp: Let_def)
    next
      case sub: False
      then show ?thesis using "2.IH"(2) "2.prems" lt False step by (auto simp: Let_def)
    qed
  qed
qed simp

text \<open>The resources freed by the victims that were not already preempted.\<close>

definition freed :: "('q::linordered_ab_group_add, 'z) ext_scheme \<Rightarrow> 'q WorkloadWrapper list \<Rightarrow> 'q resource_list \<Rightarrow> 'q resource_list" where
  "freed E cs tot =
     fold (\<lambda>c t. if IsWorkloadPreempted (w_Meta (ww_workload c)) then t else AddResource E [t, ww_resources c]) cs tot"

lemma collect_victims_enough:
  assumes "collect_victims E req rr before cs tot = vs" and "vs \<noteq> []"
  shows "\<exists>n < length cs. vs = before @ map ww_workload (take (Suc n) cs) \<and>
           fst (IsSubResource rr (freed E (take (Suc n) cs) tot))"
  using assms
proof (induction E req rr before cs tot rule: collect_victims.induct)
  case (2 E req rr before c cs tot)
  let ?w = "ww_workload c" and ?t = "AddResource E [tot, ww_resources c]"
  have lt: "priority ?w < priority req" using "2.prems" by (auto simp: Let_def split: if_splits)
  show ?case
  proof (cases "IsWorkloadPreempted (w_Meta ?w)")
    case True
    then obtain n where "n < length cs" "vs = (before @ [?w]) @ map ww_workload (take (Suc n) cs)"
        "fst (IsSubResource rr (freed E (take (Suc n) cs) tot))"
      using "2.IH"(1) "2.prems" lt by (auto simp: Let_def)
    then show ?thesis using True by (intro exI [of _ "Suc n"]) (auto simp: freed_def)
  next
    case False
    show ?thesis
    proof (cases "fst (IsSubResource rr ?t)")
      case True
      then show ?thesis using "2.prems" lt False by (intro exI [of _ 0]) (auto simp: Let_def freed_def)
    next
      case sub: False
      then obtain n where "n < length cs" "vs = (before @ [?w]) @ map ww_workload (take (Suc n) cs)"
          "fst (IsSubResource rr (freed E (take (Suc n) cs) ?t))"
        using "2.IH"(2) "2.prems" lt False by (auto simp: Let_def)
      then show ?thesis using False by (intro exI [of _ "Suc n"]) (auto simp: freed_def)
    qed
  qed
qed simp

lemma wf_freed: "wf_map tot \<Longrightarrow> wf_map (freed E cs tot)"
  by (induction cs arbitrary: tot) (auto simp: freed_def)

lemma rval_freed:
  assumes "IsConcernedResource E k" and "\<forall>c \<in> set cs. wf_map (ww_resources c)" and "wf_map tot"
  shows "rval (freed E cs tot) k =
           rval tot k + (\<Sum>c \<leftarrow> filter (\<lambda>c. \<not> IsWorkloadPreempted (w_Meta (ww_workload c))) cs. rval (ww_resources c) k)"
  using assms(2,3)
proof (induction cs arbitrary: tot)
  case (Cons c cs)
  show ?case
  proof (cases "IsWorkloadPreempted (w_Meta (ww_workload c))")
    case True
    then show ?thesis using Cons by (simp add: freed_def)
  next
    case False
    have "rval (freed E cs (AddResource E [tot, ww_resources c])) k =
        rval (AddResource E [tot, ww_resources c]) k +
        (\<Sum>c \<leftarrow> filter (\<lambda>c. \<not> IsWorkloadPreempted (w_Meta (ww_workload c))) cs. rval (ww_resources c) k)"
      using Cons by simp
    then show ?thesis using False Cons.prems assms(1) by (simp add: freed_def add.assoc)
  qed
qed (simp add: freed_def)

lemma victims_sorted:
  assumes "preemptLowPriorityWorkloads E lg req left scheduled = Inr vs" and "vs \<noteq> []"
  obtains nf cs n where "cs = go_sort WrapperSlice_Less
            (map (\<lambda>w. \<lparr>ww_workload = w, ww_resources = total_or_nil E w,
                       ww_resourceScore = buildResourceWeight E req (total_or_nil E w) nf\<rparr>) scheduled)"
    and "n < length cs" and "vs = map ww_workload (take (Suc n) cs)"
    and "\<forall>c \<in> set (take (Suc n) cs). priority (ww_workload c) < priority req"
    and "fst (IsSubResource (total_or_nil E req) (freed E (take (Suc n) cs) (Copy_list left)))"
    and "IsWorkloadEnablePreempt (w_Meta req)"
proof -
  have en: "IsWorkloadEnablePreempt (w_Meta req)"
    using assms by (auto simp: preemptLowPriorityWorkloads_def split: if_splits)
  obtain cs where srt: "sortWorkloads E lg req scheduled = Inr cs"
      and vs: "collect_victims E req (total_or_nil E req) [] cs (Copy_list left) = vs"
    using assms(1) en by (auto simp: preemptLowPriorityWorkloads_def ebind_Inr_iff)
  obtain n where n: "n < length cs" "vs = map ww_workload (take (Suc n) cs)"
      "\<forall>c \<in> set (take (Suc n) cs). priority (ww_workload c) < priority req"
    using collect_victims_prefix [OF vs assms(2)] by auto
  obtain m where m: "m < length cs" "vs = map ww_workload (take (Suc m) cs)"
      "fst (IsSubResource (total_or_nil E req) (freed E (take (Suc m) cs) (Copy_list left)))"
    using collect_victims_enough [OF vs assms(2)] by auto
  have "n = m" using arg_cong [OF n(2), of length] arg_cong [OF m(2), of length] n(1) m(1) by simp
  moreover have "cs \<noteq> []" using n(1) by auto
  then obtain nf where "cs = go_sort WrapperSlice_Less
      (map (\<lambda>w. \<lparr>ww_workload = w, ww_resources = total_or_nil E w,
                 ww_resourceScore = buildResourceWeight E req (total_or_nil E w) nf\<rparr>) scheduled)"
    using srt by (auto simp: sortWorkloads_def ebind_Inr_iff split: if_splits)
  ultimately show ?thesis using that n m(3) en by blast
qed

text \<open>C4: preemption is sound. Whenever victims are chosen, the workload may preempt, every victim is a
  scheduled workload of strictly lower priority, every scheduled workload of still lower priority is
  a victim too, and the request fits into the free resources plus what the victims that were not
  already preempted hold.\<close>

theorem preemption_sound:
  assumes "preemptLowPriorityWorkloads E lg req left scheduled = Inr vs" and "vs \<noteq> []" and "wf_map left"
  shows "IsWorkloadEnablePreempt (w_Meta req) \<and>
         (\<forall>v \<in> set vs. v \<in> set scheduled \<and> priority v < priority req) \<and>
         (\<forall>v \<in> set vs. \<forall>w \<in> set scheduled. priority w < priority v \<longrightarrow> w \<in> set vs) \<and>
         (\<forall>k. mhas (total_or_nil E req) k \<longrightarrow>
            rval (total_or_nil E req) k \<le>
              rval left k + (\<Sum>v \<leftarrow> filter (\<lambda>v. \<not> IsWorkloadPreempted (w_Meta v)) vs. rval (total_or_nil E v) k))"
proof -
  obtain nf cs n where v: "cs = go_sort WrapperSlice_Less
      (map (\<lambda>w. \<lparr>ww_workload = w, ww_resources = total_or_nil E w,
                 ww_resourceScore = buildResourceWeight E req (total_or_nil E w) nf\<rparr>) scheduled)"
      "n < length cs" "vs = map ww_workload (take (Suc n) cs)"
      "\<forall>c \<in> set (take (Suc n) cs). priority (ww_workload c) < priority req"
      "fst (IsSubResource (total_or_nil E req) (freed E (take (Suc n) cs) (Copy_list left)))"
      "IsWorkloadEnablePreempt (w_Meta req)"
    by (rule victims_sorted [OF assms(1,2)])
  have mem: "c \<in> set cs \<longleftrightarrow> (\<exists>w \<in> set scheduled. c = \<lparr>ww_workload = w, ww_resources = total_or_nil E w,
      ww_resourceScore = buildResourceWeight E req (total_or_nil E w) nf\<rparr>)" for c
    by (auto simp: v(1))
  have mem': "ww_workload c \<in> set scheduled \<and> ww_resources c = total_or_nil E (ww_workload c)" if "c \<in> set cs" for c
    using that by (auto simp: mem)
  have sub: "set (take (Suc n) cs) \<subseteq> set cs" by (rule set_take_subset)
  have low: "w \<in> set vs" if x: "x \<in> set vs" "w \<in> set scheduled" "priority w < priority x" for x w
  proof -
    have "\<lparr>ww_workload = w, ww_resources = total_or_nil E w,
        ww_resourceScore = buildResourceWeight E req (total_or_nil E w) nf\<rparr> \<in> set cs"
      using x(2) unfolding mem by blast
    then obtain c where c: "c \<in> set cs" "ww_workload c = w" by fastforce
    obtain j where j: "j < length cs" "cs ! j = c" using c(1) by (auto simp: in_set_conv_nth)
    obtain d where d: "d \<in> set (take (Suc n) cs)" "ww_workload d = x" using x(1) v(3) by auto
    then obtain i where i: "i < Suc n" "i < length cs" "cs ! i = d" by (auto simp: in_set_conv_nth)
    have "\<not> i \<le> j"
      using sorted_priorities [of "map (\<lambda>w. \<lparr>ww_workload = w, ww_resources = total_or_nil E w,
        ww_resourceScore = buildResourceWeight E req (total_or_nil E w) nf\<rparr>) scheduled", folded v(1)]
        i j c(2) d(2) x(3) by (fastforce simp: sorted_iff_nth_mono)
    then have "c \<in> set (take (Suc n) cs)" using i j by (auto simp: in_set_conv_nth intro!: exI [of _ j])
    then show ?thesis using v(3) c(2) by auto
  qed
  have wf: "\<forall>c \<in> set (take (Suc n) cs). wf_map (ww_resources c)" using sub mem' by auto
  have fit: "rval (total_or_nil E req) k \<le>
      rval left k + (\<Sum>v \<leftarrow> filter (\<lambda>v. \<not> IsWorkloadPreempted (w_Meta v)) vs. rval (total_or_nil E v) k)"
    if "mhas (total_or_nil E req) k" for k
  proof -
    have con: "IsConcernedResource E k" using that by (rule total_or_nil_concerned)
    have "rval (total_or_nil E req) k \<le> rval (freed E (take (Suc n) cs) (Copy_list left)) k"
      using v(5) that by (rule IsSubResource_rval)
    also have "\<dots> = rval left k + (\<Sum>c \<leftarrow> filter (\<lambda>c. \<not> IsWorkloadPreempted (w_Meta (ww_workload c))) (take (Suc n) cs). rval (ww_resources c) k)"
      using rval_freed [OF con wf, of "Copy_list left"] assms(3) by (simp add: Copy_list_def)
    also have "(\<Sum>c \<leftarrow> filter (\<lambda>c. \<not> IsWorkloadPreempted (w_Meta (ww_workload c))) (take (Suc n) cs). rval (ww_resources c) k) =
        (\<Sum>v \<leftarrow> filter (\<lambda>v. \<not> IsWorkloadPreempted (w_Meta v)) vs. rval (total_or_nil E v) k)"
      using sub mem' by (auto simp: v(3) filter_map comp_def intro!: arg_cong [of _ _ sum_list] map_cong)
    finally show ?thesis .
  qed
  show ?thesis using v(3,4,6) sub mem' low fit by auto
qed

section \<open>The queue order\<close>

text \<open>
  With equal readiness of dependencies the comparison reads a key: failover first, then higher
  priority, then older, then by name.
\<close>

definition queue_key :: "Workload \<Rightarrow> bool \<times> int \<times> int \<times> string" where
  "queue_key w = (\<not> isReScheduledForFailover w, - priority w, created w, w_Name w)"

definition ready_Less :: "Workload \<Rightarrow> Workload \<Rightarrow> bool" where
  "ready_Less wi wj \<longleftrightarrow> queue_key wi < queue_key wj"

interpretation ready: key_order ready_Less queue_key
  by unfold_locales (simp add: ready_Less_def)

lemma Less_ready:
  "IsDependenciesEnd wi = IsDependenciesEnd wj \<Longrightarrow> WorkloadList_Less wi wj \<longleftrightarrow> ready_Less wi wj"
  by (auto simp: WorkloadList_Less_def ready_Less_def queue_key_def less_prod_def)

text \<open>A queue in which all workloads have their dependencies ended (or none has) is sorted by
  failover, then priority, then age, then name, whatever the order in which the API server listed it;
  sorting neither loses nor duplicates a workload.\<close>

lemma queue_sorted:
  assumes "\<forall>w \<in> set ws. IsDependenciesEnd w = b"
  shows "mset (go_sort WorkloadList_Less ws) = mset ws \<and>
         sorted (map queue_key (go_sort WorkloadList_Less ws)) \<and>
         (mset vs = mset ws \<and> distinct (map w_Name ws) \<longrightarrow>
            go_sort WorkloadList_Less vs = go_sort WorkloadList_Less ws)"
proof -
  have eq: "go_sort WorkloadList_Less us = go_sort ready_Less us" if "mset us = mset ws" for us
  proof (rule go_sort_cong)
    have "set us = set ws" using that by (metis set_mset_mset)
    then show "WorkloadList_Less x y = ready_Less x y" if "x \<in> set us" "y \<in> set us" for x y
      using that assms by (intro Less_ready) auto
  qed
  have "go_sort ready_Less vs = go_sort ready_Less ws" if "mset vs = mset ws" "distinct (map w_Name ws)"
  proof (rule ready.sorted_perm_unique)
    show "mset (go_sort ready_Less vs) = mset ws" using that(1) by simp
    show "sorted_wrt (\<lambda>a b. \<not> ready_Less b a) (go_sort ready_Less vs)"
      by (rule strict_weak.sorted_go_sort [OF ready.key_strict_weak])
    show "inj_on queue_key (set ws)"
      using that(2) by (auto simp: queue_key_def distinct_map inj_on_def)
  qed
  then show ?thesis using eq [of ws] eq [of vs] ready.sorted_keys [of ws] by auto
qed

definition queued :: "string \<Rightarrow> int \<Rightarrow> string list \<Rightarrow> Workload" where
  "queued name prio deps =
     (blank_workload name)\<lparr>w_Spec := blank_spec\<lparr>ws_Priority := prio, ws_Dependencies := deps\<rparr>\<rparr>"

text \<open>With mixed readiness the comparison is not a strict weak order, as \<^verbatim>\<open>sort\<close> requires: a
  workload with open dependencies is incomparable to ready ones of lower priority, and between two
  of them it hides that the later one has the higher priority. The sorted queue then puts a
  lower-priority workload first.\<close>

lemma queue_order_not_weak:
  "\<not> strict_weak WorkloadList_Less \<and>
   (let a = queued ''a'' 0 []; b = queued ''b'' 2 [''dep'']; c = queued ''c'' 1 [] in
      go_sort WorkloadList_Less [a, b, c] = [a, b, c] \<and> WorkloadList_Less c a \<and> priority a < priority c)"
proof -
  let ?a = "queued ''a'' 0 []" and ?b = "queued ''b'' 2 [''dep'']" and ?c = "queued ''c'' 1 []"
  note d = WorkloadList_Less_def queued_def sample_defs isReScheduledForFailover_def IsWorkloadReScheduled_def
    HasAnnotation_def IsDependenciesEnd_def GetDependenciesPhase_def
  have ca: "WorkloadList_Less ?c ?a" and cb: "\<not> WorkloadList_Less ?c ?b" and ba: "\<not> WorkloadList_Less ?b ?a"
    by (simp_all add: d)
  have "\<not> strict_weak WorkloadList_Less"
    using strict_weak.incomp_trans [of WorkloadList_Less ?c ?b ?a] ca cb ba by blast
  moreover have "go_sort WorkloadList_Less [?a, ?b, ?c] = [?a, ?b, ?c]"
    using cb ba by (simp add: go_sort_def)
  moreover have "priority ?a < priority ?c" by (simp add: queued_def sample_defs)
  ultimately show ?thesis using ca by (simp add: Let_def)
qed

section \<open>Witnesses\<close>

definition small_flavor :: "int NodeFlavor" where
  "small_flavor = \<lparr>nf_Meta = blank_meta [],
     nf_Spec = \<lparr>nfs_Cpu = \<lparr>cpu_Product = [], cpu_Quantity = 0\<rparr>, nfs_Memory = 0, nfs_Gpu = None, nfs_RootDisk = None,
                nfs_DataDisk = None, nfs_ExtendResources = []\<rparr>\<rparr>"

definition gpu_job :: "string \<Rightarrow> int \<Rightarrow> string \<Rightarrow> Workload" where
  "gpu_job name prio gpus =
     (queued name prio [])\<lparr>w_Spec := (w_Spec (queued name prio []))\<lparr>ws_Resources := [gpu_resource 1 gpus]\<rparr>,
        w_Meta := (blank_meta name)\<lparr>om_Annotations := [(WorkloadEnablePreemptAnnotation, TrueStr)]\<rparr>\<rparr>"

lemma f64_1 [simp]: "f64_of_int 1 = 1"
  using f64_of_int_exact [of 1] by simp

lemma gpu_job_total:
  assumes "ws_Resources (w_Spec w) = [gpu_resource 1 gpus]" and "gpus \<noteq> []" and "go_atoi gpus = Some n" and "0 \<le> n"
  shows "total_or_nil (sample_env a b c d) w = [(''amd.com/gpu'', n)]"
proof -
  have "CvtToResourceList (sample_env a b c d) [] [] gpus ''amd.com/gpu'' [] [] 1 = Inr [(''amd.com/gpu'', n)]"
    using assms(2-4) unfolding CvtToResourceList_def cvt_field_def MultiResource_one
    by (simp add: sample_env_def ext.defs int_ext_def mput_def)
  then show ?thesis
    using assms(1) by (simp add: total_or_nil_def GetTotalResourceList_def gpu_resource_def AddResource_def
        add_entry_def IsConcernedResource_def resource_name_defs mput_def)
qed

lemma preemption_sound_witness:
  "preemptLowPriorityWorkloads (sample_env [] [] [] [small_flavor]) [] (gpu_job ''new'' 2 ''8'') []
     [gpu_job ''old'' 0 ''8''] = Inr [gpu_job ''old'' 0 ''8''] \<and>
   priority (gpu_job ''old'' 0 ''8'') < priority (gpu_job ''new'' 2 ''8'')"
proof -
  let ?E = "sample_env [] [] [] [small_flavor]"
  have n: "go_atoi ''8'' = Some 8" by code_simp
  have t: "total_or_nil ?E (gpu_job name prio ''8'') = [(''amd.com/gpu'', 8)]" for name prio
    by (rule gpu_job_total [OF _ _ n]) (simp_all add: gpu_job_def queued_def)
  have nf: "get_NodeFlavor ?E [] [] = Inr small_flavor"
    by (simp add: sample_env_def ext.defs find_by_def small_flavor_def blank_meta_def)
  have add: "AddResource ?E [[], [(''amd.com/gpu'', 8)]] = [(''amd.com/gpu'', 8)]"
    by (simp add: AddResource_def add_entry_def IsConcernedResource_def resource_name_defs mput_def)
  have j: "IsWorkloadEnablePreempt (w_Meta (gpu_job name prio g))" "\<not> IsWorkloadPreempted (w_Meta (gpu_job name prio g))"
    "GetNodeFlavorId (w_Meta (gpu_job name prio g)) = []" "priority (gpu_job name prio g) = prio" for name prio g
    by (simp_all add: gpu_job_def queued_def sample_defs IsWorkloadEnablePreempt_def GetAnnotation_def
        IsWorkloadPreempted_def HasAnnotation_def GetNodeFlavorId_def GetLabel_def api_defs)
  have p: "preemptLowPriorityWorkloads ?E [] (gpu_job ''new'' 2 ''8'') [] [gpu_job ''old'' 0 ''8''] =
      Inr [gpu_job ''old'' 0 ''8'']"
    by (simp add: preemptLowPriorityWorkloads_def sortWorkloads_def t go_sort_def Copy_list_def j nf add Let_def)
  then show ?thesis using preemption_sound [OF p] by simp
qed

lemma queue_sorted_witness:
  "sorted (map queue_key (go_sort WorkloadList_Less [queued ''a'' 0 [], queued ''b'' 2 []]))"
  using queue_sorted [of "[queued ''a'' 0 [], queued ''b'' 2 []]" True "[]"]
  by (simp add: IsDependenciesEnd_def queued_def sample_defs)

end
