(* ===== verification/Keyed_Controller.thy ===== *)
theory Keyed_Controller
  imports Workload_Common
begin

text \<open>
  \<^verbatim>\<open>common/pkg/controller\<close>: the work-queue controllers that drive the scheduler, the syncer and the
  failover. The keyed controller stores the latest payload of each key in a side map and queues only
  keys; several workers and any number of producers run concurrently. The model is a step relation
  whose steps are the atomic actions of the code: the critical sections of the mutex and the single
  calls on the queue, in every interleaving. The rate-limiting work queue of \<^verbatim>\<open>client-go\<close> is the
  parameter \<open>workqueue\<close>, with its documented behaviour as the predicate \<open>wq_ok\<close>.
\<close>

section \<open>The work queue\<close>

record 'wq workqueue =
  q_Add :: "'wq \<Rightarrow> string \<Rightarrow> 'wq"
  q_AddAfter :: "'wq \<Rightarrow> string \<Rightarrow> int \<Rightarrow> 'wq"
  q_AddRateLimited :: "'wq \<Rightarrow> string \<Rightarrow> 'wq"
  q_Get :: "'wq \<Rightarrow> (string \<times> 'wq) option"
  q_Done :: "'wq \<Rightarrow> string \<Rightarrow> 'wq"
  q_Forget :: "'wq \<Rightarrow> string \<Rightarrow> 'wq"
  q_Tick :: "'wq \<Rightarrow> 'wq"
  q_waiting :: "'wq \<Rightarrow> string set"
  q_busy :: "'wq \<Rightarrow> string set"

text \<open>
  What the documentation of \<^verbatim>\<open>workqueue\<close> promises: every kind of addition leads to a delivery of the
  key; \<^verbatim>\<open>Get\<close> never hands out a key that is being processed, and marks it; \<^verbatim>\<open>Done\<close> unmarks it;
  the passing of time and \<^verbatim>\<open>Forget\<close> lose nothing.
\<close>

definition wq_ok :: "'wq workqueue \<Rightarrow> bool" where
  "wq_ok Q \<longleftrightarrow>
     (\<forall>q k. q_waiting Q (q_Add Q q k) = insert k (q_waiting Q q) \<and> q_busy Q (q_Add Q q k) = q_busy Q q) \<and>
     (\<forall>q k d. q_waiting Q (q_AddAfter Q q k d) = insert k (q_waiting Q q) \<and> q_busy Q (q_AddAfter Q q k d) = q_busy Q q) \<and>
     (\<forall>q k. q_waiting Q (q_AddRateLimited Q q k) = insert k (q_waiting Q q) \<and> q_busy Q (q_AddRateLimited Q q k) = q_busy Q q) \<and>
     (\<forall>q k q'. q_Get Q q = Some (k, q') \<longrightarrow>
        k \<in> q_waiting Q q \<and> k \<notin> q_busy Q q \<and> q_busy Q q' = insert k (q_busy Q q) \<and>
        q_waiting Q q - {k} \<subseteq> q_waiting Q q') \<and>
     (\<forall>q k. q_waiting Q (q_Done Q q k) = q_waiting Q q \<and> q_busy Q (q_Done Q q k) = q_busy Q q - {k}) \<and>
     (\<forall>q k. q_waiting Q (q_Forget Q q k) = q_waiting Q q \<and> q_busy Q (q_Forget Q q k) = q_busy Q q) \<and>
     (\<forall>q. q_waiting Q (q_Tick Q q) = q_waiting Q q \<and> q_busy Q (q_Tick Q q) = q_busy Q q)"

section \<open>The controller\<close>

text \<open>The merge function of a controller may be absent: then the latest message wins.\<close>

type_synonym 'm merge_fn = "('m option \<Rightarrow> 'm \<Rightarrow> 'm) option"

definition stage :: "('m \<Rightarrow> string) \<Rightarrow> 'm merge_fn \<Rightarrow> (string, 'm) gomap \<Rightarrow> 'm \<Rightarrow> (string, 'm) gomap" where
  "stage keyFn mergeFn pending message =
     (let key = keyFn message in
      case mergeFn of
        Some f \<Rightarrow> mput pending key (f (mget pending key) message)
      | None \<Rightarrow> mput pending key message)"

definition restage :: "'m merge_fn \<Rightarrow> (string, 'm) gomap \<Rightarrow> string \<Rightarrow> 'm \<Rightarrow> (string, 'm) gomap" where
  "restage mergeFn pending key message =
     (case mget pending key of
        None \<Rightarrow> mput pending key message
      | Some existing \<Rightarrow>
          (case mergeFn of
             Some f \<Rightarrow> mput pending key (f (Some message) existing)
           | None \<Rightarrow> pending))"

definition take_pending :: "(string, 'm) gomap \<Rightarrow> string \<Rightarrow> 'm option \<times> (string, 'm) gomap" where
  "take_pending pending key =
     (case mget pending key of
        Some message \<Rightarrow> (Some message, mdel pending key)
      | None \<Rightarrow> (None, pending))"

text \<open>What the handler answers, and the queue calls it leads to; a finished message is forgotten.\<close>

record do_result =
  res_err :: bool
  res_RequeueAfter :: int
  res_Requeue :: bool

definition retries :: "do_result \<Rightarrow> bool" where
  "retries r \<longleftrightarrow> res_err r \<or> res_RequeueAfter r > 0 \<or> res_Requeue r"

definition requeue_calls :: "'wq workqueue \<Rightarrow> do_result \<Rightarrow> string \<Rightarrow> 'wq \<Rightarrow> 'wq" where
  "requeue_calls Q r key q =
     (if res_err r then q_AddRateLimited Q q key
      else if res_RequeueAfter r > 0 then
        (let q1 = q_AddAfter Q q key (res_RequeueAfter r) in
         if res_Requeue r then q_AddRateLimited Q q1 key else q_Forget Q q1 key)
      else if res_Requeue r then q_AddRateLimited Q q key
      else q_Forget Q q key)"

text \<open>
  The state: the side map, the queue, producers between \<^verbatim>\<open>stage\<close> and the call on the queue (with the
  delay of \<^verbatim>\<open>AddAfter\<close>), and the workers at each point of \<^verbatim>\<open>processNext\<close>: after \<^verbatim>\<open>Get\<close>, inside
  the handler, after \<^verbatim>\<open>restage\<close>, and before \<^verbatim>\<open>Done\<close>.
\<close>

record ('m, 'wq) kc =
  pending :: "(string, 'm) gomap"
  queue :: 'wq
  staged :: "(string \<times> int option) list"
  got :: "string list"
  running :: "(string \<times> 'm) list"
  requeueing :: "(string \<times> do_result) list"
  finishing :: "string list"

inductive kc_step :: "'wq workqueue \<Rightarrow> ('m \<Rightarrow> string) \<Rightarrow> 'm merge_fn \<Rightarrow> ('m, 'wq) kc \<Rightarrow> ('m, 'wq) kc \<Rightarrow> bool"
  for Q :: "'wq workqueue" and keyFn :: "'m \<Rightarrow> string" and mergeFn :: "'m merge_fn" where
  kc_stage: "kc_step Q keyFn mergeFn st
      (st\<lparr>pending := stage keyFn mergeFn (pending st) m, staged := (keyFn m, delay) # staged st\<rparr>)"
| kc_enqueue: "staged st = xs @ (k, delay) # ys \<Longrightarrow> kc_step Q keyFn mergeFn st
      (st\<lparr>queue := (case delay of None \<Rightarrow> q_Add Q (queue st) k | Some d \<Rightarrow> q_AddAfter Q (queue st) k d),
          staged := xs @ ys\<rparr>)"
| kc_get: "q_Get Q (queue st) = Some (k, q) \<Longrightarrow> kc_step Q keyFn mergeFn st
      (st\<lparr>queue := q, got := k # got st\<rparr>)"
| kc_take: "got st = xs @ k # ys \<Longrightarrow> take_pending (pending st) k = (Some m, p) \<Longrightarrow> kc_step Q keyFn mergeFn st
      (st\<lparr>pending := p, got := xs @ ys, running := (k, m) # running st\<rparr>)"
| kc_take_none: "got st = xs @ k # ys \<Longrightarrow> take_pending (pending st) k = (None, p) \<Longrightarrow> kc_step Q keyFn mergeFn st
      (st\<lparr>pending := p, queue := q_Forget Q (queue st) k, got := xs @ ys, finishing := k # finishing st\<rparr>)"
| kc_finish: "running st = xs @ (k, m) # ys \<Longrightarrow> \<not> retries r \<Longrightarrow> kc_step Q keyFn mergeFn st
      (st\<lparr>running := xs @ ys, queue := requeue_calls Q r k (queue st), finishing := k # finishing st\<rparr>)"
| kc_retry: "running st = xs @ (k, m) # ys \<Longrightarrow> retries r \<Longrightarrow> kc_step Q keyFn mergeFn st
      (st\<lparr>pending := restage mergeFn (pending st) k m, running := xs @ ys, requeueing := (k, r) # requeueing st\<rparr>)"
| kc_requeue: "requeueing st = xs @ (k, r) # ys \<Longrightarrow> kc_step Q keyFn mergeFn st
      (st\<lparr>queue := requeue_calls Q r k (queue st), requeueing := xs @ ys, finishing := k # finishing st\<rparr>)"
| kc_done: "finishing st = xs @ k # ys \<Longrightarrow> kc_step Q keyFn mergeFn st
      (st\<lparr>queue := q_Done Q (queue st) k, finishing := xs @ ys\<rparr>)"
| kc_tick: "kc_step Q keyFn mergeFn st (st\<lparr>queue := q_Tick Q (queue st)\<rparr>)"

definition kc_init :: "'wq workqueue \<Rightarrow> ('m, 'wq) kc \<Rightarrow> bool" where
  "kc_init Q st \<longleftrightarrow> pending st = [] \<and> staged st = [] \<and> got st = [] \<and> running st = [] \<and> requeueing st = [] \<and>
     finishing st = [] \<and> q_waiting Q (queue st) = {} \<and> q_busy Q (queue st) = {}"

inductive kc_reach :: "'wq workqueue \<Rightarrow> ('m \<Rightarrow> string) \<Rightarrow> 'm merge_fn \<Rightarrow> ('m, 'wq) kc \<Rightarrow> bool"
  for Q :: "'wq workqueue" and keyFn :: "'m \<Rightarrow> string" and mergeFn :: "'m merge_fn" where
  kc_start: "kc_init Q st \<Longrightarrow> kc_reach Q keyFn mergeFn st"
| kc_next: "kc_reach Q keyFn mergeFn st \<Longrightarrow> kc_step Q keyFn mergeFn st st' \<Longrightarrow> kc_reach Q keyFn mergeFn st'"

text \<open>
  The plain controller of \<^verbatim>\<open>controller.go\<close> queues the messages themselves; one round of its worker is
  the handler followed by the same queue calls and \<^verbatim>\<open>Done\<close>.
\<close>

definition plain_processNext :: "'wq workqueue \<Rightarrow> (string \<Rightarrow> do_result) \<Rightarrow> 'wq \<Rightarrow> 'wq option" where
  "plain_processNext Q handler q =
     (case q_Get Q q of
        None \<Rightarrow> None
      | Some (req, q') \<Rightarrow> Some (q_Done Q (requeue_calls Q (handler req) req q') req))"

section \<open>Invariants\<close>

abbreviation workers :: "('m, 'wq) kc \<Rightarrow> string list" where
  "workers st \<equiv> got st @ map fst (running st) @ map fst (requeueing st) @ finishing st"

definition kc_inv :: "'wq workqueue \<Rightarrow> ('m, 'wq) kc \<Rightarrow> bool" where
  "kc_inv Q st \<longleftrightarrow>
     wf_map (pending st) \<and>
     (\<forall>k. mhas (pending st) k \<longrightarrow>
        k \<in> q_waiting Q (queue st) \<or> k \<in> fst ` set (staged st) \<or> k \<in> set (got st) \<or> k \<in> fst ` set (requeueing st)) \<and>
     distinct (workers st) \<and> set (workers st) = q_busy Q (queue st)"

lemma wf_stage [simp]: "wf_map p \<Longrightarrow> wf_map (stage keyFn mergeFn p m)"
  by (simp add: stage_def Let_def split: option.splits)

lemma wf_restage [simp]: "wf_map p \<Longrightarrow> wf_map (restage mergeFn p k m)"
  by (simp add: restage_def split: option.splits)

lemma mhas_stage [simp]: "mhas (stage keyFn mergeFn p m) k \<longleftrightarrow> k = keyFn m \<or> mhas p k"
  by (auto simp: stage_def Let_def split: option.splits)

lemma mhas_restage [simp]: "mhas (restage mergeFn p k m) k' \<longleftrightarrow> k' = k \<or> mhas p k'"
  by (auto simp: restage_def mhas_def split: option.splits)

lemma take_pending_Some:
  "take_pending p k = (Some m, p') \<longleftrightarrow> mget p k = Some m \<and> p' = mdel p k"
  by (auto simp: take_pending_def split: option.splits)

lemma take_pending_None: "take_pending p k = (None, p') \<longleftrightarrow> mget p k = None \<and> p' = p"
  by (auto simp: take_pending_def split: option.splits)

lemma requeue_calls_queue:
  assumes "wq_ok Q"
  shows "q_busy Q (requeue_calls Q r k q) = q_busy Q q"
    and "q_waiting Q (requeue_calls Q r k q) = (if retries r then insert k (q_waiting Q q) else q_waiting Q q)"
  using assms by (auto simp: wq_ok_def requeue_calls_def retries_def Let_def)

lemma kc_inv_init: "kc_init Q st \<Longrightarrow> kc_inv Q st"
  by (simp add: kc_init_def kc_inv_def)

lemma kc_inv_step:
  assumes "kc_step Q keyFn mergeFn st st'" and "kc_inv Q st" and "wq_ok Q"
    and "\<forall>(k, r) \<in> set (requeueing st). retries r"
  shows "kc_inv Q st' \<and> (\<forall>(k, r) \<in> set (requeueing st'). retries r)"
  using assms(1)
proof cases
  case (kc_enqueue xs k delay ys)
  then show ?thesis using assms(2-4) by (auto simp: kc_inv_def wq_ok_def split: option.splits)
next
  case (kc_get k q)
  then have "k \<notin> q_busy Q (queue st)" "q_busy Q q = insert k (q_busy Q (queue st))"
      "q_waiting Q (queue st) - {k} \<subseteq> q_waiting Q q"
    using assms(3) by (auto simp: wq_ok_def)
  then show ?thesis using assms(2,4) kc_get by (auto simp: kc_inv_def)
next
  case (kc_take xs k ys m p)
  then show ?thesis using assms(2,4) by (auto simp: kc_inv_def take_pending_Some)
next
  case (kc_take_none xs k ys p)
  then show ?thesis using assms(2-4) by (auto simp: kc_inv_def take_pending_None mhas_def wq_ok_def)
next
  case (kc_finish xs k m ys r)
  then show ?thesis using assms(2,4) requeue_calls_queue [OF assms(3)] by (auto simp: kc_inv_def)
next
  case (kc_retry xs k m ys r)
  then show ?thesis using assms(2,4) by (auto simp: kc_inv_def)
next
  case (kc_requeue xs k r ys)
  then have "retries r" using assms(4) by auto
  then show ?thesis using assms(2,4) requeue_calls_queue [OF assms(3)] kc_requeue by (auto simp: kc_inv_def)
next
  case (kc_done xs k ys)
  then show ?thesis using assms(2-4) by (auto simp: kc_inv_def wq_ok_def)
qed (use assms(2-4) in \<open>auto simp: kc_inv_def wq_ok_def\<close>)

lemma kc_reach_inv:
  "kc_reach Q keyFn mergeFn st \<Longrightarrow> wq_ok Q \<Longrightarrow> kc_inv Q st \<and> (\<forall>(k, r) \<in> set (requeueing st). retries r)"
proof (induction rule: kc_reach.induct)
  case (kc_start st)
  then show ?case using kc_inv_init by (auto simp: kc_init_def)
next
  case (kc_next st st')
  then show ?case using kc_inv_step by blast
qed

section \<open>Users of the controller\<close>

record SchedulerMessage =
  sm_WorkspaceId :: string
  sm_ClusterId :: string

definition schedulerMessageKey :: "SchedulerMessage \<Rightarrow> string" where
  "schedulerMessageKey m = sm_ClusterId m @ ''|'' @ sm_WorkspaceId m"

definition ResourceAdd :: string where "ResourceAdd = ''add''"
definition ResourceDel :: string where "ResourceDel = ''delete''"
definition ResourceUpdate :: string where "ResourceUpdate = ''update''"
definition ResourceDeleting :: string where "ResourceDeleting = ''deleting''"

record resourceMessage =
  msg_cluster :: string
  msg_name :: string
  msg_namespace :: string
  msg_uid :: string
  msg_gvk :: GroupVersionKind
  msg_action :: string
  msg_workloadId :: string
  msg_groupId :: string
  msg_dispatchCount :: int

text \<open>\<^verbatim>\<open>schema.GroupVersionKind.String\<close>.\<close>

definition gvk_String :: "GroupVersionKind \<Rightarrow> string" where
  "gvk_String gvk =
     (if gvk_Group gvk \<noteq> '''' then gvk_Group gvk @ ''/'' @ gvk_Version gvk else gvk_Version gvk)
     @ '', Kind='' @ gvk_Kind gvk"

definition resourceMessageKey :: "resourceMessage \<Rightarrow> string" where
  "resourceMessageKey m =
     msg_cluster m @ ''|'' @ gvk_String (msg_gvk m) @ ''|'' @ msg_namespace m @ ''|'' @ msg_name m"

definition mergeResourceMessage :: "resourceMessage option \<Rightarrow> resourceMessage \<Rightarrow> resourceMessage" where
  "mergeResourceMessage existing incoming =
     (case existing of
        Some ex \<Rightarrow> if msg_action ex = ResourceDel \<and> msg_action incoming \<noteq> ResourceDel then ex else incoming
      | None \<Rightarrow> incoming)"

section \<open>Priorities kept by a merge function\<close>

text \<open>A key holds a payload of the given sort: staged, or inside the handler.\<close>

definition holds :: "('m \<Rightarrow> bool) \<Rightarrow> string \<Rightarrow> ('m, 'wq) kc \<Rightarrow> bool" where
  "holds P k st \<longleftrightarrow> (\<exists>m. mget (pending st) k = Some m \<and> P m) \<or> (\<exists>m. (k, m) \<in> set (running st) \<and> P m)"

text \<open>The handler has finished a payload of the key without asking for a retry.\<close>

definition handled :: "('m \<Rightarrow> bool) \<Rightarrow> string \<Rightarrow> ('m, 'wq) kc \<Rightarrow> ('m, 'wq) kc \<Rightarrow> bool" where
  "handled P k st st' \<longleftrightarrow>
     (\<exists>xs m ys. running st = xs @ (k, m) # ys \<and> P m \<and> running st' = xs @ ys \<and> finishing st' = k # finishing st)"

text \<open>
  A merge function that never gives up a payload of a preferred sort, on either side: what the
  controller's \<^verbatim>\<open>restage\<close> comment relies on.
\<close>

locale prio_merge =
  fixes merge :: "'m option \<Rightarrow> 'm \<Rightarrow> 'm" and prio :: "'m \<Rightarrow> bool"
  assumes keeps_existing: "prio x \<Longrightarrow> prio (merge (Some x) y)"
    and keeps_incoming: "prio z \<Longrightarrow> prio (merge old z)"
begin

lemma stage_prio:
  "mget p k = Some m \<Longrightarrow> prio m \<Longrightarrow> \<exists>m'. mget (stage keyFn (Some merge) p x) k = Some m' \<and> prio m'"
  by (auto simp: stage_def Let_def intro: keeps_existing)

lemma restage_prio:
  "mget p k = Some m \<Longrightarrow> prio m \<Longrightarrow> \<exists>m'. mget (restage (Some merge) p k' x) k = Some m' \<and> prio m'"
  by (auto simp: restage_def intro: keeps_incoming split: option.splits)

lemma restage_prio_msg:
  "prio x \<Longrightarrow> \<exists>m'. mget (restage (Some merge) p k x) k = Some m' \<and> prio m'"
  by (auto simp: restage_def intro: keeps_existing split: option.splits)

lemma prio_step:
  assumes "kc_step Q keyFn (Some merge) st st'" and "holds prio k st"
  shows "holds prio k st' \<or> handled prio k st st'"
  using assms(1)
proof cases
  case (kc_stage m delay)
  then show ?thesis using assms(2) stage_prio [of "pending st" k _ keyFn m] by (auto simp: holds_def)
next
  case (kc_take xs k' ys m p)
  then show ?thesis using assms(2) by (auto simp: holds_def take_pending_Some)
next
  case (kc_take_none xs k' ys p)
  then show ?thesis using assms(2) by (auto simp: holds_def take_pending_None)
next
  case (kc_finish xs k' m ys r)
  show ?thesis
  proof (cases "k = k' \<and> prio m")
    case True
    then have "handled prio k st st'" unfolding handled_def using kc_finish by auto
    then show ?thesis ..
  next
    case False
    then show ?thesis using assms(2) kc_finish by (auto simp: holds_def)
  qed
next
  case (kc_retry xs k' m ys r)
  then show ?thesis
    using assms(2) restage_prio [of "pending st" k _ k' m] restage_prio_msg [of m "pending st" k]
    by (auto simp: holds_def)
qed (use assms(2) in \<open>auto simp: holds_def\<close>)

end

interpretation del: prio_merge mergeResourceMessage "\<lambda>m. msg_action m = ResourceDel"
  by unfold_locales (auto simp: mergeResourceMessage_def split: option.splits)

section \<open>Properties\<close>

text \<open>C3: no message is lost. In every reachable state, under every interleaving of producers and
  workers, a payload in the side map belongs to a key that is queued, or about to be queued by a
  producer or a retrying worker, or already fetched by a worker that will take it; so once the queue
  is empty and nobody is in the middle of a call, every payload has reached the handler.\<close>

theorem no_message_lost:
  assumes "wq_ok Q" and "kc_reach Q keyFn mergeFn st"
  shows "(\<forall>k. mhas (pending st) k \<longrightarrow>
            k \<in> q_waiting Q (queue st) \<or> k \<in> fst ` set (staged st) \<or> k \<in> set (got st) \<or> k \<in> fst ` set (requeueing st)) \<and>
         (q_waiting Q (queue st) = {} \<and> staged st = [] \<and> got st = [] \<and> requeueing st = [] \<longrightarrow> pending st = [])"
proof -
  have inv: "kc_inv Q st" using kc_reach_inv [OF assms(2,1)] by simp
  have "pending st = []" if "\<forall>k. \<not> mhas (pending st) k" using that by (cases "pending st") (auto simp: mhas_iff)
  with inv show ?thesis unfolding kc_inv_def by auto
qed

text \<open>C25: messages of one key are never processed by two workers at once, and the side map holds at
  most one payload per key: bursts coalesce.\<close>

theorem serialized_and_coalesced:
  assumes "wq_ok Q" and "kc_reach Q keyFn mergeFn st"
  shows "distinct (map fst (running st)) \<and> distinct (workers st) \<and> wf_map (pending st)"
  using kc_reach_inv [OF assms(2,1)] by (auto simp: kc_inv_def)

text \<open>C26: in the syncer's controller a delete is never overtaken: once a key holds a delete event,
  no later event, retry or interleaving removes it until the handler has finished a delete of that
  key without asking for a retry.\<close>

theorem delete_priority:
  assumes "kc_step Q resourceMessageKey (Some mergeResourceMessage) st st'"
    and "holds (\<lambda>m. msg_action m = ResourceDel) k st"
  shows "holds (\<lambda>m. msg_action m = ResourceDel) k st' \<or> handled (\<lambda>m. msg_action m = ResourceDel) k st st'"
  by (rule del.prio_step [OF assms])

text \<open>Two scheduling messages share a queue key exactly when they are about the same workspace of the
  same cluster, as the separator cannot occur in a Kubernetes name.\<close>

lemma schedulerMessageKey_inj:
  assumes "CHR ''|'' \<notin> set (sm_ClusterId m)" and "CHR ''|'' \<notin> set (sm_ClusterId m')"
  shows "schedulerMessageKey m = schedulerMessageKey m' \<longleftrightarrow> m = m'"
proof -
  have "xs @ c # ys = xs' @ c # ys' \<longleftrightarrow> xs = xs' \<and> ys = ys'" if "c \<notin> set xs" "c \<notin> set xs'"
    for c :: char and xs ys xs' ys'
    using that
  proof (induction xs arbitrary: xs')
    case Nil
    then show ?case by (cases xs') auto
  next
    case (Cons x xs)
    then show ?case by (cases xs') auto
  qed
  then show ?thesis using assms by (cases m; cases m') (auto simp: schedulerMessageKey_def)
qed

section \<open>A queue that meets the contract\<close>

definition fifo_queue :: "(string list \<times> string list) workqueue" where
  "fifo_queue = \<lparr>
     q_Add = (\<lambda>(ws, bs) k. (if k \<in> set ws then ws else ws @ [k], bs)),
     q_AddAfter = (\<lambda>(ws, bs) k d. (if k \<in> set ws then ws else ws @ [k], bs)),
     q_AddRateLimited = (\<lambda>(ws, bs) k. (if k \<in> set ws then ws else ws @ [k], bs)),
     q_Get = (\<lambda>(ws, bs). case find (\<lambda>k. k \<notin> set bs) ws of
                None \<Rightarrow> None | Some k \<Rightarrow> Some (k, (removeAll k ws, k # bs))),
     q_Done = (\<lambda>(ws, bs) k. (ws, removeAll k bs)),
     q_Forget = (\<lambda>q k. q), q_Tick = (\<lambda>q. q),
     q_waiting = (\<lambda>(ws, bs). set ws), q_busy = (\<lambda>(ws, bs). set bs)\<rparr>"

lemma fifo_queue_ok: "wq_ok fifo_queue"
  by (auto simp: wq_ok_def fifo_queue_def find_Some_iff split: option.splits)

definition idle_controller :: "('m, string list \<times> string list) kc" where
  "idle_controller = \<lparr>pending = [], queue = ([], []), staged = [], got = [], running = [], requeueing = [], finishing = []\<rparr>"

definition sample_message :: "string \<Rightarrow> resourceMessage" where
  "sample_message action = \<lparr>msg_cluster = ''c'', msg_name = ''job'', msg_namespace = ''ns'', msg_uid = [],
     msg_gvk = mk_gvk [] ''Job'', msg_action = action, msg_workloadId = ''w'', msg_groupId = [], msg_dispatchCount = 1\<rparr>"

definition staged_controller :: "(resourceMessage, string list \<times> string list) kc" where
  "staged_controller = idle_controller\<lparr>
     pending := stage resourceMessageKey (Some mergeResourceMessage) [] (sample_message ResourceDel),
     staged := [(resourceMessageKey (sample_message ResourceDel), None)]\<rparr>"

lemma idle_init: "kc_init fifo_queue idle_controller"
  by (simp add: kc_init_def idle_controller_def fifo_queue_def)

lemma staged_step:
  "kc_step fifo_queue resourceMessageKey (Some mergeResourceMessage) idle_controller staged_controller"
  using kc_stage [of fifo_queue resourceMessageKey "Some mergeResourceMessage" idle_controller
      "sample_message ResourceDel" None]
  by (simp add: staged_controller_def idle_controller_def)

lemma staged_reach: "kc_reach fifo_queue resourceMessageKey (Some mergeResourceMessage) staged_controller"
  by (rule kc_next [OF kc_start [OF idle_init] staged_step])

lemma no_message_lost_witness:
  "mhas (pending staged_controller) (resourceMessageKey (sample_message ResourceDel)) \<and>
   resourceMessageKey (sample_message ResourceDel) \<in> fst ` set (staged staged_controller)"
proof -
  have "mhas (pending staged_controller) (resourceMessageKey (sample_message ResourceDel))"
    by (simp add: staged_controller_def)
  moreover from this have "resourceMessageKey (sample_message ResourceDel) \<in> fst ` set (staged staged_controller)"
    using no_message_lost [OF fifo_queue_ok staged_reach]
    by (simp add: staged_controller_def idle_controller_def fifo_queue_def)
  ultimately show ?thesis ..
qed

lemma serialized_and_coalesced_witness: "wf_map (pending staged_controller) \<and> distinct (workers staged_controller)"
  using serialized_and_coalesced [OF fifo_queue_ok staged_reach] by simp

lemma delete_priority_witness:
  "holds (\<lambda>m. msg_action m = ResourceDel) (resourceMessageKey (sample_message ResourceDel))
     (staged_controller\<lparr>pending := stage resourceMessageKey (Some mergeResourceMessage) (pending staged_controller)
                                      (sample_message ResourceUpdate),
        staged := (resourceMessageKey (sample_message ResourceUpdate), None) # staged staged_controller\<rparr>) \<or>
   handled (\<lambda>m. msg_action m = ResourceDel) (resourceMessageKey (sample_message ResourceDel)) staged_controller
     (staged_controller\<lparr>pending := stage resourceMessageKey (Some mergeResourceMessage) (pending staged_controller)
                                      (sample_message ResourceUpdate),
        staged := (resourceMessageKey (sample_message ResourceUpdate), None) # staged staged_controller\<rparr>)"
proof (rule delete_priority)
  show "kc_step fifo_queue resourceMessageKey (Some mergeResourceMessage) staged_controller
     (staged_controller\<lparr>pending := stage resourceMessageKey (Some mergeResourceMessage) (pending staged_controller)
                                      (sample_message ResourceUpdate),
        staged := (resourceMessageKey (sample_message ResourceUpdate), None) # staged staged_controller\<rparr>)"
    by (rule kc_stage)
  show "holds (\<lambda>m. msg_action m = ResourceDel) (resourceMessageKey (sample_message ResourceDel)) staged_controller"
    by (simp add: holds_def staged_controller_def stage_def mergeResourceMessage_def sample_message_def)
qed

lemma schedulerMessageKey_inj_witness:
  "schedulerMessageKey \<lparr>sm_WorkspaceId = ''w1'', sm_ClusterId = ''c''\<rparr> \<noteq>
   schedulerMessageKey \<lparr>sm_WorkspaceId = ''w2'', sm_ClusterId = ''c''\<rparr>"
  using schedulerMessageKey_inj [of "\<lparr>sm_WorkspaceId = ''w1'', sm_ClusterId = ''c''\<rparr>"
      "\<lparr>sm_WorkspaceId = ''w2'', sm_ClusterId = ''c''\<rparr>"]
  by simp

end
