(* ===== verification/Scheduler.thy ===== *)
theory Scheduler
  imports Preempt Keyed_Controller "HOL-Library.Sublist"
begin

text \<open>
  \<^verbatim>\<open>job-manager/pkg/scheduler/scheduler.go\<close>: the scheduling cycle of a workspace. The queue and the
  scheduled workloads are read from the API server, sorted, and the queue is walked once: a workload
  that fits into the left resources (or can preempt) is marked as scheduled and its request is taken
  off. The functions return the extended write log and every object they change in memory;
  \<^const>\<open>None\<close> is a panic (a negative resource identifier of a pod).
\<close>

definition CronjobReason :: string where "CronjobReason = ''In queue - waiting for scheduled start time''"
definition DependencyReason :: string where "DependencyReason = ''In queue - dependent workloads not yet complete''"
definition SourceWorkloadReason :: string where "SourceWorkloadReason = ''In queue - source workload still running''"
definition InsufficientReason :: string where "InsufficientReason = ''In queue - insufficient resources''"

lemmas reason_defs = CronjobReason_def DependencyReason_def SourceWorkloadReason_def InsufficientReason_def

definition defaultRetryCount :: nat where "defaultRetryCount = 3"

section \<open>Reading the workspace\<close>

definition getWorkspace ::
  "('q, 'z) env_scheme \<Rightarrow> wlog \<Rightarrow> string \<Rightarrow> 'q Workspace option \<times> goerr option" where
  "getWorkspace E lg workspaceId =
     (case get_Workspace E lg workspaceId of
        Inl e \<Rightarrow> (None, IgnoreNotFound E (Some e))
      | Inr workspace \<Rightarrow> (Some workspace, None))"

definition getUnfinishedWorkloads ::
  "('q, 'z) env_scheme \<Rightarrow> wlog \<Rightarrow> 'q Workspace \<Rightarrow> goerr + Workload list \<times> Workload list" where
  "getUnfinishedWorkloads E lg workspace =
     ebind (GetWorkloadsOfWorkspace E lg (wsp_Cluster (wk_Spec workspace)) [om_Name (wk_Meta workspace)] IsEnd)
       (\<lambda>workloads.
         Inr (go_sort WorkloadList_Less (filter (\<lambda>w. \<not> IsWorkloadScheduled (w_Meta w)) workloads),
              go_sort WorkloadList_Less (filter (\<lambda>w. IsWorkloadScheduled (w_Meta w)) workloads)))"

text \<open>A node whose pods do not count as available: unknown, of another workspace, or unavailable.\<close>

definition node_filtered :: "('q, 'z) env_scheme \<Rightarrow> wlog \<Rightarrow> 'q Workspace \<Rightarrow> string \<Rightarrow> bool" where
  "node_filtered E lg workspace nodeName =
     (case get_Node E lg nodeName of
        Inl e \<Rightarrow> True
      | Inr n \<Rightarrow> if GetSpecWorkspace n \<noteq> om_Name (wk_Meta workspace) then True else \<not> IsAvailable n False)"

text \<open>Total and available usage of one workload: of its pods while it runs, else of its request.\<close>

definition workload_usage ::
  "('q::linordered_ab_group_add, 'z) env_scheme \<Rightarrow> (string \<Rightarrow> bool) \<Rightarrow> Workload
     \<Rightarrow> (goerr + 'q resource_list \<times> 'q resource_list) option" where
  "workload_usage E filterFunc w =
     (if IsRunning w then
        map_option (\<lambda>r. ebind r (\<lambda>(t, a, ns). Inr (t, a))) (GetWorkloadResourceUsage E w filterFunc)
      else Some (ebind (GetTotalResourceList E w) (\<lambda>t. Inr (t, t))))"

fun used_resources ::
  "('q::linordered_ab_group_add, 'z) env_scheme \<Rightarrow> (string \<Rightarrow> bool) \<Rightarrow> Workload list \<Rightarrow> 'q resource_list \<Rightarrow> 'q resource_list
     \<Rightarrow> (goerr + 'q resource_list \<times> 'q resource_list) option" where
  "used_resources E filterFunc [] usedTotal usedAvail = Some (Inr (usedTotal, usedAvail))"
| "used_resources E filterFunc (w # ws) usedTotal usedAvail =
     (case workload_usage E filterFunc w of
        None \<Rightarrow> None
      | Some (Inl e) \<Rightarrow> Some (Inl e)
      | Some (Inr (t, a)) \<Rightarrow> used_resources E filterFunc ws (AddResource E [usedTotal, t]) (AddResource E [usedAvail, a]))"

definition clamp :: "('q::linordered_ab_group_add, 'z) ext_scheme \<Rightarrow> 'q resource_list \<Rightarrow> 'q resource_list" where
  "clamp E rl = map (\<lambda>(key, val). (key, if q_Value E val < 0 then 0 else val)) rl"

definition getLeftTotalResources ::
  "('q::linordered_ab_group_add, 'z) env_scheme \<Rightarrow> wlog \<Rightarrow> 'q Workspace \<Rightarrow> Workload list
     \<Rightarrow> (goerr + 'q resource_list \<times> 'q resource_list) option" where
  "getLeftTotalResources E lg workspace workloads =
     map_option (\<lambda>r. ebind r (\<lambda>(usedTotal, usedAvail).
         Inr (clamp E (SubResource E (wss_AvailableResources (wk_Status workspace)) usedAvail),
              SubResource E (GetAvailableResource E (wss_TotalResources (wk_Status workspace))) usedTotal)))
       (used_resources E (node_filtered E lg workspace) workloads [] [])"

section \<open>Deciding about one workload\<close>

text \<open>
  The loop over the dependencies: readiness, whether the recorded phases changed, and the workload.
  A missing dependency fails the workload; the error of the lookup is then replaced by the outcome
  of that write.
\<close>

fun check_deps ::
  "('q, 'z) env_scheme \<Rightarrow> string list \<Rightarrow> wlog \<Rightarrow> Workload \<Rightarrow> bool \<Rightarrow> bool
     \<Rightarrow> (goerr option + bool \<times> bool) \<times> wlog \<times> Workload" where
  "check_deps E [] lg workload isReady isChange = (Inr (isReady, isChange), lg, workload)"
| "check_deps E (dep # deps) lg workload isReady isChange =
     (case GetDependenciesPhase workload dep of
        Some phase \<Rightarrow> check_deps E deps lg workload (isReady \<and> phase = WorkloadSucceeded) isChange
      | None \<Rightarrow>
          (case get_Workload E lg dep of
             Inl err \<Rightarrow>
               if api_IsNotFound E err then
                 (case SetWorkloadFailed E lg workload (''dependency workload '' @ dep @ '' not found'') of
                    (r, lg', workload') \<Rightarrow> (Inl r, lg', workload'))
               else (Inl (Some err), lg, workload)
           | Inr depWorkload \<Rightarrow>
               let phase = w_Phase depWorkload;
                   workload' = (if IsEnd depWorkload then SetDependenciesPhase workload dep phase else workload)
               in check_deps E deps lg workload' (isReady \<and> phase = WorkloadSucceeded)
                    (isChange \<or> IsEnd depWorkload)))"

definition checkWorkloadDependencies ::
  "('q, 'z) env_scheme \<Rightarrow> wlog \<Rightarrow> Workload \<Rightarrow> (bool \<times> goerr option) \<times> wlog \<times> Workload" where
  "checkWorkloadDependencies E lg workload =
     (case check_deps E (ws_Dependencies (w_Spec workload)) lg workload True False of
        (Inl err, lg', workload') \<Rightarrow> ((False, err), lg', workload')
      | (Inr (isReady, isChange), lg', workload') \<Rightarrow>
          if isChange then
            (case PatchWorkloadStatusFields E lg' workload'
                    [\<lambda>s. s\<lparr>st_DependenciesPhase := st_DependenciesPhase (w_Status workload')\<rparr>] of
               (err, lg'', workload'') \<Rightarrow> ((isReady, err), lg'', workload''))
          else ((isReady, None), lg', workload'))"

definition cron_blocked :: "('q, 'z) env_scheme \<Rightarrow> Workload \<Rightarrow> bool" where
  "cron_blocked E w =
     list_ex (\<lambda>job. cj_Action job = CronStart \<and>
                (case CvtTime3339ToCronStandard E (cj_Schedule job) of
                   Inl e \<Rightarrow> False | Inr (s, t) \<Rightarrow> t > now E)) (ws_CronJobs (w_Spec w))"

text \<open>
  The objects a decision may change: the write log, the workspace (its source-workload label), the
  scheduled workloads (preemption marks) and the candidate itself.
\<close>

record 'q decision =
  d_log :: wlog
  d_workspace :: "'q Workspace"
  d_scheduled :: "Workload list"
  d_workload :: Workload

text \<open>The source-workload gate: \<^const>\<open>None\<close> if the source still runs, else the workspace without the label.\<close>

definition source_gate ::
  "('q, 'z) env_scheme \<Rightarrow> wlog \<Rightarrow> 'q Workspace \<Rightarrow> (wlog \<times> 'q Workspace) option" where
  "source_gate E lg workspace =
     (let sourceWorkloadId = GetSourceWorkloadId (wk_Meta workspace) in
      if sourceWorkloadId = '''' then Some (lg, workspace)
      else if (case get_Workload E lg sourceWorkloadId of Inl e \<Rightarrow> False | Inr s \<Rightarrow> \<not> IsEnd s) then None
      else
        let m = snd (RemoveLabel (wk_Meta workspace) SourceWorkloadIdLabel) in
        Some (snd (do_write E lg (PatchWorkspaceMeta m)), workspace\<lparr>wk_Meta := m\<rparr>))"

definition canScheduleWorkload ::
  "('q::linordered_ab_group_add, 'z) env_scheme \<Rightarrow> wlog \<Rightarrow> Workload \<Rightarrow> 'q Workspace \<Rightarrow> Workload list
     \<Rightarrow> 'q resource_list \<Rightarrow> 'q resource_list \<Rightarrow> (goerr + bool \<times> string) \<times> 'q decision" where
  "canScheduleWorkload E lg requestWorkload workspace scheduledWorkloads requestResources leftResources =
     (let dec = (\<lambda>lg wk sw w. \<lparr>d_log = lg, d_workspace = wk, d_scheduled = sw, d_workload = w\<rparr>) in
      case source_gate E lg workspace of
        None \<Rightarrow> (Inr (False, SourceWorkloadReason), dec lg workspace scheduledWorkloads requestWorkload)
      | Some (lg1, workspace1) \<Rightarrow>
          if cron_blocked E requestWorkload
          then (Inr (False, CronjobReason), dec lg1 workspace1 scheduledWorkloads requestWorkload)
          else
            (case checkWorkloadDependencies E lg1 requestWorkload of
               ((isReady, Some e), lg2, w2) \<Rightarrow> (Inl e, dec lg2 workspace1 scheduledWorkloads w2)
             | ((isReady, None), lg2, w2) \<Rightarrow>
                 if \<not> isReady then (Inr (False, DependencyReason), dec lg2 workspace1 scheduledWorkloads w2)
                 else
                   (case IsSubResource requestResources leftResources of
                      (hasEnoughQuota, key) \<Rightarrow>
                        if hasEnoughQuota then (Inr (True, ''''), dec lg2 workspace1 scheduledWorkloads w2)
                        else
                          let reason = InsufficientReason @ '', no '' @ formatResourceName key @ '' available'' in
                          (case preempt E lg2 w2 scheduledWorkloads leftResources of
                             ((isPreemptable, err), lg3, sw3) \<Rightarrow>
                               if isPreemptable then (Inr (True, ''''), dec lg3 workspace1 sw3 w2)
                               else (Inr (False, reason), dec lg3 workspace1 sw3 w2)))))"

section \<open>Marking a workload as scheduled\<close>

definition updateStatus :: "('q, 'z) env_scheme \<Rightarrow> wlog \<Rightarrow> Workload \<Rightarrow> wresult" where
  "updateStatus E lg workload =
     (let reason = GenerateDispatchReason (GetWorkloadDispatchCnt (w_Meta workload) + 1);
          cond = NewCondition E AdminScheduled ''the workload is scheduled'' reason
      in if FindCondition workload cond \<noteq> None then (None, lg, workload)
         else PatchWorkloadStatusFields E lg workload
           ((if w_Phase workload = '''' then [\<lambda>s. s\<lparr>st_Phase := WorkloadPending\<rparr>] else []) @
            (if st_QueuePosition (w_Status workload) > 0 then [\<lambda>s. s\<lparr>st_QueuePosition := 0\<rparr>] else []) @
            [\<lambda>s. s\<lparr>st_Message := ''''\<rparr>,
             \<lambda>s. s\<lparr>st_Conditions := st_Conditions (w_Status workload) @ [cond]\<rparr>]))"

text \<open>One attempt: after a conflict the workload is read again, and a failed read ends the retries.\<close>

definition mark_attempt :: "('q, 'z) env_scheme \<Rightarrow> string \<Rightarrow> wlog \<times> Workload \<Rightarrow> goerr option \<times> wlog \<times> Workload" where
  "mark_attempt E name s =
     (case s of (lg, workload) \<Rightarrow>
        case updateStatus E lg workload of
          (None, lg', workload') \<Rightarrow> (None, lg', workload')
        | (Some innerError, lg', workload') \<Rightarrow>
            if api_IsConflict E innerError then
              (case get_Workload E lg' name of
                 Inl getErr \<Rightarrow> (Some getErr, lg', workload')
               | Inr fresh \<Rightarrow> (Some innerError, lg', fresh))
            else (Some innerError, lg', workload'))"

definition mark_annotations :: "('q, 'z) env_scheme \<Rightarrow> Workload \<Rightarrow> Workload" where
  "mark_annotations E workload =
     workload\<lparr>w_Meta := snd (SetAnnotation (snd (RemoveAnnotation (w_Meta workload) WorkloadReScheduledAnnotation))
                              WorkloadScheduledAnnotation (FormatRFC3339 E (now E)))\<rparr>"

definition markAsScheduled :: "('q, 'z) env_scheme \<Rightarrow> wlog \<Rightarrow> Workload \<Rightarrow> wresult" where
  "markAsScheduled E lg workload =
     (case ConflictRetry (api_IsConflict E) defaultRetryCount (mark_attempt E (w_Name workload)) (lg, workload) of
        (Some e, lg', workload') \<Rightarrow> (Some e, lg', workload')
      | (None, lg', workload') \<Rightarrow>
          let w2 = mark_annotations E workload' in
          (case do_write E lg' (PatchMeta w2) of (r, lg'') \<Rightarrow> (r, lg'', w2)))"

section \<open>The cycle\<close>

record 'q cycle =
  c_log :: wlog
  c_workspace :: "'q Workspace"
  c_scheduled :: "Workload list"
  c_leftAvail :: "'q resource_list"
  c_leftTotal :: "'q resource_list"
  c_count :: int
  c_reasons :: strmap

text \<open>
  The loop over the queue. \<open>prev\<close> holds the workloads already visited, as they are in memory now;
  a break leaves the rest unvisited. The result is the error or the final state, and the queue.
\<close>

fun sched_loop ::
  "('q::linordered_ab_group_add, 'z) env_scheme \<Rightarrow> 'q cycle \<Rightarrow> Workload list \<Rightarrow> Workload list
     \<Rightarrow> goerr option \<times> 'q cycle \<times> Workload list" where
  "sched_loop E st prev [] = (None, st, prev)"
| "sched_loop E st prev (w # rest) =
     (let requestResources = total_or_nil E w;
          leftResources = (if ws_IsTolerateAll (w_Spec w) then c_leftTotal st else c_leftAvail st)
      in case canScheduleWorkload E (c_log st) w (c_workspace st) (c_scheduled st) requestResources leftResources of
           (Inl err, d) \<Rightarrow> (Some err, st\<lparr>c_log := d_log d, c_workspace := d_workspace d, c_scheduled := d_scheduled d\<rparr>,
                             prev @ d_workload d # rest)
         | (Inr (ok, reason), d) \<Rightarrow>
             let w1 = d_workload d;
                 st1 = st\<lparr>c_log := d_log d, c_workspace := d_workspace d, c_scheduled := d_scheduled d\<rparr>
             in if \<not> ok then
                  if IsEnd w1 then sched_loop E st1 (prev @ [w1]) rest
                  else
                    let st2 = st1\<lparr>c_reasons := mput (c_reasons st1) (w_Name w1) reason\<rparr> in
                    if reason = CronjobReason \<or> reason = DependencyReason \<or> reason = SourceWorkloadReason
                    then sched_loop E st2 (prev @ [w1]) rest
                    else if IsEnableFifo (c_workspace st2) then (None, st2, prev @ w1 # rest)
                    else if HasSpecifiedNodes w1 then sched_loop E st2 (prev @ [w1]) rest
                    else if rest \<noteq> [] \<and> priority w1 > priority (hd rest) then (None, st2, prev @ w1 # rest)
                    else sched_loop E st2 (prev @ [w1]) rest
                else
                  (case markAsScheduled E (c_log st1) w1 of
                     (Some e, lg', w2) \<Rightarrow> (Some e, st1\<lparr>c_log := lg'\<rparr>, prev @ w2 # rest)
                   | (None, lg', w2) \<Rightarrow>
                       sched_loop E
                         (st1\<lparr>c_log := lg', c_leftAvail := SubResource E (c_leftAvail st1) requestResources,
                              c_leftTotal := SubResource E (c_leftTotal st1) requestResources,
                              c_scheduled := c_scheduled st1 @ [w2], c_count := c_count st1 + 1\<rparr>)
                         (prev @ [w2]) rest))"

text \<open>
  Queue positions and messages of the workloads that stay in the queue; errors of the patches are
  only logged.
\<close>

definition unscheduled_reason ::
  "('q, 'z) env_scheme \<Rightarrow> wlog \<Rightarrow> 'q Workspace \<Rightarrow> string \<Rightarrow> int \<Rightarrow> string" where
  "unscheduled_reason E lg workspace reason position =
     (if reason = '''' then
        (if position > 1 then ''In queue - waiting for earlier or higher priority workloads'' else '''')
      else if position = 1 \<and> str_contains reason InsufficientReason then
        (case GetWorkloadsOfWorkspace E lg (wsp_Cluster (wk_Spec workspace)) [om_Name (wk_Meta workspace)]
                (\<lambda>w. \<not> IsPending w \<or> \<not> IsWorkloadScheduled (w_Meta w)) of
           Inr (p # ps) \<Rightarrow> reason @ ''. Blocked by earlier '' @ itoa (int (length (p # ps))) @ '' workloads, like '' @ w_Name p
         | _ \<Rightarrow> reason)
      else reason)"

fun updateUnScheduled ::
  "('q, 'z) env_scheme \<Rightarrow> strmap \<Rightarrow> 'q Workspace \<Rightarrow> wlog \<Rightarrow> int \<Rightarrow> Workload list \<Rightarrow> wlog \<times> Workload list" where
  "updateUnScheduled E reasons workspace lg position [] = (lg, [])"
| "updateUnScheduled E reasons workspace lg position (w # ws) =
     (if IsWorkloadScheduled (w_Meta w) \<or> IsEnd w then
        (case updateUnScheduled E reasons workspace lg position ws of (lg', ws') \<Rightarrow> (lg', w # ws'))
      else
        let reason = unscheduled_reason E lg workspace (mget0 '''' reasons (w_Name w)) position;
            w' = w\<lparr>w_Status := (w_Status w)\<lparr>st_QueuePosition := position, st_Message := reason\<rparr>\<rparr>;
            isChanged = (st_QueuePosition (w_Status w) \<noteq> position \<or> st_Message (w_Status w) \<noteq> reason);
            lg1 = (if isChanged then snd (do_write E lg (PatchStatus w')) else lg)
        in case updateUnScheduled E reasons workspace lg1 (position + 1) ws of (lg', ws') \<Rightarrow> (lg', w' # ws'))"

definition scheduleWorkloads ::
  "('q::linordered_ab_group_add, 'z) env_scheme \<Rightarrow> wlog \<Rightarrow> SchedulerMessage \<Rightarrow> (goerr option \<times> wlog) option" where
  "scheduleWorkloads E lg message =
     (case getWorkspace E lg (sm_WorkspaceId message) of
        (None, err) \<Rightarrow> Some (err, lg)
      | (Some workspace, _) \<Rightarrow>
          (case getUnfinishedWorkloads E lg workspace of
             Inl e \<Rightarrow> Some (Some e, lg)
           | Inr (scheduling, scheduled) \<Rightarrow>
               if length scheduling = 0 then Some (None, lg)
               else case getLeftTotalResources E lg workspace scheduled of
                      None \<Rightarrow> None
                    | Some (Inl e) \<Rightarrow> Some (Some e, lg)
                    | Some (Inr (leftAvail, leftTotal)) \<Rightarrow>
                        (case sched_loop E \<lparr>c_log = lg, c_workspace = workspace, c_scheduled = scheduled,
                               c_leftAvail = leftAvail, c_leftTotal = leftTotal, c_count = 0, c_reasons = []\<rparr> [] scheduling of
                           (Some e, st, ws) \<Rightarrow> Some (Some e, c_log st)
                         | (None, st, ws) \<Rightarrow>
                             if c_count st \<noteq> int (length ws)
                             then Some (None, fst (updateUnScheduled E (c_reasons st) (c_workspace st) (c_log st) 1 ws))
                             else Some (None, c_log st))))"

text \<open>The handler of the queue: an error that a retry cannot fix is dropped.\<close>

definition scheduler_Do ::
  "('q::linordered_ab_group_add, 'z) env_scheme \<Rightarrow> wlog \<Rightarrow> SchedulerMessage \<Rightarrow> (goerr option \<times> wlog) option" where
  "scheduler_Do E lg message =
     map_option (\<lambda>(err, lg'). (if IsNonRetryableError E err then None else err, lg')) (scheduleWorkloads E lg message)"

section \<open>What a decision preserves\<close>

lemma SetDependenciesPhase_fixes [simp]:
  "w_Meta (SetDependenciesPhase w d p) = w_Meta w" "w_Spec (SetDependenciesPhase w d p) = w_Spec w"
  "w_Phase (SetDependenciesPhase w d p) = w_Phase w"
  by (simp_all add: SetDependenciesPhase_def)

lemma check_deps_fixes:
  "check_deps E deps lg w r c = (x, lg', w') \<Longrightarrow> w_Meta w' = w_Meta w \<and> w_Spec w' = w_Spec w"
proof (induction E deps lg w r c rule: check_deps.induct)
  case (2 E dep deps lg w r c)
  show ?case
  proof (cases "GetDependenciesPhase w dep")
    case (Some phase)
    then show ?thesis using 2 by simp
  next
    case None
    show ?thesis
    proof (cases "get_Workload E lg dep")
      case (Inl err)
      then show ?thesis using "2.prems" None
        by (auto simp: SetWorkloadFailed_def Let_def split: if_splits prod.splits)
    next
      case (Inr dw)
      then show ?thesis using "2.IH"(1) [OF None Inr refl refl] "2.prems" None by (simp add: Let_def split: if_splits)
    qed
  qed
qed simp

lemma checkWorkloadDependencies_fixes:
  "checkWorkloadDependencies E lg w = (x, lg', w') \<Longrightarrow> w_Meta w' = w_Meta w \<and> w_Spec w' = w_Spec w"
  unfolding checkWorkloadDependencies_def
  by (auto split: prod.splits sum.splits if_splits dest!: check_deps_fixes PatchWorkloadStatusFields_meta)

lemma source_gate_spec:
  "source_gate E lg wk = Some (lg', wk') \<Longrightarrow> wk_Spec wk' = wk_Spec wk \<and> wk_Status wk' = wk_Status wk"
  by (auto simp: source_gate_def Let_def split: if_splits)

lemma canSchedule_fixes:
  assumes "canScheduleWorkload E lg w wk sw rr left = (x, d)"
  shows "w_Meta (d_workload d) = w_Meta w \<and> w_Spec (d_workload d) = w_Spec w \<and> wk_Spec (d_workspace d) = wk_Spec wk"
  using assms unfolding canScheduleWorkload_def Let_def
  by (auto split: option.splits prod.splits if_splits dest: source_gate_spec checkWorkloadDependencies_fixes)

lemma preempt_disabled:
  "\<not> IsWorkloadEnablePreempt (w_Meta w) \<Longrightarrow> preempt E lg w sw left = ((False, None), lg, sw)"
  by (simp add: preempt_def preemptLowPriorityWorkloads_def)

text \<open>A positive decision without preemption rests on the comparison of the resources.\<close>

lemma canSchedule_fits:
  assumes "canScheduleWorkload E lg w wk sw rr left = (Inr (True, reason), d)"
    and "\<not> IsWorkloadEnablePreempt (w_Meta w)"
  shows "fst (IsSubResource rr left) \<and> d_scheduled d = sw"
proof -
  have "w_Meta w' = w_Meta w" if "checkWorkloadDependencies E l w = (x, l', w')" for l x l' w'
    using checkWorkloadDependencies_fixes [OF that] by simp
  then show ?thesis
    using assms unfolding canScheduleWorkload_def Let_def
    by (auto split: option.splits prod.splits if_splits simp: preempt_disabled)
qed

section \<open>Dependencies\<close>

definition dep_succeeded :: "('q, 'z) env_scheme \<Rightarrow> wlog \<Rightarrow> Workload \<Rightarrow> string \<Rightarrow> bool" where
  "dep_succeeded E lg w dep \<longleftrightarrow>
     GetDependenciesPhase w dep = Some WorkloadSucceeded \<or>
     (\<exists>dw. get_Workload E lg dep = Inr dw \<and> w_Phase dw = WorkloadSucceeded)"

lemma check_deps_ready:
  "check_deps E deps lg w r c = (Inr (True, c'), lg', w') \<Longrightarrow> r \<and> (\<forall>dep \<in> set deps. dep_succeeded E lg w dep)"
proof (induction E deps lg w r c rule: check_deps.induct)
  case (2 E dep deps lg w r c)
  show ?case
  proof (cases "GetDependenciesPhase w dep")
    case (Some phase)
    then show ?thesis using 2 by (auto simp: dep_succeeded_def)
  next
    case None
    then obtain dw where dw: "get_Workload E lg dep = Inr dw"
      using "2.prems" by (auto split: sum.splits if_splits prod.splits)
    let ?w = "if IsEnd dw then SetDependenciesPhase w dep (w_Phase dw) else w"
    have IH: "(r \<and> w_Phase dw = WorkloadSucceeded) \<and> (\<forall>d \<in> set deps. dep_succeeded E lg ?w d)"
      using "2.IH"(1) [OF None dw refl refl] "2.prems" None dw by (simp add: Let_def)
    have "dep_succeeded E lg w d" if "dep_succeeded E lg ?w d" for d
      using that dw IH
      by (auto simp: dep_succeeded_def GetDependenciesPhase_def SetDependenciesPhase_def split: if_splits)
    then show ?thesis using IH dw by (auto simp: dep_succeeded_def)
  qed
qed simp


section \<open>Capacity and turns of the loop\<close>

lemma IsSubResource_sub:
  assumes "fst (IsSubResource rr left)" and "wf_map rr" and "wf_map left"
  shows "rval (SubResource E left rr) k = (if IsConcernedResource E k then rval left k - rval rr k else 0)"
  using assms(2,3) IsSubResource_dom [OF assms(1)] by (intro rval_SubResource_fit) auto

lemma sub_nonneg:
  assumes "fst (IsSubResource rr left)" and "wf_map rr" and "wf_map left" and "0 \<le> rval left k"
  shows "0 \<le> rval (SubResource E left rr) k"
proof (cases "mhas rr k")
  case True
  then show ?thesis using IsSubResource_rval [OF assms(1) True] IsSubResource_sub [OF assms(1-3), of E k] by simp
next
  case False
  then show ?thesis using IsSubResource_sub [OF assms(1-3), of E k] assms(4) by (simp add: rval_notin)
qed

definition after :: "'q cycle \<Rightarrow> 'q decision \<Rightarrow> 'q cycle" where
  "after st d = st\<lparr>c_log := d_log d, c_workspace := d_workspace d, c_scheduled := d_scheduled d\<rparr>"

definition noted :: "'q cycle \<Rightarrow> string \<Rightarrow> string \<Rightarrow> 'q cycle" where
  "noted st name reason = st\<lparr>c_reasons := mput (c_reasons st) name reason\<rparr>"

definition taken :: "('q::linordered_ab_group_add, 'z) env_scheme \<Rightarrow> 'q cycle \<Rightarrow> wlog \<Rightarrow> 'q resource_list \<Rightarrow> Workload \<Rightarrow> 'q cycle" where
  "taken E st lg rr w = st\<lparr>c_log := lg, c_leftAvail := SubResource E (c_leftAvail st) rr,
     c_leftTotal := SubResource E (c_leftTotal st) rr, c_scheduled := c_scheduled st @ [w], c_count := c_count st + 1\<rparr>"

lemma after_simps [simp]:
  "c_log (after st d) = d_log d" "c_workspace (after st d) = d_workspace d" "c_scheduled (after st d) = d_scheduled d"
  "c_leftAvail (after st d) = c_leftAvail st" "c_leftTotal (after st d) = c_leftTotal st" "c_count (after st d) = c_count st"
  "c_reasons (after st d) = c_reasons st"
  by (simp_all add: after_def)

lemma noted_simps [simp]:
  "c_log (noted st n r) = c_log st" "c_workspace (noted st n r) = c_workspace st" "c_scheduled (noted st n r) = c_scheduled st"
  "c_leftAvail (noted st n r) = c_leftAvail st" "c_leftTotal (noted st n r) = c_leftTotal st" "c_count (noted st n r) = c_count st"
  "c_reasons (noted st n r) = mput (c_reasons st) n r"
  by (simp_all add: noted_def)

lemma taken_simps [simp]:
  "c_log (taken E st lg rr w) = lg" "c_workspace (taken E st lg rr w) = c_workspace st"
  "c_scheduled (taken E st lg rr w) = c_scheduled st @ [w]"
  "c_leftAvail (taken E st lg rr w) = SubResource E (c_leftAvail st) rr"
  "c_leftTotal (taken E st lg rr w) = SubResource E (c_leftTotal st) rr" "c_count (taken E st lg rr w) = c_count st + 1"
  "c_reasons (taken E st lg rr w) = c_reasons st"
  by (simp_all add: taken_def)

definition decide ::
  "('q::linordered_ab_group_add, 'z) env_scheme \<Rightarrow> 'q cycle \<Rightarrow> Workload \<Rightarrow> (goerr + bool \<times> string) \<times> 'q decision" where
  "decide E st w = canScheduleWorkload E (c_log st) w (c_workspace st) (c_scheduled st) (total_or_nil E w)
     (if ws_IsTolerateAll (w_Spec w) then c_leftTotal st else c_leftAvail st)"

definition soft_reason :: "string \<Rightarrow> bool" where
  "soft_reason reason \<longleftrightarrow> reason = CronjobReason \<or> reason = DependencyReason \<or> reason = SourceWorkloadReason"

text \<open>One turn of the loop, by the outcome of the decision.\<close>

lemma sched_loop_error:
  "decide E st w = (Inl e, d) \<Longrightarrow> sched_loop E st prev (w # rest) = (Some e, after st d, prev @ d_workload d # rest)"
  by (simp add: decide_def after_def Let_def split del: if_split)

lemma sched_loop_reject:
  "decide E st w = (Inr (False, reason), d) \<Longrightarrow>
   sched_loop E st prev (w # rest) =
     (let w1 = d_workload d; st1 = after st d; st2 = noted st1 (w_Name w1) reason in
      if IsEnd w1 then sched_loop E st1 (prev @ [w1]) rest
      else if \<not> soft_reason reason \<and> (IsEnableFifo (d_workspace d) \<or>
                \<not> HasSpecifiedNodes w1 \<and> rest \<noteq> [] \<and> priority w1 > priority (hd rest))
      then (None, st2, prev @ w1 # rest)
      else sched_loop E st2 (prev @ [w1]) rest)"
  by (simp add: decide_def after_def noted_def soft_reason_def Let_def split del: if_split cong: if_cong) auto

lemma sched_loop_accept:
  "decide E st w = (Inr (True, reason), d) \<Longrightarrow>
   sched_loop E st prev (w # rest) =
     (case markAsScheduled E (d_log d) (d_workload d) of
        (Some e, lg, w2) \<Rightarrow> (Some e, (after st d)\<lparr>c_log := lg\<rparr>, prev @ w2 # rest)
      | (None, lg, w2) \<Rightarrow> sched_loop E (taken E (after st d) lg (total_or_nil E w) w2) (prev @ [w2]) rest)"
  by (simp add: decide_def after_def taken_def Let_def split del: if_split split: option.split prod.split)

declare sched_loop.simps(2) [simp del]

section \<open>Marking\<close>

text \<open>The API server returns the object it is asked for.\<close>

definition gets_by_name :: "('q, 'z) env_scheme \<Rightarrow> bool" where
  "gets_by_name E \<longleftrightarrow> (\<forall>lg n w. get_Workload E lg n = Inr w \<longrightarrow> w_Name w = n)"

text \<open>A predicate that every attempt keeps, and that a successful one establishes, through the retries.\<close>

lemma ConflictRetry_inv:
  assumes "ConflictRetry c n op s = (r, s')" and "I s" and "\<And>s r s'. op s = (r, s') \<Longrightarrow> I s \<Longrightarrow> I s'"
  shows "I s'"
  using assms(1,2)
proof (induction n arbitrary: s)
  case (Suc n)
  obtain r1 s1 where o: "op s = (r1, s1)" by force
  then show ?case using Suc assms(3) [OF o] by (auto split: option.splits if_splits)
qed simp

lemma ConflictRetry_ok:
  assumes "ConflictRetry c (Suc n) op s = (None, s')"
  shows "\<exists>s0. op s0 = (None, s')"
  using assms by (induction n arbitrary: s) (auto split: option.splits prod.splits if_splits)

lemma ConflictRetry_writes:
  assumes "ConflictRetry c n op s = (r, s')" and "\<And>s r s'. op s = (r, s') \<Longrightarrow> m s' \<le> m s + (1::nat)"
  shows "m s' \<le> m s + n"
  using assms(1)
proof (induction n arbitrary: s)
  case (Suc n)
  obtain r1 s1 where o: "op s = (r1, s1)" by force
  then show ?case using Suc assms(2) [OF o]
    by (fastforce split: option.splits if_splits)
qed simp

lemma updateStatus_meta: "updateStatus E lg w = (r, lg', w') \<Longrightarrow> w_Meta w' = w_Meta w \<and> w_Spec w' = w_Spec w"
  by (auto simp: updateStatus_def Let_def split: if_splits dest: PatchWorkloadStatusFields_meta)

lemma updateStatus_writes: "updateStatus E lg w = (r, lg', w') \<Longrightarrow> length lg' \<le> length lg + 1"
  by (auto simp: updateStatus_def Let_def split: if_splits dest!: PatchWorkloadStatusFields_cases(1))

lemma updateStatus_ok:
  "updateStatus E lg w = (None, lg', w') \<Longrightarrow>
     has_cond (st_Conditions (w_Status w')) AdminScheduled (GenerateDispatchReason (GetWorkloadDispatchCnt (w_Meta w') + 1))"
  by (auto simp: updateStatus_def Let_def FindCondition_none NewCondition_def has_cond_def
      split: if_splits dest!: PatchWorkloadStatusFields_ok)

lemma mark_attempt_name:
  "mark_attempt E name s = (r, s') \<Longrightarrow> gets_by_name E \<Longrightarrow> w_Name (snd s) = name \<Longrightarrow> w_Name (snd s') = name"
  by (auto simp: mark_attempt_def gets_by_name_def split: prod.splits option.splits if_splits sum.splits
      dest!: updateStatus_meta)

lemma mark_attempt_writes: "mark_attempt E name s = (r, s') \<Longrightarrow> length (fst s') \<le> length (fst s) + 1"
  by (auto simp: mark_attempt_def split: prod.splits option.splits if_splits sum.splits dest!: updateStatus_writes)

lemma mark_attempt_ok: "mark_attempt E name s = (None, s') \<Longrightarrow> updateStatus E (fst s) (snd s) = (None, s')"
  by (auto simp: mark_attempt_def split: prod.splits option.splits if_splits sum.splits)

lemma mark_annotations_meta:
  "IsWorkloadScheduled (w_Meta (mark_annotations E w))" "\<not> IsWorkloadReScheduled (w_Meta (mark_annotations E w))"
  "w_Name (mark_annotations E w) = w_Name w" "w_Status (mark_annotations E w) = w_Status w"
  "om_Labels (w_Meta (mark_annotations E w)) = om_Labels (w_Meta w)"
  by (simp_all add: mark_annotations_def IsWorkloadScheduled_def IsWorkloadReScheduled_def api_defs)

lemma markAsScheduled_ok:
  assumes "markAsScheduled E lg w = (None, lg', w')"
  shows "IsWorkloadScheduled (w_Meta w')" and "\<not> IsWorkloadReScheduled (w_Meta w')"
    and "has_cond (st_Conditions (w_Status w')) AdminScheduled (GenerateDispatchReason (GetWorkloadDispatchCnt (w_Meta w') + 1))"
    and "\<exists>lg1. lg' = lg1 @ [(PatchMeta w', None)]" and "gets_by_name E \<Longrightarrow> w_Name w' = w_Name w"
proof -
  let ?op = "mark_attempt E (w_Name w)"
  obtain lg1 w1 where c: "ConflictRetry (api_IsConflict E) defaultRetryCount ?op (lg, w) = (None, lg1, w1)"
    and w': "w' = mark_annotations E w1" and lg': "do_write E lg1 (PatchMeta w') = (None, lg')"
    using assms by (auto simp: markAsScheduled_def Let_def split: prod.splits option.splits)
  obtain s0 where "?op s0 = (None, lg1, w1)" using ConflictRetry_ok [of _ 2] c by (force simp: defaultRetryCount_def eval_nat_numeral)
  then have u: "updateStatus E (fst s0) (snd s0) = (None, lg1, w1)" by (rule mark_attempt_ok)
  show "IsWorkloadScheduled (w_Meta w')" "\<not> IsWorkloadReScheduled (w_Meta w')"
    by (simp_all add: w' mark_annotations_meta)
  show "has_cond (st_Conditions (w_Status w')) AdminScheduled (GenerateDispatchReason (GetWorkloadDispatchCnt (w_Meta w') + 1))"
    using updateStatus_ok [OF u] by (simp add: w' mark_annotations_meta GetWorkloadDispatchCnt_def GetLabel_def)
  show "\<exists>lg1. lg' = lg1 @ [(PatchMeta w', None)]" using do_write_cases [OF lg'] by blast
  show "w_Name w' = w_Name w" if "gets_by_name E"
    using ConflictRetry_inv [OF c, of "\<lambda>s. w_Name (snd s) = w_Name w"] mark_attempt_name that
    by (force simp: w' mark_annotations_meta)
qed

lemma markAsScheduled_writes:
  assumes "markAsScheduled E lg w = (r, lg', w')"
  shows "length lg' \<le> length lg + 4"
proof -
  obtain r1 lg1 w1 where c: "ConflictRetry (api_IsConflict E) defaultRetryCount (mark_attempt E (w_Name w)) (lg, w) = (r1, lg1, w1)"
    by (metis prod.exhaust)
  have "length lg1 \<le> length lg + 3"
    using ConflictRetry_writes [OF c, of "\<lambda>s. length (fst s)"] mark_attempt_writes by (force simp: defaultRetryCount_def)
  then show ?thesis using assms c
    by (auto simp: markAsScheduled_def Let_def split: prod.splits option.splits dest!: do_write_cases)
qed

text \<open>The metadata writes that took effect.\<close>

definition meta_writes :: "wlog \<Rightarrow> apiwrite list" where
  "meta_writes lg = filter (\<lambda>a. case a of PatchMeta x \<Rightarrow> True | _ \<Rightarrow> False) (effective lg)"

lemma meta_writes_append: "meta_writes (lg @ l) = meta_writes lg @ meta_writes l"
  by (simp add: meta_writes_def effective_def)

lemma updateStatus_meta_writes: "updateStatus E lg w = (r, lg', w') \<Longrightarrow> meta_writes lg' = meta_writes lg"
  by (auto simp: updateStatus_def Let_def meta_writes_append meta_writes_def effective_def
      split: if_splits dest!: PatchWorkloadStatusFields_cases(1))

lemma mark_attempt_meta_writes: "mark_attempt E name s = (r, s') \<Longrightarrow> meta_writes (fst s') = meta_writes (fst s)"
  by (auto simp: mark_attempt_def split: prod.splits option.splits if_splits sum.splits dest!: updateStatus_meta_writes)

lemma markAsScheduled_error:
  assumes "markAsScheduled E lg w = (r, lg', w')" and "r \<noteq> None"
  shows "meta_writes lg' = meta_writes lg"
proof -
  obtain r1 lg1 w1 where c: "ConflictRetry (api_IsConflict E) defaultRetryCount (mark_attempt E (w_Name w)) (lg, w) = (r1, lg1, w1)"
    by (metis prod.exhaust)
  have "meta_writes lg1 = meta_writes lg"
    using ConflictRetry_inv [OF c, of "\<lambda>s. meta_writes (fst s) = meta_writes lg"] mark_attempt_meta_writes by force
  moreover have "lg' = lg1 \<or> lg' = lg1 @ [(PatchMeta (mark_annotations E w1), r)]"
    using assms c by (auto simp: markAsScheduled_def Let_def split: prod.splits option.splits dest!: do_write_cases)
  moreover have "meta_writes [(a, r)] = []" for a using assms(2) by (simp add: meta_writes_def effective_def)
  ultimately show ?thesis by (auto simp: meta_writes_append)
qed

text \<open>When marking a workload as scheduled succeeds, the workload carries the scheduled annotation and no
  re-scheduled one, its status has the \<open>AdminScheduled\<close> condition of the coming dispatch, the last write is the
  one of this metadata, and it is still the workload that was asked for; in every case at most four
  writes are made (three attempts on the status, one on the metadata), and an error of the writes is
  passed on without the annotation being written.\<close>

lemma marking:
  assumes "markAsScheduled E lg w = (r, lg', w')" and "gets_by_name E"
  shows "length lg' \<le> length lg + 4 \<and>
         (r = None \<longrightarrow>
            IsWorkloadScheduled (w_Meta w') \<and> \<not> IsWorkloadReScheduled (w_Meta w') \<and> w_Name w' = w_Name w \<and>
            has_cond (st_Conditions (w_Status w')) AdminScheduled
              (GenerateDispatchReason (GetWorkloadDispatchCnt (w_Meta w') + 1)) \<and>
            (\<exists>lg1. lg' = lg1 @ [(PatchMeta w', None)])) \<and>
         (r \<noteq> None \<longrightarrow> meta_writes lg' = meta_writes lg)"
  using markAsScheduled_writes [OF assms(1)] markAsScheduled_ok [of E lg w lg' w'] markAsScheduled_error [OF assms(1)] assms
  by blast

section \<open>Capacity of a cycle\<close>

lemma decide_fits:
  assumes "decide E st w = (Inr (True, reason), d)" and "\<not> IsWorkloadEnablePreempt (w_Meta w)"
    and "\<not> ws_IsTolerateAll (w_Spec w)"
  shows "fst (IsSubResource (total_or_nil E w) (c_leftAvail st)) \<and> d_scheduled d = c_scheduled st"
  using canSchedule_fits assms unfolding decide_def by fastforce

lemma decide_refuses:
  assumes "decide E st w = (Inr (False, reason), d)" and "\<not> IsWorkloadEnablePreempt (w_Meta w)"
  shows "d_scheduled d = c_scheduled st"
proof -
  have "w_Meta w' = w_Meta w" if "checkWorkloadDependencies E l w = (x, l', w')" for l x l' w'
    using checkWorkloadDependencies_fixes [OF that] by simp
  then show ?thesis
    using assms unfolding decide_def canScheduleWorkload_def Let_def
    by (auto split: option.splits prod.splits if_splits simp: preempt_disabled)
qed

text \<open>The workloads a cycle takes, the resources it leaves.\<close>

definition accounts ::
  "('q::linordered_ab_group_add, 'z) env_scheme \<Rightarrow> 'q cycle \<Rightarrow> 'q cycle \<Rightarrow> Workload list \<Rightarrow> Workload list \<Rightarrow> Workload list \<Rightarrow> bool" where
  "accounts E st st' que picked marked \<longleftrightarrow>
     subseq picked que \<and> c_scheduled st' = c_scheduled st @ marked \<and> map w_Name marked = map w_Name picked \<and>
     (\<forall>m \<in> set marked. IsWorkloadScheduled (w_Meta m)) \<and> c_count st' = c_count st + int (length picked) \<and>
     wf_map (c_leftAvail st') \<and>
     (\<forall>k. IsConcernedResource E k \<longrightarrow>
          rval (c_leftAvail st') k = rval (c_leftAvail st) k - (\<Sum>w \<leftarrow> picked. rval (total_or_nil E w) k)) \<and>
     (\<forall>k. 0 \<le> rval (c_leftAvail st) k \<longrightarrow> 0 \<le> rval (c_leftAvail st') k)"

lemma accounts_skip:
  assumes "accounts E st1 st' rest picked marked" and "c_leftAvail st1 = c_leftAvail st" and "c_count st1 = c_count st"
    and "c_scheduled st1 = c_scheduled st"
  shows "accounts E st st' (w # rest) picked marked"
  using assms by (auto simp: accounts_def intro: list_emb_Cons)

lemma accounts_none:
  assumes "wf_map (c_leftAvail st)" and "c_leftAvail st' = c_leftAvail st" and "c_count st' = c_count st"
    and "c_scheduled st' = c_scheduled st"
  shows "accounts E st st' que [] []"
  using assms by (simp add: accounts_def)

lemma accounts_take:
  assumes "accounts E (taken E st1 lg (total_or_nil E w) w2) st' rest picked marked"
    and "fst (IsSubResource (total_or_nil E w) (c_leftAvail st))" and "wf_map (c_leftAvail st)"
    and "c_leftAvail st1 = c_leftAvail st" and "c_count st1 = c_count st" and "c_scheduled st1 = c_scheduled st"
    and "IsWorkloadScheduled (w_Meta w2)" and "w_Name w2 = w_Name w"
  shows "accounts E st st' (w # rest) (w # picked) (w2 # marked)"
  using assms(1,4-8) IsSubResource_sub [OF assms(2) _ assms(3), of E] sub_nonneg [OF assms(2) _ assms(3), of _ E]
  by (simp add: accounts_def algebra_simps)

lemma sched_loop_accounts:
  assumes "gets_by_name E" and "sched_loop E st prev que = (err, st', ws)"
    and "\<forall>w \<in> set que. \<not> IsWorkloadEnablePreempt (w_Meta w) \<and> \<not> ws_IsTolerateAll (w_Spec w)"
    and "wf_map (c_leftAvail st)" and "err = None"
  shows "\<exists>picked marked. accounts E st st' que picked marked"
  using assms(2-5)
proof (induction que arbitrary: st prev)
  case (Cons w rest)
  obtain x d where dec: "decide E st w = (x, d)" by force
  have w: "\<not> IsWorkloadEnablePreempt (w_Meta w)" "\<not> ws_IsTolerateAll (w_Spec w)" using Cons.prems(2) by auto
  have IH: "\<exists>picked marked. accounts E st1 st' rest picked marked"
    if "sched_loop E st1 prev1 rest = (err, st', ws)" "wf_map (c_leftAvail st1)" for st1 prev1
    using Cons.IH [OF that(1)] that(2) Cons.prems by simp
  consider (Error) e where "x = Inl e" | (Reject) reason where "x = Inr (False, reason)"
    | (Accept) reason where "x = Inr (True, reason)"
    by (metis (full_types) old.sum.exhaust prod.exhaust)
  then show ?case
  proof cases
    case Error
    then show ?thesis using Cons.prems dec by (simp add: sched_loop_error)
  next
    case Reject
    define w1 where "w1 = d_workload d"
    define st2 where "st2 = noted (after st d) (w_Name w1) reason"
    have same: "d_scheduled d = c_scheduled st" using dec Reject w decide_refuses by blast
    have "sched_loop E (after st d) (prev @ [w1]) rest = (err, st', ws) \<or> st' = st2 \<or>
        sched_loop E st2 (prev @ [w1]) rest = (err, st', ws)"
      using Cons.prems(1) sched_loop_reject [of E st w reason d prev rest] dec Reject
      by (auto simp: Let_def w1_def [symmetric] st2_def [symmetric] split: if_splits)
    then show ?thesis
      using IH [of "after st d"] IH [of st2] accounts_skip [of E "after st d" st'] accounts_skip [of E st2 st']
        accounts_none [of st st'] Cons.prems(3) same
      by (auto simp: st2_def) blast+
  next
    case Accept
    have fits: "fst (IsSubResource (total_or_nil E w) (c_leftAvail st)) \<and> d_scheduled d = c_scheduled st"
      using decide_fits dec Accept w by blast
    obtain r lg w2 where m: "markAsScheduled E (d_log d) (d_workload d) = (r, lg, w2)" by (metis prod.exhaust)
    have "r = None" and loop: "sched_loop E (taken E (after st d) lg (total_or_nil E w) w2) (prev @ [w2]) rest = (err, st', ws)"
      using Cons.prems(1,4) sched_loop_accept [of E st w reason d prev rest] dec Accept m by (auto split: option.splits)
    then have w2: "IsWorkloadScheduled (w_Meta w2)" "w_Name w2 = w_Name w"
      using markAsScheduled_ok [of E "d_log d" "d_workload d" lg w2] m assms(1) dec canSchedule_fixes
      by (force simp: decide_def)+
    obtain picked marked where "accounts E (taken E (after st d) lg (total_or_nil E w) w2) st' rest picked marked"
      using IH [OF loop] Cons.prems(3) by auto
    then have "accounts E st st' (w # rest) (w # picked) (w2 # marked)"
      using accounts_take fits Cons.prems(3) w2 by fastforce
    then show ?thesis by blast
  qed
qed (auto intro: accounts_none)


section \<open>Queue policies\<close>

lemma sched_loop_reasons:
  "sched_loop E st prev que = (err, st', ws) \<Longrightarrow> n \<notin> w_Name ` set que \<Longrightarrow> mget (c_reasons st') n = mget (c_reasons st) n"
proof (induction que arbitrary: st prev)
  case (Cons w rest)
  obtain x d where dec: "decide E st w = (x, d)" by force
  have name: "w_Name (d_workload d) = w_Name w" using dec canSchedule_fixes by (fastforce simp: decide_def)
  consider (Error) e where "x = Inl e" | (Reject) reason where "x = Inr (False, reason)"
    | (Accept) reason where "x = Inr (True, reason)"
    by (metis (full_types) old.sum.exhaust prod.exhaust)
  then show ?case
  proof cases
    case Error
    then show ?thesis using Cons.prems dec by (auto simp: sched_loop_error)
  next
    case Reject
    then show ?thesis
      using Cons.prems Cons.IH [of "after st d" "prev @ [d_workload d]"] dec name
        Cons.IH [of "noted (after st d) (w_Name w) reason" "prev @ [d_workload d]"]
      by (auto simp: sched_loop_reject Let_def split: if_splits)
  next
    case Accept
    then show ?thesis using Cons.prems dec by (auto simp: sched_loop_accept Cons.IH split: prod.splits option.splits)
  qed
qed simp

text \<open>What the policy \<open>fifo\<close> does with a queue: visited workloads, then the blocked one and an untouched rest.\<close>

definition settled :: "strmap \<Rightarrow> Workload \<Rightarrow> bool" where
  "settled reasons v \<longleftrightarrow> IsWorkloadScheduled (w_Meta v) \<or> IsEnd v \<or>
     (\<exists>reason. mget reasons (w_Name v) = Some reason \<and> soft_reason reason)"

definition fifo_result :: "strmap \<Rightarrow> Workload list \<Rightarrow> Workload list \<Rightarrow> bool" where
  "fifo_result reasons que ws \<longleftrightarrow>
     (\<exists>visited rest. ws = visited @ rest \<and> map w_Name ws = map w_Name que \<and> (\<forall>v \<in> set visited. settled reasons v) \<and>
        (rest = [] \<or> (\<exists>reason. mget reasons (w_Name (hd rest)) = Some reason \<and> \<not> soft_reason reason \<and>
                        tl rest = drop (Suc (length visited)) que)))"

lemma fifo_result_Cons:
  assumes "fifo_result reasons que ws" and "settled reasons v" and "w_Name v = w_Name w"
  shows "fifo_result reasons (w # que) (v # ws)"
proof -
  obtain visited rest where "ws = visited @ rest" "map w_Name ws = map w_Name que" "\<forall>v \<in> set visited. settled reasons v"
    "rest = [] \<or> (\<exists>reason. mget reasons (w_Name (hd rest)) = Some reason \<and> \<not> soft_reason reason \<and>
                        tl rest = drop (Suc (length visited)) que)"
    using assms(1) unfolding fifo_result_def by blast
  then show ?thesis unfolding fifo_result_def using assms(2,3)
    by (intro exI [of _ "v # visited"] exI [of _ rest]) auto
qed

lemma sched_loop_fifo:
  assumes "gets_by_name E" and "sched_loop E st prev que = (None, st', ws)" and "distinct (map w_Name que)"
    and "IsEnableFifo (c_workspace st)"
  shows "\<exists>ws'. ws = prev @ ws' \<and> fifo_result (c_reasons st') que ws'"
  using assms(2-4)
proof (induction que arbitrary: st prev)
  case (Cons w rest)
  obtain x d where dec: "decide E st w = (x, d)" by force
  have keep: "w_Name (d_workload d) = w_Name w" "IsEnableFifo (d_workspace d)"
    using dec canSchedule_fixes Cons.prems(3) by (fastforce simp: decide_def IsEnableFifo_def)+
  have fresh: "w_Name w \<notin> w_Name ` set rest" and dist: "distinct (map w_Name rest)" using Cons.prems(2) by auto
  have step: "\<exists>ws'. ws = prev @ ws' \<and> fifo_result (c_reasons st') (w # rest) ws'"
    if loop: "sched_loop E st1 (prev @ [v]) rest = (None, st', ws)" and ff: "IsEnableFifo (c_workspace st1)"
      and v: "w_Name v = w_Name w" "settled (c_reasons st1) v" for st1 v
  proof -
    obtain ws' where "ws = prev @ v # ws'" "fifo_result (c_reasons st') rest ws'"
      using Cons.IH [OF loop dist ff] by auto
    moreover have "settled (c_reasons st') v"
      using v sched_loop_reasons [OF loop fresh] by (simp add: settled_def)
    ultimately show ?thesis using fifo_result_Cons v by fastforce
  qed
  consider (Error) e where "x = Inl e" | (Reject) reason where "x = Inr (False, reason)"
    | (Accept) reason where "x = Inr (True, reason)"
    by (metis (full_types) old.sum.exhaust prod.exhaust)
  then show ?case
  proof cases
    case Error
    then show ?thesis using Cons.prems dec by (simp add: sched_loop_error)
  next
    case Reject
    let ?w1 = "d_workload d" and ?st2 = "noted (after st d) (w_Name w) reason"
    consider (ended) "IsEnd ?w1" "sched_loop E (after st d) (prev @ [?w1]) rest = (None, st', ws)"
      | (soft) "soft_reason reason" "sched_loop E ?st2 (prev @ [?w1]) rest = (None, st', ws)"
      | (blocked) "\<not> soft_reason reason" "st' = ?st2" "ws = prev @ ?w1 # rest"
      using Cons.prems(1) dec Reject keep by (auto simp: sched_loop_reject Let_def split: if_splits)
    then show ?thesis
    proof cases
      case blocked
      then have "fifo_result (c_reasons st') (w # rest) (?w1 # rest)"
        unfolding fifo_result_def using keep
        by (intro exI [of _ "[]"] exI [of _ "?w1 # rest"]) auto
      then show ?thesis using blocked by blast
    qed (auto intro!: step simp: keep settled_def)
  next
    case Accept
    obtain r lg w2 where m: "markAsScheduled E (d_log d) (d_workload d) = (r, lg, w2)" by (metis prod.exhaust)
    have "r = None" and loop: "sched_loop E (taken E (after st d) lg (total_or_nil E w) w2) (prev @ [w2]) rest = (None, st', ws)"
      using Cons.prems(1) sched_loop_accept [of E st w reason d prev rest] dec Accept m by (auto split: option.splits)
    then have "IsWorkloadScheduled (w_Meta w2)" "w_Name w2 = w_Name w"
      using markAsScheduled_ok [of E "d_log d" "d_workload d" lg w2] m assms(1) keep by auto
    then show ?thesis by (intro step [OF loop]) (auto simp: keep settled_def)
  qed
qed (simp add: fifo_result_def)

text \<open>C23: under the policy \<open>fifo\<close> no workload overtakes another. A cycle that ends without error splits the
  queue in two: every workload of the first part is scheduled, has ended, or waits for its start time, its
  dependencies or the source workload; the second part is empty or starts with a workload that waits for
  resources, and all the workloads behind it are left exactly as they were.\<close>

theorem fifo_order:
  assumes "sched_loop E st [] que = (None, st', ws)" and "gets_by_name E" and "distinct (map w_Name que)"
    and "IsEnableFifo (c_workspace st)"
  shows "\<exists>visited rest. ws = visited @ rest \<and> map w_Name ws = map w_Name que \<and>
           (\<forall>v \<in> set visited. IsWorkloadScheduled (w_Meta v) \<or> IsEnd v \<or>
              (\<exists>reason. mget (c_reasons st') (w_Name v) = Some reason \<and>
                 reason \<in> {CronjobReason, DependencyReason, SourceWorkloadReason})) \<and>
           (rest = [] \<or>
              (\<exists>reason. mget (c_reasons st') (w_Name (hd rest)) = Some reason \<and>
                 reason \<notin> {CronjobReason, DependencyReason, SourceWorkloadReason} \<and>
                 tl rest = drop (Suc (length visited)) que))"
  using sched_loop_fifo [OF assms(2,1,3,4)]
  unfolding fifo_result_def settled_def soft_reason_def by simp

section \<open>Queue positions\<close>

definition waits :: "Workload \<Rightarrow> bool" where
  "waits w \<longleftrightarrow> \<not> IsWorkloadScheduled (w_Meta w) \<and> \<not> IsEnd w"

lemma waits_status: "waits (w\<lparr>w_Status := (w_Status w)\<lparr>st_QueuePosition := p, st_Message := m\<rparr>\<rparr>) = waits w"
  by (simp add: waits_def IsEnd_def)

lemma updateUnScheduled_waits:
  "updateUnScheduled E reasons wk lg p ws = (lg', ws') \<Longrightarrow>
     map w_Meta ws' = map w_Meta ws \<and> map w_Phase ws' = map w_Phase ws \<and>
     filter (\<lambda>w. \<not> waits w) ws' = filter (\<lambda>w. \<not> waits w) ws \<and>
     map (\<lambda>w. st_QueuePosition (w_Status w)) (filter waits ws') = map (\<lambda>i. p + int i) [0 ..< length (filter waits ws)]"
proof (induction ws arbitrary: lg p lg' ws')
  case (Cons w ws)
  show ?case
  proof (cases "waits w")
    case False
    then show ?thesis using Cons by (auto simp: waits_def split: prod.splits)
  next
    case True
    then obtain m lg1 l' vs where u: "updateUnScheduled E reasons wk lg1 (p + 1) ws = (l', vs)"
      and ws': "ws' = w\<lparr>w_Status := (w_Status w)\<lparr>st_QueuePosition := p, st_Message := m\<rparr>\<rparr> # vs"
      using Cons.prems by (auto simp: waits_def Let_def split: prod.splits)
    have "[0 ..< Suc n] = 0 # map Suc [0 ..< n]" for n by (simp add: upt_conv_Cons map_Suc_upt del: upt_Suc)
    then show ?thesis using Cons.IH [OF u] True unfolding ws' by (simp add: waits_status del: upt_Suc)
  qed
qed simp

text \<open>After a cycle the workloads that stay in the queue get the positions 1, 2, 3 and so on, in the order
  of the queue; scheduled and ended ones are left alone, and nothing but position and message changes.\<close>

lemma queue_positions:
  assumes "updateUnScheduled E reasons wk lg 1 ws = (lg', ws')"
  shows "map (\<lambda>w. st_QueuePosition (w_Status w)) (filter waits ws') = map int [1 ..< Suc (length (filter waits ws))] \<and>
         filter (\<lambda>w. \<not> waits w) ws' = filter (\<lambda>w. \<not> waits w) ws \<and> map w_Meta ws' = map w_Meta ws \<and>
         map w_Phase ws' = map w_Phase ws"
proof -
  have "map int [1 ..< Suc n] = map (\<lambda>i. 1 + int i) [0 ..< n]" for n
    by (simp add: map_Suc_upt [symmetric] del: upt_Suc)
  then show ?thesis using updateUnScheduled_waits [OF assms] by simp
qed

section \<open>A small workspace\<close>

definition plain_job :: "string \<Rightarrow> int \<Rightarrow> string \<Rightarrow> Workload" where
  "plain_job name prio gpus = (queued name prio [])\<lparr>w_Spec := (w_Spec (queued name prio []))\<lparr>ws_Resources := [gpu_resource 1 gpus]\<rparr>\<rparr>"

definition gpu_workspace :: "string \<Rightarrow> int Workspace" where
  "gpu_workspace policy =
     \<lparr>wk_Meta = blank_meta ''ws'',
      wk_Spec = \<lparr>wsp_Cluster = ''c'', wsp_NodeFlavor = [], wsp_Replica = 1, wsp_QueuePolicy = policy, wsp_Scopes = [], wsp_Volumes = [],
                 wsp_EnablePreempt = False, wsp_Managers = [], wsp_IsDefault = False, wsp_ImageSecrets = [], wsp_MaxRuntime = [],
                 wsp_IdleTime = []\<rparr>,
      wk_Status = \<lparr>wss_Phase = [], wss_TotalResources = [(''amd.com/gpu'', 4)], wss_AvailableResources = [(''amd.com/gpu'', 4)],
                   wss_AbnormalResources = [], wss_AvailableReplica = 1, wss_AbnormalReplica = 0, wss_UpdateTime = None\<rparr>\<rparr>"

definition gpu_cycle :: "string \<Rightarrow> int cycle" where
  "gpu_cycle policy = \<lparr>c_log = [], c_workspace = gpu_workspace policy, c_scheduled = [], c_leftAvail = [(''amd.com/gpu'', 4)],
     c_leftTotal = [(''amd.com/gpu'', 4)], c_count = 0, c_reasons = []\<rparr>"

abbreviation gpu_env :: "int env" where
  "gpu_env \<equiv> sample_env [] [] [] []"

lemma plain_job_simps [simp]:
  "w_Name (plain_job n p g) = n" "priority (plain_job n p g) = p" "\<not> IsEnd (plain_job n p g)"
  "\<not> IsWorkloadEnablePreempt (w_Meta (plain_job n p g))" "\<not> ws_IsTolerateAll (w_Spec (plain_job n p g))"
  "\<not> IsWorkloadScheduled (w_Meta (plain_job n p g))" "ws_Dependencies (w_Spec (plain_job n p g)) = []"
  "ws_CronJobs (w_Spec (plain_job n p g)) = []" "\<not> HasSpecifiedNodes (plain_job n p g)"
  by (simp_all add: plain_job_def queued_def sample_defs IsEnd_def IsWorkloadEnablePreempt_def GetAnnotation_def api_defs
      IsWorkloadScheduled_def HasAnnotation_def HasSpecifiedNodes_def time_IsZero_def)

lemma plain_job_total:
  "go_atoi gpus = Some n \<Longrightarrow> gpus \<noteq> [] \<Longrightarrow> 0 \<le> n \<Longrightarrow> total_or_nil gpu_env (plain_job name p gpus) = [(''amd.com/gpu'', n)]"
  by (rule gpu_job_total) (auto simp: plain_job_def queued_def)

lemma decide_plain:
  assumes "go_atoi gpus = Some n" and "gpus \<noteq> []" and "0 \<le> n" and "c_workspace st = gpu_workspace policy"
    and "c_leftAvail st = [(''amd.com/gpu'', l)]"
  shows "decide gpu_env st (plain_job name p gpus) =
    (Inr (n \<le> l, if n \<le> l then [] else InsufficientReason @ '', no '' @ formatResourceName ''amd.com/gpu'' @ '' available''),
     \<lparr>d_log = c_log st, d_workspace = c_workspace st, d_scheduled = c_scheduled st, d_workload = plain_job name p gpus\<rparr>)"
proof -
  have "source_gate gpu_env (c_log st) (c_workspace st) = Some (c_log st, c_workspace st)"
    using assms(4) by (simp add: source_gate_def gpu_workspace_def GetSourceWorkloadId_def GetLabel_def sample_defs)
  then show ?thesis using assms(5)
    by (simp add: decide_def canScheduleWorkload_def plain_job_total [OF assms(1-3)] cron_blocked_def
        checkWorkloadDependencies_def preempt_disabled Let_def)
qed

lemma gpu_env_write: "do_write gpu_env lg x = (None, lg @ [(x, None)])"
  by (simp add: do_write_def sample_env_def ext.defs)

lemma gpu_env_named: "gets_by_name gpu_env"
  by (simp add: gets_by_name_def sample_env_def ext.defs find_by_def)

lemma gpu_env_patch: "fst (PatchWorkloadStatusFields gpu_env lg w fs) = None"
  by (simp add: PatchWorkloadStatusFields_def gpu_env_write Let_def)

lemma gpu_env_updateStatus: "\<exists>lg' w'. updateStatus gpu_env lg w = (None, lg', w')"
  unfolding updateStatus_def Let_def by (simp, metis gpu_env_patch prod.collapse)

lemma gpu_env_mark:
  "\<exists>lg' w'. markAsScheduled gpu_env lg w = (None, lg', w') \<and> w_Name w' = w_Name w \<and> IsWorkloadScheduled (w_Meta w')"
proof -
  obtain lg1 w1 where "updateStatus gpu_env lg w = (None, lg1, w1)" using gpu_env_updateStatus by blast
  then have "\<exists>lg' w'. markAsScheduled gpu_env lg w = (None, lg', w')"
    by (simp add: markAsScheduled_def defaultRetryCount_def eval_nat_numeral mark_attempt_def gpu_env_write Let_def)
  then show ?thesis using markAsScheduled_ok(1,5) gpu_env_named by blast
qed

lemma atoi_samples: "go_atoi ''8'' = Some 8" "go_atoi ''1'' = Some 1"
  by code_simp+

text \<open>A turn of the loop in the small workspace.\<close>

lemma plain_accept:
  assumes "go_atoi gpus = Some n" and "gpus \<noteq> []" and "0 \<le> n" and "n \<le> l" and "c_workspace st = gpu_workspace policy"
    and "c_leftAvail st = [(''amd.com/gpu'', l)]"
  shows "\<exists>st' w2. sched_loop gpu_env st prev (plain_job name p gpus # rest) = sched_loop gpu_env st' (prev @ [w2]) rest \<and>
    c_workspace st' = c_workspace st \<and> c_leftAvail st' = SubResource gpu_env [(''amd.com/gpu'', l)] [(''amd.com/gpu'', n)] \<and>
    c_scheduled st' = c_scheduled st @ [w2] \<and> w_Name w2 = name \<and> c_count st' = c_count st + 1 \<and> c_reasons st' = c_reasons st"
proof -
  note d = decide_plain [OF assms(1-3,5,6), of name p]
  obtain lg w2 where m: "markAsScheduled gpu_env (c_log st) (plain_job name p gpus) = (None, lg, w2)" "w_Name w2 = name"
    using gpu_env_mark [of "c_log st" "plain_job name p gpus"] by auto
  show ?thesis
    using d assms(4,6) m
    by (intro exI [of _ "taken gpu_env (after st (snd (decide gpu_env st (plain_job name p gpus)))) lg [(''amd.com/gpu'', n)] w2"]
        exI [of _ w2]) (simp add: sched_loop_accept plain_job_total [OF assms(1-3)])
qed

lemma sub_gpu: "n < l \<Longrightarrow> SubResource gpu_env [(''amd.com/gpu'', l)] [(''amd.com/gpu'', n)] = [(''amd.com/gpu'', l - n)]"
  by (simp add: SubResource_def Let_def Normalize_def IsConcernedResource_def resource_name_defs equal_lists_def sub_lists_def)

lemma plain_job_Less: "WorkloadList_Less (plain_job n p g) (plain_job m q h) \<longleftrightarrow> p > q \<or> p = q \<and> n < m"
  by (simp add: WorkloadList_Less_def plain_job_def queued_def sample_defs IsDependenciesEnd_def isReScheduledForFailover_def
      IsWorkloadReScheduled_def HasAnnotation_def)

text \<open>Under the policy \<open>balance\<close> a workload of lower priority can be scheduled while one of higher
  priority waits for resources: only the direct successor of a blocked workload is compared with it. The
  sorted queue holds \<open>a\<close> and \<open>b\<close> of priority 2 and \<open>c\<close> of priority 1, with 4 GPUs left; \<open>a\<close> needs 8 and waits,
  and the cycle schedules \<open>b\<close> and \<open>c\<close>.\<close>

lemma balance_overtakes:
  "let que = [plain_job ''a'' 2 ''8'', plain_job ''b'' 2 ''1'', plain_job ''c'' 1 ''1''] in
   go_sort WorkloadList_Less que = que \<and>
   (\<exists>st ws. sched_loop gpu_env (gpu_cycle ''balance'') [] que = (None, st, ws) \<and>
      map w_Name (c_scheduled st) = [''b'', ''c''] \<and> mhas (c_reasons st) ''a'')"
proof -
  let ?a = "plain_job ''a'' 2 ''8''" and ?b = "plain_job ''b'' 2 ''1''" and ?c = "plain_job ''c'' 1 ''1''"
  let ?st = "gpu_cycle ''balance''"
  have sorted: "go_sort WorkloadList_Less [?a, ?b, ?c] = [?a, ?b, ?c]"
    by (simp add: go_sort_def plain_job_Less)
  define r where "r = InsufficientReason @ '', no '' @ formatResourceName ''amd.com/gpu'' @ '' available''"
  define st1 where "st1 = noted (after ?st (snd (decide gpu_env ?st ?a))) ''a'' r"
  have d: "decide gpu_env ?st ?a = (Inr (False, r), \<lparr>d_log = [], d_workspace = gpu_workspace ''balance'', d_scheduled = [], d_workload = ?a\<rparr>)"
    using decide_plain [OF atoi_samples(1), of ?st "''balance''" 4 "''a''" 2] by (simp add: gpu_cycle_def r_def)
  have hard: "\<not> soft_reason r" by (simp add: soft_reason_def r_def reason_defs)
  have 1: "sched_loop gpu_env ?st [] [?a, ?b, ?c] = sched_loop gpu_env st1 [?a] [?b, ?c]"
    by (simp add: sched_loop_reject [OF d] hard st1_def d Let_def IsEnableFifo_def gpu_workspace_def)
  have st1: "c_workspace st1 = gpu_workspace ''balance''" "c_leftAvail st1 = [(''amd.com/gpu'', 4)]" "c_scheduled st1 = []"
    "mhas (c_reasons st1) ''a''"
    using d by (auto simp: st1_def gpu_cycle_def mhas_def)
  obtain st2 b where 2: "sched_loop gpu_env st1 [?a] [?b, ?c] = sched_loop gpu_env st2 [?a, b] [?c]"
    and st2: "c_workspace st2 = gpu_workspace ''balance''" "c_leftAvail st2 = [(''amd.com/gpu'', 3)]" "c_scheduled st2 = [b]"
      "w_Name b = ''b''" "c_reasons st2 = c_reasons st1"
    using plain_accept [OF atoi_samples(2), of 4 st1 "''balance''" "[?a]" "''b''" 2 "[?c]"] st1 sub_gpu [of 1 4] by auto
  obtain st3 c where "sched_loop gpu_env st2 [?a, b] [?c] = sched_loop gpu_env st3 [?a, b, c] []"
    "c_scheduled st3 = [b, c]" "w_Name c = ''c''" "c_reasons st3 = c_reasons st1"
    using plain_accept [OF atoi_samples(2), of 3 st2 "''balance''" "[?a, b]" "''c''" 1 "[]"] st2 by auto
  then show ?thesis using sorted 1 2 st1 st2 by (auto simp: Let_def)
qed

section \<open>Witnesses\<close>

lemma single_fits:
  "\<exists>st w lg. markAsScheduled gpu_env [] (plain_job ''b'' 2 ''1'') = (None, lg, w) \<and>
     sched_loop gpu_env (gpu_cycle policy) [] [plain_job ''b'' 2 ''1''] = (None, st, [w]) \<and>
     c_leftAvail st = [(''amd.com/gpu'', 3)]"
proof -
  let ?st = "gpu_cycle policy" and ?b = "plain_job ''b'' 2 ''1''"
  have st: "c_workspace ?st = gpu_workspace policy" "c_leftAvail ?st = [(''amd.com/gpu'', 4)]" "c_log ?st = []"
    by (simp_all add: gpu_cycle_def)
  obtain lg w where m: "markAsScheduled gpu_env [] ?b = (None, lg, w)" using gpu_env_mark by blast
  then show ?thesis
    using sched_loop_accept [OF decide_plain [OF atoi_samples(2) _ _ st(1,2), of "''b''" 2, simplified], of "[]" "[]"]
    by (simp add: st m plain_job_total [OF atoi_samples(2)] sub_gpu)
qed


lemma fifo_order_witness:
  "\<exists>st ws. sched_loop gpu_env (gpu_cycle ''fifo'') [] [plain_job ''b'' 2 ''1''] = (None, st, ws) \<and> map w_Name ws = [''b'']"
proof -
  obtain st ws where l: "sched_loop gpu_env (gpu_cycle ''fifo'') [] [plain_job ''b'' 2 ''1''] = (None, st, ws)"
    using single_fits by blast
  have "IsEnableFifo (c_workspace (gpu_cycle ''fifo''))" by (simp add: gpu_cycle_def gpu_workspace_def IsEnableFifo_def)
  then show ?thesis using fifo_order [OF l gpu_env_named] l by force
qed

lemma marking_witness: "\<exists>lg w. markAsScheduled gpu_env [] (plain_job ''b'' 2 ''1'') = (None, lg, w) \<and> length lg \<le> 4"
proof -
  obtain lg w where "markAsScheduled gpu_env [] (plain_job ''b'' 2 ''1'') = (None, lg, w)" using single_fits by blast
  then show ?thesis using marking [OF _ gpu_env_named] by fastforce
qed

lemma queue_positions_witness:
  "map (\<lambda>w. st_QueuePosition (w_Status w))
     (snd (updateUnScheduled gpu_env [] (gpu_workspace ''fifo'') [] 1 [plain_job ''a'' 2 ''8'', plain_job ''b'' 2 ''1''])) = [1, 2]"
proof -
  let ?ws = "[plain_job ''a'' 2 ''8'', plain_job ''b'' 2 ''1'']"
  obtain lg ws where u: "updateUnScheduled gpu_env [] (gpu_workspace ''fifo'') [] 1 ?ws = (lg, ws)" by force
  have "filter waits ?ws = ?ws" by (simp add: waits_def)
  then have p: "map (\<lambda>w. st_QueuePosition (w_Status w)) (filter waits ws) = [1, 2]" and "filter (\<lambda>w. \<not> waits w) ws = []"
    using queue_positions [OF u] by (simp_all add: waits_def)
  then have "filter waits ws = ws" by (simp add: filter_empty_conv)
  then show ?thesis using p unfolding u snd_conv by simp
qed


end
