(* ===== verification/Unstructured.thy ===== *)
theory Unstructured
  imports Workload_Common
begin

text \<open>
  \<^verbatim>\<open>job-manager/pkg/utils/unstructured.go\<close>: reading and changing Kubernetes objects that are only known
  as trees of maps and slices. A path names the fields from the root; a numeric component selects an
  element of a slice. The accessors of \<^verbatim>\<open>apimachinery\<close> for one field are the parameter \<open>ulib\<close>; they
  return deep copies, so a change takes effect when the copy is stored back. The locale
  \<open>unstructured_lib\<close> states what these accessors document. A result \<^term>\<open>Inr None\<close> means not found.
\<close>

datatype uval =
    UNil
  | UBool bool
  | UInt int
  | UFloat float64
  | UStr string
  | UList "uval list"
  | UMap "(string \<times> uval) list"

type_synonym umap = "(string, uval) gomap"

record ulib =
  u_NestedMap :: "umap \<Rightarrow> string \<Rightarrow> goerr + umap option"
  u_NestedSlice :: "umap \<Rightarrow> string \<Rightarrow> goerr + uval list option"
  u_SetNestedMap :: "umap \<Rightarrow> umap \<Rightarrow> string \<Rightarrow> goerr option \<times> umap"
  u_SetNestedSlice :: "umap \<Rightarrow> uval list \<Rightarrow> string \<Rightarrow> goerr option \<times> umap"
  u_ToUnstructured :: "uval \<Rightarrow> goerr + umap"

section \<open>Paths\<close>

abbreviation range_error :: "int \<Rightarrow> string \<Rightarrow> nat \<Rightarrow> goerr" where
  "range_error index key len \<equiv>
     plain_error (''index '' @ itoa index @ '' out of range for slice at '' @ key @ '' (len='' @ itoa (int len) @ '')'')"

abbreviation element_error :: "int \<Rightarrow> goerr" where
  "element_error index \<equiv> plain_error (''element at index '' @ itoa index @ '' is not a map'')"

fun NestedField :: "ulib \<Rightarrow> umap \<Rightarrow> string list \<Rightarrow> goerr + uval option" where
  "NestedField L obj [] = Inl (plain_error ''empty path'')"
| "NestedField L obj [key] = Inr (mget obj key)"
| "NestedField L obj (key # next # rest) =
     (case go_atoi next of
        Some index \<Rightarrow>
          (case u_NestedSlice L obj key of
             Inl e \<Rightarrow> Inl e
           | Inr None \<Rightarrow> Inr None
           | Inr (Some arr) \<Rightarrow>
               if index < 0 \<or> index \<ge> int (length arr) then Inl (range_error index key (length arr))
               else if rest = [] then Inr (Some (arr ! nat index))
               else case arr ! nat index of
                      UMap elem \<Rightarrow> NestedField L elem rest
                    | _ \<Rightarrow> Inl (element_error index))
      | None \<Rightarrow>
          (case u_NestedMap L obj key of
             Inl e \<Rightarrow> Inl e
           | Inr None \<Rightarrow> Inr None
           | Inr (Some nested) \<Rightarrow> NestedField L nested (next # rest)))"

fun NestedMap :: "ulib \<Rightarrow> umap \<Rightarrow> string list \<Rightarrow> goerr + umap option" where
  "NestedMap L obj [] = Inl (plain_error ''empty path'')"
| "NestedMap L obj [key] = u_NestedMap L obj key"
| "NestedMap L obj (key # next # rest) =
     (case go_atoi next of
        Some index \<Rightarrow>
          (case u_NestedSlice L obj key of
             Inl e \<Rightarrow> Inl e
           | Inr None \<Rightarrow> Inr None
           | Inr (Some arr) \<Rightarrow>
               if index < 0 \<or> index \<ge> int (length arr) then Inl (range_error index key (length arr))
               else case arr ! nat index of
                      UMap elem \<Rightarrow> if rest = [] then Inr (Some elem) else NestedMap L elem rest
                    | _ \<Rightarrow> Inl (element_error index))
      | None \<Rightarrow>
          (case u_NestedMap L obj key of
             Inl e \<Rightarrow> Inl e
           | Inr None \<Rightarrow> Inr None
           | Inr (Some nested) \<Rightarrow> NestedMap L nested (next # rest)))"

fun NestedSlice :: "ulib \<Rightarrow> umap \<Rightarrow> string list \<Rightarrow> goerr + uval list option" where
  "NestedSlice L obj [] = Inl (plain_error ''empty path'')"
| "NestedSlice L obj [key] = u_NestedSlice L obj key"
| "NestedSlice L obj (key # next # rest) =
     (case go_atoi next of
        Some index \<Rightarrow>
          (case u_NestedSlice L obj key of
             Inl e \<Rightarrow> Inl e
           | Inr None \<Rightarrow> Inr None
           | Inr (Some arr) \<Rightarrow>
               if index < 0 \<or> index \<ge> int (length arr) then Inl (range_error index key (length arr))
               else case arr ! nat index of
                      UMap elem \<Rightarrow> if rest = [] then Inl (plain_error ''path ends at array element, expected slice'')
                                   else NestedSlice L elem rest
                    | _ \<Rightarrow> Inl (element_error index))
      | None \<Rightarrow>
          (case u_NestedMap L obj key of
             Inl e \<Rightarrow> Inl e
           | Inr None \<Rightarrow> Inr None
           | Inr (Some nested) \<Rightarrow> NestedSlice L nested (next # rest)))"

text \<open>A change that fails below a copy leaves the object as it was.\<close>

fun SetNestedField :: "ulib \<Rightarrow> umap \<Rightarrow> uval \<Rightarrow> string list \<Rightarrow> goerr option \<times> umap" where
  "SetNestedField L obj val [] = (Some (plain_error ''empty path''), obj)"
| "SetNestedField L obj val [key] = (None, mput obj key val)"
| "SetNestedField L obj val (key # next # rest) =
     (case go_atoi next of
        Some index \<Rightarrow>
          (case u_NestedSlice L obj key of
             Inl e \<Rightarrow> (Some (plain_error (''failed to get slice at '' @ key @ '': '' @ err_Message e)), obj)
           | Inr None \<Rightarrow> (Some (plain_error (''slice not found at '' @ key)), obj)
           | Inr (Some arr) \<Rightarrow>
               if index < 0 \<or> index \<ge> int (length arr) then (Some (range_error index key (length arr)), obj)
               else case arr ! nat index of
                      UMap elem \<Rightarrow>
                        (case SetNestedField L elem val rest of
                           (Some e, _) \<Rightarrow> (Some e, obj)
                         | (None, elem') \<Rightarrow> u_SetNestedSlice L obj (arr[nat index := UMap elem']) key)
                    | _ \<Rightarrow> (Some (element_error index), obj))
      | None \<Rightarrow>
          (case u_NestedMap L obj key of
             Inl e \<Rightarrow> (Some (plain_error (''failed to get map at '' @ key @ '': '' @ err_Message e)), obj)
           | Inr found \<Rightarrow>
               (case SetNestedField L (case found of None \<Rightarrow> [] | Some nested \<Rightarrow> nested) val (next # rest) of
                  (Some e, _) \<Rightarrow> (Some e, obj)
                | (None, nested') \<Rightarrow> u_SetNestedMap L obj nested' key)))"

fun RemoveNestedField :: "ulib \<Rightarrow> umap \<Rightarrow> string list \<Rightarrow> goerr option \<times> umap" where
  "RemoveNestedField L obj [] = (Some (plain_error ''empty path''), obj)"
| "RemoveNestedField L obj [key] = (None, mdel obj key)"
| "RemoveNestedField L obj (key # next # rest) =
     (case go_atoi next of
        Some index \<Rightarrow>
          (case u_NestedSlice L obj key of
             Inr (Some arr) \<Rightarrow>
               if index < 0 \<or> index \<ge> int (length arr) then (None, obj)
               else if rest = [] then u_SetNestedSlice L obj (take (nat index) arr @ drop (nat index + 1) arr) key
               else case arr ! nat index of
                      UMap elem \<Rightarrow>
                        (case RemoveNestedField L elem rest of
                           (Some e, _) \<Rightarrow> (Some e, obj)
                         | (None, elem') \<Rightarrow> u_SetNestedSlice L obj (arr[nat index := UMap elem']) key)
                    | _ \<Rightarrow> (Some (element_error index), obj)
           | _ \<Rightarrow> (None, obj))
      | None \<Rightarrow>
          (case u_NestedMap L obj key of
             Inr (Some nested) \<Rightarrow>
               (case RemoveNestedField L nested (next # rest) of
                  (Some e, _) \<Rightarrow> (Some e, obj)
                | (None, nested') \<Rightarrow> u_SetNestedMap L obj nested' key)
           | _ \<Rightarrow> (None, obj)))"

section \<open>Typed reads\<close>

abbreviation type_error :: goerr where
  "type_error \<equiv> plain_error ''invalid field type''"

text \<open>A field that holds nil is found and reads as the zero value.\<close>

definition NestedString :: "ulib \<Rightarrow> umap \<Rightarrow> string list \<Rightarrow> goerr + string option" where
  "NestedString L obj paths =
     (case NestedField L obj paths of
        Inl e \<Rightarrow> Inl e | Inr None \<Rightarrow> Inr None | Inr (Some UNil) \<Rightarrow> Inr (Some '''')
      | Inr (Some (UStr str)) \<Rightarrow> Inr (Some str) | Inr (Some _) \<Rightarrow> Inl type_error)"

definition NestedStringSilently :: "ulib \<Rightarrow> umap \<Rightarrow> string list \<Rightarrow> string" where
  "NestedStringSilently L obj paths = (case NestedString L obj paths of Inr (Some str) \<Rightarrow> str | _ \<Rightarrow> '''')"

definition NestedBool :: "ulib \<Rightarrow> umap \<Rightarrow> string list \<Rightarrow> goerr + bool option" where
  "NestedBool L obj paths =
     (case NestedField L obj paths of
        Inl e \<Rightarrow> Inl e | Inr None \<Rightarrow> Inr None | Inr (Some UNil) \<Rightarrow> Inr (Some False)
      | Inr (Some (UBool b)) \<Rightarrow> Inr (Some b) | Inr (Some _) \<Rightarrow> Inl type_error)"

definition NestedInt64 :: "ulib \<Rightarrow> umap \<Rightarrow> string list \<Rightarrow> goerr + int option" where
  "NestedInt64 L obj paths =
     (case NestedField L obj paths of
        Inl e \<Rightarrow> Inl e | Inr None \<Rightarrow> Inr None | Inr (Some UNil) \<Rightarrow> Inr (Some 0)
      | Inr (Some (UInt n)) \<Rightarrow> Inr (Some n) | Inr (Some _) \<Rightarrow> Inl type_error)"

text \<open>\<^verbatim>\<open>stringutil.ConvertToString\<close>; \<^verbatim>\<open>%f\<close> prints six decimals.\<close>

definition pad_left :: "nat \<Rightarrow> string \<Rightarrow> string" where
  "pad_left n s = replicate (n - length s) CHR ''0'' @ s"

definition fmt_f :: "float64 \<Rightarrow> string" where
  "fmt_f x =
     (let m = round_half_even (\<bar>x\<bar> * 1000000)
      in (if x < 0 then ''-'' else '''') @ itoa (m div 1000000) @ ''.'' @ pad_left 6 (itoa (m mod 1000000)))"

definition ConvertToString :: "uval \<Rightarrow> string" where
  "ConvertToString v =
     (case v of UStr s \<Rightarrow> s | UInt n \<Rightarrow> itoa n | UFloat x \<Rightarrow> fmt_f x
      | UBool b \<Rightarrow> (if b then ''true'' else ''false'') | _ \<Rightarrow> '''')"

definition convertUnstructuredToString :: "ulib \<Rightarrow> umap \<Rightarrow> string list \<Rightarrow> string" where
  "convertUnstructuredToString L obj paths =
     (if paths = [] then ''''
      else case NestedField L obj paths of Inr (Some v) \<Rightarrow> (if v = UNil then '''' else ConvertToString v) | _ \<Rightarrow> '''')"

section \<open>Replicas\<close>

definition getIntValueByName :: "umap \<Rightarrow> string \<Rightarrow> int \<times> bool" where
  "getIntValueByName objects name =
     (case mget objects name of None \<Rightarrow> (0, False) | Some (UInt n) \<Rightarrow> (n, True) | Some _ \<Rightarrow> (0, True))"

text \<open>The value at a path as a list of objects: one map, or a slice converted element by element.\<close>

fun to_objects :: "ulib \<Rightarrow> uval list \<Rightarrow> goerr + umap list" where
  "to_objects L [] = Inr []"
| "to_objects L (item # items) =
     ebind (u_ToUnstructured L item) (\<lambda>obj. ebind (to_objects L items) (\<lambda>objs. Inr (obj # objs)))"

definition value_objects :: "ulib \<Rightarrow> goerr \<Rightarrow> uval \<Rightarrow> goerr + umap list" where
  "value_objects L err v =
     (case v of UMap m \<Rightarrow> Inr [m] | UList items \<Rightarrow> to_objects L items | _ \<Rightarrow> Inl err)"

definition object_replica :: "umap \<Rightarrow> string \<Rightarrow> int" where
  "object_replica obj name =
     (case getIntValueByName obj name of
        (n, True) \<Rightarrow> n
      | (_, False) \<Rightarrow>
          fold (\<lambda>(k, v) r. case v of UMap obj2 \<Rightarrow> wrap64 (r + fst (getIntValueByName obj2 name)) | _ \<Rightarrow> r) obj 0)"

definition getReplica :: "ulib \<Rightarrow> umap \<Rightarrow> string list \<Rightarrow> string \<Rightarrow> goerr + int" where
  "getReplica L obj prePaths name =
     (case NestedField L obj prePaths of
        Inl e \<Rightarrow> Inl e
      | Inr None \<Rightarrow> Inr 0
      | Inr (Some m) \<Rightarrow>
          ebind (value_objects L (plain_error ''failed to get replica'') m)
            (\<lambda>objects. Inr (fold (\<lambda>o' r. wrap64 (r + object_replica o' name)) objects 0)))"

definition GetSpecReplica :: "ulib \<Rightarrow> umap \<Rightarrow> ResourceTemplate \<Rightarrow> int" where
  "GetSpecReplica L obj rt =
     fold (\<lambda>t replica.
        if rs_ReplicasPaths t = [] then (if rs_DefaultReplica t > 0 then wrap64 (replica + rs_DefaultReplica t) else replica)
        else
          let prePaths = (if length (rs_ReplicasPaths t) > 1 then rs_PrePaths t @ rs_ReplicasPaths t else rs_PrePaths t)
          in case getReplica L obj prePaths (last (rs_ReplicasPaths t)) of
               Inr n \<Rightarrow> wrap64 (replica + n) | Inl e \<Rightarrow> replica)
       (rt_ResourceSpecs rt) 0"

definition GetActiveReplica :: "ulib \<Rightarrow> umap \<Rightarrow> ResourceTemplate \<Rightarrow> goerr + int" where
  "GetActiveReplica L obj rt =
     (if ar_PrePaths (rt_ActiveReplica rt) = [] \<and> ar_ReplicaPath (rt_ActiveReplica rt) = '''' then Inr 0
      else getReplica L obj (ar_PrePaths (rt_ActiveReplica rt)) (ar_ReplicaPath (rt_ActiveReplica rt)))"

section \<open>The status of an object\<close>

text \<open>An unstructured object: its tree, and its metadata and kind as the accessors read them.\<close>

record k8s_object =
  ko_Meta :: ObjectMeta
  ko_GVK :: GroupVersionKind
  ko_Object :: umap

record K8sObjectStatus =
  ks_Phase :: string
  ks_Message :: string
  ks_SpecReplica :: int
  ks_ActiveReplica :: int
  ks_RunnerScaleSetId :: string

definition ks_IsPending :: "K8sObjectStatus \<Rightarrow> bool" where
  "ks_IsPending s \<longleftrightarrow> ks_Phase s = K8sPending \<or> ks_Phase s = ''''"


definition buildMessage :: "string \<Rightarrow> string" where
  "buildMessage phase =
     (if phase = K8sSucceeded then ''Job is successfully completed''
      else if phase = K8sFailed then ''Job is failed''
      else if phase = K8sRunning then ''Job is running''
      else ''unknown'')"

definition phase_matches :: "ulib \<Rightarrow> PhaseExpression \<Rightarrow> umap \<Rightarrow> bool" where
  "phase_matches L phase obj \<longleftrightarrow>
     list_all (\<lambda>(key, val). val = convertUnstructuredToString L obj [key]) (pe_MatchExpressions phase)"

definition getStatusByExpression ::
  "ulib \<Rightarrow> umap list \<Rightarrow> PhaseExpression \<Rightarrow> string list \<Rightarrow> K8sObjectStatus \<Rightarrow> K8sObjectStatus option" where
  "getStatusByExpression L objects expression messagePaths result =
     (case find (phase_matches L expression) objects of
        None \<Rightarrow> None
      | Some obj \<Rightarrow>
          let msg = NestedStringSilently L obj messagePaths in
          Some (result\<lparr>ks_Phase := pe_Phase expression,
                       ks_Message := (if msg \<noteq> '''' then msg else buildMessage (pe_Phase expression))\<rparr>))"

fun first_phase :: "ulib \<Rightarrow> umap list \<Rightarrow> string list \<Rightarrow> PhaseExpression list \<Rightarrow> K8sObjectStatus \<Rightarrow> K8sObjectStatus" where
  "first_phase L objects messagePaths [] result = result"
| "first_phase L objects messagePaths (phase # phases) result =
     (case getStatusByExpression L objects phase messagePaths result of
        Some r \<Rightarrow> r | None \<Rightarrow> first_phase L objects messagePaths phases result)"

definition getK8sObjectStatusImpl :: "ulib \<Rightarrow> umap \<Rightarrow> ResourceTemplate \<Rightarrow> K8sObjectStatus \<Rightarrow> goerr + K8sObjectStatus" where
  "getK8sObjectStatusImpl L obj rt result =
     (if rst_PrePaths (rt_ResourceStatus rt) = [] then Inr result
      else case NestedField L obj (rst_PrePaths (rt_ResourceStatus rt)) of
             Inl e \<Rightarrow> Inl e
           | Inr None \<Rightarrow> Inr result
           | Inr (Some m) \<Rightarrow>
               ebind (value_objects L (plain_error ''invalid path'') m)
                 (\<lambda>objects. Inr (first_phase L objects (rst_MessagePaths (rt_ResourceStatus rt))
                                   (rst_Phases (rt_ResourceStatus rt)) result)))"

definition getStatefulSetStatus :: "ulib \<Rightarrow> umap \<Rightarrow> K8sObjectStatus \<Rightarrow> K8sObjectStatus" where
  "getStatefulSetStatus L obj result =
     (if NestedStringSilently L obj [''status'', ''currentRevision''] \<noteq> NestedStringSilently L obj [''status'', ''updateRevision'']
      then result\<lparr>ks_Phase := K8sUpdating, ks_Message := ''the statefulSet is updating''\<rparr>
      else if ks_SpecReplica result = ks_ActiveReplica result
      then result\<lparr>ks_Phase := K8sRunning, ks_Message := ''the statefulSet is ready''\<rparr>
      else result\<lparr>ks_Phase := K8sNotReady, ks_Message := ''the statefulSet is not ready''\<rparr>)"

definition GetK8sObjectStatus :: "ulib \<Rightarrow> k8s_object \<Rightarrow> ResourceTemplate \<Rightarrow> goerr + K8sObjectStatus" where
  "GetK8sObjectStatus L o' rt =
     ebind (GetActiveReplica L (ko_Object o') rt) (\<lambda>active.
       let result = \<lparr>ks_Phase = '''', ks_Message = '''', ks_SpecReplica = GetSpecReplica L (ko_Object o') rt,
                     ks_ActiveReplica = active, ks_RunnerScaleSetId = ''''\<rparr>
       in if rt_SpecKind rt = StatefulSetKind then Inr (getStatefulSetStatus L (ko_Object o') result)
          else if rt_SpecKind rt = JobKind then
            ebind (getK8sObjectStatusImpl L (ko_Object o') rt result) (\<lambda>r.
              Inr (if ks_Phase r = '''' \<and> ks_ActiveReplica r > 0
                   then r\<lparr>ks_Phase := K8sRunning, ks_Message := ''the job is running''\<rparr> else r))
          else if rt_SpecKind rt = CICDScaleRunnerSetKind then
            Inr (result\<lparr>ks_RunnerScaleSetId := GetAnnotation (ko_Meta o') CICDScaleSetIdAnnotation\<rparr>)
          else getK8sObjectStatusImpl L (ko_Object o') rt result)"

section \<open>The main container\<close>

definition container_path :: "ResourceSpec \<Rightarrow> string list" where
  "container_path t = rs_PrePaths t @ rs_TemplatePaths t @ [''spec'', ''containers'']"

fun main_container :: "ulib \<Rightarrow> string \<Rightarrow> uval list \<Rightarrow> goerr + umap option" where
  "main_container L main [] = Inr None"
| "main_container L main (c # cs) =
     ebind (u_ToUnstructured L c) (\<lambda>obj.
       if main \<noteq> '''' \<and> mget obj ''name'' \<noteq> Some (UStr main) then main_container L main cs else Inr (Some obj))"

abbreviation spec_container :: "ulib \<Rightarrow> k8s_object \<Rightarrow> ResourceTemplate \<Rightarrow> nat \<Rightarrow> uval list \<Rightarrow> goerr + umap option" where
  "spec_container L o' rt i containers \<equiv>
     main_container L (GetMainContainer_kind (ko_Meta o') (rt_SpecKind rt) (int i)) containers"

fun resources_loop ::
  "('q, 'z) ext_scheme \<Rightarrow> ulib \<Rightarrow> k8s_object \<Rightarrow> ResourceTemplate \<Rightarrow> string \<Rightarrow> nat \<Rightarrow> ResourceSpec list
     \<Rightarrow> int list \<Rightarrow> 'q resource_list list \<Rightarrow> goerr + int list \<times> 'q resource_list list" where
  "resources_loop E L o' rt gpuName i [] replicas resources = Inr (replicas, resources)"
| "resources_loop E L o' rt gpuName i (t # ts) replicas resources =
     ebind (if rs_ReplicasPaths t = [] then Inr replicas
            else ebind (NestedInt64 L (ko_Object o') (rs_PrePaths t @ rs_ReplicasPaths t))
                   (\<lambda>r. Inr (case r of None \<Rightarrow> replicas | Some n \<Rightarrow> replicas @ [n]))) (\<lambda>replicas'.
     ebind (NestedSlice L (ko_Object o') (container_path t)) (\<lambda>found.
       case found of
         None \<Rightarrow> resources_loop E L o' rt gpuName (Suc i) ts replicas' resources
       | Some containers \<Rightarrow>
           ebind (spec_container L o' rt i containers) (\<lambda>m.
             case m of
               None \<Rightarrow> resources_loop E L o' rt gpuName (Suc i) ts replicas' resources
             | Some obj \<Rightarrow>
                 ebind (NestedMap L obj [''resources'', ''limits'']) (\<lambda>lim.
                   case lim of
                     None \<Rightarrow> Inr ([], [])
                   | Some limits \<Rightarrow>
                       let field = (\<lambda>key. NestedStringSilently L limits [key]) in
                       (case CvtToResourceList E (field ResourceCPU) (field ResourceMemory) (field gpuName) gpuName
                               (field ResourceEphemeralStorage) (field (RdmaName E)) 1 of
                          Inl msg \<Rightarrow> Inl (plain_error msg)
                        | Inr rl \<Rightarrow> resources_loop E L o' rt gpuName (Suc i) ts replicas' (resources @ [rl]))))))"

definition GetResources ::
  "('q, 'z) ext_scheme \<Rightarrow> ulib \<Rightarrow> k8s_object \<Rightarrow> ResourceTemplate \<Rightarrow> string \<Rightarrow> int
     \<Rightarrow> goerr + int list \<times> 'q resource_list list" where
  "GetResources E L o' rt gpuName maxResource =
     resources_loop E L o' rt gpuName 0 (take (nat maxResource) (rt_ResourceSpecs rt)) [] []"

fun commands_loop :: "ulib \<Rightarrow> k8s_object \<Rightarrow> ResourceTemplate \<Rightarrow> nat \<Rightarrow> ResourceSpec list \<Rightarrow> goerr + string list list" where
  "commands_loop L o' rt i [] = Inr []"
| "commands_loop L o' rt i (t # ts) =
     ebind (NestedSlice L (ko_Object o') (container_path t)) (\<lambda>found.
       case found of
         None \<Rightarrow> Inl (plain_error ''failed to find containers'')
       | Some containers \<Rightarrow>
           ebind (spec_container L o' rt i containers) (\<lambda>m.
             case m of
               None \<Rightarrow> commands_loop L o' rt (Suc i) ts
             | Some obj \<Rightarrow>
                 (case mget obj ''command'' of
                    Some (UList cs) \<Rightarrow>
                      ebind (commands_loop L o' rt (Suc i) ts)
                        (\<lambda>r. Inr (List.map_filter (\<lambda>c. case c of UStr str \<Rightarrow> Some str | _ \<Rightarrow> None) cs # r))
                  | _ \<Rightarrow> Inl (plain_error ''failed to find container command''))))"

definition GetCommands :: "ulib \<Rightarrow> k8s_object \<Rightarrow> ResourceTemplate \<Rightarrow> int \<Rightarrow> goerr + string list list" where
  "GetCommands L o' rt maxResource = commands_loop L o' rt 0 (take (nat maxResource) (rt_ResourceSpecs rt))"

fun images_loop :: "ulib \<Rightarrow> k8s_object \<Rightarrow> ResourceTemplate \<Rightarrow> nat \<Rightarrow> ResourceSpec list \<Rightarrow> goerr + string list" where
  "images_loop L o' rt i [] = Inr []"
| "images_loop L o' rt i (t # ts) =
     ebind (NestedSlice L (ko_Object o') (container_path t)) (\<lambda>found.
       case found of
         None \<Rightarrow> Inl (plain_error ''failed to find containers'')
       | Some containers \<Rightarrow>
           ebind (spec_container L o' rt i containers) (\<lambda>m.
             case m of
               None \<Rightarrow> images_loop L o' rt (Suc i) ts
             | Some obj \<Rightarrow>
                 (case mget obj ''image'' of
                    None \<Rightarrow> Inl (plain_error ''failed to find container image'')
                  | Some img \<Rightarrow>
                      ebind (images_loop L o' rt (Suc i) ts)
                        (\<lambda>r. Inr ((case img of UStr str \<Rightarrow> [str] | _ \<Rightarrow> []) @ r)))))"

definition GetImages :: "ulib \<Rightarrow> k8s_object \<Rightarrow> ResourceTemplate \<Rightarrow> int \<Rightarrow> goerr + string list" where
  "GetImages L o' rt maxResource =
     ebind (images_loop L o' rt 0 (take (nat maxResource) (rt_ResourceSpecs rt))) (\<lambda>r.
       if r = [] then Inl (plain_error ''failed to find container image'') else Inr r)"

fun env_loop :: "ulib \<Rightarrow> k8s_object \<Rightarrow> ResourceTemplate \<Rightarrow> nat \<Rightarrow> ResourceSpec list \<Rightarrow> goerr + uval list" where
  "env_loop L o' rt i [] = Inl (plain_error ''no env found'')"
| "env_loop L o' rt i (t # ts) =
     ebind (NestedSlice L (ko_Object o') (TemplatePath t @ [''spec'', ''containers''])) (\<lambda>found.
       case found of
         None \<Rightarrow> Inl (plain_error ''failed to find containers'')
       | Some containers \<Rightarrow>
           ebind (spec_container L o' rt i containers) (\<lambda>m.
             case m of
               None \<Rightarrow> env_loop L o' rt (Suc i) ts
             | Some obj \<Rightarrow> Inr (case mget obj ''env'' of Some (UList env) \<Rightarrow> env | _ \<Rightarrow> [])))"

definition object_GetEnv :: "ulib \<Rightarrow> k8s_object \<Rightarrow> ResourceTemplate \<Rightarrow> int \<Rightarrow> goerr + uval list" where
  "object_GetEnv L o' rt maxResource = env_loop L o' rt 0 (take (nat maxResource) (rt_ResourceSpecs rt))"

section \<open>Volumes, labels and classes\<close>

definition memory_dir :: "uval \<Rightarrow> umap option" where
  "memory_dir v =
     (case v of
        UMap volume \<Rightarrow>
          (case mget volume ''emptyDir'' of
             Some (UMap emptyDir) \<Rightarrow> (if mget emptyDir ''medium'' = Some (UStr ''Memory'') then Some emptyDir else None)
           | _ \<Rightarrow> None)
      | _ \<Rightarrow> None)"

definition GetMemoryStorageVolume :: "uval list \<Rightarrow> umap option" where
  "GetMemoryStorageVolume volumes =
     (case List.map_filter memory_dir volumes of [] \<Rightarrow> None | d # _ \<Rightarrow> Some d)"

text \<open>The size limit is asserted to be a string: \<^const>\<open>None\<close> is the panic when it is not.\<close>

fun memory_loop :: "ulib \<Rightarrow> k8s_object \<Rightarrow> ResourceSpec list \<Rightarrow> (goerr + string list) option" where
  "memory_loop L o' [] = Some (Inr [])"
| "memory_loop L o' (t # ts) =
     (case NestedSlice L (ko_Object o') (rs_PrePaths t @ rs_TemplatePaths t @ [''spec'', ''volumes'']) of
        Inl e \<Rightarrow> Some (Inl e)
      | Inr None \<Rightarrow> Some (Inl (plain_error ''failed to find volumes''))
      | Inr (Some volumes) \<Rightarrow>
          (case (case GetMemoryStorageVolume volumes of
                   None \<Rightarrow> Some ''0''
                 | Some d \<Rightarrow> (case mget d ''sizeLimit'' of Some (UStr limit) \<Rightarrow> Some limit | _ \<Rightarrow> None)) of
             None \<Rightarrow> None
           | Some limit \<Rightarrow> map_option (\<lambda>r. ebind r (\<lambda>sizes. Inr (limit # sizes))) (memory_loop L o' ts)))"

definition GetMemoryStorageSize :: "ulib \<Rightarrow> k8s_object \<Rightarrow> ResourceTemplate \<Rightarrow> int \<Rightarrow> (goerr + string list) option" where
  "GetMemoryStorageSize L o' rt maxResource = memory_loop L o' (take (nat maxResource) (rt_ResourceSpecs rt))"

fun priority_loop :: "ulib \<Rightarrow> k8s_object \<Rightarrow> ResourceSpec list \<Rightarrow> goerr + string" where
  "priority_loop L o' [] = Inl (plain_error ''no priorityClassName found'')"
| "priority_loop L o' (t # ts) =
     ebind (NestedString L (ko_Object o') (rs_PrePaths t @ rs_TemplatePaths t @ [''spec'', ''priorityClassName'']))
       (\<lambda>r. case r of None \<Rightarrow> priority_loop L o' ts | Some name \<Rightarrow> Inr name)"

definition GetPriorityClassName :: "ulib \<Rightarrow> k8s_object \<Rightarrow> ResourceTemplate \<Rightarrow> int \<Rightarrow> goerr + string" where
  "GetPriorityClassName L o' rt maxResource = priority_loop L o' (take (nat maxResource) (rt_ResourceSpecs rt))"

definition GetGithubConfigSecret :: "ulib \<Rightarrow> k8s_object \<Rightarrow> goerr + string" where
  "GetGithubConfigSecret L o' =
     ebind (NestedString L (ko_Object o') [''spec'', ''githubConfigSecret''])
       (\<lambda>r. case r of None \<Rightarrow> Inl (plain_error ''no githubConfigSecret found'') | Some v \<Rightarrow> Inr v)"

definition GetLabels :: "ulib \<Rightarrow> k8s_object \<Rightarrow> ResourceSpec \<Rightarrow> goerr + umap" where
  "GetLabels L o' t =
     ebind (NestedMap L (ko_Object o') (rs_PrePaths t @ rs_TemplatePaths t @ [''metadata'', ''labels'']))
       (\<lambda>r. Inr (case r of None \<Rightarrow> [] | Some labels \<Rightarrow> labels))"

section \<open>The accessors of the library\<close>

text \<open>
  What \<^verbatim>\<open>apimachinery\<close> documents of its accessors for one field: they read that field only, report a
  missing field as not found and a value of another type as an error, and the setters store the value.
\<close>

lemma path_induct [case_names Nil Single Step]:
  assumes "P []" and "\<And>key. P [key]" and "\<And>key nxt rest. P (nxt # rest) \<Longrightarrow> P rest \<Longrightarrow> P (key # nxt # rest)"
  shows "P (path :: string list)"
  using assms by induction_schema (pat_completeness, lexicographic_order)

definition submap :: "umap \<Rightarrow> string \<Rightarrow> umap" where
  "submap obj key = (case mget obj key of Some (UMap m) \<Rightarrow> m | _ \<Rightarrow> [])"

locale unstructured_lib =
  fixes L :: ulib
  assumes NestedMap_found: "mget obj key = Some (UMap m) \<Longrightarrow> u_NestedMap L obj key = Inr (Some m)"
    and NestedMap_missing: "mget obj key = None \<Longrightarrow> u_NestedMap L obj key = Inr None"
    and NestedMap_other: "mget obj key = Some v \<Longrightarrow> (\<And>m. v \<noteq> UMap m) \<Longrightarrow> \<exists>e. u_NestedMap L obj key = Inl e"
    and NestedMap_reads: "mget obj key = mget obj' key \<Longrightarrow> u_NestedMap L obj key = u_NestedMap L obj' key"
    and NestedSlice_found: "mget obj key = Some (UList xs) \<Longrightarrow> u_NestedSlice L obj key = Inr (Some xs)"
    and NestedSlice_missing: "mget obj key = None \<Longrightarrow> u_NestedSlice L obj key = Inr None"
    and NestedSlice_other: "mget obj key = Some v \<Longrightarrow> (\<And>xs. v \<noteq> UList xs) \<Longrightarrow> \<exists>e. u_NestedSlice L obj key = Inl e"
    and NestedSlice_reads: "mget obj key = mget obj' key \<Longrightarrow> u_NestedSlice L obj key = u_NestedSlice L obj' key"
    and SetNestedMap_stores: "u_SetNestedMap L obj m key = (None, mput obj key (UMap m))"
    and SetNestedSlice_stores: "u_SetNestedSlice L obj xs key = (None, mput obj key (UList xs))"
    and ToUnstructured_map: "u_ToUnstructured L (UMap m) = Inr m"
begin

lemma NestedMap_iff: "u_NestedMap L obj key = Inr (Some m) \<longleftrightarrow> mget obj key = Some (UMap m)"
proof (cases "mget obj key")
  case None
  then show ?thesis by (simp add: NestedMap_missing)
next
  case (Some v)
  then show ?thesis using NestedMap_found NestedMap_other [OF Some] by (cases v) fastforce+
qed

lemma NestedMap_none_iff: "u_NestedMap L obj key = Inr None \<longleftrightarrow> mget obj key = None"
proof (cases "mget obj key")
  case None
  then show ?thesis by (simp add: NestedMap_missing)
next
  case (Some v)
  then show ?thesis using NestedMap_found NestedMap_other [OF Some] by (cases v) fastforce+
qed

lemma NestedSlice_iff: "u_NestedSlice L obj key = Inr (Some xs) \<longleftrightarrow> mget obj key = Some (UList xs)"
proof (cases "mget obj key")
  case None
  then show ?thesis by (simp add: NestedSlice_missing)
next
  case (Some v)
  then show ?thesis using NestedSlice_found NestedSlice_other [OF Some] by (cases v) fastforce+
qed

lemmas accessors = NestedMap_iff NestedMap_none_iff NestedSlice_iff SetNestedMap_stores SetNestedSlice_stores

text \<open>A field below a missing one is missing.\<close>

lemma NestedField_empty: "NestedField L [] (key # path) = Inr None"
  by (cases path) (simp_all add: NestedMap_missing NestedSlice_missing split: option.splits)

text \<open>Another field of the same object is read as before.\<close>

lemma NestedField_other_key: "k \<noteq> key \<Longrightarrow> NestedField L (mput obj key v) (k # path) = NestedField L obj (k # path)"
proof (cases path)
  case (Cons a list)
  assume "k \<noteq> key"
  then have "u_NestedMap L (mput obj key v) k = u_NestedMap L obj k" "u_NestedSlice L (mput obj key v) k = u_NestedSlice L obj k"
    by (auto intro: NestedMap_reads NestedSlice_reads)
  then show ?thesis using Cons by (simp split: option.split)
qed simp

text \<open>One step of a read and of a successful change.\<close>

lemma NestedField_map: "go_atoi nxt = None \<Longrightarrow> mget obj key = Some (UMap m) \<Longrightarrow>
    NestedField L obj (key # nxt # rest) = NestedField L m (nxt # rest)"
  by (simp add: NestedMap_found)

lemma NestedField_index: "go_atoi nxt = Some i \<Longrightarrow> mget obj key = Some (UList xs) \<Longrightarrow> 0 \<le> i \<Longrightarrow> i < int (length xs) \<Longrightarrow>
    xs ! nat i = UMap m \<Longrightarrow> rest \<noteq> [] \<Longrightarrow> NestedField L obj (key # nxt # rest) = NestedField L m rest"
  by (simp add: NestedSlice_found)

lemma set_map_cases:
  assumes "SetNestedField L obj v (key # nxt # rest) = (None, obj')" and "go_atoi nxt = None"
  obtains nested where "mget obj key = None \<or> (\<exists>m. mget obj key = Some (UMap m))"
    and "SetNestedField L (submap obj key) v (nxt # rest) = (None, nested)" and "obj' = mput obj key (UMap nested)"
proof -
  obtain found where f: "u_NestedMap L obj key = Inr found" using assms by (auto split: sum.splits)
  then have "found = None \<and> mget obj key = None \<or> (\<exists>m. found = Some m \<and> mget obj key = Some (UMap m))"
    by (cases found) (auto simp: accessors)
  then show ?thesis using that assms f
    by (auto simp: accessors submap_def split: prod.splits option.splits)
qed

lemma set_index_cases:
  assumes "SetNestedField L obj v (key # nxt # rest) = (None, obj')" and "go_atoi nxt = Some i"
  obtains xs m m' where "mget obj key = Some (UList xs)" and "0 \<le> i" and "i < int (length xs)" and "xs ! nat i = UMap m"
    and "SetNestedField L m v rest = (None, m')" and "obj' = mput obj key (UList (xs[nat i := UMap m']))"
proof -
  obtain xs where xs: "u_NestedSlice L obj key = Inr (Some xs)"
    using assms by (auto split: sum.splits option.splits)
  then have "mget obj key = Some (UList xs)" by (simp add: accessors)
  then show ?thesis using that assms
    by (auto simp: xs SetNestedSlice_stores split: if_splits uval.splits prod.splits option.splits)
qed

lemma set_error: "SetNestedField L obj v path = (Some e, obj') \<Longrightarrow> obj' = obj"
proof (cases path)
  case (Cons key rest')
  assume *: "SetNestedField L obj v path = (Some e, obj')"
  show ?thesis
  proof (cases rest')
    case Nil
    then show ?thesis using * Cons by simp
  next
    case (Cons nxt rest)
    then show ?thesis using * \<open>path = key # rest'\<close>
      by (auto simp: SetNestedMap_stores SetNestedSlice_stores split: option.splits sum.splits if_splits uval.splits prod.splits)
  qed
qed simp

lemma set_rest: "SetNestedField L m v rest = (None, m') \<Longrightarrow> rest \<noteq> []"
  by auto

lemma set_get: "SetNestedField L obj v path = (None, obj') \<Longrightarrow> NestedField L obj' path = Inr (Some v)"
proof (induction path arbitrary: obj obj' rule: path_induct)
  case (Step key nxt rest)
  show ?case
  proof (cases "go_atoi nxt")
    case None
    from set_map_cases [OF Step.prems None] show ?thesis
      by (metis NestedField_map [OF None] Step.IH(1) mget_mput)
  next
    case (Some i)
    from Step.prems Some obtain xs m m' where "mget obj key = Some (UList xs)" "0 \<le> i" "i < int (length xs)"
      "SetNestedField L m v rest = (None, m')" "obj' = mput obj key (UList (xs[nat i := UMap m']))"
      by (rule set_index_cases)
    then show ?thesis
      using NestedField_index [OF Some, of obj' key "xs[nat i := UMap m']" m' rest] Step.IH(2) set_rest by simp
  qed
qed auto

text \<open>Paths that part before either ends, at a field or at an index.\<close>

end

fun diverges :: "string list \<Rightarrow> string list \<Rightarrow> bool" where
  "diverges (x # xs) (y # ys) =
     (x \<noteq> y \<or>
      (case xs of [] \<Rightarrow> False | a # xs' \<Rightarrow>
       (case ys of [] \<Rightarrow> False | b # ys' \<Rightarrow>
        (case go_atoi a of
           None \<Rightarrow> go_atoi b = None \<and> diverges xs ys
         | Some i \<Rightarrow> (case go_atoi b of None \<Rightarrow> False | Some j \<Rightarrow> i \<noteq> j \<or> diverges xs' ys')))))"
| "diverges _ _ = False"

context unstructured_lib
begin

lemma set_frame:
  "SetNestedField L obj v path = (None, obj') \<Longrightarrow> diverges path path' \<Longrightarrow> NestedField L obj' path' = NestedField L obj path'"
proof (induction path arbitrary: obj obj' path' rule: path_induct)
  case (Single key)
  then obtain y ys where "path' = y # ys" "y \<noteq> key" by (cases path') auto
  then show ?case using Single.prems NestedField_other_key by auto
next
  case (Step key nxt rest)
  obtain y ys where p: "path' = y # ys" using Step.prems(2) by (cases path') auto
  show ?case
  proof (cases "key = y")
    case False
    have "\<exists>u. obj' = mput obj key u"
    proof (cases "go_atoi nxt")
      case None
      show ?thesis using set_map_cases [OF Step.prems(1) None] by metis
    next
      case (Some i)
      show ?thesis using set_index_cases [OF Step.prems(1) Some] by metis
    qed
    then show ?thesis using False p NestedField_other_key by auto
  next
    case True
    obtain b ys' where ys: "ys = b # ys'" using Step.prems(2) p True by (cases ys) (auto split: list.splits)
    show ?thesis
    proof (cases "go_atoi nxt")
      case None
      then have b: "go_atoi b = None" and d: "diverges (nxt # rest) (b # ys')" using Step.prems(2) p ys True by auto
      obtain nested where n: "mget obj key = None \<or> (\<exists>m. mget obj key = Some (UMap m))"
          "SetNestedField L (submap obj key) v (nxt # rest) = (None, nested)" "obj' = mput obj key (UMap nested)"
        using set_map_cases [OF Step.prems(1) None] by metis
      have "NestedField L obj' path' = NestedField L nested (b # ys')"
        using NestedField_map [OF b, of obj' y nested ys'] n(3) p ys True by simp
      also have "\<dots> = NestedField L (submap obj key) (b # ys')" by (rule Step.IH(1) [OF n(2) d])
      also have "\<dots> = NestedField L obj path'"
        using n(1) b p ys True by (auto simp: submap_def NestedMap_found NestedMap_missing NestedField_empty)
      finally show ?thesis .
    next
      case (Some i)
      then obtain j where j: "go_atoi b = Some j" "i \<noteq> j \<or> diverges rest ys'"
        using Step.prems(2) p ys True by (auto split: option.splits)
      obtain xs m m' where x: "mget obj key = Some (UList xs)" "0 \<le> i" "i < int (length xs)" "xs ! nat i = UMap m"
        "SetNestedField L m v rest = (None, m')" "obj' = mput obj key (UList (xs[nat i := UMap m']))"
        using set_index_cases [OF Step.prems(1) Some] by metis
      have s: "u_NestedSlice L obj key = Inr (Some xs)" "u_NestedSlice L obj' key = Inr (Some (xs[nat i := UMap m']))"
        using x(1,6) by (simp_all add: NestedSlice_found)
      show ?thesis
      proof (cases "i = j")
        case False
        then have "0 \<le> j \<Longrightarrow> xs[nat i := UMap m'] ! nat j = xs ! nat j" using x(2) by (simp add: nat_eq_iff)
        then show ?thesis using p ys True j(1) s by simp
      next
        case e: True
        then have d: "diverges rest ys'" using j(2) by simp
        then have "ys' \<noteq> []" by (cases rest; cases ys') auto
        then show ?thesis using p ys True j(1) s x e Step.IH(2) [OF x(5) d] by simp
      qed
    qed
  qed
qed simp

text \<open>Storing the value that is there changes nothing.\<close>

lemma mput_same: "mget obj key = Some v \<Longrightarrow> mput obj key v = obj"
  unfolding mput_def by (induction obj) auto

lemma get_set:
  assumes "NestedField L obj path = Inr (Some v)" and "path = [key] \<or> go_atoi (last path) = None"
  shows "SetNestedField L obj v path = (None, obj)"
  using assms
proof (induction path arbitrary: obj key rule: path_induct)
  case (Step key' nxt rest)
  show ?case
  proof (cases "go_atoi nxt")
    case None
    then obtain m where m: "mget obj key' = Some (UMap m)" "NestedField L m (nxt # rest) = Inr (Some v)"
      using Step.prems(1) by (auto simp: accessors split: sum.splits option.splits)
    have "SetNestedField L m v (nxt # rest) = (None, m)" using Step.IH(1) [OF m(2), of nxt] Step.prems(2) by (cases rest) auto
    then show ?thesis using m(1) None by (simp add: NestedMap_found SetNestedMap_stores mput_same)
  next
    case (Some i)
    then have "rest \<noteq> []" using Step.prems(2) by auto
    obtain xs where xs: "u_NestedSlice L obj key' = Inr (Some xs)"
      using Step.prems(1) Some by (auto split: sum.splits option.splits)
    then obtain m where m: "0 \<le> i" "i < int (length xs)" "xs ! nat i = UMap m" "NestedField L m rest = Inr (Some v)"
      using Step.prems(1) Some \<open>rest \<noteq> []\<close> by (auto split: if_splits uval.splits)
    have "SetNestedField L m v rest = (None, m)" using Step.IH(2) [OF m(4)] Step.prems(2) \<open>rest \<noteq> []\<close> by auto
    moreover have "xs[nat i := UMap m] = xs" using m(3) by (metis list_update_id)
    moreover have "mget obj key' = Some (UList xs)" using xs by (simp add: accessors)
    ultimately show ?thesis using m xs Some by (simp add: SetNestedSlice_stores mput_same)
  qed
qed (auto simp: mput_same)

text \<open>A removed field is not found afterwards.\<close>

lemma remove_get:
  assumes "RemoveNestedField L obj path = (None, obj')" and "path = [key] \<or> go_atoi (last path) = None"
  shows "\<nexists>v. NestedField L obj' path = Inr (Some v)"
  using assms
proof (induction path arbitrary: obj obj' key rule: path_induct)
  case (Step key' nxt rest)
  show ?case
  proof (cases "go_atoi nxt")
    case None
    show ?thesis
    proof (cases "\<exists>m. mget obj key' = Some (UMap m)")
      case True
      then obtain m where m: "mget obj key' = Some (UMap m)" by blast
      then obtain m' where "RemoveNestedField L m (nxt # rest) = (None, m')" "obj' = mput obj key' (UMap m')"
        using Step.prems(1) None by (auto simp: NestedMap_found SetNestedMap_stores split: prod.splits option.splits)
      then show ?thesis using Step.IH(1) [of m m' nxt] Step.prems(2) NestedField_map [OF None] by (cases rest) auto
    next
      case False
      then have "\<nexists>m. u_NestedMap L obj key' = Inr (Some m)" by (simp add: accessors)
      then show ?thesis using Step.prems(1) None by (auto split: sum.splits option.splits)
    qed
  next
    case (Some i)
    then have "rest \<noteq> []" using Step.prems(2) by auto
    show ?thesis
    proof (cases "\<exists>xs. mget obj key' = Some (UList xs)")
      case True
      then obtain xs where xs: "u_NestedSlice L obj key' = Inr (Some xs)" by (auto simp: accessors)
      show ?thesis
      proof (cases "i < 0 \<or> i \<ge> int (length xs)")
        case True
        then show ?thesis using Step.prems(1) Some xs by auto
      next
        case False
        then obtain m m' where m: "xs ! nat i = UMap m" "RemoveNestedField L m rest = (None, m')"
          "obj' = mput obj key' (UList (xs[nat i := UMap m']))"
          using Step.prems(1) Some xs \<open>rest \<noteq> []\<close> by (auto simp: SetNestedSlice_stores split: uval.splits prod.splits option.splits)
        have "u_NestedSlice L obj' key' = Inr (Some (xs[nat i := UMap m']))" using m(3) by (simp add: NestedSlice_found)
        then show ?thesis using Some False m Step.IH(2) [OF m(2)] Step.prems(2) \<open>rest \<noteq> []\<close> by auto
      qed
    next
      case False
      then have "\<nexists>xs. u_NestedSlice L obj key' = Inr (Some xs)" by (simp add: accessors)
      then show ?thesis using Step.prems(1) Some by (auto split: sum.splits option.splits)
    qed
  qed
qed auto

end

section \<open>Reads and changes\<close>

text \<open>An instance of the accessors that evaluates.\<close>

definition plain_ulib :: ulib where
  "plain_ulib =
     \<lparr>u_NestedMap = (\<lambda>obj key. case mget obj key of None \<Rightarrow> Inr None | Some (UMap m) \<Rightarrow> Inr (Some m) | Some _ \<Rightarrow> Inl (plain_error ''accessor error'')),
      u_NestedSlice = (\<lambda>obj key. case mget obj key of None \<Rightarrow> Inr None | Some (UList xs) \<Rightarrow> Inr (Some xs) | Some _ \<Rightarrow> Inl (plain_error ''accessor error'')),
      u_SetNestedMap = (\<lambda>obj m key. (None, mput obj key (UMap m))),
      u_SetNestedSlice = (\<lambda>obj xs key. (None, mput obj key (UList xs))),
      u_ToUnstructured = (\<lambda>v. case v of UMap m \<Rightarrow> Inr m | _ \<Rightarrow> Inl (plain_error ''not a map''))\<rparr>"

interpretation plain: unstructured_lib plain_ulib
  by unfold_locales (auto simp: plain_ulib_def split: option.splits uval.splits)

text \<open>A successful change of a nested field is read back, leaves every field on a diverging path as it
  was, and a failed change leaves the whole object as it was; storing the value a field already has changes
  nothing, and a removed field is not found afterwards. Numeric components select slice elements.\<close>

lemma nested_field_laws:
  assumes "unstructured_lib L"
  shows "(SetNestedField L obj v path = (None, obj') \<longrightarrow>
           NestedField L obj' path = Inr (Some v) \<and>
           (\<forall>path'. diverges path path' \<longrightarrow> NestedField L obj' path' = NestedField L obj path')) \<and>
         (SetNestedField L obj v path = (Some e, obj') \<longrightarrow> obj' = obj) \<and>
         (NestedField L obj path = Inr (Some v) \<and> (length path = 1 \<or> go_atoi (last path) = None) \<longrightarrow>
           SetNestedField L obj v path = (None, obj)) \<and>
         (RemoveNestedField L obj path = (None, obj') \<and> (length path = 1 \<or> go_atoi (last path) = None) \<longrightarrow>
           NestedField L obj' path \<noteq> Inr (Some v))"
  using unstructured_lib.set_get [OF assms] unstructured_lib.set_frame [OF assms] unstructured_lib.set_error [OF assms]
    unstructured_lib.get_set [OF assms, of obj path v "hd path"] unstructured_lib.remove_get [OF assms, of obj path obj' "hd path"]
  by (auto simp: length_Suc_conv)

definition sample_deployment :: umap where
  "sample_deployment = [(''spec'', UMap [(''replicas'', UInt 3), (''containers'', UList [UMap [(''name'', UStr ''main'')], UMap []])])]"

lemma nested_field_laws_witness:
  "NestedField plain_ulib (snd (SetNestedField plain_ulib sample_deployment (UStr ''img'') [''spec'', ''containers'', ''0'', ''image'']))
     [''spec'', ''containers'', ''0'', ''image''] = Inr (Some (UStr ''img'')) \<and>
   NestedField plain_ulib (snd (SetNestedField plain_ulib sample_deployment (UStr ''img'') [''spec'', ''containers'', ''0'', ''image'']))
     [''spec'', ''replicas''] = Inr (Some (UInt 3))"
proof -
  let ?path = "[''spec'', ''containers'', ''0'', ''image'']" and ?obj' = "snd (SetNestedField plain_ulib sample_deployment (UStr ''img'') [''spec'', ''containers'', ''0'', ''image''])"
  have s: "SetNestedField plain_ulib sample_deployment (UStr ''img'') ?path = (None, ?obj')" by code_simp
  have d: "diverges ?path [''spec'', ''replicas'']" by code_simp
  have r: "NestedField plain_ulib sample_deployment [''spec'', ''replicas''] = Inr (Some (UInt 3))" by code_simp
  note laws = nested_field_laws [OF plain.unstructured_lib_axioms, THEN conjunct1, rule_format, OF s]
  show ?thesis using laws [THEN conjunct1] laws [THEN conjunct2, rule_format, OF d] r by (simp only: simp_thms)
qed

section \<open>Phases and replicas\<close>

text \<open>The first expression of the template that some object matches decides the phase.\<close>

lemma first_phase_spec:
  "ks_Phase (first_phase L objects mp phases result) =
     (case find (\<lambda>p. list_ex (phase_matches L p) objects) phases of None \<Rightarrow> ks_Phase result | Some p \<Rightarrow> pe_Phase p)"
proof (induction phases)
  case (Cons p ps)
  have "find (phase_matches L p) objects = None \<longleftrightarrow> \<not> list_ex (phase_matches L p) objects"
    by (auto simp: find_None_iff list_ex_iff)
  then show ?case using Cons by (auto simp: getStatusByExpression_def Let_def split: option.splits)
qed simp

text \<open>A replica path of more than one component is not counted. The prefix is extended by the whole path,
  its last component included, so the lookup ends at the number itself and its error is dropped: an
  object that asks for \<open>n\<close> replicas at such a path counts as asking for none, and a stateful set with a
  running replica counts as not ready.\<close>

lemma nested_replicas_ignored:
  assumes "rt_ResourceSpecs rt = [t]" and "length (rs_ReplicasPaths t) > 1"
    and "NestedField L (ko_Object o') (rs_PrePaths t @ rs_ReplicasPaths t) = Inr (Some (UInt n))"
  shows "GetSpecReplica L (ko_Object o') rt = 0 \<and>
         (rt_SpecKind rt = StatefulSetKind \<and> GetActiveReplica L (ko_Object o') rt = Inr k \<and> k \<noteq> 0 \<longrightarrow>
            (\<exists>s. GetK8sObjectStatus L o' rt = Inr s \<and> ks_Phase s \<noteq> K8sRunning))"
proof -
  have "GetSpecReplica L (ko_Object o') rt = 0"
    using assms by (auto simp: GetSpecReplica_def getReplica_def value_objects_def)
  then show ?thesis
    by (simp add: GetK8sObjectStatus_def getStatefulSetStatus_def Let_def K8sUpdating_def K8sRunning_def K8sNotReady_def)
qed

definition nested_template :: ResourceTemplate where
  "nested_template =
     \<lparr>rt_Meta = \<lparr>om_Name = [], om_Namespace = [], om_UID = [], om_ResourceVersion = [], om_Generation = 1, om_Labels = [],
        om_Annotations = [], om_CreationTimestamp = 0, om_DeletionTimestamp = None, om_Finalizers = [], om_OwnerReferences = []\<rparr>,
      rt_GVK = \<lparr>gvk_Group = ''apps'', gvk_Version = ''v1'', gvk_Kind = ''StatefulSet''\<rparr>,
      rt_ResourceSpecs = [\<lparr>rs_PrePaths = [], rs_TemplatePaths = [], rs_ReplicasPaths = [''spec'', ''replicas''],
        rs_DefaultReplica = 0, rs_MaxReplicasPaths = [], rs_MinReplicasPaths = []\<rparr>],
      rt_ResourceStatus = \<lparr>rst_PrePaths = [], rst_MessagePaths = [], rst_ReasonPaths = [], rst_Phases = []\<rparr>,
      rt_ActiveReplica = \<lparr>ar_PrePaths = [], ar_ReplicaPath = []\<rparr>\<rparr>"

lemma nested_replicas_ignored_witness:
  "NestedField plain_ulib sample_deployment [''spec'', ''replicas''] = Inr (Some (UInt 3)) \<and>
   GetSpecReplica plain_ulib sample_deployment nested_template = 0"
proof -
  let ?o = "\<lparr>ko_Meta = rt_Meta nested_template, ko_GVK = rt_GVK nested_template, ko_Object = sample_deployment\<rparr>"
  have f: "NestedField plain_ulib sample_deployment [''spec'', ''replicas''] = Inr (Some (UInt 3))" by code_simp
  let ?t = "hd (rt_ResourceSpecs nested_template)"
  have "rt_ResourceSpecs nested_template = [?t]" "length (rs_ReplicasPaths ?t) > 1"
    "rs_PrePaths ?t @ rs_ReplicasPaths ?t = [''spec'', ''replicas'']" by (simp_all add: nested_template_def)
  then have "GetSpecReplica plain_ulib (ko_Object ?o) nested_template = 0"
    using nested_replicas_ignored [of nested_template ?t plain_ulib ?o 3] f by (metis k8s_object.select_convs(3))
  then show ?thesis using f by (simp only: k8s_object.select_convs simp_thms)
qed

end
