(* ===== verification/Data_Plane.thy ===== *)
theory Data_Plane
  imports Scheduler Unstructured
begin

text \<open>
  \<^verbatim>\<open>common/pkg/utils/object_manager.go\<close>, the registry of the clients of the data-plane clusters, and
  the part of \<^verbatim>\<open>job-manager/pkg/utils/kubernetes.go\<close> that lists and deletes the objects of a workload
  there. What a cluster's API answers is a field of the parameter \<open>plane\<close>.
\<close>

section \<open>The object manager\<close>

text \<open>Objects with a release method; the released ones are recorded, whether or not the release failed.\<close>

record 'o object_manager =
  om_objects :: "(string, 'o) gomap"
  om_released :: "'o list"

definition AddOrReplace :: "'o object_manager \<Rightarrow> string \<Rightarrow> 'o \<Rightarrow> 'o object_manager" where
  "AddOrReplace om key obj =
     (let om1 = (case mget (om_objects om) key of
                   None \<Rightarrow> om
                 | Some oldObject \<Rightarrow> om\<lparr>om_released := om_released om @ [oldObject]\<rparr>)
      in om1\<lparr>om_objects := mput (om_objects om1) key obj\<rparr>)"

definition om_Add :: "'o object_manager \<Rightarrow> string \<Rightarrow> 'o \<Rightarrow> goerr option \<times> 'o object_manager" where
  "om_Add om key obj =
     (if mhas (om_objects om) key then (Some (plain_error (''object '' @ key @ '' already exists'')), om)
      else (None, om\<lparr>om_objects := mput (om_objects om) key obj\<rparr>))"

definition om_Delete :: "'o object_manager \<Rightarrow> string \<Rightarrow> goerr option \<times> 'o object_manager" where
  "om_Delete om key =
     (case mget (om_objects om) key of
        None \<Rightarrow> (Some (plain_error (''object '' @ key @ '' does not exist'')), om)
      | Some obj \<Rightarrow> (None, om\<lparr>om_released := om_released om @ [obj], om_objects := mdel (om_objects om) key\<rparr>))"

definition om_Clear :: "'o object_manager \<Rightarrow> 'o object_manager" where
  "om_Clear om = om\<lparr>om_released := om_released om @ map snd (om_objects om), om_objects := []\<rparr>"

definition om_Get :: "'o object_manager \<Rightarrow> string \<Rightarrow> 'o option" where
  "om_Get om key = mget (om_objects om) key"

definition om_Has :: "'o object_manager \<Rightarrow> string \<Rightarrow> bool" where
  "om_Has om key = mhas (om_objects om) key"

definition om_GetAll :: "'o object_manager \<Rightarrow> string list \<times> 'o list" where
  "om_GetAll om = (map fst (om_objects om), map snd (om_objects om))"

definition om_Len :: "'o object_manager \<Rightarrow> int" where
  "om_Len om = int (length (om_objects om))"

lemma om_Get_AddOrReplace [simp]: "om_Get (AddOrReplace om k v) k' = (if k' = k then Some v else om_Get om k')"
  by (simp add: AddOrReplace_def om_Get_def Let_def split: option.split)

lemma om_Get_Delete [simp]: "om_Get (snd (om_Delete om k)) k' = (if k' = k then None else om_Get om k')"
  by (auto simp: om_Delete_def om_Get_def split: option.split)

text \<open>\<^verbatim>\<open>GetClusterClientSets\<close>; the type assertion of the source is the type of the registry here.\<close>

definition GetClusterClientSets :: "'o object_manager \<Rightarrow> string \<Rightarrow> goerr + 'o" where
  "GetClusterClientSets managers name =
     (case om_Get managers name of
        None \<Rightarrow> Inl (plain_error (''failed to get cluster clientSet, name: '' @ name))
      | Some obj \<Rightarrow> Inr obj)"

section \<open>Objects of the data plane\<close>

record 'q plane = "'q env" +
  RESTMapping :: "GroupVersionKind \<Rightarrow> goerr + string"
  plane_Get :: "wlog \<Rightarrow> string \<Rightarrow> string \<Rightarrow> string \<Rightarrow> goerr + k8s_object"
  plane_List :: "wlog \<Rightarrow> string \<Rightarrow> string \<Rightarrow> (ObjectMeta \<Rightarrow> bool) \<Rightarrow> goerr + k8s_object list"

definition WorkloadGracePeriod :: int where "WorkloadGracePeriod = 60"

definition isWorkloadOrPod :: "GroupVersionKind \<Rightarrow> bool" where
  "isWorkloadOrPod gvk \<longleftrightarrow>
     gvk_Kind gvk \<in> set [''Pod'', ''Deployment'', ''StatefulSet'', ''DaemonSet'', ''ReplicaSet'', ''Job'', ''CronJob'',
                        ''EphemeralRunner'', ''MonarchMesh'']"

definition GetObject :: "('q, 'z) plane_scheme \<Rightarrow> wlog \<Rightarrow> string \<Rightarrow> string \<Rightarrow> GroupVersionKind \<Rightarrow> goerr + k8s_object" where
  "GetObject E lg name namespace gvk = ebind (RESTMapping E gvk) (\<lambda>gvr. plane_Get E lg gvr namespace name)"

definition ListObject ::
  "('q, 'z) plane_scheme \<Rightarrow> wlog \<Rightarrow> (ObjectMeta \<Rightarrow> bool) \<Rightarrow> string \<Rightarrow> GroupVersionKind \<Rightarrow> goerr + k8s_object list" where
  "ListObject E lg labelSelector namespace gvk =
     ebind (RESTMapping E gvk) (\<lambda>gvr. plane_List E lg gvr namespace labelSelector)"

fun template_gvks :: "('q, 'z) plane_scheme \<Rightarrow> wlog \<Rightarrow> GroupVersionKind list \<Rightarrow> goerr + GroupVersionKind list" where
  "template_gvks E lg [] = Inr []"
| "template_gvks E lg (gvk # gvks) =
     ebind (GetResourceTemplateByGVK E lg gvk) (\<lambda>rt. ebind (template_gvks E lg gvks) (\<lambda>r. Inr (rt_GVK rt # r)))"

fun list_gvks ::
  "('q, 'z) plane_scheme \<Rightarrow> wlog \<Rightarrow> (ObjectMeta \<Rightarrow> bool) \<Rightarrow> string \<Rightarrow> GroupVersionKind list \<Rightarrow> goerr + k8s_object list" where
  "list_gvks E lg labelSelector namespace [] = Inr []"
| "list_gvks E lg labelSelector namespace (gvk # gvks) =
     ebind (ListObject E lg labelSelector namespace gvk)
       (\<lambda>objs. ebind (list_gvks E lg labelSelector namespace gvks) (\<lambda>r. Inr (objs @ r)))"

definition ListObjectsByWorkload :: "('q, 'z) plane_scheme \<Rightarrow> wlog \<Rightarrow> Workload \<Rightarrow> goerr + k8s_object list" where
  "ListObjectsByWorkload E lg adminWorkload =
     ebind (if IsTorchFT adminWorkload then Inr (GetWorkloadGVK adminWorkload)
            else template_gvks E lg (GetWorkloadGVK adminWorkload))
       (\<lambda>objectGVKs. list_gvks E lg (label_is WorkloadIdLabel (w_Name adminWorkload)) (ws_Workspace (w_Spec adminWorkload)) objectGVKs)"

text \<open>The stateful set of a mesh is deleted first; its error is only logged.\<close>

definition deleteOwnedStatefulSets :: "('q, 'z) plane_scheme \<Rightarrow> wlog \<Rightarrow> k8s_object \<Rightarrow> wlog" where
  "deleteOwnedStatefulSets E lg obj =
     snd (do_write E lg (PlaneDelete ''apps/v1/statefulsets'' (om_Namespace (ko_Meta obj)) (om_Name (ko_Meta obj)) None ''Foreground''))"

definition DeleteObject :: "('q, 'z) plane_scheme \<Rightarrow> wlog \<Rightarrow> k8s_object \<Rightarrow> goerr option \<times> wlog" where
  "DeleteObject E lg obj =
     (case RESTMapping E (ko_GVK obj) of
        Inl e \<Rightarrow> (Some e, lg)
      | Inr gvr \<Rightarrow>
          let gracePeriod = (if isWorkloadOrPod (ko_GVK obj) then WorkloadGracePeriod else 0);
              mesh = (gvk_Kind (ko_GVK obj) = MonarchMesh);
              lg1 = (if mesh then deleteOwnedStatefulSets E lg obj else lg);
              policy = (if mesh then ''Background'' else ''Foreground'')
          in case do_write E lg1 (PlaneDelete gvr (om_Namespace (ko_Meta obj)) (om_Name (ko_Meta obj)) (Some gracePeriod) policy) of
               (err, lg2) \<Rightarrow> (IgnoreNotFound E err, lg2))"

fun delete_all :: "('q, 'z) plane_scheme \<Rightarrow> wlog \<Rightarrow> k8s_object list \<Rightarrow> goerr option \<times> wlog" where
  "delete_all E lg [] = (None, lg)"
| "delete_all E lg (obj # objs) =
     (case DeleteObject E lg obj of
        (None, lg') \<Rightarrow> delete_all E lg' objs
      | (Some e, lg') \<Rightarrow> if api_IsNotFound E e then delete_all E lg' objs else (Some e, lg'))"

definition DeleteObjectsByWorkload :: "('q, 'z) plane_scheme \<Rightarrow> wlog \<Rightarrow> Workload \<Rightarrow> (goerr + bool) \<times> wlog" where
  "DeleteObjectsByWorkload E lg adminWorkload =
     (case ListObjectsByWorkload E lg adminWorkload of
        Inl e \<Rightarrow> (Inl e, lg)
      | Inr [] \<Rightarrow> (Inr False, lg)
      | Inr objs \<Rightarrow> (case delete_all E lg objs of
                       (Some e, lg') \<Rightarrow> (Inl e, lg')
                     | (None, lg') \<Rightarrow> (Inr True, lg')))"

definition FindFailedCondition :: "Workload \<Rightarrow> bool" where
  "FindFailedCondition workload \<longleftrightarrow>
     FindCondition workload \<lparr>cond_Type = K8sFailed, cond_Status = [], cond_LastTransitionTime = zero_time,
        cond_Reason = GenerateDispatchReason (GetWorkloadDispatchCnt (w_Meta workload)), cond_Message = []\<rparr> \<noteq> None"

section \<open>Objects are released once\<close>

datatype 'o om_op = OpReplace string 'o | OpAdd string 'o | OpDelete string | OpClear

definition om_apply :: "'o om_op \<Rightarrow> 'o object_manager \<Rightarrow> 'o object_manager" where
  "om_apply op om = (case op of
      OpReplace key obj \<Rightarrow> AddOrReplace om key obj
    | OpAdd key obj \<Rightarrow> snd (om_Add om key obj)
    | OpDelete key \<Rightarrow> snd (om_Delete om key)
    | OpClear \<Rightarrow> om_Clear om)"

text \<open>The objects an operation brings in: those of successful additions.\<close>

definition om_added :: "'o om_op \<Rightarrow> 'o object_manager \<Rightarrow> 'o multiset" where
  "om_added op om = (case op of
      OpReplace key obj \<Rightarrow> {#obj#}
    | OpAdd key obj \<Rightarrow> if om_Has om key then {#} else {#obj#}
    | _ \<Rightarrow> {#})"

definition om_all :: "'o object_manager \<Rightarrow> 'o multiset" where
  "om_all om = mset (map snd (om_objects om)) + mset (om_released om)"

fun om_run :: "'o om_op list \<Rightarrow> 'o object_manager \<Rightarrow> 'o object_manager \<times> 'o multiset" where
  "om_run [] om = (om, {#})"
| "om_run (op # ops) om = (case om_run ops (om_apply op om) of (om', added) \<Rightarrow> (om', om_added op om + added))"

lemma values_mput:
  assumes "wf_map m"
  shows "mset (map snd (mput m k v)) + (case mget m k of None \<Rightarrow> {#} | Some x \<Rightarrow> {#x#}) = add_mset v (mset (map snd m))"
  using assms
proof (induction m)
  case (Cons a m)
  obtain k' x where a: "a = (k', x)" by force
  show ?case
  proof (cases "k' = k")
    case True
    then have "mget m k = None" using Cons.prems a by (simp add: wf_map_def map_of_eq_None_iff)
    then show ?thesis using True a by (simp add: mput_def)
  next
    case False
    then show ?thesis using Cons a by (simp add: mput_def wf_map_def)
  qed
qed (simp add: mput_def)

lemma values_mdel:
  assumes "wf_map m" and "mget m k = Some v"
  shows "add_mset v (mset (map snd (mdel m k))) = mset (map snd m)"
  using assms
proof (induction m)
  case (Cons a m)
  obtain k' x where a: "a = (k', x)" by force
  show ?case
  proof (cases "k' = k")
    case True
    then have "k \<notin> fst ` set m" using Cons.prems a by (simp add: wf_map_def)
    then have "AList.delete k m = m" by (metis delete_id)
    then show ?thesis using True a Cons.prems by (simp add: mdel_def)
  next
    case False
    then show ?thesis using Cons a by (auto simp: mdel_def wf_map_def)
  qed
qed simp

lemma om_apply_wf: "wf_map (om_objects om) \<Longrightarrow> wf_map (om_objects (om_apply op om))"
  by (cases op) (auto simp: om_apply_def AddOrReplace_def om_Add_def om_Delete_def om_Clear_def Let_def wf_map_def [of "[]"] split: option.splits)

lemma om_apply_all:
  assumes "wf_map (om_objects om)"
  shows "om_all (om_apply op om) = om_all om + om_added op om"
proof (cases op)
  case (OpReplace key obj)
  then show ?thesis using values_mput [OF assms, of key obj]
    by (auto simp: om_apply_def AddOrReplace_def om_all_def om_added_def Let_def split: option.splits)
next
  case (OpAdd key obj)
  then show ?thesis using values_mput [OF assms, of key obj]
    by (auto simp: om_apply_def om_Add_def om_all_def om_added_def om_Has_def mhas_def)
next
  case (OpDelete key)
  then show ?thesis using values_mdel [OF assms, of key]
    by (auto simp: om_apply_def om_Delete_def om_all_def om_added_def split: option.splits)
qed (simp add: om_apply_def om_Clear_def om_all_def om_added_def)

text \<open>The registry of cluster clients loses and duplicates nothing. Over any sequence of operations the
  objects successfully added are, as a multiset, exactly those still registered plus those released, so
  a client is released exactly once, when it is replaced, deleted or cleared.\<close>

lemma objects_released_once:
  assumes "wf_map (om_objects om)" and "om_run ops om = (om', added)"
  shows "mset (map snd (om_objects om')) + mset (om_released om') =
         mset (map snd (om_objects om)) + mset (om_released om) + added"
proof -
  have "om_all om' = om_all om + added"
    using assms
  proof (induction ops arbitrary: om added)
    case (Cons op ops)
    obtain added' where r: "om_run ops (om_apply op om) = (om', added')" "added = om_added op om + added'"
      using Cons.prems(2) by (auto split: prod.splits)
    then show ?case using Cons.IH [OF om_apply_wf [OF Cons.prems(1)] r(1)] om_apply_all [OF Cons.prems(1), of op]
      by (simp add: ac_simps)
  qed simp
  then show ?thesis by (simp add: om_all_def)
qed

lemma objects_released_once_witness:
  "om_run [OpReplace ''c1'' (1::nat), OpReplace ''c1'' 2, OpDelete ''c1''] \<lparr>om_objects = [], om_released = []\<rparr> =
     (\<lparr>om_objects = [], om_released = [1, 2]\<rparr>, {#1, 2#})"
proof -
  let ?om = "\<lparr>om_objects = [], om_released = []\<rparr> :: nat object_manager"
  have r: "om_run [OpReplace ''c1'' (1::nat), OpReplace ''c1'' 2, OpDelete ''c1''] ?om =
      (\<lparr>om_objects = [], om_released = [1, 2]\<rparr>, {#1, 2#})"
    by (simp add: om_apply_def om_added_def AddOrReplace_def om_Delete_def mput_def mdel_def)
  then show ?thesis using objects_released_once [OF _ r] by (simp add: wf_map_def)
qed

section \<open>Deleting the objects of a workload\<close>

lemma DeleteObject_log:
  assumes "DeleteObject E lg obj = (r, lg')" and "RESTMapping E (ko_GVK obj) = Inr gvr"
  shows "\<exists>l grace policy res. lg' = l @ [(PlaneDelete gvr (om_Namespace (ko_Meta obj)) (om_Name (ko_Meta obj)) (Some grace) policy, res)] \<and>
           prefix lg l \<and> r = IgnoreNotFound E res"
  using assms
  by (auto simp: DeleteObject_def deleteOwnedStatefulSets_def Let_def do_write_def prefix_def split: if_splits)

lemma DeleteObject_prefix: "DeleteObject E lg obj = (r, lg') \<Longrightarrow> prefix lg lg'"
  by (auto simp: DeleteObject_def deleteOwnedStatefulSets_def Let_def do_write_def prefix_def split: sum.splits if_splits)

lemma delete_all_prefix: "delete_all E lg objs = (r, lg') \<Longrightarrow> prefix lg lg'"
proof (induction objs arbitrary: lg)
  case (Cons obj objs)
  obtain r1 lg1 where d: "DeleteObject E lg obj = (r1, lg1)" by force
  then show ?case using Cons DeleteObject_prefix [OF d] by (auto split: option.splits if_splits intro: prefix_order.trans)
qed simp

section \<open>Deletions write nothing else\<close>

definition is_PlaneDelete :: "apiwrite \<Rightarrow> bool" where
  "is_PlaneDelete a \<longleftrightarrow> (\<exists>g ns n p q. a = PlaneDelete g ns n p q)"

lemma is_PlaneDelete [simp]: "is_PlaneDelete (PlaneDelete g ns n p q)"
  by (simp add: is_PlaneDelete_def)

lemma DeleteObject_writes: "DeleteObject E lg obj = (r, lg') \<Longrightarrow> writes_only is_PlaneDelete lg lg'"
  by (auto simp: DeleteObject_def deleteOwnedStatefulSets_def do_write_def Let_def writes_only_def split: sum.splits if_splits)

lemma delete_all_writes: "delete_all E lg objs = (r, lg') \<Longrightarrow> writes_only is_PlaneDelete lg lg'"
proof (induction objs arbitrary: lg)
  case (Cons obj objs)
  obtain r1 lg1 where d: "DeleteObject E lg obj = (r1, lg1)" by force
  then show ?case using Cons DeleteObject_writes [OF d] by (auto split: option.splits if_splits intro: writes_only_trans)
qed simp

lemma DeleteObjectsByWorkload_writes:
  "DeleteObjectsByWorkload E lg w = (r, lg') \<Longrightarrow> writes_only is_PlaneDelete lg lg'"
  by (auto simp: DeleteObjectsByWorkload_def split: sum.splits list.splits prod.splits option.splits
      dest: delete_all_writes simp del: delete_all.simps)

text \<open>A data plane given by a list of objects.\<close>

definition sample_plane :: "Workload list \<Rightarrow> k8s_object list \<Rightarrow> int plane" where
  "sample_plane ws objs = env.extend (sample_env ws [] [] [])
     \<lparr>RESTMapping = (\<lambda>gvk. Inr (gvk_Kind gvk)),
      plane_Get = (\<lambda>_ gvr ns n. find_by ''object'' n (\<lambda>x. om_Name (ko_Meta x)) objs),
      plane_List = (\<lambda>_ gvr ns sel. Inr (filter (\<lambda>x. sel (ko_Meta x)) objs))\<rparr>"

end
