(* ===== verification/Ttl_Cron.thy ===== *)
theory Ttl_Cron
  imports Scheduler
begin

text \<open>
  \<^verbatim>\<open>job-manager/pkg/scheduler/ttl_controller.go\<close> and \<^verbatim>\<open>cronjob.go\<close>: the controller that deletes
  ended workloads after their time to live and stops those that run too long, and the table of the
  cron jobs that activate workloads. All clock readings of one call are \<^const>\<open>now\<close>.
\<close>

type_synonym reconcile_result = "int \<times> goerr option"

section \<open>Time to live\<close>

definition TTL_Create :: "Workload \<Rightarrow> bool" where
  "TTL_Create w = (if IsEnd w \<or> GetTimeout w > 0 then True else False)"

definition TTL_Update :: "('q, 'z) env_scheme \<Rightarrow> Workload \<Rightarrow> Workload \<Rightarrow> bool" where
  "TTL_Update E oldWorkload newWorkload =
     (if \<not> IsEnd oldWorkload \<and> IsEnd newWorkload then True
      else if \<not> IsTimeout (now E) oldWorkload \<and> IsTimeout (now E) newWorkload then True
      else if GetTimeout oldWorkload \<noteq> GetTimeout newWorkload then True
      else if GetTimeout newWorkload > 0 \<and> st_StartTime (w_Status oldWorkload) = None \<and>
              st_StartTime (w_Status newWorkload) \<noteq> None then True
      else False)"

definition deleteWorkload :: "('q, 'z) env_scheme \<Rightarrow> wlog \<Rightarrow> Workload \<Rightarrow> goerr option \<times> wlog" where
  "deleteWorkload E lg workload =
     (case do_write E lg (DeleteWorkload (w_Name workload)) of (err, lg') \<Rightarrow> (IgnoreNotFound E err, lg'))"

text \<open>The seconds since an instant, as \<^verbatim>\<open>int(now.Sub(t).Seconds())\<close>.\<close>

definition seconds_since :: "gotime \<Rightarrow> gotime \<Rightarrow> int" where
  "seconds_since nowTime t = f64_to_int (duration_Seconds (time_Sub nowTime t))"

definition TTL_handle :: "('q, 'z) env_scheme \<Rightarrow> wlog \<Rightarrow> Workload \<Rightarrow> reconcile_result \<times> wlog \<times> Workload" where
  "TTL_handle E lg workload =
     (if IsEnd workload then
        let ttlSeconds = GetTTLSecond workload;
            elapsedSeconds = (case st_EndTime (w_Status workload) of
                                None \<Rightarrow> ttlSeconds | Some t \<Rightarrow> seconds_since (now E) t)
        in if elapsedSeconds \<ge> ttlSeconds
           then case deleteWorkload E lg workload of (err, lg') \<Rightarrow> ((0, err), lg', workload)
           else ((wrap64 ((ttlSeconds - elapsedSeconds) * nano), None), lg, workload)
      else if IsTimeout (now E) workload then
        (case MarkWorkloadStopped E lg workload ''the workload has timed out'' of
           (Some e, lg', w') \<Rightarrow> ((0, Some e), lg', w')
         | (None, lg', w') \<Rightarrow> (case deleteWorkload E lg' w' of (err, lg'') \<Rightarrow> ((0, err), lg'', w')))
      else case st_StartTime (w_Status workload) of
             None \<Rightarrow> ((0, None), lg, workload)
           | Some start \<Rightarrow>
               if GetTimeout workload > 0
               then ((time_Sub (start + wrap64 (GetTimeout workload * nano)) (now E), None), lg, workload)
               else ((0, None), lg, workload))"

definition TTL_Reconcile :: "('q, 'z) env_scheme \<Rightarrow> wlog \<Rightarrow> string \<Rightarrow> reconcile_result \<times> wlog" where
  "TTL_Reconcile E lg name =
     (case get_Workload E lg name of
        Inl e \<Rightarrow> ((0, IgnoreNotFound E (Some e)), lg)
      | Inr workload \<Rightarrow>
          if \<not> time_IsZero (om_DeletionTimestamp (w_Meta workload)) then ((0, None), lg)
          else case TTL_handle E lg workload of (res, lg', w') \<Rightarrow> (res, lg'))"

section \<open>Whole seconds\<close>

lemma nano_split:
  assumes "0 \<le> d"
  shows "go_div d nano = d div nano" and "go_mod d nano = d mod nano"
  using assms by (simp_all add: go_div_def go_mod_def nano_def minus_div_mult_eq_mod)

lemma small: "(2::rat) powi (- 54) = 1 / 2 ^ 54" "(2::rat) powi (24 - 54) = 1 / 2 ^ 30"
proof -
  show "(2::rat) powi (- 54) = 1 / 2 ^ 54" by (simp only: power_int_minus power_int_numeral inverse_eq_divide)
  have "(24::int) - 54 = - 30" by simp
  then show "(2::rat) powi (24 - 54) = 1 / 2 ^ 30" by (simp only: power_int_minus power_int_numeral inverse_eq_divide)
qed

lemma below_2_24:
  fixes sec :: int
  assumes "sec < 2 ^ 24"
  shows "(of_int sec :: rat) \<le> 2 ^ 24 - 1"
proof -
  have "(of_int sec :: rat) \<le> of_int (2 ^ 24 - 1)" using assms by (subst of_int_le_iff) simp
  then show ?thesis by (simp only: of_int_diff of_int_power of_int_numeral of_int_1)
qed

lemma abs_bounds: "\<bar>x - y\<bar> \<le> e \<Longrightarrow> y - e \<le> x" "\<bar>x - y\<bar> \<le> e \<Longrightarrow> x \<le> y + e" for x y e :: rat
  by linarith+

lemma sum_bounds:
  fixes r y s a b c n :: rat
  assumes "r - a \<le> y" "y \<le> r + a" "c \<le> r" "r \<le> 1 - c" "0 \<le> s" "s \<le> n - 1" "a + b < c" "0 < a" "0 < b"
  shows "0 < s + y" and "s + y < n" and "s \<le> s + y - b" and "s + y + b < s + 1"
  using assms by linarith+

lemma tiny: "(1::rat) / 2 ^ 54 + 1 / 2 ^ 30 < 1 / 10 ^ 9" "(0::rat) < 1 / 2 ^ 54" "(0::rat) < 1 / 2 ^ 30"
  by simp_all

text \<open>Up to 194 days the conversion through \<^verbatim>\<open>float64\<close> does not lose a nanosecond.\<close>

lemma duration_Seconds_exact:
  assumes "0 \<le> d" and "d < 2 ^ 24 * nano"
  shows "f64_to_int (duration_Seconds d) = d div nano"
proof -
  define sec nsec where "sec = d div nano" and "nsec = d mod nano"
  define y where "y = f64 (of_int nsec / of_int nano)"
  have b: "0 \<le> sec" "sec < 2 ^ 24" "0 \<le> nsec" "nsec < nano"
    using assms by (auto simp: sec_def nsec_def nano_def div_less_iff_less_mult pos_imp_zdiv_nonneg_iff)
  have dur: "duration_Seconds d = f64 (of_int sec + y)"
    using b nano_split [OF assms(1)] unfolding sec_def [symmetric] nsec_def [symmetric]
    by (simp add: duration_Seconds_def f64_add_def f64_div_def y_def nano_def)
  show ?thesis
  proof (cases "nsec = 0")
    case True
    then have "duration_Seconds d = of_int sec" using b f64_int_exact [of sec] by (simp add: dur y_def)
    then show ?thesis by (simp add: sec_def)
  next
    case False
    define r where "r = (of_int nsec / of_int nano :: rat)"
    have n: "1 \<le> nsec" "nsec \<le> nano - 1" using b False by auto
    have r: "1 / 10 ^ 9 \<le> r" "r \<le> 1 - 1 / 10 ^ 9" "0 < r"
      using n unfolding r_def nano_def by (simp_all add: field_simps)
    have "r < 2 powi 0" using r(2) by simp
    then have "\<bar>y - r\<bar> \<le> 2 powi (- 54)" using f64_error [of r 0] r(3) unfolding y_def r_def [symmetric] diff_0 by blast
    then have y: "r - 1 / 2 ^ 54 \<le> y" "y \<le> r + 1 / 2 ^ 54" unfolding small(1) by (rule abs_bounds)+
    have s: "(0::rat) \<le> of_int sec" "(of_int sec :: rat) \<le> 2 ^ 24 - 1" using b(1) below_2_24 [OF b(2)] by simp_all
    have x: "0 < of_int sec + y" "of_int sec + y < 2 powi 24"
      using sum_bounds(1,2) [OF y r(1,2) s tiny] by (simp_all only: power_int_numeral)
    have "\<bar>duration_Seconds d - (of_int sec + y)\<bar> \<le> 2 powi (24 - 54)" using f64_error [OF x] by (simp only: dur)
    then have z: "of_int sec + y - 1 / 2 ^ 30 \<le> duration_Seconds d" "duration_Seconds d \<le> of_int sec + y + 1 / 2 ^ 30"
      unfolding small(2) by (rule abs_bounds)+
    have "of_int sec \<le> duration_Seconds d" "duration_Seconds d < of_int sec + 1"
      using sum_bounds(3,4) [OF y r(1,2) s tiny] z by (blast intro: order_trans le_less_trans)+
    moreover have "0 \<le> duration_Seconds d" using calculation(1) s(1) by linarith
    ultimately have "f64_to_int (duration_Seconds d) = sec" by (simp add: f64_to_int_def floor_unique)
    then show ?thesis by (simp add: sec_def)
  qed
qed

lemma seconds_since_exact:
  assumes "t \<le> nowTime" and "nowTime - t < 2 ^ 24 * nano"
  shows "seconds_since nowTime t = (nowTime - t) div nano"
proof -
  have "nowTime - t < 2 ^ 63 - 1" using assms(2) by (simp add: nano_def)
  then have "time_Sub nowTime t = nowTime - t" using assms(1) by (simp add: time_Sub_def)
  then show ?thesis using duration_Seconds_exact [of "nowTime - t"] assms by (simp add: seconds_since_def)
qed

lemma TTL_handle_end:
  assumes "IsEnd w" and "st_EndTime (w_Status w) = Some t" and "t \<le> now E" and "now E - t < 2 ^ 24 * nano"
  shows "TTL_handle E lg w =
    (if GetTTLSecond w \<le> (now E - t) div nano
     then (case deleteWorkload E lg w of (err, lg') \<Rightarrow> ((0, err), lg', w))
     else ((wrap64 ((GetTTLSecond w - (now E - t) div nano) * nano), None), lg, w))"
  using assms by (simp add: TTL_handle_def seconds_since_exact Let_def)

lemma div_advance:
  fixes a b :: int
  assumes "(q - a div nano) * nano \<le> b - a"
  shows "q \<le> b div nano"
proof -
  have "q * nano \<le> b" using assms div_mult_mod_eq [of a nano] pos_mod_sign [of nano a] by (simp add: nano_def left_diff_distrib)
  then have "q * nano div nano \<le> b div nano" by (intro zdiv_mono1) (simp_all add: nano_def)
  then show ?thesis by (simp add: nano_def)
qed

text \<open>C31: an ended workload is deleted once its time to live has passed, counted in whole seconds since its
  end, and never before; while it has not, the controller writes nothing and asks to be called again
  after a delay, at most as long as the time that is left, after which the workload is indeed deleted.\<close>

theorem ttl_exact:
  assumes "IsEnd w" and "st_EndTime (w_Status w) = Some t" and "t \<le> now E" and "now E - t < 2 ^ 24 * nano"
    and "GetTTLSecond w < 2 ^ 24"
  shows "(GetTTLSecond w \<le> (now E - t) div nano \<longrightarrow>
            (\<exists>r. snd (TTL_handle E lg w) = (lg @ [(DeleteWorkload (w_Name w), r)], w))) \<and>
         (GetTTLSecond w > (now E - t) div nano \<longrightarrow>
            (\<exists>delay. TTL_handle E lg w = ((delay, None), lg, w) \<and> 0 < delay \<and> now E + delay < t + (GetTTLSecond w + 1) * nano \<and>
               (\<forall>t'. now E + delay \<le> t' \<and> t' - t < 2 ^ 24 * nano \<longrightarrow>
                  (\<exists>r. snd (TTL_handle (E\<lparr>now := t'\<rparr>) lg w) = (lg @ [(DeleteWorkload (w_Name w), r)], w)))))"
proof (cases "GetTTLSecond w \<le> (now E - t) div nano")
  case True
  then show ?thesis by (simp add: TTL_handle_end [OF assms(1-4)] deleteWorkload_def do_write_def Let_def)
next
  case False
  define e where "e = (now E - t) div nano"
  define delay where "delay = (GetTTLSecond w - e) * nano"
  have e: "0 \<le> e" "e * nano \<le> now E - t" using assms(3)
    by (simp_all add: e_def nano_def pos_imp_zdiv_nonneg_iff)
  have "in_int64 delay" using False e assms(5) by (simp add: delay_def e_def in_int64_def nano_def)
  then have h: "TTL_handle E lg w = ((delay, None), lg, w)"
    using False by (simp add: TTL_handle_end [OF assms(1-4)] delay_def e_def wrap64_id)
  have d: "0 < delay" "now E + delay < t + (GetTTLSecond w + 1) * nano"
    using False div_mult_mod_eq [of "now E - t" nano] pos_mod_bound [of nano "now E - t"]
    by (simp_all add: delay_def e_def nano_def algebra_simps)
  have "\<exists>r. snd (TTL_handle (E\<lparr>now := t'\<rparr>) lg w) = (lg @ [(DeleteWorkload (w_Name w), r)], w)"
    if "now E + delay \<le> t'" "t' - t < 2 ^ 24 * nano" for t'
  proof -
    have "GetTTLSecond w \<le> (t' - t) div nano"
      using that(1) div_advance [of "GetTTLSecond w" "now E - t" "t' - t"] by (simp add: delay_def e_def)
    then show ?thesis using TTL_handle_end [of w t "E\<lparr>now := t'\<rparr>" lg] that d(1) assms
      by (simp add: deleteWorkload_def do_write_def Let_def)
  qed
  then show ?thesis using h d False by auto
qed

text \<open>A workload that runs is touched only by a timeout. While it has not timed out nothing is written, and
  if a limit is set the controller asks to be called when it is reached; once it has timed out the
  workload is first marked as stopped, and deleted only if that write succeeded.\<close>

lemma timeout_stops_first:
  assumes "\<not> IsEnd w" and "TTL_handle E lg w = ((delay, err), lg', w')"
  shows "(\<not> IsTimeout (now E) w \<longrightarrow> lg' = lg \<and> w' = w \<and> err = None) \<and>
         (IsTimeout (now E) w \<longrightarrow>
            (\<exists>x r. w_Phase x = WorkloadStopped \<and> w_Name x = w_Name w \<and>
               (if r = None then \<exists>r'. lg' = lg @ [(PatchStatus x, None), (DeleteWorkload (w_Name w), r')] \<and> w' = x
                else lg' = lg @ [(PatchStatus x, r)] \<and> err = r \<and> w_Phase w' = w_Phase w)))"
proof -
  have run: "w_Phase w \<noteq> WorkloadStopped" using assms(1) by (auto simp: IsEnd_def IsWorkloadPhaseEnded_def)
  obtain r lg1 w1 where m: "MarkWorkloadStopped E lg w ''the workload has timed out'' = (r, lg1, w1)" by (metis prod_cases3)
  obtain x where x: "lg1 = lg @ [(PatchStatus x, r)]" "w_Phase x = WorkloadStopped" "w_Meta x = w_Meta w"
    "r = None \<longrightarrow> w1 = x" "r \<noteq> None \<longrightarrow> w_Phase w1 = w_Phase w"
    using MarkWorkloadStopped_write [OF run m] by blast
  have "if r = None then \<exists>r'. lg' = lg @ [(PatchStatus x, None), (DeleteWorkload (w_Name w), r')] \<and> w' = x
      else lg' = lg @ [(PatchStatus x, r)] \<and> err = r \<and> w_Phase w' = w_Phase w" if "IsTimeout (now E) w"
    using assms that m x
    by (cases r) (auto simp: TTL_handle_def deleteWorkload_def do_write_def Let_def)
  then have "IsTimeout (now E) w \<longrightarrow>
            (\<exists>x r. w_Phase x = WorkloadStopped \<and> w_Name x = w_Name w \<and>
               (if r = None then \<exists>r'. lg' = lg @ [(PatchStatus x, None), (DeleteWorkload (w_Name w), r')] \<and> w' = x
                else lg' = lg @ [(PatchStatus x, r)] \<and> err = r \<and> w_Phase w' = w_Phase w))"
    using x(2,3) by (intro impI exI [of _ x] exI [of _ r]) simp
  moreover have "\<not> IsTimeout (now E) w \<longrightarrow> lg' = lg \<and> w' = w \<and> err = None"
    using assms by (auto simp: TTL_handle_def split: option.splits if_splits)
  ultimately show ?thesis by blast
qed

section \<open>Cron jobs\<close>

text \<open>
  A started \<^verbatim>\<open>cron.Cron\<close> is identified by a number; \<open>cm_running\<close> holds those that have been
  started and not stopped. The parser of schedules is a parameter.
\<close>

record cron_entry =
  ce_cron :: nat
  ce_workloadId :: string
  ce_config :: CronJob

record cron_manager =
  cm_allCronJobs :: "(string, cron_entry list) gomap"
  cm_running :: "nat list"
  cm_next :: nat

definition removeInternal :: "cron_manager \<Rightarrow> string \<Rightarrow> cron_manager" where
  "removeInternal m workloadId =
     (case mget (cm_allCronJobs m) workloadId of
        None \<Rightarrow> m
      | Some cronJobs \<Rightarrow>
          m\<lparr>cm_running := filter (\<lambda>c. c \<notin> ce_cron ` set cronJobs) (cm_running m),
            cm_allCronJobs := mdel (cm_allCronJobs m) workloadId\<rparr>)"

definition cron_remove :: "cron_manager \<Rightarrow> string \<Rightarrow> cron_manager" where
  "cron_remove m workloadId = removeInternal m workloadId"

text \<open>The loop over the schedules; an invalid one is logged and skipped.\<close>

fun start_jobs ::
  "('q, 'z) env_scheme \<Rightarrow> (string \<Rightarrow> bool) \<Rightarrow> string \<Rightarrow> CronJob list \<Rightarrow> nat \<Rightarrow> cron_entry list" where
  "start_jobs E ParseCronStandard workloadId [] n = []"
| "start_jobs E ParseCronStandard workloadId (cj # cjs) n =
     (case CvtTime3339ToCronStandard E (cj_Schedule cj) of
        Inl e \<Rightarrow> start_jobs E ParseCronStandard workloadId cjs n
      | Inr (cronStandard, t) \<Rightarrow>
          if \<not> ParseCronStandard cronStandard then start_jobs E ParseCronStandard workloadId cjs n
          else \<lparr>ce_cron = n, ce_workloadId = workloadId, ce_config = cj\<rparr> #
               start_jobs E ParseCronStandard workloadId cjs (Suc n))"

definition addOrReplace :: "('q, 'z) env_scheme \<Rightarrow> (string \<Rightarrow> bool) \<Rightarrow> cron_manager \<Rightarrow> Workload \<Rightarrow> cron_manager" where
  "addOrReplace E ParseCronStandard m workload =
     (let m1 = removeInternal m (w_Name workload) in
      if length (ws_CronJobs (w_Spec workload)) = 0 then m1
      else
        let cronJobs = start_jobs E ParseCronStandard (w_Name workload) (ws_CronJobs (w_Spec workload)) (cm_next m1);
            m2 = m1\<lparr>cm_running := cm_running m1 @ map ce_cron cronJobs, cm_next := cm_next m1 + length cronJobs\<rparr>
        in if length cronJobs > 0
           then m2\<lparr>cm_allCronJobs := mput (cm_allCronJobs m2) (w_Name workload) cronJobs\<rparr> else m2)"

text \<open>
  The activation: one attempt, and the attempts of \<^verbatim>\<open>backoff.Retry\<close>, which repeats the operation
  until it succeeds or the elapsed time is used up; the number of attempts it gets is a parameter.
\<close>

definition start_attempt :: "('q, 'z) env_scheme \<Rightarrow> string \<Rightarrow> wlog \<Rightarrow> goerr option \<times> wlog" where
  "start_attempt E workloadId lg =
     (case get_Workload E lg workloadId of
        Inl e \<Rightarrow> (IgnoreNotFound E (Some e), lg)
      | Inr workload \<Rightarrow>
          if HasScheduled workload then (None, lg)
          else
            let w' = workload\<lparr>w_Meta := snd (SetAnnotation (w_Meta workload) CronJobTimestampAnnotation
                                             (FormatRFC3339 E (now E)))\<rparr>
            in do_write E lg (PatchMeta w'))"

fun backoff_Retry :: "('s \<Rightarrow> goerr option \<times> 's) \<Rightarrow> nat \<Rightarrow> 's \<Rightarrow> goerr option \<times> 's" where
  "backoff_Retry op 0 s = op s"
| "backoff_Retry op (Suc n) s =
     (case op s of (None, s') \<Rightarrow> (None, s') | (Some e, s') \<Rightarrow> backoff_Retry op n s')"

definition doStart :: "('q, 'z) env_scheme \<Rightarrow> nat \<Rightarrow> wlog \<Rightarrow> string \<Rightarrow> goerr option \<times> wlog" where
  "doStart E attempts lg workloadId = backoff_Retry (start_attempt E workloadId) attempts lg"

definition cron_execute :: "('q, 'z) env_scheme \<Rightarrow> nat \<Rightarrow> wlog \<Rightarrow> cron_entry \<Rightarrow> wlog" where
  "cron_execute E attempts lg cj =
     (if cj_Action (ce_config cj) = CronStart then snd (doStart E attempts lg (ce_workloadId cj)) else lg)"

section \<open>No cron job leaks\<close>

definition in_table :: "cron_manager \<Rightarrow> string \<Rightarrow> nat \<Rightarrow> bool" where
  "in_table m workloadId c \<longleftrightarrow> (\<exists>js. mget (cm_allCronJobs m) workloadId = Some js \<and> c \<in> ce_cron ` set js)"

definition cron_inv :: "cron_manager \<Rightarrow> bool" where
  "cron_inv m \<longleftrightarrow> distinct (cm_running m) \<and> (\<forall>c. c \<in> set (cm_running m) \<longleftrightarrow> (\<exists>n. in_table m n c)) \<and>
     (\<forall>n n' c. in_table m n c \<and> in_table m n' c \<longrightarrow> n = n') \<and> (\<forall>n c. in_table m n c \<longrightarrow> c < cm_next m)"

text \<open>The operations that reach the table: an event adds or replaces, a deletion removes.\<close>

datatype cron_op = CronSet Workload | CronRemove string

definition cron_apply :: "('q, 'z) env_scheme \<Rightarrow> (string \<Rightarrow> bool) \<Rightarrow> cron_op \<Rightarrow> cron_manager \<Rightarrow> cron_manager" where
  "cron_apply E P op m = (case op of CronSet w \<Rightarrow> addOrReplace E P m w | CronRemove n \<Rightarrow> cron_remove m n)"

lemma start_jobs_crons: "map ce_cron (start_jobs E P name cjs n) = [n ..< n + length (start_jobs E P name cjs n)]"
proof (induction E P name cjs n rule: start_jobs.induct)
  case (2 E P name cj cjs n)
  have "[n ..< n + Suc k] = n # [Suc n ..< Suc n + k]" for n k :: nat by (simp add: upt_conv_Cons del: upt_Suc)
  then show ?case using 2 by (auto split: sum.splits simp del: upt_Suc)
qed simp

lemma start_jobs_configs:
  "map ce_config (start_jobs E P name cjs n) =
     filter (\<lambda>cj. case CvtTime3339ToCronStandard E (cj_Schedule cj) of Inl e \<Rightarrow> False | Inr (s, t) \<Rightarrow> P s) cjs"
  by (induction E P name cjs n rule: start_jobs.induct) (auto split: sum.splits)

lemma removeInternal_table:
  "in_table (removeInternal m n) k c \<longleftrightarrow> k \<noteq> n \<and> in_table m k c" "cm_next (removeInternal m n) = cm_next m"
  by (auto simp: removeInternal_def in_table_def split: option.splits)

lemma removeInternal_running:
  "cm_running (removeInternal m n) = filter (\<lambda>c. \<not> in_table m n c) (cm_running m)"
  by (auto simp: removeInternal_def in_table_def split: option.splits)

lemma removeInternal_inv: "cron_inv m \<Longrightarrow> cron_inv (removeInternal m n)"
  unfolding cron_inv_def removeInternal_table removeInternal_running by auto

lemma addOrReplace_table:
  fixes E P m w
  defines "js \<equiv> start_jobs E P (w_Name w) (ws_CronJobs (w_Spec w)) (cm_next m)"
  shows "in_table (addOrReplace E P m w) k c \<longleftrightarrow> (if k = w_Name w then c \<in> ce_cron ` set js else in_table m k c)"
    and "cm_running (addOrReplace E P m w) = cm_running (removeInternal m (w_Name w)) @ map ce_cron js"
    and "cm_next (addOrReplace E P m w) = cm_next m + length js"
    and "mget (cm_allCronJobs (addOrReplace E P m w)) (w_Name w) = (if js = [] then None else Some js)"
proof -
  have gone: "mget (cm_allCronJobs (removeInternal m n)) n = None" for n
    by (simp add: removeInternal_def split: option.splits)
  note rt = removeInternal_table [of m "w_Name w"]
  show "mget (cm_allCronJobs (addOrReplace E P m w)) (w_Name w) = (if js = [] then None else Some js)"
    by (simp add: addOrReplace_def js_def rt gone Let_def)
  show "cm_running (addOrReplace E P m w) = cm_running (removeInternal m (w_Name w)) @ map ce_cron js"
    "cm_next (addOrReplace E P m w) = cm_next m + length js"
    by (simp_all add: addOrReplace_def js_def rt Let_def)
  show "in_table (addOrReplace E P m w) k c \<longleftrightarrow> (if k = w_Name w then c \<in> ce_cron ` set js else in_table m k c)"
    using rt(1) [of k c] gone [of "w_Name w"] by (simp add: addOrReplace_def js_def rt(2) Let_def in_table_def)
qed

lemma addOrReplace_inv:
  assumes "cron_inv m"
  shows "cron_inv (addOrReplace E P m w)"
proof -
  define js where "js = start_jobs E P (w_Name w) (ws_CronJobs (w_Spec w)) (cm_next m)"
  have crons: "map ce_cron js = [cm_next m ..< cm_next m + length js]" unfolding js_def by (rule start_jobs_crons)
  then have set: "c \<in> ce_cron ` set js \<longleftrightarrow> cm_next m \<le> c \<and> c < cm_next m + length js" for c
    by (metis atLeastLessThan_iff set_map set_upt)
  note t = addOrReplace_table [of E P m w, folded js_def]
  have new: "in_table m k c \<Longrightarrow> c < cm_next m" for k c using assms by (auto simp: cron_inv_def)
  have run: "c \<in> set (cm_running m) \<longleftrightarrow> (\<exists>n. in_table m n c)" for c using assms by (auto simp: cron_inv_def)
  have one: "in_table m n c \<Longrightarrow> in_table m n' c \<Longrightarrow> n = n'" for n n' c using assms by (auto simp: cron_inv_def)
  let ?m = "addOrReplace E P m w"
  have mem: "c \<in> set (cm_running ?m) \<longleftrightarrow> (c \<in> set (cm_running m) \<and> \<not> in_table m (w_Name w) c) \<or> c \<in> ce_cron ` set js" for c
    by (simp add: t(2) removeInternal_running)
  have "distinct (filter (\<lambda>c. \<not> in_table m (w_Name w) c) (cm_running m))" using assms by (simp add: cron_inv_def)
  moreover have "set (cm_running m) \<inter> set [cm_next m ..< cm_next m + length js] = {}" using run new by fastforce
  ultimately have "distinct (cm_running ?m)" unfolding t(2) crons removeInternal_running by (simp add: disjoint_iff)
  moreover have "c \<in> set (cm_running ?m) \<longleftrightarrow> (\<exists>n. in_table ?m n c)" for c
  proof
    assume "c \<in> set (cm_running ?m)"
    then show "\<exists>n. in_table ?m n c" unfolding mem run t(1) by (metis (full_types))
  next
    assume "\<exists>n. in_table ?m n c"
    then obtain n where "in_table ?m n c" ..
    then show "c \<in> set (cm_running ?m)" unfolding mem run t(1) using one by (metis (full_types))
  qed
  moreover have "n = n'" if "in_table ?m n c" "in_table ?m n' c" for n n' c
    using that unfolding t(1) set using one new [of n c] new [of n' c] by (auto split: if_splits)
  moreover have "c < cm_next ?m" if "in_table ?m n c" for n c
    using that new [of n c] unfolding t(1,3) set by (auto split: if_splits)
  ultimately show ?thesis by (auto simp: cron_inv_def)
qed

lemma cron_apply_inv: "cron_inv m \<Longrightarrow> cron_inv (cron_apply E P op m)"
  by (cases op) (simp_all add: cron_apply_def addOrReplace_inv removeInternal_inv cron_remove_def)

lemma cron_ops_inv: "cron_inv m \<Longrightarrow> cron_inv (fold (cron_apply E P) ops m)"
  by (induction ops arbitrary: m) (simp_all add: cron_apply_inv)

text \<open>No cron job leaks. Whatever sequence of workload events and deletions the manager processes, the
  cron jobs that run are exactly those in its table and each belongs to one workload; after a workload
  is added or replaced its entry holds exactly the jobs of its current specification whose schedule is
  valid, and after a removal none of its jobs runs.\<close>

lemma cron_jobs_tracked:
  assumes "cron_inv m0" and "m = fold (cron_apply E P) ops m0"
  shows "(\<forall>c. c \<in> set (cm_running m) \<longleftrightarrow> (\<exists>n. in_table m n c)) \<and>
         (\<forall>n n' c. in_table m n c \<and> in_table m n' c \<longrightarrow> n = n') \<and>
         (\<forall>w. map ce_config (concat (case mget (cm_allCronJobs (addOrReplace E P m w)) (w_Name w) of None \<Rightarrow> [] | Some js \<Rightarrow> [js])) =
            filter (\<lambda>cj. case CvtTime3339ToCronStandard E (cj_Schedule cj) of Inl e \<Rightarrow> False | Inr (s, t) \<Rightarrow> P s)
              (ws_CronJobs (w_Spec w))) \<and>
         (\<forall>n c. in_table m n c \<longrightarrow> c \<notin> set (cm_running (cron_remove m n)))"
proof -
  have inv: "cron_inv m" unfolding assms(2) using assms(1) by (rule cron_ops_inv)
  have "map ce_config (concat (case mget (cm_allCronJobs (addOrReplace E P m w)) (w_Name w) of None \<Rightarrow> [] | Some js \<Rightarrow> [js])) =
            filter (\<lambda>cj. case CvtTime3339ToCronStandard E (cj_Schedule cj) of Inl e \<Rightarrow> False | Inr (s, t) \<Rightarrow> P s)
              (ws_CronJobs (w_Spec w))" for w
    using start_jobs_configs [of E P "w_Name w" "ws_CronJobs (w_Spec w)" "cm_next m"] by (auto simp: addOrReplace_table)
  then show ?thesis using inv by (simp add: cron_inv_def cron_remove_def removeInternal_running)
qed

section \<open>Activation\<close>

definition activation :: "('q, 'z) env_scheme \<Rightarrow> string \<Rightarrow> apiwrite \<Rightarrow> bool" where
  "activation E name a \<longleftrightarrow>
     (\<exists>w. w_Name w = name \<and> \<not> HasScheduled w \<and>
        a = PatchMeta (w\<lparr>w_Meta := snd (SetAnnotation (w_Meta w) CronJobTimestampAnnotation (FormatRFC3339 E (now E)))\<rparr>))"

lemma start_attempt_write:
  assumes "start_attempt E name lg = (r, lg')" and "gets_by_name E"
  shows "lg' = lg \<or> (\<exists>a. lg' = lg @ [(a, r)] \<and> activation E name a)"
  using assms by (auto simp: start_attempt_def gets_by_name_def activation_def Let_def
      split: sum.splits if_splits dest!: do_write_cases) blast

lemma backoff_Retry_writes:
  assumes "\<And>s r s'. op s = (r, s') \<Longrightarrow> s' = s \<or> (\<exists>a. s' = s @ [(a, r)] \<and> A a)"
    and "backoff_Retry op n s = (r, s')"
  shows "\<exists>l. s' = s @ l \<and> (\<forall>x \<in> set l. A (fst x)) \<and> length (effective l) \<le> (if r = None then 1 else 0)"
  using assms(2)
proof (induction n arbitrary: s)
  case 0
  then show ?case using assms(1) [of s r s'] by (auto simp: effective_def)
next
  case (Suc n)
  obtain r1 s1 where o: "op s = (r1, s1)" by force
  show ?case
  proof (cases r1)
    case None
    then show ?thesis using Suc.prems o assms(1) [OF o] by (auto simp: effective_def)
  next
    case (Some e)
    then obtain l where l: "s' = s1 @ l" "\<forall>x \<in> set l. A (fst x)" "length (effective l) \<le> (if r = None then 1 else 0)"
      using Suc.prems o Suc.IH [of s1] by auto
    moreover from assms(1) [OF o] Some obtain l1 where "s1 = s @ l1" "\<forall>x \<in> set l1. A (fst x)" "effective l1 = []"
      by (auto simp: effective_def)
    ultimately show ?thesis by (intro exI [of _ "l1 @ l"]) (auto simp: effective_def)
  qed
qed

text \<open>A cron job only ever activates: it writes nothing but the timestamp annotation, only on its own
  workload and only while that has not been scheduled, and of all its attempts at most one write takes
  effect, namely if it succeeds.\<close>

lemma cron_start_safe:
  assumes "doStart E attempts lg name = (r, lg')" and "gets_by_name E"
  shows "\<exists>l. lg' = lg @ l \<and> (\<forall>x \<in> set l. activation E name (fst x)) \<and>
           length (effective l) \<le> (if r = None then 1 else 0)"
  using backoff_Retry_writes [of "start_attempt E name" "activation E name" attempts lg r lg'] start_attempt_write assms
  unfolding doStart_def by fastforce

section \<open>Witnesses\<close>

definition ended_job :: Workload where
  "ended_job = (blank_workload ''job'')\<lparr>w_Status := blank_status\<lparr>st_Phase := WorkloadSucceeded, st_EndTime := Some 0\<rparr>\<rparr>"

lemma ttl_exact_witness:
  "snd (TTL_handle gpu_env [] ended_job) = ([(DeleteWorkload ''job'', None)], ended_job)"
proof -
  have "IsEnd ended_job" "st_EndTime (w_Status ended_job) = Some 0" "GetTTLSecond ended_job = 0" "w_Name ended_job = ''job''"
    by (simp_all add: ended_job_def sample_defs IsEnd_def IsWorkloadPhaseEnded_def GetTTLSecond_def)
  moreover have "now gpu_env = 0" by (simp add: sample_env_def ext.defs)
  ultimately show ?thesis
    using ttl_exact [of ended_job 0 gpu_env "[]"] TTL_handle_end [of ended_job 0 gpu_env "[]"]
    by (simp add: nano_def deleteWorkload_def gpu_env_write)
qed

definition late_job :: Workload where
  "late_job = (blank_workload ''job'')\<lparr>w_Spec := blank_spec\<lparr>ws_Timeout := Some 1\<rparr>,
     w_Status := blank_status\<lparr>st_Phase := WorkloadRunning, st_StartTime := Some (- 2 * nano)\<rparr>\<rparr>"

lemma late_job_times_out: "IsTimeout (now gpu_env) late_job"
proof -
  have "f64_to_int (duration_Seconds (2 * nano)) = 2" using duration_Seconds_exact [of "2 * nano"] by (simp add: nano_def)
  then show ?thesis
    by (simp add: IsTimeout_def late_job_def GetTimeout_def sample_env_def ext.defs time_Sub_def nano_def)
qed

lemma timeout_stops_first_witness:
  "\<exists>x lg. fst (snd (TTL_handle gpu_env [] late_job)) = (PatchStatus x, None) # lg \<and> w_Phase x = WorkloadStopped"
proof -
  have run: "\<not> IsEnd late_job" "w_Phase late_job \<noteq> WorkloadStopped"
    by (simp_all add: late_job_def sample_defs IsEnd_def IsWorkloadPhaseEnded_def phase_defs time_IsZero_def)
  obtain delay err lg' w' where h: "TTL_handle gpu_env [] late_job = ((delay, err), lg', w')" by (metis prod.exhaust)
  have "fst (MarkWorkloadStopped gpu_env [] late_job m) = None" for m
    using run by (simp add: MarkWorkloadStopped_def gpu_env_patch split: prod.splits)
  then have "MarkWorkloadStopped gpu_env [] late_job m \<noteq> (Some e, l, v)" for m e l v by (metis fst_conv option.distinct(1))
  then have "err = None"
    using h late_job_times_out run
    by (auto simp: TTL_handle_def deleteWorkload_def gpu_env_write IgnoreNotFound_def split: prod.splits option.splits)
  then show ?thesis
    using timeout_stops_first [OF run(1) h] late_job_times_out h by (fastforce split: if_splits)
qed

definition no_crons :: cron_manager where
  "no_crons = \<lparr>cm_allCronJobs = [], cm_running = [], cm_next = 0\<rparr>"

lemma cron_jobs_tracked_witness: "cm_running (fold (cron_apply gpu_env (\<lambda>_. True)) [CronRemove ''job''] no_crons) = []"
proof -
  let ?m = "fold (cron_apply gpu_env (\<lambda>_. True)) [CronRemove ''job''] no_crons"
  have "cron_inv no_crons" by (simp add: no_crons_def cron_inv_def in_table_def)
  then have "set (cm_running ?m) = {c. \<exists>n. in_table ?m n c}"
    using cron_jobs_tracked [of no_crons ?m gpu_env "\<lambda>_. True" "[CronRemove ''job'']"] by blast
  also have "\<dots> = {}"
    by (simp add: cron_apply_def cron_remove_def removeInternal_def no_crons_def in_table_def)
  finally show ?thesis by simp
qed

lemma cron_start_safe_witness: "doStart gpu_env 10 [] ''job'' = (None, []) \<and> length (effective []) \<le> 1"
proof -
  have a: "start_attempt gpu_env ''job'' [] = (None, [])"
    by (simp add: start_attempt_def sample_env_def ext.defs find_by_def IgnoreNotFound_def int_ext_def NewNotFound_def)
  have d: "doStart gpu_env 10 [] ''job'' = (None, [])"
    using a by (simp add: doStart_def eval_nat_numeral)
  then show ?thesis using cron_start_safe [OF d gpu_env_named] by (simp add: effective_def)
qed

end
