(* ===== verification/Scheduler_Reconcile.thy ===== *)
theory Scheduler_Reconcile
  imports Data_Plane Ttl_Cron
begin

text \<open>
  The reconciler around the scheduling cycle (\<^verbatim>\<open>job-manager/pkg/scheduler/scheduler.go\<close>): which events
  start a cycle, how the end of a workload reaches its dependents, and how a deleted workload is torn
  down. Queued scheduling messages are returned as a list in the order they are added.
\<close>

definition NamespaceDefault :: string where "NamespaceDefault = ''default''"
definition PrimusSafeNamespace :: string where "PrimusSafeNamespace = ''primus-safe''"

section \<open>Events\<close>

definition notifyDependentWorkspaces :: "('q, 'z) env_scheme \<Rightarrow> wlog \<Rightarrow> Workload \<Rightarrow> SchedulerMessage list" where
  "notifyDependentWorkspaces E lg workload =
     (case list_Workspaces E lg (label_is SourceWorkloadIdLabel (w_Name workload)) of
        Inl e \<Rightarrow> []
      | Inr items \<Rightarrow> map (\<lambda>item. \<lparr>sm_WorkspaceId = om_Name (wk_Meta item), sm_ClusterId = wsp_Cluster (wk_Spec item)\<rparr>) items)"

definition relevantChange_Create ::
  "('q, 'z) env_scheme \<Rightarrow> (string \<Rightarrow> bool) \<Rightarrow> cron_manager \<Rightarrow> Workload \<Rightarrow> bool \<times> cron_manager" where
  "relevantChange_Create E ParseCronStandard m workload =
     (True, if length (ws_CronJobs (w_Spec workload)) > 0 then addOrReplace E ParseCronStandard m workload else m)"

definition relevantChange_Update ::
  "('q, 'z) env_scheme \<Rightarrow> wlog \<Rightarrow> (string \<Rightarrow> bool) \<Rightarrow> cron_manager \<Rightarrow> Workload \<Rightarrow> Workload
     \<Rightarrow> bool \<times> cron_manager \<times> SchedulerMessage list" where
  "relevantChange_Update E lg ParseCronStandard m oldWorkload newWorkload =
     (let m' = (if ws_CronJobs (w_Spec oldWorkload) \<noteq> ws_CronJobs (w_Spec newWorkload)
                then addOrReplace E ParseCronStandard m newWorkload else m)
      in if \<not> IsEnd oldWorkload \<and> IsEnd newWorkload then (True, m', notifyDependentWorkspaces E lg newWorkload)
         else if GetCronjobTimestamp (w_Meta oldWorkload) \<noteq> GetCronjobTimestamp (w_Meta newWorkload) then (True, m', [])
         else if IsWorkloadScheduled (w_Meta oldWorkload) \<noteq> IsWorkloadScheduled (w_Meta newWorkload) then (True, m', [])
         else if \<not> IsDependenciesEnd oldWorkload \<and> IsDependenciesEnd newWorkload then (True, m', [])
         else (False, m', []))"

definition handleWorkspaceEvent ::
  "('q::linordered_ab_group_add, 'z) ext_scheme \<Rightarrow> 'q Workspace \<Rightarrow> 'q Workspace \<Rightarrow> SchedulerMessage list" where
  "handleWorkspaceEvent E oldWorkspace newWorkspace =
     (if \<not> Equal E (wss_AvailableResources (wk_Status oldWorkspace)) (wss_AvailableResources (wk_Status newWorkspace)) \<or>
         wsp_QueuePolicy (wk_Spec oldWorkspace) \<noteq> wsp_QueuePolicy (wk_Spec newWorkspace)
      then [\<lparr>sm_WorkspaceId = om_Name (wk_Meta newWorkspace), sm_ClusterId = wsp_Cluster (wk_Spec newWorkspace)\<rparr>]
      else [])"

section \<open>Dependents and children\<close>

definition setDependencyPhase :: "('q, 'z) env_scheme \<Rightarrow> wlog \<Rightarrow> Workload \<Rightarrow> Workload \<Rightarrow> goerr option \<times> wlog" where
  "setDependencyPhase E lg workload depWorkload =
     (let dep' = SetDependenciesPhase depWorkload (w_Name workload) (w_Phase workload) in
      if w_Phase workload \<noteq> WorkloadSucceeded then
        (case SetWorkloadFailed E lg dep' (''dependency workload '' @ w_Name workload @ '' failed'') of (err, lg', w') \<Rightarrow> (err, lg'))
      else
        (case PatchWorkloadStatusFields E lg dep'
                [\<lambda>s. s\<lparr>st_DependenciesPhase := st_DependenciesPhase (w_Status dep')\<rparr>] of (err, lg', w') \<Rightarrow> (err, lg')))"

text \<open>A loop over workloads that skips ended ones and tolerates objects that are gone.\<close>

fun each_running ::
  "('q, 'z) env_scheme \<Rightarrow> (wlog \<Rightarrow> Workload \<Rightarrow> goerr option \<times> wlog) \<Rightarrow> wlog \<Rightarrow> Workload list \<Rightarrow> goerr option \<times> wlog" where
  "each_running E op lg [] = (None, lg)"
| "each_running E op lg (w # ws) =
     (if IsEnd w then each_running E op lg ws
      else case op lg w of
             (None, lg') \<Rightarrow> each_running E op lg' ws
           | (Some e, lg') \<Rightarrow> if api_IsNotFound E e then each_running E op lg' ws else (Some e, lg'))"

definition updateDependentsPhase :: "('q, 'z) env_scheme \<Rightarrow> wlog \<Rightarrow> Workload \<Rightarrow> goerr option \<times> wlog" where
  "updateDependentsPhase E lg workload =
     (if \<not> IsEnd workload then (None, lg)
      else case list_Workloads E lg (\<lambda>w. w_Name workload \<in> set (ws_Dependencies (w_Spec w))) of
             Inl err \<Rightarrow> (Some err, lg)
           | Inr dependentWorkloads \<Rightarrow>
               each_running E (\<lambda>lg dep. setDependencyPhase E lg workload dep) lg dependentWorkloads)"

definition quoted :: "string \<Rightarrow> string" where
  "quoted s = [CHR 0x22] @ s @ [CHR 0x22]"

definition cascadeStopChildren :: "('q, 'z) env_scheme \<Rightarrow> wlog \<Rightarrow> Workload \<Rightarrow> goerr option \<times> wlog" where
  "cascadeStopChildren E lg owner =
     (case list_Workloads E lg (\<lambda>w. label_is OwnerLabel (w_Name owner) (w_Meta w)) of
        Inl err \<Rightarrow> (Some err, lg)
      | Inr children \<Rightarrow>
          each_running E
            (\<lambda>lg child. case MarkWorkloadStopped E lg child
                 (''owner workload '' @ quoted (w_Name owner) @ '' ended; cascading stop on child '' @ quoted (w_Name child)) of
               (err, lg', w') \<Rightarrow> (err, lg')) lg children)"

section \<open>Deletion\<close>

fun delete_secrets :: "('q, 'z) env_scheme \<Rightarrow> wlog \<Rightarrow> Secret list \<Rightarrow> goerr option \<times> wlog" where
  "delete_secrets E lg [] = (None, lg)"
| "delete_secrets E lg (sec # secs) =
     (case do_write E lg (DeleteSecret (om_Name (secret_Meta sec))) of
        (None, lg') \<Rightarrow> delete_secrets E lg' secs
      | (Some delErr, lg') \<Rightarrow> if \<not> api_IsNotFound E delErr then (Some delErr, lg') else delete_secrets E lg' secs)"

definition deleteRelatedSecrets :: "('q, 'z) env_scheme \<Rightarrow> wlog \<Rightarrow> Workload \<Rightarrow> goerr option \<times> wlog" where
  "deleteRelatedSecrets E lg adminWorkload =
     (case list_Secrets E lg (\<lambda>obj. om_Namespace obj = PrimusSafeNamespace \<and> label_is OwnerLabel (w_Name adminWorkload) obj) of
        Inl err \<Rightarrow> (Some err, lg)
      | Inr secs \<Rightarrow> delete_secrets E lg secs)"

definition deleteRelatedEphemeralRunner :: "('q, 'z) plane_scheme \<Rightarrow> wlog \<Rightarrow> Workload \<Rightarrow> goerr option \<times> wlog" where
  "deleteRelatedEphemeralRunner E lg adminWorkload =
     (let scaleRunnerId = GetLabel (w_Meta adminWorkload) CICDScaleRunnerIdLabel in
      if scaleRunnerId = '''' then (None, lg)
      else case GetResourceTemplate E lg adminWorkload of
             Inl err \<Rightarrow> (IgnoreNotFound E (Some err), lg)
           | Inr rt \<Rightarrow>
               (case GetObject E lg scaleRunnerId (ws_Workspace (w_Spec adminWorkload)) (rt_GVK rt) of
                  Inl err \<Rightarrow> (IgnoreNotFound E (Some err), lg)
                | Inr runnerObj \<Rightarrow> DeleteObject E lg runnerObj))"

definition related_cleanup :: "('q, 'z) plane_scheme \<Rightarrow> wlog \<Rightarrow> Workload \<Rightarrow> goerr option \<times> wlog" where
  "related_cleanup E lg adminWorkload =
     (if IsCICDScalingRunnerSet adminWorkload then deleteRelatedSecrets E lg adminWorkload
      else if IsCICDEphemeralRunner adminWorkload then deleteRelatedEphemeralRunner E lg adminWorkload
      else (None, lg))"

text \<open>\<^verbatim>\<open>controllerutil.RemoveFinalizer\<close> and the patch of the finalizers.\<close>

definition drop_finalizer :: "('q, 'z) env_scheme \<Rightarrow> wlog \<Rightarrow> Workload \<Rightarrow> goerr option \<times> wlog \<times> Workload" where
  "drop_finalizer E lg w =
     (if WorkloadFinalizer \<in> set (om_Finalizers (w_Meta w)) then
        let w' = w\<lparr>w_Meta := (w_Meta w)\<lparr>om_Finalizers := removeAll WorkloadFinalizer (om_Finalizers (w_Meta w))\<rparr>\<rparr>
        in case do_write E lg (PatchFinalizers w') of (err, lg') \<Rightarrow> (err, lg', w')
      else (None, lg, w))"

definition second :: int where "second = nano"

definition scheduler_delete ::
  "('q, 'z) plane_scheme \<Rightarrow> 'o object_manager \<Rightarrow> cron_manager \<Rightarrow> wlog \<Rightarrow> Workload
     \<Rightarrow> reconcile_result \<times> wlog \<times> cron_manager \<times> Workload" where
  "scheduler_delete E clusterClientSets m lg adminWorkload =
     (case cascadeStopChildren E lg adminWorkload of
        (Some e, lg1) \<Rightarrow> ((0, Some e), lg1, m, adminWorkload)
      | (None, lg1) \<Rightarrow>
          (case GetClusterClientSets clusterClientSets (GetClusterId (w_Meta adminWorkload)) of
             Inl e \<Rightarrow> ((0, Some e), lg1, m, adminWorkload)
           | Inr clientSets \<Rightarrow>
               (case DeleteObjectsByWorkload E lg1 adminWorkload of
                  (Inl e, lg2) \<Rightarrow> ((0, Some e), lg2, m, adminWorkload)
                | (Inr hasFound, lg2) \<Rightarrow>
                    if hasFound then ((10 * second, None), lg2, m, adminWorkload)
                    else
                      let m1 = (if length (ws_CronJobs (w_Spec adminWorkload)) > 0 then cron_remove m (w_Name adminWorkload) else m)
                      in case related_cleanup E lg2 adminWorkload of
                           (Some e, lg3) \<Rightarrow> ((0, Some e), lg3, m1, adminWorkload)
                         | (None, lg3) \<Rightarrow>
                             (case drop_finalizer E lg3 adminWorkload of
                                (err, lg4, w') \<Rightarrow> ((0, err), lg4, m1, w')))))"

definition scheduler_Reconcile ::
  "('q, 'z) plane_scheme \<Rightarrow> 'o object_manager \<Rightarrow> cron_manager \<Rightarrow> wlog \<Rightarrow> string
     \<Rightarrow> reconcile_result \<times> wlog \<times> cron_manager \<times> SchedulerMessage list" where
  "scheduler_Reconcile E clusterClientSets m lg name =
     (case get_Workload E lg name of
        Inl e \<Rightarrow> ((0, IgnoreNotFound E (Some e)), lg, m, [])
      | Inr workload \<Rightarrow>
          let (res, lg1, m1, w1) =
                (if \<not> time_IsZero (om_DeletionTimestamp (w_Meta workload))
                 then scheduler_delete E clusterClientSets m lg workload
                 else ((0, None), lg, m, workload))
          in if snd res \<noteq> None \<or> fst res > 0 then (res, lg1, m1, [])
             else if ws_Workspace (w_Spec w1) = NamespaceDefault then ((0, None), lg1, m1, [])
             else case updateDependentsPhase E lg1 w1 of
                    (Some e, lg2) \<Rightarrow> ((0, Some e), lg2, m1, [])
                  | (None, lg2) \<Rightarrow>
                      ((0, None), lg2, m1,
                       [\<lparr>sm_WorkspaceId = ws_Workspace (w_Spec w1), sm_ClusterId = GetClusterId (w_Meta w1)\<rparr>]))"

section \<open>One write per running workload\<close>

lemma each_running_writes:
  assumes op: "\<And>lg w r lg'. op lg w = (r, lg') \<Longrightarrow> \<not> IsEnd w \<Longrightarrow> \<exists>a. lg' = lg @ [(a, r)] \<and> A w a"
    and "each_running E op lg ws = (r, lg')"
  shows "\<exists>l reached. lg' = lg @ l \<and> prefix reached (filter (\<lambda>w. \<not> IsEnd w) ws) \<and> list_all2 (\<lambda>w e. A w (fst e)) reached l \<and>
           (r = None \<longrightarrow> reached = filter (\<lambda>w. \<not> IsEnd w) ws)"
  using assms(2)
proof (induction ws arbitrary: lg)
  case (Cons w ws)
  show ?case
  proof (cases "IsEnd w")
    case True
    then show ?thesis using Cons by simp
  next
    case False
    obtain r1 lg1 where o: "op lg w = (r1, lg1)" by force
    obtain a where a: "lg1 = lg @ [(a, r1)]" "A w a" using op [OF o False] by blast
    show ?thesis
    proof (cases "\<exists>e. r1 = Some e \<and> \<not> api_IsNotFound E e")
      case True
      then have "r = r1" "lg' = lg1" using Cons.prems False o by auto
      then show ?thesis using a False True
        by (intro exI [of _ "[(a, r1)]"] exI [of _ "[w]"]) auto
    next
      case cont: False
      then have "each_running E op lg1 ws = (r, lg')" using Cons.prems False o by (auto split: option.splits)
      then obtain l reached where l: "lg' = lg1 @ l" "prefix reached (filter (\<lambda>w. \<not> IsEnd w) ws)"
        "list_all2 (\<lambda>w e. A w (fst e)) reached l" "r = None \<longrightarrow> reached = filter (\<lambda>w. \<not> IsEnd w) ws"
        using Cons.IH by blast
      then show ?thesis using a False
        by (intro exI [of _ "(a, r1) # l"] exI [of _ "w # reached"]) auto
    qed
  qed
qed simp

lemma setDependencyPhase_write:
  assumes "setDependencyPhase E lg workload dep = (r, lg')"
  shows "\<exists>a. lg' = lg @ [(a, r)] \<and>
    (if w_Phase workload = WorkloadSucceeded
     then a = PatchStatus (SetDependenciesPhase dep (w_Name workload) (w_Phase workload))
     else \<exists>x. a = UpdateStatus x \<and> w_Phase x = WorkloadFailed \<and> w_Meta x = w_Meta dep)"
proof (cases "w_Phase workload = WorkloadSucceeded")
  case True
  let ?dep = "SetDependenciesPhase dep (w_Name workload) (w_Phase workload)"
  let ?fs = "[\<lambda>s::WorkloadStatus. s\<lparr>st_DependenciesPhase := st_DependenciesPhase (w_Status ?dep)\<rparr>]"
  obtain w' where "PatchWorkloadStatusFields E lg ?dep ?fs = (r, lg', w')"
    using assms True by (auto simp: setDependencyPhase_def Let_def split: prod.splits)
  from PatchWorkloadStatusFields_cases(1) [OF this] show ?thesis using True by (simp add: SetDependenciesPhase_def)
next
  case False
  then show ?thesis using assms
    by (auto simp: setDependencyPhase_def SetWorkloadFailed_def Let_def split: prod.splits dest!: do_write_cases)
qed

text \<open>When a workload ends, every workload that depends on it and has not ended gets exactly one write, in
  list order: after a success only the phase of this dependency is recorded and the dependent's own
  phase stays as it is, after any other end the dependent is failed. Without an error all of them are
  reached; an error stops the loop, and a workload that still runs causes no write at all.\<close>

lemma dependents_informed:
  assumes "updateDependentsPhase E lg w = (r, lg')"
    and "list_Workloads E lg (\<lambda>d. w_Name w \<in> set (ws_Dependencies (w_Spec d))) = Inr deps"
  shows "(\<not> IsEnd w \<longrightarrow> lg' = lg) \<and>
    (IsEnd w \<longrightarrow>
      (\<exists>l reached. lg' = lg @ l \<and> prefix reached (filter (\<lambda>d. \<not> IsEnd d) deps) \<and> (r = None \<longrightarrow> reached = filter (\<lambda>d. \<not> IsEnd d) deps) \<and>
         list_all2 (\<lambda>d e.
           if w_Phase w = WorkloadSucceeded then fst e = PatchStatus (SetDependenciesPhase d (w_Name w) (w_Phase w))
           else \<exists>x. fst e = UpdateStatus x \<and> w_Phase x = WorkloadFailed \<and> w_Meta x = w_Meta d) reached l))"
proof (cases "IsEnd w")
  case True
  let ?A = "\<lambda>d a. if w_Phase w = WorkloadSucceeded then a = PatchStatus (SetDependenciesPhase d (w_Name w) (w_Phase w))
           else \<exists>x. a = UpdateStatus x \<and> w_Phase x = WorkloadFailed \<and> w_Meta x = w_Meta d"
  have "each_running E (\<lambda>lg dep. setDependencyPhase E lg w dep) lg deps = (r, lg')"
    using assms True by (simp add: updateDependentsPhase_def)
  from each_running_writes [of _ ?A, OF _ this] setDependencyPhase_write [of E _ w]
  show ?thesis using True by blast
next
  case False
  then show ?thesis using assms by (simp add: updateDependentsPhase_def)
qed

text \<open>Tearing down an owner stops its children: every child that has not ended gets exactly one status
  patch to the phase \<open>Stopped\<close>, and without an error none is left out.\<close>

lemma children_stopped:
  assumes "cascadeStopChildren E lg owner = (r, lg')"
    and "list_Workloads E lg (\<lambda>w. label_is OwnerLabel (w_Name owner) (w_Meta w)) = Inr children"
  shows "\<exists>l reached. lg' = lg @ l \<and> prefix reached (filter (\<lambda>c. \<not> IsEnd c) children) \<and>
           (r = None \<longrightarrow> reached = filter (\<lambda>c. \<not> IsEnd c) children) \<and>
           list_all2 (\<lambda>c e. \<exists>x. fst e = PatchStatus x \<and> w_Phase x = WorkloadStopped \<and> w_Meta x = w_Meta c) reached l"
proof -
  define op where "op = (\<lambda>lg child. case MarkWorkloadStopped E lg child
       (''owner workload '' @ quoted (w_Name owner) @ '' ended; cascading stop on child '' @ quoted (w_Name child)) of
       (err, lg', w') \<Rightarrow> (err, lg'))"
  have "\<exists>a. lg' = lg @ [(a, r)] \<and> (\<exists>x. a = PatchStatus x \<and> w_Phase x = WorkloadStopped \<and> w_Meta x = w_Meta c)"
    if "op lg c = (r, lg')" "\<not> IsEnd c" for lg c r lg'
  proof -
    have run: "w_Phase c \<noteq> WorkloadStopped" using that(2) by (auto simp: IsEnd_def IsWorkloadPhaseEnded_def)
    let ?m = "''owner workload '' @ quoted (w_Name owner) @ '' ended; cascading stop on child '' @ quoted (w_Name c)"
    obtain r1 l1 w' where m: "MarkWorkloadStopped E lg c ?m = (r1, l1, w')" by (metis prod_cases3)
    then have "MarkWorkloadStopped E lg c ?m = (r, lg', w')" using that(1) by (simp add: op_def)
    from MarkWorkloadStopped_write [OF run this] show ?thesis by blast
  qed
  from each_running_writes [of op, OF this] show ?thesis
    using assms by (fastforce simp: cascadeStopChildren_def op_def)
qed

section \<open>The finalizer goes last\<close>

abbreviation not_finalizer :: "apiwrite \<Rightarrow> bool" where
  "not_finalizer a \<equiv> (\<forall>x. a \<noteq> PatchFinalizers x)"

lemma each_running_only:
  assumes "\<And>lg w r lg'. op lg w = (r, lg') \<Longrightarrow> writes_only A lg lg'" and "each_running E op lg ws = (r, lg')"
  shows "writes_only A lg lg'"
  using assms(2)
proof (induction ws arbitrary: lg)
  case (Cons w ws)
  obtain r1 lg1 where o: "op lg w = (r1, lg1)" by force
  have "writes_only A lg lg1" by (rule assms(1) [OF o])
  then show ?case using Cons o by (auto split: if_splits option.splits intro: writes_only_trans)
qed simp

lemma MarkWorkloadStopped_only: "MarkWorkloadStopped E lg w m = (r, lg', w') \<Longrightarrow> writes_only not_finalizer lg lg'"
  using MarkWorkloadStopped_write [of w E lg m r lg' w'] by (cases "w_Phase w = WorkloadStopped") (auto simp: MarkWorkloadStopped_def)

lemma cascade_only: "cascadeStopChildren E lg w = (r, lg') \<Longrightarrow> writes_only not_finalizer lg lg'"
  unfolding cascadeStopChildren_def
  by (auto split: sum.splits prod.splits elim!: each_running_only [rotated] dest: MarkWorkloadStopped_only)

lemma is_PlaneDelete_not_finalizer: "is_PlaneDelete a \<Longrightarrow> not_finalizer a"
  by (auto simp: is_PlaneDelete_def)

lemmas DeleteObject_only = DeleteObject_writes [THEN writes_only_mono, OF _ is_PlaneDelete_not_finalizer]
lemmas DeleteObjectsByWorkload_only = DeleteObjectsByWorkload_writes [THEN writes_only_mono, OF _ is_PlaneDelete_not_finalizer]

lemma DeleteObjectsByWorkload_none:
  "DeleteObjectsByWorkload E lg w = (Inr False, lg') \<longleftrightarrow> ListObjectsByWorkload E lg w = Inr [] \<and> lg' = lg"
  by (auto simp: DeleteObjectsByWorkload_def split: sum.splits list.splits prod.splits option.splits)

lemma delete_secrets_only: "delete_secrets E lg secs = (r, lg') \<Longrightarrow> writes_only not_finalizer lg lg'"
proof (induction secs arbitrary: lg)
  case (Cons sec secs)
  obtain r1 lg1 where d: "do_write E lg (DeleteSecret (om_Name (secret_Meta sec))) = (r1, lg1)" by force
  then show ?case using Cons writes_only_do_write [OF d, of not_finalizer]
    by (auto split: option.splits if_splits intro: writes_only_trans)
qed simp

lemma related_only: "related_cleanup E lg w = (r, lg') \<Longrightarrow> writes_only not_finalizer lg lg'"
  by (auto simp: related_cleanup_def deleteRelatedSecrets_def deleteRelatedEphemeralRunner_def Let_def
      split: if_splits sum.splits dest: delete_secrets_only DeleteObject_only)

lemma drop_finalizer_cases:
  assumes "drop_finalizer E lg w = (err, lg', w')"
  shows "WorkloadFinalizer \<notin> set (om_Finalizers (w_Meta w'))"
    and "(lg' = lg \<and> err = None) \<or> lg' = lg @ [(PatchFinalizers w', err)]"
  using assms by (auto simp: drop_finalizer_def Let_def split: if_splits prod.splits dest!: do_write_cases)


section \<open>Witnesses\<close>

definition done_job :: Workload where
  "done_job = (blank_workload ''job'')\<lparr>w_Status := blank_status\<lparr>st_Phase := WorkloadSucceeded\<rparr>\<rparr>"

lemma dependents_informed_witness:
  "\<exists>e. updateDependentsPhase (sample_env [queued ''next'' 0 [''job'']] [] [] []) [] done_job = (None, [e]) \<and>
       fst e = PatchStatus (SetDependenciesPhase (queued ''next'' 0 [''job'']) ''job'' WorkloadSucceeded)"
proof -
  let ?d = "queued ''next'' 0 [''job'']" and ?E = "sample_env [queued ''next'' 0 [''job'']] [] [] []"
  have l: "list_Workloads ?E [] (\<lambda>d. w_Name done_job \<in> set (ws_Dependencies (w_Spec d))) = Inr [?d]"
    by (simp add: sample_env_def ext.defs done_job_def queued_def sample_defs)
  have e: "IsEnd done_job" "\<not> IsEnd ?d" "w_Phase done_job = WorkloadSucceeded" "w_Name done_job = ''job''"
    by (simp_all add: done_job_def queued_def sample_defs IsEnd_def IsWorkloadPhaseEnded_def phase_defs time_IsZero_def)
  obtain r lg where u: "updateDependentsPhase ?E [] done_job = (r, lg)" by force
  have "fst (do_write ?E x y) = None" for x y by (simp add: do_write_def sample_env_def ext.defs)
  then have "fst (setDependencyPhase ?E [] done_job ?d) = None"
    using e by (auto simp: setDependencyPhase_def PatchWorkloadStatusFields_def Let_def split: prod.splits option.splits) (metis fst_conv option.distinct(1))
  then have "r = None" using u l e by (auto simp: updateDependentsPhase_def split: prod.splits option.splits)
  then show ?thesis using dependents_informed [OF u l] u e
    by (auto simp: list_all2_Cons1)
qed

lemma children_stopped_witness: "cascadeStopChildren gpu_env [] done_job = (None, [])"
proof -
  have l: "list_Workloads gpu_env [] (\<lambda>w. label_is OwnerLabel (w_Name done_job) (w_Meta w)) = Inr []"
    by (simp add: sample_env_def ext.defs)
  obtain r lg where c: "cascadeStopChildren gpu_env [] done_job = (r, lg)" by force
  then have "r = None" using l by (simp add: cascadeStopChildren_def)
  then show ?thesis using children_stopped [OF c l] c by simp
qed

definition torchft_job :: Workload where
  "torchft_job = (blank_workload ''job'')\<lparr>w_Meta := (blank_meta ''job'')\<lparr>om_Finalizers := [WorkloadFinalizer]\<rparr>,
     w_Spec := blank_spec\<lparr>ws_GVK := \<lparr>gvk_Group = [], gvk_Version = ''v1'', gvk_Kind = TorchFTKind\<rparr>\<rparr>\<rparr>"


end
