(* ===== verification/Topology_Sort.thy ===== *)
theory Topology_Sort
  imports Go_Sort Go_Float Api_Types Samples
begin

text \<open>
  \<^verbatim>\<open>Scheduler-Plugins/pkg/topologyipsort/topologyipsort.go\<close>: the plugin of the Kubernetes scheduler
  that places the pods of a group on racks. The scheduler framework (node snapshot, pod lister, filter
  plugins, pod groups) and the label helpers of the plugin library are the parameter \<open>fw\<close>.
  \<^const>\<open>None\<close> as a result of a function is a panic: a slice beyond its capacity, a division by zero, a
  negative shift.
\<close>

record tnode =
  tn_name :: string
  tn_ip :: int
  tn_pod :: string

record rackNode =
  rn_rack :: string
  rn_nodes :: "tnode list"

record nodeCache =
  nc_podGroup :: string
  nc_namespace :: string
  nc_nodes :: "tnode list"

record tpod =
  tp_Meta :: ObjectMeta
  tp_NodeName :: string

record nodeInfo =
  ni_Meta :: ObjectMeta
  ni_Addresses :: "(string \<times> string) list"
  ni_Pods :: "tpod list"

record fw =
  GroupName :: string
  GetPodGroupLabel :: "tpod \<Rightarrow> string"
  PodPriority :: "tpod \<Rightarrow> int"
  GetNamespacedName :: "tpod \<Rightarrow> string"
  MaxNodeScore :: int
  MinNodeScore :: int
  slice_cap :: "nat \<Rightarrow> nat"
  NodeInfos :: "goerr + nodeInfo list"
  RunFilterPlugins :: "tpod \<Rightarrow> nodeInfo \<Rightarrow> bool"
  list_GroupPods :: "string \<Rightarrow> string \<Rightarrow> goerr + tpod list"
  PodGroup_MinMember :: "string \<Rightarrow> string \<Rightarrow> goerr + int"
  PodGroup_Created :: "string \<Rightarrow> string \<Rightarrow> goerr + gotime"

abbreviation tp_Name :: "tpod \<Rightarrow> string" where
  "tp_Name p \<equiv> om_Name (tp_Meta p)"

definition NodeRackLabel :: string where "NodeRackLabel = ''topology.amd.com/rack''"
definition ReplicaTypeLabel :: string where "ReplicaTypeLabel = ''training.kubeflow.org/replica-type''"
definition ReplicaIndexLabel :: string where "ReplicaIndexLabel = ''training.kubeflow.org/replica-index''"
definition ReplicaMaster :: string where "ReplicaMaster = ''master''"

section \<open>Helpers\<close>

definition tatoi :: "string \<Rightarrow> int" where
  "tatoi s = (if s = '''' then 0 else case go_atoi s of None \<Rightarrow> 0 | Some n \<Rightarrow> n)"

definition getAnnotation :: "ObjectMeta \<Rightarrow> string \<Rightarrow> string" where
  "getAnnotation obj key = mget0 '''' (om_Annotations obj) key"

definition getPCount :: "ObjectMeta \<Rightarrow> string \<Rightarrow> int" where
  "getPCount obj key = (let n = tatoi (getAnnotation obj key) in if n = 0 then 1 else n)"

definition getUnit :: "fw \<Rightarrow> tpod \<Rightarrow> int" where
  "getUnit F pod =
     (let c = (\<lambda>suffix. getPCount (tp_Meta pod) (GroupName F @ suffix));
          tp = c ''.tp''; ep = c ''.ep''; cp = c ''.cp''; pp = c ''.pp''
      in go_div (wrap64 (wrap64 (wrap64 (wrap64 (tp * ep) * cp) * pp) + 7)) 8)"

text \<open>The loop over the parts of an address: the part \<open>i\<close> is shifted by \<open>24 - 8 i\<close> bits.\<close>

fun ip_loop :: "string list \<Rightarrow> int \<Rightarrow> int \<Rightarrow> int option" where
  "ip_loop [] i pow = Some pow"
| "ip_loop (vv # rest) i pow =
     (case go_atoi vv of
        None \<Rightarrow> ip_loop rest (i + 1) pow
      | Some vvv \<Rightarrow> if 24 - i * 8 < 0 then None
                    else ip_loop rest (i + 1) (wrap64 (pow + wrap64 (vvv * 2 ^ nat (24 - i * 8)))))"

fun ip_addresses :: "(string \<times> string) list \<Rightarrow> int option" where
  "ip_addresses [] = Some 0"
| "ip_addresses ((typ, address) # rest) =
     (if typ = ''InternalIP'' then
        let ips = go_split CHR ''.'' address in
        if length ips < 4 then ip_addresses rest else ip_loop ips 0 0
      else ip_addresses rest)"

definition getIPIndex :: "nodeInfo \<Rightarrow> int option" where
  "getIPIndex n = ip_addresses (ni_Addresses n)"

definition tlabel :: "tpod \<Rightarrow> string \<Rightarrow> string" where
  "tlabel pod key = mget0 '''' (om_Labels (tp_Meta pod)) key"

definition pod_less :: "fw \<Rightarrow> tpod \<Rightarrow> tpod \<Rightarrow> bool option" where
  "pod_less F pod1 pod2 =
     (if PodPriority F pod1 \<noteq> PodPriority F pod2 then Some (PodPriority F pod1 > PodPriority F pod2)
      else if GetPodGroupLabel F pod1 = GetPodGroupLabel F pod2 then
        let replicaType1 = tlabel pod1 ReplicaTypeLabel; replicaType2 = tlabel pod2 ReplicaTypeLabel in
        if replicaType1 = replicaType2
        then Some (tatoi (tlabel pod1 ReplicaIndexLabel) < tatoi (tlabel pod2 ReplicaIndexLabel))
        else if replicaType1 = ReplicaMaster then Some True
        else Some False
      else None)"

definition sort_pods :: "fw \<Rightarrow> tpod list \<Rightarrow> tpod list" where
  "sort_pods F pods = go_sort (\<lambda>a b. case pod_less F a b of Some l \<Rightarrow> l | None \<Rightarrow> False) pods"

section \<open>Spreading pods over racks\<close>

definition variance :: "int list \<Rightarrow> float64" where
  "variance arr =
     (if length arr = 0 then 0
      else
        let total = fold (\<lambda>v s. f64_add s (f64_of_int v)) arr 0;
            sqSum = fold (\<lambda>v s. f64_add s (f64_of_int (wrap64 (v * v)))) arr 0;
            n = f64_of_int (int (length arr));
            mean = f64_div total n
        in f64_sub (f64_div sqSum n) (f64_mul mean mean))"

definition calculateVariance :: "int list \<Rightarrow> float64" where
  "calculateVariance allocation =
     (let nonZero = filter (\<lambda>val. val > 0) allocation in if length nonZero = 0 then 0 else variance nonZero)"

text \<open>The first rack, among those with room, whose increment gives the least variance.\<close>

fun best_rack :: "int list \<Rightarrow> int list \<Rightarrow> nat list \<Rightarrow> (nat \<times> float64) option \<Rightarrow> nat option" where
  "best_rack allocation maxAlloc [] best = map_option fst best"
| "best_rack allocation maxAlloc (i # is) best =
     (if allocation ! i < maxAlloc ! i then
        let v = calculateVariance (allocation[i := allocation ! i + 1]) in
        best_rack allocation maxAlloc is
          (case best of None \<Rightarrow> Some (i, v) | Some (b, bv) \<Rightarrow> if v < bv then Some (i, v) else best)
      else best_rack allocation maxAlloc is best)"

fun distribute :: "nat \<Rightarrow> int list \<Rightarrow> int list \<Rightarrow> int list" where
  "distribute 0 allocation maxAlloc = allocation"
| "distribute (Suc remaining) allocation maxAlloc =
     (case best_rack allocation maxAlloc [0 ..< length allocation] None of
        Some i \<Rightarrow> distribute remaining (allocation[i := allocation ! i + 1]) maxAlloc
      | None \<Rightarrow> allocation)"

fun racks_needed :: "int list \<Rightarrow> int \<Rightarrow> int \<Rightarrow> nat \<Rightarrow> nat" where
  "racks_needed [] totalCount totalCapacity i = 0"
| "racks_needed (m # ms) totalCount totalCapacity i =
     (if totalCapacity + m \<ge> totalCount then Suc i else racks_needed ms totalCount (totalCapacity + m) (Suc i))"

definition even_share :: "int \<Rightarrow> nat \<Rightarrow> int list \<Rightarrow> int list" where
  "even_share totalCount racksNeeded maxAlloc =
     map (\<lambda>(i, m). if i < racksNeeded
                   then min (go_div totalCount (int racksNeeded) + (if int i < go_mod totalCount (int racksNeeded) then 1 else 0)) m
                   else 0)
       (enumerate 0 maxAlloc)"

definition findMinVarianceAllocation :: "int list \<Rightarrow> int \<Rightarrow> int list" where
  "findMinVarianceAllocation rackCounts totalCount =
     (if length rackCounts = 0 \<or> totalCount = 0 then replicate (length rackCounts) 0
      else
        let maxAlloc = map (\<lambda>c. min c totalCount) rackCounts;
            needed0 = racks_needed maxAlloc totalCount 0 0;
            racksNeeded = (if needed0 = 0 then length rackCounts else needed0);
            allocation = even_share totalCount racksNeeded maxAlloc;
            allocated = sum_list allocation
        in if allocated < totalCount then distribute (nat (totalCount - allocated)) allocation maxAlloc
           else allocation)"

definition minimizeVariance :: "rackNode list \<Rightarrow> int \<Rightarrow> tnode list" where
  "minimizeVariance rackNodes n =
     (if n \<le> 0 then [] else if length rackNodes = 0 then []
      else
        let allocation = findMinVarianceAllocation (map (\<lambda>r. int (length (rn_nodes r))) rackNodes) n;
            result = concat (map (\<lambda>(alloc, r). if alloc > 0 then take (nat alloc) (rn_nodes r) else []) (zip allocation rackNodes))
        in if int (length result) < n then [] else result)"

section \<open>Choosing the nodes\<close>

definition zero_node :: tnode where
  "zero_node = \<lparr>tn_name = [], tn_ip = 0, tn_pod = []\<rparr>"

definition rack_prefix :: "fw \<Rightarrow> rackNode \<Rightarrow> int \<Rightarrow> tnode list option" where
  "rack_prefix F r n = (if n < 0 then None else slice_to (slice_cap F) zero_node (rn_nodes r) (nat n))"

definition unit_length :: "rackNode \<Rightarrow> int \<Rightarrow> int" where
  "unit_length r u = go_div (int (length (rn_nodes r))) u * u"

text \<open>
  The inner loop over the racks from the last to the first. The condition of the source compares the
  rack \<open>i\<close> of the outer loop with its own length, so it always holds.
\<close>

fun same_size :: "fw \<Rightarrow> rackNode \<Rightarrow> int \<Rightarrow> int \<Rightarrow> int \<Rightarrow> rackNode list \<Rightarrow> tnode list \<Rightarrow> tnode list option" where
  "same_size F ri u len n [] filters = Some filters"
| "same_size F ri u len n (rj # rjs) filters =
     (let c = unit_length ri u in
      case (if c \<ge> len then map_option (\<lambda>ns. filters @ ns) (rack_prefix F rj len) else Some filters) of
        None \<Rightarrow> None
      | Some filters' \<Rightarrow>
          if int (length filters') = n then Some filters' else same_size F ri u len n rjs filters')"

fun exact_racks :: "fw \<Rightarrow> rackNode list \<Rightarrow> int \<Rightarrow> int \<Rightarrow> rackNode list \<Rightarrow> int \<Rightarrow> tnode list option" where
  "exact_racks F rackNodes u n [] i = Some []"
| "exact_racks F rackNodes u n (r # rs) i =
     (let len = unit_length r u in
      if n = len * (i + 1) then same_size F r u len n (rev rackNodes) []
      else exact_racks F rackNodes u n rs (i + 1))"

fun greedy_racks :: "fw \<Rightarrow> int \<Rightarrow> int \<Rightarrow> rackNode list \<Rightarrow> tnode list \<Rightarrow> tnode list option" where
  "greedy_racks F u n [] filters = Some filters"
| "greedy_racks F u n (r # rs) filters =
     (let len = unit_length r u; left = n - int (length filters) in
      if left \<ge> len then
        (case rack_prefix F r len of None \<Rightarrow> None | Some ns \<Rightarrow> greedy_racks F u n rs (filters @ ns))
      else map_option (\<lambda>ns. filters @ ns) (rack_prefix F r left))"

definition filter_nodes :: "fw \<Rightarrow> rackNode list \<Rightarrow> int \<Rightarrow> int \<Rightarrow> tnode list option" where
  "filter_nodes F rackNodes u n =
     (if u = 0 \<and> rackNodes \<noteq> [] then None
      else
        case exact_racks F rackNodes u n rackNodes 0 of
          None \<Rightarrow> None
        | Some f1 \<Rightarrow>
            case (if int (length f1) < n then greedy_racks F u n rackNodes [] else Some f1) of
              None \<Rightarrow> None
            | Some f2 \<Rightarrow>
                let f3 = (if int (length f2) < n then minimizeVariance rackNodes n else f2);
                    f4 = (if int (length f3) < n then f3 @ concat (map rn_nodes rackNodes) else f3)
                in Some (go_sort (\<lambda>a b. tn_ip a < tn_ip b) f4))"

section \<open>The plugin\<close>

definition insertRack :: "rackNode list \<Rightarrow> string \<Rightarrow> tnode \<Rightarrow> rackNode list" where
  "insertRack rackNodes rack n =
     (if list_ex (\<lambda>r. rn_rack r = rack) rackNodes
      then map (\<lambda>r. if rn_rack r = rack then r\<lparr>rn_nodes := rn_nodes r @ [n]\<rparr> else r) rackNodes
      else rackNodes @ [\<lparr>rn_rack = rack, rn_nodes = [n]\<rparr>])"

fun collect_racks :: "fw \<Rightarrow> tpod \<Rightarrow> nodeInfo list \<Rightarrow> rackNode list \<Rightarrow> rackNode list option" where
  "collect_racks F pod [] rackNodes = Some rackNodes"
| "collect_racks F pod (n # ns) rackNodes =
     (if RunFilterPlugins F pod n then
        (case getIPIndex n of
           None \<Rightarrow> None
         | Some ip \<Rightarrow>
             collect_racks F pod ns
               (insertRack rackNodes (mget0 '''' (om_Labels (ni_Meta n)) NodeRackLabel)
                  \<lparr>tn_name = om_Name (ni_Meta n), tn_ip = ip, tn_pod = ''''\<rparr>))
      else collect_racks F pod ns rackNodes)"

definition rack_less :: "rackNode \<Rightarrow> rackNode \<Rightarrow> bool" where
  "rack_less ri rj =
     (if length (rn_nodes ri) \<ge> length (rn_nodes rj) then True
      else tn_ip (hd (rn_nodes ri)) > tn_ip (hd (rn_nodes rj)))"

definition sort_racks :: "rackNode list \<Rightarrow> rackNode list" where
  "sort_racks rackNodes =
     go_sort rack_less (map (\<lambda>r. r\<lparr>rn_nodes := go_sort (\<lambda>a b. tn_ip a < tn_ip b) (rn_nodes r)\<rparr>) rackNodes)"

definition assign_pods :: "tnode list \<Rightarrow> tpod list \<Rightarrow> tnode list option" where
  "assign_pods filters pods =
     (if length filters > length pods then None
      else Some (map (\<lambda>(n, p). n\<lparr>tn_pod := tp_Name p\<rparr>) (zip filters pods)))"

definition rackNodeCache :: "fw \<Rightarrow> tpod \<Rightarrow> tpod list \<Rightarrow> (goerr + nodeCache) option" where
  "rackNodeCache F pod pods =
     (case NodeInfos F of
        Inl e \<Rightarrow> Some (Inl e)
      | Inr nodes \<Rightarrow>
          (case collect_racks F pod nodes [] of
             None \<Rightarrow> None
           | Some racks \<Rightarrow>
               (case filter_nodes F (sort_racks racks) (getUnit F pod) (int (length pods)) of
                  None \<Rightarrow> None
                | Some filters \<Rightarrow>
                    map_option (\<lambda>ns. Inr \<lparr>nc_podGroup = GetPodGroupLabel F pod, nc_namespace = om_Namespace (tp_Meta pod), nc_nodes = ns\<rparr>)
                      (assign_pods filters pods))))"

datatype code = Success | Error | Unschedulable | Pending

definition Score :: "fw \<Rightarrow> nodeCache \<Rightarrow> tpod \<Rightarrow> string \<Rightarrow> ((int \<times> code) \<times> nodeCache) option" where
  "Score F cache pod nodeName =
     (let pg = GetPodGroupLabel F pod in
      case list_GroupPods F (om_Namespace (tp_Meta pod)) pg of
        Inl e \<Rightarrow> Some ((MinNodeScore F, Error), cache)
      | Inr pods0 \<Rightarrow>
          let pods = sort_pods F pods0;
              rebuild = (nc_namespace cache \<noteq> om_Namespace (tp_Meta pod) \<or> nc_podGroup cache \<noteq> pg \<or>
                         (length pods > 0 \<and> tp_Name (hd pods) = tp_Name pod));
              answer = (\<lambda>c. ((if list_ex (\<lambda>n. tn_name n = nodeName \<and> tn_pod n = tp_Name pod) (nc_nodes c)
                             then MaxNodeScore F else MinNodeScore F, Success), c))
          in if rebuild then
               (case rackNodeCache F pod pods of
                  None \<Rightarrow> None
                | Some (Inl e) \<Rightarrow> Some ((MinNodeScore F, Error), cache)
                | Some (Inr c) \<Rightarrow> Some (answer c))
             else Some (answer cache))"

definition queue_Less :: "fw \<Rightarrow> tpod \<Rightarrow> tpod \<Rightarrow> bool" where
  "queue_Less F p1 p2 =
     (case pod_less F p1 p2 of
        Some l \<Rightarrow> l
      | None \<Rightarrow>
          (case PodGroup_Created F (om_Namespace (tp_Meta p1)) (GetPodGroupLabel F p1) of
             Inl e \<Rightarrow> True
           | Inr creationTime1 \<Rightarrow>
               (case PodGroup_Created F (om_Namespace (tp_Meta p2)) (GetPodGroupLabel F p2) of
                  Inl e \<Rightarrow> True
                | Inr creationTime2 \<Rightarrow>
                    if creationTime1 = creationTime2
                    then GetNamespacedName F p1 < GetNamespacedName F p2
                    else creationTime1 < creationTime2)))"

definition pod_scheduled :: "nodeInfo list \<Rightarrow> tpod \<Rightarrow> bool" where
  "pod_scheduled nodes pre \<longleftrightarrow>
     tp_NodeName pre \<noteq> '''' \<or> list_ex (\<lambda>n. list_ex (\<lambda>p. om_UID (tp_Meta p) = om_UID (tp_Meta pre)) (ni_Pods n)) nodes"

fun predecessor_missing :: "nodeInfo list \<Rightarrow> string \<Rightarrow> tpod list \<Rightarrow> bool" where
  "predecessor_missing nodes name (pre # p # ps) =
     ((tp_Name p = name \<and> \<not> pod_scheduled nodes pre) \<or> predecessor_missing nodes name (p # ps))"
| "predecessor_missing nodes name _ = False"

text \<open>The nodes set aside for one other pod: nodes that hold a pod of the group, then the first further one that passes the filters.\<close>

fun allocate_pod :: "fw \<Rightarrow> string \<Rightarrow> tpod \<Rightarrow> nodeInfo list \<Rightarrow> string list \<Rightarrow> string list" where
  "allocate_pod F pg p [] allocate = allocate"
| "allocate_pod F pg p (n # ns) allocate =
     (let name = om_Name (ni_Meta n);
          allocate1 = (if list_ex (\<lambda>pp. GetPodGroupLabel F pp = pg) (ni_Pods n) then List.insert name allocate else allocate)
      in if name \<in> set allocate1 then allocate_pod F pg p ns allocate1
         else if RunFilterPlugins F p n then List.insert name allocate1
         else allocate_pod F pg p ns allocate1)"

definition allocate_all :: "fw \<Rightarrow> string \<Rightarrow> string \<Rightarrow> nodeInfo list \<Rightarrow> string \<Rightarrow> tpod list \<Rightarrow> string list" where
  "allocate_all F pg name nodes nodeName pods =
     fold (\<lambda>p allocate. if tp_Name p = name then allocate else allocate_pod F pg p nodes allocate) pods [nodeName]"

definition Permit :: "fw \<Rightarrow> tpod \<Rightarrow> string \<Rightarrow> code" where
  "Permit F pod nodeName =
     (let pg = GetPodGroupLabel F pod; ns = om_Namespace (tp_Meta pod) in
      if pg = '''' then Success
      else case list_GroupPods F ns pg of
             Inl e \<Rightarrow> Unschedulable
           | Inr pods0 \<Rightarrow>
               if list_ex (\<lambda>p. \<not> time_IsZero (om_DeletionTimestamp (tp_Meta p))) pods0 then Unschedulable
               else case NodeInfos F of
                      Inl e \<Rightarrow> Unschedulable
                    | Inr nodes \<Rightarrow>
                        let pods = sort_pods F pods0 in
                        if predecessor_missing nodes (tp_Name pod) pods then Pending
                        else
                          let allocate = allocate_all F pg (tp_Name pod) nodes nodeName pods in
                          (case PodGroup_MinMember F ns pg of
                             Inl e \<Rightarrow> Error
                           | Inr minMember \<Rightarrow> if minMember > int (length allocate) then Unschedulable else Success))"

definition PostFilter :: "fw \<Rightarrow> tpod \<Rightarrow> code \<times> string list" where
  "PostFilter F pod =
     (if GetPodGroupLabel F pod = '''' then (Unschedulable, [])
      else
        let nodes = (case NodeInfos F of Inl e \<Rightarrow> [] | Inr ns \<Rightarrow> ns) in
        (Pending, go_sort (<) (map (\<lambda>n. om_Name (ni_Meta n)) (filter (RunFilterPlugins F pod) nodes))))"

interpretation ip_order: key_order "\<lambda>a b. tn_ip a < tn_ip b" tn_ip
  by unfold_locales simp

section \<open>Allocating over racks\<close>

lemma best_rack_Some:
  "best_rack a m is best = Some i \<Longrightarrow> (\<exists>v. best = Some (i, v)) \<or> (i \<in> set is \<and> a ! i < m ! i)"
proof (induction a m "is" best rule: best_rack.induct)
  case (2 a m j js best)
  then show ?case
    by (fastforce simp: Let_def split: if_splits option.splits)
qed auto

lemma best_rack_None: "best_rack a m is best = None \<longleftrightarrow> best = None \<and> (\<forall>i \<in> set is. \<not> a ! i < m ! i)"
  by (induction a m "is" best rule: best_rack.induct) (auto simp: Let_def split: option.splits)

lemma sum_list_update_inc: "i < length (xs :: int list) \<Longrightarrow> sum_list (xs[i := xs ! i + 1]) = sum_list xs + 1"
  by (induction xs arbitrary: i) (auto split: nat.splits)

text \<open>Distributing keeps every rack within its maximum and places all that fits.\<close>

lemma distribute_spec:
  assumes "length a = length m" and "list_all2 (\<le>) a m" and "a' = distribute n a m"
  shows "list_all2 (\<le>) a' m \<and> list_all2 (\<le>) a a' \<and> sum_list a' \<le> sum_list a + int n \<and>
         (sum_list a + int n \<le> sum_list m \<longrightarrow> sum_list a' = sum_list a + int n)"
  using assms
proof (induction n arbitrary: a)
  case 0
  then show ?case by (simp add: list_all2_refl)
next
  case (Suc n)
  show ?case
  proof (cases "best_rack a m [0 ..< length a] None")
    case None
    then have full: "\<forall>i < length a. a ! i = m ! i"
      using Suc.prems(2) unfolding best_rack_None list_all2_conv_all_nth by (auto intro: antisym simp: not_less)
    then have "a = m" using Suc.prems(1) by (simp add: list_eq_iff_nth_eq)
    then show ?thesis using None Suc.prems by (simp add: list_all2_refl)
  next
    case (Some i)
    then have i: "i < length a" "a ! i < m ! i" using best_rack_Some [OF Some] by auto
    let ?b = "a[i := a ! i + 1]"
    have "list_all2 (\<le>) ?b m" using Suc.prems(1,2) i by (auto simp: list_all2_conv_all_nth nth_list_update)
    moreover have ab: "list_all2 (\<le>) a ?b" using i by (auto simp: list_all2_conv_all_nth nth_list_update)
    moreover have "a' = distribute n ?b m" using Some Suc.prems(3) by simp
    ultimately have "list_all2 (\<le>) a' m \<and> list_all2 (\<le>) ?b a' \<and> sum_list a' \<le> sum_list ?b + int n \<and>
         (sum_list ?b + int n \<le> sum_list m \<longrightarrow> sum_list a' = sum_list ?b + int n)"
      using Suc.IH [of ?b] Suc.prems(1) by simp
    moreover have "list_all2 (\<le>) a a'" if "list_all2 (\<le>) ?b a'"
      using ab that by (rule list_all2_trans [rotated]) auto
    ultimately show ?thesis using sum_list_update_inc [OF i(1)] by auto
  qed
qed

lemma sum_shares:
  fixes q r :: int
  assumes "0 \<le> r" and "r \<le> int k"
  shows "(\<Sum>i \<leftarrow> [0 ..< k]. q + (if int i < r then 1 else 0)) = int k * q + r"
  using assms
proof (induction k arbitrary: r)
  case (Suc k)
  show ?case
  proof (cases "r \<le> int k")
    case True
    then show ?thesis using Suc.IH [of r] Suc.prems by (simp add: algebra_simps)
  next
    case False
    then have r: "r = int k + 1" using Suc.prems by simp
    have "(\<Sum>i \<leftarrow> [0 ..< k]. q + (if int i < r then 1 else 0)) = (\<Sum>i \<leftarrow> [0 ..< k]. q + (if int i < int k then 1 else 0))"
      using r by (intro arg_cong [of _ _ sum_list] map_cong) auto
    then show ?thesis using Suc.IH [of "int k"] r by (simp add: algebra_simps)
  qed
qed simp

lemma nth_even_share:
  "i < length m \<Longrightarrow> even_share t k m ! i =
     (if i < k then min (go_div t (int k) + (if int i < go_mod t (int k) then 1 else 0)) (m ! i) else 0)"
  by (simp add: even_share_def nth_enumerate_eq)

lemma length_even_share [simp]: "length (even_share t k m) = length m"
  by (simp add: even_share_def)

lemma sum_list_le_upt:
  fixes xs :: "int list"
  assumes "\<And>i. i < length xs \<Longrightarrow> xs ! i \<le> f i"
  shows "sum_list xs \<le> (\<Sum>i \<leftarrow> [0 ..< length xs]. f i)"
proof -
  have "map (\<lambda>i. xs ! i) [0 ..< length xs] = xs" by (rule map_nth)
  moreover have "(\<Sum>i \<leftarrow> [0 ..< length xs]. xs ! i) \<le> (\<Sum>i \<leftarrow> [0 ..< length xs]. f i)"
    by (rule sum_list_mono) (simp add: assms)
  ultimately show ?thesis by simp
qed

lemma even_share_spec:
  assumes "0 < k" and "k \<le> length m" and "0 \<le> t" and "\<forall>x \<in> set m. 0 \<le> x"
  shows "list_all2 (\<le>) (even_share t k m) m" and "\<forall>x \<in> set (even_share t k m). 0 \<le> x" and "sum_list (even_share t k m) \<le> t"
proof -
  define q r where "q = t div int k" and "r = t mod int k"
  have qr: "go_div t (int k) = q" "go_mod t (int k) = r" using assms by (simp_all add: go_div_def go_mod_def q_def r_def minus_div_mult_eq_mod)
  have b: "0 \<le> q" "0 \<le> r" "r < int k" using assms by (simp_all add: q_def r_def pos_imp_zdiv_nonneg_iff)
  have nth: "even_share t k m ! i = (if i < k then min (q + (if int i < r then 1 else 0)) (m ! i) else 0)" if "i < length m" for i
    using nth_even_share [OF that, of t k] by (simp add: qr)
  have m: "0 \<le> m ! i" if "i < length m" for i using assms(4) that by simp
  show "list_all2 (\<le>) (even_share t k m) m" using m by (auto simp: list_all2_conv_all_nth nth)
  show "\<forall>x \<in> set (even_share t k m). 0 \<le> x" using m b by (auto simp: in_set_conv_nth nth)
  have "sum_list (even_share t k m) \<le> (\<Sum>i \<leftarrow> [0 ..< length m]. if i < k then q + (if int i < r then 1 else 0) else 0)"
    using sum_list_le_upt [of "even_share t k m" "\<lambda>i. if i < k then q + (if int i < r then 1 else 0) else 0"] by (simp add: nth)
  also have "[0 ..< length m] = [0 ..< k] @ [k ..< length m]" using assms(2) by (metis le0 le_Suc_ex upt_add_eq_append)
  also have "(\<Sum>i \<leftarrow> [0 ..< k] @ [k ..< length m]. if i < k then q + (if int i < r then 1 else 0) else 0) =
      (\<Sum>i \<leftarrow> [0 ..< k]. q + (if int i < r then 1 else 0))"
  proof -
    have "map (\<lambda>i. if i < k then q + (if int i < r then 1 else 0) else 0) [k ..< length m] = map (\<lambda>i. 0) [k ..< length m]"
      by (rule map_cong) auto
    then have "(\<Sum>i \<leftarrow> [k ..< length m]. if i < k then q + (if int i < r then 1 else 0) else 0) = 0" by (simp only: sum_list_0)
    moreover have "map (\<lambda>i. if i < k then q + (if int i < r then 1 else 0) else 0) [0 ..< k] = map (\<lambda>i. q + (if int i < r then 1 else 0)) [0 ..< k]"
      by (rule map_cong) auto
    ultimately show ?thesis by (simp only: map_append sum_list_append add_0_right)
  qed
  also have "\<dots> = t" using sum_shares [of r k q] b by (simp add: q_def r_def mult.commute)
  finally show "sum_list (even_share t k m) \<le> t" .
qed

lemma racks_needed_le: "racks_needed m t c i \<le> i + length m"
  by (induction m t c i rule: racks_needed.induct) auto

lemma sum_min_ge:
  fixes cs :: "int list"
  assumes "\<forall>c \<in> set cs. 0 \<le> c" and "0 \<le> t" and "t \<le> sum_list cs"
  shows "t \<le> sum_list (map (\<lambda>c. min c t) cs)"
  using assms
proof (induction cs)
  case (Cons c cs)
  have "0 \<le> sum_list (map (\<lambda>c. min c t) cs)" using Cons.prems by (intro sum_list_nonneg) auto
  moreover have "sum_list (map (\<lambda>c. min c t) cs) = sum_list cs \<or> t \<le> sum_list (map (\<lambda>c. min c t) cs)"
  proof (cases "t \<le> sum_list cs")
    case True
    then show ?thesis using Cons by auto
  next
    case False
    have "min c' t = c'" if "c' \<in> set cs" for c'
      using member_le_sum_list [of c' cs] that False Cons.prems(1) by auto
    then have "map (\<lambda>c. min c t) cs = cs" by (simp add: map_idI)
    then show ?thesis by simp
  qed
  ultimately show ?case using Cons.prems by auto
qed simp

text \<open>The allocation respects the racks and meets the demand whenever the racks can.\<close>

lemma findMinVarianceAllocation_spec:
  assumes "\<forall>c \<in> set cs. 0 \<le> c" and "0 \<le> t"
  defines "a \<equiv> findMinVarianceAllocation cs t"
  shows "list_all2 (\<lambda>x c. 0 \<le> x \<and> x \<le> c) a cs \<and> sum_list a \<le> t \<and> (t \<le> sum_list cs \<longrightarrow> sum_list a = t)"
proof (cases "length cs = 0 \<or> t = 0")
  case True
  have "0 \<le> sum_list cs" using assms(1) by (intro sum_list_nonneg) auto
  then show ?thesis using True assms(1,2)
    by (auto simp: a_def findMinVarianceAllocation_def list_all2_conv_all_nth sum_list_replicate)
next
  case False
  define m where "m = map (\<lambda>c. min c t) cs"
  define k where "k = (if racks_needed m t 0 0 = 0 then length cs else racks_needed m t 0 0)"
  define e where "e = even_share t k m"
  have lm: "length m = length cs" by (simp add: m_def)
  have k: "0 < k" "k \<le> length m" using False racks_needed_le [of m t 0 0] by (auto simp: k_def lm)
  have m0: "\<forall>x \<in> set m. 0 \<le> x" using assms(1,2) by (auto simp: m_def)
  note es = even_share_spec [OF k assms(2) m0, folded e_def]
  have a: "a = (if sum_list e < t then distribute (nat (t - sum_list e)) e m else e)"
    using False by (simp add: a_def findMinVarianceAllocation_def m_def k_def e_def Let_def)
  have spec: "list_all2 (\<le>) a m \<and> list_all2 (\<le>) e a \<and> sum_list a \<le> t \<and> (t \<le> sum_list m \<longrightarrow> sum_list a = t)"
  proof (cases "sum_list e < t")
    case True
    then show ?thesis using distribute_spec [of e m a "nat (t - sum_list e)"] es(1) by (simp add: a e_def)
  next
    case le: False
    then have "sum_list e = t" using es(3) by simp
    then show ?thesis using le es(1) by (simp add: a list_all2_refl)
  qed
  have "0 \<le> a ! i \<and> a ! i \<le> cs ! i" if "i < length cs" for i
  proof -
    have "e ! i \<le> a ! i" "a ! i \<le> m ! i" using spec that lm by (auto simp: list_all2_conv_all_nth)
    moreover have "0 \<le> e ! i" using es(2) that lm by (simp add: e_def)
    ultimately show ?thesis using that by (simp add: m_def)
  qed
  then have "list_all2 (\<lambda>x c. 0 \<le> x \<and> x \<le> c) a cs" using spec lm by (simp add: list_all2_conv_all_nth)
  then show ?thesis using spec sum_min_ge [OF assms(1,2)] by (auto simp: m_def)
qed

lemma length_picks:
  assumes "list_all2 (\<lambda>x r. 0 \<le> x \<and> x \<le> int (length (rn_nodes r))) a rs"
  shows "int (length (concat (map (\<lambda>(alloc, r). if alloc > 0 then take (nat alloc) (rn_nodes r) else []) (zip a rs)))) = sum_list a"
  using assms by (induction rule: list_all2_induct) auto

lemma subset_picks:
  "mset (concat (map (\<lambda>(alloc, r). if alloc > 0 then take (nat alloc) (rn_nodes r) else []) (zip a rs))) \<subseteq># mset (concat (map rn_nodes rs))"
proof (induction a rs rule: list_induct2')
  case (4 x a r rs)
  have "mset (take (nat x) (rn_nodes r)) \<subseteq># mset (rn_nodes r)" by (metis append_take_drop_id mset_append mset_subset_eq_add_left)
  moreover have "{#} \<subseteq># mset (rn_nodes r)" by simp
  ultimately have "mset (if x > 0 then take (nat x) (rn_nodes r) else []) \<subseteq># mset (rn_nodes r)" by auto
  from subset_mset.add_mono [OF this 4] show ?case by simp
qed auto

definition rack_total :: "rackNode list \<Rightarrow> int" where
  "rack_total racks = int (length (concat (map rn_nodes racks)))"

lemma minimizeVariance_spec:
  assumes "0 \<le> n"
  shows "mset (minimizeVariance racks n) \<subseteq># mset (concat (map rn_nodes racks)) \<and>
         (if n \<le> rack_total racks then int (length (minimizeVariance racks n)) = n else minimizeVariance racks n = [])"
proof (cases "n = 0 \<or> racks = []")
  case True
  then show ?thesis using assms by (auto simp: minimizeVariance_def rack_total_def)
next
  case False
  define cs where "cs = map (\<lambda>r. int (length (rn_nodes r))) racks"
  define a where "a = findMinVarianceAllocation cs n"
  define res where "res = concat (map (\<lambda>(alloc, r). if alloc > 0 then take (nat alloc) (rn_nodes r) else []) (zip a racks))"
  have tot: "sum_list cs = rack_total racks" by (simp add: cs_def rack_total_def length_concat comp_def sum_list_of_nat [symmetric])
  have spec: "list_all2 (\<lambda>x c. 0 \<le> x \<and> x \<le> c) a cs" "sum_list a \<le> n" "n \<le> sum_list cs \<longrightarrow> sum_list a = n"
    using findMinVarianceAllocation_spec [of cs n] assms by (auto simp: a_def cs_def)
  have len: "int (length res) = sum_list a"
    unfolding res_def using spec(1) by (intro length_picks) (simp add: cs_def list_all2_map2)
  have mv: "minimizeVariance racks n = (if int (length res) < n then [] else res)"
    using False assms by (simp add: minimizeVariance_def cs_def a_def res_def Let_def)
  have "int (length res) \<le> rack_total racks"
    using size_mset_mono [OF subset_picks [of a racks]] by (simp add: res_def rack_total_def)
  then show ?thesis using spec(2,3) len subset_picks [of a racks] by (auto simp: mv tot res_def [symmetric])
qed

section \<open>The chosen nodes\<close>

lemma rack_prefix_within: "0 \<le> n \<Longrightarrow> n \<le> int (length (rn_nodes r)) \<Longrightarrow> rack_prefix F r n = Some (take (nat n) (rn_nodes r))"
  by (simp add: rack_prefix_def)

lemma unit_length_bounds:
  assumes "u \<noteq> 0"
  shows "0 \<le> unit_length r u \<and> unit_length r u \<le> int (length (rn_nodes r))"
proof -
  define l where "l = int (length (rn_nodes r))"
  have "unit_length r u = (l div \<bar>u\<bar>) * \<bar>u\<bar>" by (auto simp: unit_length_def go_div_def l_def abs_if)
  moreover have "0 \<le> (l div \<bar>u\<bar>) * \<bar>u\<bar>" using assms by (simp add: l_def pos_imp_zdiv_nonneg_iff)
  moreover have "(l div \<bar>u\<bar>) * \<bar>u\<bar> \<le> l" using assms pos_mod_sign [of "\<bar>u\<bar>" l] div_mult_mod_eq [of l "\<bar>u\<bar>"] by linarith
  ultimately show ?thesis by (simp add: l_def)
qed

lemma mset_take_le: "mset (take k xs) \<subseteq># mset xs"
  by (metis append_take_drop_id mset_append mset_subset_eq_add_left)

lemma same_size_spec:
  assumes "\<forall>r \<in> set rjs. len \<le> int (length (rn_nodes r))" and "unit_length ri u = len" and "0 < len"
    and "int (length filters) + len * int e = n" and "0 < e" and "e \<le> length rjs"
  shows "\<exists>fs. same_size F ri u len n rjs filters = Some (filters @ fs) \<and> int (length fs) = len * int e \<and>
           mset fs \<subseteq># mset (concat (map rn_nodes rjs))"
  using assms
proof (induction rjs arbitrary: filters e)
  case (Cons rj rjs)
  let ?ns = "take (nat len) (rn_nodes rj)"
  have p: "rack_prefix F rj len = Some ?ns" and ln: "int (length ?ns) = len" using Cons.prems(1,3) by (auto simp: rack_prefix_within min_def)
  obtain e' where e: "e = Suc e'" using Cons.prems(5) by (cases e) auto
  show ?case
  proof (cases "e' = 0")
    case True
    then have "int (length (filters @ ?ns)) = n" using Cons.prems(4) ln e by simp
    then have "same_size F ri u len n (rj # rjs) filters = Some (filters @ ?ns)" using p Cons.prems(2) by (simp add: Let_def)
    then show ?thesis using ln e True mset_take_le [of "nat len" "rn_nodes rj"]
      by (intro exI [of _ ?ns]) (auto intro: subset_mset.add_increasing2)
  next
    case False
    then have n: "int (length (filters @ ?ns)) + len * int e' = n" using Cons.prems(4) ln e by (simp add: algebra_simps)
    moreover have "0 < len * int e'" using False Cons.prems(3) by simp
    ultimately have ne: "int (length (filters @ ?ns)) \<noteq> n" by linarith
    obtain fs where fs: "same_size F ri u len n rjs (filters @ ?ns) = Some ((filters @ ?ns) @ fs)" "int (length fs) = len * int e'"
      "mset fs \<subseteq># mset (concat (map rn_nodes rjs))"
      using Cons.IH [of "filters @ ?ns" e'] Cons.prems n False e by auto
    have "same_size F ri u len n (rj # rjs) filters = Some (filters @ ?ns @ fs)" using p Cons.prems(2) ne fs(1) by (simp add: Let_def)
    moreover have "int (length (?ns @ fs)) = len * int e" using fs(2) ln e by (simp add: algebra_simps)
    moreover have "mset (?ns @ fs) \<subseteq># mset (concat (map rn_nodes (rj # rjs)))"
      using subset_mset.add_mono [OF mset_take_le fs(3)] by simp
    ultimately show ?thesis by blast
  qed
qed simp

text \<open>Whenever the demand is an exact multiple for rack \<open>i\<close>, every rack must have that many nodes.\<close>

definition racks_even :: "rackNode list \<Rightarrow> int \<Rightarrow> int \<Rightarrow> bool" where
  "racks_even racks u n \<longleftrightarrow>
     (\<forall>i < length racks. n = unit_length (racks ! i) u * (int i + 1) \<longrightarrow>
        (\<forall>r \<in> set racks. unit_length (racks ! i) u \<le> int (length (rn_nodes r))))"

lemma exact_racks_spec:
  assumes "racks_even racks u n" and "u \<noteq> 0" and "0 < n" and "racks = pre @ rs"
  shows "\<exists>f. exact_racks F racks u n rs (int (length pre)) = Some f \<and> (f = [] \<or> int (length f) = n) \<and>
           mset f \<subseteq># mset (concat (map rn_nodes racks))"
  using assms(4)
proof (induction rs arbitrary: pre)
  case (Cons r rs)
  define len where "len = unit_length r u"
  show ?case
  proof (cases "n = len * (int (length pre) + 1)")
    case True
    have "\<forall>r \<in> set racks. len \<le> int (length (rn_nodes r))"
      using assms(1) True Cons.prems unfolding racks_even_def len_def
      by (elim allE [of _ "length pre"]) (auto simp: nth_append)
    then have all: "\<forall>r \<in> set (rev racks). len \<le> int (length (rn_nodes r))" by simp
    have pos: "0 < len" using True assms(3) unit_length_bounds [OF assms(2), of r] by (auto simp: len_def zero_less_mult_iff)
    have e: "int (length []) + len * int (Suc (length pre)) = n" "0 < Suc (length pre)" "Suc (length pre) \<le> length (rev racks)"
      using True Cons.prems by (auto simp: algebra_simps)
    obtain f where "same_size F r u len n (rev racks) [] = Some ([] @ f)" "int (length f) = len * int (Suc (length pre))"
      "mset f \<subseteq># mset (concat (map rn_nodes (rev racks)))"
      using same_size_spec [OF all len_def [symmetric] pos e, of F] by blast
    moreover have "mset (concat (map rn_nodes (rev racks))) = mset (concat (map rn_nodes racks))"
      by (induction racks) auto
    ultimately show ?thesis using True e(1) by (auto simp: len_def [symmetric] Let_def)
  next
    case False
    then have "exact_racks F racks u n (r # rs) (int (length pre)) = exact_racks F racks u n rs (int (length (pre @ [r])))"
      by (simp add: len_def Let_def add.commute)
    then show ?thesis using Cons.IH [of "pre @ [r]"] Cons.prems by simp
  qed
qed simp

lemma greedy_racks_spec:
  assumes "u \<noteq> 0" and "int (length filters) \<le> n"
  shows "\<exists>f. greedy_racks F u n rs filters = Some (filters @ f) \<and> int (length (filters @ f)) \<le> n \<and>
           mset f \<subseteq># mset (concat (map rn_nodes rs))"
  using assms(2)
proof (induction rs arbitrary: filters)
  case (Cons r rs)
  define len left where "len = unit_length r u" and "left = n - int (length filters)"
  have b: "0 \<le> len" "len \<le> int (length (rn_nodes r))" using unit_length_bounds [OF assms(1), of r] by (simp_all add: len_def)
  show ?case
  proof (cases "left \<ge> len")
    case True
    let ?ns = "take (nat len) (rn_nodes r)"
    have "int (length (filters @ ?ns)) \<le> n" using True b by (simp add: left_def)
    then obtain f where f: "greedy_racks F u n rs (filters @ ?ns) = Some ((filters @ ?ns) @ f)"
      "int (length ((filters @ ?ns) @ f)) \<le> n" "mset f \<subseteq># mset (concat (map rn_nodes rs))"
      using Cons.IH by blast
    have "greedy_racks F u n (r # rs) filters = Some (filters @ ?ns @ f)"
      using True b f(1) by (simp add: rack_prefix_within len_def [symmetric] left_def [symmetric] Let_def)
    moreover have "mset (?ns @ f) \<subseteq># mset (concat (map rn_nodes (r # rs)))"
      using subset_mset.add_mono [OF mset_take_le f(3)] by simp
    ultimately show ?thesis using f(2) by (intro exI [of _ "?ns @ f"]) simp
  next
    case False
    let ?ns = "take (nat left) (rn_nodes r)"
    have "0 \<le> left" "left \<le> int (length (rn_nodes r))" using False b Cons.prems by (auto simp: left_def)
    then have "greedy_racks F u n (r # rs) filters = Some (filters @ ?ns)" "int (length (filters @ ?ns)) \<le> n"
      using False by (simp_all add: rack_prefix_within len_def [symmetric] left_def [symmetric] Let_def) (simp add: left_def)
    then show ?thesis using mset_take_le [of "nat left" "rn_nodes r"]
      by (intro exI [of _ ?ns]) (auto intro: subset_mset.add_increasing2)
  qed
qed simp

lemma exact_racks_zero: "u \<noteq> 0 \<Longrightarrow> exact_racks F racks u 0 rs i = Some [] \<or> i < 0"
proof (induction rs arbitrary: i)
  case (Cons r rs)
  have "same_size F r u 0 0 rjs [] = Some []" if "unit_length r u = 0" for rjs
    using that by (cases rjs) (simp_all add: rack_prefix_def)
  then show ?case using Cons.IH [of "i + 1"] Cons.prems by (auto simp: Let_def)
qed simp

lemma filter_nodes_spec:
  assumes "u \<noteq> 0" and "0 \<le> n" and "racks_even racks u n"
  shows "\<exists>fs. filter_nodes F racks u n = Some fs \<and> int (length fs) = min n (rack_total racks) \<and>
           mset fs \<subseteq># mset (concat (map rn_nodes racks)) \<and> sorted (map tn_ip fs)"
proof -
  let ?M = "mset (concat (map rn_nodes racks))"
  obtain f1 where f1: "exact_racks F racks u n racks 0 = Some f1" "f1 = [] \<or> int (length f1) = n" "mset f1 \<subseteq># ?M"
  proof (cases "n = 0")
    case True
    then show thesis using exact_racks_zero [OF assms(1), of F racks racks 0] that [of "[]"] by auto
  next
    case False
    then show thesis using exact_racks_spec [OF assms(3,1), of "[]" racks F] assms(2) that by auto
  qed
  obtain f2 where f2: "(if int (length f1) < n then greedy_racks F u n racks [] else Some f1) = Some f2"
    "int (length f2) \<le> n" "mset f2 \<subseteq># ?M"
    using greedy_racks_spec [OF assms(1), of "[]" n F racks] f1(2,3) assms(2) by (cases "int (length f1) < n") auto
  define f3 where "f3 = (if int (length f2) < n then minimizeVariance racks n else f2)"
  define f4 where "f4 = (if int (length f3) < n then f3 @ concat (map rn_nodes racks) else f3)"
  note mv = minimizeVariance_spec [OF assms(2), of racks]
  have f3: "mset f3 \<subseteq># ?M" "int (length f3) = n \<or> (f3 = [] \<and> rack_total racks < n)"
    using f2 mv by (auto simp: f3_def split: if_splits)
  have f4: "mset f4 \<subseteq># ?M" "int (length f4) = min n (rack_total racks)"
    using f3 size_mset_mono [OF f3(1)] assms(2) by (auto simp: f4_def rack_total_def)
  have "filter_nodes F racks u n = Some (go_sort (\<lambda>a b. tn_ip a < tn_ip b) f4)"
    using assms(1) f1(1) f2(1) by (simp add: filter_nodes_def f3_def f4_def Let_def)
  moreover have "sorted (map tn_ip (go_sort (\<lambda>a b. tn_ip a < tn_ip b) f4))"
    by (rule ip_order.sorted_keys)
  ultimately show ?thesis using f4 by auto
qed

text \<open>Choosing nodes for a group never panics and never takes a node twice, provided the racks are large
  enough whenever the exact case applies: it returns as many nodes as the group has pods, or all nodes
  if there are fewer, all of them from the racks, in the order of their addresses. The spreading that
  minimises the variance therefore finds a placement whenever one exists.\<close>

lemma filter_selects:
  assumes "u \<noteq> 0" and "0 \<le> n" and "racks_even racks u n"
  shows "\<exists>fs. filter_nodes F racks u n = Some fs \<and> int (length fs) = min n (rack_total racks) \<and>
           mset fs \<subseteq># mset (concat (map rn_nodes racks)) \<and> sorted (map tn_ip fs)"
  using assms by (rule filter_nodes_spec)

section \<open>The placement of a group\<close>

abbreviation all_nodes :: "rackNode list \<Rightarrow> tnode multiset" where
  "all_nodes racks \<equiv> mset (concat (map rn_nodes racks))"

lemma all_nodes_perm: "mset xs = mset ys \<Longrightarrow> all_nodes xs = all_nodes ys"
proof -
  assume "mset xs = mset ys"
  then have "mset (map (mset \<circ> rn_nodes) xs) = mset (map (mset \<circ> rn_nodes) ys)" by simp
  then show ?thesis by (metis (no_types, lifting) mset_concat map_map sum_mset_sum_list)
qed

lemma all_nodes_sort_racks: "all_nodes (sort_racks racks) = all_nodes racks"
proof -
  let ?s = "\<lambda>r. r\<lparr>rn_nodes := go_sort (\<lambda>a b. tn_ip a < tn_ip b) (rn_nodes r)\<rparr>"
  have "all_nodes (sort_racks racks) = all_nodes (map ?s racks)" unfolding sort_racks_def by (rule all_nodes_perm) simp
  also have "\<dots> = all_nodes racks" by (induction racks) auto
  finally show ?thesis .
qed

lemma insertRack_nodes:
  assumes "distinct (map rn_rack racks)"
  shows "all_nodes (insertRack racks rack n) = add_mset n (all_nodes racks)" and "distinct (map rn_rack (insertRack racks rack n))"
proof -
  have upd: "all_nodes (map (\<lambda>r. if rn_rack r = rack then r\<lparr>rn_nodes := rn_nodes r @ [n]\<rparr> else r) rs) =
      (if list_ex (\<lambda>r. rn_rack r = rack) rs then add_mset n (all_nodes rs) else all_nodes rs)"
    if "distinct (map rn_rack rs)" for rs
    using that by (induction rs) (auto simp: list_ex_iff dest: image_eqI [of _ rn_rack, OF sym])
  show "all_nodes (insertRack racks rack n) = add_mset n (all_nodes racks)"
    using upd [OF assms] by (simp add: insertRack_def)
  have "rn_rack \<circ> (\<lambda>r::rackNode. if rn_rack r = rack then r\<lparr>rn_nodes := rn_nodes r @ [n]\<rparr> else r) = rn_rack" by auto
  then show "distinct (map rn_rack (insertRack racks rack n))"
    using assms by (auto simp: insertRack_def list_ex_iff)
qed

lemma collect_racks_names:
  assumes "collect_racks F pod ns racks = Some racks'" and "distinct (map rn_rack racks)"
  shows "image_mset tn_name (all_nodes racks') =
           image_mset tn_name (all_nodes racks) + mset (map (\<lambda>n. om_Name (ni_Meta n)) (filter (RunFilterPlugins F pod) ns))"
  using assms
proof (induction ns arbitrary: racks)
  case (Cons n ns)
  show ?case
  proof (cases "RunFilterPlugins F pod n")
    case False
    then show ?thesis using Cons by simp
  next
    case True
    then obtain ip where ip: "getIPIndex n = Some ip" using Cons.prems(1) by (auto split: option.splits)
    let ?r = "insertRack racks (mget0 '''' (om_Labels (ni_Meta n)) NodeRackLabel) \<lparr>tn_name = om_Name (ni_Meta n), tn_ip = ip, tn_pod = ''''\<rparr>"
    have "collect_racks F pod ns ?r = Some racks'" using Cons.prems(1) True ip by simp
    from Cons.IH [OF this insertRack_nodes(2) [OF Cons.prems(2)]] show ?thesis
      using True insertRack_nodes(1) [OF Cons.prems(2)] by simp
  qed
qed simp

lemma distinct_sub: "distinct ys \<Longrightarrow> mset xs \<subseteq># mset ys \<Longrightarrow> distinct xs"
proof -
  assume d: "distinct ys" and s: "mset xs \<subseteq># mset ys"
  obtain Z where "mset ys = mset xs + Z" using s by (auto simp: mset_subset_eq_exists_conv)
  then obtain zs where "mset ys = mset (xs @ zs)" by (metis ex_mset mset_append)
  then have "distinct (xs @ zs)" using d mset_eq_imp_distinct_iff by blast
  then show "distinct xs" by simp
qed

lemma rack_total_size: "rack_total racks = int (size (all_nodes racks))"
  by (simp add: rack_total_def)


section \<open>Admission of a group\<close>

lemma allocate_pod_spec:
  assumes "distinct allocate"
  shows "distinct (allocate_pod F pg p ns allocate) \<and>
         (\<forall>name \<in> set (allocate_pod F pg p ns allocate). name \<in> set allocate \<or>
            (\<exists>n \<in> set ns. om_Name (ni_Meta n) = name \<and>
               ((\<exists>pp \<in> set (ni_Pods n). GetPodGroupLabel F pp = pg) \<or> RunFilterPlugins F p n)))"
  using assms
proof (induction ns arbitrary: allocate)
  case (Cons n ns)
  let ?name = "om_Name (ni_Meta n)" and ?g = "list_ex (\<lambda>pp. GetPodGroupLabel F pp = pg) (ni_Pods n)"
  define a1 where "a1 = (if ?g then List.insert ?name allocate else allocate)"
  have a1: "distinct a1" "\<forall>x \<in> set a1. x \<in> set allocate \<or> x = ?name \<and> ?g"
    using Cons.prems by (auto simp: a1_def)
  have step: "allocate_pod F pg p (n # ns) allocate =
      (if ?name \<in> set a1 \<or> \<not> RunFilterPlugins F p n then allocate_pod F pg p ns a1 else List.insert ?name a1)"
    by (simp add: a1_def Let_def)
  show ?case
  proof (cases "?name \<in> set a1 \<or> \<not> RunFilterPlugins F p n")
    case True
    then show ?thesis unfolding step using Cons.IH [OF a1(1)] a1(2) by (fastforce simp: list_ex_iff)
  next
    case False
    then show ?thesis unfolding step using a1 by (fastforce simp: list_ex_iff)
  qed
qed simp

lemma allocate_all_spec:
  "distinct (allocate_all F pg name nodes nodeName pods) \<and>
   (\<forall>x \<in> set (allocate_all F pg name nodes nodeName pods). x = nodeName \<or>
      (\<exists>n \<in> set nodes. om_Name (ni_Meta n) = x \<and>
         ((\<exists>pp \<in> set (ni_Pods n). GetPodGroupLabel F pp = pg) \<or>
          (\<exists>p \<in> set pods. tp_Name p \<noteq> name \<and> RunFilterPlugins F p n))))"
proof -
  have "distinct (fold (\<lambda>p a. if tp_Name p = name then a else allocate_pod F pg p nodes a) ps a) \<and>
    (\<forall>x \<in> set (fold (\<lambda>p a. if tp_Name p = name then a else allocate_pod F pg p nodes a) ps a). x \<in> set a \<or>
      (\<exists>n \<in> set nodes. om_Name (ni_Meta n) = x \<and>
         ((\<exists>pp \<in> set (ni_Pods n). GetPodGroupLabel F pp = pg) \<or>
          (\<exists>p \<in> set ps. tp_Name p \<noteq> name \<and> RunFilterPlugins F p n))))" if "distinct a" for ps a
    using that
  proof (induction ps arbitrary: a)
    case (Cons p ps)
    show ?case
    proof (cases "tp_Name p = name")
      case True
      then show ?thesis using Cons by fastforce
    next
      case False
      then show ?thesis using Cons.IH [of "allocate_pod F pg p nodes a"] allocate_pod_spec [OF Cons.prems, of F pg p nodes] by fastforce
    qed
  qed simp
  from this [of "[nodeName]" pods] show ?thesis by (simp add: allocate_all_def)
qed

lemma predecessor_missing_iff:
  "predecessor_missing nodes name ps \<longleftrightarrow> (\<exists>i. Suc i < length ps \<and> tp_Name (ps ! Suc i) = name \<and> \<not> pod_scheduled nodes (ps ! i))"
proof (induction nodes name ps rule: predecessor_missing.induct)
  case (1 nodes name pre p ps)
  have "(\<exists>i. Suc i < length (pre # p # ps) \<and> tp_Name ((pre # p # ps) ! Suc i) = name \<and> \<not> pod_scheduled nodes ((pre # p # ps) ! i)) \<longleftrightarrow>
      (tp_Name p = name \<and> \<not> pod_scheduled nodes pre) \<or>
      (\<exists>i. Suc i < length (p # ps) \<and> tp_Name ((p # ps) ! Suc i) = name \<and> \<not> pod_scheduled nodes ((p # ps) ! i))"
    (is "(\<exists>i. ?P i) \<longleftrightarrow> ?A \<or> (\<exists>i. ?Q i)")
  proof -
    have "(\<exists>i. ?P i) \<longleftrightarrow> ?P 0 \<or> (\<exists>i. ?P (Suc i))" by (metis not0_implies_Suc)
    then show ?thesis by simp
  qed
  then show ?case using 1 by simp
qed auto

text \<open>Gang admission. A pod of a group is admitted only if no pod of the group is being deleted, the pod
  before it in the order of the group is already placed, and there are at least as many distinct nodes
  as the group requires: its own, nodes that hold a pod of the group, and nodes that pass the filters
  for another pod of the group.\<close>

lemma permit_gang:
  assumes "Permit F pod nodeName = Success" and "GetPodGroupLabel F pod \<noteq> ''''"
  shows "\<exists>pods nodes minMember allocated.
           list_GroupPods F (om_Namespace (tp_Meta pod)) (GetPodGroupLabel F pod) = Inr pods \<and> NodeInfos F = Inr nodes \<and>
           PodGroup_MinMember F (om_Namespace (tp_Meta pod)) (GetPodGroupLabel F pod) = Inr minMember \<and>
           (\<forall>p \<in> set pods. time_IsZero (om_DeletionTimestamp (tp_Meta p))) \<and>
           (\<forall>i. Suc i < length pods \<and> tp_Name (sort_pods F pods ! Suc i) = tp_Name pod \<longrightarrow> pod_scheduled nodes (sort_pods F pods ! i)) \<and>
           minMember \<le> int (card allocated) \<and> finite allocated \<and>
           (\<forall>x \<in> allocated. x = nodeName \<or>
              (\<exists>n \<in> set nodes. om_Name (ni_Meta n) = x \<and>
                 ((\<exists>pp \<in> set (ni_Pods n). GetPodGroupLabel F pp = GetPodGroupLabel F pod) \<or>
                  (\<exists>p \<in> set pods. tp_Name p \<noteq> tp_Name pod \<and> RunFilterPlugins F p n))))"
proof -
  let ?pg = "GetPodGroupLabel F pod" and ?ns = "om_Namespace (tp_Meta pod)"
  obtain pods nodes minMember where p: "list_GroupPods F ?ns ?pg = Inr pods" "NodeInfos F = Inr nodes" "PodGroup_MinMember F ?ns ?pg = Inr minMember"
    and live: "\<not> list_ex (\<lambda>p. \<not> time_IsZero (om_DeletionTimestamp (tp_Meta p))) pods"
    and pre: "\<not> predecessor_missing nodes (tp_Name pod) (sort_pods F pods)"
    and enough: "minMember \<le> int (length (allocate_all F ?pg (tp_Name pod) nodes nodeName (sort_pods F pods)))"
    using assms by (auto simp: Permit_def Let_def not_less split: sum.splits if_splits)
  let ?a = "allocate_all F ?pg (tp_Name pod) nodes nodeName (sort_pods F pods)"
  have "set (sort_pods F pods) = set pods" "length (sort_pods F pods) = length pods" by (simp_all add: sort_pods_def)
  then show ?thesis
    using p live pre enough allocate_all_spec [of F ?pg "tp_Name pod" nodes nodeName "sort_pods F pods"] distinct_card [of ?a]
    by (intro exI [of _ pods] exI [of _ nodes] exI [of _ minMember] exI [of _ "set ?a"])
      (auto simp: list_ex_iff predecessor_missing_iff)
qed

section \<open>Addresses\<close>

definition octets :: "int list \<Rightarrow> bool" where
  "octets xs \<longleftrightarrow> length xs = 4 \<and> (\<forall>x \<in> set xs. 0 \<le> x \<and> x \<le> 255)"

fun dotted :: "int list \<Rightarrow> string" where
  "dotted [] = []"
| "dotted [x] = itoa x"
| "dotted (x # xs) = itoa x @ CHR ''.'' # dotted xs"

lemma go_split_append: "sep \<notin> set xs \<Longrightarrow> go_split sep (xs @ sep # ys) = xs # go_split sep ys"
  by (induction xs) auto

lemma go_split_no_sep: "sep \<notin> set xs \<Longrightarrow> go_split sep xs = [xs]"
  by (induction xs) auto

lemma nat_digits_chars: "c \<in> set (nat_digits n) \<Longrightarrow> \<exists>d < 10. c = digit_char d"
proof (induction n rule: nat_digits.induct)
  case (1 n)
  show ?case
  proof (cases "n < 10")
    case True
    then show ?thesis using "1.prems" by (subst (asm) nat_digits.simps) auto
  next
    case False
    then have "c \<in> set (nat_digits (n div 10)) \<or> c = digit_char (n mod 10)"
      using "1.prems" by (subst (asm) nat_digits.simps) auto
    then show ?thesis using "1.IH" [OF False] by (auto intro: exI [of _ "n mod 10"])
  qed
qed

lemma itoa_no_dot: "0 \<le> n \<Longrightarrow> CHR ''.'' \<notin> set (itoa n)"
proof
  assume "0 \<le> n" "CHR ''.'' \<in> set (itoa n)"
  then obtain d where "d < 10" "CHR ''.'' = digit_char d" using nat_digits_chars [of "CHR ''.''" "nat n"] by (auto simp: itoa_def)
  then have "(of_char (CHR ''.'') :: nat) = of_char (digit_char d)" by simp
  then show False using \<open>d < 10\<close> by (simp add: digit_char_def)
qed

lemma go_split_dotted: "xs \<noteq> [] \<Longrightarrow> \<forall>x \<in> set xs. 0 \<le> x \<Longrightarrow> go_split CHR ''.'' (dotted xs) = map itoa xs"
  by (induction xs rule: dotted.induct) (auto simp: go_split_append go_split_no_sep itoa_no_dot)

lemma ip_loop_octets:
  assumes "octets [a, b, c, d]"
  shows "ip_loop (map itoa [a, b, c, d]) 0 0 = Some (a * 2 ^ 24 + b * 2 ^ 16 + c * 2 ^ 8 + d)"
proof -
  have x: "go_atoi (itoa x) = Some x" if "0 \<le> x" "x \<le> 255" for x using that by (intro go_atoi_itoa) (simp add: in_int64_def)
  have w: "wrap64 n = n" if "0 \<le> n" "n < 2 ^ 40" for n using that by (intro wrap64_id) (simp add: in_int64_def)
  show ?thesis using assms by (simp add: octets_def x w)
qed

lemma digit_order:
  fixes a b x y k :: int
  assumes "0 \<le> x \<and> x \<le> k - 1" and "0 \<le> y \<and> y \<le> k - 1"
  shows "a * k + x < b * k + y \<longleftrightarrow> a < b \<or> a = b \<and> x < y" and "a * k + x = b * k + y \<longleftrightarrow> a = b \<and> x = y"
proof -
  have k: "0 < k" using assms by simp
  have step: "a * k + k \<le> b * k" if "a < b" for a b :: int
    using mult_right_mono [of "a + 1" b k] that k by (simp add: distrib_right)
  show "a * k + x < b * k + y \<longleftrightarrow> a < b \<or> a = b \<and> x < y" and "a * k + x = b * k + y \<longleftrightarrow> a = b \<and> x = y"
    using step [of a b] step [of b a] assms by (cases a b rule: linorder_cases; force)+
qed

text \<open>The address index orders nodes by their IPv4 address: for the first internal address in dotted
  notation the index is its 32-bit value, so two indices compare as the addresses do, octet by octet.\<close>

lemma ip_index_order:
  assumes "octets xs" and "octets ys"
  shows "\<exists>i j. ip_addresses [(''InternalIP'', dotted xs)] = Some i \<and> ip_addresses [(''InternalIP'', dotted ys)] = Some j \<and>
           (i < j \<longleftrightarrow> xs < ys) \<and> (i = j \<longleftrightarrow> xs = ys)"
proof -
  obtain a b c d where xs: "xs = [a, b, c, d]" using assms(1) by (auto simp: octets_def length_Suc_conv eval_nat_numeral)
  obtain a' b' c' d' where ys: "ys = [a', b', c', d']" using assms(2) by (auto simp: octets_def length_Suc_conv eval_nat_numeral)
  have ip: "ip_addresses [(''InternalIP'', dotted [a, b, c, d])] = Some (a * 2 ^ 24 + b * 2 ^ 16 + c * 2 ^ 8 + d)"
    if "octets [a, b, c, d]" for a b c d
    using that go_split_dotted [of "[a, b, c, d]"] ip_loop_octets [OF that] by (simp add: octets_def del: ip_loop.simps dotted.simps)
  have r: "0 \<le> a \<and> a \<le> 255" "0 \<le> b \<and> b \<le> 255" "0 \<le> c \<and> c \<le> 255" "0 \<le> d \<and> d \<le> 255"
    "0 \<le> a' \<and> a' \<le> 255" "0 \<le> b' \<and> b' \<le> 255" "0 \<le> c' \<and> c' \<le> 255" "0 \<le> d' \<and> d' \<le> 255"
    using assms by (simp_all add: octets_def xs ys)
  have lt: "xs < ys \<longleftrightarrow> a < a' \<or> a = a' \<and> (b < b' \<or> b = b' \<and> (c < c' \<or> c = c' \<and> d < d'))" by (simp add: xs ys)
  have horner: "x * 2 ^ 24 + y * 2 ^ 16 + z * 2 ^ 8 + w = ((x * 256 + y) * 256 + z) * 256 + w" for x y z w :: int by simp
  have digits: "p * 256 + x < q * 256 + y \<longleftrightarrow> p < q \<or> p = q \<and> x < y" "p * 256 + x = q * 256 + y \<longleftrightarrow> p = q \<and> x = y"
    if "0 \<le> x \<and> x \<le> 255" "0 \<le> y \<and> y \<le> 255" for p q x y :: int using digit_order [of x 256 y] that by simp_all
  have "a * 2 ^ 24 + b * 2 ^ 16 + c * 2 ^ 8 + d < a' * 2 ^ 24 + b' * 2 ^ 16 + c' * 2 ^ 8 + d' \<longleftrightarrow> xs < ys"
    unfolding horner lt using r by (simp only: digits simp_thms) blast
  moreover have "a * 2 ^ 24 + b * 2 ^ 16 + c * 2 ^ 8 + d = a' * 2 ^ 24 + b' * 2 ^ 16 + c' * 2 ^ 8 + d' \<longleftrightarrow> xs = ys"
    unfolding horner xs ys using r by (simp only: digits list.inject simp_thms conj_assoc)
  ultimately show ?thesis using ip assms unfolding xs ys by auto
qed

section \<open>A sample cluster\<close>

definition sample_tnode :: "string \<Rightarrow> int \<Rightarrow> tnode" where
  "sample_tnode name ip = \<lparr>tn_name = name, tn_ip = ip, tn_pod = []\<rparr>"

definition sample_tpod :: "string \<Rightarrow> (string \<times> string) list \<Rightarrow> tpod" where
  "sample_tpod name annotations = \<lparr>tp_Meta = (blank_meta name)\<lparr>om_Annotations := annotations\<rparr>, tp_NodeName = []\<rparr>"

definition sample_nodeInfo :: "string \<Rightarrow> string \<Rightarrow> nodeInfo" where
  "sample_nodeInfo name rack =
     \<lparr>ni_Meta = (blank_meta name)\<lparr>om_Labels := [(NodeRackLabel, rack)]\<rparr>, ni_Addresses = [], ni_Pods = []\<rparr>"

text \<open>Every pod belongs to the group \<open>g\<close>, every node passes the filters, and slices have no spare capacity.\<close>

definition sample_fw :: "nodeInfo list \<Rightarrow> tpod list \<Rightarrow> fw" where
  "sample_fw nodes pods =
     \<lparr>GroupName = ''amd.com'', GetPodGroupLabel = (\<lambda>_. ''g''), PodPriority = (\<lambda>_. 0), GetNamespacedName = tp_Name,
      MaxNodeScore = 100, MinNodeScore = 0, slice_cap = (\<lambda>n. n), NodeInfos = Inr nodes, RunFilterPlugins = (\<lambda>_ _. True),
      list_GroupPods = (\<lambda>_ _. Inr pods), PodGroup_MinMember = (\<lambda>_ _. Inr (int (length pods))),
      PodGroup_Created = (\<lambda>_ _. Inr 0)\<rparr>"

definition small_racks :: "rackNode list" where
  "small_racks = [\<lparr>rn_rack = ''r1'', rn_nodes = [sample_tnode ''a'' 1, sample_tnode ''b'' 4]\<rparr>,
                  \<lparr>rn_rack = ''r2'', rn_nodes = [sample_tnode ''c'' 2, sample_tnode ''d'' 3]\<rparr>]"

lemma filter_selects_witness:
  "\<exists>fs. filter_nodes (sample_fw [] []) small_racks 1 3 = Some fs \<and> int (length fs) = 3 \<and> sorted (map tn_ip fs)"
proof -
  have "racks_even small_racks 1 3" "rack_total small_racks = 4"
    by (simp_all add: racks_even_def rack_total_def small_racks_def unit_length_def go_div_def nth_Cons' less_Suc_eq)
  then show ?thesis using filter_selects [of 1 3 small_racks "sample_fw [] []"] by auto
qed

definition two_nodes :: "nodeInfo list" where
  "two_nodes = [sample_nodeInfo ''a'' ''r1'', sample_nodeInfo ''b'' ''r1'']"

definition two_pods :: "tpod list" where
  "two_pods = [sample_tpod ''p'' [], sample_tpod ''q'' []]"

lemma two_simps [simp]:
  "map (\<lambda>n. om_Name (ni_Meta n)) two_nodes = [''a'', ''b'']" "map tp_Name two_pods = [''p'', ''q'']" "length two_pods = 2"
  "om_Name (ni_Meta (sample_nodeInfo n r)) = n" "tp_Name (sample_tpod p l) = p" "filter (\<lambda>n. True) two_nodes = two_nodes"
  "length two_nodes = 2"
  by (simp_all add: two_nodes_def two_pods_def sample_nodeInfo_def sample_tpod_def blank_meta_def)

lemma two_racks:
  "collect_racks (sample_fw two_nodes two_pods) (sample_tpod ''p'' []) two_nodes [] =
     Some [\<lparr>rn_rack = ''r1'', rn_nodes = [sample_tnode ''a'' 0, sample_tnode ''b'' 0]\<rparr>]"
  by code_simp

lemma two_unit: "getUnit (sample_fw two_nodes two_pods) (sample_tpod ''p'' []) = 1"
  by code_simp

lemma two_even: "racks_even (sort_racks [\<lparr>rn_rack = ''r1'', rn_nodes = [sample_tnode ''a'' 0, sample_tnode ''b'' 0]\<rparr>]) 1 2"
  by (simp add: racks_even_def sort_racks_def go_sort_def unit_length_def go_div_def)


lemma permit_gang_witness:
  "\<exists>allocated. (2 :: int) \<le> int (card allocated) \<and> allocated \<subseteq> {''a'', ''b''}"
proof -
  let ?F = "sample_fw two_nodes two_pods"
  have p: "Permit ?F (sample_tpod ''p'' []) ''a'' = Success" by code_simp
  have "GetPodGroupLabel ?F (sample_tpod ''p'' []) \<noteq> ''''" by (simp add: sample_fw_def)
  from permit_gang [OF p this] obtain nodes minMember allocated where
    *: "NodeInfos ?F = Inr nodes" "Inr minMember = (Inr 2 :: goerr + int)" "minMember \<le> int (card allocated)"
    "\<forall>x \<in> allocated. x = ''a'' \<or> (\<exists>n \<in> set nodes. om_Name (ni_Meta n) = x)"
    by (fastforce simp: sample_fw_def)
  have "nodes = two_nodes" using *(1) by (simp add: sample_fw_def)
  then have "allocated \<subseteq> {''a'', ''b''}" using *(4) by (auto simp: two_nodes_def)
  then show ?thesis using *(2,3) by auto
qed

lemma ip_index_order_witness:
  "\<exists>i j. ip_addresses [(''InternalIP'', ''10.0.0.9'')] = Some i \<and> ip_addresses [(''InternalIP'', ''10.0.0.12'')] = Some j \<and> i < j"
proof -
  have "dotted [10, 0, 0, 9] = ''10.0.0.9''" "dotted [10, 0, 0, 12] = ''10.0.0.12''" by code_simp+
  moreover have "octets [10, 0, 0, 9]" "octets [10, 0, 0, 12]" by (simp_all add: octets_def)
  ultimately show ?thesis using ip_index_order [of "[10, 0, 0, 9]" "[10, 0, 0, 12]"] by auto
qed

section \<open>Panics\<close>

definition uneven_racks :: "rackNode list" where
  "uneven_racks = [\<lparr>rn_rack = ''r1'', rn_nodes = map (sample_tnode ''a'') [1, 2, 3, 4]\<rparr>,
                   \<lparr>rn_rack = ''r2'', rn_nodes = [sample_tnode ''b'' 5]\<rparr>]"

text \<open>The selection panics where the first case compares a rack with itself: four pods fit the rack of four
  nodes exactly, but the loop cuts four nodes from the other rack, which has one; the larger rack alone
  is a placement. A group whose parallelism annotations multiply to less than one, which the plugin does not
  reject, makes the unit zero and the division panics on any rack.\<close>

lemma uneven_racks_panic:
  "filter_nodes (sample_fw [] []) uneven_racks 1 4 = None \<and> rack_total uneven_racks = 5 \<and>
   getUnit (sample_fw [] []) (sample_tpod ''p'' [(''amd.com.tp'', ''-1'')]) = 0 \<and>
   filter_nodes F (r # racks) 0 n = None"
proof -
  have "filter_nodes (sample_fw [] []) uneven_racks 1 4 = None"
    by (simp add: filter_nodes_def uneven_racks_def sample_fw_def unit_length_def go_div_def rack_prefix_def slice_to_def)
  moreover have "rack_total uneven_racks = 5" by (simp add: rack_total_def uneven_racks_def)
  moreover have "getUnit (sample_fw [] []) (sample_tpod ''p'' [(''amd.com.tp'', ''-1'')]) = 0" by code_simp
  ultimately show ?thesis by (simp add: filter_nodes_def)
qed

end
