(* ===== verification/Nodes.thy ===== *)
theory Nodes
  imports Node_Usage Go_Sort Samples
begin

text \<open>
  \<^verbatim>\<open>common/pkg/nodes/nodes.go\<close>: the pods on the nodes of a cluster, the nodes of workspaces, and which of
  them are idle. The functions read through the client they are given: its answers are the arguments
  \<open>listP\<close>, \<open>listN\<close> and \<open>listW\<close>.
\<close>

section \<open>Pods of a data-plane cluster\<close>

record 'q kcontainer =
  kc_Name :: string
  kc_Env :: "(string \<times> string) list"
  kc_Requests :: "'q resource_list"

record terminated =
  tm_FinishedAt :: gotime
  tm_ExitCode :: int
  tm_Message :: string

record container_status =
  cst_Name :: string
  cst_Terminated :: "terminated option"

record 'q kpod =
  kp_Meta :: ObjectMeta
  kp_NodeName :: string
  kp_Containers :: "'q kcontainer list"
  kp_Phase :: string
  kp_HostIP :: string
  kp_PodIP :: string
  kp_StartTime :: "gotime option"
  kp_Reason :: string
  kp_Message :: string
  kp_ContainerStatuses :: "container_status list"

definition kpod_IsPodRunning :: "'q kpod \<Rightarrow> bool" where
  "kpod_IsPodRunning p \<longleftrightarrow>
     PodSucceeded \<noteq> kp_Phase p \<and> PodFailed \<noteq> kp_Phase p \<and>
     time_IsZero (om_DeletionTimestamp (kp_Meta p)) \<and> kp_NodeName p \<noteq> ''''"

definition filter_pods :: "'q kpod list \<Rightarrow> 'q kpod list" where
  "filter_pods podList = filter kpod_IsPodRunning podList"

text \<open>\<open>listP namespace node\<close> lists the pods of a namespace, of one node if a field selector is given.\<close>

fun list_pods_loop :: "(string \<Rightarrow> string option \<Rightarrow> goerr + 'q kpod list) \<Rightarrow> string list \<Rightarrow> string \<Rightarrow> goerr + 'q kpod list" where
  "list_pods_loop listP [] namespace = Inr []"
| "list_pods_loop listP (n # ns) namespace =
     ebind (listP namespace (Some n)) (\<lambda>pods.
       ebind (list_pods_loop listP ns namespace) (\<lambda>rest. Inr (filter_pods pods @ rest)))"

definition ListPods :: "(string \<Rightarrow> string option \<Rightarrow> goerr + 'q kpod list) \<Rightarrow> string list \<Rightarrow> string \<Rightarrow> goerr + 'q kpod list" where
  "ListPods listP k8sNodeNames namespace =
     (if k8sNodeNames = [] then ebind (listP namespace None) (\<lambda>pods. Inr (filter_pods pods))
      else list_pods_loop listP k8sNodeNames namespace)"

text \<open>\<^verbatim>\<open>common/pkg/workload\<close>: the workloads that have a running pod on a node, once per pod.\<close>

definition GetWorkloadsOfK8sNode ::
  "(string \<Rightarrow> string option \<Rightarrow> goerr + 'q kpod list) \<Rightarrow> string \<Rightarrow> string \<Rightarrow> goerr + string list" where
  "GetWorkloadsOfK8sNode listP k8sNodeName namespace =
     (if namespace = '''' then Inr []
      else ebind (ListPods listP [k8sNodeName] namespace) (\<lambda>pods.
             Inr (List.map_filter (\<lambda>p. case mget (om_Labels (kp_Meta p)) WorkloadIdLabel of
                                         Some name \<Rightarrow> if name \<noteq> '''' then Some name else None
                                       | None \<Rightarrow> None) pods)))"

definition pod_requests :: "('q, 'z) ext_scheme \<Rightarrow> 'q kpod \<Rightarrow> 'q resource_list \<Rightarrow> 'q::linordered_ab_group_add resource_list" where
  "pod_requests E p resources =
     fold (\<lambda>c r. if kc_Requests c = [] then r else AddResource E [r, kc_Requests c]) (kp_Containers p) resources"

definition nodes_GetPodResources ::
  "('q, 'z) ext_scheme \<Rightarrow> (string \<Rightarrow> string option \<Rightarrow> goerr + 'q kpod list) \<Rightarrow> string list \<Rightarrow> string
     \<Rightarrow> goerr + (string, 'q::linordered_ab_group_add resource_list) gomap" where
  "nodes_GetPodResources E listP k8sNodeNames namespace =
     ebind (ListPods listP k8sNodeNames namespace) (\<lambda>pods.
       Inr (fold (\<lambda>p result. mput result (kp_NodeName p) (pod_requests E p (mget0 [] result (kp_NodeName p)))) pods []))"

section \<open>Nodes of workspaces and clusters\<close>

definition FilterDeletingNode :: "'q Node \<Rightarrow> bool" where
  "FilterDeletingNode n \<longleftrightarrow> \<not> time_IsZero (om_DeletionTimestamp (n_Meta n))"

definition GetNodesOfWorkspaces ::
  "((ObjectMeta \<Rightarrow> bool) \<Rightarrow> goerr + 'q Node list) \<Rightarrow> string list \<Rightarrow> ('q Node \<Rightarrow> bool) \<Rightarrow> goerr + 'q Node list" where
  "GetNodesOfWorkspaces listN workspaceNames filterFunc =
     ebind (listN (label_in WorkspaceIdLabel workspaceNames)) (\<lambda>nodes. Inr (filter (\<lambda>n. \<not> filterFunc n) nodes))"

definition GetNodesOfCluster ::
  "((ObjectMeta \<Rightarrow> bool) \<Rightarrow> goerr + 'q Node list) \<Rightarrow> string \<Rightarrow> ('q Node \<Rightarrow> bool) \<Rightarrow> goerr + 'q Node list" where
  "GetNodesOfCluster listN clusterId filterFunc =
     ebind (listN (label_is ClusterIdLabel clusterId)) (\<lambda>nodes. Inr (filter (\<lambda>n. \<not> filterFunc n) nodes))"

definition GetInternalIp :: "(string \<times> string) list \<Rightarrow> string" where
  "GetInternalIp addresses =
     (case find (\<lambda>a. fst a = ''InternalIP'') addresses of None \<Rightarrow> '''' | Some a \<Rightarrow> snd a)"

text \<open>The nodes a workload occupies, from the aggregate or from its pods.\<close>

definition used_nodes :: "Workload \<Rightarrow> string list" where
  "used_nodes w =
     (if IsEnd w then []
      else if length (st_NodeUsage (w_Status w)) > 0
      then filter (\<lambda>n. n \<noteq> '''') (map npu_Node (st_NodeUsage (w_Status w)))
      else map pod_AdminNodeName (filter IsPodRunning (st_Pods (w_Status w))))"

definition GetIdleNodesOfWorkspace ::
  "((Workload \<Rightarrow> bool) \<Rightarrow> goerr + Workload list) \<Rightarrow> ((ObjectMeta \<Rightarrow> bool) \<Rightarrow> goerr + 'q Node list) \<Rightarrow> string \<Rightarrow> goerr + 'q Node list" where
  "GetIdleNodesOfWorkspace listW listN name =
     ebind (listW (\<lambda>w. label_is WorkspaceIdLabel name (w_Meta w))) (\<lambda>workloads.
       let usedNodesSet = NewSetByKeys (concat (map used_nodes workloads)) in
       GetNodesOfWorkspaces listN [name] (\<lambda>n. FilterDeletingNode n \<or> set_Has usedNodesSet (om_Name (n_Meta n))))"

definition using_nodes :: "Workload \<Rightarrow> string list" where
  "using_nodes w =
     (if IsEnd w then []
      else if length (st_NodeUsage (w_Status w)) > 0 then map npu_Node (st_NodeUsage (w_Status w))
      else map pod_AdminNodeName (st_Pods (w_Status w)))"

definition GetUsingNodesOfCluster :: "((Workload \<Rightarrow> bool) \<Rightarrow> goerr + Workload list) \<Rightarrow> string \<Rightarrow> goerr + strset" where
  "GetUsingNodesOfCluster listW clusterId =
     ebind (listW (\<lambda>w. label_is ClusterIdLabel clusterId (w_Meta w))) (\<lambda>workloads.
       Inr (NewSetByKeys (concat (map using_nodes workloads))))"

definition NodeSlice_Less :: "'q Node \<Rightarrow> 'q Node \<Rightarrow> bool" where
  "NodeSlice_Less ni nj =
     (if \<not> IsAvailable ni False \<and> IsAvailable nj False then True
      else if \<not> IsAvailable nj False \<and> IsAvailable ni False then False
      else \<not> om_CreationTimestamp (n_Meta ni) < om_CreationTimestamp (n_Meta nj))"

definition GetNodesForScalingDown ::
  "((Workload \<Rightarrow> bool) \<Rightarrow> goerr + Workload list) \<Rightarrow> ((ObjectMeta \<Rightarrow> bool) \<Rightarrow> goerr + 'q Node list) \<Rightarrow> string \<Rightarrow> int
     \<Rightarrow> goerr + 'q Node list" where
  "GetNodesForScalingDown listW listN workspace n =
     (if n \<le> 0 then Inl (plain_error ''the count is less equal 0'')
      else
        ebind (GetIdleNodesOfWorkspace listW listN workspace) (\<lambda>nodes.
          if n < int (length nodes) then Inr (take (nat n) (go_sort NodeSlice_Less nodes)) else Inr nodes))"

section \<open>Scaling down\<close>

interpretation scale_order: class_order NodeSlice_Less "\<lambda>n. IsAvailable n False"
  by unfold_locales (auto simp: NodeSlice_Less_def)

lemma set_Has_NewSetByKeys: "set_Has (NewSetByKeys ks) k \<longleftrightarrow> k \<in> set ks"
proof -
  have "set_Has (fold (\<lambda>key s. mput s key ()) ks s) k \<longleftrightarrow> k \<in> set ks \<or> set_Has s k" for s
    by (induction ks arbitrary: s) (auto simp: set_Has_def)
  then show ?thesis by (simp add: NewSetByKeys_def set_Insert_def set_New_def set_Has_def)
qed

lemma GetIdleNodesOfWorkspace_iff:
  assumes "listW (\<lambda>w. label_is WorkspaceIdLabel name (w_Meta w)) = Inr ws" and "listN (label_in WorkspaceIdLabel [name]) = Inr ns"
  shows "GetIdleNodesOfWorkspace listW listN name =
         Inr (filter (\<lambda>n. \<not> FilterDeletingNode n \<and> (\<forall>w \<in> set ws. om_Name (n_Meta n) \<notin> set (used_nodes w))) ns)"
  using assms by (simp add: GetIdleNodesOfWorkspace_def GetNodesOfWorkspaces_def Let_def set_Has_NewSetByKeys)

text \<open>Scaling down takes idle nodes of the workspace only, as many as asked for if there are as many, and
  an available node only if every unavailable idle node is taken too.\<close>

lemma scale_down_idle:
  assumes "GetNodesForScalingDown listW listN workspace n = Inr res"
    and "listW (\<lambda>w. label_is WorkspaceIdLabel workspace (w_Meta w)) = Inr ws" and "listN (label_in WorkspaceIdLabel [workspace]) = Inr ns"
  shows "(\<forall>x \<in> set res. x \<in> set ns \<and> time_IsZero (om_DeletionTimestamp (n_Meta x)) \<and>
            (\<forall>w \<in> set ws. om_Name (n_Meta x) \<notin> set (used_nodes w))) \<and>
         int (length res) = min n (int (length (filter (\<lambda>x. \<not> FilterDeletingNode x \<and> (\<forall>w \<in> set ws. om_Name (n_Meta x) \<notin> set (used_nodes w))) ns))) \<and>
         (\<forall>x \<in> set res. \<forall>y \<in> set ns. IsAvailable x False \<and> \<not> IsAvailable y False \<and> \<not> FilterDeletingNode y \<and>
            (\<forall>w \<in> set ws. om_Name (n_Meta y) \<notin> set (used_nodes w)) \<longrightarrow> y \<in> set res)"
proof -
  let ?P = "\<lambda>x :: 'a Node. \<not> FilterDeletingNode x \<and> (\<forall>w \<in> set ws. om_Name (n_Meta x) \<notin> set (used_nodes w))"
  let ?idle = "filter ?P ns"
  have n: "0 < n" and res: "res = (if n < int (length ?idle) then take (nat n) (go_sort NodeSlice_Less ?idle) else ?idle)"
    using assms(1) by (auto simp: GetNodesForScalingDown_def GetIdleNodesOfWorkspace_iff [of listW workspace ws listN ns, OF assms(2,3)] split: if_splits)
  have "set (take (nat n) (go_sort NodeSlice_Less ?idle)) \<subseteq> set ?idle"
    using set_take_subset [of "nat n" "go_sort NodeSlice_Less ?idle"] by (simp only: set_go_sort)
  then have "set res \<subseteq> set ?idle" unfolding res by (cases "n < int (length ?idle)") simp_all
  moreover have "int (length res) = min n (int (length ?idle))" unfolding res using n by auto
  moreover have "y \<in> set res" if "x \<in> set res" "y \<in> set ?idle" "IsAvailable x False" "\<not> IsAvailable y False" for x y
    using that scale_order.take_classes [of x "nat n" ?idle y] unfolding res by (auto split: if_splits)
  ultimately show ?thesis by (auto simp: FilterDeletingNode_def)
qed

definition idle_node :: "string \<Rightarrow> int \<Rightarrow> int Node" where
  "idle_node name created =
     \<lparr>n_Meta = (blank_meta name)\<lparr>om_CreationTimestamp := created, om_Labels := [(WorkspaceIdLabel, ''ws'')]\<rparr>,
      n_Spec = \<lparr>ns_Cluster = None, ns_Workspace = Some ''ws'', ns_NodeFlavor = None, ns_NodeTemplate = None, ns_Hostname = None,
        ns_PrivateIP = [], ns_PublicIP = [], ns_Port = None, ns_Taints = [], ns_SSHSecret = None\<rparr>,
      n_Status = \<lparr>nst_MachineStatus = \<lparr>ms_HostName = [], ms_Phase = [], ms_PrivateIP = [], ms_CommandStatus = [], ms_UpdateTime = None\<rparr>,
        nst_ClusterStatus = \<lparr>ncs_Phase = [], ncs_Cluster = None, ncs_CommandStatus = []\<rparr>, nst_Unschedulable = False, nst_Taints = [],
        nst_Resources = [], nst_Conditions = []\<rparr>\<rparr>"

lemma scale_down_idle_witness:
  "\<exists>res. GetNodesForScalingDown (\<lambda>_. Inr []) (\<lambda>_. Inr [idle_node ''a'' 1, idle_node ''b'' 2]) ''ws'' 1 = Inr res \<and>
         length res = 1 \<and> set res \<subseteq> {idle_node ''a'' 1, idle_node ''b'' 2}"
proof -
  let ?ns = "[idle_node ''a'' 1, idle_node ''b'' 2]"
  have f: "filter (\<lambda>x. \<not> FilterDeletingNode x \<and> (\<forall>w \<in> set []. om_Name (n_Meta x) \<notin> set (used_nodes w))) ?ns = ?ns"
    by (simp add: FilterDeletingNode_def idle_node_def blank_meta_def time_IsZero_def)
  obtain res where r: "GetNodesForScalingDown (\<lambda>_. Inr []) (\<lambda>_. Inr ?ns) ''ws'' 1 = Inr res"
    by (cases "GetNodesForScalingDown (\<lambda>_. Inr []) (\<lambda>_. Inr ?ns) ''ws'' 1")
      (auto simp: GetNodesForScalingDown_def GetIdleNodesOfWorkspace_def GetNodesOfWorkspaces_def Let_def split: if_splits)
  from scale_down_idle [OF r, of "[]" ?ns] f have "int (length res) = 1" "set res \<subseteq> set ?ns" by auto
  then show ?thesis using r by auto
qed

end
