(* ===== verification/Fault_Common.thy ===== *)
theory Fault_Common
  imports Workload_Common
begin

text \<open>
  \<^verbatim>\<open>common/pkg/faults/faults.go\<close>: the names of faults and the taints that belong to them, and the
  configuration maps that configure faults and failovers.
\<close>

record ConfigMap =
  cm_Meta :: ObjectMeta
  cm_Data :: strmap

definition TaintAction :: string where "TaintAction = ''taint''"
definition AddonMonitorId :: string where "AddonMonitorId = ''501''"
definition MaxNameLength :: nat where "MaxNameLength = 63"

definition GenerateFaultId :: "string \<Rightarrow> string \<Rightarrow> string" where
  "GenerateFaultId adminNodeId monitorId = NormalizeName (adminNodeId @ ''-'' @ monitorId)"

definition GenerateTaintKey :: "string \<Rightarrow> string" where
  "GenerateTaintKey key = take MaxNameLength (NormalizeName (PrimusSafePrefix @ key))"

text \<open>The parameter \<open>ToString\<close> is \<^verbatim>\<open>Taint.ToString\<close> of the Kubernetes library.\<close>

definition IsTaintsEqualIgnoreOrder :: "(Taint \<Rightarrow> string) \<Rightarrow> Taint list \<Rightarrow> Taint list \<Rightarrow> bool" where
  "IsTaintsEqualIgnoreOrder ToString taints1 taints2 \<longleftrightarrow>
     length taints1 = length taints2 \<and>
     list_all (\<lambda>t. set_Has (NewSetByKeys (map ToString taints1)) (ToString t)) taints2"

definition HasTaintKey :: "Taint list \<Rightarrow> string \<Rightarrow> bool" where
  "HasTaintKey taints key \<longleftrightarrow> list_ex (\<lambda>t. taint_Key t = key) taints"

definition GetCustomerTaints :: "Taint list \<Rightarrow> Taint list" where
  "GetCustomerTaints taints = filter (\<lambda>t. \<not> has_prefix (taint_Key t) PrimusSafePrefix) taints"

definition IsSystemReservedTaint :: "string \<Rightarrow> bool" where
  "IsSystemReservedTaint taintKey \<longleftrightarrow> slice_Contains [AddonMonitorId, StickyNodesMonitorId] (GetIdByTaintKey taintKey)"

end
