(* ===== verification/Failover.thy ===== *)
theory Failover
  imports Data_Plane Ttl_Cron Nodes Fault_Common "HOL-Library.Sublist"
begin

text \<open>
  \<^verbatim>\<open>job-manager/pkg/failover\<close>: which workloads are failed over, on a failure of their own, on preemption and
  on a fault of a node they run on; and the registry of the faults that cause a failover. The pods of a
  data-plane cluster and the JSON decoder are fields of the parameter \<open>fplane\<close>.
\<close>

record 'q fplane = "'q plane" +
  plane_Pods :: "wlog \<Rightarrow> string \<Rightarrow> string option \<Rightarrow> goerr + 'q kpod list"
  json_FailoverConfig :: "string \<Rightarrow> goerr + string"

definition MaxRetryAttempts :: nat where "MaxRetryAttempts = 10"
definition PrimusFailover :: string where "PrimusFailover = ''primus-safe-failover''"

section \<open>The registry of fault identifiers\<close>

text \<open>A configuration is its identifier.\<close>

type_synonym FailoverConfig = string

definition isMonitorIdExists :: "FailoverConfig object_manager \<Rightarrow> string \<Rightarrow> bool" where
  "isMonitorIdExists failoverManager key \<longleftrightarrow> om_Get failoverManager key \<noteq> None"

fun add_configs ::
  "('q, 'z) fplane_scheme \<Rightarrow> (string \<times> string) list \<Rightarrow> FailoverConfig object_manager \<Rightarrow> strset
     \<Rightarrow> FailoverConfig object_manager \<times> strset" where
  "add_configs E [] om currentIds = (om, currentIds)"
| "add_configs E ((k, val) # data) om currentIds =
     (case json_FailoverConfig E val of
        Inl e \<Rightarrow> add_configs E data om currentIds
      | Inr raw \<Rightarrow>
          let conf = to_lower raw;
              om' = (if isMonitorIdExists om conf then om else AddOrReplace om conf conf)
          in add_configs E data om' (set_Insert [conf] currentIds))"

definition addFailoverConfig ::
  "('q, 'z) fplane_scheme \<Rightarrow> ConfigMap \<Rightarrow> FailoverConfig object_manager \<Rightarrow> FailoverConfig object_manager" where
  "addFailoverConfig E cm failoverManager =
     (case add_configs E (cm_Data cm) failoverManager set_New of
        (om, currentIds) \<Rightarrow>
          fold (\<lambda>key om. if set_Has currentIds key then om else snd (om_Delete om key)) (fst (om_GetAll om)) om)"

definition isFailoverConfigMap :: "ConfigMap \<Rightarrow> bool" where
  "isFailoverConfigMap cm \<longleftrightarrow> om_Name (cm_Meta cm) = PrimusFailover \<and> om_Namespace (cm_Meta cm) = ''primus-safe''"

datatype cm_event = CmCreate ConfigMap | CmUpdate ConfigMap ConfigMap | CmDelete ConfigMap

definition handleConfigmapEvent ::
  "('q, 'z) fplane_scheme \<Rightarrow> cm_event \<Rightarrow> FailoverConfig object_manager \<Rightarrow> FailoverConfig object_manager" where
  "handleConfigmapEvent E evt om =
     (case evt of
        CmCreate cm \<Rightarrow> if isFailoverConfigMap cm then addFailoverConfig E cm om else om
      | CmUpdate oldCm newCm \<Rightarrow>
          if \<not> isFailoverConfigMap oldCm \<or> \<not> isFailoverConfigMap newCm then om
          else if maps_EqualIgnoreOrder (cm_Data oldCm) (cm_Data newCm) then om
          else addFailoverConfig E newCm om
      | CmDelete cm \<Rightarrow> if isFailoverConfigMap cm then om_Clear om else om)"

section \<open>When a workload is failed over\<close>

definition isDisableFailover :: "Workload \<Rightarrow> bool" where
  "isDisableFailover workload =
     (if IsWorkloadDisableFailover (w_Meta workload) then True
      else if \<not> IsWorkloadDispatched (w_Meta workload) \<or> IsEnd workload then True
      else if IsWorkloadPreempted (w_Meta workload) then False
      else ws_MaxRetry (w_Spec workload) \<le> 0 \<or> GetWorkloadDispatchCnt (w_Meta workload) > ws_MaxRetry (w_Spec workload))"

definition isFailoverNeeded :: "Workload \<Rightarrow> bool" where
  "isFailoverNeeded workload =
     (if isDisableFailover workload then False
      else if IsWorkloadPreempted (w_Meta workload) then True
      else FindFailedCondition workload)"

definition failover_Create :: "Workload \<Rightarrow> bool" where
  "failover_Create w = isFailoverNeeded w"

definition failover_Update :: "Workload \<Rightarrow> Workload \<Rightarrow> bool" where
  "failover_Update oldWorkload newWorkload \<longleftrightarrow> \<not> isFailoverNeeded oldWorkload \<and> isFailoverNeeded newWorkload"

definition addFailoverCondition :: "('q, 'z) env_scheme \<Rightarrow> wlog \<Rightarrow> Workload \<Rightarrow> string \<Rightarrow> wresult" where
  "addFailoverCondition E lg workload message =
     (let cond = NewCondition E AdminFailover message (GenerateDispatchReason (GetWorkloadDispatchCnt (w_Meta workload))) in
      if FindCondition workload cond \<noteq> None then (None, lg, workload)
      else
        let w' = workload\<lparr>w_Status := (w_Status workload)\<lparr>st_Conditions := st_Conditions (w_Status workload) @ [cond]\<rparr>\<rparr> in
        PatchWorkloadStatusFields E lg w' [\<lambda>s. s\<lparr>st_Conditions := st_Conditions (w_Status w')\<rparr>])"

section \<open>Faults of a node\<close>

fun fault_attempts :: "('q, 'z) env_scheme \<Rightarrow> Fault \<Rightarrow> string \<Rightarrow> string \<Rightarrow> nat \<Rightarrow> wlog \<Rightarrow> bool \<times> wlog" where
  "fault_attempts E fault message name 0 lg = (True, lg)"
| "fault_attempts E fault message name (Suc n) lg =
     (case get_Workload E lg name of
        Inl e \<Rightarrow> if api_IsNotFound E e then (False, lg) else fault_attempts E fault message name n lg
      | Inr workload \<Rightarrow>
          if isDisableFailover workload \<or> om_CreationTimestamp (w_Meta workload) > om_CreationTimestamp (f_Meta fault) then (False, lg)
          else case addFailoverCondition E lg workload message of
                 (None, lg', w') \<Rightarrow> (True, lg')
               | (Some e, lg', w') \<Rightarrow> fault_attempts E fault message name n lg')"

fun enqueue_workloads :: "('q, 'z) env_scheme \<Rightarrow> Fault \<Rightarrow> string \<Rightarrow> string list \<Rightarrow> wlog \<Rightarrow> string list \<times> wlog" where
  "enqueue_workloads E fault message [] lg = ([], lg)"
| "enqueue_workloads E fault message (name # names) lg =
     (case fault_attempts E fault message name MaxRetryAttempts lg of
        (ok, lg1) \<Rightarrow>
          (case enqueue_workloads E fault message names lg1 of
             (q, lg2) \<Rightarrow> ((if ok then name # q else q), lg2)))"

definition getWorkloadsOnFaultNode :: "('q, 'z) fplane_scheme \<Rightarrow> wlog \<Rightarrow> FaultNode \<Rightarrow> goerr + string list" where
  "getWorkloadsOnFaultNode E lg fnode =
     ebind (get_Node E lg (fn_AdminName fnode)) (\<lambda>adminNode.
       GetWorkloadsOfK8sNode (plane_Pods E lg) (GetK8sNodeName adminNode) (GetWorkspaceId (n_Meta adminNode)))"

definition handleFaultEventImpl ::
  "('q, 'z) fplane_scheme \<Rightarrow> 'o object_manager \<Rightarrow> wlog \<Rightarrow> Fault \<Rightarrow> FaultNode \<Rightarrow> string list \<times> wlog" where
  "handleFaultEventImpl E clusterClientSets lg fault fnode =
     (let message = ''the node '' @ fn_AdminName fnode @ '' has fault '' @ GenerateTaintKey (fs_MonitorId (f_Spec fault)) @
                    '', detail: '' @ fs_Message (f_Spec fault)
      in if om_Get clusterClientSets (fn_ClusterName fnode) = None then ([], lg)
         else case getWorkloadsOnFaultNode E lg fnode of
                Inl e \<Rightarrow> ([], lg)
              | Inr names \<Rightarrow> enqueue_workloads E fault message names lg)"

definition handleFaultEvent ::
  "('q, 'z) fplane_scheme \<Rightarrow> FailoverConfig object_manager \<Rightarrow> 'o object_manager \<Rightarrow> wlog \<Rightarrow> Fault \<Rightarrow> string list \<times> wlog" where
  "handleFaultEvent E failoverConfigs clusterClientSets lg fault =
     (case fs_Node (f_Spec fault) of
        None \<Rightarrow> ([], lg)
      | Some fnode \<Rightarrow>
          if fst_Phase (f_Status fault) \<noteq> FaultPhaseSucceeded then ([], lg)
          else if isMonitorIdExists failoverConfigs (to_lower (fs_MonitorId (f_Spec fault)))
          then handleFaultEventImpl E clusterClientSets lg fault fnode
          else ([], lg))"

section \<open>Reconciliation\<close>

definition failover_handle ::
  "('q, 'z) plane_scheme \<Rightarrow> 'o object_manager \<Rightarrow> wlog \<Rightarrow> Workload \<Rightarrow> reconcile_result \<times> wlog" where
  "failover_handle E clusterClientSets lg workload =
     (if om_Get clusterClientSets (GetClusterId (w_Meta workload)) = None then ((nano, None), lg)
      else case DeleteObjectsByWorkload E lg workload of
             (Inl e, lg1) \<Rightarrow> ((0, Some e), lg1)
           | (Inr _, lg1) \<Rightarrow>
               (case addFailoverCondition E lg1 workload
                       (if IsWorkloadPreempted (w_Meta workload) then ''the workload is preempted''
                        else ''the workload is doing the failover'') of
                  (err, lg2, w') \<Rightarrow> ((0, err), lg2)))"

definition failover_Reconcile ::
  "('q, 'z) plane_scheme \<Rightarrow> 'o object_manager \<Rightarrow> wlog \<Rightarrow> string \<Rightarrow> reconcile_result \<times> wlog" where
  "failover_Reconcile E clusterClientSets lg name =
     (case get_Workload E lg name of
        Inl e \<Rightarrow> if api_IsNotFound E e then ((0, None), lg) else ((0, Some e), lg)
      | Inr workload \<Rightarrow>
          if \<not> time_IsZero (om_DeletionTimestamp (w_Meta workload)) \<or> isDisableFailover workload then ((0, None), lg)
          else if (IsTorchFT workload \<or> IsMonarchJob workload) \<and> \<not> FindFailedCondition workload then ((0, None), lg)
          else failover_handle E clusterClientSets lg workload)"

section \<open>The registry follows the configuration\<close>

definition om_keys :: "'o object_manager \<Rightarrow> string set" where
  "om_keys om = fst ` set (om_objects om)"

lemma om_keys_iff: "k \<in> om_keys om \<longleftrightarrow> om_Get om k \<noteq> None"
  by (force simp: om_keys_def om_Get_def map_of_eq_None_iff)

definition config_ids :: "('q, 'z) fplane_scheme \<Rightarrow> strmap \<Rightarrow> string set" where
  "config_ids E data = {to_lower raw | raw val. val \<in> snd ` set data \<and> json_FailoverConfig E val = Inr raw}"

lemma add_configs_spec:
  assumes "add_configs E data om ids = (om', ids')"
  shows "om_Get om' k \<noteq> None \<longleftrightarrow> om_Get om k \<noteq> None \<or> k \<in> config_ids E data"
    and "set_Has ids' k \<longleftrightarrow> set_Has ids k \<or> k \<in> config_ids E data"
  using assms
proof (induction E data om ids rule: add_configs.induct)
  case (2 E key val data om ids)
  have step: "config_ids E ((key, val) # data) = (case json_FailoverConfig E val of Inl e \<Rightarrow> {} | Inr raw \<Rightarrow> {to_lower raw}) \<union> config_ids E data"
    by (auto simp: config_ids_def split: sum.splits)
  {
    case 1
    then show ?case using 2
      by (auto simp: step isMonitorIdExists_def Let_def set_Has_Insert split: sum.splits if_splits)
  next
    case 2
    then show ?case using "2.IH"
      by (auto simp: step isMonitorIdExists_def Let_def set_Has_Insert split: sum.splits if_splits)
  }
qed (auto simp: config_ids_def)

lemma prune_spec:
  "om_Get (fold (\<lambda>key om. if P key then om else snd (om_Delete om key)) ks om) k \<noteq> None \<longleftrightarrow>
     om_Get om k \<noteq> None \<and> (k \<in> set ks \<longrightarrow> P k)"
  by (induction ks arbitrary: om) auto

text \<open>C38: after a configuration is applied the registry holds exactly the identifiers it names, in lower case:
  those of unreadable entries are ignored, and identifiers of an earlier configuration are gone.\<close>

theorem failover_config_exact:
  "om_keys (addFailoverConfig E cm om) = config_ids E (cm_Data cm)"
proof -
  obtain om1 ids where a: "add_configs E (cm_Data cm) om set_New = (om1, ids)" by force
  have "set_Has set_New k = False" for k by (simp add: set_Has_def set_New_def)
  moreover have "om_Get (addFailoverConfig E cm om) k \<noteq> None \<longleftrightarrow> om_Get om1 k \<noteq> None \<and> (k \<in> om_keys om1 \<longrightarrow> set_Has ids k)" for k
    unfolding addFailoverConfig_def a prod.case om_GetAll_def fst_conv prune_spec by (simp add: om_keys_def)
  ultimately have "k \<in> om_keys (addFailoverConfig E cm om) \<longleftrightarrow> k \<in> config_ids E (cm_Data cm)" for k
    using add_configs_spec [OF a, of k] by (auto simp: om_keys_iff)
  then show ?thesis by blast
qed

section \<open>Failover is bounded and recorded\<close>

lemma isDisableFailover_iff:
  "\<not> isDisableFailover w \<longleftrightarrow>
     \<not> IsWorkloadDisableFailover (w_Meta w) \<and> IsWorkloadDispatched (w_Meta w) \<and> \<not> IsEnd w \<and>
     (IsWorkloadPreempted (w_Meta w) \<or> 0 < ws_MaxRetry (w_Spec w) \<and> GetWorkloadDispatchCnt (w_Meta w) \<le> ws_MaxRetry (w_Spec w))"
  by (auto simp: isDisableFailover_def)

lemma addFailoverCondition_spec:
  assumes "addFailoverCondition E lg w m = (r, lg', w')"
  defines "reason \<equiv> GenerateDispatchReason (GetWorkloadDispatchCnt (w_Meta w))"
  shows "if has_cond (st_Conditions (w_Status w)) AdminFailover reason then r = None \<and> lg' = lg
         else \<exists>x. lg' = lg @ [(PatchStatus x, r)] \<and> w_Meta x = w_Meta w \<and> w_Spec x = w_Spec w \<and>
                x = w\<lparr>w_Status := (w_Status w)\<lparr>st_Conditions := st_Conditions (w_Status w) @ [NewCondition E AdminFailover m reason]\<rparr>\<rparr>"
proof -
  let ?c = "NewCondition E AdminFailover m reason"
  have f: "FindCondition w ?c = None \<longleftrightarrow> \<not> has_cond (st_Conditions (w_Status w)) AdminFailover reason"
    by (simp add: FindCondition_none NewCondition_def)
  show ?thesis
  proof (cases "FindCondition w ?c = None")
    case True
    let ?x = "w\<lparr>w_Status := (w_Status w)\<lparr>st_Conditions := st_Conditions (w_Status w) @ [?c]\<rparr>\<rparr>"
    have p: "PatchWorkloadStatusFields E lg ?x [\<lambda>s. s\<lparr>st_Conditions := st_Conditions (w_Status ?x)\<rparr>] = (r, lg', w')"
      using assms(1) True by (simp add: addFailoverCondition_def Let_def reason_def)
    show ?thesis using PatchWorkloadStatusFields_cases(1) [OF p] f True by simp
  next
    case False
    then show ?thesis using assms(1) f by (auto simp: addFailoverCondition_def Let_def reason_def)
  qed
qed

lemma addFailoverCondition_recorded:
  assumes "addFailoverCondition E lg w m = (r, lg', w')"
  defines "reason \<equiv> GenerateDispatchReason (GetWorkloadDispatchCnt (w_Meta w))"
  shows "lg' = lg \<or> \<not> has_cond (st_Conditions (w_Status w)) AdminFailover reason \<and>
           (\<exists>x. lg' = lg @ [(PatchStatus x, r)] \<and> w_Meta x = w_Meta w \<and> w_Spec x = w_Spec w \<and>
              has_cond (st_Conditions (w_Status x)) AdminFailover reason)"
proof (cases "has_cond (st_Conditions (w_Status w)) AdminFailover reason")
  case True
  then show ?thesis using addFailoverCondition_spec [OF assms(1)] by (simp add: reason_def)
next
  case False
  then obtain x where "lg' = lg @ [(PatchStatus x, r)]" "w_Meta x = w_Meta w" "w_Spec x = w_Spec w"
    "x = w\<lparr>w_Status := (w_Status w)\<lparr>st_Conditions := st_Conditions (w_Status w) @ [NewCondition E AdminFailover m reason]\<rparr>\<rparr>"
    using addFailoverCondition_spec [OF assms(1)] by (auto simp: reason_def)
  moreover from this(4) have "has_cond (st_Conditions (w_Status x)) AdminFailover reason"
    by (simp add: has_cond_def NewCondition_def)
  ultimately show ?thesis using False by blast
qed

text \<open>C33: a reconciliation of the failover controller touches a workload only if it is dispatched, neither
  ended nor being deleted, failover is enabled for it, and it was preempted or has a retry left; all it
  does is to delete objects of the data plane, and then to record the failover once for the current
  dispatch, after the deletions.\<close>

theorem failover_guarded:
  assumes "failover_Reconcile E om lg name = (res, lg')" and "lg' \<noteq> lg"
  shows "\<exists>w dels rec. get_Workload E lg name = Inr w \<and> time_IsZero (om_DeletionTimestamp (w_Meta w)) \<and>
           \<not> IsWorkloadDisableFailover (w_Meta w) \<and> IsWorkloadDispatched (w_Meta w) \<and> \<not> IsEnd w \<and>
           (IsWorkloadPreempted (w_Meta w) \<or> 0 < ws_MaxRetry (w_Spec w) \<and> GetWorkloadDispatchCnt (w_Meta w) \<le> ws_MaxRetry (w_Spec w)) \<and>
           lg' = lg @ dels @ rec \<and> (\<forall>e \<in> set dels. is_PlaneDelete (fst e)) \<and>
           (rec = [] \<or> (\<exists>x. rec = [(PatchStatus x, snd res)] \<and> w_Meta x = w_Meta w \<and> w_Spec x = w_Spec w \<and>
              \<not> has_cond (st_Conditions (w_Status w)) AdminFailover (GenerateDispatchReason (GetWorkloadDispatchCnt (w_Meta w))) \<and>
              has_cond (st_Conditions (w_Status x)) AdminFailover (GenerateDispatchReason (GetWorkloadDispatchCnt (w_Meta w)))))"
proof -
  obtain w where w: "get_Workload E lg name = Inr w" "time_IsZero (om_DeletionTimestamp (w_Meta w))" "\<not> isDisableFailover w"
    and h: "failover_handle E om lg w = (res, lg')"
    using assms by (auto simp: failover_Reconcile_def split: sum.splits if_splits)
  obtain r1 lg1 where d: "DeleteObjectsByWorkload E lg w = (r1, lg1)" by force
  obtain dels where dels: "lg1 = lg @ dels" "\<forall>e \<in> set dels. is_PlaneDelete (fst e)"
    using DeleteObjectsByWorkload_writes [OF d] by (auto simp: writes_only_def)
  let ?reason = "GenerateDispatchReason (GetWorkloadDispatchCnt (w_Meta w))"
  have "\<exists>rec. lg' = lg1 @ rec \<and> (rec = [] \<or> (\<exists>x. rec = [(PatchStatus x, snd res)] \<and> w_Meta x = w_Meta w \<and> w_Spec x = w_Spec w \<and>
      \<not> has_cond (st_Conditions (w_Status w)) AdminFailover ?reason \<and> has_cond (st_Conditions (w_Status x)) AdminFailover ?reason))"
  proof (cases r1)
    case (Inl e)
    then show ?thesis using h d assms(2) by (auto simp: failover_handle_def split: if_splits)
  next
    case (Inr b)
    let ?m = "if IsWorkloadPreempted (w_Meta w) then ''the workload is preempted'' else ''the workload is doing the failover''"
    obtain r2 lg2 w2 where a: "addFailoverCondition E lg1 w ?m = (r2, lg2, w2)" by (metis prod_cases3)
    then have "res = (0, r2)" "lg' = lg2" using h d Inr assms(2) by (auto simp: failover_handle_def split: if_splits)
    moreover have "lg2 = lg1 \<or> \<not> has_cond (st_Conditions (w_Status w)) AdminFailover ?reason \<and>
        (\<exists>x. lg2 = lg1 @ [(PatchStatus x, r2)] \<and> w_Meta x = w_Meta w \<and> w_Spec x = w_Spec w \<and>
           has_cond (st_Conditions (w_Status x)) AdminFailover ?reason)"
      using addFailoverCondition_recorded [OF a] .
    ultimately show ?thesis by auto
  qed
  then obtain rec where "lg' = lg1 @ rec" and rec: "rec = [] \<or> (\<exists>x. rec = [(PatchStatus x, snd res)] \<and> w_Meta x = w_Meta w \<and> w_Spec x = w_Spec w \<and>
      \<not> has_cond (st_Conditions (w_Status w)) AdminFailover ?reason \<and> has_cond (st_Conditions (w_Status x)) AdminFailover ?reason)" by blast
  then have "lg' = lg @ dels @ rec" using dels(1) by simp
  then show ?thesis using w isDisableFailover_iff [of w] dels(2) rec
    by (intro exI [of _ w] exI [of _ dels] exI [of _ rec]) simp
qed

section \<open>A fault reaches the workloads on its node\<close>

definition records_failover :: "Fault \<Rightarrow> apiwrite \<Rightarrow> bool" where
  "records_failover fault a \<longleftrightarrow>
     (\<exists>w x. a = PatchStatus x \<and> \<not> isDisableFailover w \<and> om_CreationTimestamp (w_Meta w) \<le> om_CreationTimestamp (f_Meta fault) \<and>
        w_Meta x = w_Meta w \<and> w_Spec x = w_Spec w \<and>
        \<not> has_cond (st_Conditions (w_Status w)) AdminFailover (GenerateDispatchReason (GetWorkloadDispatchCnt (w_Meta w))) \<and>
        has_cond (st_Conditions (w_Status x)) AdminFailover (GenerateDispatchReason (GetWorkloadDispatchCnt (w_Meta w))))"

lemma fault_attempts_writes:
  "fault_attempts E fault m name n lg = (ok, lg') \<Longrightarrow> writes_only (records_failover fault) lg lg'"
proof (induction n arbitrary: lg)
  case (Suc n)
  show ?case
  proof (cases "get_Workload E lg name")
    case (Inl e)
    then show ?thesis using Suc by (auto split: if_splits)
  next
    case (Inr w)
    obtain r1 lg1 w1 where a: "addFailoverCondition E lg w m = (r1, lg1, w1)" by (metis prod_cases3)
    show ?thesis
    proof (cases "isDisableFailover w \<or> om_CreationTimestamp (w_Meta w) > om_CreationTimestamp (f_Meta fault)")
      case False
      then have "writes_only (records_failover fault) lg lg1"
        using addFailoverCondition_recorded [OF a] by (fastforce simp: records_failover_def)
      then show ?thesis using Suc Inr a False by (auto split: option.splits intro: writes_only_trans)
    qed (use Suc.prems Inr in auto)
  qed
qed simp

lemma enqueue_workloads_writes:
  "enqueue_workloads E fault m names lg = (q, lg') \<Longrightarrow> writes_only (records_failover fault) lg lg' \<and> subseq q names"
proof (induction names arbitrary: lg q lg')
  case (Cons name names)
  obtain ok lg1 where a: "fault_attempts E fault m name MaxRetryAttempts lg = (ok, lg1)" by force
  obtain q2 lg2 where b: "enqueue_workloads E fault m names lg1 = (q2, lg2)" by force
  show ?case using Cons.IH [OF b] Cons.prems fault_attempts_writes [OF a]
    by (auto simp: a b intro: writes_only_trans)
qed simp

lemma fault_attempts_first:
  assumes "get_Workload E lg name = Inr w" and "\<And>l. write_result E l = (\<lambda>_. None)"
  shows "fst (fault_attempts E fault m name (Suc n) lg) \<longleftrightarrow>
           \<not> isDisableFailover w \<and> om_CreationTimestamp (w_Meta w) \<le> om_CreationTimestamp (f_Meta fault)"
proof -
  obtain r1 lg1 w1 where a: "addFailoverCondition E lg w m = (r1, lg1, w1)" by (metis prod_cases3)
  have "r1 = None" using a assms(2)
    by (auto simp: addFailoverCondition_def PatchWorkloadStatusFields_def do_write_def Let_def split: if_splits)
  then show ?thesis using a assms(1) by auto
qed


section \<open>Witnesses\<close>

definition sample_fplane :: "Workload list \<Rightarrow> int Node list \<Rightarrow> int kpod list \<Rightarrow> int fplane" where
  "sample_fplane ws ns pods = plane.extend (env.extend (sample_env ws [] ns [])
     \<lparr>RESTMapping = (\<lambda>gvk. Inr (gvk_Kind gvk)), plane_Get = (\<lambda>_ gvr ns n. Inl (NewNotFound gvr n)), plane_List = (\<lambda>_ gvr ns sel. Inr [])\<rparr>)
     \<lparr>plane_Pods = (\<lambda>_ ns nm. Inr pods), json_FailoverConfig = Inr\<rparr>"

definition failed_job :: Workload where
  "failed_job = (blank_workload ''job'')\<lparr>
     w_Meta := (blank_meta ''job'')\<lparr>om_Annotations := [(WorkloadDispatchedAnnotation, ''1''), (WorkloadPreemptedAnnotation, ''1'')]\<rparr>,
     w_Spec := blank_spec\<lparr>ws_GVK := \<lparr>gvk_Group = [], gvk_Version = ''v1'', gvk_Kind = TorchFTKind\<rparr>\<rparr>,
     w_Status := blank_status\<lparr>st_Conditions := [\<lparr>cond_Type = K8sFailed, cond_Status = [],
       cond_LastTransitionTime = zero_time, cond_Reason = GenerateDispatchReason 0, cond_Message = []\<rparr>]\<rparr>\<rparr>"

definition one_cluster :: "unit object_manager" where
  "one_cluster = \<lparr>om_objects = [('''', ())], om_released = []\<rparr>"

lemma failover_guarded_witness:
  "\<exists>w x. get_Workload (sample_plane [failed_job] []) [] ''job'' = Inr w \<and> IsWorkloadDispatched (w_Meta w) \<and>
     snd (failover_Reconcile (sample_plane [failed_job] []) one_cluster [] ''job'') = [x]"
proof -
  let ?r = "failover_Reconcile (sample_plane [failed_job] []) one_cluster [] ''job''"
  have n: "snd ?r \<noteq> []" and l: "length (snd ?r) = 1" by code_simp+
  have "(fst ?r, snd ?r) = ?r" by simp
  from failover_guarded [OF this [symmetric] n] obtain w
    where "get_Workload (sample_plane [failed_job] []) [] ''job'' = Inr w" "IsWorkloadDispatched (w_Meta w)" by blast
  then show ?thesis using l by (cases "snd ?r") auto
qed

definition running_pod :: "string \<Rightarrow> int kpod" where
  "running_pod name =
     \<lparr>kp_Meta = (blank_meta ''pod'')\<lparr>om_Labels := [(WorkloadIdLabel, name)]\<rparr>, kp_NodeName = ''n1'', kp_Containers = [], kp_Phase = ''Running'',
      kp_HostIP = [], kp_PodIP = [], kp_StartTime = None, kp_Reason = [], kp_Message = [], kp_ContainerStatuses = []\<rparr>"

definition gpu_fault :: Fault where
  "gpu_fault = \<lparr>f_Meta = blank_meta ''fault'',
     f_Spec = \<lparr>fs_MonitorId = ''101'', fs_Message = [], fs_Node = Some \<lparr>fn_ClusterName = '''', fn_AdminName = ''n1''\<rparr>,
       fs_Action = [], fs_IsAutoRepairEnabled = False\<rparr>,
     f_Status = \<lparr>fst_Phase = FaultPhaseSucceeded, fst_UpdateTime = None\<rparr>\<rparr>"


end
