(* ===== verification/Job_Sync.thy ===== *)
theory Job_Sync
  imports Data_Plane Ttl_Cron Nodes
begin

text \<open>
  \<^verbatim>\<open>job-manager/pkg/syncer/syncer_status.go\<close> and \<^verbatim>\<open>job_handler.go\<close>: how an event on an object of a workload in
  a data-plane cluster changes the status of the workload, and when the workload is scheduled again. The
  informers, pods and nodes of the cluster, the status database and the decoders are fields of the
  parameter \<open>splane\<close>.
\<close>

record FailedPodInfo =
  fp_Pod :: string
  fp_Node :: string
  fp_Message :: string
  fp_Container :: Container

record 'q splane = "'q plane" +
  sp_ulib :: ulib
  sp_json :: json_lib
  json_FailedPods :: "FailedPodInfo list \<Rightarrow> string"
  cfg_IsDBEnable :: bool
  db_client :: bool
  db_ListWorkloadPods :: "wlog \<Rightarrow> string \<Rightarrow> goerr + PodRow option list"
  db_ListWorkloadDispatchNodes :: "wlog \<Rightarrow> string \<Rightarrow> goerr + WorkloadDispatchNode option list"
  informer_Get :: "wlog \<Rightarrow> string \<Rightarrow> string \<Rightarrow> string \<Rightarrow> goerr + k8s_object"
  plane_ListPods :: "wlog \<Rightarrow> string \<Rightarrow> (ObjectMeta \<Rightarrow> bool) \<Rightarrow> goerr + 'q kpod list"
  plane_GetNode :: "wlog \<Rightarrow> string \<Rightarrow> goerr + ObjectMeta"
  ConvertUnstructuredToPod :: "k8s_object \<Rightarrow> goerr + 'q kpod"
  plane_GetLogs :: "string \<Rightarrow> string \<Rightarrow> string \<Rightarrow> goerr + string"
  SetControllerReference :: "Workload \<Rightarrow> Fault \<Rightarrow> goerr + OwnerReference list"

definition K8sObjectIdLabel :: string where "K8sObjectIdLabel = PrimusSafePrefix @ ''k8s.object.id''"
definition MaxFailedPodsToShow :: nat where "MaxFailedPodsToShow = 3"
definition MaxConditionHistory :: nat where "MaxConditionHistory = 30"
definition ForceDeleteDelaySeconds :: int where "ForceDeleteDelaySeconds = 60"

section \<open>The status of a workload and the status database\<close>

definition offloads :: "('q, 'z) splane_scheme \<Rightarrow> Workload \<Rightarrow> bool" where
  "offloads E w \<longleftrightarrow> cfg_IsDBEnable E \<and> db_client E \<and> IsWorkloadStatusOffloadEnabled (w_Meta w)"

definition hydrateWorkloadStatusFromDB :: "('q, 'z) splane_scheme \<Rightarrow> wlog \<Rightarrow> string \<Rightarrow> Workload \<Rightarrow> Workload" where
  "hydrateWorkloadStatusFromDB E lg workloadId w =
     (if \<not> offloads E w then w
      else
        let w1 = (case db_ListWorkloadPods E lg workloadId of
                    Inl e \<Rightarrow> w
                  | Inr pods \<Rightarrow> if pods = [] then w
                               else w\<lparr>w_Status := (w_Status w)\<lparr>st_Pods := WorkloadPodsToV1 (sp_json E) pods\<rparr>\<rparr>)
        in case db_ListWorkloadDispatchNodes E lg workloadId of
             Inl e \<Rightarrow> w1
           | Inr rows \<Rightarrow> if rows = [] then w1
                        else w1\<lparr>w_Status := (w_Status w1)\<lparr>st_Nodes := DispatchNodesToV1 (sp_json E) rows,
                                                            st_Ranks := DispatchRanksToV1 (sp_json E) rows\<rparr>\<rparr>)"

fun upsert_nodes :: "('q, 'z) splane_scheme \<Rightarrow> wlog \<Rightarrow> WorkloadDispatchNode option list \<Rightarrow> goerr option \<times> wlog" where
  "upsert_nodes E lg [] = (None, lg)"
| "upsert_nodes E lg (None # rows) = upsert_nodes E lg rows"
| "upsert_nodes E lg (Some row # rows) =
     (case do_write E lg (DbUpsertDispatchNode row) of
        (Some e, lg') \<Rightarrow> (Some e, lg')
      | (None, lg') \<Rightarrow> upsert_nodes E lg' rows)"

definition writeWorkloadStatusToDB :: "('q, 'z) splane_scheme \<Rightarrow> wlog \<Rightarrow> Workload \<Rightarrow> goerr option \<times> wlog" where
  "writeWorkloadStatusToDB E lg w =
     (if \<not> db_client E
      then (Some (plain_error ''database client unavailable while workload status offload is enabled''), lg)
      else
        let dispatchCount = GetWorkloadDispatchCnt (w_Meta w);
            pods = map (WorkloadPodFromV1 (sp_json E) (w_Name w) dispatchCount) (st_Pods (w_Status w));
            keepPodIds = map pod_PodId (st_Pods (w_Status w))
        in case do_write E lg (DbUpsertPods pods) of
             (Some e, lg1) \<Rightarrow> (Some e, lg1)
           | (None, lg1) \<Rightarrow>
               (case do_write E lg1 (DbDeletePodsNotIn (w_Name w) keepPodIds) of
                  (Some e, lg2) \<Rightarrow> (Some e, lg2)
                | (None, lg2) \<Rightarrow>
                    upsert_nodes E lg2 (WorkloadDispatchNodesFromV1 (sp_json E) (w_Name w) (st_Nodes (w_Status w)) (st_Ranks (w_Status w)))))"

text \<open>Only the aggregate per node stays in the status.\<close>

definition offloaded_status :: "Workload \<Rightarrow> Workload" where
  "offloaded_status w =
     w\<lparr>w_Status := (w_Status w)\<lparr>st_NodeUsage := BuildNodeUsage w, st_Pods := [], st_Nodes := [], st_Ranks := []\<rparr>\<rparr>"

definition persistWorkloadStatus :: "('q, 'z) splane_scheme \<Rightarrow> wlog \<Rightarrow> Workload \<Rightarrow> wresult" where
  "persistWorkloadStatus E lg w =
     (if \<not> offloads E w then (case do_write E lg (UpdateStatus w) of (r, lg') \<Rightarrow> (r, lg', w))
      else case writeWorkloadStatusToDB E lg w of
             (Some e, lg1) \<Rightarrow> (Some e, lg1, w)
           | (None, lg1) \<Rightarrow>
               let w' = offloaded_status w in
               (case do_write E lg1 (UpdateStatus w') of (r, lg') \<Rightarrow> (r, lg', w')))"

definition patchWorkloadPodStatus ::
  "('q, 'z) splane_scheme \<Rightarrow> wlog \<Rightarrow> Workload \<Rightarrow> (WorkloadStatus \<Rightarrow> WorkloadStatus) list \<Rightarrow> wresult" where
  "patchWorkloadPodStatus E lg w extraFields =
     (let keep = (\<lambda>w. [\<lambda>s. s\<lparr>st_Pods := st_Pods (w_Status w)\<rparr>, \<lambda>s. s\<lparr>st_Nodes := st_Nodes (w_Status w)\<rparr>,
                       \<lambda>s. s\<lparr>st_Ranks := st_Ranks (w_Status w)\<rparr>])
      in if \<not> offloads E w then PatchWorkloadStatusFields E lg w (keep w @ extraFields)
         else case writeWorkloadStatusToDB E lg w of
                (Some e, lg1) \<Rightarrow> (Some e, lg1, w)
              | (None, lg1) \<Rightarrow>
                  let w' = offloaded_status w in
                  PatchWorkloadStatusFields E lg1 w'
                    ((\<lambda>s. s\<lparr>st_NodeUsage := st_NodeUsage (w_Status w')\<rparr>) # keep w' @ extraFields))"

definition getAdminWorkload :: "('q, 'z) splane_scheme \<Rightarrow> wlog \<Rightarrow> string \<Rightarrow> goerr + Workload option" where
  "getAdminWorkload E lg workloadId =
     (case get_Workload E lg workloadId of
        Inl e \<Rightarrow> if api_IsNotFound E e then Inr None else Inl e
      | Inr w \<Rightarrow> Inr (Some (hydrateWorkloadStatusFromDB E lg workloadId w)))"

section \<open>The phase of a workload\<close>

abbreviation torchft_phase :: "Workload \<Rightarrow> int \<Rightarrow> string" where
  "torchft_phase w i \<equiv> mget0 '''' (st_TorchFTPhase (w_Status w)) (itoa i)"

abbreviation replica_or_zero :: "Workload \<Rightarrow> string \<Rightarrow> int" where
  "replica_or_zero w key \<equiv> (case GetReplicaCount w key of Inl e \<Rightarrow> 0 | Inr n \<Rightarrow> n)"

definition isTorchFTGroupFailed :: "Workload \<Rightarrow> bool" where
  "isTorchFTGroupFailed adminWorkload =
     (let totalGroups = replica_or_zero adminWorkload ReplicaCount;
          minGroups = replica_or_zero adminWorkload MinReplicaCount;
          failedCount = int (length (filter (\<lambda>i. torchft_phase adminWorkload i = WorkloadFailed \<or>
                                                  torchft_phase adminWorkload i = WorkloadStopped) [1..totalGroups]))
      in totalGroups - failedCount < minGroups)"

definition handleTorchFTGroupStatus :: "Workload \<Rightarrow> string \<Rightarrow> string \<Rightarrow> string \<times> Workload" where
  "handleTorchFTGroupStatus adminWorkload groupIdStr phase =
     (case GetReplicaCount adminWorkload ReplicaCount of
        Inl e \<Rightarrow> (phase, adminWorkload)
      | Inr totalGroups \<Rightarrow>
          if totalGroups \<le> 0 then (phase, adminWorkload)
          else case go_atoi groupIdStr of
            None \<Rightarrow> (phase, adminWorkload)
          | Some groupId \<Rightarrow>
              if groupId > totalGroups then ('''', adminWorkload)
              else case GetReplicaCount adminWorkload MinReplicaCount of
                Inl e \<Rightarrow> (phase, adminWorkload)
              | Inr minGroups \<Rightarrow>
                  if minGroups \<le> 0 then (phase, adminWorkload)
                  else
                    let s = w_Status adminWorkload;
                        w1 = adminWorkload\<lparr>w_Status := s\<lparr>st_TorchFTPhase := mput (st_TorchFTPhase s) groupIdStr phase\<rparr>\<rparr>
                    in (if phase = WorkloadFailed then if isTorchFTGroupFailed w1 then WorkloadFailed else ''''
                        else if int (length (st_TorchFTPhase (w_Status w1))) > totalGroups \<and>
                                list_all (\<lambda>i. torchft_phase w1 i = phase) [(if phase = WorkloadSucceeded then 1 else 0)..totalGroups]
                        then phase
                        else '''', w1))"

definition shouldWorkloadStopRetry :: "Workload \<Rightarrow> int \<Rightarrow> bool" where
  "shouldWorkloadStopRetry adminWorkload dispatchCount =
     (if IsWorkloadDisableFailover (w_Meta adminWorkload) then True
      else ws_MaxRetry (w_Spec adminWorkload) \<le> 0 \<or> dispatchCount > ws_MaxRetry (w_Spec adminWorkload))"

definition shouldTerminateWorkload :: "Workload \<Rightarrow> K8sObjectStatus \<Rightarrow> int \<Rightarrow> bool" where
  "shouldTerminateWorkload adminWorkload status dispatchCount =
     (if IsApplication adminWorkload \<or> IsWorkloadPreempted (w_Meta adminWorkload) then False
      else if ks_Phase status = K8sSucceeded then True
      else if ks_Phase status = K8sFailed \<or> ks_Phase status = K8sDeleted then shouldWorkloadStopRetry adminWorkload dispatchCount
      else False)"

definition set_phase :: "Workload \<Rightarrow> string \<Rightarrow> Workload" where
  "set_phase w p = w\<lparr>w_Status := (w_Status w)\<lparr>st_Phase := p\<rparr>\<rparr>"

text \<open>For a TorchFT workload the phase of one group counts only when the groups agree on it.\<close>

definition group_gate :: "Workload \<Rightarrow> resourceMessage \<Rightarrow> string \<Rightarrow> bool \<times> Workload" where
  "group_gate w message phase =
     (if IsTorchFT w
      then case handleTorchFTGroupStatus w (msg_groupId message) phase of (p, w') \<Rightarrow> (p = phase, w')
      else (True, w))"

definition updateAdminWorkloadPhase :: "Workload \<Rightarrow> K8sObjectStatus \<Rightarrow> resourceMessage \<Rightarrow> Workload" where
  "updateAdminWorkloadPhase adminWorkload status message =
     (let phase = ks_Phase status; dispatchCount = msg_dispatchCount message in
      if phase = K8sPending then set_phase adminWorkload WorkloadPending
      else if phase = K8sSucceeded then
        (case group_gate adminWorkload message WorkloadSucceeded of (ok, w) \<Rightarrow> if ok then set_phase w WorkloadSucceeded else w)
      else if phase = K8sNotReady then set_phase adminWorkload WorkloadNotReady
      else if phase = K8sFailed then
        (case group_gate adminWorkload message WorkloadFailed of
           (ok, w) \<Rightarrow> if ok \<and> shouldTerminateWorkload w status dispatchCount then set_phase w WorkloadFailed else w)
      else if phase = K8sDeleted then
        (case group_gate adminWorkload message WorkloadStopped of
           (ok, w) \<Rightarrow>
             if \<not> ok then w
             else if shouldTerminateWorkload w status dispatchCount
             then set_phase w (if IsCICDEphemeralRunner w then WorkloadSucceeded else WorkloadStopped)
             else if IsApplication w then set_phase w WorkloadNotReady
             else w)
      else if phase = K8sRunning then
        (case group_gate adminWorkload message WorkloadRunning of (ok, w) \<Rightarrow> if ok then set_phase w WorkloadRunning else w)
      else if phase = K8sUpdating then set_phase adminWorkload WorkloadUpdating
      else if phase = AdminStopped then set_phase adminWorkload WorkloadStopped
      else adminWorkload)"

fun replace_condition :: "Condition \<Rightarrow> Condition list \<Rightarrow> Condition list" where
  "replace_condition c [] = []"
| "replace_condition c (d # ds) =
     (if cond_Type d = cond_Type c \<and> cond_Reason d = cond_Reason c then c # ds else d # replace_condition c ds)"

definition updateWorkloadCondition :: "Workload \<Rightarrow> Condition \<Rightarrow> Workload" where
  "updateWorkloadCondition adminWorkload newCondition =
     (let s = w_Status adminWorkload; cs = st_Conditions s in
      case FindCondition adminWorkload newCondition of
        Some cur \<Rightarrow>
          if cond_Status cur \<noteq> cond_Status newCondition \<or> cond_Message cur \<noteq> cond_Message newCondition
          then adminWorkload\<lparr>w_Status := s\<lparr>st_Conditions := replace_condition newCondition cs\<rparr>\<rparr>
          else adminWorkload
      | None \<Rightarrow>
          let cs1 = cs @ [newCondition];
              cs2 = (if IsApplication adminWorkload \<and> length cs1 > MaxConditionHistory
                     then drop (length cs1 - MaxConditionHistory) cs1 else cs1)
          in adminWorkload\<lparr>w_Status := s\<lparr>st_Conditions := cs2\<rparr>\<rparr>)"

definition failed_info :: "WorkloadPod \<Rightarrow> FailedPodInfo" where
  "failed_info pod =
     \<lparr>fp_Pod = pod_PodId pod, fp_Node = pod_AdminNodeName pod, fp_Message = pod_FailedMessage pod,
      fp_Container = (case find (\<lambda>c. ct_ExitCode c \<noteq> 0) (pod_Containers pod) of
                        Some c \<Rightarrow> c | None \<Rightarrow> \<lparr>ct_Name = '''', ct_Message = '''', ct_ExitCode = 0\<rparr>)\<rparr>"

definition getFailedPodInfo :: "('q, 'z) splane_scheme \<Rightarrow> Workload \<Rightarrow> string" where
  "getFailedPodInfo E workload =
     (let result = take MaxFailedPodsToShow (map failed_info (filter (\<lambda>p. pod_Phase p = PodFailed) (st_Pods (w_Status workload)))) in
      if result = [] then '''' else json_FailedPods E result)"

section \<open>The object of a workload\<close>

text \<open>An object that is not found turns the message into a deletion.\<close>

definition getK8sObjectStatus ::
  "('q, 'z) splane_scheme \<Rightarrow> wlog \<Rightarrow> resourceMessage \<Rightarrow> Workload \<Rightarrow> (goerr + K8sObjectStatus) \<times> resourceMessage" where
  "getK8sObjectStatus E lg message adminWorkload =
     (let deleted = (\<lambda>what. \<lparr>ks_Phase = K8sDeleted, ks_Message = gvk_Kind (msg_gvk message) @ '' '' @ msg_name message @ what,
                            ks_SpecReplica = 0, ks_ActiveReplica = 0, ks_RunnerScaleSetId = ''''\<rparr>)
      in if msg_action message = ResourceDel then (Inr (deleted '' is deleted''), message)
         else case GetObject E lg (msg_name message) (msg_namespace message) (msg_gvk message) of
                Inl e \<Rightarrow> if api_IsNotFound E e then (Inr (deleted '' is not found''), message\<lparr>msg_action := ResourceDel\<rparr>)
                         else (Inl e, message)
              | Inr k8sObject \<Rightarrow>
                  (case (if IsTorchFT adminWorkload \<or> IsMonarchJob adminWorkload
                         then GetResourceTemplateByGVK E lg (msg_gvk message) else GetResourceTemplate E lg adminWorkload) of
                     Inl e \<Rightarrow> (Inl e, message)
                   | Inr rt \<Rightarrow>
                       (case GetK8sObjectStatus (sp_ulib E) k8sObject rt of
                          Inl e \<Rightarrow> (Inl (NewInternalError (err_Message e)), message)
                        | Inr status \<Rightarrow>
                            let info = getFailedPodInfo E adminWorkload in
                            (Inr (if ks_Phase status = K8sFailed \<and> info \<noteq> ''''
                                  then status\<lparr>ks_Message := ks_Message status @ '', details: '' @ info\<rparr> else status), message))))"

definition waitAllPodsDeleted :: "('q, 'z) splane_scheme \<Rightarrow> wlog \<Rightarrow> resourceMessage \<Rightarrow> goerr + bool" where
  "waitAllPodsDeleted E lg message =
     ebind (plane_ListPods E lg (msg_namespace message) (label_is K8sObjectIdLabel (msg_name message))) (\<lambda>pods. Inr (pods = []))"

definition getObjectsByWorkload :: "('q, 'z) splane_scheme \<Rightarrow> wlog \<Rightarrow> Workload \<Rightarrow> resourceMessage \<Rightarrow> goerr + k8s_object list" where
  "getObjectsByWorkload E lg adminWorkload message =
     (if IsTorchFT adminWorkload then ListObjectsByWorkload E lg adminWorkload
      else case GetObject E lg (msg_name message) (msg_namespace message) (msg_gvk message) of
             Inl e \<Rightarrow> if api_IsNotFound E e then Inr [] else Inl e
           | Inr obj \<Rightarrow> Inr [obj])"

text \<open>\<^verbatim>\<open>PatchObject\<close> with the patch that empties the finalizers.\<close>

definition clear_finalizers :: "('q, 'z) splane_scheme \<Rightarrow> wlog \<Rightarrow> k8s_object \<Rightarrow> goerr option \<times> wlog" where
  "clear_finalizers E lg obj =
     (case RESTMapping E (ko_GVK obj) of
        Inl e \<Rightarrow> (Some e, lg)
      | Inr gvr \<Rightarrow> do_write E lg (PlaneClearFinalizers gvr (om_Namespace (ko_Meta obj)) (om_Name (ko_Meta obj))))"

definition overdue :: "('q, 'z) splane_scheme \<Rightarrow> ObjectMeta \<Rightarrow> bool" where
  "overdue E m =
     (case om_DeletionTimestamp m of
        None \<Rightarrow> False
      | Some ts \<Rightarrow> ts \<noteq> zero_time \<and> time_Sub (now E) ts \<ge> ForceDeleteDelaySeconds * nano)"

fun force_delete :: "('q, 'z) splane_scheme \<Rightarrow> wlog \<Rightarrow> k8s_object list \<Rightarrow> (goerr + bool) \<times> wlog" where
  "force_delete E lg [] = (Inr False, lg)"
| "force_delete E lg (obj # objs) =
     (if overdue E (ko_Meta obj)
      then case clear_finalizers E lg obj of
             (None, lg') \<Rightarrow> force_delete E lg' objs
           | (Some e, lg') \<Rightarrow> if api_IsNotFound E e then force_delete E lg' objs else (Inl e, lg')
      else force_delete E lg objs)"

definition waitJobDeleted :: "('q, 'z) splane_scheme \<Rightarrow> wlog \<Rightarrow> Workload \<Rightarrow> resourceMessage \<Rightarrow> (goerr + bool) \<times> wlog" where
  "waitJobDeleted E lg adminWorkload message =
     (case getObjectsByWorkload E lg adminWorkload message of
        Inl e \<Rightarrow> (Inl e, lg)
      | Inr objs \<Rightarrow> if objs = [] then (Inr True, lg) else force_delete E lg objs)"

definition shouldReSchedule :: "('q, 'z) splane_scheme \<Rightarrow> wlog \<Rightarrow> Workload \<Rightarrow> resourceMessage \<Rightarrow> goerr + bool" where
  "shouldReSchedule E lg adminWorkload message =
     (if IsEnd adminWorkload then Inr False
      else if msg_action message = ResourceDel then Inr True
      else if IsWorkloadPreempted (w_Meta adminWorkload) \<and> \<not> IsWorkloadDisableFailover (w_Meta adminWorkload)
      then ebind (getObjectsByWorkload E lg adminWorkload message) (\<lambda>objs. Inr (objs = []))
      else Inr False)"

section \<open>Job events\<close>

text \<open>
  The status derived from an object status. \<open>job_status\<close> is the generic path; the result of
  \<open>updateAdminWorkloadByJob\<close> says whether the workload it returns is the very object it was given, which
  later steps may change in place.
\<close>

definition job_status :: "('q, 'z) splane_scheme \<Rightarrow> Workload \<Rightarrow> K8sObjectStatus \<Rightarrow> resourceMessage \<Rightarrow> Workload" where
  "job_status E originalWorkload status message =
     (let w0 = originalWorkload;
          w1 = (if ks_Phase status = '''' then w0
                else
                  let w' = updateAdminWorkloadPhase w0 status message in
                  if \<not> IsTorchFT w' \<or> w_Phase w' \<noteq> w_Phase originalWorkload \<or> isTorchFTGroupFailed w'
                  then updateWorkloadCondition w'
                         (NewCondition E (ks_Phase status) (ks_Message status) (GenerateDispatchReason (msg_dispatchCount message)))
                  else w');
          w2 = (if \<not> IsPending w1 \<and> st_StartTime (w_Status w1) = None
                then w1\<lparr>w_Status := (w_Status w1)\<lparr>st_StartTime := Some (now E)\<rparr>\<rparr> else w1)
      in if IsEnd w2 \<and> st_EndTime (w_Status w2) = None
         then w2\<lparr>w_Status := (w_Status w2)\<lparr>st_EndTime := Some (now E)\<rparr>\<rparr> else w2)"

definition updateAdminWorkloadByJob ::
  "('q, 'z) splane_scheme \<Rightarrow> wlog \<Rightarrow> Workload \<Rightarrow> resourceMessage \<Rightarrow> (goerr + bool \<times> Workload) \<times> wlog \<times> resourceMessage" where
  "updateAdminWorkloadByJob E lg originalWorkload message =
     (case getK8sObjectStatus E lg message originalWorkload of
        (Inl e, m) \<Rightarrow> (Inl e, lg, m)
      | (Inr status, m) \<Rightarrow>
          if IsCICDScalingRunnerSet originalWorkload \<and> ks_RunnerScaleSetId status \<noteq> ''''
          then
            let w1 = (if st_StartTime (w_Status originalWorkload) = None
                      then originalWorkload\<lparr>w_Status := (w_Status originalWorkload)\<lparr>st_StartTime := Some (now E)\<rparr>\<rparr> else originalWorkload)
            in if st_RunnerScaleSetId (w_Status w1) \<noteq> ks_RunnerScaleSetId status
               then let w2 = w1\<lparr>w_Status := (w_Status w1)\<lparr>st_RunnerScaleSetId := ks_RunnerScaleSetId status\<rparr>\<rparr> in
                    (case do_write E lg (PatchStatus w2) of
                       (Some e, lg') \<Rightarrow> (Inl e, lg', m)
                     | (None, lg') \<Rightarrow> (Inr (False, w2), lg', m))
               else (Inr (False, w1), lg, m)
          else
            let w1 = job_status E originalWorkload status m in
            if w_Status w1 = w_Status originalWorkload then (Inr (True, originalWorkload), lg, m)
            else let w2 = StripOffloadedStatus w1 in
                 (case do_write E lg (UpdateStatus w2) of
                    (Some e, lg') \<Rightarrow> (Inl e, lg', m)
                  | (None, lg') \<Rightarrow> (Inr (False, w2), lg', m)))"

definition pending_again :: "('q, 'z) splane_scheme \<Rightarrow> Workload \<Rightarrow> Workload" where
  "pending_again E workload =
     (let w1 = workload\<lparr>w_Status := (w_Status workload)\<lparr>st_Pods := [], st_TorchFTPhase := []\<rparr>\<rparr> in
      if w_Phase w1 \<noteq> WorkloadPending
      then updateWorkloadCondition (set_phase w1 WorkloadPending)
             (NewCondition E AdminScheduling ''the workload is re-scheduling''
                (GenerateDispatchReason (GetWorkloadDispatchCnt (w_Meta workload) + 1)))
      else w1)"

definition history_slot :: "int \<Rightarrow> string list list \<Rightarrow> string list list" where
  "history_slot n xs = (if int (length xs) < n then xs @ [[]] else xs)"

definition reset_status :: "('q, 'z) splane_scheme \<Rightarrow> Workload \<Rightarrow> int \<Rightarrow> bool \<times> Workload" where
  "reset_status E workload dispatchCount =
     (let s0 = w_Status workload; w1 = pending_again E workload; s1 = w_Status w1 in
      (st_Pods s0 \<noteq> [] \<or> st_TorchFTPhase s0 \<noteq> [] \<or> st_Phase s0 \<noteq> WorkloadPending \<or>
       int (length (st_Nodes s1)) < dispatchCount \<or> int (length (st_Ranks s1)) < dispatchCount,
       w1\<lparr>w_Status := s1\<lparr>st_Nodes := history_slot dispatchCount (st_Nodes s1), st_Ranks := history_slot dispatchCount (st_Ranks s1)\<rparr>\<rparr>))"

definition reSchedule :: "('q, 'z) splane_scheme \<Rightarrow> wlog \<Rightarrow> Workload \<Rightarrow> int \<Rightarrow> wresult" where
  "reSchedule E lg workload dispatchCount =
     (case reset_status E workload dispatchCount of
        (isStatusChanged, w1) \<Rightarrow>
          (case (if isStatusChanged then persistWorkloadStatus E lg w1 else (None, lg, w1)) of
             (Some e, lg1, w2) \<Rightarrow> (Some e, lg1, w2)
           | (None, lg1, w2) \<Rightarrow>
               if IsWorkloadDispatched (w_Meta w2)
               then let m1 = snd (RemoveAnnotation (w_Meta w2) WorkloadScheduledAnnotation);
                        m2 = snd (RemoveAnnotation m1 WorkloadDispatchedAnnotation);
                        m3 = snd (SetAnnotation m2 WorkloadReScheduledAnnotation '''');
                        w3 = w2\<lparr>w_Meta := m3\<rparr>
                    in (case do_write E lg1 (PatchMeta w3) of (r, lg2) \<Rightarrow> (r, lg2, w3))
               else (None, lg1, w2)))"

text \<open>The last component is the object \<open>handleJob\<close> holds, which the re-scheduling may have changed.\<close>

definition reschedule_step ::
  "('q, 'z) splane_scheme \<Rightarrow> wlog \<Rightarrow> Workload \<Rightarrow> bool \<Rightarrow> Workload \<Rightarrow> resourceMessage \<Rightarrow> reconcile_result \<times> wlog \<times> Workload" where
  "reschedule_step E lg original aliased w message =
     (case shouldReSchedule E lg w message of
        Inl e \<Rightarrow> ((0, Some e), lg, original)
      | Inr False \<Rightarrow> ((0, None), lg, original)
      | Inr True \<Rightarrow>
          (case reSchedule E lg w (msg_dispatchCount message) of
             (err, lg', w') \<Rightarrow> ((0, err), lg', if aliased then w' else original)))"

definition handleJobImpl ::
  "('q, 'z) splane_scheme \<Rightarrow> wlog \<Rightarrow> resourceMessage \<Rightarrow> Workload \<Rightarrow> reconcile_result \<times> wlog \<times> Workload" where
  "handleJobImpl E lg message original =
     (case (if \<not> IsEnd original then updateAdminWorkloadByJob E lg original message else (Inr (True, original), lg, message)) of
        (Inl e, lg1, m) \<Rightarrow> ((0, Some e), lg1, original)
      | (Inr (aliased, w), lg1, m) \<Rightarrow>
          if msg_action m = ResourceDeleting
          then case waitAllPodsDeleted E lg1 m of
                 Inl e \<Rightarrow> ((3 * nano, Some e), lg1, original)
               | Inr False \<Rightarrow> ((3 * nano, None), lg1, original)
               | Inr True \<Rightarrow>
                   (case waitJobDeleted E lg1 w m of
                      (Inl e, lg2) \<Rightarrow> ((3 * nano, Some e), lg2, original)
                    | (Inr False, lg2) \<Rightarrow> ((3 * nano, None), lg2, original)
                    | (Inr True, lg2) \<Rightarrow> reschedule_step E lg2 original aliased w m)
          else reschedule_step E lg1 original aliased w m)"

definition handleJob :: "('q, 'z) splane_scheme \<Rightarrow> wlog \<Rightarrow> resourceMessage \<Rightarrow> reconcile_result \<times> wlog" where
  "handleJob E lg message =
     (case getAdminWorkload E lg (msg_workloadId message) of
        Inl e \<Rightarrow> ((0, Some e), lg)
      | Inr None \<Rightarrow> ((0, None), lg)
      | Inr (Some adminWorkload) \<Rightarrow>
          if msg_namespace message \<noteq> ws_Workspace (w_Spec adminWorkload) then ((0, None), lg)
          else if IsMonarchJob adminWorkload \<and> gvk_Kind (msg_gvk message) \<noteq> JobKind then ((0, None), lg)
          else if IsCICDScalingRunnerSet adminWorkload \<and> gvk_Kind (msg_gvk message) \<noteq> CICDScaleRunnerSetKind then ((0, None), lg)
          else if \<not> IsWorkloadDispatched (w_Meta adminWorkload) then ((nano, None), lg)
          else case handleJobImpl E lg message adminWorkload of
                 ((delay, err), lg1, w) \<Rightarrow>
                   if IsUnrecoverableError E err
                   then case SetWorkloadFailed E lg1 w (case err of Some e \<Rightarrow> err_Message e | None \<Rightarrow> '''') of
                          (err', lg2, w') \<Rightarrow> ((delay, err'), lg2)
                   else ((delay, err), lg1))"

section \<open>Conditions\<close>

definition cond_keys :: "Condition list \<Rightarrow> (string \<times> string) list" where
  "cond_keys cs = map (\<lambda>c. (cond_Type c, cond_Reason c)) cs"

lemma cond_keys_replace [simp]: "cond_keys (replace_condition c cs) = cond_keys cs"
  by (induction cs) (auto simp: cond_keys_def)

lemma replace_condition_mem: "has_cond cs (cond_Type c) (cond_Reason c) \<Longrightarrow> c \<in> set (replace_condition c cs)"
  by (induction cs) (auto simp: has_cond_def)

lemma has_cond_keys: "has_cond cs ty reason \<longleftrightarrow> (ty, reason) \<in> set (cond_keys cs)"
  by (force simp: has_cond_def cond_keys_def)

lemma distinct_drop_snoc: "distinct xs \<Longrightarrow> x \<notin> set xs \<Longrightarrow> distinct (drop n (xs @ [x]))"
  by (rule distinct_drop) simp

text \<open>A condition is recorded once per type and dispatch: the update replaces the message and status of a
  condition already there and appends a new one, keeps the conditions distinct, always leaves the new one
  as the current one, and keeps the history of an application at thirty entries.\<close>

lemma conditions_recorded_once:
  fixes w :: Workload and c :: Condition
  assumes "distinct (cond_keys (st_Conditions (w_Status w)))"
  defines "cs \<equiv> st_Conditions (w_Status w)" and "cs' \<equiv> st_Conditions (w_Status (updateWorkloadCondition w c))"
  shows "distinct (cond_keys cs') \<and> (\<exists>d \<in> set cs'. cond_Type d = cond_Type c \<and> cond_Reason d = cond_Reason c \<and>
           cond_Status d = cond_Status c \<and> cond_Message d = cond_Message c) \<and>
         (has_cond cs (cond_Type c) (cond_Reason c) \<longrightarrow> cond_keys cs' = cond_keys cs) \<and>
         (\<not> has_cond cs (cond_Type c) (cond_Reason c) \<longrightarrow> last cs' = c) \<and>
         (IsApplication w \<and> length cs \<le> MaxConditionHistory \<longrightarrow> length cs' \<le> MaxConditionHistory)"
proof (cases "FindCondition w c")
  case None
  then have n: "\<not> has_cond cs (cond_Type c) (cond_Reason c)" by (simp add: FindCondition_none cs_def)
  define k where "k = (if IsApplication w \<and> length (cs @ [c]) > MaxConditionHistory then length (cs @ [c]) - MaxConditionHistory else 0)"
  have cs': "cs' = drop k (cs @ [c])" using None by (simp add: cs'_def cs_def k_def updateWorkloadCondition_def Let_def)
  have "k \<le> length cs" by (simp add: k_def MaxConditionHistory_def)
  then have l: "cs' = drop k cs @ [c]" using cs' by simp
  have "cond_keys cs' = drop k (cond_keys cs @ [(cond_Type c, cond_Reason c)])" by (simp add: cs' cond_keys_def drop_map [symmetric])
  then have "distinct (cond_keys cs')" using assms(1) n distinct_drop_snoc [of "cond_keys cs"] by (simp add: has_cond_keys cs_def)
  moreover have "IsApplication w \<and> length cs \<le> MaxConditionHistory \<longrightarrow> length cs' \<le> MaxConditionHistory"
    using l by (auto simp: k_def MaxConditionHistory_def)
  ultimately show ?thesis using l n by auto
next
  case (Some cur)
  then have h: "has_cond cs (cond_Type c) (cond_Reason c)" using FindCondition_none [of w c] by (simp add: cs_def)
  from Some have cur: "cur \<in> set cs" "cond_Type cur = cond_Type c" "cond_Reason cur = cond_Reason c"
    by (auto simp: FindCondition_def cs_def find_Some_iff)
  show ?thesis
  proof (cases "cond_Status cur \<noteq> cond_Status c \<or> cond_Message cur \<noteq> cond_Message c")
    case True
    then have "cs' = replace_condition c cs" using Some by (simp add: cs'_def cs_def updateWorkloadCondition_def Let_def)
    moreover have "length (replace_condition c cs) = length cs" by (metis cond_keys_replace cond_keys_def length_map)
    ultimately show ?thesis using h assms(1) replace_condition_mem [OF h] by (auto simp: cs_def)
  next
    case False
    then have "cs' = cs" using Some by (simp add: cs'_def cs_def updateWorkloadCondition_def Let_def)
    then show ?thesis using h assms(1) cur False by (auto simp: cs_def)
  qed
qed

section \<open>The groups of a TorchFT workload\<close>

definition failed_groups :: "Workload \<Rightarrow> int set" where
  "failed_groups w = {i. 1 \<le> i \<and> i \<le> replica_or_zero w ReplicaCount \<and> torchft_phase w i \<in> {WorkloadFailed, WorkloadStopped}}"

lemma length_filter_upto: "length (filter P [a..b]) = card {i. a \<le> i \<and> i \<le> b \<and> P i}"
proof -
  have "set (filter P [a..b]) = {i. a \<le> i \<and> i \<le> b \<and> P i}" by auto
  then show ?thesis by (metis distinct_card distinct_filter distinct_upto)
qed

lemma isTorchFTGroupFailed_card:
  "isTorchFTGroupFailed w \<longleftrightarrow> replica_or_zero w ReplicaCount - int (card (failed_groups w)) < replica_or_zero w MinReplicaCount"
  unfolding isTorchFTGroupFailed_def Let_def length_filter_upto failed_groups_def insert_iff empty_iff simp_thms ..

lemma go_atoi_int64: "go_atoi s = Some n \<Longrightarrow> in_int64 n"
  by (auto simp: go_atoi_def Let_def split: option.splits if_splits)

lemma GetReplicaCount_int64: "GetReplicaCount w key = Inr n \<Longrightarrow> in_int64 n"
  by (auto simp: GetReplicaCount_def Let_def split: if_splits option.splits dest: go_atoi_int64)

definition group_keys :: "Workload \<Rightarrow> int \<Rightarrow> bool" where
  "group_keys w n \<longleftrightarrow> wf_map (st_TorchFTPhase (w_Status w)) \<and> fst ` set (st_TorchFTPhase (w_Status w)) \<subseteq> itoa ` {0..n}"

lemma all_groups_reported:
  assumes "wf_map m" and "fst ` set m \<subseteq> itoa ` {0..n}" and "0 \<le> n" and "in_int64 n"
  shows "int (length m) > n \<longleftrightarrow> fst ` set m = itoa ` {0..n}"
proof -
  have r: "in_int64 i" if "i \<in> {0..n}" for i using that assms(4) unfolding in_int64_def atLeastAtMost_iff by linarith
  have inj: "inj_on itoa {0..n}"
  proof (rule inj_onI)
    fix x y assume "x \<in> {0..n}" "y \<in> {0..n}" "itoa x = itoa y"
    then show "x = y" using itoa_inj [OF r r] by blast
  qed
  have c: "card (itoa ` {0..n}) = nat (n + 1)" using card_image [OF inj] by simp
  have l: "length m = card (fst ` set m)" using assms(1) distinct_card [of "map fst m"] unfolding wf_map_def by simp
  have fin: "finite (itoa ` {0..n})" by simp
  show ?thesis
  proof
    assume "int (length m) > n"
    then have "card (itoa ` {0..n}) \<le> card (fst ` set m)" using l c assms(3) by linarith
    then show "fst ` set m = itoa ` {0..n}" using card_seteq [OF fin assms(2)] by blast
  next
    assume "fst ` set m = itoa ` {0..n}"
    then show "int (length m) > n" using l c assms(3) by simp
  qed
qed

lemma handleTorchFTGroupStatus_result:
  fixes phase :: string
  assumes "GetReplicaCount w ReplicaCount = Inr n" "0 < n" and "GetReplicaCount w MinReplicaCount = Inr k" "0 < k"
    and "g \<le> n" "in_int64 g"
  defines "w' \<equiv> w\<lparr>w_Status := (w_Status w)\<lparr>st_TorchFTPhase := mput (st_TorchFTPhase (w_Status w)) (itoa g) phase\<rparr>\<rparr>"
  shows "handleTorchFTGroupStatus w (itoa g) phase =
           (if phase = WorkloadFailed then (if isTorchFTGroupFailed w' then WorkloadFailed else '''')
            else if int (length (st_TorchFTPhase (w_Status w'))) > n \<and>
                    (\<forall>i \<in> {(if phase = WorkloadSucceeded then 1 else 0)..n}. torchft_phase w' i = phase) then phase else '''', w')"
  unfolding handleTorchFTGroupStatus_def assms(1,3) go_atoi_itoa [OF assms(6)] Let_def w'_def [symmetric] list_all_iff set_upto
  using assms(2,4,5) by simp

lemma group_keys_report:
  assumes "group_keys w n" "0 \<le> g" "g \<le> n"
    "w' = w\<lparr>w_Status := (w_Status w)\<lparr>st_TorchFTPhase := mput (st_TorchFTPhase (w_Status w)) (itoa g) phase\<rparr>\<rparr>"
  shows "group_keys w' n"
proof -
  have "fst ` set (mput m k v) = insert k (fst ` set m)" for m :: strmap and k v
    by (simp add: mput_def dom_map_of_conv_image_fst [symmetric] update_conv')
  then show ?thesis using assms by (simp add: group_keys_def)
qed

lemma all_reported_iff:
  assumes "group_keys w n" "0 \<le> n" "in_int64 n"
  shows "int (length (st_TorchFTPhase (w_Status w))) > n \<longleftrightarrow> (\<forall>i \<in> {0..n}. mhas (st_TorchFTPhase (w_Status w)) (itoa i))"
  using all_groups_reported [of "st_TorchFTPhase (w_Status w)" n] assms unfolding group_keys_def mhas_iff by blast

lemma reported_phase: "torchft_phase w i \<noteq> '''' \<Longrightarrow> mhas (st_TorchFTPhase (w_Status w)) (itoa i)"
  by (simp add: mget0_def mhas_def split: option.splits)


section \<open>Scheduling again\<close>

lemma updateWorkloadCondition_conditions:
  "\<exists>cs. updateWorkloadCondition w c = w\<lparr>w_Status := (w_Status w)\<lparr>st_Conditions := cs\<rparr>\<rparr>"
  by (cases "FindCondition w c") (auto simp: updateWorkloadCondition_def Let_def intro: exI [of _ "st_Conditions (w_Status w)"])

lemma updateWorkloadCondition_fixes [simp]:
  "w_Meta (updateWorkloadCondition w c) = w_Meta w" "w_Spec (updateWorkloadCondition w c) = w_Spec w"
  "w_Phase (updateWorkloadCondition w c) = w_Phase w" "st_Pods (w_Status (updateWorkloadCondition w c)) = st_Pods (w_Status w)"
  "st_TorchFTPhase (w_Status (updateWorkloadCondition w c)) = st_TorchFTPhase (w_Status w)"
  using updateWorkloadCondition_conditions [of w c] by auto

lemma set_phase_fixes [simp]:
  "w_Meta (set_phase w p) = w_Meta w" "w_Spec (set_phase w p) = w_Spec w" "w_Phase (set_phase w p) = p"
  "st_Pods (w_Status (set_phase w p)) = st_Pods (w_Status w)" "st_TorchFTPhase (w_Status (set_phase w p)) = st_TorchFTPhase (w_Status w)"
  by (simp_all add: set_phase_def)

definition is_status_write :: "apiwrite \<Rightarrow> bool" where
  "is_status_write a \<longleftrightarrow> (\<exists>w. a = UpdateStatus w) \<or> (\<exists>rows. a = DbUpsertPods rows) \<or> (\<exists>n ids. a = DbDeletePodsNotIn n ids) \<or>
     (\<exists>row. a = DbUpsertDispatchNode row)"

lemma is_status_write_simps [simp]: "is_status_write (UpdateStatus w)" "is_status_write (DbUpsertPods rows)"
  "is_status_write (DbDeletePodsNotIn n ids)" "is_status_write (DbUpsertDispatchNode row)"
  by (simp_all add: is_status_write_def)

lemma upsert_nodes_writes: "upsert_nodes E lg rows = (r, lg') \<Longrightarrow> writes_only is_status_write lg lg'"
proof (induction E lg rows rule: upsert_nodes.induct)
  case (3 E lg row rows)
  then show ?case
    by (auto split: prod.splits option.splits dest: writes_only_do_write [where A = is_status_write] intro: writes_only_trans)
qed auto

lemma writeWorkloadStatusToDB_writes: "writeWorkloadStatusToDB E lg w = (r, lg') \<Longrightarrow> writes_only is_status_write lg lg'"
  by (auto simp: writeWorkloadStatusToDB_def Let_def split: if_splits prod.splits option.splits
      dest!: writes_only_do_write [where A = is_status_write] upsert_nodes_writes intro: writes_only_trans)

lemma offloaded_status_fixes [simp]:
  "w_Meta (offloaded_status w) = w_Meta w" "w_Spec (offloaded_status w) = w_Spec w" "w_Phase (offloaded_status w) = w_Phase w"
  "st_TorchFTPhase (w_Status (offloaded_status w)) = st_TorchFTPhase (w_Status w)" "st_Pods (w_Status (offloaded_status w)) = []"
  by (simp_all add: offloaded_status_def)

lemma persistWorkloadStatus_spec:
  assumes "persistWorkloadStatus E lg w = (r, lg', w')"
  shows "writes_only is_status_write lg lg'" and "w' = w \<or> w' = offloaded_status w"
  using assms by (auto simp: persistWorkloadStatus_def Let_def split: if_splits prod.splits option.splits
      dest!: writes_only_do_write [where A = is_status_write] writeWorkloadStatusToDB_writes intro: writes_only_trans)

lemma pending_again_fixes [simp]:
  "w_Meta (pending_again E w) = w_Meta w" "w_Spec (pending_again E w) = w_Spec w" "w_Phase (pending_again E w) = WorkloadPending"
  "st_Pods (w_Status (pending_again E w)) = []" "st_TorchFTPhase (w_Status (pending_again E w)) = []"
  by (simp_all add: pending_again_def Let_def)

lemma reset_status_spec:
  assumes "reset_status E w n = (ch, w1)"
  shows "w_Meta w1 = w_Meta w" "w_Spec w1 = w_Spec w" "w_Phase w1 = WorkloadPending"
    "st_Pods (w_Status w1) = []" "st_TorchFTPhase (w_Status w1) = []"
  using assms by (auto simp: reset_status_def Let_def)

lemma reSchedule_writes:
  assumes "reSchedule E lg w n = (r, lg', w')"
  shows "writes_only (\<lambda>a. is_status_write a \<or> (\<exists>x. a = PatchMeta x)) lg lg' \<and> w_Spec w' = w_Spec w"
proof -
  obtain ch w1 where r: "reset_status E w n = (ch, w1)" by force
  obtain r1 lg1 w2 where p: "(if ch then persistWorkloadStatus E lg w1 else (None, lg, w1)) = (r1, lg1, w2)" by (metis prod_cases3)
  then have "writes_only is_status_write lg lg1" "w_Spec w2 = w_Spec w"
    using persistWorkloadStatus_spec [of E lg w1 r1 lg1 w2] reset_status_spec [OF r] by (auto split: if_splits)
  then show ?thesis using assms r p
    by (auto simp: reSchedule_def Let_def split: option.splits if_splits prod.splits
        dest!: do_write_cases elim!: writes_only_mono intro: writes_only_trans [OF writes_only_mono])
qed

lemma reSchedule_ok:
  assumes "reSchedule E lg w n = (None, lg', w')" and "IsWorkloadDispatched (w_Meta w)"
  shows "w_Phase w' = WorkloadPending \<and> st_Pods (w_Status w') = [] \<and> st_TorchFTPhase (w_Status w') = [] \<and>
         \<not> IsWorkloadDispatched (w_Meta w') \<and> \<not> IsWorkloadScheduled (w_Meta w') \<and> IsWorkloadReScheduled (w_Meta w') \<and>
         w_Spec w' = w_Spec w \<and> (\<exists>lg1. writes_only is_status_write lg lg1 \<and> lg' = lg1 @ [(PatchMeta w', None)])"
proof -
  obtain ch w1 where r: "reset_status E w n = (ch, w1)" by force
  obtain r1 lg1 w2 where p: "(if ch then persistWorkloadStatus E lg w1 else (None, lg, w1)) = (r1, lg1, w2)" by (metis prod_cases3)
  have w2: "writes_only is_status_write lg lg1" "w2 = w1 \<or> w2 = offloaded_status w1"
    using p persistWorkloadStatus_spec [of E lg w1 r1 lg1 w2] by (auto split: if_splits)
  note w1 = reset_status_spec [OF r]
  have "r1 = None" using assms(1) r p by (cases r1) (auto simp: reSchedule_def)
  then obtain m where m: "m = snd (SetAnnotation (snd (RemoveAnnotation (snd (RemoveAnnotation (w_Meta w2) WorkloadScheduledAnnotation))
        WorkloadDispatchedAnnotation)) WorkloadReScheduledAnnotation '''')" "w' = w2\<lparr>w_Meta := m\<rparr>" "lg' = lg1 @ [(PatchMeta w', None)]"
    using assms r p w1 w2(2) by (auto simp: reSchedule_def Let_def split: prod.splits dest!: do_write_cases)
  moreover have "\<not> IsWorkloadDispatched m" "\<not> IsWorkloadScheduled m" "IsWorkloadReScheduled m"
    unfolding m(1) by (simp_all add: IsWorkloadDispatched_def IsWorkloadScheduled_def IsWorkloadReScheduled_def
        WorkloadDispatchedAnnotation_def WorkloadScheduledAnnotation_def WorkloadReScheduledAnnotation_def)
  ultimately show ?thesis using w1 w2 by auto
qed

text \<open>Scheduling a dispatched workload again leaves it pending, without pods and group phases, neither
  scheduled nor dispatched and marked as re-scheduled; its status is written first, and the annotations
  that let the scheduler take it again in one last write.\<close>

lemma reschedule_resets:
  assumes "reSchedule E lg w n = (None, lg', w')" and "IsWorkloadDispatched (w_Meta w)"
  shows "w_Phase w' = WorkloadPending \<and> st_Pods (w_Status w') = [] \<and> st_TorchFTPhase (w_Status w') = [] \<and>
         \<not> IsWorkloadDispatched (w_Meta w') \<and> \<not> IsWorkloadScheduled (w_Meta w') \<and> IsWorkloadReScheduled (w_Meta w') \<and>
         w_Spec w' = w_Spec w \<and> (\<exists>lg1. writes_only is_status_write lg lg1 \<and> lg' = lg1 @ [(PatchMeta w', None)])"
  using assms by (rule reSchedule_ok)

section \<open>Events on the object of a workload\<close>

lemma handleTorchFTGroupStatus_fixes:
  assumes "handleTorchFTGroupStatus w g ph = (p, w')"
  shows "w_Meta w' = w_Meta w" "w_Spec w' = w_Spec w" "w_Phase w' = w_Phase w"
  using assms by (auto simp: handleTorchFTGroupStatus_def Let_def split: sum.splits if_splits option.splits)

lemma group_gate_fixes:
  "w_Meta (snd (group_gate w m ph)) = w_Meta w" "w_Spec (snd (group_gate w m ph)) = w_Spec w" "w_Phase (snd (group_gate w m ph)) = w_Phase w"
proof -
  obtain p w' where h: "handleTorchFTGroupStatus w (msg_groupId m) ph = (p, w')" by force
  show "w_Meta (snd (group_gate w m ph)) = w_Meta w" "w_Spec (snd (group_gate w m ph)) = w_Spec w" "w_Phase (snd (group_gate w m ph)) = w_Phase w"
    by (simp_all add: group_gate_def h handleTorchFTGroupStatus_fixes [OF h])
qed

lemma updateAdminWorkloadPhase_fixes [simp]:
  "w_Meta (updateAdminWorkloadPhase w st m) = w_Meta w" "w_Spec (updateAdminWorkloadPhase w st m) = w_Spec w"
  by (simp_all add: updateAdminWorkloadPhase_def Let_def case_prod_unfold group_gate_fixes)

lemma job_status_fixes [simp]: "w_Meta (job_status E w st m) = w_Meta w" "w_Spec (job_status E w st m) = w_Spec w"
  by (simp_all add: job_status_def Let_def)

lemma StripOffloadedStatus_fixes [simp]:
  "w_Meta (StripOffloadedStatus w) = w_Meta w" "w_Spec (StripOffloadedStatus w) = w_Spec w" "w_Phase (StripOffloadedStatus w) = w_Phase w"
  by (simp_all add: StripOffloadedStatus_def)

lemma IsEnd_Strip [simp]: "IsEnd (StripOffloadedStatus w) \<longleftrightarrow> IsEnd w"
  by (simp add: IsEnd_iff)

lemma update_deleted:
  assumes "msg_action m = ResourceDel" and "updateAdminWorkloadByJob E lg w m = (r, lg1, m1)"
  shows "m1 = m" and "(r = Inr (True, w) \<and> lg1 = lg) \<or>
           (\<exists>x. w_Meta x = w_Meta w \<and> w_Spec x = w_Spec w \<and> ((r = Inr (False, x) \<and> lg1 = lg @ [(UpdateStatus x, None)]) \<or>
              (\<exists>e. r = Inl e \<and> lg1 = lg @ [(UpdateStatus x, Some e)])))"
proof -
  obtain st where st: "getK8sObjectStatus E lg m w = (Inr st, m)" "ks_RunnerScaleSetId st = ''''"
    using assms(1) by (auto simp: getK8sObjectStatus_def Let_def)
  define x where "x = StripOffloadedStatus (job_status E w st m)"
  have x: "w_Meta x = w_Meta w" "w_Spec x = w_Spec w" by (simp_all add: x_def)
  obtain r' lg' where d: "do_write E lg (UpdateStatus x) = (r', lg')" by force
  have u: "(r, lg1, m1) = (if w_Status (job_status E w st m) = w_Status w then (Inr (True, w), lg, m)
       else case r' of Some e \<Rightarrow> (Inl e, lg', m) | None \<Rightarrow> (Inr (False, x), lg', m))"
    using assms(2) st d unfolding updateAdminWorkloadByJob_def Let_def x_def [symmetric]
    by (cases "w_Status (job_status E w st m) = w_Status w"; cases r') (simp_all add: x_def [symmetric])
  then show "m1 = m" by (simp split: if_splits option.splits)
  show "(r = Inr (True, w) \<and> lg1 = lg) \<or>
           (\<exists>x. w_Meta x = w_Meta w \<and> w_Spec x = w_Spec w \<and> ((r = Inr (False, x) \<and> lg1 = lg @ [(UpdateStatus x, None)]) \<or>
              (\<exists>e. r = Inl e \<and> lg1 = lg @ [(UpdateStatus x, Some e)])))"
  proof (cases "w_Status (job_status E w st m) = w_Status w")
    case False
    then show ?thesis using u x do_write_cases [OF d, THEN conjunct1] by (intro disjI2 exI [of _ x]) (cases r'; simp)
  qed (use u in simp)
qed

definition is_ClearFinalizers :: "apiwrite \<Rightarrow> bool" where
  "is_ClearFinalizers a \<longleftrightarrow> (\<exists>g ns n. a = PlaneClearFinalizers g ns n)"

lemma force_delete_writes: "force_delete E lg objs = (r, lg') \<Longrightarrow> writes_only is_ClearFinalizers lg lg'"
proof (induction objs arbitrary: lg)
  case (Cons obj objs)
  obtain r1 lg1 where c: "clear_finalizers E lg obj = (r1, lg1)" by force
  then have "writes_only is_ClearFinalizers lg lg1"
    by (auto simp: clear_finalizers_def is_ClearFinalizers_def split: sum.splits dest!: do_write_cases)
  then show ?case using Cons c by (auto split: if_splits option.splits intro: writes_only_trans)
qed simp

lemma waitJobDeleted_writes: "waitJobDeleted E lg w m = (r, lg') \<Longrightarrow> writes_only is_ClearFinalizers lg lg'"
  by (auto simp: waitJobDeleted_def split: sum.splits if_splits dest: force_delete_writes simp del: force_delete.simps)

lemma updateAdminWorkloadByJob_prefix: "updateAdminWorkloadByJob E lg w m = (r, lg', m') \<Longrightarrow> writes_only (\<lambda>_. True) lg lg'"
  by (auto simp: updateAdminWorkloadByJob_def Let_def split: prod.splits sum.splits if_splits option.splits dest!: do_write_cases)

lemma reschedule_step_writes:
  assumes "reschedule_step E lg w0 al w m = (res, lg', w')"
  shows "writes_only (\<lambda>a. is_status_write a \<or> (\<exists>x. a = PatchMeta x)) lg lg'" and "IsEnd w \<Longrightarrow> lg' = lg \<and> w' = w0"
  using assms by (auto simp: reschedule_step_def shouldReSchedule_def split: sum.splits bool.splits prod.splits if_splits dest: reSchedule_writes)

lemma handleJobImpl_prefix:
  assumes "handleJobImpl E lg m w = (res, lg', w')"
  shows "\<exists>l. lg' = lg @ l"
proof -
  have "writes_only (\<lambda>_. True) lg lg'"
    using assms unfolding handleJobImpl_def
    by (auto split: prod.splits sum.splits if_splits bool.splits
        dest!: updateAdminWorkloadByJob_prefix waitJobDeleted_writes reschedule_step_writes(1)
        elim!: writes_only_mono intro: writes_only_trans [OF writes_only_mono] writes_only_trans [OF _ writes_only_mono])
  then show ?thesis by (auto simp: writes_only_def)
qed

definition settles :: "apiwrite \<Rightarrow> bool" where
  "settles a \<longleftrightarrow> (\<exists>x. a = UpdateStatus x \<and> IsEnd x) \<or>
     (\<exists>x. a = PatchMeta x \<and> \<not> IsWorkloadDispatched (w_Meta x) \<and> \<not> IsWorkloadScheduled (w_Meta x) \<and> IsWorkloadReScheduled (w_Meta x))"

lemma deleted_impl:
  assumes "msg_action m = ResourceDel" and "\<not> IsEnd w" and "IsWorkloadDispatched (w_Meta w)"
    and "handleJobImpl E lg m w = ((d, r), lg', w')" and "r = None"
  shows "\<exists>l a. lg' = lg @ l @ [(a, None)] \<and> settles a"
proof -
  obtain r1 lg1 m1 where u: "updateAdminWorkloadByJob E lg w m = (r1, lg1, m1)" by (metis prod_cases3)
  note u' = update_deleted [OF assms(1) u]
  have n: "ResourceDel \<noteq> ResourceDeleting" by (simp add: ResourceDel_def ResourceDeleting_def)
  have "\<exists>al x. r1 = Inr (al, x)" using assms(2,4,5) u by (cases r1) (auto simp: handleJobImpl_def)
  then obtain al x where x: "r1 = Inr (al, x)" by blast
  then have s: "reschedule_step E lg1 w al x m = ((d, None), lg', w')"
    using assms u u'(1) n by (simp add: handleJobImpl_def)
  have pre: "\<exists>l. lg1 = lg @ l" and meta: "w_Meta x = w_Meta w" using u'(2) x by auto
  show ?thesis
  proof (cases "IsEnd x")
    case True
    then have "lg' = lg @ [(UpdateStatus x, None)]"
      using s u'(2) x assms(2) by (auto simp: reschedule_step_def shouldReSchedule_def)
    then show ?thesis using True by (auto simp: settles_def)
  next
    case False
    then obtain y where "reSchedule E lg1 x (msg_dispatchCount m) = (None, lg', y)"
      using s assms(1) by (auto simp: reschedule_step_def shouldReSchedule_def split: prod.splits)
    from reSchedule_ok [OF this] meta assms(3) pre show ?thesis by (auto simp: settles_def writes_only_def)
  qed
qed

text \<open>When the object of a running workload is gone, no workload is left behind: unless the event is
  retried because of an error, the last write either ends the workload or gives it back to the scheduler.\<close>

lemma deleted_object_settled:
  assumes "getAdminWorkload E lg (msg_workloadId m) = Inr (Some w)" and "msg_action m = ResourceDel"
    and "msg_namespace m = ws_Workspace (w_Spec w)" and "IsMonarchJob w \<longrightarrow> gvk_Kind (msg_gvk m) = JobKind"
    and "IsCICDScalingRunnerSet w \<longrightarrow> gvk_Kind (msg_gvk m) = CICDScaleRunnerSetKind"
    and "IsWorkloadDispatched (w_Meta w)" and "\<not> IsEnd w" and "handleJob E lg m = ((d, None), lg')"
  shows "\<exists>l a. lg' = lg @ l @ [(a, None)] \<and> settles a"
proof -
  obtain d1 r1 lg1 w1 where i: "handleJobImpl E lg m w = ((d1, r1), lg1, w1)" by (metis prod.exhaust_sel)
  show ?thesis
  proof (cases "IsUnrecoverableError E r1")
    case True
    then obtain e where "lg' = lg1 @ [(UpdateStatus (fail_status E w1 e), None)]"
      using assms i by (auto simp: handleJob_def SetWorkloadFailed_def Let_def split: prod.splits dest!: do_write_cases)
    moreover have "IsEnd (fail_status E w1 e)" by (simp add: IsEnd_iff ended_phases)
    ultimately show ?thesis using handleJobImpl_prefix [OF i] by (auto simp: settles_def)
  next
    case False
    then have "r1 = None" "lg' = lg1" using assms i by (auto simp: handleJob_def)
    then show ?thesis using deleted_impl [OF assms(2,7,6) i] by blast
  qed
qed

text \<open>An ended workload is not touched any more: an event on its object at most removes finalizers of objects
  whose deletion is overdue, unless an error counts as unrecoverable; then the workload is marked as failed,
  whatever its phase was.\<close>

lemma ended_untouched:
  assumes "getAdminWorkload E lg (msg_workloadId m) = Inr (Some w)" and "IsEnd w" and "handleJob E lg m = (res, lg')"
  shows "\<exists>lg1. writes_only is_ClearFinalizers lg lg1 \<and>
           (lg' = lg1 \<or> (\<exists>e. IsUnrecoverableError E (Some e) \<and> lg' = lg1 @ [(UpdateStatus (fail_status E w (err_Message e)), snd res)]))"
proof (cases "lg' = lg")
  case False
  obtain d r1 lg1 w1 where i: "handleJobImpl E lg m w = ((d, r1), lg1, w1)" by (metis prod.exhaust_sel)
  have w1: "w1 = w \<and> writes_only is_ClearFinalizers lg lg1"
    using i assms(2) unfolding handleJobImpl_def
    by (auto split: prod.splits sum.splits if_splits bool.splits dest: waitJobDeleted_writes reschedule_step_writes(2))
  have "lg' = lg1 \<or> (\<exists>e. IsUnrecoverableError E (Some e) \<and> lg' = lg1 @ [(UpdateStatus (fail_status E w (err_Message e)), snd res)])"
  proof (cases "IsUnrecoverableError E r1")
    case True
    then obtain e where "r1 = Some e" by (cases r1) (auto simp: IsUnrecoverableError_def)
    then show ?thesis using True assms i w1 False
      by (auto simp: handleJob_def SetWorkloadFailed_def Let_def split: prod.splits if_splits dest!: do_write_cases)
  next
    case b: False
    then show ?thesis using assms i False by (auto simp: handleJob_def split: if_splits)
  qed
  then show ?thesis using w1 by blast
qed auto

section \<open>Offloading\<close>

lemma upsert_nodes_ok:
  "upsert_nodes E lg rows = (None, lg') \<Longrightarrow> None \<notin> set rows \<Longrightarrow>
     \<exists>l. lg' = lg @ l \<and> map fst l = map (DbUpsertDispatchNode \<circ> the) rows \<and> (\<forall>e \<in> set l. snd e = None)"
proof (induction E lg rows rule: upsert_nodes.induct)
  case (3 E lg row rows)
  obtain r1 lg1 where d: "do_write E lg (DbUpsertDispatchNode row) = (r1, lg1)" by force
  then have "r1 = None" and "upsert_nodes E lg1 rows = (None, lg')" using "3.prems"(1) by (cases r1; simp)+
  then obtain l where "lg' = lg1 @ l" "map fst l = map (DbUpsertDispatchNode \<circ> the) rows" "\<forall>e \<in> set l. snd e = None"
    using "3.IH" d "3.prems"(2) by force
  then show ?case using do_write_cases [OF d] \<open>r1 = None\<close> by (intro exI [of _ "(DbUpsertDispatchNode row, None) # l"]) simp
qed auto

lemma writeWorkloadStatusToDB_ok:
  assumes "writeWorkloadStatusToDB E lg w = (None, lg')"
  shows "\<exists>l. lg' = lg @ (DbUpsertPods (map (WorkloadPodFromV1 (sp_json E) (w_Name w) (GetWorkloadDispatchCnt (w_Meta w))) (st_Pods (w_Status w))), None) #
             (DbDeletePodsNotIn (w_Name w) (map pod_PodId (st_Pods (w_Status w))), None) # l \<and>
           map fst l = map (DbUpsertDispatchNode \<circ> the)
             (WorkloadDispatchNodesFromV1 (sp_json E) (w_Name w) (st_Nodes (w_Status w)) (st_Ranks (w_Status w))) \<and> (\<forall>e \<in> set l. snd e = None)"
proof -
  let ?rows = "WorkloadDispatchNodesFromV1 (sp_json E) (w_Name w) (st_Nodes (w_Status w)) (st_Ranks (w_Status w))"
  let ?a = "DbUpsertPods (map (WorkloadPodFromV1 (sp_json E) (w_Name w) (GetWorkloadDispatchCnt (w_Meta w))) (st_Pods (w_Status w)))"
    and ?b = "DbDeletePodsNotIn (w_Name w) (map pod_PodId (st_Pods (w_Status w)))"
  obtain r1 lg1 where a: "do_write E lg ?a = (r1, lg1)" by force
  obtain r2 lg2 where b: "do_write E lg1 ?b = (r2, lg2)" by force
  have ok: "r1 = None" "r2 = None" "upsert_nodes E lg2 ?rows = (None, lg')"
    using assms a b by (auto simp: writeWorkloadStatusToDB_def Let_def split: if_splits option.splits)
  have "None \<notin> set ?rows" by (auto simp: WorkloadDispatchNodesFromV1_def Let_def)
  then show ?thesis using upsert_nodes_ok [OF ok(3)] do_write_cases [OF a] do_write_cases [OF b] ok(1,2) by auto
qed


section \<open>Witnesses\<close>

definition sample_splane :: "Workload list \<Rightarrow> (goerr + int kpod list) \<Rightarrow> int splane" where
  "sample_splane ws pods = plane.extend (sample_plane ws [])
     \<lparr>sp_ulib = plain_ulib, sp_json = sample_codec, json_FailedPods = (\<lambda>_. ''failed''), cfg_IsDBEnable = True, db_client = True,
      db_ListWorkloadPods = (\<lambda>_ _. Inr []), db_ListWorkloadDispatchNodes = (\<lambda>_ _. Inr []),
      informer_Get = (\<lambda>_ _ _ n. Inl (NewNotFound ''Pod'' n)), plane_ListPods = (\<lambda>_ _ _. pods),
      plane_GetNode = (\<lambda>_ n. Inl (NewNotFound ''Node'' n)), ConvertUnstructuredToPod = (\<lambda>_. Inl (plain_error ''convert'')),
      plane_GetLogs = (\<lambda>_ _ _. Inr ''''), SetControllerReference = (\<lambda>_ _. Inr [])\<rparr>"

definition running_job :: Workload where
  "running_job = (blank_workload ''job'')\<lparr>w_Meta := (blank_meta ''job'')\<lparr>om_Annotations := [(WorkloadDispatchedAnnotation, ''1'')]\<rparr>,
     w_Spec := blank_spec\<lparr>ws_MaxRetry := 3\<rparr>, w_Status := blank_status\<lparr>st_Phase := WorkloadRunning, st_Pods := [sample_pod ''n1'' ''Running'' 0]\<rparr>\<rparr>"

definition job_event :: "string \<Rightarrow> resourceMessage" where
  "job_event action =
     \<lparr>msg_cluster = ''c'', msg_name = ''job'', msg_namespace = ''ws'', msg_uid = ''u'',
      msg_gvk = \<lparr>gvk_Group = [], gvk_Version = ''v1'', gvk_Kind = ''PyTorchJob''\<rparr>, msg_action = action,
      msg_workloadId = ''job'', msg_groupId = '''', msg_dispatchCount = 1\<rparr>"

lemma sample_splane_simps:
  "get_Workload (sample_splane ws pods) lg n = find_by ''Workload'' n (\<lambda>w. om_Name (w_Meta w)) ws"
  "db_ListWorkloadPods (sample_splane ws pods) lg n = Inr []" "db_ListWorkloadDispatchNodes (sample_splane ws pods) lg n = Inr []"
  "write_result (sample_splane ws pods) lg a = None" "cfg_IsDBEnable (sample_splane ws pods)" "db_client (sample_splane ws pods)"
  by (simp_all add: sample_splane_def plane.defs sample_plane_def env.defs sample_env_def ext.defs)

lemma conditions_recorded_once_witness:
  "let w = updateWorkloadCondition running_job (NewCondition (sample_env [] [] [] []) K8sRunning ''ok'' ''run_1_times'') in
   distinct (cond_keys (st_Conditions (w_Status w))) \<and> last (st_Conditions (w_Status w)) = NewCondition (sample_env [] [] [] []) K8sRunning ''ok'' ''run_1_times''"
proof -
  let ?c = "NewCondition (sample_env [] [] [] []) K8sRunning ''ok'' ''run_1_times''"
  have "distinct (cond_keys (st_Conditions (w_Status running_job)))" "\<not> has_cond (st_Conditions (w_Status running_job)) (cond_Type ?c) (cond_Reason ?c)"
    by (simp_all add: running_job_def sample_defs cond_keys_def has_cond_def)
  then show ?thesis using conditions_recorded_once [of running_job ?c] by (simp add: Let_def)
qed

lemma deleted_object_settled_witness:
  "\<exists>l a. snd (handleJob (sample_splane [running_job] (Inr [])) [] (job_event ResourceDel)) = l @ [(a, None)] \<and> settles a"
proof -
  let ?E = "sample_splane [running_job] (Inr [])" and ?m = "job_event ResourceDel"
  have g: "getAdminWorkload ?E [] (msg_workloadId ?m) = Inr (Some running_job)"
    by (simp add: getAdminWorkload_def hydrateWorkloadStatusFromDB_def sample_splane_simps running_job_def sample_defs job_event_def)
  have "msg_namespace ?m = ws_Workspace (w_Spec running_job)" "\<not> IsMonarchJob running_job" "\<not> IsCICDScalingRunnerSet running_job"
    "IsWorkloadDispatched (w_Meta running_job)" "\<not> IsEnd running_job" "msg_action ?m = ResourceDel" "snd (fst (handleJob ?E [] ?m)) = None"
    by code_simp+
  then show ?thesis
    using deleted_object_settled [OF g, of "fst (fst (handleJob ?E [] ?m))" "snd (handleJob ?E [] ?m)"] by (metis append_Nil prod.collapse)
qed

lemma reschedule_resets_witness:
  "\<exists>lg' w'. reSchedule (sample_splane [] (Inr [])) [] running_job 1 = (None, lg', w') \<and> w_Phase w' = WorkloadPending \<and>
     IsWorkloadReScheduled (w_Meta w')"
proof -
  let ?r = "reSchedule (sample_splane [] (Inr [])) [] running_job 1"
  have n: "fst ?r = None" and d: "IsWorkloadDispatched (w_Meta running_job)" by code_simp+
  then have "?r = (None, fst (snd ?r), snd (snd ?r))" by (metis prod.collapse)
  from reschedule_resets [OF this d] this show ?thesis by blast
qed

definition torchft_workload :: Workload where
  "torchft_workload = (blank_workload ''job'')\<lparr>w_Spec := blank_spec\<lparr>ws_Env := [(ReplicaCount, ''2''), (MinReplicaCount, ''2'')],
     ws_GVK := \<lparr>gvk_Group = [], gvk_Version = ''v1'', gvk_Kind = TorchFTKind\<rparr>\<rparr>\<rparr>"


definition succeeded_job :: Workload where
  "succeeded_job = running_job\<lparr>w_Status := blank_status\<lparr>st_Phase := WorkloadSucceeded\<rparr>\<rparr>"

definition forbidden :: goerr where
  "forbidden = \<lparr>err_Reason = ''Forbidden'', err_Code = 403, err_Message = ''pods is forbidden''\<rparr>"

lemma succeeded_job_admin: "getAdminWorkload (sample_splane [succeeded_job] pods) lg ''job'' = Inr (Some succeeded_job)"
  by (simp add: getAdminWorkload_def hydrateWorkloadStatusFromDB_def sample_splane_simps succeeded_job_def running_job_def sample_defs)

lemma ended_untouched_witness:
  "\<exists>lg1. writes_only is_ClearFinalizers [] lg1 \<and> snd (handleJob (sample_splane [succeeded_job] (Inr [])) [] (job_event ResourceDel)) = lg1"
proof -
  let ?E = "sample_splane [succeeded_job] (Inr [])"
  let ?r = "handleJob ?E [] (job_event ResourceDel)"
  have n: "snd ?r = []" and e: "IsEnd succeeded_job" by code_simp+
  have "?r = (fst ?r, snd ?r)" by simp
  from ended_untouched [OF _ e this, unfolded n] succeeded_job_admin [of "Inr []" "[]"] n show ?thesis by (auto simp: job_event_def)
qed


lemma single_update:
  assumes "case lg of [(UpdateStatus x, None)] \<Rightarrow> P x | _ \<Rightarrow> False"
  shows "\<exists>x. lg = [(UpdateStatus x, None)] \<and> P x"
proof (cases lg)
  case (Cons e l)
  then show ?thesis using assms by (cases l; cases "fst e"; cases "snd e"; cases e) auto
qed (use assms in simp)


end
