(* ===== verification/Pod_Sync.thy ===== *)
theory Pod_Sync
  imports Job_Sync Fault_Common
begin

text \<open>
  \<^verbatim>\<open>job-manager/pkg/syncer/pod_handler.go\<close> and \<^verbatim>\<open>ConvertIpToInt\<close> of \<^verbatim>\<open>utils/pkg/netutil\<close>: how the pods of a
  workload are kept in its status, with the nodes of each dispatch, and the faults that keep its nodes
  reserved. A result \<^term>\<open>None\<close> is a panic: an index out of range.
\<close>

definition MaxRayJobWaitTime :: int where "MaxRayJobWaitTime = 3600"
definition appComponent :: string where "appComponent = ''app.kubernetes.io/component''"
definition scaleSetListener :: string where "scaleSetListener = ''runner-scale-set-listener''"
definition monarchMeshLabel :: string where "monarchMeshLabel = ''monarch.pytorch.org/mesh-name''"
definition OpsJobPreflightType :: string where "OpsJobPreflightType = ''preflight''"
definition PodUnknown :: string where "PodUnknown = ''Unknown''"

record ClusterClientSets =
  ccs_name :: string
  ccs_resourceInformers :: "string object_manager"

section \<open>The order of the pods\<close>

fun atoi_all :: "string list \<Rightarrow> int list option" where
  "atoi_all [] = Some []"
| "atoi_all (v # vs) = (case go_atoi v of None \<Rightarrow> None | Some n \<Rightarrow> map_option (Cons n) (atoi_all vs))"

definition ConvertIpToInt :: "string \<Rightarrow> int option" where
  "ConvertIpToInt ip =
     (case atoi_all (go_split (CHR ''.'') ip) of
        None \<Rightarrow> Some 0
      | Some (a # b # c # d # _) \<Rightarrow> Some (wrap64 (a * 2 ^ 24 + b * 2 ^ 16 + c * 2 ^ 8 + d))
      | Some _ \<Rightarrow> None)"

definition comparePodsByIPAndID :: "WorkloadPod \<Rightarrow> WorkloadPod \<Rightarrow> bool option" where
  "comparePodsByIPAndID podI podJ =
     (if pod_HostIp podI = pod_HostIp podJ then Some (pod_PodId podI < pod_PodId podJ)
      else case (ConvertIpToInt (pod_HostIp podI), ConvertIpToInt (pod_HostIp podJ)) of
             (Some ipI, Some ipJ) \<Rightarrow> Some (ipI < ipJ)
           | _ \<Rightarrow> None)"

definition getRayJobPodTier :: "string \<Rightarrow> int" where
  "getRayJobPodTier podId =
     (if str_contains podId ''-head-'' then 1 else if str_contains podId ''-worker-'' then 2 else 0)"

definition pod_order :: "Workload \<Rightarrow> WorkloadPod \<Rightarrow> WorkloadPod \<Rightarrow> bool option" where
  "pod_order w p q =
     (if IsTorchFT w then
        (if pod_GroupId p = pod_GroupId q then comparePodsByIPAndID p q else Some (pod_GroupId p < pod_GroupId q))
      else if IsMonarchJob w then
        (if pod_ResourceId p = pod_ResourceId q
         then if pod_GroupId p = pod_GroupId q then comparePodsByIPAndID p q else Some (pod_GroupId p < pod_GroupId q)
         else Some (pod_ResourceId p < pod_ResourceId q))
      else if IsRayJob w then
        Some (if getRayJobPodTier (pod_PodId p) \<noteq> getRayJobPodTier (pod_PodId q)
              then getRayJobPodTier (pod_PodId p) < getRayJobPodTier (pod_PodId q)
              else pod_PodId p < pod_PodId q)
      else comparePodsByIPAndID p q)"

definition sortWorkloadPods :: "Workload \<Rightarrow> Workload option" where
  "sortWorkloadPods adminWorkload =
     map_option (\<lambda>pods. adminWorkload\<lparr>w_Status := (w_Status adminWorkload)\<lparr>st_Pods := pods\<rparr>\<rparr>)
       (go_sort_opt (pod_order adminWorkload) (st_Pods (w_Status adminWorkload)))"

text \<open>The first pod of every node, in the order of the pods.\<close>

fun first_pods :: "strset \<Rightarrow> WorkloadPod list \<Rightarrow> WorkloadPod list" where
  "first_pods seen [] = []"
| "first_pods seen (p # ps) =
     (if set_Has seen (pod_AdminNodeName p) then first_pods seen ps
      else p # first_pods (set_Insert [pod_AdminNodeName p] seen) ps)"

definition updateWorkloadNodes :: "Workload \<Rightarrow> Workload option" where
  "updateWorkloadNodes adminWorkload =
     (case sortWorkloadPods adminWorkload of
        None \<Rightarrow> None
      | Some w \<Rightarrow>
          let firsts = first_pods set_New (st_Pods (w_Status w));
              nodeNames = map pod_AdminNodeName firsts;
              ranks = (if \<not> IsTorchFT w \<and> \<not> IsMonarchJob w then map pod_Rank firsts else []);
              s = w_Status w;
              dispatchCount = GetWorkloadDispatchCnt (w_Meta w)
          in if int (length (st_Nodes s)) < dispatchCount
             then Some (w\<lparr>w_Status := s\<lparr>st_Nodes := st_Nodes s @ [nodeNames], st_Ranks := st_Ranks s @ [ranks]\<rparr>\<rparr>)
             else if dispatchCount > 0
             then if int (length (st_Ranks s)) < dispatchCount then None
                  else Some (w\<lparr>w_Status := s\<lparr>st_Nodes := (st_Nodes s)[nat (dispatchCount - 1) := nodeNames],
                                               st_Ranks := (st_Ranks s)[nat (dispatchCount - 1) := ranks]\<rparr>\<rparr>)
             else Some w)"

section \<open>The pods of a Ray job\<close>

definition getRayJobPodSlotKey :: "string \<Rightarrow> string" where
  "getRayJobPodSlotKey podId =
     (if str_contains podId ''-head-'' then ''head'' else if str_contains podId ''-worker-'' then podId else ''submitter'')"

definition rayJobPodPhasePriority :: "string \<Rightarrow> int" where
  "rayJobPodPhasePriority phase =
     (if phase = PodRunning then 3 else if phase = PodPending then 2 else if phase = PodUnknown then 1 else 0)"

definition parseRayJobPodStartTime :: "('q, 'z) env_scheme \<Rightarrow> string \<Rightarrow> gotime option" where
  "parseRayJobPodStartTime E startTime =
     (if startTime = '''' then None
      else case time_Parse E TimeRFC3339Short startTime of Inl e \<Rightarrow> None | Inr parsed \<Rightarrow> Some parsed)"

definition compare_ids :: "string \<Rightarrow> string \<Rightarrow> int" where
  "compare_ids a b = (if a > b then 1 else if a < b then -1 else 0)"

definition compareRayJobPodPriority :: "('q, 'z) env_scheme \<Rightarrow> WorkloadPod \<Rightarrow> WorkloadPod \<Rightarrow> int" where
  "compareRayJobPodPriority E a b =
     (let phaseDiff = rayJobPodPhasePriority (pod_Phase a) - rayJobPodPhasePriority (pod_Phase b) in
      if phaseDiff \<noteq> 0 then phaseDiff
      else case (parseRayJobPodStartTime E (pod_StartTime a), parseRayJobPodStartTime E (pod_StartTime b)) of
             (Some timeA, Some timeB) \<Rightarrow>
               if timeA \<noteq> timeB then if timeA > timeB then 1 else -1 else compare_ids (pod_PodId a) (pod_PodId b)
           | (Some _, None) \<Rightarrow> 1
           | (None, Some _) \<Rightarrow> -1
           | (None, None) \<Rightarrow> compare_ids (pod_PodId a) (pod_PodId b))"

text \<open>Called with a non-empty list.\<close>

definition selectCurrentRayJobPod :: "('q, 'z) env_scheme \<Rightarrow> WorkloadPod list \<Rightarrow> WorkloadPod" where
  "selectCurrentRayJobPod E pods =
     (if length pods = 1 then hd pods
      else let active = filter (\<lambda>p. \<not> IsPodTerminated p) pods;
               candidates = (if active \<noteq> [] then active else pods)
           in hd (go_sort (\<lambda>p q. compareRayJobPodPriority E p q > 0) candidates))"

definition ray_slots :: "WorkloadPod list \<Rightarrow> (string, WorkloadPod list) gomap" where
  "ray_slots pods =
     fold (\<lambda>p m. let key = getRayJobPodSlotKey (pod_PodId p) in mput m key (mget0 [] m key @ [p])) pods []"

definition pruneStaleRayJobPods :: "('q, 'z) env_scheme \<Rightarrow> WorkloadPod list \<Rightarrow> WorkloadPod list" where
  "pruneStaleRayJobPods E pods =
     (if length pods \<le> 1 then pods else map (\<lambda>(key, group). selectCurrentRayJobPod E group) (ray_slots pods))"

definition handleRaySubmitterTimeout ::
  "('q, 'z) splane_scheme \<Rightarrow> wlog \<Rightarrow> Workload \<Rightarrow> 'q kpod \<Rightarrow> bool \<times> goerr option \<times> wlog" where
  "handleRaySubmitterTimeout E lg adminWorkload pod =
     (if \<not> IsRayJob adminWorkload then (False, None, lg)
      else case find (\<lambda>p. pod_PodId p = om_Name (kp_Meta pod)) (st_Pods (w_Status adminWorkload)) of
             None \<Rightarrow> (False, None, lg)
           | Some p \<Rightarrow>
               if pod_ResourceId p > 0 \<or> pod_EndTime p = '''' then (False, None, lg)
               else case time_Parse E TimeRFC3339Short (pod_EndTime p) of
                      Inl e \<Rightarrow> (False, None, lg)
                    | Inr endTime \<Rightarrow>
                        if time_Sub (now E) endTime < MaxRayJobWaitTime * nano then (False, None, lg)
                        else case SetWorkloadFailed E lg adminWorkload ''rayJob submitter has timed out'' of
                               (err, lg', w') \<Rightarrow> (True, err, lg'))"

section \<open>What a pod tells\<close>

definition getMainContainerName :: "Workload \<Rightarrow> 'q kpod \<Rightarrow> string" where
  "getMainContainerName adminWorkload pod =
     (let mainContainerName = GetMainContainer (kp_Meta pod) in
      if mainContainerName = ''''
      then GetMainContainer_kind (w_Meta adminWorkload) (SpecKind adminWorkload) (fst (GetResourceId (kp_Meta pod)))
      else mainContainerName)"

definition getMainContainerRank :: "string \<Rightarrow> 'q kpod \<Rightarrow> string" where
  "getMainContainerRank mainContainerName pod =
     (case find (\<lambda>(k, v). k = ''RANK'')
             (concat (map kc_Env (filter (\<lambda>c. \<not> (mainContainerName \<noteq> '''' \<and> kc_Name c \<noteq> mainContainerName)) (kp_Containers pod)))) of
        None \<Rightarrow> '''' | Some (k, v) \<Rightarrow> v)"

text \<open>\<^verbatim>\<open>bufio.Scanner\<close>: lines without their end, up to the first one that does not fit its buffer.\<close>

definition drop_cr :: "string \<Rightarrow> string" where
  "drop_cr line = (if line \<noteq> [] \<and> last line = char_of (13::nat) then butlast line else line)"

definition scan_lines :: "string \<Rightarrow> string list" where
  "scan_lines data =
     (let raw = go_split (char_of (10::nat)) data;
          raw' = (if last raw = [] then butlast raw else raw)
      in map drop_cr (takeWhile (\<lambda>l. length l < 65536) raw'))"

definition getPodLog :: "('q, 'z) splane_scheme \<Rightarrow> 'q kpod \<Rightarrow> string \<Rightarrow> string" where
  "getPodLog E pod mainContainerName =
     (case plane_GetLogs E (om_Namespace (kp_Meta pod)) (om_Name (kp_Meta pod)) mainContainerName of
        Inl e \<Rightarrow> ''''
      | Inr data \<Rightarrow>
          let lines = filter (\<lambda>l. str_contains l ''[ERROR]'' \<or> str_contains l ''[SUCCESS]'') (scan_lines data) in
          if lines = [] then '''' else case json_Strings (sp_json E) lines of Inl e \<Rightarrow> '''' | Inr b \<Rightarrow> b)"

fun terminated_containers ::
  "('q, 'z) splane_scheme \<Rightarrow> Workload \<Rightarrow> 'q kpod \<Rightarrow> string \<Rightarrow> gotime option \<Rightarrow> container_status list \<Rightarrow> Container list \<times> gotime option" where
  "terminated_containers E w pod main finished [] = ([], finished)"
| "terminated_containers E w pod main finished (cs # rest) =
     (case cst_Terminated cs of
        None \<Rightarrow> terminated_containers E w pod main finished rest
      | Some t \<Rightarrow>
          let finished' = (case finished of None \<Rightarrow> Some (tm_FinishedAt t)
                                          | Some f \<Rightarrow> if tm_FinishedAt t > f then Some (tm_FinishedAt t) else Some f);
              main' = (if main = '''' then cst_Name cs else main);
              msg = (if IsOpsJob w \<and> cst_Name cs = main' \<and> GetOpsJobType (w_Meta w) \<noteq> OpsJobPreflightType
                     then getPodLog E pod main' else tm_Message t)
          in case terminated_containers E w pod main' finished' rest of
               (rs, f) \<Rightarrow> (\<lparr>ct_Name = cst_Name cs, ct_Message = msg, ct_ExitCode = tm_ExitCode t\<rparr> # rs, f))"

definition buildPodTerminatedInfo ::
  "('q, 'z) splane_scheme \<Rightarrow> Workload \<Rightarrow> 'q kpod \<Rightarrow> WorkloadPod \<Rightarrow> string \<Rightarrow> WorkloadPod" where
  "buildPodTerminatedInfo E adminWorkload pod workloadPod mainContainerName =
     (if kp_Phase pod \<noteq> PodFailed \<and> kp_Phase pod \<noteq> PodSucceeded then workloadPod
      else
        let m1 = (if kp_Phase pod = PodFailed then pod_FailedMessage workloadPod @ kp_Reason pod else pod_FailedMessage workloadPod);
            m2 = (if kp_Phase pod = PodFailed \<and> kp_Message pod \<noteq> ''''
                  then (if m1 \<noteq> '''' then m1 @ '', '' else m1) @ kp_Message pod else m1)
        in case terminated_containers E adminWorkload pod mainContainerName None (kp_ContainerStatuses pod) of
             (containers, finishedTime) \<Rightarrow>
               workloadPod\<lparr>pod_FailedMessage := m2, pod_Containers := pod_Containers workloadPod @ containers,
                 pod_EndTime := (case finishedTime of
                                   Some f \<Rightarrow> if f \<noteq> zero_time then FormatRFC3339 E f else FormatRFC3339 E (now E)
                                 | None \<Rightarrow> FormatRFC3339 E (now E))\<rparr>)"

definition buildWorkloadPodInfo :: "('q, 'z) splane_scheme \<Rightarrow> Workload \<Rightarrow> 'q kpod \<Rightarrow> ObjectMeta option \<Rightarrow> WorkloadPod" where
  "buildWorkloadPodInfo E adminWorkload pod k8sNode =
     (let resourceId = fst (GetResourceId (kp_Meta pod));
          mainContainerName = getMainContainerName adminWorkload pod;
          groupIdStr = GetGroupId (kp_Meta pod);
          groupId = (if groupIdStr = '''' then -1 else case go_atoi groupIdStr of None \<Rightarrow> -1 | Some n \<Rightarrow> n);
          workloadPod = \<lparr>pod_PodId = om_Name (kp_Meta pod), pod_ResourceId = wrap8 resourceId,
            pod_AdminNodeName = (case k8sNode of None \<Rightarrow> '''' | Some n \<Rightarrow> GetNodeId n), pod_Phase = kp_Phase pod,
            pod_HostIp = kp_HostIP pod, pod_PodIp = kp_PodIP pod, pod_Rank = getMainContainerRank mainContainerName pod,
            pod_StartTime = (case kp_StartTime pod of None \<Rightarrow> '''' | Some t \<Rightarrow> if t = zero_time then '''' else FormatRFC3339 E t),
            pod_EndTime = '''', pod_FailedMessage = '''', pod_Containers = [], pod_GroupId = wrap8 groupId\<rparr>
      in buildPodTerminatedInfo E adminWorkload pod workloadPod mainContainerName)"

section \<open>Pods in the status of a workload\<close>

definition set_pods :: "Workload \<Rightarrow> WorkloadPod list \<Rightarrow> Workload" where
  "set_pods w pods = w\<lparr>w_Status := (w_Status w)\<lparr>st_Pods := pods\<rparr>\<rparr>"

fun pod_index :: "string \<Rightarrow> WorkloadPod list \<Rightarrow> nat option" where
  "pod_index name [] = None"
| "pod_index name (p # ps) = (if pod_PodId p = name then Some 0 else map_option Suc (pod_index name ps))"

text \<open>The inner \<^term>\<open>None\<close> says that nothing changed.\<close>

definition updateWorkloadNodeAndPods ::
  "('q, 'z) splane_scheme \<Rightarrow> Workload \<Rightarrow> 'q kpod \<Rightarrow> ObjectMeta option \<Rightarrow> (WorkloadPod \<times> string \<times> Workload) option option" where
  "updateWorkloadNodeAndPods E adminWorkload pod k8sNode =
     (let pods = st_Pods (w_Status adminWorkload);
          id = pod_index (om_Name (kp_Meta pod)) pods;
          nodeId = (case k8sNode of None \<Rightarrow> '''' | Some n \<Rightarrow> GetNodeId n);
          same = (case id of
                    None \<Rightarrow> False
                  | Some i \<Rightarrow> pod_Phase (pods ! i) = kp_Phase pod \<and> pod_AdminNodeName (pods ! i) = nodeId \<and>
                             pod_StartTime (pods ! i) \<noteq> '''' \<and> pod_HostIp (pods ! i) = kp_HostIP pod)
      in if same then Some None
         else
           let podInfo = buildWorkloadPodInfo E adminWorkload pod k8sNode;
               oldPhase = (case id of None \<Rightarrow> '''' | Some i \<Rightarrow> pod_Phase (pods ! i));
               moved = (case id of
                          None \<Rightarrow> True
                        | Some i \<Rightarrow> pod_AdminNodeName (pods ! i) \<noteq> pod_AdminNodeName podInfo \<or>
                                   pod_HostIp (pods ! i) \<noteq> pod_HostIp podInfo \<or> pod_Rank (pods ! i) \<noteq> pod_Rank podInfo);
               pods1 = (case id of None \<Rightarrow> pods @ [podInfo] | Some i \<Rightarrow> pods[i := podInfo]);
               prunedPods = pruneStaleRayJobPods E pods1;
               pruned = IsRayJob adminWorkload \<and> length prunedPods \<noteq> length pods1;
               w1 = set_pods adminWorkload (if pruned then prunedPods else pods1)
           in if moved \<or> pruned
              then case updateWorkloadNodes w1 of None \<Rightarrow> None | Some w2 \<Rightarrow> Some (Some (podInfo, oldPhase, w2))
              else Some (Some (podInfo, oldPhase, w1)))"

definition updateCICDScalingRunnerSetPhase :: "Workload \<Rightarrow> 'q kpod \<Rightarrow> Workload" where
  "updateCICDScalingRunnerSetPhase adminWorkload pod =
     (if mget (om_Labels (kp_Meta pod)) appComponent \<noteq> Some scaleSetListener then adminWorkload
      else set_phase adminWorkload
             (if kp_Phase pod = PodRunning then WorkloadRunning
              else if kp_Phase pod = PodPending then WorkloadPending else WorkloadNotReady))"

definition isAllPodsAssigned :: "Workload \<Rightarrow> bool" where
  "isAllPodsAssigned workload =
     (if int (length (st_Pods (w_Status workload))) \<noteq> GetTotalReplica workload + (if IsRayJob workload then 1 else 0) then False
      else list_all (\<lambda>p. \<not> (pod_Phase p = PodPending \<or> pod_AdminNodeName p = '''')) (st_Pods (w_Status workload)))"

definition isAllPodRunning :: "Workload \<Rightarrow> bool" where
  "isAllPodRunning workload = list_all (\<lambda>p. pod_Phase p = PodRunning) (st_Pods (w_Status workload))"

definition removeWorkloadPod :: "('q, 'z) splane_scheme \<Rightarrow> wlog \<Rightarrow> resourceMessage \<Rightarrow> (goerr option \<times> wlog) option" where
  "removeWorkloadPod E lg message =
     (if msg_workloadId message = '''' then Some (None, lg)
      else case getAdminWorkload E lg (msg_workloadId message) of
        Inl e \<Rightarrow> Some (Some e, lg)
      | Inr None \<Rightarrow> Some (None, lg)
      | Inr (Some w) \<Rightarrow>
          let pods = st_Pods (w_Status w) in
          (case pod_index (msg_name message) pods of
             None \<Rightarrow> Some (None, lg)
           | Some i \<Rightarrow>
               if IsApplication w
               then case updateWorkloadNodes (set_pods w (take i pods @ drop (Suc i) pods)) of
                      None \<Rightarrow> None
                    | Some w1 \<Rightarrow> (case patchWorkloadPodStatus E lg w1 [] of (err, lg', w') \<Rightarrow> Some (err, lg'))
               else if IsPodTerminated (pods ! i) \<or> pod_Phase (pods ! i) = WorkloadStopped then Some (None, lg)
               else (case patchWorkloadPodStatus E lg (set_pods w (pods[i := (pods ! i)\<lparr>pod_Phase := WorkloadStopped\<rparr>])) [] of
                       (err, lg', w') \<Rightarrow> Some (err, lg'))))"

section \<open>Sticky nodes\<close>

text \<open>Setting the controller reference gives the owners of the fault, or fails.\<close>

definition generateStickyFault :: "('q, 'z) splane_scheme \<Rightarrow> Workload \<Rightarrow> string \<Rightarrow> goerr + Fault option" where
  "generateStickyFault E adminWorkload adminNodeId =
     (if adminNodeId = '''' then Inr None
      else
        let fault = \<lparr>f_Meta = \<lparr>om_Name = GenerateFaultId adminNodeId StickyNodesMonitorId, om_Namespace = '''', om_UID = '''',
                       om_ResourceVersion = '''', om_Generation = 0,
                       om_Labels = [(WorkloadIdLabel, w_Name adminWorkload), (NodeIdLabel, adminNodeId)], om_Annotations = [],
                       om_CreationTimestamp = zero_time, om_DeletionTimestamp = None, om_Finalizers = [], om_OwnerReferences = []\<rparr>,
                     f_Spec = \<lparr>fs_MonitorId = StickyNodesMonitorId, fs_Message = ''sticky node for workload '' @ w_Name adminWorkload,
                       fs_Node = Some \<lparr>fn_ClusterName = GetClusterId (w_Meta adminWorkload), fn_AdminName = adminNodeId\<rparr>,
                       fs_Action = TaintAction, fs_IsAutoRepairEnabled = False\<rparr>,
                     f_Status = \<lparr>fst_Phase = '''', fst_UpdateTime = None\<rparr>\<rparr>
        in case SetControllerReference E adminWorkload fault of
             Inl e \<Rightarrow> Inl e
           | Inr owners \<Rightarrow> Inr (Some (fault\<lparr>f_Meta := (f_Meta fault)\<lparr>om_OwnerReferences := owners\<rparr>\<rparr>)))"

fun create_faults :: "('q, 'z) splane_scheme \<Rightarrow> wlog \<Rightarrow> Workload \<Rightarrow> string list \<Rightarrow> goerr option \<times> wlog" where
  "create_faults E lg w [] = (None, lg)"
| "create_faults E lg w (n # ns) =
     (case generateStickyFault E w n of
        Inl e \<Rightarrow> (Some e, lg)
      | Inr None \<Rightarrow> create_faults E lg w ns
      | Inr (Some fault) \<Rightarrow>
          (case do_write E lg (CreateFault fault) of
             (None, lg') \<Rightarrow> create_faults E lg' w ns
           | (Some e, lg') \<Rightarrow> if api_IsAlreadyExists E e then create_faults E lg' w ns else (Some e, lg')))"

fun delete_faults :: "('q, 'z) splane_scheme \<Rightarrow> wlog \<Rightarrow> string list \<Rightarrow> goerr option \<times> wlog" where
  "delete_faults E lg [] = (None, lg)"
| "delete_faults E lg (n # ns) =
     (case do_write E lg (DeleteFault (GenerateFaultId n StickyNodesMonitorId)) of
        (None, lg') \<Rightarrow> delete_faults E lg' ns
      | (Some e, lg') \<Rightarrow> if api_IsNotFound E e then delete_faults E lg' ns else (Some e, lg'))"

definition createStickyNodeFaults :: "('q, 'z) splane_scheme \<Rightarrow> wlog \<Rightarrow> Workload \<Rightarrow> (goerr option \<times> wlog) option" where
  "createStickyNodeFaults E lg adminWorkload =
     (let n = GetWorkloadDispatchCnt (w_Meta adminWorkload); nodes = st_Nodes (w_Status adminWorkload) in
      if \<not> IsRetryingOnOriginal (w_Meta adminWorkload) \<or> n \<le> 0 \<or> shouldWorkloadStopRetry adminWorkload n then Some (None, lg)
      else if int (length nodes) < n then None
      else
        let cur = nodes ! nat (n - 1);
            prev = nodes ! nat (n - 2);
            toAddNodes = (if n \<ge> 2 then slice_Difference cur prev else cur);
            toDelNodes = (if n \<ge> 2 then slice_Difference prev cur else [])
        in Some (case create_faults E lg adminWorkload toAddNodes of
                   (Some e, lg1) \<Rightarrow> (Some e, lg1)
                 | (None, lg1) \<Rightarrow> delete_faults E lg1 toDelNodes))"

section \<open>Pod events\<close>

definition getMonarchMesh :: "('q, 'z) splane_scheme \<Rightarrow> wlog \<Rightarrow> string \<Rightarrow> string \<Rightarrow> goerr + k8s_object" where
  "getMonarchMesh E lg name namespace =
     ebind (GetResourceTemplateByGVK E lg MonarchMeshWorkloadGVK) (\<lambda>rt. GetObject E lg name namespace (rt_GVK rt))"

definition with_dispatch_count :: "resourceMessage \<Rightarrow> Workload \<Rightarrow> Workload" where
  "with_dispatch_count message w = w\<lparr>w_Meta := snd (SetLabel (w_Meta w) WorkloadDispatchCntLabel (itoa (msg_dispatchCount message)))\<rparr>"

definition getAdminWorkloadAndSyncPod ::
  "('q, 'z) splane_scheme \<Rightarrow> wlog \<Rightarrow> 'q kpod \<Rightarrow> resourceMessage \<Rightarrow> (goerr + Workload option) \<times> 'q kpod" where
  "getAdminWorkloadAndSyncPod E lg pod message =
     (let meshName = mget0 '''' (om_Labels (kp_Meta pod)) monarchMeshLabel;
          counted = (\<lambda>r. case r of Inl e \<Rightarrow> Inl e | Inr w \<Rightarrow> Inr (map_option (with_dispatch_count message) w))
      in if meshName = '''' then (counted (getAdminWorkload E lg (msg_workloadId message)), pod)
         else case getMonarchMesh E lg meshName (om_Namespace (kp_Meta pod)) of
                Inl e \<Rightarrow> (Inl e, pod)
              | Inr meshObj \<Rightarrow>
                  let m1 = snd (SetLabel (kp_Meta pod) GroupIdLabel (GetLabel (ko_Meta meshObj) GroupIdLabel));
                      m2 = snd (SetAnnotation m1 ResourceIdAnnotation (GetAnnotation (ko_Meta meshObj) ResourceIdAnnotation));
                      m3 = snd (SetAnnotation m2 MainContainerAnnotation (GetAnnotation (ko_Meta meshObj) MainContainerAnnotation))
                  in (counted (getAdminWorkload E lg (GetWorkloadId (ko_Meta meshObj))), pod\<lparr>kp_Meta := m3\<rparr>))"

definition getK8sNode :: "('q, 'z) splane_scheme \<Rightarrow> wlog \<Rightarrow> string \<Rightarrow> goerr + ObjectMeta option" where
  "getK8sNode E lg nodeName =
     (if nodeName = '''' then Inr None
      else case plane_GetNode E lg nodeName of Inl e \<Rightarrow> Inl e | Inr n \<Rightarrow> Inr (Some n))"

definition updateAdminWorkloadByPod ::
  "('q, 'z) splane_scheme \<Rightarrow> wlog \<Rightarrow> k8s_object \<Rightarrow> resourceMessage \<Rightarrow> (reconcile_result \<times> wlog) option" where
  "updateAdminWorkloadByPod E lg obj message =
     (case ConvertUnstructuredToPod E obj of
        Inl e \<Rightarrow> Some ((0, None), lg)
      | Inr pod0 \<Rightarrow>
          (case getAdminWorkloadAndSyncPod E lg pod0 message of
             (Inl e, pod) \<Rightarrow> Some ((0, Some e), lg)
           | (Inr None, pod) \<Rightarrow> Some ((0, None), lg)
           | (Inr (Some adminWorkload), pod) \<Rightarrow>
               if \<not> IsWorkloadDispatched (w_Meta adminWorkload) then Some ((nano, None), lg)
               else case handleRaySubmitterTimeout E lg adminWorkload pod of
                 (ok, err, lg1) \<Rightarrow>
                   if err \<noteq> None \<or> ok then Some ((0, err), lg1)
                   else case getK8sNode E lg1 (kp_NodeName pod) of
                     Inl e \<Rightarrow> Some ((0, Some e), lg1)
                   | Inr k8sNode \<Rightarrow>
                       (case updateWorkloadNodeAndPods E adminWorkload pod k8sNode of
                          None \<Rightarrow> None
                        | Some None \<Rightarrow> Some ((0, None), lg1)
                        | Some (Some (podInfo, oldPodPhase, w1)) \<Rightarrow>
                            (case (if isAllPodsAssigned w1 then createStickyNodeFaults E lg1 w1 else Some (None, lg1)) of
                               None \<Rightarrow> None
                             | Some (Some e, lg2) \<Rightarrow> Some ((0, Some e), lg2)
                             | Some (None, lg2) \<Rightarrow>
                                 let runner = IsCICDScalingRunnerSet w1;
                                     w2 = (if runner then updateCICDScalingRunnerSetPhase w1 pod else w1);
                                     extra = (if runner then [\<lambda>s. s\<lparr>st_Phase := st_Phase (w_Status w2)\<rparr>] else [])
                                 in case patchWorkloadPodStatus E lg2 w2 extra of
                                      (Some e, lg3, w3) \<Rightarrow> Some ((0, Some e), lg3)
                                    | (None, lg3, w3) \<Rightarrow>
                                        Some ((if oldPodPhase \<noteq> pod_Phase podInfo \<and> IsRayJob w3 \<and> pod_ResourceId podInfo = 0 \<and>
                                                  IsPodTerminated podInfo
                                               then MaxRayJobWaitTime * nano else 0, None), lg3)))))"

definition deletePod :: "('q, 'z) splane_scheme \<Rightarrow> wlog \<Rightarrow> k8s_object option \<Rightarrow> reconcile_result \<times> wlog" where
  "deletePod E lg obj =
     (case obj of
        None \<Rightarrow> ((0, None), lg)
      | Some ob \<Rightarrow>
          if time_IsZero (om_DeletionTimestamp (ko_Meta ob)) then ((0, None), lg)
          else case om_DeletionTimestamp (ko_Meta ob) of
            None \<Rightarrow> ((0, None), lg)
          | Some ts \<Rightarrow>
              if now E div nano - ts div nano < ForceDeleteDelaySeconds then ((3 * nano, None), lg)
              else case do_write E lg (PlaneDelete ''v1/pods'' (om_Namespace (ko_Meta ob)) (om_Name (ko_Meta ob)) (Some 0) '''') of
                     (err, lg') \<Rightarrow> ((0, IgnoreNotFound E err), lg'))"

definition GetObjectByInformer :: "('q, 'z) splane_scheme \<Rightarrow> wlog \<Rightarrow> string \<Rightarrow> string \<Rightarrow> string \<Rightarrow> goerr + k8s_object option" where
  "GetObjectByInformer E lg informer name namespace =
     (case informer_Get E lg informer namespace name of
        Inl e \<Rightarrow> if api_IsNotFound E e then Inr None else Inl e
      | Inr obj \<Rightarrow> Inr (Some obj))"

definition GetResourceInformer :: "ClusterClientSets \<Rightarrow> GroupVersionKind \<Rightarrow> goerr + string" where
  "GetResourceInformer r gvk =
     (case om_Get (ccs_resourceInformers r) (gvk_String gvk) of
        Some informer \<Rightarrow> Inr informer
      | None \<Rightarrow> Inl (plain_error (''failed to find informer, gvk: '' @ gvk_String gvk)))"

definition handlePod ::
  "('q, 'z) splane_scheme \<Rightarrow> wlog \<Rightarrow> resourceMessage \<Rightarrow> ClusterClientSets \<Rightarrow> (reconcile_result \<times> wlog) option" where
  "handlePod E lg message clusterClientSets =
     (case GetResourceInformer clusterClientSets (msg_gvk message) of
        Inl e \<Rightarrow> Some ((0, Some e), lg)
      | Inr informer \<Rightarrow>
          (case GetObjectByInformer E lg informer (msg_name message) (msg_namespace message) of
             Inl e \<Rightarrow> Some ((0, Some e), lg)
           | Inr ob \<Rightarrow>
               if (case ob of None \<Rightarrow> True | Some x \<Rightarrow> \<not> time_IsZero (om_DeletionTimestamp (ko_Meta x)))
               then case removeWorkloadPod E lg message of
                      None \<Rightarrow> None
                    | Some (Some e, lg1) \<Rightarrow> Some ((0, Some e), lg1)
                    | Some (None, lg1) \<Rightarrow> Some (deletePod E lg1 ob)
               else (case ob of Some x \<Rightarrow> updateAdminWorkloadByPod E lg x message | None \<Rightarrow> Some ((0, None), lg))))"

section \<open>The history of nodes\<close>

definition hosts_ok :: "Workload \<Rightarrow> bool" where
  "hosts_ok w \<longleftrightarrow> (\<forall>p \<in> set (st_Pods (w_Status w)). ConvertIpToInt (pod_HostIp p) \<noteq> None)"

lemma first_pods_names:
  "distinct (map pod_AdminNodeName (first_pods seen ps)) \<and>
   set (map pod_AdminNodeName (first_pods seen ps)) = {n \<in> pod_AdminNodeName ` set ps. \<not> set_Has seen n}"
  by (induction seen ps rule: first_pods.induct) auto

lemma first_pods_subset: "set (first_pods seen ps) \<subseteq> set ps"
  by (induction seen ps rule: first_pods.induct) auto

lemma pod_order_total:
  assumes "hosts_ok w" "p \<in> set (st_Pods (w_Status w))" "q \<in> set (st_Pods (w_Status w))"
  shows "pod_order w p q = Some (the (pod_order w p q))"
proof -
  obtain a b where "ConvertIpToInt (pod_HostIp p) = Some a" "ConvertIpToInt (pod_HostIp q) = Some b"
    using assms unfolding hosts_ok_def by blast
  then show ?thesis by (simp add: pod_order_def comparePodsByIPAndID_def)
qed

lemma sortWorkloadPods_total: "hosts_ok w \<Longrightarrow> \<exists>w'. sortWorkloadPods w = Some w'"
  unfolding sortWorkloadPods_def
  by (subst go_sort_opt_total [where lt' = "\<lambda>p q. the (pod_order w p q)"]) (auto intro: pod_order_total)

lemma sortWorkloadPods_spec:
  assumes "sortWorkloadPods w = Some w'"
  shows "\<exists>pods. w' = set_pods w pods \<and> mset pods = mset (st_Pods (w_Status w))"
  using assms by (auto simp: sortWorkloadPods_def set_pods_def dest: mset_go_sort_opt)

definition in_step :: "Workload \<Rightarrow> bool" where
  "in_step w \<longleftrightarrow> length (st_Ranks (w_Status w)) = length (st_Nodes (w_Status w)) \<and>
     GetWorkloadDispatchCnt (w_Meta w) \<le> int (length (st_Nodes (w_Status w))) + 1"

definition caught_up :: "Workload \<Rightarrow> bool" where
  "caught_up w \<longleftrightarrow> length (st_Ranks (w_Status w)) = length (st_Nodes (w_Status w)) \<and>
     GetWorkloadDispatchCnt (w_Meta w) \<le> int (length (st_Nodes (w_Status w)))"

lemma updateWorkloadNodes_in_step:
  assumes "hosts_ok w" and "in_step w" and "0 < GetWorkloadDispatchCnt (w_Meta w)"
  defines "n \<equiv> nat (GetWorkloadDispatchCnt (w_Meta w) - 1)"
  shows "\<exists>w'. updateWorkloadNodes w = Some w' \<and> caught_up w' \<and> w_Meta w' = w_Meta w \<and> w_Spec w' = w_Spec w \<and>
           mset (st_Pods (w_Status w')) = mset (st_Pods (w_Status w)) \<and>
           distinct (st_Nodes (w_Status w') ! n) \<and> set (st_Nodes (w_Status w') ! n) = pod_AdminNodeName ` set (st_Pods (w_Status w)) \<and>
           (\<forall>i < length (st_Nodes (w_Status w)). i \<noteq> n \<longrightarrow> st_Nodes (w_Status w') ! i = st_Nodes (w_Status w) ! i)"
proof -
  obtain pods where s: "sortWorkloadPods w = Some (set_pods w pods)" and pods: "mset pods = mset (st_Pods (w_Status w))"
    using sortWorkloadPods_total [OF assms(1)] sortWorkloadPods_spec by blast
  then have setp: "set pods = set (st_Pods (w_Status w))" by (metis set_mset_mset)
  define names where "names = map pod_AdminNodeName (first_pods set_New pods)"
  have names: "distinct names" "set names = pod_AdminNodeName ` set (st_Pods (w_Status w))"
    using first_pods_names [of set_New pods] setp by (auto simp: names_def set_Has_def set_New_def)
  show ?thesis
  proof (cases "int (length (st_Nodes (w_Status w))) < GetWorkloadDispatchCnt (w_Meta w)")
    case True
    then have "n = length (st_Nodes (w_Status w))" using assms(2,3) by (auto simp: in_step_def n_def nat_eq_iff)
    then show ?thesis using True s assms(2,3) pods names
      by (auto simp: updateWorkloadNodes_def Let_def set_pods_def names_def [symmetric] in_step_def caught_up_def nth_append)
  next
    case False
    then have "n < length (st_Nodes (w_Status w))" using assms(3) by (simp add: n_def)
    then show ?thesis using False s assms(2,3) pods names
      by (auto simp: updateWorkloadNodes_def Let_def set_pods_def names_def [symmetric] in_step_def caught_up_def n_def [symmetric])
  qed
qed

lemma updateWorkloadCondition_history:
  "st_Nodes (w_Status (updateWorkloadCondition w c)) = st_Nodes (w_Status w)"
  "st_Ranks (w_Status (updateWorkloadCondition w c)) = st_Ranks (w_Status w)"
  using updateWorkloadCondition_conditions [of w c] by auto

lemma pending_again_history:
  "st_Nodes (w_Status (pending_again E w)) = st_Nodes (w_Status w)" "st_Ranks (w_Status (pending_again E w)) = st_Ranks (w_Status w)"
  by (simp_all add: pending_again_def Let_def set_phase_def updateWorkloadCondition_history)

lemma atoi_itoa_le: "0 \<le> n \<Longrightarrow> atoi (itoa n) \<le> n"
proof (cases "in_int64 n")
  case False
  assume "0 \<le> n"
  then have "2 ^ 63 \<le> n" using False by (simp add: in_int64_def)
  moreover have "atoi (itoa n) < 2 ^ 63" using go_atoi_int64 [of "itoa n"]
    by (cases "go_atoi (itoa n)") (auto simp: atoi_def in_int64_def)
  ultimately show ?thesis by linarith
qed (simp add: atoi_itoa)

text \<open>As long as the history of nodes is in step with the dispatches, it stays so and no index is out of
  range: recording the pods of a dispatch fills its entry with the nodes of the pods, each once, and leaves
  the others alone; then reserving the nodes does not panic; and scheduling the workload again leaves room
  for the next dispatch.\<close>

lemma node_history_in_step:
  assumes "hosts_ok w" and "in_step w" and "0 < GetWorkloadDispatchCnt (w_Meta w)"
  defines "n \<equiv> GetWorkloadDispatchCnt (w_Meta w)"
  shows "\<exists>w'. updateWorkloadNodes w = Some w' \<and> caught_up w' \<and>
           mset (st_Pods (w_Status w')) = mset (st_Pods (w_Status w)) \<and>
           distinct (st_Nodes (w_Status w') ! nat (n - 1)) \<and>
           set (st_Nodes (w_Status w') ! nat (n - 1)) = pod_AdminNodeName ` set (st_Pods (w_Status w)) \<and>
           createStickyNodeFaults E lg w' \<noteq> None \<and>
           in_step (with_dispatch_count (m\<lparr>msg_dispatchCount := n + 1\<rparr>) (snd (reset_status E w' n)))"
proof -
  obtain w' where w': "updateWorkloadNodes w = Some w'" "caught_up w'" "w_Meta w' = w_Meta w"
      "mset (st_Pods (w_Status w')) = mset (st_Pods (w_Status w))"
      "distinct (st_Nodes (w_Status w') ! nat (n - 1))"
      "set (st_Nodes (w_Status w') ! nat (n - 1)) = pod_AdminNodeName ` set (st_Pods (w_Status w))"
    using updateWorkloadNodes_in_step [OF assms(1-3)] by (auto simp: n_def)
  have "createStickyNodeFaults E lg w' \<noteq> None"
    using w'(2,3) by (auto simp: createStickyNodeFaults_def Let_def caught_up_def)
  moreover have "in_step (with_dispatch_count (m\<lparr>msg_dispatchCount := n + 1\<rparr>) (snd (reset_status E w' n)))"
  proof -
    let ?v = "snd (reset_status E w' n)"
    have "st_Nodes (w_Status ?v) = st_Nodes (w_Status w')" "st_Ranks (w_Status ?v) = st_Ranks (w_Status w')"
      using w'(2,3) by (simp_all add: reset_status_def Let_def history_slot_def caught_up_def n_def pending_again_history)
    moreover have "atoi (itoa (n + 1)) \<le> n + 1" using assms(3) by (intro atoi_itoa_le) (simp add: n_def)
    ultimately show ?thesis using w'(2,3) by (auto simp: in_step_def caught_up_def with_dispatch_count_def GetWorkloadDispatchCnt_def n_def)
  qed
  ultimately show ?thesis using w' by blast
qed

section \<open>Every pod is tracked once\<close>

abbreviation ray_slot :: "WorkloadPod \<Rightarrow> string" where
  "ray_slot p \<equiv> getRayJobPodSlotKey (pod_PodId p)"

lemma ray_slots_spec:
  "wf_map (ray_slots pods) \<and> (\<forall>k. mget (ray_slots pods) k = (let g = filter (\<lambda>p. ray_slot p = k) pods in if g = [] then None else Some g))"
proof (induction pods rule: rev_induct)
  case (snoc p pods)
  have "ray_slots (pods @ [p]) = mput (ray_slots pods) (ray_slot p) (mget0 [] (ray_slots pods) (ray_slot p) @ [p])"
    by (simp add: ray_slots_def Let_def)
  moreover have "mget0 [] (ray_slots pods) (ray_slot p) = filter (\<lambda>q. ray_slot q = ray_slot p) pods"
    using snoc by (auto simp: mget0_def Let_def)
  ultimately show ?case using snoc by (simp add: Let_def)
qed (simp add: ray_slots_def)

lemma selectCurrentRayJobPod_spec:
  assumes "g \<noteq> []"
  shows "selectCurrentRayJobPod E g \<in> set g \<and>
         (IsPodTerminated (selectCurrentRayJobPod E g) \<longrightarrow> (\<forall>q \<in> set g. IsPodTerminated q))"
proof (cases "length g = 1")
  case True
  then show ?thesis by (auto simp: selectCurrentRayJobPod_def length_Suc_conv)
next
  case False
  define cs where "cs = (if filter (\<lambda>p. \<not> IsPodTerminated p) g \<noteq> [] then filter (\<lambda>p. \<not> IsPodTerminated p) g else g)"
  define s where "s = go_sort (\<lambda>p q. compareRayJobPodPriority E p q > 0) cs"
  have "s \<noteq> []" using assms by (simp add: s_def cs_def)
  then have "hd s \<in> set cs" unfolding s_def by (metis hd_in_set set_go_sort)
  moreover have "selectCurrentRayJobPod E g = hd s" using False by (simp add: selectCurrentRayJobPod_def Let_def s_def cs_def)
  ultimately show ?thesis by (auto simp: cs_def filter_empty_conv split: if_splits)
qed

lemma ray_prune_spec:
  shows "distinct (map ray_slot (pruneStaleRayJobPods E pods)) \<and> set (pruneStaleRayJobPods E pods) \<subseteq> set pods \<and>
         ray_slot ` set (pruneStaleRayJobPods E pods) = ray_slot ` set pods \<and>
         (\<forall>p \<in> set (pruneStaleRayJobPods E pods). IsPodTerminated p \<longrightarrow>
            (\<forall>q \<in> set pods. ray_slot q = ray_slot p \<longrightarrow> IsPodTerminated q))"
proof (cases "length pods \<le> 1")
  case True
  then show ?thesis by (cases pods) (auto simp: pruneStaleRayJobPods_def)
next
  case False
  let ?sel = "\<lambda>(key, g). selectCurrentRayJobPod E g"
  have eq: "pruneStaleRayJobPods E pods = map ?sel (ray_slots pods)" using False by (simp add: pruneStaleRayJobPods_def)
  have e: "g = filter (\<lambda>p. ray_slot p = k) pods \<and> g \<noteq> []" if "(k, g) \<in> set (ray_slots pods)" for k g
    using ray_slots_spec [of pods] map_of_is_SomeI [of "ray_slots pods" k g] that by (auto simp: wf_map_def Let_def split: if_splits)
  have key: "ray_slot (?sel e) = fst e" if "e \<in> set (ray_slots pods)" for e
    using e [of "fst e" "snd e"] selectCurrentRayJobPod_spec [of "snd e" E] that by (cases e) auto
  have "map ray_slot (map ?sel (ray_slots pods)) = map fst (ray_slots pods)" using key by simp
  moreover have "fst ` set (ray_slots pods) = ray_slot ` set pods"
  proof -
    have "k \<in> fst ` set (ray_slots pods) \<longleftrightarrow> filter (\<lambda>p. ray_slot p = k) pods \<noteq> []" for k
      using ray_slots_spec [of pods, THEN conjunct2, THEN spec, of k] map_of_eq_None_iff [of "ray_slots pods" k]
      by (simp add: Let_def split: if_splits)
    then have "k \<in> fst ` set (ray_slots pods) \<longleftrightarrow> k \<in> ray_slot ` set pods" for k by (auto simp: filter_empty_conv)
    then show ?thesis by blast
  qed
  moreover have "distinct (map fst (ray_slots pods))" using ray_slots_spec [of pods] by (simp add: wf_map_def)
  moreover have "p \<in> set pods \<and> (IsPodTerminated p \<longrightarrow> (\<forall>q \<in> set pods. ray_slot q = ray_slot p \<longrightarrow> IsPodTerminated q))"
    if p: "p \<in> set (pruneStaleRayJobPods E pods)" for p
  proof -
    obtain k g where kg: "(k, g) \<in> set (ray_slots pods)" "p = selectCurrentRayJobPod E g" using p by (auto simp: eq)
    then show ?thesis using e [OF kg(1)] selectCurrentRayJobPod_spec [of g E] by auto
  qed
  ultimately show ?thesis unfolding eq by (metis (no_types, lifting) image_set subsetI)
qed

lemma distinct_map_of_comp: "distinct (map (\<lambda>x. f (g x)) xs) \<Longrightarrow> distinct (map g xs)"
  by (induction xs) auto

lemma buildWorkloadPodInfo_id: "pod_PodId (buildWorkloadPodInfo E w pod n) = om_Name (kp_Meta pod)"
  by (simp add: buildWorkloadPodInfo_def buildPodTerminatedInfo_def Let_def split: prod.split)

lemma pod_index_Some: "pod_index name ps = Some i \<Longrightarrow> i < length ps \<and> pod_PodId (ps ! i) = name"
  by (induction ps arbitrary: i) (auto split: if_splits)

lemma pod_index_None: "pod_index name ps = None \<longleftrightarrow> name \<notin> pod_PodId ` set ps"
  by (induction ps) (auto split: if_splits)

lemma put_pod:
  assumes "distinct (map pod_PodId ps)" and "pod_PodId info = name"
  defines "ps' \<equiv> (case pod_index name ps of None \<Rightarrow> ps @ [info] | Some i \<Rightarrow> ps[i := info])"
  shows "distinct (map pod_PodId ps') \<and> set ps' = insert info {p \<in> set ps. pod_PodId p \<noteq> name}"
proof (cases "pod_index name ps")
  case None
  then have "name \<notin> pod_PodId ` set ps" by (simp add: pod_index_None)
  then have "\<forall>p \<in> set ps. pod_PodId p \<noteq> name" by force
  then show ?thesis using None assms by auto
next
  case (Some i)
  note i = pod_index_Some [OF Some]
  have "map pod_PodId (ps[i := info]) = map pod_PodId ps" using i assms(2) by (simp add: map_update list_update_same_conv)
  moreover have "set (ps[i := info]) = insert info (set ps - {ps ! i})"
    using i assms(1) by (simp add: set_update_distinct distinct_map)
  moreover have "set ps - {ps ! i} = {p \<in> set ps. pod_PodId p \<noteq> name}"
    using i assms(1) by (auto simp: distinct_map inj_on_def)
  ultimately show ?thesis using Some assms(1) by (simp add: ps'_def)
qed

lemma updateWorkloadNodes_pods:
  "updateWorkloadNodes w = Some w' \<Longrightarrow> mset (st_Pods (w_Status w')) = mset (st_Pods (w_Status w))"
  by (auto simp: updateWorkloadNodes_def Let_def set_pods_def split: option.splits if_splits dest!: sortWorkloadPods_spec)

text \<open>A pod event leaves every pod in the status at most once, with the information built from the event; the
  other pods stay as they were. In a Ray job one pod per role slot stays, and a terminated one only if no
  other pod of its slot is alive.\<close>

lemma pods_tracked_once:
  assumes "updateWorkloadNodeAndPods E w pod node = Some (Some (info, old, w'))" and "distinct (map pod_PodId (st_Pods (w_Status w)))"
  defines "known \<equiv> insert info {p \<in> set (st_Pods (w_Status w)). pod_PodId p \<noteq> om_Name (kp_Meta pod)}"
  shows "distinct (map pod_PodId (st_Pods (w_Status w'))) \<and> info = buildWorkloadPodInfo E w pod node \<and>
         (\<not> IsRayJob w \<longrightarrow> set (st_Pods (w_Status w')) = known) \<and>
         (IsRayJob w \<longrightarrow> set (st_Pods (w_Status w')) \<subseteq> known \<and> ray_slot ` set (st_Pods (w_Status w')) = ray_slot ` known \<and>
            (set (st_Pods (w_Status w')) \<noteq> known \<longrightarrow>
               (\<forall>p \<in> set (st_Pods (w_Status w')). IsPodTerminated p \<longrightarrow> (\<forall>q \<in> known. ray_slot q = ray_slot p \<longrightarrow> IsPodTerminated q))))"
proof -
  define name where "name = om_Name (kp_Meta pod)"
  define pods where "pods = st_Pods (w_Status w)"
  define pods1 where "pods1 = (case pod_index name pods of None \<Rightarrow> pods @ [info] | Some i \<Rightarrow> pods[i := info])"
  define pruned where "pruned \<longleftrightarrow> IsRayJob w \<and> length (pruneStaleRayJobPods E pods1) \<noteq> length pods1"
  define pods2 where "pods2 = (if pruned then pruneStaleRayJobPods E pods1 else pods1)"
  have info: "info = buildWorkloadPodInfo E w pod node"
    and w': "w' = set_pods w pods2 \<or> updateWorkloadNodes (set_pods w pods2) = Some w'"
    using assms(1) unfolding updateWorkloadNodeAndPods_def pods2_def pruned_def pods1_def name_def pods_def
    by (auto simp: Let_def split: if_splits option.splits)
  have m: "mset (st_Pods (w_Status w')) = mset pods2"
    using w' updateWorkloadNodes_pods [of "set_pods w pods2" w'] by (auto simp: set_pods_def)
  have put: "distinct (map pod_PodId pods1)" "set pods1 = known"
    using put_pod [of pods info name] assms(2) info buildWorkloadPodInfo_id [of E w pod node]
    by (auto simp: pods1_def known_def name_def pods_def)
  note pr = ray_prune_spec [of E pods1]
  have "distinct (map pod_PodId pods2)" using put(1) pr distinct_map_of_comp [of getRayJobPodSlotKey pod_PodId] by (auto simp: pods2_def)
  moreover have "set (st_Pods (w_Status w')) = set pods2" using m by (metis set_mset_mset)
  moreover have "distinct (map pod_PodId (st_Pods (w_Status w'))) = distinct (map pod_PodId pods2)"
    using m by (metis mset_eq_imp_distinct_iff mset_map)
  ultimately show ?thesis using put(2) pr info by (auto simp: pods2_def pruned_def)
qed

section \<open>Reserved nodes\<close>

definition reserves :: "Workload \<Rightarrow> string \<Rightarrow> apiwrite \<Rightarrow> bool" where
  "reserves w n a \<longleftrightarrow> (\<exists>f. a = CreateFault f \<and> om_Name (f_Meta f) = GenerateFaultId n StickyNodesMonitorId \<and>
     fs_MonitorId (f_Spec f) = StickyNodesMonitorId \<and> fs_Action (f_Spec f) = TaintAction \<and>
     map_option fn_AdminName (fs_Node (f_Spec f)) = Some n \<and> GetWorkloadId (f_Meta f) = w_Name w)"

definition releases :: "string \<Rightarrow> apiwrite \<Rightarrow> bool" where
  "releases n a \<longleftrightarrow> a = DeleteFault (GenerateFaultId n StickyNodesMonitorId)"

lemma generateStickyFault_spec:
  assumes "generateStickyFault E w n = Inr (Some f)"
  shows "reserves w n (CreateFault f)" and "n \<noteq> ''''"
  using assms by (auto simp: generateStickyFault_def Let_def reserves_def GetWorkloadId_def GetLabel_def WorkloadIdLabel_def NodeIdLabel_def
      split: if_splits option.splits sum.splits)

lemma create_faults_ok:
  "create_faults E lg w ns = (None, lg') \<Longrightarrow>
     \<exists>l. lg' = lg @ l \<and> list_all2 (\<lambda>n e. reserves w n (fst e) \<and> (\<forall>x. snd e = Some x \<longrightarrow> api_IsAlreadyExists E x)) (filter (\<lambda>n. n \<noteq> '''') ns) l"
proof (induction ns arbitrary: lg)
  case (Cons n ns)
  show ?case
  proof (cases "generateStickyFault E w n")
    case (Inr x)
    show ?thesis
    proof (cases x)
      case None
      then have "n = ''''" using Inr by (auto simp: generateStickyFault_def Let_def split: if_splits option.splits sum.splits)
      then show ?thesis using Cons None Inr by simp
    next
      case (Some f)
      obtain r1 lg1 where d: "do_write E lg (CreateFault f) = (r1, lg1)" by force
      then have r: "\<forall>x. r1 = Some x \<longrightarrow> api_IsAlreadyExists E x" and c: "create_faults E lg1 w ns = (None, lg')"
        using Cons.prems Inr Some by (cases r1; simp split: if_splits)+
      from Cons.IH [OF c] obtain l where "lg' = lg1 @ l"
        "list_all2 (\<lambda>n e. reserves w n (fst e) \<and> (\<forall>x. snd e = Some x \<longrightarrow> api_IsAlreadyExists E x)) (filter (\<lambda>n. n \<noteq> '''') ns) l" by blast
      then show ?thesis using do_write_cases [OF d] r generateStickyFault_spec [of E w n f] Inr Some
        by (intro exI [of _ "(CreateFault f, r1) # l"]) simp
    qed
  qed (use Cons in simp)
qed simp

lemma delete_faults_ok:
  "delete_faults E lg ns = (None, lg') \<Longrightarrow>
     \<exists>l. lg' = lg @ l \<and> list_all2 (\<lambda>n e. releases n (fst e) \<and> (\<forall>x. snd e = Some x \<longrightarrow> api_IsNotFound E x)) ns l"
proof (induction ns arbitrary: lg)
  case (Cons n ns)
  let ?a = "DeleteFault (GenerateFaultId n StickyNodesMonitorId)"
  obtain r1 lg1 where d: "do_write E lg ?a = (r1, lg1)" by force
  then have r: "\<forall>x. r1 = Some x \<longrightarrow> api_IsNotFound E x" and c: "delete_faults E lg1 ns = (None, lg')"
    using Cons.prems by (cases r1; simp split: if_splits)+
  from Cons.IH [OF c] obtain l where "lg' = lg1 @ l"
    "list_all2 (\<lambda>n e. releases n (fst e) \<and> (\<forall>x. snd e = Some x \<longrightarrow> api_IsNotFound E x)) ns l" by blast
  then show ?case using do_write_cases [OF d] r by (intro exI [of _ "(?a, r1) # l"]) (simp add: releases_def)
qed simp

text \<open>When the pods of a retried workload that shall keep its nodes are all placed, one fault per newly used
  node reserves it for the workload, and the faults of the nodes used by the previous dispatch only are
  removed; faults that exist or are gone already do not matter, and nothing else is written.\<close>

lemma sticky_faults_follow_nodes:
  assumes "createStickyNodeFaults E lg w = Some (None, lg')" and "IsRetryingOnOriginal (w_Meta w)"
    and "GetWorkloadDispatchCnt (w_Meta w) = n" "2 \<le> n" and "\<not> shouldWorkloadStopRetry w n"
  defines "cur \<equiv> st_Nodes (w_Status w) ! nat (n - 1)" and "prev \<equiv> st_Nodes (w_Status w) ! nat (n - 2)"
  shows "\<exists>l1 l2. lg' = lg @ l1 @ l2 \<and>
           list_all2 (\<lambda>x e. reserves w x (fst e) \<and> (\<forall>y. snd e = Some y \<longrightarrow> api_IsAlreadyExists E y)) (filter (\<lambda>x. x \<notin> set prev \<and> x \<noteq> '''') cur) l1 \<and>
           list_all2 (\<lambda>x e. releases x (fst e) \<and> (\<forall>y. snd e = Some y \<longrightarrow> api_IsNotFound E y)) (filter (\<lambda>x. x \<notin> set cur) prev) l2"
proof -
  have diff: "slice_Difference xs ys = filter (\<lambda>x. x \<notin> set ys) xs" for xs ys
    by (simp add: slice_Difference_def)
  obtain r1 lg1 where c: "create_faults E lg w (slice_Difference cur prev) = (r1, lg1)" by force
  then have "r1 = None" and d: "delete_faults E lg1 (slice_Difference prev cur) = (None, lg')"
    using assms(1-5) by (cases r1; auto simp: createStickyNodeFaults_def Let_def cur_def prev_def split: if_splits)+
  then obtain l1 l2 where "lg1 = lg @ l1" "lg' = lg1 @ l2"
    "list_all2 (\<lambda>x e. reserves w x (fst e) \<and> (\<forall>y. snd e = Some y \<longrightarrow> api_IsAlreadyExists E y)) (filter (\<lambda>x. x \<noteq> '''') (slice_Difference cur prev)) l1"
    "list_all2 (\<lambda>x e. releases x (fst e) \<and> (\<forall>y. snd e = Some y \<longrightarrow> api_IsNotFound E y)) (slice_Difference prev cur) l2"
    using create_faults_ok [of E lg w _ lg1] delete_faults_ok [OF d] c by blast
  then show ?thesis by (intro exI [of _ l1] exI [of _ l2]) (simp add: diff conj_commute)
qed

section \<open>Witnesses\<close>

definition placed_job :: Workload where
  "placed_job = (blank_workload ''job'')\<lparr>
     w_Meta := (blank_meta ''job'')\<lparr>om_Labels := [(WorkloadDispatchCntLabel, ''2'')],
       om_Annotations := [(WorkloadDispatchedAnnotation, ''1''), (RetryOnOriginalNodesAnnotation, TrueStr)]\<rparr>,
     w_Spec := blank_spec\<lparr>ws_MaxRetry := 3\<rparr>,
     w_Status := blank_status\<lparr>st_Pods := [(sample_pod ''n2'' ''Running'' 0)\<lparr>pod_PodId := ''p'', pod_HostIp := ''10.0.0.2''\<rparr>],
       st_Nodes := [[''n1'']], st_Ranks := [[''0'']]\<rparr>\<rparr>"

lemma node_history_in_step_witness:
  "\<exists>w'. updateWorkloadNodes placed_job = Some w' \<and> set (st_Nodes (w_Status w') ! 1) = {''n2''} \<and>
        createStickyNodeFaults (sample_splane [] (Inr [])) [] w' \<noteq> None"
proof -
  have h: "hosts_ok placed_job" "in_step placed_job" and n: "GetWorkloadDispatchCnt (w_Meta placed_job) = 2" by code_simp+
  have "pod_AdminNodeName ` set (st_Pods (w_Status placed_job)) = {''n2''}" by (simp add: placed_job_def sample_pod_def)
  then show ?thesis using node_history_in_step [OF h, of "sample_splane [] (Inr [])" "[]" "job_event ResourceAdd"] n by auto
qed

definition new_pod :: "int kpod" where
  "new_pod = \<lparr>kp_Meta = blank_meta ''p'', kp_NodeName = ''n1'', kp_Containers = [], kp_Phase = ''Running'', kp_HostIP = ''10.0.0.1'', kp_PodIP = '''',
     kp_StartTime = None, kp_Reason = '''', kp_Message = '''', kp_ContainerStatuses = []\<rparr>"

lemma pods_tracked_once_witness:
  "\<exists>info old w'. updateWorkloadNodeAndPods (sample_splane [] (Inr [])) (blank_workload ''job'') new_pod None = Some (Some (info, old, w')) \<and>
     set (st_Pods (w_Status w')) = {info}"
proof -
  let ?E = "sample_splane [] (Inr [])" and ?w = "blank_workload ''job''"
  define info where "info = buildWorkloadPodInfo ?E ?w new_pod None"
  have k: "\<not> IsRayJob ?w" "GetWorkloadDispatchCnt (w_Meta ?w) = 0" by code_simp+
  have e: "st_Pods (w_Status ?w) = []" "st_Nodes (w_Status ?w) = []" by (simp_all add: sample_defs)
  have "sortWorkloadPods (set_pods ?w [info]) = Some (set_pods ?w [info])"
    by (simp add: sortWorkloadPods_def go_sort_opt_def set_pods_def)
  then have "updateWorkloadNodes (set_pods ?w [info]) = Some (set_pods ?w [info])"
    using k(2) by (simp add: updateWorkloadNodes_def Let_def set_pods_def e)
  then have r: "updateWorkloadNodeAndPods ?E ?w new_pod None = Some (Some (info, '''', set_pods ?w [info]))"
    using k(1) by (simp add: updateWorkloadNodeAndPods_def Let_def e info_def [symmetric])
  from pods_tracked_once [OF r] k(1) e r show ?thesis by auto
qed

definition moved_job :: Workload where
  "moved_job = placed_job\<lparr>w_Status := (w_Status placed_job)\<lparr>st_Nodes := [[''n1''], [''n2'']]\<rparr>\<rparr>"

lemma sticky_faults_follow_nodes_witness:
  "\<exists>l1 l2. list_all2 (\<lambda>x e. reserves moved_job x (fst e)) [''n2''] l1 \<and> list_all2 (\<lambda>x e. releases x (fst e)) [''n1''] l2 \<and>
     createStickyNodeFaults (sample_splane [] (Inr [])) [] moved_job = Some (None, l1 @ l2)"
proof -
  let ?E = "sample_splane [] (Inr [])"
  let ?r = "createStickyNodeFaults ?E [] moved_job"
  have "map_option fst ?r = Some None" by code_simp
  then obtain lg' where r: "?r = Some (None, lg')" by (cases ?r) (simp_all, metis prod.collapse)
  have c: "IsRetryingOnOriginal (w_Meta moved_job)" "GetWorkloadDispatchCnt (w_Meta moved_job) = 2" "\<not> shouldWorkloadStopRetry moved_job 2"
    by code_simp+
  have n: "st_Nodes (w_Status moved_job) = [[''n1''], [''n2'']]" by (simp add: moved_job_def)
  have f: "filter (\<lambda>x. x \<notin> set (st_Nodes (w_Status moved_job) ! nat (2 - 2)) \<and> x \<noteq> '''') (st_Nodes (w_Status moved_job) ! nat (2 - 1)) = [''n2'']"
    "filter (\<lambda>x. x \<notin> set (st_Nodes (w_Status moved_job) ! nat (2 - 1))) (st_Nodes (w_Status moved_job) ! nat (2 - 2)) = [''n1'']"
    by (simp_all add: n)
  from sticky_faults_follow_nodes [OF r c(1,2) order_refl c(3), unfolded f append_Nil] obtain l1 l2 where
    l: "lg' = l1 @ l2" "list_all2 (\<lambda>x e. reserves moved_job x (fst e) \<and> (\<forall>y. snd e = Some y \<longrightarrow> api_IsAlreadyExists ?E y)) [''n2''] l1"
      "list_all2 (\<lambda>x e. releases x (fst e) \<and> (\<forall>y. snd e = Some y \<longrightarrow> api_IsNotFound ?E y)) [''n1''] l2" by blast
  have "list_all2 (\<lambda>x e. reserves moved_job x (fst e)) [''n2''] l1" by (rule list_all2_mono [OF l(2)]) simp
  moreover have "list_all2 (\<lambda>x e. releases x (fst e)) [''n1''] l2" by (rule list_all2_mono [OF l(3)]) simp
  ultimately show ?thesis using r l(1) by blast
qed

end
