(* ===== verification/Syncer.thy ===== *)
theory Syncer
  imports Pod_Sync
begin

text \<open>
  \<^verbatim>\<open>job-manager/pkg/syncer/syncer.go\<close>, \<^verbatim>\<open>cluster_client_sets.go\<close> and \<^verbatim>\<open>github_annotation_sync.go\<close>: the clients and
  informers of the data-plane clusters, the events they turn into messages, and the worker that handles a
  message. Connecting to a cluster, registering an event handler and the accessors of unstructured objects
  of the Kubernetes library are fields of the parameter \<open>cplane\<close>.
\<close>

record 'q cplane = "'q splane" +
  get_Cluster :: "wlog \<Rightarrow> string \<Rightarrow> goerr + string"
  newClientFactory :: "wlog \<Rightarrow> string \<Rightarrow> goerr option"
  IsNoMatchError :: "goerr \<Rightarrow> bool"
  AddEventHandler :: "string \<Rightarrow> goerr option"
  k8s_NestedInt64 :: "umap \<Rightarrow> string list \<Rightarrow> int option"
  k8s_NestedString :: "umap \<Rightarrow> string list \<Rightarrow> string option"

definition PodKind :: string where "PodKind = ''Pod''"
definition DynamoGraphDeploymentKind :: string where "DynamoGraphDeploymentKind = ''DynamoGraphDeployment''"

section \<open>Client sets of a cluster\<close>

definition newClusterClientSets :: "('q, 'z) cplane_scheme \<Rightarrow> wlog \<Rightarrow> string \<Rightarrow> goerr + ClusterClientSets" where
  "newClusterClientSets E lg cluster =
     (case newClientFactory E lg cluster of
        Some e \<Rightarrow> Inl e
      | None \<Rightarrow> Inr \<lparr>ccs_name = cluster, ccs_resourceInformers = \<lparr>om_objects = [], om_released = []\<rparr>\<rparr>)"

text \<open>The informer of a template watches the resource its kind maps to in the cluster.\<close>

definition addResourceTemplate ::
  "('q, 'z) cplane_scheme \<Rightarrow> ClusterClientSets \<Rightarrow> GroupVersionKind \<Rightarrow> goerr option \<times> ClusterClientSets" where
  "addResourceTemplate E r gvk =
     (if om_Has (ccs_resourceInformers r) (gvk_String gvk) then (None, r)
      else case RESTMapping E gvk of
             Inl e \<Rightarrow> if IsNoMatchError E e then (None, r) else (Some e, r)
           | Inr gvr \<Rightarrow>
               (case AddEventHandler E gvr of
                  Some e \<Rightarrow> (Some e, r)
                | None \<Rightarrow> (None, r\<lparr>ccs_resourceInformers := snd (om_Add (ccs_resourceInformers r) (gvk_String gvk) gvr)\<rparr>)))"

definition delResourceTemplate :: "ClusterClientSets \<Rightarrow> GroupVersionKind \<Rightarrow> ClusterClientSets" where
  "delResourceTemplate r gvk = r\<lparr>ccs_resourceInformers := snd (om_Delete (ccs_resourceInformers r) (gvk_String gvk))\<rparr>"

definition ccs_Release :: "ClusterClientSets \<Rightarrow> ClusterClientSets" where
  "ccs_Release r = r\<lparr>ccs_resourceInformers := om_Clear (ccs_resourceInformers r)\<rparr>"

section \<open>Annotations of GitHub runners\<close>

definition github_metadata :: "('q, 'z) cplane_scheme \<Rightarrow> umap \<Rightarrow> strmap" where
  "github_metadata E obj =
     (let num = (\<lambda>field key. case k8s_NestedInt64 E obj [''status'', field] of Some v \<Rightarrow> if v > 0 then [(key, itoa v)] else [] | None \<Rightarrow> []);
          str = (\<lambda>field key. case k8s_NestedString E obj [''status'', field] of Some v \<Rightarrow> if v \<noteq> '''' then [(key, v)] else [] | None \<Rightarrow> [])
      in num ''workflowRunId'' ''actions.github.com/run-id'' @ num ''jobId'' ''actions.github.com/job-id'' @
         str ''jobDisplayName'' ''actions.github.com/workflow'' @ str ''jobRepositoryName'' ''actions.github.com/repository'' @
         str ''jobWorkflowRef'' ''actions.github.com/workflow-ref'')"

definition annotation_delta :: "strmap \<Rightarrow> strmap \<Rightarrow> strmap" where
  "annotation_delta toSync existing = filter (\<lambda>(k, v). mget0 '''' existing k \<noteq> v) toSync"

definition merge_annotations :: "strmap \<Rightarrow> strmap \<Rightarrow> strmap" where
  "merge_annotations delta existing = fold (\<lambda>(k, v) m. mput m k v) delta existing"

definition syncGithubAnnotations :: "('q, 'z) cplane_scheme \<Rightarrow> wlog \<Rightarrow> k8s_object \<Rightarrow> wlog" where
  "syncGithubAnnotations E lg newObj =
     (let workloadID = GetWorkloadId (ko_Meta newObj); toSync = github_metadata E (ko_Object newObj) in
      if gvk_Kind (ko_GVK newObj) \<noteq> CICDEphemeralRunnerKind \<or> workloadID = '''' \<or> toSync = [] then lg
      else case get_Workload E lg workloadID of
             Inl e \<Rightarrow> lg
           | Inr wl \<Rightarrow>
               let delta = annotation_delta toSync (om_Annotations (w_Meta wl)) in
               if delta = [] then lg
               else snd (do_write E lg (PatchMeta (wl\<lparr>w_Meta := (w_Meta wl)\<lparr>om_Annotations :=
                           merge_annotations delta (om_Annotations (w_Meta wl))\<rparr>\<rparr>))))"

section \<open>Events\<close>

definition handleResource ::
  "('q, 'z) cplane_scheme \<Rightarrow> wlog \<Rightarrow> ClusterClientSets \<Rightarrow> k8s_object \<Rightarrow> string \<Rightarrow> resourceMessage option \<times> wlog" where
  "handleResource E lg r newObj action =
     (let m = ko_Meta newObj;
          action' = (if action \<noteq> ResourceDel \<and> \<not> time_IsZero (om_DeletionTimestamp m) then ResourceDeleting else action);
          workloadId = GetWorkloadId m;
          strCount = mget0 '''' (om_Labels m) WorkloadDispatchCntLabel;
          dispatchCount = (if strCount = '''' then 1 else case go_atoi strCount of None \<Rightarrow> 1 | Some n \<Rightarrow> n)
      in if workloadId = '''' \<and> mget0 '''' (om_Labels m) monarchMeshLabel = '''' then (None, lg)
         else (Some \<lparr>msg_cluster = ccs_name r, msg_name = om_Name m, msg_namespace = om_Namespace m, msg_uid = om_UID m,
                     msg_gvk = ko_GVK newObj, msg_action = action', msg_workloadId = workloadId, msg_groupId = GetGroupId m,
                     msg_dispatchCount = dispatchCount\<rparr>, syncGithubAnnotations E lg newObj))"

text \<open>A resource template is added to or removed from the client sets of every cluster; errors are only logged.\<close>

definition resourceTemplateHandler ::
  "('q, 'z) cplane_scheme \<Rightarrow> ResourceTemplate \<Rightarrow> bool \<Rightarrow> ClusterClientSets object_manager \<Rightarrow> ClusterClientSets object_manager" where
  "resourceTemplateHandler E rt doAdd sets =
     sets\<lparr>om_objects := map (\<lambda>(key, r). (key, if doAdd then snd (addResourceTemplate E r (rt_GVK rt)) else delResourceTemplate r (rt_GVK rt)))
             (om_objects sets)\<rparr>"

definition syncer_handle ::
  "('q, 'z) cplane_scheme \<Rightarrow> wlog \<Rightarrow> string \<Rightarrow> ClusterClientSets object_manager \<Rightarrow> goerr option \<times> ClusterClientSets object_manager" where
  "syncer_handle E lg cluster sets =
     (case newClusterClientSets E lg cluster of
        Inl e \<Rightarrow> (Some e, sets)
      | Inr clientSets \<Rightarrow>
          (case list_ResourceTemplates E lg (\<lambda>_. True) of
             Inl e \<Rightarrow> (Some e, sets)
           | Inr rts \<Rightarrow>
               (None, AddOrReplace sets cluster (fold (\<lambda>rt r. snd (addResourceTemplate E r (rt_GVK rt))) rts clientSets))))"

definition syncer_Reconcile ::
  "('q, 'z) cplane_scheme \<Rightarrow> wlog \<Rightarrow> string \<Rightarrow> ClusterClientSets object_manager \<Rightarrow> reconcile_result \<times> ClusterClientSets object_manager" where
  "syncer_Reconcile E lg name sets =
     (case get_Cluster E lg name of
        Inl e \<Rightarrow> if api_IsNotFound E e then ((0, None), snd (om_Delete sets name)) else ((0, Some e), sets)
      | Inr c \<Rightarrow>
          if om_Get sets c \<noteq> None then ((0, None), sets)
          else case syncer_handle E lg c sets of (err, sets') \<Rightarrow> ((0, err), sets'))"

definition job_kinds :: "string list" where
  "job_kinds = [PytorchJobKind, DeploymentKind, StatefulSetKind, JobKind, CICDScaleRunnerSetKind, CICDEphemeralRunnerKind,
     RayJobKind, SandboxKind, DynamoGraphDeploymentKind, InferaDeploymentKind]"

definition syncer_Do ::
  "('q, 'z) cplane_scheme \<Rightarrow> ClusterClientSets object_manager \<Rightarrow> wlog \<Rightarrow> resourceMessage \<Rightarrow> (reconcile_result \<times> wlog) option" where
  "syncer_Do E sets lg message =
     (case GetClusterClientSets sets (msg_cluster message) of
        Inl e \<Rightarrow> Some ((nano, None), lg)
      | Inr clientSets \<Rightarrow>
          (case (if gvk_Kind (msg_gvk message) \<in> set job_kinds then Some (handleJob E lg message)
                 else if gvk_Kind (msg_gvk message) = PodKind then handlePod E lg message clientSets
                 else Some ((0, None), lg)) of
             None \<Rightarrow> None
           | Some ((delay, err), lg') \<Rightarrow> Some ((delay, if IsUnrecoverableError E err then None else err), lg')))"

section \<open>Properties\<close>

lemma merge_annotations_get:
  "mget0 '''' (merge_annotations delta m) k = (case map_of (rev delta) k of Some v \<Rightarrow> v | None \<Rightarrow> mget0 '''' m k)"
proof (induction delta arbitrary: m)
  case (Cons e delta)
  then show ?case by (cases e) (auto simp: merge_annotations_def map_add_def split: option.splits)
qed (simp add: merge_annotations_def)

lemma annotation_delta_merged:
  assumes "wf_map toSync"
  shows "annotation_delta toSync (merge_annotations (annotation_delta toSync m) m) = []"
proof -
  have d: "wf_map (annotation_delta toSync m)" using assms by (simp add: annotation_delta_def)
  have "mget0 '''' (merge_annotations (annotation_delta toSync m) m) k = v" if "(k, v) \<in> set toSync" for k v
  proof (cases "mget0 '''' m k = v")
    case True
    have "v' = v" if "(k, v') \<in> set (annotation_delta toSync m)" for v'
      using that \<open>(k, v) \<in> set toSync\<close> assms by (auto simp: annotation_delta_def wf_map_def dest: eq_key_imp_eq_value)
    then have "map_of (rev (annotation_delta toSync m)) k \<in> {None, Some v}"
      by (cases "map_of (rev (annotation_delta toSync m)) k") (auto dest!: map_of_SomeD)
    then show ?thesis using True by (auto simp: merge_annotations_get)
  next
    case False
    then have "(k, v) \<in> set (rev (annotation_delta toSync m))" using that by (simp add: annotation_delta_def)
    then have "map_of (rev (annotation_delta toSync m)) k = Some v" using d by (intro map_of_is_SomeI) (simp_all add: wf_map_def rev_map [symmetric])
    then show ?thesis by (simp add: merge_annotations_get)
  qed
  then show ?thesis by (auto simp: annotation_delta_def filter_empty_conv)
qed

lemma wf_github_metadata: "wf_map (github_metadata E obj)"
  by (simp add: github_metadata_def Let_def mhas_def split: option.split)

text \<open>The metadata of a GitHub job is copied to the annotations of its workload once: a patch sets every
  reported value, touches no other annotation, specification or status, and once it is visible the same
  event writes nothing more.\<close>

lemma github_sync_settles:
  assumes "syncGithubAnnotations E lg obj = lg @ [(PatchMeta wl', r)]"
    and "get_Workload E lg (GetWorkloadId (ko_Meta obj)) = Inr wl" and "get_Workload E lg2 (GetWorkloadId (ko_Meta obj)) = Inr wl'"
  shows "w_Spec wl' = w_Spec wl \<and> w_Status wl' = w_Status wl \<and>
         (\<forall>(k, v) \<in> set (github_metadata E (ko_Object obj)). GetAnnotation (w_Meta wl') k = v) \<and>
         (\<forall>k. k \<notin> fst ` set (github_metadata E (ko_Object obj)) \<longrightarrow> GetAnnotation (w_Meta wl') k = GetAnnotation (w_Meta wl) k) \<and>
         syncGithubAnnotations E lg2 obj = lg2"
proof -
  let ?t = "github_metadata E (ko_Object obj)"
  define delta where "delta = annotation_delta ?t (om_Annotations (w_Meta wl))"
  have wl': "wl' = wl\<lparr>w_Meta := (w_Meta wl)\<lparr>om_Annotations := merge_annotations delta (om_Annotations (w_Meta wl))\<rparr>\<rparr>"
    using assms(1,2) by (auto simp: syncGithubAnnotations_def Let_def delta_def do_write_def split: if_splits)
  have none: "annotation_delta ?t (om_Annotations (w_Meta wl')) = []"
    using annotation_delta_merged [OF wf_github_metadata] by (simp add: wl' delta_def)
  then have "\<forall>(k, v) \<in> set ?t. mget0 '''' (om_Annotations (w_Meta wl')) k = v" by (auto simp: annotation_delta_def filter_empty_conv)
  moreover have "mget0 '''' (om_Annotations (w_Meta wl')) k = mget0 '''' (om_Annotations (w_Meta wl)) k" if "k \<notin> fst ` set ?t" for k
  proof -
    have "map_of (rev delta) k = None" using that by (force simp: map_of_eq_None_iff delta_def annotation_delta_def)
    then show ?thesis by (simp add: wl' merge_annotations_get)
  qed
  moreover have "GetAnnotation m k = mget0 '''' (om_Annotations m) k" for m k by (simp add: GetAnnotation_def mget0_def)
  moreover have "syncGithubAnnotations E lg2 obj = lg2" using assms(3) none by (simp add: syncGithubAnnotations_def Let_def)
  ultimately show ?thesis by (simp add: wl' split_beta)
qed

definition watchable :: "('q, 'z) cplane_scheme \<Rightarrow> GroupVersionKind \<Rightarrow> bool" where
  "watchable E gvk \<longleftrightarrow> (\<exists>gvr. RESTMapping E gvk = Inr gvr \<and> AddEventHandler E gvr = None)"

lemma addResourceTemplate_informers:
  "om_Has (ccs_resourceInformers (snd (addResourceTemplate E r gvk))) k \<longleftrightarrow>
     om_Has (ccs_resourceInformers r) k \<or> (k = gvk_String gvk \<and> watchable E gvk)"
  "ccs_name (snd (addResourceTemplate E r gvk)) = ccs_name r"
  by (auto simp: addResourceTemplate_def watchable_def om_Has_def om_Add_def mhas_def split: sum.splits option.splits)

lemma fold_addResourceTemplate:
  "om_Has (ccs_resourceInformers (fold (\<lambda>rt r. snd (addResourceTemplate E r (rt_GVK rt))) rts r)) k \<longleftrightarrow>
     om_Has (ccs_resourceInformers r) k \<or> (\<exists>rt \<in> set rts. k = gvk_String (rt_GVK rt) \<and> watchable E (rt_GVK rt))"
  by (induction rts arbitrary: r) (auto simp: addResourceTemplate_informers)

text \<open>A cluster that becomes known has an informer for exactly the resource templates whose kind the cluster
  serves and whose handler could be registered; a known cluster is left alone, and one that is gone is
  released.\<close>

lemma informers_follow_templates:
  assumes "syncer_Reconcile E lg name sets = ((d, None), sets')" and "\<forall>c. get_Cluster E lg name = Inr c \<longrightarrow> c = name"
    and "list_ResourceTemplates E lg (\<lambda>_. True) = Inr rts"
  shows "case get_Cluster E lg name of
           Inl e \<Rightarrow> om_Get sets' name = None
         | Inr c \<Rightarrow> (om_Get sets name \<noteq> None \<longrightarrow> sets' = sets) \<and>
             (om_Get sets name = None \<longrightarrow> (\<exists>r. om_Get sets' name = Some r \<and>
                (\<forall>k. om_Has (ccs_resourceInformers r) k \<longleftrightarrow> (\<exists>rt \<in> set rts. k = gvk_String (rt_GVK rt) \<and> watchable E (rt_GVK rt)))))"
proof (cases "get_Cluster E lg name")
  case (Inl e)
  then show ?thesis using assms(1) by (auto simp: syncer_Reconcile_def om_Delete_def om_Get_def split: if_splits option.splits)
next
  case (Inr c)
  then have c: "get_Cluster E lg name = Inr name" using assms(2) by simp
  show ?thesis
  proof (cases "om_Get sets name")
    case None
    then obtain r where n: "newClusterClientSets E lg name = Inr r"
      and s: "sets' = AddOrReplace sets name (fold (\<lambda>rt r. snd (addResourceTemplate E r (rt_GVK rt))) rts r)"
      using assms(1,3) c by (auto simp: syncer_Reconcile_def syncer_handle_def split: sum.splits)
    have "\<not> om_Has (ccs_resourceInformers r) k" for k
      using n by (auto simp: newClusterClientSets_def om_Has_def mhas_def split: option.splits)
    then show ?thesis using c None s by (simp add: fold_addResourceTemplate)
  next
    case (Some r)
    then show ?thesis using assms(1) c by (simp add: syncer_Reconcile_def)
  qed
qed

text \<open>The worker swallows unrecoverable errors: what it returns is retried.\<close>

lemma syncer_Do_recoverable: "syncer_Do E sets lg m = Some ((d, err), lg') \<Longrightarrow> \<not> IsUnrecoverableError E err"
  by (auto simp: syncer_Do_def IsUnrecoverableError_def split: sum.splits option.splits if_splits)

lemma syncer_Do_job:
  assumes "om_Get sets (msg_cluster m) \<noteq> None" and "gvk_Kind (msg_gvk m) \<in> set job_kinds" and "handleJob E lg m = ((d, err), lg')"
  shows "syncer_Do E sets lg m = Some ((d, if IsUnrecoverableError E err then None else err), lg')"
  using assms by (auto simp: syncer_Do_def GetClusterClientSets_def)

lemma merge_keeps_delete:
  assumes "msg_action m = ResourceDel" and "\<forall>x \<in> set later. msg_action x \<noteq> ResourceDel"
  shows "fold (\<lambda>x acc. mergeResourceMessage (Some acc) x) later m = m"
  using assms by (induction later) (auto simp: mergeResourceMessage_def)

lemma handleJob_admin:
  assumes "getAdminWorkload E lg (msg_workloadId m) = Inr (Some w)" and "msg_namespace m = ws_Workspace (w_Spec w)"
    and "IsMonarchJob w \<longrightarrow> gvk_Kind (msg_gvk m) = JobKind"
    and "IsCICDScalingRunnerSet w \<longrightarrow> gvk_Kind (msg_gvk m) = CICDScaleRunnerSetKind" and "IsWorkloadDispatched (w_Meta w)"
    and "handleJobImpl E lg m w = ((d, r), lg1, w1)" and "handleJob E lg m = ((d', r'), lg')"
  shows "if IsUnrecoverableError E r then \<exists>e. lg' = lg1 @ [(UpdateStatus (fail_status E w1 e), r')] else r' = r \<and> lg' = lg1"
  using assms by (auto simp: handleJob_def SetWorkloadFailed_def do_write_def Let_def split: prod.splits)

text \<open>C1: the deletion of an object of a running workload, from the event to the status of the workload: whatever
  other events are merged into the message while it is staged, once the worker takes it without asking for a
  retry, the last thing it does is to end the workload or to give it back to the scheduler; only a write of the
  final status that fails for good is given up.\<close>

theorem deletion_event_settles:
  assumes "handleResource E lg0 r obj ResourceDel = (Some m, lg1)" and "\<forall>x \<in> set later. msg_action x \<noteq> ResourceDel"
    and "om_Get sets (ccs_name r) \<noteq> None" and "gvk_Kind (ko_GVK obj) \<in> set job_kinds"
    and "getAdminWorkload E lg (GetWorkloadId (ko_Meta obj)) = Inr (Some w)" and "om_Namespace (ko_Meta obj) = ws_Workspace (w_Spec w)"
    and "IsMonarchJob w \<longrightarrow> gvk_Kind (ko_GVK obj) = JobKind"
    and "IsCICDScalingRunnerSet w \<longrightarrow> gvk_Kind (ko_GVK obj) = CICDScaleRunnerSetKind"
    and "IsWorkloadDispatched (w_Meta w)" and "\<not> IsEnd w"
    and "syncer_Do E sets lg (fold (\<lambda>x acc. mergeResourceMessage (Some acc) x) later m) = Some ((d, None), lg')"
  shows "\<exists>l a res. lg' = lg @ l @ [(a, res)] \<and> settles a \<and> (res = None \<or> IsUnrecoverableError E res)"
proof -
  have m: "msg_action m = ResourceDel" "msg_cluster m = ccs_name r" "msg_namespace m = om_Namespace (ko_Meta obj)"
    "msg_gvk m = ko_GVK obj" "msg_workloadId m = GetWorkloadId (ko_Meta obj)"
    using assms(1) by (auto simp: handleResource_def Let_def split: if_splits)
  obtain d' r' lg'' where h: "handleJob E lg m = ((d', r'), lg'')" by (metis prod.exhaust_sel)
  have sw: "r' = None \<or> IsUnrecoverableError E r'" and "lg'' = lg'"
    using assms(3,4,11) m syncer_Do_job [OF _ _ h, of sets] by (auto simp: merge_keeps_delete [OF m(1) assms(2)] split: if_splits)
  note h = h [unfolded \<open>lg'' = lg'\<close>]
  obtain d1 r1 lg2 w1 where i: "handleJobImpl E lg m w = ((d1, r1), lg2, w1)" by (metis prod.exhaust_sel)
  note a = handleJob_admin [OF _ _ _ _ assms(9) i h, unfolded m, OF assms(5-8)]
  show ?thesis
  proof (cases "IsUnrecoverableError E r1")
    case True
    then obtain e where "lg' = lg2 @ [(UpdateStatus (fail_status E w1 e), r')]" using a by auto
    moreover have "IsEnd (fail_status E w1 e)" by (simp add: IsEnd_iff ended_phases)
    ultimately show ?thesis using handleJobImpl_prefix [OF i] sw by (auto simp: settles_def)
  next
    case False
    then have "r1 = None" "lg' = lg2" using a sw by auto
    then show ?thesis using deleted_impl [OF m(1) assms(10,9) i] by blast
  qed
qed

section \<open>Witnesses\<close>

definition sample_cplane :: "Workload list \<Rightarrow> int cplane" where
  "sample_cplane ws = splane.extend ((sample_splane ws (Inr []))\<lparr>list_ResourceTemplates := \<lambda>_ _. Inr [nested_template]\<rparr>)
     \<lparr>get_Cluster = (\<lambda>_ n. Inr n), newClientFactory = (\<lambda>_ _. None), IsNoMatchError = (\<lambda>_. False), AddEventHandler = (\<lambda>_. None),
      k8s_NestedInt64 = (\<lambda>_ p. if last p = ''jobId'' then Some 7 else None), k8s_NestedString = (\<lambda>_ _. None)\<rparr>"

definition sample_object :: "string \<Rightarrow> string \<Rightarrow> k8s_object" where
  "sample_object kind name =
     \<lparr>ko_Meta = (blank_meta name)\<lparr>om_Namespace := ''ws'', om_Labels := [(WorkloadIdLabel, ''job'')]\<rparr>,
      ko_GVK = \<lparr>gvk_Group = [], gvk_Version = ''v1'', gvk_Kind = kind\<rparr>, ko_Object = []\<rparr>"

definition sample_clients :: "ClusterClientSets" where
  "sample_clients = \<lparr>ccs_name = ''c'', ccs_resourceInformers = \<lparr>om_objects = [], om_released = []\<rparr>\<rparr>"

lemma sample_cplane_simps:
  "get_Workload (sample_cplane ws) lg n = find_by ''Workload'' n (\<lambda>w. om_Name (w_Meta w)) ws"
  "write_result (sample_cplane ws) lg a = None" "get_Cluster (sample_cplane ws) lg n = Inr n"
  "list_ResourceTemplates (sample_cplane ws) lg p = Inr [nested_template]" "cfg_IsDBEnable (sample_cplane ws)" "db_client (sample_cplane ws)"
  "db_ListWorkloadPods (sample_cplane ws) lg n = Inr []" "db_ListWorkloadDispatchNodes (sample_cplane ws) lg n = Inr []"
  by (simp_all add: sample_cplane_def splane.defs sample_splane_def plane.defs sample_plane_def env.defs sample_env_def ext.defs)

definition patched_cplane :: "int cplane" where
  "patched_cplane = (sample_cplane [])\<lparr>get_Workload := \<lambda>lg n. Inr (case lg of (PatchMeta x, _) # _ \<Rightarrow> x | _ \<Rightarrow> running_job)\<rparr>"

lemma github_sync_settles_witness:
  "\<exists>wl' r. syncGithubAnnotations patched_cplane [] (sample_object CICDEphemeralRunnerKind ''r1'') = [(PatchMeta wl', r)] \<and>
     syncGithubAnnotations patched_cplane [(PatchMeta wl', r)] (sample_object CICDEphemeralRunnerKind ''r1'') = [(PatchMeta wl', r)]"
proof -
  let ?o = "sample_object CICDEphemeralRunnerKind ''r1''"
  have "list_all (\<lambda>(a, r). (case a of PatchMeta x \<Rightarrow> True | _ \<Rightarrow> False)) (syncGithubAnnotations patched_cplane [] ?o) \<and>
      length (syncGithubAnnotations patched_cplane [] ?o) = 1" by code_simp
  then obtain wl' r where w: "syncGithubAnnotations patched_cplane [] ?o = [] @ [(PatchMeta wl', r)]"
    by (auto simp: length_Suc_conv split: apiwrite.splits)
  from github_sync_settles [OF this, of running_job "[(PatchMeta wl', r)]"] w show ?thesis by (simp add: patched_cplane_def)
qed

lemma informers_follow_templates_witness:
  "\<exists>r. om_Get (snd (syncer_Reconcile (sample_cplane []) [] ''c'' \<lparr>om_objects = [], om_released = []\<rparr>)) ''c'' = Some r \<and>
     om_Has (ccs_resourceInformers r) (gvk_String (rt_GVK nested_template))"
proof -
  let ?s = "\<lparr>om_objects = [], om_released = []\<rparr>" and ?E = "sample_cplane []"
  let ?r = "syncer_Reconcile ?E [] ''c'' ?s"
  have "snd (fst ?r) = None" and w: "watchable ?E (rt_GVK nested_template)"
    by code_simp (simp add: watchable_def sample_cplane_def splane.defs sample_splane_def plane.defs sample_plane_def env.defs sample_env_def ext.defs)
  then have "?r = ((fst (fst ?r), None), snd ?r)" by (metis prod.collapse)
  from informers_follow_templates [OF this] show ?thesis using w by (auto simp: sample_cplane_simps om_Get_def)
qed

lemma deletion_event_settles_witness:
  "\<exists>l a res. snd (the (syncer_Do (sample_cplane [running_job]) \<lparr>om_objects = [(''c'', sample_clients)], om_released = []\<rparr> []
        (mergeResourceMessage (fst (handleResource (sample_cplane [running_job]) [] sample_clients (sample_object PytorchJobKind ''job'') ResourceDel))
           (job_event ResourceUpdate)))) = l @ [(a, res)] \<and> settles a"
proof -
  let ?E = "sample_cplane [running_job]" and ?o = "sample_object PytorchJobKind ''job''"
    and ?s = "\<lparr>om_objects = [(''c'', sample_clients)], om_released = []\<rparr>"
  let ?h = "handleResource ?E [] sample_clients ?o ResourceDel" and ?m = "(job_event ResourceDel)\<lparr>msg_uid := []\<rparr>"
  let ?f = "fold (\<lambda>x acc. mergeResourceMessage (Some acc) x) [job_event ResourceUpdate] ?m" and ?r = "handleJob ?E [] ?m"
  have n: "snd (fst ?r) = None" by code_simp
  have h: "?h = (Some ?m, [])" by code_simp
  have f: "?f = ?m" by code_simp
  have "gvk_Kind (msg_gvk ?m) \<in> set job_kinds" by code_simp
  moreover have "om_Get ?s (msg_cluster ?m) \<noteq> None" by code_simp
  moreover have "?r = ((fst (fst ?r), None), snd ?r)" using n by (metis prod.collapse)
  ultimately have r: "syncer_Do ?E ?s [] ?f = Some ((fst (fst ?r), None), snd ?r)"
    unfolding f using syncer_Do_job [of ?s ?m ?E "[]" "fst (fst ?r)" None "snd ?r"] by simp
  have g: "getAdminWorkload ?E [] (GetWorkloadId (ko_Meta ?o)) = Inr (Some running_job)"
    by (simp add: getAdminWorkload_def hydrateWorkloadStatusFromDB_def sample_cplane_simps running_job_def sample_defs sample_object_def GetWorkloadId_def GetLabel_def)
  have c: "om_Get ?s (ccs_name sample_clients) \<noteq> None" "gvk_Kind (ko_GVK ?o) \<in> set job_kinds"
     "om_Namespace (ko_Meta ?o) = ws_Workspace (w_Spec running_job)" "\<not> IsMonarchJob running_job" "\<not> IsCICDScalingRunnerSet running_job"
     "IsWorkloadDispatched (w_Meta running_job)" "\<not> IsEnd running_job" "\<forall>x \<in> set [job_event ResourceUpdate]. msg_action x \<noteq> ResourceDel" by code_simp+
  from deletion_event_settles [OF h c(8) c(1,2) g c(3) _ _ c(6,7) r] c(4,5) h r f show ?thesis by auto
qed

end
