(* ===== verification/Rm_Env.thy ===== *)
theory Rm_Env
  imports Data_Plane Ttl_Cron Fault_Common Nodes
begin

text \<open>
  What surrounds the controllers of the resource manager: a process of its own, with its own log of
  writes. The parameter \<open>rm\<close> answers reads as functions of that log, gives every write an arbitrary
  outcome, and decodes JSON; \<open>rm_order\<close> is the order in which goroutines that are started together take
  their elements. \<^verbatim>\<open>resource-manager/pkg/utils/utils.go\<close> is the shared part: finalizers,
  retry counters and the clients of the data-plane clusters.
\<close>

record FaultConfig =
  fc_Id :: string
  fc_Action :: string
  fc_Toggle :: string
  fc_IsAutoRepair :: "bool option"

record PersistentVolumeClaim =
  pvc_Name :: string
  pvc_Namespace :: string
  pvc_Selector :: "strmap option"
  pvc_StorageClassName :: string
  pvc_Storage :: string
  pvc_AccessMode :: string

text \<open>
  Writes to the admin plane, and the \<open>Dp\<close> writes to a data-plane cluster: kind, namespace and name of the
  object that is created, stripped of its finalizers, or deleted.
\<close>

datatype 'q rmwrite =
    RmPatchTaints string string "Taint list"
  | RmPatchNode "'q Node"
  | RmUpdateNode "'q Node"
  | RmUpdateNodeStatus "'q Node"
  | RmPatchFinalizers string string "string list"
  | RmPatchFault Fault
  | RmPatchFaultStatus Fault
  | RmCreateFault Fault
  | RmDeleteFault string
  | RmPatchWorkspace "'q Workspace"
  | RmPatchWorkspaceStatus "'q Workspace"
  | RmUpdateWorkspaceStatus "'q Workspace"
  | DpCreate string string string
  | DpCreatePV ObjectMeta
  | DpCreatePVC PersistentVolumeClaim
  | DpStripFinalizers string string string
  | DpDelete string string string

type_synonym 'q rlog = "('q rmwrite \<times> goerr option) list"

record ClientFactory =
  cf_Name :: string
  cf_Valid :: bool

text \<open>A node of a data-plane cluster.\<close>

record 'q k8s_node =
  kn_Meta :: ObjectMeta
  kn_Unschedulable :: bool
  kn_Taints :: "Taint list"
  kn_Conditions :: "Condition list"
  kn_Addresses :: "(string \<times> string) list"
  kn_Allocatable :: "'q resource_list"

record 'q rm = "'q ext" +
  rm_now :: gotime
  rm_result :: "'q rlog \<Rightarrow> 'q rmwrite \<Rightarrow> goerr option"
  rm_GetMeta :: "'q rlog \<Rightarrow> string \<Rightarrow> string \<Rightarrow> goerr + ObjectMeta"
  rm_GetFault :: "'q rlog \<Rightarrow> string \<Rightarrow> goerr + Fault"
  rm_ListFaults :: "'q rlog \<Rightarrow> (ObjectMeta \<Rightarrow> bool) \<Rightarrow> goerr + Fault list"
  rm_GetNode :: "'q rlog \<Rightarrow> string \<Rightarrow> goerr + 'q Node"
  rm_ListNodes :: "'q rlog \<Rightarrow> (ObjectMeta \<Rightarrow> bool) \<Rightarrow> goerr + 'q Node list"
  rm_ListWorkloads :: "'q rlog \<Rightarrow> (Workload \<Rightarrow> bool) \<Rightarrow> goerr + Workload list"
  rm_GetWorkspace :: "'q rlog \<Rightarrow> string \<Rightarrow> goerr + 'q Workspace"
  rm_GetNodeFlavor :: "'q rlog \<Rightarrow> string \<Rightarrow> goerr + 'q NodeFlavor"
  rm_GetCluster :: "'q rlog \<Rightarrow> string \<Rightarrow> goerr option"
  rm_GetConfigMap :: "'q rlog \<Rightarrow> string \<Rightarrow> goerr + ConfigMap"
  json_FaultConfig :: "string \<Rightarrow> goerr + FaultConfig"
  json_NodesAction :: "string \<Rightarrow> goerr + strmap"
  dp_GetNode :: "'q rlog \<Rightarrow> string \<Rightarrow> string \<Rightarrow> goerr + 'q k8s_node"
  Taint_ToString :: "Taint \<Rightarrow> string"
  dp_Get :: "'q rlog \<Rightarrow> string \<Rightarrow> string \<Rightarrow> string \<Rightarrow> goerr + ObjectMeta"
  dp_List :: "'q rlog \<Rightarrow> string \<Rightarrow> string \<Rightarrow> (ObjectMeta \<Rightarrow> bool) \<Rightarrow> goerr + ObjectMeta list"
  cfg_IsCICDEnable :: bool
  cfg_CICDRoleName :: string
  cfg_IsMonarchEnable :: bool
  cfg_MonarchClientRole :: string
  ParseYamlToJson :: "string \<Rightarrow> string + ObjectMeta"
  ConvertUnstructuredToPV :: "ObjectMeta \<Rightarrow> goerr + ObjectMeta"
  rm_order :: "'q rlog \<Rightarrow> 'q Node list \<Rightarrow> 'q Node list"

definition rm_write :: "('q, 'z) rm_scheme \<Rightarrow> 'q rlog \<Rightarrow> 'q rmwrite \<Rightarrow> goerr option \<times> 'q rlog" where
  "rm_write R lg a = (let r = rm_result R lg a in (r, lg @ [(a, r)]))"

lemma rm_write_cases: "rm_write R lg a = (r, lg') \<Longrightarrow> lg' = lg @ [(a, r)] \<and> r = rm_result R lg a"
  by (auto simp: rm_write_def Let_def)

lemma writes_only_rm_write: "rm_write R lg a = (r, lg') \<Longrightarrow> A a \<Longrightarrow> writes_only A lg lg'"
  by (auto simp: writes_only_def dest!: rm_write_cases)

section \<open>Finalizers\<close>

text \<open>\<^verbatim>\<open>controllerutil.RemoveFinalizer\<close> for each of the given names.\<close>

definition remove_finalizers :: "string list \<Rightarrow> string list \<Rightarrow> bool \<times> string list" where
  "remove_finalizers names finalizers =
     (list_ex (\<lambda>f. f \<in> set names) finalizers, filter (\<lambda>f. f \<notin> set names) finalizers)"

definition PatchObjectFinalizer ::
  "('q, 'z) rm_scheme \<Rightarrow> 'q rlog \<Rightarrow> string \<Rightarrow> string \<Rightarrow> string list \<Rightarrow> goerr option \<times> 'q rlog" where
  "PatchObjectFinalizer R lg kind name finalizers = rm_write R lg (RmPatchFinalizers kind name finalizers)"

fun finalizer_attempts ::
  "('q, 'z) rm_scheme \<Rightarrow> string \<Rightarrow> string \<Rightarrow> string list \<Rightarrow> nat \<Rightarrow> goerr option \<Rightarrow> 'q rlog \<Rightarrow> goerr option \<times> 'q rlog" where
  "finalizer_attempts R kind name finalizer 0 lastErr lg = (lastErr, lg)"
| "finalizer_attempts R kind name finalizer (Suc n) lastErr lg =
     (case rm_GetMeta R lg kind name of
        Inl e \<Rightarrow> (IgnoreNotFound R (Some e), lg)
      | Inr latest \<Rightarrow>
          (case remove_finalizers finalizer (om_Finalizers latest) of
             (changed, left) \<Rightarrow>
               if \<not> changed then (None, lg)
               else case PatchObjectFinalizer R lg kind name left of
                      (None, lg') \<Rightarrow> (None, lg')
                    | (Some e, lg') \<Rightarrow>
                        if \<not> api_IsConflict R e then (IgnoreNotFound R (Some e), lg')
                        else finalizer_attempts R kind name finalizer n (Some e) lg'))"

definition RemoveFinalizer ::
  "('q, 'z) rm_scheme \<Rightarrow> 'q rlog \<Rightarrow> string \<Rightarrow> string \<Rightarrow> string list \<Rightarrow> goerr option \<times> 'q rlog" where
  "RemoveFinalizer R lg kind name finalizer = finalizer_attempts R kind name finalizer 5 None lg"

section \<open>Retry counters and clients\<close>

text \<open>\<open>patch\<close> is the write that sends the object with its new metadata.\<close>

definition IncRetryCount ::
  "('q, 'z) rm_scheme \<Rightarrow> 'q rlog \<Rightarrow> ObjectMeta \<Rightarrow> (ObjectMeta \<Rightarrow> 'q rmwrite) \<Rightarrow> int \<Rightarrow> (goerr + int) \<times> 'q rlog \<times> ObjectMeta" where
  "IncRetryCount R lg obj patch maxCount =
     (let n = wrap64 (GetRetryCount obj + 1) in
      if n > maxCount then (Inr n, lg, obj)
      else
        let obj' = snd (SetAnnotation obj RetryCountAnnotation (itoa n)) in
        case rm_write R lg (patch obj') of
          (None, lg') \<Rightarrow> (Inr n, lg', obj')
        | (Some e, lg') \<Rightarrow> (case IgnoreNotFound R (Some e) of None \<Rightarrow> Inr 0 | Some e' \<Rightarrow> Inl e', lg', obj'))"

definition GetK8sClientFactory :: "ClientFactory object_manager \<Rightarrow> string \<Rightarrow> goerr + ClientFactory" where
  "GetK8sClientFactory clientManager clusterId =
     (case om_Get clientManager clusterId of
        None \<Rightarrow> Inl (NewNotFoundWithMessage (''the client for cluster '' @ clusterId @ '' is not found. pls retry later''))
      | Some k8sClients \<Rightarrow> Inr k8sClients)"

text \<open>The owners of an object without the one that goes away.\<close>

definition RemoveOwnerReferences :: "OwnerReference list \<Rightarrow> string \<Rightarrow> OwnerReference list" where
  "RemoveOwnerReferences references uid = filter (\<lambda>r. or_UID r \<noteq> uid) references"

lemma finalizer_attempts_writes:
  assumes "finalizer_attempts R kind name finalizer n lastErr lg = (r, lg')"
  shows "\<exists>l. lg' = lg @ l \<and> length l \<le> n \<and>
           (\<forall>x \<in> set l. \<exists>fs. fst x = RmPatchFinalizers kind name fs \<and> set fs \<inter> set finalizer = {}) \<and>
           (\<forall>x \<in> set (butlast l). snd x \<noteq> None)"
  using assms
proof (induction n arbitrary: lastErr lg)
  case (Suc n)
  show ?case
  proof (cases "lg' = lg")
    case False
    then obtain latest where g: "rm_GetMeta R lg kind name = Inr latest" using Suc.prems by (cases "rm_GetMeta R lg kind name") auto
    let ?left = "snd (remove_finalizers finalizer (om_Finalizers latest))"
    obtain r1 lg1 where p: "PatchObjectFinalizer R lg kind name ?left = (r1, lg1)" by force
    then have lg1: "lg1 = lg @ [(RmPatchFinalizers kind name ?left, r1)]"
      by (auto simp: PatchObjectFinalizer_def dest!: rm_write_cases)
    have d: "set ?left \<inter> set finalizer = {}" by (auto simp: remove_finalizers_def)
    show ?thesis
    proof (cases "\<exists>e. r1 = Some e \<and> api_IsConflict R e")
      case True
      then obtain e where "r1 = Some e" "finalizer_attempts R kind name finalizer n (Some e) lg1 = (r, lg')"
        using Suc.prems g p False by (auto split: prod.splits if_splits)
      from Suc.IH [OF this(2)] this(1) obtain l where "lg' = lg1 @ l" "length l \<le> n"
        "\<forall>x \<in> set l. \<exists>fs. fst x = RmPatchFinalizers kind name fs \<and> set fs \<inter> set finalizer = {}" "\<forall>x \<in> set (butlast l). snd x \<noteq> None"
        by blast
      then show ?thesis using lg1 d \<open>r1 = Some e\<close> by (intro exI [of _ "(RmPatchFinalizers kind name ?left, r1) # l"]) auto
    next
      case False
      then have "lg' = lg1" using Suc.prems g p \<open>lg' \<noteq> lg\<close> by (cases r1) (auto split: prod.splits if_splits)
      then show ?thesis using lg1 d by (intro exI [of _ "[(RmPatchFinalizers kind name ?left, r1)]"]) auto
    qed
  qed (auto simp: exI [of _ "[]"])
qed auto

end
