(* ===== verification/Faults.thy ===== *)
theory Faults
  imports Rm_Env
begin

text \<open>
  \<^verbatim>\<open>resource-manager/pkg/resource/fault_helper.go\<close> and \<^verbatim>\<open>fault_controller.go\<close>: which conditions of a node are
  faults, and how a fault taints its node, is retried, and is removed.
\<close>

section \<open>Configuration and conditions\<close>

definition FaultNodeNotReady :: string where "FaultNodeNotReady = ''NotReady''"
definition ToggleOn :: string where "ToggleOn = ''on''"
definition PrimusFault :: string where "PrimusFault = ''primus-safe-fault''"
definition FaultFinalizer :: string where "FaultFinalizer = ''primus-safe/fault.finalizer''"
definition FaultMonitorId :: string where "FaultMonitorId = ''primus-safe.fault.monitor.id''"
definition FaultKind :: string where "FaultKind = ''Fault''"

definition k8sNodeConditionTypes :: "string list" where
  "k8sNodeConditionTypes = [''Ready'', ''NetworkUnavailable'', ''MemoryPressure'', ''DiskPressure'', ''PIDPressure'']"

definition IsEnable :: "FaultConfig \<Rightarrow> bool" where
  "IsEnable c \<longleftrightarrow> fc_Toggle c = ToggleOn"

definition IsAutoRepairEnabled :: "FaultConfig \<Rightarrow> bool" where
  "IsAutoRepairEnabled c = (case fc_IsAutoRepair c of None \<Rightarrow> False | Some b \<Rightarrow> b)"

definition fault_entry :: "('q, 'z) rm_scheme \<Rightarrow> string \<Rightarrow> FaultConfig option" where
  "fault_entry R val =
     (case json_FaultConfig R val of
        Inl e \<Rightarrow> None
      | Inr conf \<Rightarrow>
          if fc_Toggle conf \<noteq> ToggleOn \<or> fc_Id conf = '''' then None
          else Some (if fc_IsAutoRepair conf = None then conf\<lparr>fc_IsAutoRepair := Some True\<rparr> else conf))"

definition parseFaultConfig :: "('q, 'z) rm_scheme \<Rightarrow> ConfigMap \<Rightarrow> (string, FaultConfig) gomap" where
  "parseFaultConfig R configMap =
     fold (\<lambda>(key, val) result. case fault_entry R val of None \<Rightarrow> result | Some conf \<Rightarrow> mput result (fc_Id conf) conf) (cm_Data configMap) []"

definition GetFaultConfigmap :: "('q, 'z) rm_scheme \<Rightarrow> 'q rlog \<Rightarrow> goerr + (string, FaultConfig) gomap" where
  "GetFaultConfigmap R lg =
     (case rm_GetConfigMap R lg PrimusFault of
        Inl e \<Rightarrow> (case IgnoreNotFound R (Some e) of None \<Rightarrow> Inr [] | Some e' \<Rightarrow> Inl e')
      | Inr configMap \<Rightarrow> Inr (parseFaultConfig R configMap))"

definition isPrimusCondition :: "string \<Rightarrow> bool" where
  "isPrimusCondition condType \<longleftrightarrow> has_prefix condType PrimusSafePrefix"

definition isK8sCondition :: "string \<Rightarrow> bool" where
  "isK8sCondition condType \<longleftrightarrow> condType \<in> set k8sNodeConditionTypes"

definition shouldCreateFault :: "Condition \<Rightarrow> bool" where
  "shouldCreateFault cond =
     (if isK8sCondition (cond_Type cond) then
        (if cond_Type cond = ''Ready'' then cond_Status cond \<noteq> ''True'' else cond_Status cond \<noteq> ''False'')
      else if isPrimusCondition (cond_Type cond) then cond_Status cond = ''True''
      else False)"

definition getIdByConditionType :: "string \<Rightarrow> string" where
  "getIdByConditionType condType =
     (if isPrimusCondition condType then GetIdByTaintKey condType
      else if condType = ''Ready'' then FaultNodeNotReady
      else condType)"

definition isValidFault :: "Fault \<Rightarrow> 'q Node \<Rightarrow> bool" where
  "isValidFault fault adminNode \<longleftrightarrow>
     list_ex (\<lambda>cond. getIdByConditionType (cond_Type cond) = fs_MonitorId (f_Spec fault)) (nst_Conditions (n_Status adminNode))"

section \<open>Faults of a condition\<close>

definition listFaults :: "('q, 'z) rm_scheme \<Rightarrow> 'q rlog \<Rightarrow> (ObjectMeta \<Rightarrow> bool) \<Rightarrow> goerr + Fault list" where
  "listFaults R lg labelSelector = rm_ListFaults R lg labelSelector"

definition createFault :: "('q, 'z) rm_scheme \<Rightarrow> 'q rlog \<Rightarrow> Fault \<Rightarrow> goerr option \<times> 'q rlog" where
  "createFault R lg fault =
     (case rm_write R lg (RmCreateFault fault) of
        (None, lg') \<Rightarrow> (None, lg')
      | (Some e, lg') \<Rightarrow> if \<not> api_IsAlreadyExists R e then (Some e, lg') else (None, lg'))"

definition deleteFault :: "('q, 'z) rm_scheme \<Rightarrow> 'q rlog \<Rightarrow> Fault \<Rightarrow> goerr option \<times> 'q rlog" where
  "deleteFault R lg fault =
     (case rm_write R lg (RmDeleteFault (om_Name (f_Meta fault))) of
        (None, lg') \<Rightarrow> (None, lg')
      | (Some e, lg') \<Rightarrow> (IgnoreNotFound R (Some e), lg'))"

definition new_meta :: "string \<Rightarrow> strmap \<Rightarrow> ObjectMeta" where
  "new_meta name labels =
     \<lparr>om_Name = name, om_Namespace = '''', om_UID = '''', om_ResourceVersion = '''', om_Generation = 0, om_Labels = labels,
      om_Annotations = [], om_CreationTimestamp = zero_time, om_DeletionTimestamp = None, om_Finalizers = [], om_OwnerReferences = []\<rparr>"

definition generateFaultOnCreation :: "FaultNode \<Rightarrow> Condition \<Rightarrow> (string, FaultConfig) gomap \<Rightarrow> Fault option" where
  "generateFaultOnCreation node cond faultConfigMap =
     (let i = getIdByConditionType (cond_Type cond) in
      case mget faultConfigMap i of
        None \<Rightarrow> None
      | Some conf \<Rightarrow>
          Some \<lparr>f_Meta = new_meta (GenerateFaultId (fn_AdminName node) i)
                           (mput (mput [] ClusterIdLabel (fn_ClusterName node)) NodeIdLabel (fn_AdminName node)),
                f_Spec = \<lparr>fs_MonitorId = i, fs_Message = cond_Message cond, fs_Node = Some node,
                          fs_Action = fc_Action conf, fs_IsAutoRepairEnabled = IsAutoRepairEnabled conf\<rparr>,
                f_Status = \<lparr>fst_Phase = '''', fst_UpdateTime = None\<rparr>\<rparr>)"

definition generateFaultOnDeletion :: "FaultNode \<Rightarrow> Condition \<Rightarrow> (string, FaultConfig) gomap \<Rightarrow> Fault option" where
  "generateFaultOnDeletion node cond faultConfigMap =
     (let i = getIdByConditionType (cond_Type cond) in
      if \<not> isPrimusCondition (cond_Type cond) \<and> \<not> isK8sCondition (cond_Type cond) then None
      else if (case mget faultConfigMap i of Some conf \<Rightarrow> \<not> IsAutoRepairEnabled conf | None \<Rightarrow> False) then None
      else Some \<lparr>f_Meta = new_meta (GenerateFaultId (fn_AdminName node) i) (mput [] ClusterIdLabel (fn_ClusterName node)),
                 f_Spec = \<lparr>fs_MonitorId = i, fs_Message = '''', fs_Node = Some node, fs_Action = '''', fs_IsAutoRepairEnabled = False\<rparr>,
                 f_Status = \<lparr>fst_Phase = '''', fst_UpdateTime = None\<rparr>\<rparr>)"

section \<open>Events\<close>

fun delete_listed :: "('q, 'z) rm_scheme \<Rightarrow> Fault list \<Rightarrow> 'q rlog \<Rightarrow> goerr option \<times> 'q rlog" where
  "delete_listed R [] lg = (None, lg)"
| "delete_listed R (f # fs) lg =
     (case deleteFault R lg f of (Some e, lg') \<Rightarrow> (Some e, lg') | (None, lg') \<Rightarrow> delete_listed R fs lg')"

definition deleteFaults :: "('q, 'z) rm_scheme \<Rightarrow> nat \<Rightarrow> 'q rlog \<Rightarrow> (ObjectMeta \<Rightarrow> bool) \<Rightarrow> goerr option \<times> 'q rlog" where
  "deleteFaults R attempts lg labelSelector =
     backoff_Retry (\<lambda>lg. case listFaults R lg labelSelector of Inl e \<Rightarrow> (Some e, lg) | Inr fs \<Rightarrow> delete_listed R fs lg) attempts lg"

datatype 'q node_event = NodeCreated "'q Node" | NodeUpdated "'q Node" "'q Node"

text \<open>The handlers return the names of the faults they queue; errors are only logged.\<close>

definition handleNodeEvent :: "('q, 'z) rm_scheme \<Rightarrow> nat \<Rightarrow> 'q node_event \<Rightarrow> 'q rlog \<Rightarrow> string list \<times> 'q rlog" where
  "handleNodeEvent R attempts evt lg =
     (case evt of
        NodeCreated node \<Rightarrow>
          ([], case listFaults R lg (label_is NodeIdLabel (om_Name (n_Meta node))) of
                 Inl e \<Rightarrow> lg
               | Inr fs \<Rightarrow> fold (\<lambda>f lg. if isValidFault f node then lg else snd (rm_write R lg (RmDeleteFault (om_Name (f_Meta f))))) fs lg)
      | NodeUpdated oldNode newNode \<Rightarrow>
          let sel = label_is NodeIdLabel (om_Name (n_Meta newNode));
              lg1 = (if (GetSpecCluster oldNode \<noteq> '''' \<and> GetSpecCluster newNode = '''') \<or>
                        (time_IsZero (om_DeletionTimestamp (n_Meta oldNode)) \<and> \<not> time_IsZero (om_DeletionTimestamp (n_Meta newNode)))
                     then snd (deleteFaults R attempts lg sel) else lg)
          in (if nst_Taints (n_Status oldNode) \<noteq> nst_Taints (n_Status newNode)
              then (case listFaults R lg1 sel of Inl e \<Rightarrow> [] | Inr fs \<Rightarrow> map (\<lambda>f. om_Name (f_Meta f)) fs)
              else [], lg1))"

datatype fault_cm_event = FcmCreate ConfigMap | FcmUpdate ConfigMap ConfigMap | FcmDelete ConfigMap

fun config_updates ::
  "('q, 'z) rm_scheme \<Rightarrow> nat \<Rightarrow> (string, FaultConfig) gomap \<Rightarrow> (string \<times> FaultConfig) list \<Rightarrow> 'q rlog \<Rightarrow> string list \<times> 'q rlog" where
  "config_updates R attempts newConfigs [] lg = ([], lg)"
| "config_updates R attempts newConfigs ((key, oldConf) # rest) lg =
     (let sel = label_is FaultMonitorId (fc_Id oldConf) in
      case mget newConfigs key of
        None \<Rightarrow> config_updates R attempts newConfigs rest (snd (deleteFaults R attempts lg sel))
      | Some newConf \<Rightarrow>
          if IsEnable oldConf \<and> \<not> IsEnable newConf
          then config_updates R attempts newConfigs rest (snd (deleteFaults R attempts lg sel))
          else if fc_Action oldConf \<noteq> fc_Action newConf
          then case config_updates R attempts newConfigs rest lg of
                 (q, lg') \<Rightarrow> ((case listFaults R lg sel of Inl e \<Rightarrow> [] | Inr fs \<Rightarrow> map (\<lambda>f. om_Name (f_Meta f)) fs) @ q, lg')
          else config_updates R attempts newConfigs rest lg)"

definition fault_handleConfigmapEvent :: "('q, 'z) rm_scheme \<Rightarrow> nat \<Rightarrow> fault_cm_event \<Rightarrow> 'q rlog \<Rightarrow> string list \<times> 'q rlog" where
  "fault_handleConfigmapEvent R attempts evt lg =
     (case evt of
        FcmCreate cm \<Rightarrow>
          if om_Name (cm_Meta cm) \<noteq> PrimusFault then ([], lg)
          else
            let configs = parseFaultConfig R cm in
            ([], case listFaults R lg (\<lambda>_. True) of
                   Inl e \<Rightarrow> lg
                 | Inr fs \<Rightarrow> fold (\<lambda>f lg. case mget configs (fs_MonitorId (f_Spec f)) of
                                          Some conf \<Rightarrow> if IsEnable conf then lg else snd (rm_write R lg (RmDeleteFault (om_Name (f_Meta f))))
                                        | None \<Rightarrow> snd (rm_write R lg (RmDeleteFault (om_Name (f_Meta f))))) fs lg)
      | FcmUpdate oldCm newCm \<Rightarrow>
          if om_Name (cm_Meta newCm) \<noteq> PrimusFault then ([], lg)
          else config_updates R attempts (parseFaultConfig R newCm) (parseFaultConfig R oldCm) lg
      | FcmDelete cm \<Rightarrow>
          if om_Name (cm_Meta cm) \<noteq> PrimusFault then ([], lg) else ([], snd (deleteFaults R attempts lg (\<lambda>_. True))))"

section \<open>Taints\<close>

definition generateTaintKeyAndVal :: "Fault \<Rightarrow> string \<times> string" where
  "generateTaintKeyAndVal fault =
     (GenerateTaintKey (fs_MonitorId (f_Spec fault)),
      if fs_MonitorId (f_Spec fault) = StickyNodesMonitorId then GetWorkloadId (f_Meta fault) else '''')"

definition is_taint :: "string \<times> string \<Rightarrow> Taint \<Rightarrow> bool" where
  "is_taint kv t \<longleftrightarrow> taint_Key t = fst kv \<and> taint_Value t = snd kv"

definition taintNode :: "('q, 'z) rm_scheme \<Rightarrow> 'q rlog \<Rightarrow> Fault \<Rightarrow> goerr option \<times> 'q rlog" where
  "taintNode R lg fault =
     (case fs_Node (f_Spec fault) of
        None \<Rightarrow> (None, lg)
      | Some node \<Rightarrow>
          (case rm_GetNode R lg (fn_AdminName node) of
             Inl e \<Rightarrow> (Some e, lg)
           | Inr adminNode \<Rightarrow>
               if GetSpecCluster adminNode = '''' then (None, lg)
               else
                 let kv = generateTaintKeyAndVal fault; taints = ns_Taints (n_Spec adminNode) in
                 if list_ex (is_taint kv) taints then (None, lg)
                 else rm_write R lg (RmPatchTaints (om_Name (n_Meta adminNode)) (om_ResourceVersion (n_Meta adminNode))
                        (taints @ [\<lparr>taint_Key = fst kv, taint_Value = snd kv, taint_Effect = ''NoSchedule'', taint_TimeAdded = Some (rm_now R)\<rparr>]))))"

fun remove_taint :: "string \<times> string \<Rightarrow> Taint list \<Rightarrow> Taint list option" where
  "remove_taint kv [] = None"
| "remove_taint kv (t # ts) = (if is_taint kv t then Some ts else map_option (Cons t) (remove_taint kv ts))"

definition removeNodeTaint :: "('q, 'z) rm_scheme \<Rightarrow> 'q rlog \<Rightarrow> Fault \<Rightarrow> goerr option \<times> 'q rlog" where
  "removeNodeTaint R lg fault =
     (case fs_Node (f_Spec fault) of
        None \<Rightarrow> (None, lg)
      | Some node \<Rightarrow>
          (case rm_GetNode R lg (fn_AdminName node) of
             Inl e \<Rightarrow> (IgnoreNotFound R (Some e), lg)
           | Inr adminNode \<Rightarrow>
               (case remove_taint (generateTaintKeyAndVal fault) (ns_Taints (n_Spec adminNode)) of
                  None \<Rightarrow> (None, lg)
                | Some taints \<Rightarrow> rm_write R lg (RmPatchTaints (om_Name (n_Meta adminNode)) (om_ResourceVersion (n_Meta adminNode)) taints))))"

section \<open>Reconciliation\<close>

record FaultReconcilerOption =
  opt_processWait :: int
  opt_maxRetryCount :: int

definition fault_retry ::
  "('q, 'z) rm_scheme \<Rightarrow> FaultReconcilerOption \<Rightarrow> 'q rlog \<Rightarrow> Fault \<Rightarrow> reconcile_result \<times> 'q rlog \<times> Fault" where
  "fault_retry R opt lg fault =
     (case IncRetryCount R lg (f_Meta fault) (\<lambda>m. RmPatchFault (fault\<lparr>f_Meta := m\<rparr>)) (opt_maxRetryCount opt) of
        (res, lg', m) \<Rightarrow>
          (case res of
             Inl e \<Rightarrow> (0, Some e)
           | Inr n \<Rightarrow> if n \<le> opt_maxRetryCount opt then (opt_processWait opt, None) else (0, None), lg', fault\<lparr>f_Meta := m\<rparr>))"

definition fault_updatePhase :: "('q, 'z) rm_scheme \<Rightarrow> 'q rlog \<Rightarrow> Fault \<Rightarrow> string \<Rightarrow> goerr option \<times> 'q rlog" where
  "fault_updatePhase R lg fault phase =
     rm_write R lg (RmPatchFaultStatus (fault\<lparr>f_Status := \<lparr>fst_Phase = phase, fst_UpdateTime = Some (rm_now R)\<rparr>\<rparr>))"

fun run_actions :: "('q, 'z) rm_scheme \<Rightarrow> Fault \<Rightarrow> string list \<Rightarrow> 'q rlog \<Rightarrow> goerr option \<times> 'q rlog" where
  "run_actions R fault [] lg = (None, lg)"
| "run_actions R fault (action # actions) lg =
     (if action = TaintAction
      then case taintNode R lg fault of (Some e, lg') \<Rightarrow> (Some e, lg') | (None, lg') \<Rightarrow> run_actions R fault actions lg'
      else run_actions R fault actions lg)"

definition processFault ::
  "('q, 'z) rm_scheme \<Rightarrow> FaultReconcilerOption \<Rightarrow> 'q rlog \<Rightarrow> Fault \<Rightarrow> reconcile_result \<times> 'q rlog" where
  "processFault R opt lg fault =
     (let (err, lg1) = (if fs_Action (f_Spec fault) = '''' then removeNodeTaint R lg fault
                        else run_actions R fault (go_split (CHR '','') (fs_Action (f_Spec fault))) lg);
          (result, lg2, fault') = (if err = None \<or> IsNonRetryableError R err then ((0, None), lg1, fault) else fault_retry R opt lg1 fault)
      in if snd result \<noteq> None \<or> fst result > 0 then (result, lg2)
         else case fault_updatePhase R lg2 fault' (if err = None then FaultPhaseSucceeded else FaultPhaseFailed) of (e, lg3) \<Rightarrow> ((0, e), lg3))"

definition fault_delete ::
  "('q, 'z) rm_scheme \<Rightarrow> FaultReconcilerOption \<Rightarrow> 'q rlog \<Rightarrow> Fault \<Rightarrow> reconcile_result \<times> 'q rlog" where
  "fault_delete R opt lg fault =
     (let (err, lg1) = removeNodeTaint R lg fault;
          (result, lg2, fault') = (if err = None \<or> IsNonRetryableError R err then ((0, None), lg1, fault) else fault_retry R opt lg1 fault)
      in if snd result \<noteq> None \<or> fst result > 0 then (result, lg2)
         else case RemoveFinalizer R lg2 FaultKind (om_Name (f_Meta fault')) [FaultFinalizer] of (e, lg3) \<Rightarrow> ((0, e), lg3))"

definition fault_Reconcile ::
  "('q, 'z) rm_scheme \<Rightarrow> FaultReconcilerOption \<Rightarrow> 'q rlog \<Rightarrow> string \<Rightarrow> reconcile_result \<times> 'q rlog" where
  "fault_Reconcile R opt lg name =
     (case rm_GetFault R lg name of
        Inl e \<Rightarrow> ((0, IgnoreNotFound R (Some e)), lg)
      | Inr fault \<Rightarrow>
          if \<not> time_IsZero (om_DeletionTimestamp (f_Meta fault)) then fault_delete R opt lg fault
          else processFault R opt lg fault)"

section \<open>Taints are added once and taken back\<close>

lemma remove_taint_append:
  "\<not> list_ex (is_taint kv) ts \<Longrightarrow> is_taint kv t \<Longrightarrow> remove_taint kv (ts @ [t]) = Some ts"
  by (induction ts) auto

text \<open>A fault taints its node once and its removal gives the taints of the node back: with the patch in place,
  handling the fault again writes nothing, and removing the taint writes exactly the taints from before.\<close>

lemma taint_roundtrip:
  assumes "fs_Node (f_Spec fault) = Some fn" and "rm_GetNode R lg (fn_AdminName fn) = Inr node" and "GetSpecCluster node \<noteq> ''''"
    and "\<not> list_ex (is_taint (generateTaintKeyAndVal fault)) (ns_Taints (n_Spec node))" and "taintNode R lg fault = (None, lg1)"
  shows "\<exists>ts. lg1 = lg @ [(RmPatchTaints (om_Name (n_Meta node)) (om_ResourceVersion (n_Meta node)) ts, None)] \<and>
           (\<forall>lg2 node'. rm_GetNode R lg2 (fn_AdminName fn) = Inr node' \<and> ns_Taints (n_Spec node') = ts \<longrightarrow>
              taintNode R lg2 fault = (None, lg2) \<and>
              (\<exists>r. removeNodeTaint R lg2 fault =
                 (r, lg2 @ [(RmPatchTaints (om_Name (n_Meta node')) (om_ResourceVersion (n_Meta node')) (ns_Taints (n_Spec node)), r)])))"
proof -
  let ?kv = "generateTaintKeyAndVal fault"
  define t where "t = \<lparr>taint_Key = fst ?kv, taint_Value = snd ?kv, taint_Effect = ''NoSchedule'', taint_TimeAdded = Some (rm_now R)\<rparr>"
  have t: "is_taint ?kv t" by (simp add: is_taint_def t_def)
  have "lg1 = lg @ [(RmPatchTaints (om_Name (n_Meta node)) (om_ResourceVersion (n_Meta node)) (ns_Taints (n_Spec node) @ [t]), None)]"
    using assms by (auto simp: taintNode_def Let_def t_def dest!: rm_write_cases)
  moreover have "taintNode R lg2 fault = (None, lg2) \<and>
      (\<exists>r. removeNodeTaint R lg2 fault = (r, lg2 @ [(RmPatchTaints (om_Name (n_Meta node')) (om_ResourceVersion (n_Meta node')) (ns_Taints (n_Spec node)), r)]))"
    if "rm_GetNode R lg2 (fn_AdminName fn) = Inr node'" "ns_Taints (n_Spec node') = ns_Taints (n_Spec node) @ [t]" for lg2 node'
    using that assms(1) t remove_taint_append [OF assms(4) t]
    by (simp add: taintNode_def removeNodeTaint_def Let_def rm_write_def)
  ultimately show ?thesis by blast
qed

section \<open>Retries end\<close>

fun fault_rounds ::
  "('q, 'z) rm_scheme \<Rightarrow> FaultReconcilerOption \<Rightarrow> string \<Rightarrow> nat \<Rightarrow> 'q rlog \<Rightarrow> (goerr option \<times> 'q rlog) option" where
  "fault_rounds R opt name 0 lg = None"
| "fault_rounds R opt name (Suc n) lg =
     (case fault_Reconcile R opt lg name of
        ((d, e), lg') \<Rightarrow> if e = None \<and> d > 0 then fault_rounds R opt name n lg' else Some (e, lg'))"

text \<open>The server serves faults by name, keeps what it accepts, and does not serve an object it could not find.\<close>

definition keeps_faults :: "('q, 'z) rm_scheme \<Rightarrow> bool" where
  "keeps_faults R \<longleftrightarrow>
     (\<forall>lg name f. rm_GetFault R lg name = Inr f \<longrightarrow> om_Name (f_Meta f) = name) \<and>
     (\<forall>lg f. rm_GetFault R (lg @ [(RmPatchFault f, None)]) (om_Name (f_Meta f)) = Inr f) \<and>
     (\<forall>lg f e. api_IsNotFound R e \<longrightarrow> (\<exists>e'. rm_GetFault R (lg @ [(RmPatchFault f, Some e)]) (om_Name (f_Meta f)) = Inl e'))"

lemma fault_retry_requeue:
  assumes "fault_retry R opt lg f = ((d, None), lg', f')" and "d > 0" and "in_int64 (GetRetryCount (f_Meta f) + 1)"
  shows "om_Name (f_Meta f') = om_Name (f_Meta f) \<and>
     (lg' = lg @ [(RmPatchFault f', None)] \<and> GetRetryCount (f_Meta f') = GetRetryCount (f_Meta f) + 1 \<and>
        GetRetryCount (f_Meta f) < opt_maxRetryCount opt \<or>
      (\<exists>e. api_IsNotFound R e \<and> lg' = lg @ [(RmPatchFault f', Some e)]))"
  using assms
  by (auto simp: fault_retry_def IncRetryCount_def Let_def wrap64_id GetRetryCount_def [of "snd (SetAnnotation _ _ _)"] atoi_itoa IgnoreNotFound_def
      split: prod.splits if_splits sum.splits option.splits dest!: rm_write_cases)

lemma fault_round_requeue:
  assumes "fault_Reconcile R opt lg name = ((d, None), lg')" and "d > 0" and "rm_GetFault R lg name = Inr f"
    and "in_int64 (GetRetryCount (f_Meta f) + 1)"
  shows "\<exists>lg1 f'. om_Name (f_Meta f') = om_Name (f_Meta f) \<and>
     (lg' = lg1 @ [(RmPatchFault f', None)] \<and> GetRetryCount (f_Meta f') = GetRetryCount (f_Meta f) + 1 \<and>
        GetRetryCount (f_Meta f) < opt_maxRetryCount opt \<or>
      (\<exists>e. api_IsNotFound R e \<and> lg' = lg1 @ [(RmPatchFault f', Some e)]))"
proof -
  obtain lg1 f' where "fault_retry R opt lg1 f = ((d, None), lg', f')"
    using assms(1-3) by (auto simp: fault_Reconcile_def processFault_def fault_delete_def Let_def split: prod.splits if_splits)
  from fault_retry_requeue [OF this assms(2,4)] show ?thesis by blast
qed


section \<open>Deletion\<close>

lemma fault_retry_waits:
  assumes "0 \<le> GetRetryCount (f_Meta f)" and "GetRetryCount (f_Meta f) < opt_maxRetryCount opt" and "in_int64 (opt_maxRetryCount opt)"
    and "0 < opt_processWait opt" and "fault_retry R opt lg f = (result, lg', f')"
  shows "snd result \<noteq> None \<or> fst result > 0" and "\<exists>g r. lg' = lg @ [(RmPatchFault g, r)]"
proof -
  have w: "wrap64 (GetRetryCount (f_Meta f) + 1) = GetRetryCount (f_Meta f) + 1"
    using assms(1-3) by (intro wrap64_id) (simp add: in_int64_def)
  show "snd result \<noteq> None \<or> fst result > 0"
    using assms w by (auto simp: fault_retry_def IncRetryCount_def Let_def split: prod.splits if_splits option.splits)
  show "\<exists>g r. lg' = lg @ [(RmPatchFault g, r)]"
    using assms(2,5) w by (auto simp: fault_retry_def IncRetryCount_def Let_def split: prod.splits if_splits option.splits dest!: rm_write_cases)
qed

lemma remove_taint_Some: "list_ex (is_taint kv) ts \<Longrightarrow> \<exists>ts'. remove_taint kv ts = Some ts'"
  by (induction ts) auto

text \<open>The finalizer of a deleted fault outlives its taint: while retries are left and errors can be retried, a
  fault whose node is tainted loses its finalizer only after the taint has been removed.\<close>

lemma untainted_before_finalizer:
  assumes "fault_delete R opt lg fault = (res, lg @ l)" and "(RmPatchFinalizers FaultKind (om_Name (f_Meta fault)) fs, r) \<in> set l"
    and "fs_Node (f_Spec fault) = Some fn" and "rm_GetNode R lg (fn_AdminName fn) = Inr node"
    and "list_ex (is_taint (generateTaintKeyAndVal fault)) (ns_Taints (n_Spec node))"
    and "\<forall>lg a e. rm_result R lg a = Some e \<longrightarrow> \<not> IsNonRetryableError R (Some e)"
    and "0 \<le> GetRetryCount (f_Meta fault)" and "GetRetryCount (f_Meta fault) < opt_maxRetryCount opt" and "in_int64 (opt_maxRetryCount opt)"
    and "0 < opt_processWait opt"
  shows "\<exists>ts l'. l = (RmPatchTaints (om_Name (n_Meta node)) (om_ResourceVersion (n_Meta node)) ts, None) # l' \<and>
           remove_taint (generateTaintKeyAndVal fault) (ns_Taints (n_Spec node)) = Some ts"
proof -
  obtain ts where ts: "remove_taint (generateTaintKeyAndVal fault) (ns_Taints (n_Spec node)) = Some ts"
    using remove_taint_Some [OF assms(5)] by blast
  let ?w = "RmPatchTaints (om_Name (n_Meta node)) (om_ResourceVersion (n_Meta node)) ts"
  have t: "removeNodeTaint R lg fault = (rm_result R lg ?w, lg @ [(?w, rm_result R lg ?w)])"
    using assms(3,4) ts by (simp add: removeNodeTaint_def rm_write_def Let_def)
  show ?thesis
  proof (cases "rm_result R lg ?w")
    case None
    have "\<exists>l'. lg @ l = (lg @ [(?w, None)]) @ l'"
      using assms(1) t None by (auto simp: fault_delete_def RemoveFinalizer_def split: prod.splits dest!: finalizer_attempts_writes)
    then show ?thesis using ts by auto
  next
    case (Some e)
    obtain result lg2 f' where f: "fault_retry R opt (lg @ [(?w, Some e)]) fault = (result, lg2, f')" by (metis prod_cases3)
    note w = fault_retry_waits [OF assms(7-10) f]
    have "lg @ l = lg2" using assms(1,6) t Some f w(1) by (auto simp: fault_delete_def)
    then obtain g x where "l = [(?w, Some e), (RmPatchFault g, x)]" using w(2) by auto
    then show ?thesis using assms(2) by simp
  qed
qed

section \<open>Faults without a condition\<close>

lemma fold_deletes_mem:
  assumes "f \<in> set fs" and "\<not> P f"
  shows "\<exists>r. (RmDeleteFault (om_Name (f_Meta f)), r) \<in>
     set (fold (\<lambda>f lg. if P f then lg else snd (rm_write R lg (RmDeleteFault (om_Name (f_Meta f))))) fs lg)"
proof -
  have mono: "set lg \<subseteq> set (fold (\<lambda>f lg. if P f then lg else snd (rm_write R lg (RmDeleteFault (om_Name (f_Meta f))))) gs lg)" for gs lg
  proof (induction gs arbitrary: lg)
    case (Cons g gs)
    have "set lg \<subseteq> set (if P g then lg else snd (rm_write R lg (RmDeleteFault (om_Name (f_Meta g)))))" by (auto simp: rm_write_def Let_def)
    then show ?case using Cons by fastforce
  qed simp
  show ?thesis using assms(1)
  proof (induction fs arbitrary: lg)
    case (Cons g gs)
    show ?case
    proof (cases "g = f")
      case True
      have "(RmDeleteFault (om_Name (f_Meta f)), rm_result R lg (RmDeleteFault (om_Name (f_Meta f)))) \<in> set (snd (rm_write R lg (RmDeleteFault (om_Name (f_Meta f)))))"
        by (simp add: rm_write_def Let_def)
      then show ?thesis using True assms(2) mono by auto
    qed (use Cons in auto)
  qed simp
qed

text \<open>Sticky faults do not survive a restart of the resource manager: they stand for no condition of the node,
  so the create event of the node, which a restarted controller receives for every node, deletes them and
  with them the reservation of the node.\<close>

lemma sticky_faults_lost:
  assumes "rm_ListFaults R lg (label_is NodeIdLabel (om_Name (n_Meta node))) = Inr fs" and "f \<in> set fs"
    and "fs_MonitorId (f_Spec f) = StickyNodesMonitorId"
    and "\<forall>c \<in> set (nst_Conditions (n_Status node)). getIdByConditionType (cond_Type c) \<noteq> StickyNodesMonitorId"
  shows "\<exists>r. (RmDeleteFault (om_Name (f_Meta f)), r) \<in> set (snd (handleNodeEvent R attempts (NodeCreated node) lg))"
proof -
  have "\<not> isValidFault f node" using assms(3,4) by (auto simp: isValidFault_def list_ex_iff)
  then show ?thesis using fold_deletes_mem [OF assms(2), of "\<lambda>f. isValidFault f node" R lg] assms(1)
    by (simp add: handleNodeEvent_def listFaults_def)
qed

section \<open>Witnesses\<close>

definition patched_fault :: "'q rlog \<Rightarrow> string \<Rightarrow> (Fault \<times> goerr option) option" where
  "patched_fault lg name =
     (case rev lg of (RmPatchFault f, r) # _ \<Rightarrow> if om_Name (f_Meta f) = name then Some (f, r) else None | _ \<Rightarrow> None)"

definition sample_rm :: "(int rmwrite \<Rightarrow> goerr option) \<Rightarrow> Fault list \<Rightarrow> int Node list \<Rightarrow> int rm" where
  "sample_rm answer fs ns = ext.extend int_ext
     \<lparr>rm_now = 5, rm_result = (\<lambda>_. answer), rm_GetMeta = (\<lambda>_ _ n. Inr ((blank_meta n)\<lparr>om_Finalizers := [FaultFinalizer]\<rparr>)),
      rm_GetFault = (\<lambda>lg n. case patched_fault lg n of Some (f, None) \<Rightarrow> Inr f | Some (f, Some e) \<Rightarrow> Inl e
                            | None \<Rightarrow> find_by ''Fault'' n (\<lambda>f. om_Name (f_Meta f)) fs),
      rm_ListFaults = (\<lambda>_ sel. Inr (filter (\<lambda>f. sel (f_Meta f)) fs)),
      rm_GetNode = (\<lambda>_ n. find_by ''Node'' n (\<lambda>x. om_Name (n_Meta x)) ns), rm_ListNodes = (\<lambda>_ sel. Inr (filter (\<lambda>x. sel (n_Meta x)) ns)),
      rm_ListWorkloads = (\<lambda>_ _. Inr []), rm_GetWorkspace = (\<lambda>_ n. Inl (NewNotFound ''Workspace'' n)),
      rm_GetNodeFlavor = (\<lambda>_ n. Inl (NewNotFound ''NodeFlavor'' n)), rm_GetCluster = (\<lambda>_ _. None),
      rm_GetConfigMap = (\<lambda>_ n. Inr \<lparr>cm_Meta = blank_meta n, cm_Data = [(''a'', ''101''), (''b'', ''NotReady'')]\<rparr>),
      json_FaultConfig = (\<lambda>s. Inr \<lparr>fc_Id = s, fc_Action = TaintAction, fc_Toggle = ToggleOn, fc_IsAutoRepair = None\<rparr>),
      json_NodesAction = (\<lambda>s. Inl (plain_error ''json'')), dp_GetNode = (\<lambda>_ _ n. Inl (NewNotFound ''Node'' n)),
      Taint_ToString = taint_Key, dp_Get = (\<lambda>_ k _ n. Inl (NewNotFound k n)), dp_List = (\<lambda>_ _ _ _. Inr []),
      cfg_IsCICDEnable = False, cfg_CICDRoleName = '''', cfg_IsMonarchEnable = False, cfg_MonarchClientRole = '''',
      ParseYamlToJson = (\<lambda>s. Inr (blank_meta s)), ConvertUnstructuredToPV = Inr, rm_order = (\<lambda>_ xs. xs)\<rparr>"

definition plain_node :: "string \<Rightarrow> Taint list \<Rightarrow> int Node" where
  "plain_node name taints =
     \<lparr>n_Meta = blank_meta name,
      n_Spec = \<lparr>ns_Cluster = Some ''c'', ns_Workspace = None, ns_NodeFlavor = None, ns_NodeTemplate = None, ns_Hostname = None,
                ns_PrivateIP = '''', ns_PublicIP = '''', ns_Port = None, ns_Taints = taints, ns_SSHSecret = None\<rparr>,
      n_Status = \<lparr>nst_MachineStatus = \<lparr>ms_HostName = '''', ms_Phase = NodeReady, ms_PrivateIP = '''', ms_CommandStatus = [], ms_UpdateTime = None\<rparr>,
                  nst_ClusterStatus = \<lparr>ncs_Phase = NodeManaged, ncs_Cluster = Some ''c'', ncs_CommandStatus = []\<rparr>,
                  nst_Unschedulable = False, nst_Taints = taints, nst_Resources = [], nst_Conditions = []\<rparr>\<rparr>"

definition plain_fault :: "string \<Rightarrow> Fault" where
  "plain_fault i =
     \<lparr>f_Meta = (blank_meta (GenerateFaultId ''n1'' i))\<lparr>om_Labels := [(NodeIdLabel, ''n1'')]\<rparr>,
      f_Spec = \<lparr>fs_MonitorId = i, fs_Message = '''', fs_Node = Some \<lparr>fn_ClusterName = ''c'', fn_AdminName = ''n1''\<rparr>,
                fs_Action = TaintAction, fs_IsAutoRepairEnabled = True\<rparr>,
      f_Status = \<lparr>fst_Phase = '''', fst_UpdateTime = None\<rparr>\<rparr>"

definition plain_taint :: Taint where
  "plain_taint = \<lparr>taint_Key = GenerateTaintKey ''101'', taint_Value = '''', taint_Effect = ''NoSchedule'', taint_TimeAdded = Some 5\<rparr>"

definition twice :: FaultReconcilerOption where "twice = \<lparr>opt_processWait = 1, opt_maxRetryCount = 2\<rparr>"

lemma sample_rm_simps:
  "rm_GetNode (sample_rm answer fs ns) lg n = find_by ''Node'' n (\<lambda>x. om_Name (n_Meta x)) ns"
  "rm_result (sample_rm answer fs ns) lg = answer"
  "rm_ListFaults (sample_rm answer fs ns) lg sel = Inr (filter (\<lambda>f. sel (f_Meta f)) fs)"
  "rm_GetFault (sample_rm answer fs ns) lg n =
     (case patched_fault lg n of Some (f, None) \<Rightarrow> Inr f | Some (f, Some e) \<Rightarrow> Inl e | None \<Rightarrow> find_by ''Fault'' n (\<lambda>f. om_Name (f_Meta f)) fs)"
  by (simp_all add: sample_rm_def ext.defs)

lemma taint_roundtrip_witness:
  "\<exists>ts. snd (taintNode (sample_rm (\<lambda>_. None) [] [plain_node ''n1'' []]) [] (plain_fault ''101'')) = [(RmPatchTaints ''n1'' [] ts, None)]"
proof -
  let ?R = "sample_rm (\<lambda>_. None) [] [plain_node ''n1'' []]" and ?f = "plain_fault ''101''"
  have f: "fs_Node (f_Spec ?f) = Some \<lparr>fn_ClusterName = ''c'', fn_AdminName = ''n1''\<rparr>" by (simp add: plain_fault_def)
  have n: "rm_GetNode ?R [] (fn_AdminName \<lparr>fn_ClusterName = ''c'', fn_AdminName = ''n1''\<rparr>) = Inr (plain_node ''n1'' [])"
    by (simp add: sample_rm_simps sample_defs plain_node_def)
  have "GetSpecCluster (plain_node ''n1'' []) \<noteq> ''''" "\<not> list_ex (is_taint (generateTaintKeyAndVal ?f)) (ns_Taints (n_Spec (plain_node ''n1'' [])))"
    by (simp_all add: plain_node_def GetSpecCluster_def)
  moreover have "taintNode ?R [] ?f = (None, snd (taintNode ?R [] ?f))"
    using f n by (simp add: taintNode_def Let_def rm_write_def sample_rm_simps plain_node_def GetSpecCluster_def)
  ultimately show ?thesis using taint_roundtrip [OF f n] by (fastforce simp: plain_node_def sample_defs)
qed

lemma sample_keeps_faults: "keeps_faults (sample_rm answer fs ns)"
  by (auto simp: keeps_faults_def sample_rm_simps patched_fault_def find_by_def split: option.splits list.splits prod.splits rmwrite.splits if_splits dest!: find_Some_iff [THEN iffD1])


lemma untainted_before_finalizer_witness:
  "\<exists>ts l'. snd (fault_delete (sample_rm (\<lambda>_. None) [] [plain_node ''n1'' [plain_taint]]) twice [] (plain_fault ''101'')) =
      (RmPatchTaints ''n1'' [] ts, None) # l'"
proof -
  let ?n = "plain_node ''n1'' [plain_taint]" and ?f = "plain_fault ''101''"
  let ?R = "sample_rm (\<lambda>_. None) [] [?n]"
  let ?d = "fault_delete ?R twice [] ?f"
  have d: "?d = (fst ?d, [] @ snd ?d)" by simp
  have m: "(RmPatchFinalizers FaultKind (om_Name (f_Meta ?f)) [], None) \<in> set (snd ?d)" by code_simp
  have f: "fs_Node (f_Spec ?f) = Some \<lparr>fn_ClusterName = ''c'', fn_AdminName = ''n1''\<rparr>" by (simp add: plain_fault_def)
  have n: "rm_GetNode ?R [] (fn_AdminName \<lparr>fn_ClusterName = ''c'', fn_AdminName = ''n1''\<rparr>) = Inr ?n"
    by (simp add: sample_rm_simps sample_defs plain_node_def)
  have t: "list_ex (is_taint (generateTaintKeyAndVal ?f)) (ns_Taints (n_Spec ?n))" by code_simp
  have c: "0 \<le> GetRetryCount (f_Meta ?f)" "GetRetryCount (f_Meta ?f) < opt_maxRetryCount twice" by code_simp+
  from untainted_before_finalizer [OF d m f n t _ c] show ?thesis
    by (simp add: sample_rm_simps twice_def in_int64_def plain_node_def sample_defs) blast
qed

lemma sticky_faults_lost_witness:
  "\<exists>r. (RmDeleteFault (om_Name (f_Meta (plain_fault StickyNodesMonitorId))), r) \<in>
     set (snd (handleNodeEvent (sample_rm (\<lambda>_. None) [plain_fault StickyNodesMonitorId] []) 0 (NodeCreated (plain_node ''n1'' [])) []))"
proof (rule sticky_faults_lost)
  show "rm_ListFaults (sample_rm (\<lambda>_. None) [plain_fault StickyNodesMonitorId] []) [] (label_is NodeIdLabel (om_Name (n_Meta (plain_node ''n1'' [])))) =
      Inr [plain_fault StickyNodesMonitorId]"
    by (simp add: sample_rm_simps plain_fault_def plain_node_def label_is_def blank_meta_def)
qed (simp_all add: plain_fault_def plain_node_def)

end
