(* ===== verification/Node_Sync.thy ===== *)
theory Node_Sync
  imports Faults
begin

text \<open>
  \<^verbatim>\<open>resource-manager/pkg/resource/node_k8s_controller.go\<close> and parts of \<^verbatim>\<open>node_helper.go\<close>: events of the nodes of a
  data-plane cluster, how the admin node follows them, and which faults their conditions raise and clear.
\<close>

definition NodeStartupTimeLabel :: string where "NodeStartupTimeLabel = ''primus-safe.node.startup.time''"
definition KubernetesControlPlane :: string where "KubernetesControlPlane = ''node-role.kubernetes.io/control-plane''"
definition NodeTemplateInstalledAnnotation :: string where "NodeTemplateInstalledAnnotation = ''primus-safe.node.template.installed''"

definition concernedK8sLabelKeys :: "string list" where
  "concernedK8sLabelKeys = [WorkspaceIdLabel, ClusterIdLabel, NodeStartupTimeLabel, KubernetesControlPlane]"

definition concernedK8sAnnotationKeys :: "string list" where
  "concernedK8sAnnotationKeys = []"

datatype NodeAction = NodeAdd | NodeDelete | NodeUpdate | NodeNowManaged | NodeUnmanaged

record nodeQueueMessage =
  nq_k8sNodeName :: string
  nq_adminNodeName :: string
  nq_clusterName :: string
  nq_action :: NodeAction
  nq_oldConditions :: "Condition list"

section \<open>Helpers\<close>

definition getNodeByInformer :: "('q, 'z) rm_scheme \<Rightarrow> 'q rlog \<Rightarrow> string \<Rightarrow> string \<Rightarrow> goerr + 'q k8s_node" where
  "getNodeByInformer R lg cluster nodeName =
     (if nodeName = '''' then Inl (plain_error ''the node name is empty'') else dp_GetNode R lg cluster nodeName)"

definition IsControlPlane :: "ObjectMeta \<Rightarrow> bool" where
  "IsControlPlane obj = HasLabel obj KubernetesControlPlane"

definition isCommandSuccessful :: "CommandStatus list \<Rightarrow> string \<Rightarrow> bool" where
  "isCommandSuccessful status name \<longleftrightarrow> list_ex (\<lambda>v. cs_Name v = name \<and> cs_Phase v = ''Succeeded'') status"

fun setCommandStatus :: "CommandStatus list \<Rightarrow> string \<Rightarrow> string \<Rightarrow> CommandStatus list" where
  "setCommandStatus [] name phase = [\<lparr>cs_Name = name, cs_Phase = phase\<rparr>]"
| "setCommandStatus (v # vs) name phase =
     (if cs_Name v = name then v\<lparr>cs_Phase := phase\<rparr> # vs else v # setCommandStatus vs name phase)"

definition isK8sNodeReady :: "'q k8s_node \<Rightarrow> bool" where
  "isK8sNodeReady node \<longleftrightarrow> \<not> list_ex (\<lambda>c. cond_Type c = ''Ready'' \<and> cond_Status c \<noteq> ''True'') (kn_Conditions node)"

definition isConditionsChanged :: "Condition list \<Rightarrow> Condition list \<Rightarrow> bool" where
  "isConditionsChanged oldConditions newConditions \<longleftrightarrow>
     length oldConditions \<noteq> length newConditions \<or>
     (let oldCondMap = fold (\<lambda>c m. mput m (cond_Type c) c) oldConditions [] in
      list_ex (\<lambda>newCond. case mget oldCondMap (cond_Type newCond) of
                 None \<Rightarrow> True
               | Some oldCond \<Rightarrow> cond_Status oldCond \<noteq> cond_Status newCond \<or> cond_Reason oldCond \<noteq> cond_Reason newCond \<or>
                                cond_Message oldCond \<noteq> cond_Message newCond) newConditions)"

definition isConcernedLabelsEqual :: "ObjectMeta \<Rightarrow> ObjectMeta \<Rightarrow> bool" where
  "isConcernedLabelsEqual obj1 obj2 \<longleftrightarrow>
     CompareWithKeys (om_Labels obj1) (om_Labels obj2) concernedK8sLabelKeys \<and>
     CompareWithKeys (om_Annotations obj1) (om_Annotations obj2) concernedK8sAnnotationKeys"

definition isRelevantFieldChanged ::
  "('q::linordered_ab_group_add, 'z) rm_scheme \<Rightarrow> 'q k8s_node \<Rightarrow> 'q k8s_node \<Rightarrow> bool" where
  "isRelevantFieldChanged R oldNode newNode \<longleftrightarrow>
     isConditionsChanged (kn_Conditions oldNode) (kn_Conditions newNode) \<or>
     \<not> Equal R (kn_Allocatable oldNode) (kn_Allocatable newNode) \<or>
     GetNodeFlavorId (kn_Meta oldNode) \<noteq> GetNodeFlavorId (kn_Meta newNode) \<or>
     \<not> IsTaintsEqualIgnoreOrder (Taint_ToString R) (kn_Taints oldNode) (kn_Taints newNode) \<or>
     kn_Unschedulable oldNode \<noteq> kn_Unschedulable newNode \<or>
     \<not> isConcernedLabelsEqual (kn_Meta oldNode) (kn_Meta newNode)"

section \<open>Events\<close>

datatype 'q k8s_node_event = K8sAdd "'q k8s_node" | K8sUpdate "'q k8s_node" "'q k8s_node" | K8sDelete "'q k8s_node"

definition node_message :: "string \<Rightarrow> 'q k8s_node \<Rightarrow> 'q k8s_node option \<Rightarrow> NodeAction \<Rightarrow> nodeQueueMessage" where
  "node_message cluster node oldNode action =
     \<lparr>nq_k8sNodeName = om_Name (kn_Meta node), nq_adminNodeName = GetNodeId (kn_Meta node), nq_clusterName = cluster, nq_action = action,
      nq_oldConditions = (case oldNode of None \<Rightarrow> [] | Some n \<Rightarrow> kn_Conditions n)\<rparr>"

text \<open>Every event marks the clients as valid again.\<close>

definition nodeEventHandler ::
  "('q::linordered_ab_group_add, 'z) rm_scheme \<Rightarrow> ClientFactory \<Rightarrow> 'q k8s_node_event \<Rightarrow> ClientFactory \<times> nodeQueueMessage option" where
  "nodeEventHandler R k8sClients evt =
     (let cluster = cf_Name k8sClients in
      (k8sClients\<lparr>cf_Valid := True\<rparr>,
       case evt of
         K8sAdd node \<Rightarrow>
           if \<not> time_IsZero (om_DeletionTimestamp (kn_Meta node)) \<or> GetClusterId (kn_Meta node) \<noteq> cluster then None
           else Some (node_message cluster node None NodeAdd)
       | K8sUpdate oldNode newNode \<Rightarrow>
           let oldId = GetClusterId (kn_Meta oldNode); newId = GetClusterId (kn_Meta newNode) in
           if \<not> time_IsZero (om_DeletionTimestamp (kn_Meta newNode)) then None
           else if oldId = cluster \<and> newId \<noteq> cluster then Some (node_message cluster oldNode (Some oldNode) NodeUnmanaged)
           else if oldId \<noteq> cluster \<and> newId = cluster then Some (node_message cluster newNode (Some oldNode) NodeNowManaged)
           else if newId = cluster \<and> isRelevantFieldChanged R oldNode newNode then Some (node_message cluster newNode (Some oldNode) NodeUpdate)
           else None
       | K8sDelete node \<Rightarrow>
           if GetClusterId (kn_Meta node) \<noteq> cluster then None else Some (node_message cluster node (Some node) NodeDelete)))"

definition watchErrorHandler :: "ClientFactory \<Rightarrow> ClientFactory" where
  "watchErrorHandler k8sClients = k8sClients\<lparr>cf_Valid := False\<rparr>"

section \<open>The admin node follows the node of the cluster\<close>

definition sync_label :: "strmap \<Rightarrow> string \<Rightarrow> bool \<times> ObjectMeta \<Rightarrow> bool \<times> ObjectMeta" where
  "sync_label labels k st =
     (case (case mget labels k of Some v \<Rightarrow> SetLabel (snd st) k v | None \<Rightarrow> RemoveLabel (snd st) k) of (c, m) \<Rightarrow> (fst st \<or> c, m))"

definition sync_annotation :: "strmap \<Rightarrow> string \<Rightarrow> bool \<times> ObjectMeta \<Rightarrow> bool \<times> ObjectMeta" where
  "sync_annotation annotations k st =
     (case (case mget annotations k of Some v \<Rightarrow> SetAnnotation (snd st) k v | None \<Rightarrow> RemoveAnnotation (snd st) k) of (c, m) \<Rightarrow> (fst st \<or> c, m))"

definition syncK8sMetadata ::
  "('q, 'z) rm_scheme \<Rightarrow> 'q rlog \<Rightarrow> 'q Node \<Rightarrow> 'q k8s_node \<Rightarrow> goerr option \<times> 'q rlog \<times> 'q Node" where
  "syncK8sMetadata R lg adminNode k8sNode =
     (let (shouldUpdate, m) = fold (sync_annotation (om_Annotations (kn_Meta k8sNode))) concernedK8sAnnotationKeys
                                (fold (sync_label (om_Labels (kn_Meta k8sNode))) concernedK8sLabelKeys (False, n_Meta adminNode));
          adminNode' = adminNode\<lparr>n_Meta := m\<rparr>
      in if \<not> shouldUpdate then (None, lg, adminNode')
         else case rm_write R lg (RmUpdateNode adminNode') of (e, lg') \<Rightarrow> (e, lg', adminNode'))"

definition mirrored_status :: "('q::linordered_ab_group_add, 'z) rm_scheme \<Rightarrow> 'q k8s_node \<Rightarrow> 'q NodeStatus \<Rightarrow> 'q NodeStatus" where
  "mirrored_status R k8sNode st =
     st\<lparr>nst_MachineStatus := (nst_MachineStatus st)\<lparr>ms_PrivateIP := GetInternalIp (kn_Addresses k8sNode)\<rparr>,
        nst_Unschedulable := kn_Unschedulable k8sNode, nst_Taints := kn_Taints k8sNode, nst_Conditions := kn_Conditions k8sNode,
        nst_Resources := GetConcernedResources R (kn_Allocatable k8sNode)\<rparr>"

definition syncK8sStatus ::
  "('q::linordered_ab_group_add, 'z) rm_scheme \<Rightarrow> 'q rlog \<Rightarrow> 'q Node \<Rightarrow> 'q k8s_node \<Rightarrow> goerr option \<times> 'q rlog \<times> 'q Node" where
  "syncK8sStatus R lg adminNode k8sNode =
     (let adminNode' = adminNode\<lparr>n_Status := mirrored_status R k8sNode (n_Status adminNode)\<rparr> in
      if n_Status adminNode = n_Status adminNode' then (None, lg, adminNode')
      else case rm_write R lg (RmUpdateNodeStatus adminNode') of (e, lg') \<Rightarrow> (e, lg', adminNode'))"

definition genFaultNodeByMessage :: "nodeQueueMessage \<Rightarrow> FaultNode" where
  "genFaultNodeByMessage message = \<lparr>fn_ClusterName = nq_clusterName message, fn_AdminName = nq_adminNodeName message\<rparr>"

fun new_conditions ::
  "('q, 'z) rm_scheme \<Rightarrow> (string, FaultConfig) gomap \<Rightarrow> FaultNode \<Rightarrow> bool \<Rightarrow> strmap \<Rightarrow> Condition list \<Rightarrow> 'q rlog \<Rightarrow> goerr option \<times> 'q rlog" where
  "new_conditions R cfg fnode inCluster oldMap [] lg = (None, lg)"
| "new_conditions R cfg fnode inCluster oldMap (c # cs) lg =
     (if mget oldMap (cond_Type c) = Some (cond_Status c) then new_conditions R cfg fnode inCluster oldMap cs lg
      else if shouldCreateFault c then
        (if \<not> inCluster then new_conditions R cfg fnode inCluster oldMap cs lg
         else case generateFaultOnCreation fnode c cfg of
                None \<Rightarrow> new_conditions R cfg fnode inCluster oldMap cs lg
              | Some f \<Rightarrow> (case createFault R lg f of
                            (Some e, lg') \<Rightarrow> (Some e, lg')
                          | (None, lg') \<Rightarrow> new_conditions R cfg fnode inCluster oldMap cs lg'))
      else case generateFaultOnDeletion fnode c cfg of
             None \<Rightarrow> new_conditions R cfg fnode inCluster oldMap cs lg
           | Some f \<Rightarrow> (case deleteFault R lg f of
                         (Some e, lg') \<Rightarrow> (Some e, lg')
                       | (None, lg') \<Rightarrow> new_conditions R cfg fnode inCluster oldMap cs lg'))"

fun gone_conditions ::
  "('q, 'z) rm_scheme \<Rightarrow> (string, FaultConfig) gomap \<Rightarrow> FaultNode \<Rightarrow> strset \<Rightarrow> Condition list \<Rightarrow> 'q rlog \<Rightarrow> goerr option \<times> 'q rlog" where
  "gone_conditions R cfg fnode newSet [] lg = (None, lg)"
| "gone_conditions R cfg fnode newSet (c # cs) lg =
     (if set_Has newSet (cond_Type c) then gone_conditions R cfg fnode newSet cs lg
      else case generateFaultOnDeletion fnode c cfg of
             None \<Rightarrow> gone_conditions R cfg fnode newSet cs lg
           | Some f \<Rightarrow> (case deleteFault R lg f of
                         (Some e, lg') \<Rightarrow> (Some e, lg')
                       | (None, lg') \<Rightarrow> gone_conditions R cfg fnode newSet cs lg'))"

definition node_processFault ::
  "('q, 'z) rm_scheme \<Rightarrow> 'q rlog \<Rightarrow> 'q Node \<Rightarrow> nodeQueueMessage \<Rightarrow> goerr option \<times> 'q rlog" where
  "node_processFault R lg adminNode message =
     (case GetFaultConfigmap R lg of
        Inl e \<Rightarrow> (Some e, lg)
      | Inr cfg \<Rightarrow>
          if cfg = [] then (None, lg)
          else
            let oldMap = fold (\<lambda>c m. mput m (cond_Type c) (cond_Status c)) (nq_oldConditions message) [];
                fnode = genFaultNodeByMessage message; conds = nst_Conditions (n_Status adminNode)
            in case new_conditions R cfg fnode (GetSpecCluster adminNode \<noteq> '''') oldMap conds lg of
                 (Some e, lg1) \<Rightarrow> (Some e, lg1)
               | (None, lg1) \<Rightarrow> gone_conditions R cfg fnode (NewSetByKeys (map cond_Type conds)) (nq_oldConditions message) lg1)"

section \<open>Messages\<close>

definition deleteConcernedMeta :: "ObjectMeta \<Rightarrow> bool \<times> ObjectMeta" where
  "deleteConcernedMeta m =
     (let (c1, m1) = fold (sync_label []) concernedK8sLabelKeys (False, m);
          (c2, m2) = fold (sync_annotation []) concernedK8sAnnotationKeys (c1, m1);
          (c3, m3) = RemoveAnnotation m2 NodeTemplateInstalledAnnotation
      in (c2 \<or> c3, m3))"

definition handleNodeUnmanaged :: "('q, 'z) rm_scheme \<Rightarrow> 'q rlog \<Rightarrow> 'q Node \<Rightarrow> goerr option \<times> 'q rlog" where
  "handleNodeUnmanaged R lg adminNode =
     (let (changed, m) = deleteConcernedMeta (n_Meta adminNode); node1 = adminNode\<lparr>n_Meta := m\<rparr>;
          node2 = node1\<lparr>n_Status := (n_Status node1)\<lparr>nst_Taints := [], nst_Resources := [], nst_Conditions := [], nst_Unschedulable := True\<rparr>\<rparr>;
          (err, lg1) = (if changed then rm_write R lg (RmUpdateNode node1) else (None, lg))
      in if err \<noteq> None then (err, lg1) else rm_write R lg1 (RmUpdateNodeStatus node2))"

definition handleNodeUpdate ::
  "('q::linordered_ab_group_add, 'z) rm_scheme \<Rightarrow> ClientFactory object_manager \<Rightarrow> 'q rlog \<Rightarrow> nodeQueueMessage \<Rightarrow> 'q Node \<Rightarrow> goerr option \<times> 'q rlog" where
  "handleNodeUpdate R clientManager lg message adminNode =
     (case GetK8sClientFactory clientManager (nq_clusterName message) of
        Inl e \<Rightarrow> (Some (plain_error (''the cluster('' @ nq_clusterName message @ '') clients is not ready'')), lg)
      | Inr k8sClients \<Rightarrow>
          if \<not> cf_Valid k8sClients then (Some (plain_error (''the cluster('' @ nq_clusterName message @ '') clients is not ready'')), lg)
          else
            (case getNodeByInformer R lg (cf_Name k8sClients) (nq_k8sNodeName message) of
               Inl e \<Rightarrow> (Some e, lg)
             | Inr k8sNode \<Rightarrow>
                 (case syncK8sMetadata R lg adminNode k8sNode of
                    (Some e, lg1, _) \<Rightarrow> (Some e, lg1)
                  | (None, lg1, node1) \<Rightarrow>
                      (case syncK8sStatus R lg1 node1 k8sNode of
                         (Some e, lg2, _) \<Rightarrow> (Some e, lg2)
                       | (None, lg2, node2) \<Rightarrow> node_processFault R lg2 node2 message))))"

definition node_Do ::
  "('q::linordered_ab_group_add, 'z) rm_scheme \<Rightarrow> ClientFactory object_manager \<Rightarrow> 'q rlog \<Rightarrow> nodeQueueMessage \<Rightarrow> reconcile_result \<times> 'q rlog" where
  "node_Do R clientManager lg message =
     (case rm_GetNode R lg (nq_adminNodeName message) of
        Inl e \<Rightarrow> ((0, IgnoreNotFound R (Some e)), lg)
      | Inr adminNode \<Rightarrow>
          if \<not> time_IsZero (om_DeletionTimestamp (n_Meta adminNode)) then ((0, None), lg)
          else case (if nq_action message = NodeDelete \<or> nq_action message = NodeUnmanaged then handleNodeUnmanaged R lg adminNode
                     else handleNodeUpdate R clientManager lg message adminNode) of
                 (err, lg') \<Rightarrow> ((0, if IsNonRetryableError R err then None else err), lg'))"

section \<open>Faults follow conditions\<close>

text \<open>The names of the faults that exist after some writes were answered; a fault that already exists is there,
  one that is not found is not.\<close>

definition fault_write :: "('q, 'z) rm_scheme \<Rightarrow> 'q rmwrite \<times> goerr option \<Rightarrow> string set \<Rightarrow> string set" where
  "fault_write R w S =
     (case w of
        (RmCreateFault f, r) \<Rightarrow> if r = None \<or> api_IsAlreadyExists R (the r) then insert (om_Name (f_Meta f)) S else S
      | (RmDeleteFault n, r) \<Rightarrow> if r = None \<or> api_IsNotFound R (the r) then S - {n} else S
      | _ \<Rightarrow> S)"

definition fault_name :: "FaultNode \<Rightarrow> Condition \<Rightarrow> string" where
  "fault_name fnode c = GenerateFaultId (fn_AdminName fnode) (getIdByConditionType (cond_Type c))"

text \<open>A configured condition in a faulty state has its fault; one that is not, and is repaired automatically, has none.\<close>

definition faults_agree :: "(string, FaultConfig) gomap \<Rightarrow> FaultNode \<Rightarrow> Condition list \<Rightarrow> string set \<Rightarrow> bool" where
  "faults_agree cfg fnode conds S \<longleftrightarrow>
     (\<forall>c \<in> set conds. \<forall>conf. mget cfg (getIdByConditionType (cond_Type c)) = Some conf \<longrightarrow>
        (shouldCreateFault c \<longrightarrow> fault_name fnode c \<in> S) \<and>
        (\<not> shouldCreateFault c \<and> IsAutoRepairEnabled conf \<and> (isPrimusCondition (cond_Type c) \<or> isK8sCondition (cond_Type c))
           \<longrightarrow> fault_name fnode c \<notin> S))"

definition raised :: "(string, FaultConfig) gomap \<Rightarrow> FaultNode \<Rightarrow> Condition \<Rightarrow> string set \<Rightarrow> string set" where
  "raised cfg fnode c S = (if generateFaultOnCreation fnode c cfg = None then S else insert (fault_name fnode c) S)"

definition cleared :: "(string, FaultConfig) gomap \<Rightarrow> FaultNode \<Rightarrow> Condition \<Rightarrow> string set \<Rightarrow> string set" where
  "cleared cfg fnode c S = (if generateFaultOnDeletion fnode c cfg = None then S else S - {fault_name fnode c})"

definition cond_effect :: "(string, FaultConfig) gomap \<Rightarrow> FaultNode \<Rightarrow> strmap \<Rightarrow> Condition \<Rightarrow> string set \<Rightarrow> string set" where
  "cond_effect cfg fnode oldMap c S =
     (if mget oldMap (cond_Type c) = Some (cond_Status c) then S
      else if shouldCreateFault c then raised cfg fnode c S else cleared cfg fnode c S)"

lemma generate_names:
  "generateFaultOnCreation fnode c cfg = Some f \<Longrightarrow> om_Name (f_Meta f) = fault_name fnode c"
  "generateFaultOnDeletion fnode c cfg = Some f \<Longrightarrow> om_Name (f_Meta f) = fault_name fnode c"
  by (auto simp: generateFaultOnCreation_def generateFaultOnDeletion_def fault_name_def new_meta_def Let_def split: option.splits if_splits)

lemma createFault_ok:
  assumes "createFault R lg f = (None, lg')"
  shows "\<exists>w. lg' = lg @ [w] \<and> fault_write R w S = insert (om_Name (f_Meta f)) S"
  using assms by (auto simp: createFault_def fault_write_def split: prod.splits option.splits if_splits dest!: rm_write_cases)

lemma deleteFault_ok:
  assumes "deleteFault R lg f = (None, lg')"
  shows "\<exists>w. lg' = lg @ [w] \<and> fault_write R w S = S - {om_Name (f_Meta f)}"
  using assms by (auto simp: deleteFault_def fault_write_def IgnoreNotFound_def split: prod.splits option.splits if_splits dest!: rm_write_cases)

lemma new_conditions_effect:
  assumes "new_conditions R cfg fnode True oldMap cs lg = (None, lg')"
  shows "\<exists>l. lg' = lg @ l \<and> fold (fault_write R) l S = fold (cond_effect cfg fnode oldMap) cs S"
  using assms
proof (induction cs arbitrary: lg S)
  case (Cons c cs)
  have one: ?case if "S' = cond_effect cfg fnode oldMap c S" "lg1 = lg @ l1" "fold (fault_write R) l1 S = S'"
    "new_conditions R cfg fnode True oldMap cs lg1 = (None, lg')" for S' lg1 l1
    using Cons.IH [OF that(4), of S'] that(1-3) by (metis append_assoc comp_apply fold_append fold_simps(2))
  consider (same) "mget oldMap (cond_Type c) = Some (cond_Status c)"
    | (bad) "mget oldMap (cond_Type c) \<noteq> Some (cond_Status c)" "shouldCreateFault c"
    | (good) "mget oldMap (cond_Type c) \<noteq> Some (cond_Status c)" "\<not> shouldCreateFault c" by blast
  then show ?case
  proof cases
    case same
    then show ?thesis using one [of S lg "[]"] Cons.prems by (simp add: cond_effect_def)
  next
    case bad
    show ?thesis
    proof (cases "generateFaultOnCreation fnode c cfg")
      case None
      then show ?thesis using one [of S lg "[]"] Cons.prems bad by (simp add: cond_effect_def raised_def)
    next
      case (Some f)
      then obtain lg1 where "createFault R lg f = (None, lg1)" "new_conditions R cfg fnode True oldMap cs lg1 = (None, lg')"
        using Cons.prems bad by (auto split: prod.splits option.splits)
      then show ?thesis using createFault_ok [of R lg f lg1 S] one [of _ lg1] bad Some generate_names(1) [OF Some]
        by (fastforce simp: cond_effect_def raised_def)
    qed
  next
    case good
    show ?thesis
    proof (cases "generateFaultOnDeletion fnode c cfg")
      case None
      then show ?thesis using one [of S lg "[]"] Cons.prems good by (simp add: cond_effect_def cleared_def)
    next
      case (Some f)
      then obtain lg1 where "deleteFault R lg f = (None, lg1)" "new_conditions R cfg fnode True oldMap cs lg1 = (None, lg')"
        using Cons.prems good by (auto split: prod.splits option.splits)
      then show ?thesis using deleteFault_ok [of R lg f lg1 S] one [of _ lg1] good Some generate_names(2) [OF Some]
        by (fastforce simp: cond_effect_def cleared_def)
    qed
  qed
qed simp

lemma gone_conditions_effect:
  assumes "gone_conditions R cfg fnode newSet cs lg = (None, lg')"
  shows "\<exists>l. lg' = lg @ l \<and> fold (fault_write R) l S = fold (cleared cfg fnode) (filter (\<lambda>c. \<not> set_Has newSet (cond_Type c)) cs) S"
  using assms
proof (induction cs arbitrary: lg S)
  case (Cons c cs)
  show ?case
  proof (cases "set_Has newSet (cond_Type c) \<or> generateFaultOnDeletion fnode c cfg = None")
    case True
    then show ?thesis using Cons by (auto simp: cleared_def)
  next
    case False
    then obtain f lg1 where f: "generateFaultOnDeletion fnode c cfg = Some f" and d: "deleteFault R lg f = (None, lg1)"
      and g: "gone_conditions R cfg fnode newSet cs lg1 = (None, lg')"
      using Cons.prems by (auto split: prod.splits option.splits)
    obtain w where "lg1 = lg @ [w]" "fault_write R w S = cleared cfg fnode c S"
      using deleteFault_ok [OF d, of S] f generate_names(2) [OF f] by (auto simp: cleared_def)
    then show ?thesis using Cons.IH [OF g, of "cleared cfg fnode c S"] False by auto
  qed
qed simp

text \<open>Effects on distinct names do not disturb each other.\<close>

lemma fold_local:
  assumes "\<And>c S n. c \<in> set cs \<Longrightarrow> n \<noteq> nm c \<Longrightarrow> n \<in> step c S \<longleftrightarrow> n \<in> S"
    and "\<And>c S S'. c \<in> set cs \<Longrightarrow> nm c \<in> S \<longleftrightarrow> nm c \<in> S' \<Longrightarrow> nm c \<in> step c S \<longleftrightarrow> nm c \<in> step c S'"
    and "distinct (map nm cs)"
  shows "n \<notin> nm ` set cs \<Longrightarrow> n \<in> fold step cs S \<longleftrightarrow> n \<in> S" and "c \<in> set cs \<Longrightarrow> nm c \<in> fold step cs S \<longleftrightarrow> nm c \<in> step c S"
proof -
  have out: "n \<in> fold step ds S \<longleftrightarrow> n \<in> S" if "set ds \<subseteq> set cs" "n \<notin> nm ` set ds" for n ds S
    using that
  proof (induction ds arbitrary: S)
    case (Cons d ds)
    then have "n \<in> fold step ds (step d S) \<longleftrightarrow> n \<in> step d S" by (intro Cons.IH) auto
    then show ?case using assms(1) [of d n S] Cons.prems by simp
  qed simp
  then show "n \<in> fold step cs S \<longleftrightarrow> n \<in> S" if "n \<notin> nm ` set cs" using that by blast
  show "nm c \<in> fold step cs S \<longleftrightarrow> nm c \<in> step c S" if c: "c \<in> set cs"
  proof -
    from c obtain xs ys where s: "cs = xs @ c # ys" by (auto simp: in_set_conv_decomp)
    then have d: "nm c \<notin> nm ` set xs" "nm c \<notin> nm ` set ys" using assms(3) by auto
    have "nm c \<in> fold step ys (step c (fold step xs S)) \<longleftrightarrow> nm c \<in> step c (fold step xs S)" by (rule out) (use d s in auto)
    moreover have "nm c \<in> fold step xs S \<longleftrightarrow> nm c \<in> S" by (rule out) (use d s in auto)
    note assms(2) [OF c this]
    ultimately show ?thesis using s by simp
  qed
qed

lemma effect_local:
  "n \<noteq> fault_name fnode c \<Longrightarrow> n \<in> cond_effect cfg fnode oldMap c S \<longleftrightarrow> n \<in> S"
  "(fault_name fnode c \<in> S \<longleftrightarrow> fault_name fnode c \<in> S') \<Longrightarrow>
     fault_name fnode c \<in> cond_effect cfg fnode oldMap c S \<longleftrightarrow> fault_name fnode c \<in> cond_effect cfg fnode oldMap c S'"
  "n \<noteq> fault_name fnode c \<Longrightarrow> n \<in> cleared cfg fnode c S \<longleftrightarrow> n \<in> S"
  "(fault_name fnode c \<in> S \<longleftrightarrow> fault_name fnode c \<in> S') \<Longrightarrow> fault_name fnode c \<in> cleared cfg fnode c S \<longleftrightarrow> fault_name fnode c \<in> cleared cfg fnode c S'"
  by (auto simp: cond_effect_def raised_def cleared_def)

lemma old_status:
  "mget (fold (\<lambda>c m. mput m (cond_Type c) (cond_Status c)) cs m0) t = Some s \<Longrightarrow>
     (\<exists>c \<in> set cs. cond_Type c = t \<and> cond_Status c = s) \<or> mget m0 t = Some s"
proof (induction cs arbitrary: m0)
  case (Cons c cs)
  then show ?case using Cons.IH [of "mput m0 (cond_Type c) (cond_Status c)"] by (auto split: if_splits)
qed simp

lemma distinct_fault_names:
  assumes "distinct (map cond_Type cs)" and "inj_on (\<lambda>t. GenerateFaultId (fn_AdminName fnode) (getIdByConditionType t)) T" and "cond_Type ` set cs \<subseteq> T"
  shows "distinct (map (fault_name fnode) cs)"
proof -
  have "map (fault_name fnode) cs = map (\<lambda>t. GenerateFaultId (fn_AdminName fnode) (getIdByConditionType t)) (map cond_Type cs)"
    by (simp add: fault_name_def)
  then show ?thesis using assms by (simp only: distinct_map [of _ "map cond_Type cs"]) (auto intro: inj_on_subset)
qed

lemma faults_agreeD:
  assumes "faults_agree cfg fnode conds S" and "c \<in> set conds" and "mget cfg (getIdByConditionType (cond_Type c)) = Some conf"
  shows "shouldCreateFault c \<Longrightarrow> fault_name fnode c \<in> S"
    and "\<not> shouldCreateFault c \<Longrightarrow> IsAutoRepairEnabled conf \<Longrightarrow> isPrimusCondition (cond_Type c) \<or> isK8sCondition (cond_Type c) \<Longrightarrow> fault_name fnode c \<notin> S"
  using assms unfolding faults_agree_def by blast+

text \<open>Handling one condition establishes the agreement for it, if the state before agreed with an equal old condition.\<close>

lemma cond_effect_agrees:
  assumes "faults_agree cfg fnode old S" and "oldMap = fold (\<lambda>c m. mput m (cond_Type c) (cond_Status c)) old []"
    and "mget cfg (getIdByConditionType (cond_Type c)) = Some conf"
  shows "shouldCreateFault c \<Longrightarrow> fault_name fnode c \<in> cond_effect cfg fnode oldMap c S"
    and "\<not> shouldCreateFault c \<Longrightarrow> IsAutoRepairEnabled conf \<Longrightarrow> isPrimusCondition (cond_Type c) \<or> isK8sCondition (cond_Type c) \<Longrightarrow>
           fault_name fnode c \<notin> cond_effect cfg fnode oldMap c S"
proof -
  have eq: "shouldCreateFault c' = shouldCreateFault c" "fault_name fnode c' = fault_name fnode c"
    if "cond_Type c' = cond_Type c" "cond_Status c' = cond_Status c" for c' using that by (simp_all add: shouldCreateFault_def fault_name_def)
  have same: "\<exists>c' \<in> set old. shouldCreateFault c' = shouldCreateFault c \<and> fault_name fnode c' = fault_name fnode c \<and> cond_Type c' = cond_Type c"
    if "mget oldMap (cond_Type c) = Some (cond_Status c)"
  proof -
    have "mget (fold (\<lambda>c m. mput m (cond_Type c) (cond_Status c)) old []) (cond_Type c) = Some (cond_Status c)" using that assms(2) by simp
    from old_status [OF this] obtain c' where "c' \<in> set old" "cond_Type c' = cond_Type c" "cond_Status c' = cond_Status c" by auto
    then show ?thesis using eq [of c'] by blast
  qed
  show "fault_name fnode c \<in> cond_effect cfg fnode oldMap c S" if t: "shouldCreateFault c"
  proof (cases "mget oldMap (cond_Type c) = Some (cond_Status c)")
    case True
    then obtain c' where c': "c' \<in> set old" "shouldCreateFault c'" "fault_name fnode c' = fault_name fnode c" "cond_Type c' = cond_Type c"
      using same t by blast
    then have "fault_name fnode c \<in> S" using faults_agreeD(1) [OF assms(1) c'(1)] assms(3) by simp
    then show ?thesis using True by (simp add: cond_effect_def)
  qed (use t assms(3) in \<open>simp add: cond_effect_def raised_def generateFaultOnCreation_def Let_def\<close>)
  show "fault_name fnode c \<notin> cond_effect cfg fnode oldMap c S"
    if t: "\<not> shouldCreateFault c" "IsAutoRepairEnabled conf" "isPrimusCondition (cond_Type c) \<or> isK8sCondition (cond_Type c)"
  proof (cases "mget oldMap (cond_Type c) = Some (cond_Status c)")
    case True
    then obtain c' where c': "c' \<in> set old" "\<not> shouldCreateFault c'" "fault_name fnode c' = fault_name fnode c" "cond_Type c' = cond_Type c"
      using same t by blast
    then have "fault_name fnode c \<notin> S" using faults_agreeD(2) [OF assms(1) c'(1)] assms(3) t by simp
    then show ?thesis using True by (simp add: cond_effect_def)
  qed (use t assms(3) in \<open>auto simp: cond_effect_def cleared_def generateFaultOnDeletion_def Let_def\<close>)
qed


section \<open>The admin node mirrors its node\<close>

lemma sync_label_step:
  "sync_label labels k (c, m) = (if mget (om_Labels m) k = mget labels k then (c, m)
     else (True, m\<lparr>om_Labels := (case mget labels k of Some v \<Rightarrow> mput (om_Labels m) k v | None \<Rightarrow> mdel (om_Labels m) k)\<rparr>))"
  by (auto simp: sync_label_def SetLabel_def RemoveLabel_def mhas_def split: option.split)

lemma sync_labels:
  assumes "fold (sync_label labels) keys (c, m) = (c', m')"
  shows "mget (om_Labels m') k = (if k \<in> set keys then mget labels k else mget (om_Labels m) k)"
  using assms
proof (induction keys arbitrary: c m)
  case (Cons key keys)
  obtain c1 m1 where s: "sync_label labels key (c, m) = (c1, m1)" by force
  have "mget (om_Labels m1) k = (if k = key then mget labels k else mget (om_Labels m) k)"
    using s by (auto simp: sync_label_step split: if_splits option.splits)
  moreover have "mget (om_Labels m') k = (if k \<in> set keys then mget labels k else mget (om_Labels m1) k)"
    using Cons.IH Cons.prems s by simp
  ultimately show ?case by auto
qed simp

lemma sync_labels_same:
  "\<forall>k \<in> set keys. mget (om_Labels m) k = mget labels k \<Longrightarrow> fold (sync_label labels) keys (c, m) = (c, m)"
  by (induction keys) (auto simp: sync_label_step)

text \<open>A node that is handled without an error mirrors the node of its cluster: the labels that matter, taints,
  conditions, schedulability and resources are those of the cluster, everything else is as before, and
  handling it again writes nothing.\<close>

lemma node_mirrors_cluster:
  assumes "syncK8sMetadata R lg node k = (None, lg1, node1)" and "syncK8sStatus R lg1 node1 k = (None, lg2, node2)"
  shows "(\<forall>key. mget (om_Labels (n_Meta node2)) key =
            (if key \<in> set concernedK8sLabelKeys then mget (om_Labels (kn_Meta k)) key else mget (om_Labels (n_Meta node)) key)) \<and>
         n_Spec node2 = n_Spec node \<and> n_Status node2 = mirrored_status R k (n_Status node) \<and>
         syncK8sMetadata R lg' node2 k = (None, lg', node2) \<and> syncK8sStatus R lg' node2 k = (None, lg', node2)"
proof -
  obtain c m where f: "fold (sync_label (om_Labels (kn_Meta k))) concernedK8sLabelKeys (False, n_Meta node) = (c, m)" by force
  have n1: "node1 = node\<lparr>n_Meta := m\<rparr>" using assms(1) f
    by (auto simp: syncK8sMetadata_def concernedK8sAnnotationKeys_def Let_def split: if_splits prod.splits)
  have n2: "node2 = node1\<lparr>n_Status := mirrored_status R k (n_Status node1)\<rparr>" using assms(2)
    by (auto simp: syncK8sStatus_def Let_def split: if_splits prod.splits)
  have l: "mget (om_Labels m) key = (if key \<in> set concernedK8sLabelKeys then mget (om_Labels (kn_Meta k)) key else mget (om_Labels (n_Meta node)) key)" for key
    using sync_labels [OF f] .
  have "fold (sync_label (om_Labels (kn_Meta k))) concernedK8sLabelKeys (False, m) = (False, m)" by (rule sync_labels_same) (simp add: l)
  then have "syncK8sMetadata R lg' node2 k = (None, lg', node2)"
    by (simp add: syncK8sMetadata_def concernedK8sAnnotationKeys_def n1 n2)
  moreover have "syncK8sStatus R lg' node2 k = (None, lg', node2)" by (simp add: syncK8sStatus_def n2 mirrored_status_def)
  ultimately show ?thesis using l by (simp add: n1 n2)
qed

section \<open>Witnesses\<close>

definition ready_cond :: "string \<Rightarrow> Condition" where
  "ready_cond status = \<lparr>cond_Type = ''Ready'', cond_Status = status, cond_LastTransitionTime = 0, cond_Reason = '''', cond_Message = ''''\<rparr>"

definition not_ready_message :: nodeQueueMessage where
  "not_ready_message = \<lparr>nq_k8sNodeName = ''k1'', nq_adminNodeName = ''n1'', nq_clusterName = ''c'', nq_action = NodeUpdate,
     nq_oldConditions = [ready_cond ''True'']\<rparr>"

definition not_ready_node :: "int Node" where
  "not_ready_node = (plain_node ''n1'' [])\<lparr>n_Status := (n_Status (plain_node ''n1'' []))\<lparr>nst_Conditions := [ready_cond ''False'']\<rparr>\<rparr>"

definition worker_node :: "int k8s_node" where
  "worker_node = \<lparr>kn_Meta = (blank_meta ''k1'')\<lparr>om_Labels := [(WorkspaceIdLabel, ''ws'')]\<rparr>, kn_Unschedulable = True, kn_Taints = [],
     kn_Conditions = [ready_cond ''True''], kn_Addresses = [(''InternalIP'', ''10.0.0.1'')], kn_Allocatable = []\<rparr>"


lemma node_mirrors_cluster_witness:
  "\<exists>lg1 node1 lg2 node2. syncK8sMetadata (sample_rm (\<lambda>_. None) [] []) [] (plain_node ''n1'' []) worker_node = (None, lg1, node1) \<and>
     syncK8sStatus (sample_rm (\<lambda>_. None) [] []) lg1 node1 worker_node = (None, lg2, node2) \<and> GetWorkspaceId (n_Meta node2) = ''ws''"
proof -
  let ?R = "sample_rm (\<lambda>_. None) [] []" and ?n = "plain_node ''n1'' []"
  let ?a = "syncK8sMetadata ?R [] ?n worker_node"
  let ?b = "syncK8sStatus ?R (fst (snd ?a)) (snd (snd ?a)) worker_node"
  have "fst ?a = None" "fst ?b = None" by code_simp+
  then have a: "?a = (None, fst (snd ?a), snd (snd ?a))" and b: "?b = (None, fst (snd ?b), snd (snd ?b))" by (metis prod.collapse)+
  have "mget (om_Labels (n_Meta (snd (snd ?b)))) WorkspaceIdLabel = mget (om_Labels (kn_Meta worker_node)) WorkspaceIdLabel"
    using node_mirrors_cluster [OF a b] by (simp add: concernedK8sLabelKeys_def)
  then have "GetWorkspaceId (n_Meta (snd (snd ?b))) = ''ws''" by (simp add: GetWorkspaceId_def GetLabel_def worker_node_def)
  then show ?thesis using a b by blast
qed

end
