(* ===== verification/Workspace_Plane.thy ===== *)
theory Workspace_Plane
  imports Node_Sync
begin

text \<open>
  \<^verbatim>\<open>resource-manager/pkg/resource/workspace_controller_helper.go\<close>: the objects a workspace owns in its data-plane
  cluster (namespace, volumes and claims, service accounts and role bindings, secrets), how they are created
  and how they are deleted.
\<close>

definition WorkspaceKind :: string where "WorkspaceKind = ''Workspace''"
definition WorkspaceFinalizer :: string where "WorkspaceFinalizer = ''primus-safe/workspace.finalizer''"
definition HOSTPATH :: string where "HOSTPATH = ''hostpath''"
definition PFS :: string where "PFS = ''pfs''"
definition PrimusPvmName :: string where "PrimusPvmName = ''primus-safe-pv''"
definition PfsSelectorKey :: string where "PfsSelectorKey = ''pfs-name''"
definition DisplayNameLabel :: string where "DisplayNameLabel = ''primus-safe.display.name''"
definition ServiceAccountKind :: string where "ServiceAccountKind = ''ServiceAccount''"

definition GetDisplayName :: "ObjectMeta \<Rightarrow> string" where
  "GetDisplayName obj = GetLabel obj DisplayNameLabel"

text \<open>\<^verbatim>\<open>client.IgnoreAlreadyExists\<close> of the controller runtime.\<close>

definition IgnoreAlreadyExists :: "('q, 'z) ext_scheme \<Rightarrow> goerr option \<Rightarrow> goerr option" where
  "IgnoreAlreadyExists E err = (case err of None \<Rightarrow> None | Some e \<Rightarrow> if api_IsAlreadyExists E e then None else Some e)"

section \<open>Namespaces\<close>

definition createDataplaneNamespace :: "('q, 'z) rm_scheme \<Rightarrow> 'q rlog \<Rightarrow> string \<Rightarrow> goerr option \<times> 'q rlog" where
  "createDataplaneNamespace R lg name =
     (if name = '''' then (Some (plain_error ''the name is empty''), lg)
      else case dp_Get R lg ''Namespace'' '''' name of
             Inr _ \<Rightarrow> (None, lg)
           | Inl _ \<Rightarrow> (case rm_write R lg (DpCreate ''Namespace'' '''' name) of (e, lg') \<Rightarrow> (IgnoreAlreadyExists R e, lg')))"

definition deleteDataplaneNamespace :: "('q, 'z) rm_scheme \<Rightarrow> 'q rlog \<Rightarrow> string \<Rightarrow> goerr option \<times> 'q rlog" where
  "deleteDataplaneNamespace R lg name =
     (if name = '''' then (Some (plain_error ''the name is empty''), lg)
      else case rm_write R lg (DpDelete ''Namespace'' '''' name) of (e, lg') \<Rightarrow> (IgnoreNotFound R e, lg'))"

section \<open>Volumes\<close>

definition getPvTemplate :: "('q, 'z) rm_scheme \<Rightarrow> 'q rlog \<Rightarrow> 'q Workspace \<Rightarrow> goerr + ObjectMeta option" where
  "getPvTemplate R lg workspace =
     (case rm_GetConfigMap R lg PrimusPvmName of
        Inl e \<Rightarrow> (case IgnoreNotFound R (Some e) of None \<Rightarrow> Inr None | Some e' \<Rightarrow> Inl e')
      | Inr cm \<Rightarrow>
          if GetAnnotation (cm_Meta cm) ''primus-safe.workspace.auto-create-pv'' \<noteq> TrueStr then Inr None
          else if GetDisplayName (cm_Meta cm) = '''' then Inl (plain_error (''failed to find the display name. name: '' @ om_Name (cm_Meta cm)))
          else if mget0 '''' (cm_Data cm) ''template'' = '''' then Inl (plain_error (''failed to find the template. name: '' @ om_Name (cm_Meta cm)))
          else case ParseYamlToJson R (mget0 '''' (cm_Data cm) ''template'') of
                 Inl e \<Rightarrow> Inl (plain_error (''failed to parse template: '' @ e))
               | Inr template \<Rightarrow> Inr (Some (template\<lparr>om_Name := GetDisplayName (cm_Meta cm) @ ''-'' @ GetDisplayName (wk_Meta workspace)\<rparr>)))"

definition createPV :: "('q, 'z) rm_scheme \<Rightarrow> 'q rlog \<Rightarrow> ObjectMeta \<Rightarrow> goerr option \<times> 'q rlog" where
  "createPV R lg pv = (case rm_write R lg (DpCreatePV pv) of (e, lg') \<Rightarrow> (IgnoreAlreadyExists R e, lg'))"

definition createDataPlanePv :: "('q, 'z) rm_scheme \<Rightarrow> 'q rlog \<Rightarrow> 'q Workspace \<Rightarrow> goerr option \<times> 'q rlog" where
  "createDataPlanePv R lg workspace =
     (case getPvTemplate R lg workspace of
        Inl e \<Rightarrow> (Some e, lg)
      | Inr None \<Rightarrow> (None, lg)
      | Inr (Some template) \<Rightarrow>
          (case ConvertUnstructuredToPV R template of
             Inl e \<Rightarrow> (Some e, lg)
           | Inr pv \<Rightarrow>
               let m1 = snd (SetLabel pv PfsSelectorKey (om_Name pv));
                   m2 = snd (SetLabel m1 WorkspaceIdLabel (om_Name (wk_Meta workspace)));
                   m3 = snd (SetLabel m2 OwnerLabel (om_Name (wk_Meta workspace)))
               in createPV R lg m3))"

fun delete_pvs :: "('q, 'z) rm_scheme \<Rightarrow> ObjectMeta list \<Rightarrow> 'q rlog \<Rightarrow> goerr option \<times> 'q rlog" where
  "delete_pvs R [] lg = (None, lg)"
| "delete_pvs R (pv # pvs) lg =
     (let lg1 = (if om_Finalizers pv \<noteq> [] then snd (rm_write R lg (DpStripFinalizers ''PersistentVolume'' '''' (om_Name pv))) else lg) in
      case rm_write R lg1 (DpDelete ''PersistentVolume'' '''' (om_Name pv)) of
        (Some e, lg2) \<Rightarrow> (Some e, lg2)
      | (None, lg2) \<Rightarrow> delete_pvs R pvs lg2)"

definition deletePV :: "('q, 'z) rm_scheme \<Rightarrow> 'q rlog \<Rightarrow> 'q Workspace \<Rightarrow> goerr option \<times> 'q rlog" where
  "deletePV R lg workspace =
     (case dp_List R lg ''PersistentVolume'' '''' (label_is OwnerLabel (om_Name (wk_Meta workspace))) of
        Inl e \<Rightarrow> (IgnoreNotFound R (Some e), lg)
      | Inr pvs \<Rightarrow> delete_pvs R pvs lg)"

definition isPVCExist :: "('q, 'z) rm_scheme \<Rightarrow> 'q rlog \<Rightarrow> string \<Rightarrow> string \<Rightarrow> bool" where
  "isPVCExist R lg namespace name = (case dp_Get R lg ''PersistentVolumeClaim'' namespace name of Inr _ \<Rightarrow> True | Inl _ \<Rightarrow> False)"

definition full_volume_id :: "WorkspaceVolume \<Rightarrow> string" where
  "full_volume_id v = GenFullVolumeId (wv_Type v) (wv_Id v)"

definition generatePVC :: "('q, 'z) rm_scheme \<Rightarrow> WorkspaceVolume \<Rightarrow> 'q Workspace \<Rightarrow> string + PersistentVolumeClaim" where
  "generatePVC R volume workspace =
     (case q_Parse R (wv_Capacity volume) of
        Inl e \<Rightarrow> Inl e
      | Inr storeQuantity \<Rightarrow>
          Inr \<lparr>pvc_Name = full_volume_id volume, pvc_Namespace = om_Name (wk_Meta workspace),
               pvc_Selector = (if wv_Selector volume \<noteq> [] then Some (wv_Selector volume) else None),
               pvc_StorageClassName = (if wv_Selector volume \<noteq> [] then '''' else wv_StorageClass volume),
               pvc_Storage = wv_Capacity volume, pvc_AccessMode = wv_AccessMode volume\<rparr>)"

definition createPVC :: "('q, 'z) rm_scheme \<Rightarrow> 'q rlog \<Rightarrow> PersistentVolumeClaim \<Rightarrow> goerr option \<times> 'q rlog" where
  "createPVC R lg pvc = (case rm_write R lg (DpCreatePVC pvc) of (e, lg') \<Rightarrow> (IgnoreAlreadyExists R e, lg'))"

fun create_pvcs :: "('q, 'z) rm_scheme \<Rightarrow> 'q Workspace \<Rightarrow> WorkspaceVolume list \<Rightarrow> 'q rlog \<Rightarrow> goerr option \<times> 'q rlog" where
  "create_pvcs R workspace [] lg = (None, lg)"
| "create_pvcs R workspace (vol # vols) lg =
     (if wv_Type vol = HOSTPATH \<or> isPVCExist R lg (om_Name (wk_Meta workspace)) (full_volume_id vol) then create_pvcs R workspace vols lg
      else case generatePVC R vol workspace of
             Inl e \<Rightarrow> create_pvcs R workspace vols lg
           | Inr pvc \<Rightarrow> (case createPVC R lg pvc of (Some e, lg') \<Rightarrow> (Some e, lg') | (None, lg') \<Rightarrow> create_pvcs R workspace vols lg'))"

definition createDataPlanePvc :: "('q, 'z) rm_scheme \<Rightarrow> 'q rlog \<Rightarrow> 'q Workspace \<Rightarrow> goerr option \<times> 'q rlog" where
  "createDataPlanePvc R lg workspace = create_pvcs R workspace (wsp_Volumes (wk_Spec workspace)) lg"

definition deletePVC :: "('q, 'z) rm_scheme \<Rightarrow> 'q rlog \<Rightarrow> string \<Rightarrow> string \<Rightarrow> goerr option \<times> 'q rlog" where
  "deletePVC R lg name namespace =
     (case dp_Get R lg ''PersistentVolumeClaim'' namespace name of
        Inl e \<Rightarrow> (IgnoreNotFound R (Some e), lg)
      | Inr pvc \<Rightarrow>
          let lg1 = (if om_Finalizers pvc \<noteq> [] then snd (rm_write R lg (DpStripFinalizers ''PersistentVolumeClaim'' namespace name)) else lg) in
          rm_write R lg1 (DpDelete ''PersistentVolumeClaim'' namespace name))"

fun prune_pvcs :: "('q, 'z) rm_scheme \<Rightarrow> string \<Rightarrow> strset \<Rightarrow> ObjectMeta list \<Rightarrow> 'q rlog \<Rightarrow> goerr option \<times> 'q rlog" where
  "prune_pvcs R namespace desired [] lg = (None, lg)"
| "prune_pvcs R namespace desired (pvc # pvcs) lg =
     (if has_prefix (om_Name pvc) (PFS @ ''-'') \<and> \<not> set_Has desired (om_Name pvc)
      then case deletePVC R lg (om_Name pvc) namespace of (Some e, lg') \<Rightarrow> (Some e, lg') | (None, lg') \<Rightarrow> prune_pvcs R namespace desired pvcs lg'
      else prune_pvcs R namespace desired pvcs lg)"

definition desired_pvcs :: "'q Workspace \<Rightarrow> string list" where
  "desired_pvcs workspace = map full_volume_id (filter (\<lambda>v. wv_Type v \<noteq> HOSTPATH) (wsp_Volumes (wk_Spec workspace)))"

definition syncDataPlanePVC :: "('q, 'z) rm_scheme \<Rightarrow> 'q rlog \<Rightarrow> 'q Workspace \<Rightarrow> goerr option \<times> 'q rlog" where
  "syncDataPlanePVC R lg workspace =
     (let namespace = om_Name (wk_Meta workspace) in
      case dp_List R lg ''PersistentVolumeClaim'' namespace (\<lambda>_. True) of
        Inl e \<Rightarrow> (Some e, lg)
      | Inr pvcs \<Rightarrow>
          (case prune_pvcs R namespace (NewSetByKeys (desired_pvcs workspace)) pvcs lg of
             (Some e, lg') \<Rightarrow> (Some e, lg')
           | (None, lg') \<Rightarrow> createDataPlanePvc R lg' workspace))"

section \<open>Service accounts and secrets\<close>

definition GenerateCICDNoPermissionName :: "('q, 'z) rm_scheme \<Rightarrow> string" where
  "GenerateCICDNoPermissionName R = cfg_CICDRoleName R @ ''-no-permission''"

text \<open>Creation of an object that may exist already, after a look-up.\<close>

definition ensure_object :: "('q, 'z) rm_scheme \<Rightarrow> 'q rlog \<Rightarrow> string \<Rightarrow> string \<Rightarrow> string \<Rightarrow> goerr option \<times> 'q rlog" where
  "ensure_object R lg kind namespace name =
     (case dp_Get R lg kind namespace name of
        Inr _ \<Rightarrow> (None, lg)
      | Inl e \<Rightarrow> if \<not> api_IsNotFound R e then (Some e, lg) else rm_write R lg (DpCreate kind namespace name))"

definition drop_object :: "('q, 'z) rm_scheme \<Rightarrow> 'q rlog \<Rightarrow> string \<Rightarrow> string \<Rightarrow> string \<Rightarrow> goerr option \<times> 'q rlog" where
  "drop_object R lg kind namespace name = (case rm_write R lg (DpDelete kind namespace name) of (e, lg') \<Rightarrow> (IgnoreNotFound R e, lg'))"

definition createServiceAccount :: "('q, 'z) rm_scheme \<Rightarrow> 'q rlog \<Rightarrow> 'q Workspace \<Rightarrow> string \<Rightarrow> goerr option \<times> 'q rlog" where
  "createServiceAccount R lg workspace saName = ensure_object R lg ServiceAccountKind (om_Name (wk_Meta workspace)) saName"

definition deleteServiceAccount :: "('q, 'z) rm_scheme \<Rightarrow> 'q rlog \<Rightarrow> 'q Workspace \<Rightarrow> string \<Rightarrow> goerr option \<times> 'q rlog" where
  "deleteServiceAccount R lg workspace saName = drop_object R lg ServiceAccountKind (om_Name (wk_Meta workspace)) saName"

definition createCICDServiceAccount :: "('q, 'z) rm_scheme \<Rightarrow> 'q rlog \<Rightarrow> 'q Workspace \<Rightarrow> goerr option \<times> 'q rlog" where
  "createCICDServiceAccount R lg workspace =
     (if \<not> cfg_IsCICDEnable R then (None, lg) else createServiceAccount R lg workspace (GenerateCICDNoPermissionName R))"

definition deleteCICDServiceAccount :: "('q, 'z) rm_scheme \<Rightarrow> 'q rlog \<Rightarrow> 'q Workspace \<Rightarrow> goerr option \<times> 'q rlog" where
  "deleteCICDServiceAccount R lg workspace =
     (if \<not> cfg_IsCICDEnable R then (None, lg) else deleteServiceAccount R lg workspace (GenerateCICDNoPermissionName R))"

definition createMonarchRoleBinding :: "('q, 'z) rm_scheme \<Rightarrow> 'q rlog \<Rightarrow> 'q Workspace \<Rightarrow> string \<Rightarrow> goerr option \<times> 'q rlog" where
  "createMonarchRoleBinding R lg workspace saName = ensure_object R lg ''RoleBinding'' (om_Name (wk_Meta workspace)) saName"

definition createMonarchServiceAccount :: "('q, 'z) rm_scheme \<Rightarrow> 'q rlog \<Rightarrow> 'q Workspace \<Rightarrow> goerr option \<times> 'q rlog" where
  "createMonarchServiceAccount R lg workspace =
     (if \<not> cfg_IsMonarchEnable R then (None, lg)
      else case createServiceAccount R lg workspace (cfg_MonarchClientRole R) of
             (Some e, lg') \<Rightarrow> (Some e, lg')
           | (None, lg') \<Rightarrow> createMonarchRoleBinding R lg' workspace (cfg_MonarchClientRole R))"

definition deleteRoleBinding :: "('q, 'z) rm_scheme \<Rightarrow> 'q rlog \<Rightarrow> 'q Workspace \<Rightarrow> string \<Rightarrow> goerr option \<times> 'q rlog" where
  "deleteRoleBinding R lg workspace name = drop_object R lg ''RoleBinding'' (om_Name (wk_Meta workspace)) name"

definition deleteMonarchServiceAccount :: "('q, 'z) rm_scheme \<Rightarrow> 'q rlog \<Rightarrow> 'q Workspace \<Rightarrow> goerr option \<times> 'q rlog" where
  "deleteMonarchServiceAccount R lg workspace =
     (if \<not> cfg_IsMonarchEnable R then (None, lg)
      else case deleteRoleBinding R lg workspace (cfg_MonarchClientRole R) of
             (Some e, lg') \<Rightarrow> (Some e, lg')
           | (None, lg') \<Rightarrow> deleteServiceAccount R lg' workspace (cfg_MonarchClientRole R))"

fun delete_secret_list :: "('q, 'z) rm_scheme \<Rightarrow> string \<Rightarrow> ObjectMeta list \<Rightarrow> 'q rlog \<Rightarrow> goerr option \<times> 'q rlog" where
  "delete_secret_list R namespace [] lg = (None, lg)"
| "delete_secret_list R namespace (sec # secs) lg =
     (case drop_object R lg ''Secret'' namespace (om_Name sec) of (Some e, lg') \<Rightarrow> (Some e, lg') | (None, lg') \<Rightarrow> delete_secret_list R namespace secs lg')"

definition deleteWorkspaceSecrets :: "('q, 'z) rm_scheme \<Rightarrow> 'q rlog \<Rightarrow> 'q Workspace \<Rightarrow> goerr option \<times> 'q rlog" where
  "deleteWorkspaceSecrets R lg workspace =
     (case dp_List R lg ''Secret'' (om_Name (wk_Meta workspace)) (\<lambda>_. True) of
        Inl e \<Rightarrow> (Some e, lg)
      | Inr secs \<Rightarrow> delete_secret_list R (om_Name (wk_Meta workspace)) secs lg)"

section \<open>All objects of a workspace\<close>

text \<open>Calls in sequence, up to the first error.\<close>

fun in_order :: "('s \<Rightarrow> goerr option \<times> 's) list \<Rightarrow> 's \<Rightarrow> goerr option \<times> 's" where
  "in_order [] s = (None, s)"
| "in_order (f # fs) s = (case f s of (Some e, s') \<Rightarrow> (Some e, s') | (None, s') \<Rightarrow> in_order fs s')"

definition guaranteeDataPlaneResources :: "('q, 'z) rm_scheme \<Rightarrow> 'q rlog \<Rightarrow> 'q Workspace \<Rightarrow> goerr option \<times> 'q rlog" where
  "guaranteeDataPlaneResources R lg workspace =
     in_order [\<lambda>lg. createDataplaneNamespace R lg (om_Name (wk_Meta workspace)), \<lambda>lg. createDataPlanePv R lg workspace,
       \<lambda>lg. createDataPlanePvc R lg workspace, \<lambda>lg. createCICDServiceAccount R lg workspace,
       \<lambda>lg. createMonarchServiceAccount R lg workspace, \<lambda>lg. syncDataPlanePVC R lg workspace] lg"

definition getClientSetOfDataplane ::
  "('q, 'z) rm_scheme \<Rightarrow> ClientFactory object_manager \<Rightarrow> 'q rlog \<Rightarrow> string \<Rightarrow> goerr + ClientFactory option" where
  "getClientSetOfDataplane R clientManager lg clusterId =
     (if clusterId = '''' then Inr None
      else case rm_GetCluster R lg clusterId of
             Some e \<Rightarrow> Inl e
           | None \<Rightarrow>
               (case GetK8sClientFactory clientManager clusterId of
                  Inl e \<Rightarrow> Inl (plain_error (''the cluster('' @ clusterId @ '') clients is not ready''))
                | Inr k8sClients \<Rightarrow>
                    if \<not> cf_Valid k8sClients then Inl (plain_error (''the cluster('' @ clusterId @ '') clients is not ready''))
                    else Inr (Some k8sClients)))"

definition deleteDataPlaneResources ::
  "('q, 'z) rm_scheme \<Rightarrow> ClientFactory object_manager \<Rightarrow> 'q rlog \<Rightarrow> 'q Workspace \<Rightarrow> goerr option \<times> 'q rlog" where
  "deleteDataPlaneResources R clientManager lg workspace =
     (case getClientSetOfDataplane R clientManager lg (wsp_Cluster (wk_Spec workspace)) of
        Inl e \<Rightarrow> (IgnoreNotFound R (Some e), lg)
      | Inr None \<Rightarrow> (None, lg)
      | Inr (Some _) \<Rightarrow>
          in_order ((\<lambda>lg. deletePV R lg workspace) #
                    map (\<lambda>pvc lg. deletePVC R lg pvc (om_Name (wk_Meta workspace))) (desired_pvcs workspace) @
                    [\<lambda>lg. deleteCICDServiceAccount R lg workspace, \<lambda>lg. deleteMonarchServiceAccount R lg workspace,
                     \<lambda>lg. deleteWorkspaceSecrets R lg workspace, \<lambda>lg. deleteDataplaneNamespace R lg (om_Name (wk_Meta workspace))]) lg)"

end
