(* ===== verification/Workspaces.thy ===== *)
theory Workspaces
  imports Workspace_Plane
begin

text \<open>
  \<^verbatim>\<open>resource-manager/pkg/resource/workspace_controller.go\<close>: nodes are bound to and released from a workspace
  until it has the replicas it asks for. The controller remembers the nodes whose binding it has changed
  (its expectations) and does not scale again before each of them has been seen to change. \<open>Exec\<close> is
  \<^verbatim>\<open>utils/pkg/concurrent\<close>.
\<close>

definition WorkspaceNodesAction :: string where "WorkspaceNodesAction = ''primus-safe.workspace.nodes.action''"
definition WorkspaceForcedAction :: string where "WorkspaceForcedAction = ''primus-safe.workspace.forced.action''"
definition NodeActionRemove :: string where "NodeActionRemove = ''remove''"
definition WorkspaceCreating :: string where "WorkspaceCreating = ''Creating''"
definition WorkspaceRunning :: string where "WorkspaceRunning = ''Running''"
definition WorkspaceAbnormal :: string where "WorkspaceAbnormal = ''Abnormal''"
definition WorkspaceDeleting :: string where "WorkspaceDeleting = ''Deleting''"

definition GetWorkspaceNodesAction :: "ObjectMeta \<Rightarrow> string" where
  "GetWorkspaceNodesAction obj = GetAnnotation obj WorkspaceNodesAction"

record WorkspaceReconcilerOption =
  wo_processWait :: int
  wo_nodeWait :: int

record 'q WorkspaceReconciler =
  expectations :: "(string, strset) gomap"
  wrote :: "'q rlog"

abbreviation wk_Name :: "'q Workspace \<Rightarrow> string" where
  "wk_Name w \<equiv> om_Name (wk_Meta w)"

abbreviation n_Name :: "'q Node \<Rightarrow> string" where
  "n_Name n \<equiv> om_Name (n_Meta n)"

text \<open>A call that only writes to the log of the controller.\<close>

definition on_log :: "('q rlog \<Rightarrow> 'a \<times> 'q rlog) \<Rightarrow> 'q WorkspaceReconciler \<Rightarrow> 'a \<times> 'q WorkspaceReconciler" where
  "on_log f r = (case f (wrote r) of (a, lg) \<Rightarrow> (a, r\<lparr>wrote := lg\<rparr>))"

section \<open>Concurrent execution\<close>

text \<open>The elements are taken in the given order; the errors arrive in that order.\<close>

fun exec_all :: "('a \<Rightarrow> 's \<Rightarrow> goerr option \<times> 's) \<Rightarrow> 'a list \<Rightarrow> 's \<Rightarrow> goerr list \<times> 's" where
  "exec_all fn [] s = ([], s)"
| "exec_all fn (x # xs) s =
     (case fn x s of (e, s1) \<Rightarrow>
      case exec_all fn xs s1 of (es, s2) \<Rightarrow> (case e of None \<Rightarrow> es | Some err \<Rightarrow> err # es, s2))"

definition Exec :: "('a \<Rightarrow> 's \<Rightarrow> goerr option \<times> 's) \<Rightarrow> 'a list \<Rightarrow> 's \<Rightarrow> (int \<times> goerr option) \<times> 's" where
  "Exec fn xs s =
     (case exec_all fn xs s of
        (errs, s') \<Rightarrow> ((int (length xs) - int (length errs), case errs of [] \<Rightarrow> None | e # _ \<Rightarrow> Some e), s'))"

section \<open>Expectations\<close>

definition setExpectations :: "'q WorkspaceReconciler \<Rightarrow> string \<Rightarrow> strset \<Rightarrow> 'q WorkspaceReconciler" where
  "setExpectations r workspaceId nodeNames = r\<lparr>expectations := mput (expectations r) workspaceId nodeNames\<rparr>"

definition meetExpectations :: "'q WorkspaceReconciler \<Rightarrow> string \<Rightarrow> bool" where
  "meetExpectations r workspaceId =
     (case mget (expectations r) workspaceId of None \<Rightarrow> True | Some nodeNames \<Rightarrow> set_Len nodeNames = 0)"

definition removeExpectations :: "'q WorkspaceReconciler \<Rightarrow> string \<Rightarrow> 'q WorkspaceReconciler" where
  "removeExpectations r workspaceId = r\<lparr>expectations := mdel (expectations r) workspaceId\<rparr>"

definition observeNode :: "string \<Rightarrow> string \<Rightarrow> 'q WorkspaceReconciler \<Rightarrow> 'q WorkspaceReconciler" where
  "observeNode workspaceId nodeName r =
     (case mget (expectations r) workspaceId of
        None \<Rightarrow> r
      | Some leftNodeNames \<Rightarrow>
          if \<not> set_Has leftNodeNames nodeName then r
          else r\<lparr>expectations := mput (expectations r) workspaceId (set_Delete [nodeName] leftNodeNames)\<rparr>)"

section \<open>Events\<close>

definition relevantChangePredicate :: "'q Workspace \<Rightarrow> 'q Workspace \<Rightarrow> bool" where
  "relevantChangePredicate oldWorkspace newWorkspace \<longleftrightarrow>
     GetWorkspaceNodesAction (wk_Meta oldWorkspace) = '''' \<and> GetWorkspaceNodesAction (wk_Meta newWorkspace) \<noteq> '''' \<or>
     time_IsZero (om_DeletionTimestamp (wk_Meta oldWorkspace)) \<and> \<not> time_IsZero (om_DeletionTimestamp (wk_Meta newWorkspace))"

datatype 'q ws_node_event = WsNodeCreate "'q Node" | WsNodeUpdate "'q Node" "'q Node" | WsNodeDelete "'q Node"

definition ws_isRelevantFieldChanged :: "'q Node \<Rightarrow> 'q Node \<Rightarrow> bool" where
  "ws_isRelevantFieldChanged oldNode newNode \<longleftrightarrow>
     set (nst_Resources (n_Status oldNode)) \<noteq> set (nst_Resources (n_Status newNode)) \<or>
     IsAvailable oldNode False \<noteq> IsAvailable newNode False \<or>
     GetClusterId (n_Meta oldNode) \<noteq> GetClusterId (n_Meta newNode) \<or>
     GetSpecCluster oldNode \<noteq> '''' \<and> GetSpecCluster newNode = '''' \<or>
     time_IsZero (om_DeletionTimestamp (n_Meta oldNode)) \<and> \<not> time_IsZero (om_DeletionTimestamp (n_Meta newNode))"

text \<open>The work queue is the list of requested workspaces.\<close>

definition enqueue ::
  "string \<Rightarrow> string \<Rightarrow> bool \<Rightarrow> string list \<times> 'q WorkspaceReconciler \<Rightarrow> string list \<times> 'q WorkspaceReconciler" where
  "enqueue nodeName workspaceId doObserve st =
     (if workspaceId = '''' then st
      else (fst st @ [workspaceId], if doObserve then observeNode workspaceId nodeName (snd st) else snd st))"

definition ws_handleNodeEvent ::
  "'q ws_node_event \<Rightarrow> string list \<times> 'q WorkspaceReconciler \<Rightarrow> string list \<times> 'q WorkspaceReconciler" where
  "ws_handleNodeEvent evt st =
     (case evt of
        WsNodeCreate node \<Rightarrow> enqueue (n_Name node) (GetWorkspaceId (n_Meta node)) True st
      | WsNodeUpdate oldNode newNode \<Rightarrow>
          if GetWorkspaceId (n_Meta oldNode) \<noteq> GetWorkspaceId (n_Meta newNode)
          then enqueue (n_Name newNode) (GetWorkspaceId (n_Meta newNode)) True
                 (enqueue (n_Name newNode) (GetWorkspaceId (n_Meta oldNode)) True st)
          else if ws_isRelevantFieldChanged oldNode newNode
          then enqueue (n_Name newNode) (GetWorkspaceId (n_Meta newNode)) False st
          else st
      | WsNodeDelete node \<Rightarrow> enqueue (n_Name node) (GetWorkspaceId (n_Meta node)) True st)"

section \<open>Binding\<close>

definition updatePhase ::
  "('q, 'z) rm_scheme \<Rightarrow> 'q WorkspaceReconciler \<Rightarrow> 'q Workspace \<Rightarrow> string \<Rightarrow> goerr option \<times> 'q WorkspaceReconciler \<times> 'q Workspace" where
  "updatePhase R r workspace phase =
     (if wss_Phase (wk_Status workspace) = phase then (None, r, workspace)
      else
        let w' = workspace\<lparr>wk_Status := (wk_Status workspace)\<lparr>wss_UpdateTime := Some (rm_now R), wss_Phase := phase\<rparr>\<rparr> in
        case on_log (\<lambda>lg. rm_write R lg (RmPatchWorkspaceStatus w')) r of (e, r') \<Rightarrow> (e, r', w'))"

definition buildTargetList :: "'q Node list \<Rightarrow> string \<Rightarrow> strmap" where
  "buildTargetList nodes target = fold (\<lambda>n results. mput results (n_Name n) target) nodes []"

definition updateSingleNodeBinding ::
  "('q, 'z) rm_scheme \<Rightarrow> 'q Node \<Rightarrow> string \<Rightarrow> 'q rlog \<Rightarrow> (bool \<times> goerr option) \<times> 'q rlog" where
  "updateSingleNodeBinding R node target lg =
     (if ns_Workspace (n_Spec node) = Some target then ((False, None), lg)
      else case rm_write R lg (RmPatchNode (node\<lparr>n_Spec := (n_Spec node)\<lparr>ns_Workspace := Some target\<rparr>\<rparr>)) of
             (Some e, lg') \<Rightarrow> ((False, Some e), lg')
           | (None, lg') \<Rightarrow> ((True, None), lg'))"

text \<open>What one goroutine does with the node it takes.\<close>

definition bind_one ::
  "('q, 'z) rm_scheme \<Rightarrow> string \<Rightarrow> strmap \<Rightarrow> 'q Node \<Rightarrow> 'q WorkspaceReconciler \<Rightarrow> goerr option \<times> 'q WorkspaceReconciler" where
  "bind_one R workspaceId targets n r =
     (case on_log (updateSingleNodeBinding R n (mget0 '''' targets (n_Name n))) r of
        ((ok, err), r1) \<Rightarrow> (err, if \<not> ok \<or> err \<noteq> None then observeNode workspaceId (n_Name n) r1 else r1))"

definition updateNodesBinding ::
  "('q, 'z) rm_scheme \<Rightarrow> 'q WorkspaceReconciler \<Rightarrow> 'q Workspace \<Rightarrow> 'q Node list \<Rightarrow> strmap \<Rightarrow> goerr option \<times> 'q WorkspaceReconciler" where
  "updateNodesBinding R r workspace nodes targets =
     (if length nodes = 0 then (None, r)
      else
        let nodeNames = fold (\<lambda>n s. set_Insert [n_Name n] s) nodes set_New;
            r1 = setExpectations r (wk_Name workspace) nodeNames
        in case Exec (bind_one R (wk_Name workspace) targets) (rm_order R (wrote r1) nodes) r1 of
             ((success, err), r2) \<Rightarrow> (err, r2))"

section \<open>Status\<close>

definition resetWorkspaceStatus :: "'q Workspace \<Rightarrow> bool \<times> 'q Workspace" where
  "resetWorkspaceStatus workspace =
     (let st = wk_Status workspace;
          isChanged = (wss_AvailableReplica st \<noteq> 0 \<or> wss_AbnormalReplica st \<noteq> 0 \<or> length (wss_AvailableResources st) > 0 \<or>
                       length (wss_TotalResources st) > 0 \<or> wss_Phase st \<noteq> WorkspaceAbnormal);
          st' = st\<lparr>wss_AvailableReplica := 0, wss_AbnormalReplica := 0,
                   wss_AvailableResources := [], wss_TotalResources := [], wss_Phase := WorkspaceAbnormal\<rparr>
      in (isChanged, workspace\<lparr>wk_Status := st'\<rparr>))"

record 'q node_sums =
  sum_availReplica :: int
  sum_abnormalReplica :: int
  sum_availResources :: "'q resource_list"
  sum_abnormalResources :: "'q resource_list"

definition no_nodes :: "'q node_sums" where
  "no_nodes = \<lparr>sum_availReplica = 0, sum_abnormalReplica = 0, sum_availResources = [], sum_abnormalResources = []\<rparr>"

definition count_node ::
  "('q::linordered_ab_group_add, 'z) rm_scheme \<Rightarrow> 'q NodeFlavor \<Rightarrow> string \<Rightarrow> 'q Node \<Rightarrow> 'q node_sums \<Rightarrow> 'q node_sums" where
  "count_node R nf flavor node s =
     (if GetNodeFlavorId (n_Meta node) \<noteq> flavor then s
      else if IsAvailable node False
      then s\<lparr>sum_availResources := AddResource R [sum_availResources s, nst_Resources (n_Status node)],
             sum_availReplica := sum_availReplica s + 1\<rparr>
      else s\<lparr>sum_abnormalResources := AddResource R [sum_abnormalResources s, ToResourceList nf (RdmaName R)],
             sum_abnormalReplica := sum_abnormalReplica s + 1\<rparr>)"

definition new_status ::
  "('q::linordered_ab_group_add, 'z) rm_scheme \<Rightarrow> 'q node_sums \<Rightarrow> 'q WorkspaceStatus \<Rightarrow> bool \<times> 'q WorkspaceStatus" where
  "new_status R s st =
     (let totalResources = AddResource R [sum_availResources s, sum_abnormalResources s];
          availResources = GetAvailableResource R (sum_availResources s);
          c1 = \<not> Equal R totalResources (wss_TotalResources st);
          st1 = (if c1 then st\<lparr>wss_TotalResources := totalResources\<rparr> else st);
          c2 = \<not> Equal R availResources (wss_AvailableResources st1);
          st2 = (if c2 then st1\<lparr>wss_AvailableResources := availResources\<rparr> else st1);
          c3 = \<not> Equal R (sum_abnormalResources s) (wss_AbnormalResources st2);
          st3 = (if c3 then st2\<lparr>wss_AbnormalResources := sum_abnormalResources s\<rparr> else st2);
          c4 = (wss_AvailableReplica st3 \<noteq> sum_availReplica s);
          st4 = (if c4 then st3\<lparr>wss_AvailableReplica := sum_availReplica s\<rparr> else st3);
          c5 = (wss_AbnormalReplica st4 \<noteq> sum_abnormalReplica s);
          st5 = (if c5 then st4\<lparr>wss_AbnormalReplica := sum_abnormalReplica s\<rparr> else st4)
      in (c1 \<or> c2 \<or> c3 \<or> c4 \<or> c5, st5))"

definition store_status ::
  "('q, 'z) rm_scheme \<Rightarrow> 'q WorkspaceReconciler \<Rightarrow> bool \<times> 'q Workspace \<Rightarrow> goerr option \<times> 'q WorkspaceReconciler \<times> 'q Workspace" where
  "store_status R r cw =
     (case cw of (isChanged, workspace) \<Rightarrow>
        if \<not> isChanged then (None, r, workspace)
        else
          let w' = workspace\<lparr>wk_Status := (wk_Status workspace)\<lparr>wss_UpdateTime := Some (rm_now R)\<rparr>\<rparr> in
          case on_log (\<lambda>lg. rm_write R lg (RmUpdateWorkspaceStatus w')) r of (e, r') \<Rightarrow> (e, r', w'))"

definition syncWorkspace ::
  "('q::linordered_ab_group_add, 'z) rm_scheme \<Rightarrow> 'q WorkspaceReconciler \<Rightarrow> 'q Workspace
     \<Rightarrow> goerr option \<times> 'q WorkspaceReconciler \<times> 'q Workspace" where
  "syncWorkspace R r workspace =
     (let flavor = wsp_NodeFlavor (wk_Spec workspace) in
      if flavor = '''' then store_status R r (resetWorkspaceStatus workspace)
      else case rm_GetNodeFlavor R (wrote r) flavor of
             Inl e \<Rightarrow> (Some e, r, workspace)
           | Inr nf \<Rightarrow>
               (case GetNodesOfWorkspaces (rm_ListNodes R (wrote r)) [wk_Name workspace] FilterDeletingNode of
                  Inl e \<Rightarrow> (Some e, r, workspace)
                | Inr nodes \<Rightarrow>
                    (case new_status R (fold (count_node R nf flavor) nodes no_nodes) (wk_Status workspace) of
                       (isChanged, st) \<Rightarrow> store_status R r (isChanged, workspace\<lparr>wk_Status := st\<rparr>))))"

section \<open>Scaling\<close>

text \<open>The time of the control plane passes between two reconcile rounds; a round asks for the next one after a wait.\<close>

definition scaleDown ::
  "('q, 'z) rm_scheme \<Rightarrow> WorkspaceReconcilerOption \<Rightarrow> 'q WorkspaceReconciler \<Rightarrow> 'q Workspace \<Rightarrow> int
     \<Rightarrow> reconcile_result \<times> 'q WorkspaceReconciler" where
  "scaleDown R opt r workspace cnt =
     (case GetNodesForScalingDown (rm_ListWorkloads R (wrote r)) (rm_ListNodes R (wrote r)) (wk_Name workspace) cnt of
        Inl e \<Rightarrow> ((0, Some e), r)
      | Inr nodes \<Rightarrow>
          (case (if length nodes > 0 then updateNodesBinding R r workspace nodes (buildTargetList nodes '''') else (None, r)) of
             (Some e, r1) \<Rightarrow> ((0, Some e), r1)
           | (None, r1) \<Rightarrow> ((if int (length nodes) < cnt then wo_nodeWait opt else 0, None), r1)))"

definition scale_up_less :: "'q k8s_node \<Rightarrow> 'q k8s_node \<Rightarrow> bool" where
  "scale_up_less nodeI nodeJ =
     (let zero = (\<lambda>n. time_IsZero (om_DeletionTimestamp (kn_Meta n))) in
      if \<not> zero nodeI \<and> zero nodeJ then False
      else if \<not> zero nodeJ \<and> zero nodeI then True
      else if kn_Unschedulable nodeI \<and> \<not> kn_Unschedulable nodeJ then False
      else if kn_Unschedulable nodeJ \<and> \<not> kn_Unschedulable nodeI then True
      else if length (kn_Taints nodeI) > 0 \<and> length (kn_Taints nodeJ) = 0 then False
      else if length (kn_Taints nodeJ) > 0 \<and> length (kn_Taints nodeI) = 0 then True
      else if IsControlPlane (kn_Meta nodeI) \<and> \<not> IsControlPlane (kn_Meta nodeJ) then False
      else if \<not> IsControlPlane (kn_Meta nodeI) \<and> IsControlPlane (kn_Meta nodeJ) then True
      else om_Name (kn_Meta nodeI) < om_Name (kn_Meta nodeJ))"

definition sortNodesForScalingUp :: "'q k8s_node list \<Rightarrow> 'q k8s_node list" where
  "sortNodesForScalingUp k8sNodes = go_sort scale_up_less k8sNodes"

definition eligible :: "'q Workspace \<Rightarrow> 'q Node \<Rightarrow> bool" where
  "eligible workspace n \<longleftrightarrow>
     \<not> (\<not> IsMachineReady n \<or> \<not> IsManaged n) \<and> \<not> (GetSpecWorkspace n \<noteq> '''' \<or> GetWorkspaceId (n_Meta n) \<noteq> '''') \<and>
     \<not> (GetNodeFlavorId (n_Meta n) \<noteq> wsp_NodeFlavor (wk_Spec workspace))"

fun candidates ::
  "('q, 'z) rm_scheme \<Rightarrow> 'q rlog \<Rightarrow> string \<Rightarrow> 'q Workspace \<Rightarrow> 'q Node list \<Rightarrow> (string, 'q Node) gomap \<times> 'q k8s_node list
     \<Rightarrow> (string, 'q Node) gomap \<times> 'q k8s_node list" where
  "candidates R lg cluster workspace [] acc = acc"
| "candidates R lg cluster workspace (n # ns) acc =
     (if \<not> eligible workspace n then candidates R lg cluster workspace ns acc
      else case getNodeByInformer R lg cluster (GetK8sNodeName n) of
             Inl e \<Rightarrow> candidates R lg cluster workspace ns acc
           | Inr k8sNode \<Rightarrow>
               candidates R lg cluster workspace ns (mput (fst acc) (om_Name (kn_Meta k8sNode)) n, snd acc @ [k8sNode]))"

text \<open>A name without an entry gives a nil pointer; the names all come from the map.\<close>

fun first_nodes :: "(string, 'q Node) gomap \<Rightarrow> int \<Rightarrow> 'q k8s_node list \<Rightarrow> 'q Node list \<Rightarrow> 'q Node list" where
  "first_nodes adminNodeMap cnt [] result = result"
| "first_nodes adminNodeMap cnt (k # ks) result =
     (case mget adminNodeMap (om_Name (kn_Meta k)) of
        None \<Rightarrow> first_nodes adminNodeMap cnt ks result
      | Some node \<Rightarrow>
          let result' = result @ [node] in
          if int (length result') \<ge> cnt then result' else first_nodes adminNodeMap cnt ks result')"

definition getNodesForScalingUp ::
  "('q, 'z) rm_scheme \<Rightarrow> 'q rlog \<Rightarrow> 'q Workspace \<Rightarrow> ClientFactory \<Rightarrow> int \<Rightarrow> goerr + 'q Node list" where
  "getNodesForScalingUp R lg workspace k8sClients cnt =
     (if wsp_NodeFlavor (wk_Spec workspace) = '''' then Inr []
      else ebind (rm_ListNodes R lg (label_is ClusterIdLabel (wsp_Cluster (wk_Spec workspace)))) (\<lambda>nodeList.
        case candidates R lg (cf_Name k8sClients) workspace nodeList ([], []) of
          (adminNodeMap, k8sNodes) \<Rightarrow> Inr (first_nodes adminNodeMap cnt (sortNodesForScalingUp k8sNodes) [])))"

definition scaleUp ::
  "('q, 'z) rm_scheme \<Rightarrow> WorkspaceReconcilerOption \<Rightarrow> 'q WorkspaceReconciler \<Rightarrow> 'q Workspace \<Rightarrow> ClientFactory \<Rightarrow> int
     \<Rightarrow> reconcile_result \<times> 'q WorkspaceReconciler" where
  "scaleUp R opt r workspace k8sClients cnt =
     (case (if wss_Phase (wk_Status workspace) = '''' then updatePhase R r workspace WorkspaceCreating else (None, r, workspace)) of
        (Some e, r1, _) \<Rightarrow> ((0, Some e), r1)
      | (None, r1, w1) \<Rightarrow>
          (case getNodesForScalingUp R (wrote r1) w1 k8sClients cnt of
             Inl e \<Rightarrow> ((0, Some e), r1)
           | Inr nodes \<Rightarrow>
               if length nodes = 0 then ((wo_nodeWait opt, None), r1)
               else case updateNodesBinding R r1 w1 nodes (buildTargetList nodes (wk_Name w1)) of (e, r2) \<Rightarrow> ((0, e), r2)))"

section \<open>Requested actions\<close>

definition removeNodesAction ::
  "('q, 'z) rm_scheme \<Rightarrow> 'q WorkspaceReconciler \<Rightarrow> 'q Workspace \<Rightarrow> goerr option \<times> 'q WorkspaceReconciler \<times> 'q Workspace" where
  "removeNodesAction R r workspace =
     (if GetWorkspaceNodesAction (wk_Meta workspace) = '''' then (None, r, workspace)
      else
        let w' = workspace\<lparr>wk_Meta := snd (RemoveAnnotation (snd (RemoveAnnotation (wk_Meta workspace) WorkspaceNodesAction)) WorkspaceForcedAction)\<rparr> in
        case on_log (\<lambda>lg. rm_write R lg (RmPatchWorkspace w')) r of (e, r') \<Rightarrow> (e, r', w'))"

fun pending_actions ::
  "('q, 'z) rm_scheme \<Rightarrow> 'q rlog \<Rightarrow> 'q Workspace \<Rightarrow> (string \<times> string) list \<Rightarrow> strmap \<times> 'q Node list \<Rightarrow> goerr + (strmap \<times> 'q Node list)" where
  "pending_actions R lg workspace [] acc = Inr acc"
| "pending_actions R lg workspace ((key, val) # actions) acc =
     (case rm_GetNode R lg key of
        Inl e \<Rightarrow> if api_IsNotFound R e then pending_actions R lg workspace actions acc else Inl e
      | Inr node \<Rightarrow>
          if \<not> time_IsZero (om_DeletionTimestamp (n_Meta node)) then pending_actions R lg workspace actions acc
          else
            let target = (if val = NodeActionRemove then '''' else wk_Name workspace) in
            if GetSpecWorkspace node = target then pending_actions R lg workspace actions acc
            else pending_actions R lg workspace actions (mput (fst acc) (n_Name node) target, snd acc @ [node]))"

definition processNodesAction ::
  "('q, 'z) rm_scheme \<Rightarrow> 'q WorkspaceReconciler \<Rightarrow> 'q Workspace
     \<Rightarrow> (bool \<times> goerr option) \<times> 'q WorkspaceReconciler \<times> 'q Workspace" where
  "processNodesAction R r workspace =
     (case json_NodesAction R (GetWorkspaceNodesAction (wk_Meta workspace)) of
        Inl _ \<Rightarrow> (case removeNodesAction R r workspace of (e, r', w') \<Rightarrow> ((False, e), r', w'))
      | Inr actions \<Rightarrow>
          if length actions = 0 then (case removeNodesAction R r workspace of (e, r', w') \<Rightarrow> ((False, e), r', w'))
          else case pending_actions R (wrote r) workspace actions ([], []) of
                 Inl e \<Rightarrow> ((False, Some e), r, workspace)
               | Inr (newActions, adminNodes) \<Rightarrow>
                   if length adminNodes = 0 then (case removeNodesAction R r workspace of (e, r', w') \<Rightarrow> ((False, e), r', w'))
                   else case updateNodesBinding R r workspace adminNodes newActions of
                          (Some e, r') \<Rightarrow> ((False, Some e), r', workspace)
                        | (None, r') \<Rightarrow> ((True, None), r', workspace))"

section \<open>Reconciliation\<close>

definition processWorkspace ::
  "('q::linordered_ab_group_add, 'z) rm_scheme \<Rightarrow> WorkspaceReconcilerOption \<Rightarrow> ClientFactory object_manager \<Rightarrow> 'q WorkspaceReconciler
     \<Rightarrow> 'q Workspace \<Rightarrow> reconcile_result \<times> 'q WorkspaceReconciler" where
  "processWorkspace R opt clientManager r workspace =
     (if \<not> meetExpectations r (wk_Name workspace) then ((0, None), r)
      else case GetK8sClientFactory clientManager (wsp_Cluster (wk_Spec workspace)) of
        Inl _ \<Rightarrow> ((nano, None), r)
      | Inr k8sClients \<Rightarrow>
          if \<not> cf_Valid k8sClients then ((nano, None), r)
          else case (if GetWorkspaceNodesAction (wk_Meta workspace) \<noteq> '''' then processNodesAction R r workspace
                     else ((False, None), r, workspace)) of
            ((isUpdated, err), r1, w1) \<Rightarrow>
              if err \<noteq> None \<or> isUpdated then ((0, err), r1)
              else case syncWorkspace R r1 w1 of
                (Some e, r2, _) \<Rightarrow> ((0, Some e), r2)
              | (None, r2, w2) \<Rightarrow>
                  if wsp_NodeFlavor (wk_Spec w2) = '''' then ((0, None), r2)
                  else
                    let totalStatusCount = CurrentReplica w2; want = wsp_Replica (wk_Spec w2) in
                    if totalStatusCount > want then scaleDown R opt r2 w2 (totalStatusCount - want)
                    else if totalStatusCount < want then scaleUp R opt r2 w2 k8sClients (want - totalStatusCount)
                    else
                      let phase = (if wss_AvailableReplica (wk_Status w2) = 0 then WorkspaceAbnormal else WorkspaceRunning) in
                      if phase \<noteq> wss_Phase (wk_Status w2)
                      then case updatePhase R r2 w2 phase of (e, r3, _) \<Rightarrow> ((0, e), r3)
                      else ((0, None), r2))"

definition workspace_delete ::
  "('q, 'z) rm_scheme \<Rightarrow> ClientFactory object_manager \<Rightarrow> 'q WorkspaceReconciler \<Rightarrow> 'q Workspace \<Rightarrow> goerr option \<times> 'q WorkspaceReconciler" where
  "workspace_delete R clientManager r workspace =
     (case updatePhase R r workspace WorkspaceDeleting of
        (Some e, r1, _) \<Rightarrow> (Some e, r1)
      | (None, r1, w1) \<Rightarrow>
          (case rm_ListNodes R (wrote r1) (\<lambda>_. True) of
             Inl e \<Rightarrow> (Some e, r1)
           | Inr nodeList \<Rightarrow>
               let nodes = filter (\<lambda>n. GetSpecWorkspace n = wk_Name w1) nodeList in
               case updateNodesBinding R r1 w1 nodes (buildTargetList nodes '''') of
                 (Some e, r2) \<Rightarrow> (Some e, r2)
               | (None, r2) \<Rightarrow>
                   if \<not> meetExpectations r2 (wk_Name w1) then (None, r2)
                   else
                     let r3 = removeExpectations r2 (wk_Name w1) in
                     case on_log (\<lambda>lg. deleteDataPlaneResources R clientManager lg w1) r3 of
                       (Some e, r4) \<Rightarrow> (Some e, r4)
                     | (None, r4) \<Rightarrow> on_log (\<lambda>lg. RemoveFinalizer R lg WorkspaceKind (wk_Name w1) [WorkspaceFinalizer]) r4))"

definition workspace_Reconcile ::
  "('q::linordered_ab_group_add, 'z) rm_scheme \<Rightarrow> WorkspaceReconcilerOption \<Rightarrow> ClientFactory object_manager \<Rightarrow> 'q WorkspaceReconciler
     \<Rightarrow> string \<Rightarrow> reconcile_result \<times> 'q WorkspaceReconciler" where
  "workspace_Reconcile R opt clientManager r name =
     (case rm_GetWorkspace R (wrote r) name of
        Inl e \<Rightarrow> ((0, IgnoreNotFound R (Some e)), r)
      | Inr workspace \<Rightarrow>
          if \<not> time_IsZero (om_DeletionTimestamp (wk_Meta workspace))
          then case workspace_delete R clientManager r workspace of (e, r') \<Rightarrow> ((0, e), r')
          else case getClientSetOfDataplane R clientManager (wrote r) (wsp_Cluster (wk_Spec workspace)) of
                 Inl e \<Rightarrow> if api_IsNotFound R e then ((0, None), r) else ((nano, None), r)
               | Inr None \<Rightarrow> ((0, None), r)
               | Inr (Some _) \<Rightarrow>
                   (case on_log (\<lambda>lg. guaranteeDataPlaneResources R lg workspace) r of
                      (Some e, r1) \<Rightarrow> ((0, Some e), r1)
                    | (None, r1) \<Rightarrow> processWorkspace R opt clientManager r1 workspace))"

section \<open>Awaited nodes\<close>

definition awaited :: "'q WorkspaceReconciler \<Rightarrow> string \<Rightarrow> string set" where
  "awaited r w = (case mget (expectations r) w of None \<Rightarrow> {} | Some s \<Rightarrow> set_of s)"

text \<open>The contract of a table of expectations: what is awaited, and when it is met.\<close>

locale expectation_table =
  fixes aw :: "'s \<Rightarrow> string \<Rightarrow> string set" and obs :: "string \<Rightarrow> string \<Rightarrow> 's \<Rightarrow> 's" and met :: "'s \<Rightarrow> string \<Rightarrow> bool"
  assumes aw_obs: "aw (obs w n s) v = aw s v - (if v = w then {n} else {})"
    and met_iff: "met s w \<longleftrightarrow> aw s w = {}"
begin

lemma aw_observed: "aw (fold (\<lambda>(w, n). obs w n) os s) v = aw s v - {n. (v, n) \<in> set os}"
  by (induction os arbitrary: s) (auto simp: aw_obs split: if_splits)

lemma met_observed: "met (fold (\<lambda>(w, n). obs w n) os s) w \<longleftrightarrow> aw s w \<subseteq> {n. (w, n) \<in> set os}"
  by (simp add: met_iff aw_observed)

end

interpretation et: expectation_table awaited observeNode meetExpectations
proof
  show "awaited (observeNode w n s) v = awaited s v - (if v = w then {n} else {})" for w n v and s :: "'a WorkspaceReconciler"
    by (auto simp: awaited_def observeNode_def set_of_def split: option.splits)
  show "meetExpectations s w \<longleftrightarrow> awaited s w = {}" for w and s :: "'a WorkspaceReconciler"
    by (auto simp: awaited_def meetExpectations_def set_of_def set_Len_def set_Has_keys [symmetric] split: option.splits)
qed

lemma awaited_updates [simp]:
  "awaited (r\<lparr>wrote := lg\<rparr>) w = awaited r w"
  "awaited (setExpectations r w s) v = (if v = w then set_of s else awaited r v)"
  "awaited (removeExpectations r w) v = (if v = w then {} else awaited r v)"
  by (simp_all add: awaited_def setExpectations_def removeExpectations_def)

lemma wrote_updates [simp]:
  "wrote (setExpectations r w s) = wrote r" "wrote (removeExpectations r w) = wrote r" "wrote (observeNode w n r) = wrote r"
  by (simp_all add: setExpectations_def removeExpectations_def observeNode_def split: option.splits)

lemma on_log_cases: "on_log f r = (a, r') \<Longrightarrow> \<exists>lg. f (wrote r) = (a, lg) \<and> r' = r\<lparr>wrote := lg\<rparr>"
  by (auto simp: on_log_def split: prod.splits)

definition observations :: "'q ws_node_event \<Rightarrow> (string \<times> string) list" where
  "observations evt =
     filter (\<lambda>p. fst p \<noteq> '''')
       (case evt of
          WsNodeCreate n \<Rightarrow> [(GetWorkspaceId (n_Meta n), n_Name n)]
        | WsNodeUpdate n m \<Rightarrow>
            if GetWorkspaceId (n_Meta n) \<noteq> GetWorkspaceId (n_Meta m)
            then [(GetWorkspaceId (n_Meta n), n_Name m), (GetWorkspaceId (n_Meta m), n_Name m)] else []
        | WsNodeDelete n \<Rightarrow> [(GetWorkspaceId (n_Meta n), n_Name n)])"

lemma handleNodeEvent_observes: "snd (ws_handleNodeEvent evt st) = fold (\<lambda>(w, n). observeNode w n) (observations evt) (snd st)"
  by (auto simp: ws_handleNodeEvent_def observations_def enqueue_def split: ws_node_event.splits)

lemma events_observe:
  "snd (fold ws_handleNodeEvent evts st) = fold (\<lambda>(w, n). observeNode w n) (concat (map observations evts)) (snd st)"
  by (induction evts arbitrary: st) (simp_all add: handleNodeEvent_observes)

section \<open>Bindings\<close>

definition rebound :: "strmap \<Rightarrow> 'q Node \<Rightarrow> 'q Node" where
  "rebound targets n = n\<lparr>n_Spec := (n_Spec n)\<lparr>ns_Workspace := Some (mget0 '''' targets (n_Name n))\<rparr>\<rparr>"

definition bound_names :: "'q rlog \<Rightarrow> string set" where
  "bound_names l = {n_Name n | n. (RmPatchNode n, None) \<in> set l}"

lemma bound_names_simps [simp]:
  "bound_names [] = {}"
  "bound_names ((a, e) # l) = (if e = None then (case a of RmPatchNode n \<Rightarrow> {n_Name n} | _ \<Rightarrow> {}) else {}) \<union> bound_names l"
  by (auto simp: bound_names_def split: rmwrite.splits)

lemma bind_one_cases:
  assumes "bind_one R w targets n r = (e, r')"
  shows "(e = None \<and> wrote r' = wrote r \<and> ns_Workspace (n_Spec n) = Some (mget0 '''' targets (n_Name n)) \<or>
          ns_Workspace (n_Spec n) \<noteq> Some (mget0 '''' targets (n_Name n)) \<and> wrote r' = wrote r @ [(RmPatchNode (rebound targets n), e)]) \<and>
         awaited r' v = awaited r v - (if v = w \<and> (e \<noteq> None \<or> wrote r' = wrote r) then {n_Name n} else {})"
proof (cases "ns_Workspace (n_Spec n) = Some (mget0 '''' targets (n_Name n))")
  case True
  then have "e = None" "r' = observeNode w (n_Name n) (r\<lparr>wrote := wrote r\<rparr>)"
    using assms by (auto simp: bind_one_def on_log_def updateSingleNodeBinding_def)
  then show ?thesis using True by (auto simp: et.aw_obs)
next
  case False
  let ?a = "RmPatchNode (rebound targets n)"
  have "e = rm_result R (wrote r) ?a"
    "r' = (if e = None then r\<lparr>wrote := wrote r @ [(?a, e)]\<rparr> else observeNode w (n_Name n) (r\<lparr>wrote := wrote r @ [(?a, e)]\<rparr>))"
    using assms False
    by (auto simp: bind_one_def on_log_def updateSingleNodeBinding_def rm_write_def Let_def rebound_def split: option.splits prod.splits)
  then show ?thesis using False by (auto simp: et.aw_obs)
qed

text \<open>The writes that bring a set of nodes to their targets.\<close>

definition binding_writes :: "strmap \<Rightarrow> 'q Node set \<Rightarrow> bool \<Rightarrow> 'q rlog \<Rightarrow> bool" where
  "binding_writes targets ns ok l \<longleftrightarrow>
     (\<forall>x \<in> set l. \<exists>n \<in> ns. fst x = RmPatchNode (rebound targets n)) \<and>
     (\<forall>n \<in> ns. ns_Workspace (n_Spec n) \<noteq> Some (mget0 '''' targets (n_Name n)) \<longrightarrow> (\<exists>e. (RmPatchNode (rebound targets n), e) \<in> set l)) \<and>
     (ok \<longleftrightarrow> (\<forall>x \<in> set l. snd x = None))"

lemma binding_writes_Nil: "binding_writes targets {} True []"
  by (simp add: binding_writes_def)

lemma binding_writes_append:
  "binding_writes targets A a l \<Longrightarrow> binding_writes targets B b m \<Longrightarrow> binding_writes targets (A \<union> B) (a \<and> b) (l @ m)"
  unfolding binding_writes_def set_append by blast

lemma binding_writes_one:
  assumes "bind_one R w targets n r = (e, r')"
  shows "\<exists>l. wrote r' = wrote r @ l \<and> length l \<le> 1 \<and> binding_writes targets {n} (e = None) l"
proof -
  consider "e = None" "wrote r' = wrote r" "ns_Workspace (n_Spec n) = Some (mget0 '''' targets (n_Name n))"
    | "wrote r' = wrote r @ [(RmPatchNode (rebound targets n), e)]" using bind_one_cases [OF assms] by blast
  then show ?thesis
  proof cases
    case 1 then show ?thesis by (intro exI [of _ "[]"]) (simp add: binding_writes_def)
  next
    case 2 then show ?thesis by (intro exI [of _ "[(RmPatchNode (rebound targets n), e)]"]) (auto simp: binding_writes_def)
  qed
qed

lemma exec_writes:
  assumes "exec_all (bind_one R w targets) xs r = (es, r')"
  shows "\<exists>l. wrote r' = wrote r @ l \<and> length l \<le> length xs \<and> binding_writes targets (set xs) (es = []) l"
  using assms
proof (induction xs arbitrary: r es)
  case (Cons n xs)
  obtain e r1 where b: "bind_one R w targets n r = (e, r1)" by force
  obtain es1 where x: "exec_all (bind_one R w targets) xs r1 = (es1, r')" and es: "es = (case e of None \<Rightarrow> es1 | Some err \<Rightarrow> err # es1)"
    using Cons.prems b by (auto split: prod.splits)
  obtain l where l: "wrote r' = wrote r1 @ l" "length l \<le> length xs" "binding_writes targets (set xs) (es1 = []) l"
    using Cons.IH [OF x] by blast
  obtain p where p: "wrote r1 = wrote r @ p" "length p \<le> 1" "binding_writes targets {n} (e = None) p"
    using binding_writes_one [OF b] by blast
  have "es = [] \<longleftrightarrow> e = None \<and> es1 = []" using es by (cases e) auto
  then show ?case using l p binding_writes_append [OF p(3) l(3)] by (intro exI [of _ "p @ l"]) simp
qed (simp add: binding_writes_Nil)

lemma binding_writes_names: "binding_writes targets ns ok l \<Longrightarrow> bound_names l \<subseteq> n_Name ` ns"
  by (fastforce simp: binding_writes_def bound_names_def rebound_def)

lemma bound_names_append [simp]: "bound_names (l @ m) = bound_names l \<union> bound_names m"
  by (auto simp: bound_names_def)

lemma bind_one_awaits:
  assumes "bind_one R w targets n r = (e, r')" and "wrote r' = wrote r @ l"
  shows "awaited r' v = awaited r v - (if v = w then {n_Name n} - bound_names l else {})"
proof (cases "e = None \<and> l \<noteq> []")
  case True
  then have "l = [(RmPatchNode (rebound targets n), None)]" using bind_one_cases [OF assms(1)] assms(2) by auto
  then show ?thesis using bind_one_cases [OF assms(1), of v] assms(2) True by (simp add: rebound_def)
next
  case False
  then have "bound_names l = {}" using bind_one_cases [OF assms(1)] assms(2) by (cases e) (auto simp: rebound_def)
  then show ?thesis using bind_one_cases [OF assms(1), of v] assms(2) False by (cases e) auto
qed

lemma exec_awaits:
  assumes "exec_all (bind_one R w targets) xs r = (es, r')" and "distinct (map n_Name xs)" and "wrote r' = wrote r @ l"
  shows "awaited r' v = awaited r v - (if v = w then n_Name ` set xs - bound_names l else {})"
  using assms
proof (induction xs arbitrary: r es l)
  case (Cons n xs)
  obtain e r1 where b: "bind_one R w targets n r = (e, r1)" by force
  then obtain es1 where x: "exec_all (bind_one R w targets) xs r1 = (es1, r')" using Cons.prems(1) by (auto split: prod.splits)
  obtain m where m: "wrote r' = wrote r1 @ m" "binding_writes targets (set xs) (es1 = []) m" using exec_writes [OF x] by blast
  obtain p where p: "wrote r1 = wrote r @ p" "binding_writes targets {n} (e = None) p" using binding_writes_one [OF b] by blast
  have l: "l = p @ m" using Cons.prems(3) m(1) p(1) by simp
  have "awaited r' v = awaited r1 v - (if v = w then n_Name ` set xs - bound_names m else {})"
    using Cons.IH [OF x _ m(1)] Cons.prems(2) by simp
  moreover have "\<forall>x \<in> set xs. n_Name x \<noteq> n_Name n" using Cons.prems(2) by (auto simp: image_iff)
  then have "bound_names p \<inter> n_Name ` set xs = {}" "n_Name n \<notin> bound_names m"
    using subsetD [OF binding_writes_names [OF m(2)]] subset_singletonD [of "bound_names p" "n_Name n"] binding_writes_names [OF p(2)] by fastforce+
  ultimately show ?case
    using bind_one_awaits [OF b p(1), of v] unfolding l by (cases "v = w") (simp_all, blast)
qed auto

lemma updateNodesBinding_writes:
  assumes "updateNodesBinding R r workspace nodes targets = (e, r')" and "mset (rm_order R (wrote r) nodes) = mset nodes"
  shows "\<exists>l. wrote r' = wrote r @ l \<and> length l \<le> length nodes \<and> binding_writes targets (set nodes) (e = None) l"
proof (cases "nodes = []")
  case False
  then obtain es s where x: "exec_all (bind_one R (wk_Name workspace) targets) (rm_order R (wrote r) nodes) (setExpectations r (wk_Name workspace) s) = (es, r')"
    and "e = (case es of [] \<Rightarrow> None | x # _ \<Rightarrow> Some x)"
    using assms(1) by (auto simp: updateNodesBinding_def Exec_def Let_def split: prod.splits)
  then have "e = None \<longleftrightarrow> es = []" by (cases es) auto
  then show ?thesis using exec_writes [OF x] mset_eq_setD [OF assms(2)] mset_eq_length [OF assms(2)] by simp
qed (use assms in \<open>auto simp: updateNodesBinding_def binding_writes_Nil\<close>)

lemma updateNodesBinding_awaits:
  assumes "updateNodesBinding R r workspace nodes targets = (e, r')" and "mset (rm_order R (wrote r) nodes) = mset nodes"
    and "distinct (map n_Name nodes)" and "wrote r' = wrote r @ l" and "nodes \<noteq> []"
  shows "awaited r' (wk_Name workspace) = bound_names l"
proof -
  let ?s = "fold (\<lambda>n s. set_Insert [n_Name n] s) nodes set_New"
  have s: "set_Has (fold (\<lambda>n s. set_Insert [n_Name n] s) ns s) k \<longleftrightarrow> k \<in> n_Name ` set ns \<or> set_Has s k" for ns :: "'a Node list" and s k
    by (induction ns arbitrary: s) auto
  obtain es where x: "exec_all (bind_one R (wk_Name workspace) targets) (rm_order R (wrote r) nodes) (setExpectations r (wk_Name workspace) ?s) = (es, r')"
    using assms(1,5) by (auto simp: updateNodesBinding_def Exec_def Let_def split: prod.splits)
  have d: "distinct (map n_Name (rm_order R (wrote r) nodes))" using assms(2,3) by (metis mset_map mset_eq_imp_distinct_iff)
  have "bound_names l \<subseteq> n_Name ` set nodes"
    using exec_writes [OF x] assms(4) mset_eq_setD [OF assms(2)] binding_writes_names [of targets "set nodes" _ l] by auto
  then show ?thesis using exec_awaits [OF x d, of l "wk_Name workspace"] assms(4) mset_eq_setD [OF assms(2)]
    by (auto simp: set_of_def s)
qed

section \<open>Scaling waits for the nodes\<close>

text \<open>C5: after a change of bindings the controller scales the workspace again exactly when each node whose binding was
  patched has been seen with the workspace as its old or its new workspace; before, a round changes nothing.\<close>

theorem scaling_waits_for_bindings:
  assumes "updateNodesBinding R r workspace nodes targets = (e, r1)" and "mset (rm_order R (wrote r) nodes) = mset nodes"
    and "distinct (map n_Name nodes)" and "nodes \<noteq> []" and "snd (fold ws_handleNodeEvent evts (q, r1)) = r2"
  shows "\<exists>l. wrote r1 = wrote r @ l \<and>
           (meetExpectations r2 (wk_Name workspace) \<longleftrightarrow>
              (\<forall>n. (RmPatchNode n, None) \<in> set l \<longrightarrow> (\<exists>evt \<in> set evts. (wk_Name workspace, n_Name n) \<in> set (observations evt)))) \<and>
           (\<not> meetExpectations r2 (wk_Name workspace) \<longrightarrow> processWorkspace R opt clientManager r2 workspace = ((0, None), r2))"
proof -
  obtain l where l: "wrote r1 = wrote r @ l" using updateNodesBinding_writes [OF assms(1,2)] by blast
  have a: "awaited r1 (wk_Name workspace) = bound_names l" by (rule updateNodesBinding_awaits [OF assms(1-3) l assms(4)])
  have "meetExpectations r2 (wk_Name workspace) \<longleftrightarrow> bound_names l \<subseteq> {n. (wk_Name workspace, n) \<in> set (concat (map observations evts))}"
    unfolding assms(5) [symmetric] events_observe by (simp only: et.met_observed a snd_conv)
  then show ?thesis using l by (intro exI [of _ l]) (auto simp: bound_names_def processWorkspace_def)
qed

definition event_node :: "'q ws_node_event \<Rightarrow> string" where
  "event_node evt = (case evt of WsNodeCreate n \<Rightarrow> n_Name n | WsNodeUpdate _ n \<Rightarrow> n_Name n | WsNodeDelete n \<Rightarrow> n_Name n)"

lemma observations_node: "(w, n) \<in> set (observations evt) \<Longrightarrow> n = event_node evt"
  by (auto simp: observations_def event_node_def split: ws_node_event.splits if_splits)

lemma updatePhase_same [simp]: "wss_Phase (wk_Status w) = p \<Longrightarrow> updatePhase R r w p = (None, r, w)"
  by (simp add: updatePhase_def)


section \<open>Deletion of a workspace\<close>

lemma buildTargetList_get: "n \<in> set nodes \<Longrightarrow> mget0 '''' (buildTargetList nodes target) (n_Name n) = target"
proof -
  have "mget0 '''' (fold (\<lambda>n m. mput m (n_Name n) target) ns m) k = (if k \<in> n_Name ` set ns then target else mget0 '''' m k)"
    for ns :: "'a Node list" and m k by (induction ns arbitrary: m) auto
  then show "n \<in> set nodes \<Longrightarrow> ?thesis" by (simp add: buildTargetList_def)
qed

definition is_release :: "'q rmwrite \<Rightarrow> bool" where
  "is_release a \<longleftrightarrow> (case a of RmPatchFinalizers _ _ _ \<Rightarrow> True | _ \<Rightarrow> False)"

text \<open>Calls that never touch finalizers of the admin plane.\<close>

abbreviation keeps_finalizers :: "('q rlog \<Rightarrow> 'a \<times> 'q rlog) \<Rightarrow> bool" where
  "keeps_finalizers f \<equiv> (\<forall>lg. writes_only (\<lambda>a. \<not> is_release a) lg (snd (f lg)))"

lemma writes_only_write [simp]: "writes_only A lg (snd (rm_write R lg a)) \<longleftrightarrow> A a"
  by (auto simp: rm_write_def Let_def writes_only_def)

lemma writes_only_two: "A a \<Longrightarrow> A b \<Longrightarrow> writes_only A lg (snd (rm_write R (snd (rm_write R lg a)) b))"
  by (rule writes_only_trans [of _ _ "snd (rm_write R lg a)"]) simp_all

lemma writes_only_step: "x \<in> {lg1, lg2} \<Longrightarrow> writes_only A lg lg1 \<Longrightarrow> writes_only A lg1 lg2 \<Longrightarrow> writes_only A lg x"
  by (auto intro: writes_only_trans)

lemma snd_case_fst [simp]: "snd (case p of (a, b) \<Rightarrow> (f a, b)) = snd p"
  by (cases p) simp

lemma keeps_delete_pvs: "keeps_finalizers (delete_pvs R pvs)"
proof
  show "writes_only (\<lambda>a. \<not> is_release a) lg (snd (delete_pvs R pvs lg))" for lg
  proof (induction pvs arbitrary: lg)
    case (Cons pv pvs)
    let ?d = "DpDelete ''PersistentVolume'' '''' (om_Name pv)"
    define lg1 where "lg1 = (if om_Finalizers pv \<noteq> [] then snd (rm_write R lg (DpStripFinalizers ''PersistentVolume'' '''' (om_Name pv))) else lg)"
    have w: "writes_only (\<lambda>a. \<not> is_release a) lg lg1" by (simp add: lg1_def is_release_def)
    have "delete_pvs R (pv # pvs) lg = (case rm_write R lg1 ?d of (Some e, lg2) \<Rightarrow> (Some e, lg2) | (None, lg2) \<Rightarrow> delete_pvs R pvs lg2)"
      by (simp only: delete_pvs.simps lg1_def Let_def)
    then have s: "snd (delete_pvs R (pv # pvs) lg) \<in> {snd (rm_write R lg1 ?d), snd (delete_pvs R pvs (snd (rm_write R lg1 ?d)))}"
      by (cases "rm_write R lg1 ?d") (simp split: option.split)
    show ?case by (rule writes_only_step [OF s]) (rule writes_only_trans [OF w], simp add: is_release_def, rule Cons.IH)
  qed simp
qed

lemma keeps_drop_object: "writes_only (\<lambda>a. \<not> is_release a) lg (snd (drop_object R lg kind ns name))"
  by (simp add: drop_object_def is_release_def)

lemma keeps_delete_secret_list: "writes_only (\<lambda>a. \<not> is_release a) lg (snd (delete_secret_list R ns secs lg))"
proof (induction secs arbitrary: lg)
  case (Cons sec secs)
  let ?d = "drop_object R lg ''Secret'' ns (om_Name sec)"
  have "snd (delete_secret_list R ns (sec # secs) lg) \<in> {snd ?d, snd (delete_secret_list R ns secs (snd ?d))}"
    by (simp split: prod.splits option.splits)
  then show ?case by (rule writes_only_step) (rule keeps_drop_object, rule Cons.IH)
qed simp

lemma keeps_deletePVC: "writes_only (\<lambda>a. \<not> is_release a) lg (snd (deletePVC R lg name ns))"
  by (auto simp: deletePVC_def Let_def is_release_def writes_only_two split: sum.splits)

lemma keeps_in_order:
  assumes "\<forall>f \<in> set fs. keeps_finalizers f"
  shows "writes_only (\<lambda>a. \<not> is_release a) lg (snd (in_order fs lg))"
  using assms
proof (induction fs arbitrary: lg)
  case (Cons f fs)
  have "snd (in_order (f # fs) lg) \<in> {snd (f lg), snd (in_order fs (snd (f lg)))}" by (simp split: prod.splits option.splits)
  then show ?case by (rule writes_only_step) (use Cons in auto)
qed simp

lemma keeps_deleteDataPlane: "writes_only (\<lambda>a. \<not> is_release a) lg (snd (deleteDataPlaneResources R cm lg workspace))"
proof -
  note d = deletePV_def deleteCICDServiceAccount_def deleteMonarchServiceAccount_def deleteWorkspaceSecrets_def deleteDataplaneNamespace_def
    deleteServiceAccount_def deleteRoleBinding_def
  have m: "writes_only (\<lambda>a. \<not> is_release a) lg (snd (deleteMonarchServiceAccount R lg workspace))" for lg
  proof -
    let ?n = "om_Name (wk_Meta workspace)" and ?s = "cfg_MonarchClientRole R"
    let ?b = "drop_object R lg ''RoleBinding'' ?n ?s"
    have "snd (deleteMonarchServiceAccount R lg workspace) \<in> {lg, snd ?b, snd (drop_object R (snd ?b) ServiceAccountKind ?n ?s)}"
      by (simp add: d split: prod.splits option.splits)
    then show ?thesis using keeps_drop_object [of lg R "''RoleBinding''" ?n ?s] keeps_drop_object [of "snd ?b" R ServiceAccountKind ?n ?s]
      by (auto intro: writes_only_trans)
  qed
  have "\<forall>f \<in> set ((\<lambda>lg. deletePV R lg workspace) #
                    map (\<lambda>pvc lg. deletePVC R lg pvc (om_Name (wk_Meta workspace))) (desired_pvcs workspace) @
                    [\<lambda>lg. deleteCICDServiceAccount R lg workspace, \<lambda>lg. deleteMonarchServiceAccount R lg workspace,
                     \<lambda>lg. deleteWorkspaceSecrets R lg workspace, \<lambda>lg. deleteDataplaneNamespace R lg (om_Name (wk_Meta workspace))]). keeps_finalizers f"
    using m keeps_delete_pvs [of R] keeps_drop_object keeps_delete_secret_list keeps_deletePVC
    by (auto simp: d is_release_def split: sum.splits)
  from keeps_in_order [OF this] show ?thesis by (simp add: deleteDataPlaneResources_def split: sum.splits option.splits)
qed

lemma updatePhase_cases:
  assumes "updatePhase R r w phase = (e, r', w')"
  shows "wk_Meta w' = wk_Meta w \<and> wk_Spec w' = wk_Spec w \<and> awaited r' v = awaited r v \<and> (\<exists>p. wrote r' = wrote r @ p \<and> (\<forall>x \<in> set p. \<exists>w. fst x = RmPatchWorkspaceStatus w))"
  using assms by (auto simp: updatePhase_def Let_def on_log_def rm_write_def split: if_splits)

lemma binding_no_release: "binding_writes targets ns ok l \<Longrightarrow> x \<in> set l \<Longrightarrow> \<not> is_release (fst x)"
  by (fastforce simp: binding_writes_def is_release_def)

lemma unbinding_awaits:
  assumes "updateNodesBinding R r w nodes (buildTargetList nodes '''') = (None, r')" and "mset (rm_order R (wrote r) nodes) = mset nodes"
    and "distinct (map n_Name nodes)" and "\<forall>n \<in> set nodes. GetSpecWorkspace n = wk_Name w" and "wk_Name w \<noteq> ''''" and "nodes \<noteq> []"
  shows "\<not> meetExpectations r' (wk_Name w)"
proof -
  obtain l where l: "wrote r' = wrote r @ l" "binding_writes (buildTargetList nodes '''') (set nodes) True l"
    using updateNodesBinding_writes [OF assms(1,2)] by auto
  obtain n where n: "n \<in> set nodes" using assms(6) by (cases nodes) auto
  then have "ns_Workspace (n_Spec n) \<noteq> Some (mget0 '''' (buildTargetList nodes '''') (n_Name n))"
    using assms(4,5) buildTargetList_get [OF n, of "''''"] by (auto simp: GetSpecWorkspace_def)
  then obtain e where "(RmPatchNode (rebound (buildTargetList nodes '''') n), e) \<in> set l" using l(2) n unfolding binding_writes_def by blast
  then have "bound_names l \<noteq> {}" using l(2) unfolding binding_writes_def bound_names_def by force
  then show ?thesis using updateNodesBinding_awaits [OF assms(1-3) l(1) assms(6)] by (simp add: et.met_iff)
qed

text \<open>C7: a workspace loses its finalizer only after everything that belongs to it is released: no node asks for it any
  more, no node binding is awaited, and the deletion of its objects in the data-plane cluster has succeeded, in that
  order and in the round that removes the finalizer.\<close>

theorem workspace_released_last:
  assumes "workspace_delete R clientManager r workspace = (e, r')" and "wrote r' = wrote r @ l"
    and "(RmPatchFinalizers WorkspaceKind (wk_Name workspace) fs, x) \<in> set l" and "wk_Name workspace \<noteq> ''''"
    and "\<forall>lg ns. mset (rm_order R lg ns) = mset ns"
    and "\<forall>lg ns. rm_ListNodes R lg (\<lambda>_. True) = Inr ns \<longrightarrow> distinct (map n_Name ns)"
  shows "meetExpectations r (wk_Name workspace) \<and>
         (\<exists>w lg1 ns lg2 l2. wk_Meta w = wk_Meta workspace \<and> wk_Spec w = wk_Spec workspace \<and>
            rm_ListNodes R lg1 (\<lambda>_. True) = Inr ns \<and> (\<forall>n \<in> set ns. GetSpecWorkspace n \<noteq> wk_Name workspace) \<and>
            deleteDataPlaneResources R clientManager lg1 w = (None, lg2) \<and>
            wrote r' = lg2 @ l2 \<and> (RmPatchFinalizers WorkspaceKind (wk_Name workspace) fs, x) \<in> set l2)"
proof -
  let ?rel = "(RmPatchFinalizers WorkspaceKind (wk_Name workspace) fs, x)"
  have no: "?rel \<notin> set m" if "\<forall>x \<in> set m. \<not> is_release (fst x)" for m using that by (auto simp: is_release_def)
  obtain e1 r1 w1 where u: "updatePhase R r workspace WorkspaceDeleting = (e1, r1, w1)" by (metis prod_cases3)
  note c = updatePhase_cases [OF u]
  then obtain p where p: "wrote r1 = wrote r @ p" "\<forall>x \<in> set p. \<not> is_release (fst x)" by (fastforce simp: is_release_def)
  have "wrote r' \<noteq> wrote r1" using assms(2,3) p no by auto
  then obtain ns where ns: "e1 = None" "rm_ListNodes R (wrote r1) (\<lambda>_. True) = Inr ns"
    using assms(1) u by (cases "rm_ListNodes R (wrote r1) (\<lambda>_. True)"; cases e1) (auto simp: workspace_delete_def)
  let ?nodes = "filter (\<lambda>n. GetSpecWorkspace n = wk_Name w1) ns"
  obtain e2 r2 where b: "updateNodesBinding R r1 w1 ?nodes (buildTargetList ?nodes '''') = (e2, r2)" by force
  obtain q where q: "wrote r2 = wrote r1 @ q" "binding_writes (buildTargetList ?nodes '''') (set ?nodes) (e2 = None) q"
    using updateNodesBinding_writes [OF b] assms(5) by blast
  have "\<forall>x \<in> set q. \<not> is_release (fst x)" using binding_no_release [OF q(2)] by blast
  then have "wrote r' \<noteq> wrote r2" using assms(2,3) p q(1) no [of p] no [of q] by auto
  moreover have eq: "(case e2 of Some e \<Rightarrow> (Some e, r2)
      | None \<Rightarrow> if \<not> meetExpectations r2 (wk_Name w1) then (None, r2)
               else case on_log (\<lambda>lg. deleteDataPlaneResources R clientManager lg w1) (removeExpectations r2 (wk_Name w1)) of
                      (Some e, r4) \<Rightarrow> (Some e, r4)
                    | (None, r4) \<Rightarrow> on_log (\<lambda>lg. RemoveFinalizer R lg WorkspaceKind (wk_Name w1) [WorkspaceFinalizer]) r4) = (e, r')"
    using assms(1) unfolding workspace_delete_def Let_def by (simp add: u ns b)
  ultimately have m: "e2 = None" "meetExpectations r2 (wk_Name w1)" by (auto split: option.splits if_splits)
  have d: "distinct (map n_Name ?nodes)" using assms(6) ns(2) by (simp add: distinct_map_filter)
  have nil: "?nodes = []"
  proof (rule ccontr)
    assume "?nodes \<noteq> []"
    moreover have "wk_Name w1 \<noteq> ''''" using assms(4) c by simp
    moreover have "updateNodesBinding R r1 w1 ?nodes (buildTargetList ?nodes '''') = (None, r2)" using b m(1) by simp
    ultimately have "\<not> meetExpectations r2 (wk_Name w1)" using assms(5) d by (intro unbinding_awaits) auto
    then show False using m(2) by contradiction
  qed
  then have r2: "r2 = r1" using b by (simp add: updateNodesBinding_def)
  obtain e4 lg4 where p4: "deleteDataPlaneResources R clientManager (wrote r1) w1 = (e4, lg4)" by force
  then obtain l4 where l4: "lg4 = wrote r1 @ l4" "\<forall>x \<in> set l4. \<not> is_release (fst x)"
    using keeps_deleteDataPlane [of "wrote r1" R clientManager w1] by (auto simp: writes_only_def)
  have "wrote r' \<noteq> lg4" using assms(2,3) p l4 no [of p] no [of l4] by auto
  then have "e4 = None" "finalizer_attempts R WorkspaceKind (wk_Name w1) [WorkspaceFinalizer] 5 None lg4 = (e, wrote r')"
    using eq m r2 p4 by (auto simp: on_log_def RemoveFinalizer_def split: option.splits prod.splits)
  then obtain l5 where l5: "e4 = None" "wrote r' = lg4 @ l5" using finalizer_attempts_writes by blast
  then have "?rel \<in> set l5" using assms(2,3) p l4 no [of p] no [of l4] by auto
  moreover have "\<forall>n \<in> set ns. GetSpecWorkspace n \<noteq> wk_Name workspace" using nil c by (auto simp: filter_empty_conv)
  moreover have "meetExpectations r (wk_Name workspace)" using m(2) c r2 by (simp add: et.met_iff)
  ultimately show ?thesis using c ns(2) p4 l5 by blast
qed

section \<open>Bounds of scaling\<close>

definition node_patches :: "'q rlog \<Rightarrow> 'q Node list" where
  "node_patches l = List.map_filter (\<lambda>x. case fst x of RmPatchNode n \<Rightarrow> Some n | _ \<Rightarrow> None) l"

lemma node_patches_Nil [simp]: "node_patches [] = []"
  by (simp add: node_patches_def List.map_filter_def)

lemma node_patches_append [simp]: "node_patches (l @ m) = node_patches l @ node_patches m"
  by (simp add: node_patches_def List.map_filter_def)

lemma node_patches_none: "\<forall>x \<in> set l. \<forall>n. fst x \<noteq> RmPatchNode n \<Longrightarrow> node_patches l = []"
  by (induction l) (auto simp: node_patches_def List.map_filter_def split: rmwrite.splits)

lemma node_patches_length: "length (node_patches l) \<le> length l"
  by (simp add: node_patches_def List.map_filter_def)

lemma in_node_patches: "n \<in> set (node_patches l) \<longleftrightarrow> (\<exists>e. (RmPatchNode n, e) \<in> set l)"
  by (induction l) (auto simp: node_patches_def List.map_filter_def split: rmwrite.splits)

lemma bindings_to:
  assumes "updateNodesBinding R r w nodes (buildTargetList nodes target) = (e, r')" and "mset (rm_order R (wrote r) nodes) = mset nodes"
  shows "\<exists>l. wrote r' = wrote r @ l \<and> length (node_patches l) \<le> length nodes \<and>
           (\<forall>n \<in> set (node_patches l). \<exists>m \<in> set nodes. n = m\<lparr>n_Spec := (n_Spec m)\<lparr>ns_Workspace := Some target\<rparr>\<rparr>)"
proof -
  obtain l where l: "wrote r' = wrote r @ l" "length l \<le> length nodes" "binding_writes (buildTargetList nodes target) (set nodes) (e = None) l"
    using updateNodesBinding_writes [OF assms] by blast
  have "\<exists>m \<in> set nodes. n = m\<lparr>n_Spec := (n_Spec m)\<lparr>ns_Workspace := Some target\<rparr>\<rparr>" if "n \<in> set (node_patches l)" for n
  proof -
    from that l(3) obtain m where "m \<in> set nodes" "n = rebound (buildTargetList nodes target) m"
      unfolding in_node_patches binding_writes_def by fastforce
    then show ?thesis using buildTargetList_get [of m nodes target] by (intro bexI [of _ m]) (simp_all add: rebound_def)
  qed
  then show ?thesis using l(1,2) node_patches_length [of l] le_trans by blast
qed

lemma candidates_eligible:
  assumes "\<forall>m \<in> ran (mget (fst acc)). eligible w m"
  shows "\<forall>m \<in> ran (mget (fst (candidates R lg cluster w ns acc))). eligible w m"
  using assms
proof (induction ns arbitrary: acc)
  case (Cons n ns)
  show ?case
  proof (cases "eligible w n")
    case True
    have "\<forall>m \<in> ran (mget (mput (fst acc) k n)). eligible w m" for k using Cons.prems True by (auto simp: ran_def split: if_splits)
    then have "\<forall>m \<in> ran (mget (fst (candidates R lg cluster w ns (mput (fst acc) k n, ks)))). eligible w m" for k ks
      by (intro Cons.IH) simp
    then show ?thesis using Cons.IH [OF Cons.prems] True
      by (cases "getNodeByInformer R lg cluster (GetK8sNodeName n)") (simp_all only: candidates.simps not_True_eq_False if_False sum.case)
  qed (use Cons in simp)
qed simp

lemma first_nodes_bound:
  assumes "int (length result) < cnt"
  shows "int (length (first_nodes m cnt ks result)) \<le> cnt \<and> set (first_nodes m cnt ks result) \<subseteq> set result \<union> ran (mget m)"
  using assms
proof (induction ks arbitrary: result)
  case (Cons k ks)
  show ?case
  proof (cases "mget m (om_Name (kn_Meta k))")
    case (Some n)
    then have "n \<in> ran (mget m)" by (auto simp: ran_def)
    then show ?thesis using Cons.IH [of "result @ [n]"] Cons.prems Some by (auto simp: Let_def)
  qed (use Cons in simp)
qed simp

lemma getNodesForScalingUp_bound:
  assumes "getNodesForScalingUp R lg w k cnt = Inr nodes" and "0 < cnt"
  shows "int (length nodes) \<le> cnt \<and> (\<forall>n \<in> set nodes. eligible w n)"
proof -
  obtain ns ks where "nodes = [] \<or> nodes = first_nodes (fst (candidates R lg (cf_Name k) w ns ([], []))) cnt ks []"
    using assms(1) by (force simp: getNodesForScalingUp_def ebind_Inr_iff case_prod_beta split: if_splits)
  moreover have "ran (mget (fst (candidates R lg (cf_Name k) w ns ([], [])))) \<subseteq> {m. eligible w m}"
    using candidates_eligible [of "([], [])" w R lg "cf_Name k" ns] by auto
  ultimately show ?thesis using assms(2) first_nodes_bound [of "[]" cnt "fst (candidates R lg (cf_Name k) w ns ([], []))" ks] by auto
qed

lemma scaleUp_patches:
  assumes "scaleUp R opt r w k cnt = (res, r')" and "0 < cnt" and "\<forall>lg ns. mset (rm_order R lg ns) = mset ns"
  shows "\<exists>l. wrote r' = wrote r @ l \<and> int (length (node_patches l)) \<le> cnt \<and>
           (\<forall>n \<in> set (node_patches l). \<exists>m. eligible w m \<and> n = m\<lparr>n_Spec := (n_Spec m)\<lparr>ns_Workspace := Some (wk_Name w)\<rparr>\<rparr>)"
proof -
  obtain e1 r1 w1 where u: "(if wss_Phase (wk_Status w) = '''' then updatePhase R r w WorkspaceCreating else (None, r, w)) = (e1, r1, w1)"
    by (metis prod_cases3)
  have w1: "wk_Meta w1 = wk_Meta w" "wk_Spec w1 = wk_Spec w" and "\<exists>p. wrote r1 = wrote r @ p \<and> node_patches p = []"
    using u updatePhase_cases [of R r w WorkspaceCreating e1 r1 w1] node_patches_none by (auto simp: node_patches_def List.map_filter_def split: if_splits) fastforce+
  then obtain p where p: "wrote r1 = wrote r @ p" "node_patches p = []" by blast
  have el: "eligible w1 = eligible w" using w1 by (simp add: eligible_def fun_eq_iff)
  show ?thesis
  proof (cases "wrote r' = wrote r1")
    case False
    then obtain nodes where n: "getNodesForScalingUp R (wrote r1) w1 k cnt = Inr nodes"
      and b: "updateNodesBinding R r1 w1 nodes (buildTargetList nodes (wk_Name w1)) = (snd res, r')"
      using assms(1) u by (auto simp: scaleUp_def split: option.splits sum.splits if_splits prod.splits)
    then show ?thesis using bindings_to [OF b] assms(3) getNodesForScalingUp_bound [OF n assms(2)] p el w1 by fastforce
  qed (use p assms(2) in auto)
qed

lemma scaleDown_patches:
  assumes "scaleDown R opt r w cnt = (res, r')" and "\<forall>lg ns. mset (rm_order R lg ns) = mset ns"
  shows "\<exists>l. wrote r' = wrote r @ l \<and> (l \<noteq> [] \<longrightarrow> int (length (node_patches l)) \<le> cnt) \<and>
           (\<forall>n \<in> set (node_patches l). ns_Workspace (n_Spec n) = Some '''' \<and>
              (\<exists>ws. rm_ListWorkloads R (wrote r) (\<lambda>x. label_is WorkspaceIdLabel (wk_Name w) (w_Meta x)) = Inr ws \<and> (\<forall>x \<in> set ws. n_Name n \<notin> set (used_nodes x))))"
proof (cases "wrote r' = wrote r")
  case False
  then obtain nodes where n: "GetNodesForScalingDown (rm_ListWorkloads R (wrote r)) (rm_ListNodes R (wrote r)) (wk_Name w) cnt = Inr nodes"
    and b: "updateNodesBinding R r w nodes (buildTargetList nodes '''') = (snd res, r')"
    using assms(1) by (auto simp: scaleDown_def split: option.splits sum.splits if_splits prod.splits)
  then obtain ws ns where wn: "rm_ListWorkloads R (wrote r) (\<lambda>x. label_is WorkspaceIdLabel (wk_Name w) (w_Meta x)) = Inr ws"
    "rm_ListNodes R (wrote r) (label_in WorkspaceIdLabel [wk_Name w]) = Inr ns"
    by (auto simp: GetNodesForScalingDown_def GetIdleNodesOfWorkspace_def GetNodesOfWorkspaces_def ebind_Inr_iff Let_def split: if_splits)
  from n have "int (length nodes) \<le> cnt" "\<forall>m \<in> set nodes. \<forall>x \<in> set ws. n_Name m \<notin> set (used_nodes x)"
    by (auto simp: GetNodesForScalingDown_def GetIdleNodesOfWorkspace_iff [of "rm_ListWorkloads R (wrote r)" "wk_Name w" ws "rm_ListNodes R (wrote r)" ns, OF wn] split: if_splits dest!: in_set_takeD)
  then show ?thesis using bindings_to [OF b] assms(2) wn(1) by fastforce
qed auto

definition counted :: "string \<Rightarrow> 'q Node list \<Rightarrow> int" where
  "counted flavor ns = int (length (filter (\<lambda>n. \<not> FilterDeletingNode n \<and> GetNodeFlavorId (n_Meta n) = flavor) ns))"

lemma fold_count_node:
  "sum_availReplica (fold (count_node R nf flavor) ns s) = sum_availReplica s + int (length (filter (\<lambda>n. GetNodeFlavorId (n_Meta n) = flavor \<and> IsAvailable n False) ns))"
  "sum_abnormalReplica (fold (count_node R nf flavor) ns s) = sum_abnormalReplica s + int (length (filter (\<lambda>n. GetNodeFlavorId (n_Meta n) = flavor \<and> \<not> IsAvailable n False) ns))"
  by (induction ns arbitrary: s) (simp_all add: count_node_def)

lemma new_status_replicas:
  "new_status R s st = (c, st') \<Longrightarrow> wss_AvailableReplica st' = sum_availReplica s \<and> wss_AbnormalReplica st' = sum_abnormalReplica s"
  by (auto simp: new_status_def Let_def)

lemma store_status_cases:
  assumes "store_status R r (c, w) = (e, r', w')"
  shows "wk_Meta w' = wk_Meta w \<and> wk_Spec w' = wk_Spec w \<and> wss_AvailableReplica (wk_Status w') = wss_AvailableReplica (wk_Status w) \<and>
         wss_AbnormalReplica (wk_Status w') = wss_AbnormalReplica (wk_Status w) \<and> (\<exists>p. wrote r' = wrote r @ p \<and> node_patches p = [])"
  using assms by (auto simp: store_status_def Let_def on_log_def rm_write_def node_patches_def List.map_filter_def split: if_splits)

lemma syncWorkspace_cases:
  assumes "syncWorkspace R r w = (e, r', w')"
  shows "wk_Meta w' = wk_Meta w \<and> wk_Spec w' = wk_Spec w \<and> (\<exists>p. wrote r' = wrote r @ p \<and> node_patches p = [])"
proof (cases "wrote r' = wrote r \<and> w' = w")
  case False
  then have "\<exists>c st. store_status R r (c, w\<lparr>wk_Status := st\<rparr>) = (e, r', w')"
    using assms by (auto simp: syncWorkspace_def resetWorkspaceStatus_def Let_def split: if_splits sum.splits prod.splits)
  then show ?thesis using store_status_cases by fastforce
qed auto

lemma syncWorkspace_counts:
  assumes "syncWorkspace R r w = (None, r', w')" and "wsp_NodeFlavor (wk_Spec w) \<noteq> ''''"
    and "rm_ListNodes R (wrote r) (label_in WorkspaceIdLabel [wk_Name w]) = Inr ns"
  shows "CurrentReplica w' = counted (wsp_NodeFlavor (wk_Spec w)) ns"
proof -
  let ?f = "wsp_NodeFlavor (wk_Spec w)" and ?ns = "filter (\<lambda>n. \<not> FilterDeletingNode n) ns"
  obtain nf c st where s: "new_status R (fold (count_node R nf ?f) ?ns no_nodes) (wk_Status w) = (c, st)"
    and "store_status R r (c, w\<lparr>wk_Status := st\<rparr>) = (None, r', w')"
    using assms by (auto simp: syncWorkspace_def GetNodesOfWorkspaces_def Let_def split: sum.splits prod.splits)
  then have "CurrentReplica w' = wss_AvailableReplica st + wss_AbnormalReplica st"
    using store_status_cases [of R r c "w\<lparr>wk_Status := st\<rparr>" None r' w'] by (simp add: CurrentReplica_def)
  also have "\<dots> = int (length (filter (\<lambda>n. GetNodeFlavorId (n_Meta n) = ?f \<and> IsAvailable n False) ?ns)) +
                   int (length (filter (\<lambda>n. GetNodeFlavorId (n_Meta n) = ?f \<and> \<not> IsAvailable n False) ?ns))"
    using new_status_replicas [OF s] by (simp add: fold_count_node no_nodes_def)
  also have "\<dots> = int (length (filter (\<lambda>n. GetNodeFlavorId (n_Meta n) = ?f) ?ns))" by (induction ns) auto
  finally show ?thesis by (simp add: counted_def conj_commute)
qed


section \<open>Witnesses\<close>

definition sample_workspace :: "string \<Rightarrow> int \<Rightarrow> int Workspace" where
  "sample_workspace phase replica =
     \<lparr>wk_Meta = blank_meta ''ws'',
      wk_Spec = \<lparr>wsp_Cluster = ''c'', wsp_NodeFlavor = ''f'', wsp_Replica = replica, wsp_QueuePolicy = '''', wsp_Scopes = [], wsp_Volumes = [],
                 wsp_EnablePreempt = False, wsp_Managers = [], wsp_IsDefault = False, wsp_ImageSecrets = [], wsp_MaxRuntime = [], wsp_IdleTime = []\<rparr>,
      wk_Status = \<lparr>wss_Phase = phase, wss_TotalResources = [], wss_AvailableResources = [], wss_AbnormalResources = [],
                   wss_AvailableReplica = 0, wss_AbnormalReplica = 0, wss_UpdateTime = None\<rparr>\<rparr>"

definition free_node :: "int Node" where
  "free_node = (plain_node ''n1'' [])
     \<lparr>n_Meta := (blank_meta ''n1'')\<lparr>om_Labels := [(ClusterIdLabel, ''c''), (NodeFlavorIdLabel, ''f'')]\<rparr>,
      n_Spec := (n_Spec (plain_node ''n1'' []))\<lparr>ns_Hostname := Some ''k1''\<rparr>\<rparr>"

definition sample_flavor :: "int NodeFlavor" where
  "sample_flavor = \<lparr>nf_Meta = blank_meta ''f'',
     nf_Spec = \<lparr>nfs_Cpu = \<lparr>cpu_Product = '''', cpu_Quantity = 4\<rparr>, nfs_Memory = 8, nfs_Gpu = None, nfs_RootDisk = None, nfs_DataDisk = None, nfs_ExtendResources = []\<rparr>\<rparr>"

definition workspace_rm :: "int Node list \<Rightarrow> int rm" where
  "workspace_rm ns = (sample_rm (\<lambda>_. None) [] ns)
     \<lparr>rm_GetMeta := (\<lambda>_ _ n. Inr ((blank_meta n)\<lparr>om_Finalizers := [WorkspaceFinalizer]\<rparr>)), rm_GetNodeFlavor := (\<lambda>_ _. Inr sample_flavor),
      dp_GetNode := (\<lambda>_ _ _. Inr worker_node)\<rparr>"

definition fresh_controller :: "int WorkspaceReconciler" where
  "fresh_controller = \<lparr>expectations = [], wrote = []\<rparr>"

definition client_table :: "ClientFactory object_manager" where
  "client_table = \<lparr>om_objects = [(''c'', \<lparr>cf_Name = ''c'', cf_Valid = True\<rparr>)], om_released = []\<rparr>"

lemma workspace_rm_order: "rm_order (workspace_rm ns) lg xs = xs"
  by (simp add: workspace_rm_def sample_rm_def ext.defs)

lemma workspace_rm_ListNodes: "rm_ListNodes (workspace_rm ns) lg sel = Inr (filter (\<lambda>x. sel (n_Meta x)) ns)"
  by (simp add: workspace_rm_def sample_rm_def ext.defs)

lemma scaling_waits_for_bindings_witness:
  "\<exists>r1. snd (updateNodesBinding (workspace_rm []) fresh_controller (sample_workspace '''' 1) [free_node] [(''n1'', ''ws'')]) = r1 \<and>
     \<not> meetExpectations r1 ''ws''"
proof -
  let ?R = "workspace_rm []" and ?w = "sample_workspace '''' 1"
  let ?b = "updateNodesBinding ?R fresh_controller ?w [free_node] [(''n1'', ''ws'')]"
  have b: "?b = (fst ?b, snd ?b)" by simp
  have w: "wrote (snd ?b) = [(RmPatchNode (rebound [(''n1'', ''ws'')] free_node), None)]" by code_simp
  have n: "wk_Name ?w = ''ws''" by (simp add: sample_workspace_def blank_meta_def)
  from scaling_waits_for_bindings [OF b, of "[]" q "snd ?b" for q] w
  have "\<not> meetExpectations (snd ?b) ''ws''" by (auto simp: workspace_rm_order fresh_controller_def n)
  then show ?thesis by simp
qed


lemma workspace_released_last_witness:
  "meetExpectations fresh_controller ''ws'' \<and>
   (RmPatchFinalizers WorkspaceKind ''ws'' [], None) \<in> set (wrote (snd (workspace_delete (workspace_rm []) client_table fresh_controller (sample_workspace WorkspaceDeleting 0))))"
proof -
  let ?w = "sample_workspace WorkspaceDeleting 0"
  let ?d = "workspace_delete (workspace_rm []) client_table fresh_controller ?w"
  have d: "?d = (fst ?d, snd ?d)" by simp
  have n: "wk_Name ?w = ''ws''" by (simp add: sample_workspace_def blank_meta_def)
  have f: "(RmPatchFinalizers WorkspaceKind ''ws'' [], None) \<in> set (wrote (snd ?d))" by code_simp
  from workspace_released_last [OF d, of "wrote (snd ?d)" "[]" None] f
  show ?thesis by (simp add: n workspace_rm_order workspace_rm_ListNodes fresh_controller_def)
qed


end
