(* ===== verification/Users.thy ===== *)
theory Users
  imports Workspaces Collections
begin

text \<open>
  \<^verbatim>\<open>common/pkg/user/user.go\<close>: the users of the platform and the two lists of workspaces each of them keeps, the ones the
  user may use and the ones the user manages. The callers pass a user, so the nil checks are not part of the model; a nil map of
  resources is the empty map. The functions that change the user return whether they have changed it.
\<close>

record User =
  u_Meta :: ObjectMeta
  u_Type :: string
  u_Password :: string
  u_RestrictedType :: int
  u_Roles :: "string list"
  u_Resources :: "(string, string list) gomap"

definition UserWorkspaces :: string where "UserWorkspaces = ''workspaces''"
definition UserManagedWorkspaces :: string where "UserManagedWorkspaces = ''managedWorkspaces''"

definition DefaultUserType :: string where "DefaultUserType = ''default''"
definition SSOUserType :: string where "SSOUserType = ''sso''"
definition SystemAdminRole :: string where "SystemAdminRole = ''system-admin''"
definition SystemAdminReadonlyRole :: string where "SystemAdminReadonlyRole = ''system-admin-readonly''"
definition WorkspaceAdminRole :: string where "WorkspaceAdminRole = ''workspace-admin''"
definition DefaultRole :: string where "DefaultRole = ''default''"

definition IsContainRole :: "string list \<Rightarrow> string \<Rightarrow> bool" where
  "IsContainRole roles input \<longleftrightarrow> list_ex (\<lambda>r. r = input) roles"

definition IsSystemAdmin :: "User \<Rightarrow> bool" where
  "IsSystemAdmin u \<longleftrightarrow> IsContainRole (u_Roles u) SystemAdminRole"

definition IsSystemAdminReadonly :: "User \<Rightarrow> bool" where
  "IsSystemAdminReadonly u \<longleftrightarrow> IsContainRole (u_Roles u) SystemAdminReadonlyRole"

definition IsRestricted :: "User \<Rightarrow> bool" where
  "IsRestricted u \<longleftrightarrow> u_RestrictedType u > 0"

definition IsRolesEqual :: "string list \<Rightarrow> string list \<Rightarrow> bool" where
  "IsRolesEqual roles1 roles2 \<longleftrightarrow>
     (if length roles1 \<noteq> length roles2 then False
      else if length roles1 = 0 then True
      else list_all (set_Has (set_Insert roles1 set_New)) roles2)"

definition workspaces_at :: "User \<Rightarrow> string \<Rightarrow> string list" where
  "workspaces_at user key = (if length (u_Resources user) = 0 then [] else mget0 [] (u_Resources user) key)"

definition GetUserWorkspace :: "User \<Rightarrow> string list" where
  "GetUserWorkspace user = workspaces_at user UserWorkspaces"

definition GetManagedWorkspace :: "User \<Rightarrow> string list" where
  "GetManagedWorkspace user = workspaces_at user UserManagedWorkspaces"

definition add_workspace :: "User \<Rightarrow> string \<Rightarrow> string list \<Rightarrow> bool \<times> User" where
  "add_workspace user key workspaceNames =
     (if length workspaceNames = 0 then (False, user)
      else case mget (u_Resources user) key of
             None \<Rightarrow> (True, user\<lparr>u_Resources := mput (u_Resources user) key (slice_Copy workspaceNames (int (length workspaceNames)))\<rparr>)
           | Some userWorkspaces \<Rightarrow>
               case AddAndDelDuplicates userWorkspaces workspaceNames of
                 (_, False) \<Rightarrow> (False, user)
               | (ws, True) \<Rightarrow> (True, user\<lparr>u_Resources := mput (u_Resources user) key ws\<rparr>))"

definition AddWorkspace :: "User \<Rightarrow> string list \<Rightarrow> bool \<times> User" where
  "AddWorkspace user workspaceNames = add_workspace user UserWorkspaces workspaceNames"

definition AddManagedWorkspace :: "User \<Rightarrow> string list \<Rightarrow> bool \<times> User" where
  "AddManagedWorkspace user workspaceNames = add_workspace user UserManagedWorkspaces workspaceNames"

definition remove_workspace :: "User \<Rightarrow> string \<Rightarrow> string \<Rightarrow> bool \<times> User" where
  "remove_workspace user workspaceName key =
     (if length (u_Resources user) = 0 then (False, user)
      else case mget (u_Resources user) key of
             None \<Rightarrow> (False, user)
           | Some userWorkspaces \<Rightarrow>
               case RemoveString userWorkspaces workspaceName of
                 (ws, True) \<Rightarrow> (True, user\<lparr>u_Resources := mput (u_Resources user) key ws\<rparr>)
               | (_, False) \<Rightarrow> (False, user))"

definition RemoveWorkspace :: "User \<Rightarrow> string \<Rightarrow> bool \<times> User" where
  "RemoveWorkspace user workspaceName = remove_workspace user workspaceName UserWorkspaces"

definition RemoveManagedWorkspace :: "User \<Rightarrow> string \<Rightarrow> bool \<times> User" where
  "RemoveManagedWorkspace user workspaceName = remove_workspace user workspaceName UserManagedWorkspaces"

definition has_right :: "User \<Rightarrow> string \<Rightarrow> string list \<Rightarrow> bool" where
  "has_right user key workspaces \<longleftrightarrow> ContainsStrings (workspaces_at user key) workspaces"

definition HasWorkspaceRight :: "User \<Rightarrow> string list \<Rightarrow> bool" where
  "HasWorkspaceRight user workspaces \<longleftrightarrow> has_right user UserWorkspaces workspaces"

definition HasWorkspaceManagedRight :: "User \<Rightarrow> string list \<Rightarrow> bool" where
  "HasWorkspaceManagedRight user workspaces \<longleftrightarrow> has_right user UserManagedWorkspaces workspaces"

definition del_workspace :: "User \<Rightarrow> string \<Rightarrow> User" where
  "del_workspace user key =
     (if length (u_Resources user) = 0 then user else user\<lparr>u_Resources := mdel (u_Resources user) key\<rparr>)"

definition DelWorkspace :: "User \<Rightarrow> User" where
  "DelWorkspace user = del_workspace user UserWorkspaces"

definition DelManagedWorkspace :: "User \<Rightarrow> User" where
  "DelManagedWorkspace user = del_workspace user UserManagedWorkspaces"

definition AssignWorkspace :: "User \<Rightarrow> string list \<Rightarrow> User" where
  "AssignWorkspace user workspaces = snd (AddWorkspace (DelWorkspace user) workspaces)"

definition AssignManagedWorkspace :: "User \<Rightarrow> string list \<Rightarrow> User" where
  "AssignManagedWorkspace user workspaces = snd (AddManagedWorkspace (DelManagedWorkspace user) workspaces)"

section \<open>The lists of a user as sets\<close>

lemma user_keys_distinct [simp]: "UserWorkspaces \<noteq> UserManagedWorkspaces" "UserManagedWorkspaces \<noteq> UserWorkspaces"
  by (simp_all add: UserWorkspaces_def UserManagedWorkspaces_def)

lemma workspaces_at_mget: "workspaces_at user key = mget0 [] (u_Resources user) key"
  by (simp add: workspaces_at_def mget0_def)

lemma has_right_iff:
  "has_right user key workspaces \<longleftrightarrow> workspaces \<noteq> [] \<and> set workspaces \<subseteq> set (workspaces_at user key)"
  by (cases workspaces rule: remdups_adj.cases)
    (auto simp: has_right_def ContainsStrings_def slice_Contains_def list_ex_iff list_all_iff)

lemma add_workspace_at:
  "set (workspaces_at (snd (add_workspace user key ws)) k) = (if k = key then set (workspaces_at user key) \<union> set ws else set (workspaces_at user k))"
  by (auto simp: add_workspace_def workspaces_at_mget mget0_def AddAndDelDuplicates_def slice_Copy_def Let_def filter_empty_conv
      split: option.splits bool.splits)

lemma add_workspace_unchanged: "\<not> fst (add_workspace user key ws) \<Longrightarrow> snd (add_workspace user key ws) = user"
  by (simp add: add_workspace_def split: option.splits prod.splits bool.splits if_splits)

lemma remove_workspace_at:
  "set (workspaces_at (snd (remove_workspace user w key)) k) = (if k = key then set (workspaces_at user key) - {w} else set (workspaces_at user k))"
  by (auto simp: remove_workspace_def workspaces_at_mget mget0_def RemoveString_def list_ex_iff split: option.splits bool.splits)

lemma remove_workspace_unchanged: "\<not> fst (remove_workspace user w key) \<Longrightarrow> snd (remove_workspace user w key) = user"
  by (simp add: remove_workspace_def split: option.splits prod.splits bool.splits if_splits)

lemma AssignWorkspace_at: "set (workspaces_at (AssignWorkspace user ws) UserWorkspaces) = set ws"
  "workspaces_at (AssignWorkspace user ws) UserManagedWorkspaces = workspaces_at user UserManagedWorkspaces"
proof -
  have "workspaces_at (DelWorkspace user) UserWorkspaces = []"
    by (simp add: DelWorkspace_def del_workspace_def workspaces_at_mget mget0_def)
  then show "set (workspaces_at (AssignWorkspace user ws) UserWorkspaces) = set ws"
    by (simp add: AssignWorkspace_def AddWorkspace_def add_workspace_at)
  show "workspaces_at (AssignWorkspace user ws) UserManagedWorkspaces = workspaces_at user UserManagedWorkspaces"
    by (simp add: AssignWorkspace_def AddWorkspace_def add_workspace_def DelWorkspace_def del_workspace_def workspaces_at_mget mget0_def
        AddAndDelDuplicates_def Let_def split: option.splits bool.splits)
qed

end
