(* ===== verification/Webhooks.thy ===== *)
theory Webhooks
  imports Workspaces Users
begin

text \<open>
  \<^verbatim>\<open>webhooks/pkg\<close>: the admission server, a process of its own between the API server and its clients. This theory
  has what its handlers share (\<^verbatim>\<open>utils.go\<close>) and the handlers of faults, node flavors and nodes. The
  parameter \<open>hook\<close> extends \<open>env\<close> by what only these handlers read; \<open>lg\<close> is the state of the API server when the
  request arrives, and the handlers that write keep a log of their own.
\<close>

record ControlPlane =
  cp_Nodes :: "string list"
  cp_KubeSprayImage :: "string option"
  cp_KubePodsSubnet :: "string option"
  cp_KubeServiceAddress :: "string option"
  cp_KubeNetworkPlugin :: "string option"
  cp_NodeLocalDNSIP :: "string option"

record Cluster =
  cl_Meta :: ObjectMeta
  cl_ControlPlane :: ControlPlane

datatype hwrite = HookUpdateUser User | HookUpdateWorkload Workload

type_synonym hlog = "(hwrite \<times> goerr option) list"

text \<open>\<open>hook_order\<close> is the order in which a loop visits the keys of a map. \<open>SetOwner kind owner obj\<close> is \<^verbatim>\<open>controllerutil.SetControllerReference\<close>: the new owner references of the object.\<close>

record 'q hook = "'q env" +
  hook_order :: "strmap \<Rightarrow> strmap"
  hook_result :: "hlog \<Rightarrow> hwrite \<Rightarrow> goerr option"
  get_Cluster :: "wlog \<Rightarrow> string \<Rightarrow> goerr + Cluster"
  get_User :: "hlog \<Rightarrow> string \<Rightarrow> goerr + User"
  list_Users :: "hlog \<Rightarrow> goerr + User list"
  list_Nodes :: "wlog \<Rightarrow> (ObjectMeta \<Rightarrow> bool) \<Rightarrow> goerr + 'q Node list"
  get_Secret :: "wlog \<Rightarrow> string \<Rightarrow> goerr option"
  SetOwner :: "string \<Rightarrow> ObjectMeta \<Rightarrow> ObjectMeta \<Rightarrow> goerr + OwnerReference list"
  json_strmap :: "string \<Rightarrow> goerr + strmap"
  json_Resource :: "string \<Rightarrow> goerr + WorkloadResource"
  marshal_strmap :: "strmap \<Rightarrow> string"
  marshal_strings :: "string list \<Rightarrow> string"
  marshal_DiskInfo :: "int \<Rightarrow> string \<Rightarrow> int \<Rightarrow> string"
  q_String :: "'q \<Rightarrow> string"
  q_HalfString :: "'q \<Rightarrow> string"
  Base64Encode :: "string \<Rightarrow> string"
  IsBase64 :: "string \<Rightarrow> bool"
  MD5 :: "string \<Rightarrow> string"
  cfg_WorkloadTTLSecond :: int
  cfg_ImageSecret :: string

datatype 'a request = CreateReq "goerr + 'a" | UpdateReq "goerr + 'a" "goerr + 'a" | DeleteReq "goerr + 'a"

datatype 'a admission = Allowed | Patched 'a | Denied goerr

definition handleError :: "goerr option \<Rightarrow> 'a admission" where
  "handleError err =
     (case err of
        None \<Rightarrow> Allowed
      | Some e \<Rightarrow> Denied (if err_Reason e = '''' \<and> err_Code e = 0 then NewBadRequest (err_Message e) else e))"

definition generateMutatePath :: "string \<Rightarrow> string" where
  "generateMutatePath kind = ''/mutate-amd-primus-safe-v1-'' @ to_lower kind"

definition generateValidatePath :: "string \<Rightarrow> string" where
  "generateValidatePath kind = ''/validate-amd-primus-safe-v1-'' @ to_lower kind"

text \<open>Validators in sequence; the first error ends the request.\<close>

fun first_error :: "goerr option list \<Rightarrow> goerr option" where
  "first_error [] = None"
| "first_error (None # es) = first_error es"
| "first_error (Some e # es) = Some e"

text \<open>\<^verbatim>\<open>utilerrors.NewAggregate\<close>: one error with all messages.\<close>

definition NewAggregate :: "goerr list \<Rightarrow> goerr option" where
  "NewAggregate errs = (case errs of [] \<Rightarrow> None | e # es \<Rightarrow> Some (plain_error (err_Message e @ concat (map (\<lambda>e. '', '' @ err_Message e) es))))"

definition only_if :: "bool \<Rightarrow> goerr \<Rightarrow> goerr list" where
  "only_if b e = (if b then [e] else [])"

definition fail_if :: "bool \<Rightarrow> goerr \<Rightarrow> goerr option" where
  "fail_if b e = (if b then Some e else None)"

text \<open>\<^verbatim>\<open>field.Forbidden(path, "immutable")\<close>, and \<^verbatim>\<open>strings.Trim\<close> with one character.\<close>

definition immutable :: "string \<Rightarrow> goerr" where
  "immutable field = plain_error (''spec['' @ field @ '']: Forbidden: immutable'')"

definition trim_char :: "char \<Rightarrow> string \<Rightarrow> string" where
  "trim_char c s = rev (dropWhile (\<lambda>x. x = c) (rev (dropWhile (\<lambda>x. x = c) s)))"

lemma first_error_None: "first_error es = None \<longleftrightarrow> (\<forall>e \<in> set es. e = None)"
  by (induction es rule: first_error.induct) auto

lemma NewAggregate_None [simp]: "NewAggregate errs = None \<longleftrightarrow> errs = []"
  by (simp add: NewAggregate_def split: list.splits)

lemma fail_if_None [simp]: "fail_if b e = None \<longleftrightarrow> \<not> b"
  by (simp add: fail_if_def)

lemma only_if_Nil [simp]: "only_if b e = [] \<longleftrightarrow> \<not> b"
  by (simp add: only_if_def)

section \<open>Names, labels and ports\<close>

definition randomLength :: nat where "randomLength = 5"
definition MaxGeneratedNameLength :: nat where "MaxGeneratedNameLength = MaxNameLength - randomLength - 1"
definition MaxPytorchJobNameLen :: nat where "MaxPytorchJobNameLen = MaxGeneratedNameLength - 13"
definition MaxDeploymentNameLen :: nat where "MaxDeploymentNameLen = MaxGeneratedNameLength - 17"
definition MaxCICDScaleSetNameLen :: nat where "MaxCICDScaleSetNameLen = 39"
definition MaxTorchFTNameLen :: nat where "MaxTorchFTNameLen = MaxDeploymentNameLen - 4"
definition MaxRayJobNameLen :: nat where "MaxRayJobNameLen = MaxGeneratedNameLength - 21"
definition MaxMonarchJobNameLen :: nat where "MaxMonarchJobNameLen = MaxGeneratedNameLength - 9"

lemmas name_length_defs = MaxNameLength_def randomLength_def MaxGeneratedNameLength_def MaxPytorchJobNameLen_def MaxDeploymentNameLen_def
  MaxCICDScaleSetNameLen_def MaxTorchFTNameLen_def MaxRayJobNameLen_def MaxMonarchJobNameLen_def

text \<open>The random suffix is the argument \<open>rand\<close>, five characters long.\<close>

definition GenerateName :: "string \<Rightarrow> string \<Rightarrow> string" where
  "GenerateName rand base = (if base = '''' then '''' else take MaxGeneratedNameLength base @ ''-'' @ rand)"

definition GetBaseFromName :: "string \<Rightarrow> string" where
  "GetBaseFromName name =
     (if length name \<le> randomLength + 1 then name
      else let lastIndex = length name - randomLength - 1 in
        if name ! lastIndex \<noteq> CHR ''-'' then name else take lastIndex name)"

definition getMaxNameLength :: "string \<Rightarrow> nat" where
  "getMaxNameLength workloadKind =
     (if workloadKind \<in> {PytorchJobKind, UnifiedJobKind, AuthoringKind} then MaxPytorchJobNameLen
      else if workloadKind \<in> {DeploymentKind, StatefulSetKind, DynamoDeploymentKind} then MaxDeploymentNameLen
      else if workloadKind = TorchFTKind then MaxTorchFTNameLen
      else if workloadKind = CICDScaleRunnerSetKind then MaxCICDScaleSetNameLen
      else if workloadKind = RayJobKind then MaxRayJobNameLen
      else if workloadKind = MonarchJob then MaxMonarchJobNameLen
      else MaxGeneratedNameLength)"

definition is_lower :: "char \<Rightarrow> bool" where "is_lower c \<longleftrightarrow> CHR ''a'' \<le> c \<and> c \<le> CHR ''z''"
definition is_upper :: "char \<Rightarrow> bool" where "is_upper c \<longleftrightarrow> CHR ''A'' \<le> c \<and> c \<le> CHR ''Z''"

text \<open>\<^verbatim>\<open>^[a-z][...]{0,n}[a-z0-9]$\<close> and \<^verbatim>\<open>^[a-z0-9]([a-zA-Z0-9._-]{0,n}[a-z0-9])?$\<close>.\<close>

definition matches_name :: "(char \<Rightarrow> bool) \<Rightarrow> nat \<Rightarrow> string \<Rightarrow> bool" where
  "matches_name mid n s \<longleftrightarrow>
     2 \<le> length s \<and> length s \<le> n + 2 \<and> is_lower (hd s) \<and> list_all mid (butlast (tl s)) \<and> (is_lower (last s) \<or> is_digit (last s))"

definition matches_label :: "nat \<Rightarrow> string \<Rightarrow> bool" where
  "matches_label n s \<longleftrightarrow>
     s \<noteq> '''' \<and> (is_lower (hd s) \<or> is_digit (hd s)) \<and>
     (length s = 1 \<or>
      length s \<le> n + 2 \<and> list_all (\<lambda>c. is_lower c \<or> is_upper c \<or> is_digit c \<or> c \<in> {CHR ''.'', CHR ''_'', CHR ''-''}) (butlast (tl s)) \<and>
      (is_lower (last s) \<or> is_digit (last s)))"

definition validateDisplayName :: "string \<Rightarrow> string \<Rightarrow> goerr option" where
  "validateDisplayName name workloadKind =
     (if name = '''' then None
      else if \<not> matches_name (\<lambda>c. is_lower c \<or> is_digit c \<or> c \<in> {CHR ''-'', CHR ''.''}) (getMaxNameLength workloadKind) name
      then Some (NewBadRequest (''the name('' @ name @ '') must consist of 1 to '' @ itoa (int (getMaxNameLength workloadKind)) @
        '' lower case alphanumeric characters or '' @ ''- or .''))
      else None)"

definition validateDNSName :: "string \<Rightarrow> string \<Rightarrow> goerr option" where
  "validateDNSName name workloadKind =
     (if name = '''' then None
      else if \<not> matches_name (\<lambda>c. is_lower c \<or> is_digit c \<or> c = CHR ''-'') (getMaxNameLength workloadKind) name
      then Some (NewBadRequest (''the name('' @ name @ '') must consist of 1 to '' @ itoa (int (getMaxNameLength workloadKind)) @
        '' lower case alphanumeric characters or -''))
      else None)"

definition validateLabelKey :: "string \<Rightarrow> goerr option" where
  "validateLabelKey key =
     (if key = '''' then Some (NewBadRequest ''The label key cannot be empty'')
      else let parts = go_split CHR ''/'' key in
        if length parts > 2 then Some (NewBadRequest (''The label key('' @ key @ '') contains more than one /''))
        else first_error (map (\<lambda>part. fail_if (\<not> matches_label (MaxNameLength - 1) part)
               (NewBadRequest (''the name('' @ part @ '') must consist of 1 to 63 alphanumeric characters''))) parts))"

definition validateLabels :: "strmap \<Rightarrow> goerr option" where
  "validateLabels labels = first_error (map (\<lambda>(key, _). validateLabelKey key) labels)"

definition validatePort :: "string \<Rightarrow> int \<Rightarrow> goerr option" where
  "validatePort name port =
     fail_if (port < 1 \<or> port > 65535)
       (NewBadRequest (''The '' @ name @ '' port('' @ itoa port @ '') is invalid and needs to be between 1 and 65535''))"

section \<open>Look-ups\<close>

text \<open>An empty name gives a nil object without an error.\<close>

definition getNode :: "('q, 'z) hook_scheme \<Rightarrow> wlog \<Rightarrow> string \<Rightarrow> goerr + 'q Node option" where
  "getNode E lg nodeId = (if nodeId = '''' then Inr None else ebind (get_Node E lg nodeId) (\<lambda>n. Inr (Some n)))"

definition getNodeFlavor :: "('q, 'z) hook_scheme \<Rightarrow> wlog \<Rightarrow> string \<Rightarrow> goerr + 'q NodeFlavor option" where
  "getNodeFlavor E lg flavorId = (if flavorId = '''' then Inr None else ebind (get_NodeFlavor E lg flavorId) (\<lambda>n. Inr (Some n)))"

definition getCluster :: "('q, 'z) hook_scheme \<Rightarrow> wlog \<Rightarrow> string \<Rightarrow> goerr + Cluster option" where
  "getCluster E lg clusterId = (if clusterId = '''' then Inr None else ebind (get_Cluster E lg clusterId) (\<lambda>n. Inr (Some n)))"

definition hook_getWorkspace :: "('q, 'z) hook_scheme \<Rightarrow> wlog \<Rightarrow> string \<Rightarrow> goerr + 'q Workspace option" where
  "hook_getWorkspace E lg workspaceId =
     (if workspaceId = ''default'' \<or> workspaceId = '''' then Inr None else ebind (get_Workspace E lg workspaceId) (\<lambda>n. Inr (Some n)))"

definition getWorkload :: "('q, 'z) hook_scheme \<Rightarrow> wlog \<Rightarrow> string \<Rightarrow> goerr + Workload" where
  "getWorkload E lg workloadId = get_Workload E lg workloadId"

definition getUser :: "('q, 'z) hook_scheme \<Rightarrow> hlog \<Rightarrow> string \<Rightarrow> goerr + User" where
  "getUser E hl userId = (if userId = '''' then Inl (plain_error ''userId is empty'') else get_User E hl userId)"

text \<open>The callers that ignore the error.\<close>

definition or_nil :: "goerr + 'a option \<Rightarrow> 'a option" where
  "or_nil x = (case x of Inl _ \<Rightarrow> None | Inr y \<Rightarrow> y)"

text \<open>\<^verbatim>\<open>controllerutil.AddFinalizer\<close>.\<close>

definition AddFinalizer :: "string \<Rightarrow> ObjectMeta \<Rightarrow> ObjectMeta" where
  "AddFinalizer f m = (if f \<in> set (om_Finalizers m) then m else m\<lparr>om_Finalizers := om_Finalizers m @ [f]\<rparr>)"

definition HasOwnerReferences :: "ObjectMeta \<Rightarrow> string \<Rightarrow> bool" where
  "HasOwnerReferences obj name \<longleftrightarrow> list_ex (\<lambda>r. or_Name r = name) (om_OwnerReferences obj)"

text \<open>An error of \<open>SetOwner\<close> is only logged.\<close>

definition with_owner :: "('q, 'z) hook_scheme \<Rightarrow> string \<Rightarrow> ObjectMeta \<Rightarrow> ObjectMeta \<Rightarrow> ObjectMeta" where
  "with_owner E kind owner obj = (case SetOwner E kind owner obj of Inl _ \<Rightarrow> obj | Inr refs \<Rightarrow> obj\<lparr>om_OwnerReferences := refs\<rparr>)"

section \<open>Faults\<close>

definition fault_mutateOnCreation :: "('q, 'z) hook_scheme \<Rightarrow> wlog \<Rightarrow> Fault \<Rightarrow> Fault" where
  "fault_mutateOnCreation E lg fault =
     (let m0 = (f_Meta fault)\<lparr>om_Name := NormalizeName (om_Name (f_Meta fault))\<rparr>;
          m1 = AddFinalizer FaultFinalizer (snd (SetLabel m0 FaultMonitorId (fs_MonitorId (f_Spec fault))))
      in fault\<lparr>f_Meta :=
           (case fs_Node (f_Spec fault) of
              None \<Rightarrow> m1
            | Some node \<Rightarrow>
                let m2 = snd (SetLabel m1 ClusterIdLabel (fn_ClusterName node));
                    m3 = (if GetNodeId m2 = '''' then snd (SetLabel m2 NodeIdLabel (fn_AdminName node)) else m2)
                in if length (om_OwnerReferences m3) = 0
                   then (case or_nil (getNode E lg (fn_AdminName node)) of
                           None \<Rightarrow> m3 | Some n \<Rightarrow> with_owner E ''Node'' (n_Meta n) m3)
                   else m3)\<rparr>)"

definition FaultMutator_Handle :: "('q, 'z) hook_scheme \<Rightarrow> wlog \<Rightarrow> Fault request \<Rightarrow> Fault admission" where
  "FaultMutator_Handle E lg req =
     (case req of
        CreateReq (Inl e) \<Rightarrow> handleError (Some e)
      | CreateReq (Inr fault) \<Rightarrow> Patched (fault_mutateOnCreation E lg fault)
      | _ \<Rightarrow> Allowed)"

definition validateFaultSpec :: "Fault \<Rightarrow> goerr option" where
  "validateFaultSpec fault =
     (if fs_MonitorId (f_Spec fault) = '''' then Some (plain_error ''the id of spec is empty'')
      else case fs_Node (f_Spec fault) of
             None \<Rightarrow> None
           | Some node \<Rightarrow>
               if fn_ClusterName node = '''' \<or> GetClusterId (f_Meta fault) = '''' then Some (plain_error ''the cluster of spec is empty'')
               else if fn_AdminName node = '''' then Some (plain_error ''the admin node of spec is empty'')
               else None)"

definition fault_validateOnCreation :: "Fault \<Rightarrow> goerr option" where
  "fault_validateOnCreation fault = first_error [validateFaultSpec fault, validateDisplayName (GetDisplayName (f_Meta fault)) '''']"

definition fault_validateOnUpdate :: "Fault \<Rightarrow> Fault \<Rightarrow> goerr option" where
  "fault_validateOnUpdate newFault oldFault = validateFaultSpec newFault"

definition FaultValidator_Handle :: "Fault request \<Rightarrow> Fault admission" where
  "FaultValidator_Handle req =
     handleError
       (case req of
          CreateReq (Inl e) \<Rightarrow> Some e
        | CreateReq (Inr fault) \<Rightarrow> fault_validateOnCreation fault
        | UpdateReq (Inl e) _ \<Rightarrow> Some e
        | UpdateReq (Inr fault) old \<Rightarrow>
            if \<not> time_IsZero (om_DeletionTimestamp (f_Meta fault)) then None
            else (case old of Inl e \<Rightarrow> Some e | Inr oldFault \<Rightarrow> fault_validateOnUpdate fault oldFault)
        | DeleteReq _ \<Rightarrow> None)"

section \<open>Node flavors\<close>

definition GpuResourceWhiteList :: "string list" where "GpuResourceWhiteList = [NvidiaGpu, AmdGpu]"

definition isValidGpuResource :: "string \<Rightarrow> bool" where
  "isValidGpuResource name \<longleftrightarrow> list_ex (\<lambda>n. name = n) GpuResourceWhiteList"

definition flavor_mutateOnCreation :: "'q::linordered_ab_group_add NodeFlavor \<Rightarrow> 'q NodeFlavor" where
  "flavor_mutateOnCreation nf =
     (let nf1 = nf\<lparr>nf_Meta := (nf_Meta nf)\<lparr>om_Name := NormalizeName (om_Name (nf_Meta nf))\<rparr>\<rparr> in
      case nfs_Gpu (nf_Spec nf) of
        None \<Rightarrow> nf1
      | Some g \<Rightarrow> if gpu_Quantity g = 0 then nf1\<lparr>nf_Spec := (nf_Spec nf)\<lparr>nfs_Gpu := None\<rparr>\<rparr> else nf1)"

text \<open>Two methods that no handler calls.\<close>

definition mutateExtendResources :: "'q NodeFlavor \<Rightarrow> 'q NodeFlavor" where
  "mutateExtendResources nf =
     nf\<lparr>nf_Spec := (nf_Spec nf)\<lparr>nfs_ExtendResources :=
       fold (\<lambda>(key, val) m. let k = trim_char CHR '' '' key in if k = '''' then m else mput m k val) (nfs_ExtendResources (nf_Spec nf)) []\<rparr>\<rparr>"

definition flavor_validateImmutableFields :: "('q, 'z) hook_scheme \<Rightarrow> 'q NodeFlavor \<Rightarrow> 'q NodeFlavor \<Rightarrow> goerr option" where
  "flavor_validateImmutableFields E oldFlavor newFlavor =
     (case (nfs_Gpu (nf_Spec newFlavor), nfs_Gpu (nf_Spec oldFlavor)) of
        (None, Some _) \<Rightarrow> Some (immutable ''gpu'')
      | (Some _, None) \<Rightarrow> Some (immutable ''gpu'')
      | (None, None) \<Rightarrow> None
      | (Some n, Some old) \<Rightarrow>
          first_error [fail_if (gpu_ResourceName n \<noteq> gpu_ResourceName old) (immutable ''gpu''),
                       fail_if (q_Value E (gpu_Quantity n) \<noteq> q_Value E (gpu_Quantity old)) (immutable ''gpu''),
                       fail_if (gpu_Product n \<noteq> gpu_Product old) (immutable ''gpu'')])"

definition FlavorMutator_Handle :: "'q::linordered_ab_group_add NodeFlavor request \<Rightarrow> 'q NodeFlavor admission" where
  "FlavorMutator_Handle req =
     (case req of CreateReq (Inl e) \<Rightarrow> handleError (Some e) | CreateReq (Inr nf) \<Rightarrow> Patched (flavor_mutateOnCreation nf) | _ \<Rightarrow> Allowed)"

definition disk_invalid :: "('q, 'z) hook_scheme \<Rightarrow> 'q DiskFlavor option \<Rightarrow> bool" where
  "disk_invalid E d \<longleftrightarrow> (case d of None \<Rightarrow> False | Some disk \<Rightarrow> disk_Count disk \<le> 0 \<or> q_Value E (disk_Quantity disk) \<le> 0)"

definition extend_invalid :: "('q, 'z) hook_scheme \<Rightarrow> 'q NodeFlavor \<Rightarrow> string \<Rightarrow> bool" where
  "extend_invalid E nf key \<longleftrightarrow> (case mget (nfs_ExtendResources (nf_Spec nf)) key of None \<Rightarrow> False | Some q \<Rightarrow> q_Value E q \<le> 0)"

definition flavor_validateCommon :: "('q, 'z) hook_scheme \<Rightarrow> 'q NodeFlavor \<Rightarrow> goerr option" where
  "flavor_validateCommon E nf =
     first_error
       [fail_if (q_Value E (cpu_Quantity (nfs_Cpu (nf_Spec nf))) \<le> 0) (plain_error ''invalid cpu''),
        fail_if (q_Value E (nfs_Memory (nf_Spec nf)) \<le> 0) (plain_error ''invalid memory''),
        (case nfs_Gpu (nf_Spec nf) of
           None \<Rightarrow> None
         | Some g \<Rightarrow>
             if \<not> isValidGpuResource (gpu_ResourceName g) then Some (plain_error (''invalid gpu resourceName: '' @ gpu_ResourceName g))
             else fail_if (q_Value E (gpu_Quantity g) \<le> 0) (plain_error ''invalid gpu quantity'')),
        fail_if (disk_invalid E (nfs_RootDisk (nf_Spec nf))) (plain_error ''invalid root disk''),
        fail_if (disk_invalid E (nfs_DataDisk (nf_Spec nf))) (plain_error ''invalid root disk''),
        fail_if (extend_invalid E nf ResourceEphemeralStorage) (plain_error ''invalid ephemeral-storage''),
        fail_if (extend_invalid E nf (RdmaName E)) (plain_error (''invalid '' @ RdmaName E))]"

definition FlavorValidator_Handle :: "('q, 'z) hook_scheme \<Rightarrow> 'q NodeFlavor request \<Rightarrow> 'q NodeFlavor admission" where
  "FlavorValidator_Handle E req =
     (case (case req of CreateReq x \<Rightarrow> x | UpdateReq x _ \<Rightarrow> x | DeleteReq x \<Rightarrow> x) of
        Inl e \<Rightarrow> handleError (Some e)
      | Inr nf \<Rightarrow>
          if \<not> time_IsZero (om_DeletionTimestamp (nf_Meta nf)) then Allowed
          else handleError (case req of DeleteReq _ \<Rightarrow> None | _ \<Rightarrow> flavor_validateCommon E nf))"

section \<open>Nodes\<close>

definition DefaultNodePort :: int where "DefaultNodePort = 22"
definition MaxRecommendedStorage :: int where "MaxRecommendedStorage = 6000 * 1024 * 1024 * 1024"
definition SupportedTaintEffect :: "string list" where "SupportedTaintEffect = [''NoSchedule'', ''PreferNoSchedule'', ''NoExecute'']"
definition NodeFinalizer :: string where "NodeFinalizer = ''primus-safe/node.finalizer''"
definition NodeGpuCountLabel :: string where "NodeGpuCountLabel = ''primus-safe.node.gpu.count''"
definition NodeHostnameLabel :: string where "NodeHostnameLabel = ''primus-safe.node.hostname''"
definition NodeLabelAction :: string where "NodeLabelAction = ''primus-safe.node.label.action''"
definition NodeAnnotationAction :: string where "NodeAnnotationAction = ''primus-safe.node.annotation.action''"
definition NodeSubnetAnnotation :: string where "NodeSubnetAnnotation = ''primus-safe.node.subnet''"
definition NodeDiskAnnotation :: string where "NodeDiskAnnotation = ''primus-safe.node.disk.info''"
definition GpuResourceNameAnnotation :: string where "GpuResourceNameAnnotation = ''primus-safe.gpu.resource.name''"
definition NodeActionAdd :: string where "NodeActionAdd = ''add''"

lemmas node_key_defs = NodeGpuCountLabel_def NodeHostnameLabel_def NodeLabelAction_def NodeAnnotationAction_def NodeSubnetAnnotation_def
  NodeDiskAnnotation_def GpuResourceNameAnnotation_def NodeFlavorIdLabel_def WorkspaceIdLabel_def ClusterIdLabel_def

definition GetSpecHostName :: "'q Node \<Rightarrow> string" where
  "GetSpecHostName n = (case ns_Hostname (n_Spec n) of None \<Rightarrow> '''' | Some h \<Rightarrow> h)"

definition GetSpecPort :: "'q Node \<Rightarrow> int" where
  "GetSpecPort n = (case ns_Port (n_Spec n) of None \<Rightarrow> 0 | Some p \<Rightarrow> p)"

text \<open>A mutation that reports whether it has changed the object, after others.\<close>

definition also_do :: "('a \<Rightarrow> bool \<times> 'a) \<Rightarrow> bool \<times> 'a \<Rightarrow> bool \<times> 'a" where
  "also_do f st = (case f (snd st) of (c, x) \<Rightarrow> (fst st \<or> c, x))"

definition on_meta :: "(ObjectMeta \<Rightarrow> bool \<times> ObjectMeta) \<Rightarrow> 'q Node \<Rightarrow> bool \<times> 'q Node" where
  "on_meta f n = (case f (n_Meta n) of (c, m) \<Rightarrow> (c, n\<lparr>n_Meta := m\<rparr>))"

definition node_mutateSpec :: "'q Node \<Rightarrow> 'q Node" where
  "node_mutateSpec node =
     (let ip = trim_char CHR '' '' (ns_PrivateIP (n_Spec node)) in
      node\<lparr>n_Spec := (n_Spec node)
        \<lparr>ns_PrivateIP := ip,
         ns_Hostname := Some (if GetSpecHostName node = '''' then ip else trim_char CHR '' '' (GetSpecHostName node)),
         ns_Port := Some (case ns_Port (n_Spec node) of None \<Rightarrow> DefaultNodePort | Some p \<Rightarrow> p)\<rparr>\<rparr>)"

definition node_mutateMeta :: "'q Node \<Rightarrow> 'q Node" where
  "node_mutateMeta node =
     (let m0 = (n_Meta node)\<lparr>om_Name := NormalizeName (GetSpecHostName node)\<rparr>;
          m1 = (if GetDisplayName m0 = '''' then snd (SetLabel m0 DisplayNameLabel (GetSpecHostName node)) else m0);
          m2 = snd (SetLabel m1 NodeIdLabel (om_Name m1))
      in node\<lparr>n_Meta := AddFinalizer NodeFinalizer m2\<rparr>)"

definition node_mutateLabels :: "('q, 'z) hook_scheme \<Rightarrow> wlog \<Rightarrow> 'q Node \<Rightarrow> bool \<times> 'q Node" where
  "node_mutateLabels E lg node =
     on_meta (\<lambda>m.
       (also_do (\<lambda>m. if GetSpecCluster node = '''' then (False, m)
                     else case getCluster E lg (GetSpecCluster node) of
                            Inr (Some cluster) \<Rightarrow>
                              (case cp_KubePodsSubnet (cl_ControlPlane cluster) of
                                 Some subnet \<Rightarrow> SetAnnotation m NodeSubnetAnnotation subnet
                               | None \<Rightarrow> RemoveAnnotation m NodeSubnetAnnotation)
                          | _ \<Rightarrow> (False, m))
        (also_do (\<lambda>m. if GetSpecHostName node \<noteq> '''' then SetLabel m NodeHostnameLabel (GetSpecHostName node) else (False, m))
         (also_do (\<lambda>m. RemoveEmptyLabel m ClusterIdLabel)
          (also_do (\<lambda>m. RemoveEmptyLabel m WorkspaceIdLabel)
           (case ns_NodeFlavor (n_Spec node) of None \<Rightarrow> (False, m) | Some f \<Rightarrow> SetLabel m NodeFlavorIdLabel f)))))) node"

definition disk_info :: "('q, 'z) hook_scheme \<Rightarrow> 'q NodeFlavor \<Rightarrow> 'q \<Rightarrow> string" where
  "disk_info E nf storage =
     (let recommended = min (q_Value E storage) MaxRecommendedStorage in
      case nfs_DataDisk (nf_Spec nf) of
        None \<Rightarrow> marshal_DiskInfo E recommended '''' 0
      | Some d \<Rightarrow> marshal_DiskInfo E recommended (disk_Type d) (disk_Count d))"

definition node_mutateByNodeFlavor :: "('q::linordered_ab_group_add, 'z) hook_scheme \<Rightarrow> wlog \<Rightarrow> 'q Node \<Rightarrow> bool \<times> 'q Node" where
  "node_mutateByNodeFlavor E lg node =
     (case or_nil (getNodeFlavor E lg (GetNodeFlavorId (n_Meta node))) of
        None \<Rightarrow> (False, node)
      | Some nf \<Rightarrow>
          on_meta (\<lambda>m.
            also_do (\<lambda>m. case mget (nfs_ExtendResources (nf_Spec nf)) ResourceEphemeralStorage of
                           None \<Rightarrow> (False, m) | Some storage \<Rightarrow> SetAnnotation m NodeDiskAnnotation (disk_info E nf storage))
             (case (if NodeFlavor_HasGpu nf then nfs_Gpu (nf_Spec nf) else None) of
                Some g \<Rightarrow> also_do (\<lambda>m. SetLabel m NodeGpuCountLabel (q_String E (gpu_Quantity g)))
                            (SetAnnotation m GpuResourceNameAnnotation (gpu_ResourceName g))
              | None \<Rightarrow> also_do (\<lambda>m. RemoveLabel m NodeGpuCountLabel) (RemoveAnnotation m GpuResourceNameAnnotation))) node)"

definition node_mutateTaints :: "gotime \<Rightarrow> 'q Node \<Rightarrow> bool \<times> 'q Node" where
  "node_mutateTaints t node =
     (let taints = ns_Taints (n_Spec node) in
      if GetSpecCluster node = '''' then (length taints > 0, node\<lparr>n_Spec := (n_Spec node)\<lparr>ns_Taints := []\<rparr>\<rparr>)
      else (list_ex (\<lambda>x. taint_TimeAdded x = None) taints,
            node\<lparr>n_Spec := (n_Spec node)\<lparr>ns_Taints := map (\<lambda>x. if taint_TimeAdded x = None then x\<lparr>taint_TimeAdded := Some t\<rparr> else x) taints\<rparr>\<rparr>))"

definition node_mutateCommon :: "('q::linordered_ab_group_add, 'z) hook_scheme \<Rightarrow> wlog \<Rightarrow> 'q Node \<Rightarrow> bool \<times> 'q Node" where
  "node_mutateCommon E lg node =
     also_do (node_mutateTaints (now E)) (also_do (node_mutateByNodeFlavor E lg) (node_mutateLabels E lg node))"

definition node_mutateOnCreation :: "('q::linordered_ab_group_add, 'z) hook_scheme \<Rightarrow> wlog \<Rightarrow> 'q Node \<Rightarrow> bool \<times> 'q Node" where
  "node_mutateOnCreation E lg node = (True, snd (node_mutateCommon E lg (node_mutateMeta (node_mutateSpec node))))"

definition annotation_actions :: "ObjectMeta \<Rightarrow> ObjectMeta \<Rightarrow> strmap" where
  "annotation_actions newM oldM =
     (if GetAnnotation newM NodeDiskAnnotation \<noteq> GetAnnotation oldM NodeDiskAnnotation then [(NodeDiskAnnotation, NodeActionAdd)] else []) @
     (if GetAnnotation newM NodeSubnetAnnotation \<noteq> GetAnnotation oldM NodeSubnetAnnotation then [(NodeSubnetAnnotation, NodeActionAdd)] else [])"

definition node_mutateOnUpdate ::
  "('q::linordered_ab_group_add, 'z) hook_scheme \<Rightarrow> wlog \<Rightarrow> 'q Node \<Rightarrow> 'q Node \<Rightarrow> bool \<times> 'q Node" where
  "node_mutateOnUpdate E lg newNode oldNode =
     (case node_mutateCommon E lg newNode of
        (c0, n0) \<Rightarrow>
          let labelAction = (if GetLabel (n_Meta n0) NodeGpuCountLabel \<noteq> GetLabel (n_Meta oldNode) NodeGpuCountLabel
                             then [(NodeGpuCountLabel, NodeActionAdd)] else []);
              annotationAction = annotation_actions (n_Meta n0) (n_Meta oldNode);
              m1 = (if length labelAction > 0 then snd (SetAnnotation (n_Meta n0) NodeLabelAction (marshal_strmap E labelAction)) else n_Meta n0);
              m2 = (if length annotationAction > 0 then snd (SetAnnotation m1 NodeAnnotationAction (marshal_strmap E annotationAction)) else m1)
          in (c0 \<or> length labelAction > 0 \<or> length annotationAction > 0, n0\<lparr>n_Meta := m2\<rparr>))"

definition NodeMutator_Handle :: "('q::linordered_ab_group_add, 'z) hook_scheme \<Rightarrow> wlog \<Rightarrow> 'q Node request \<Rightarrow> 'q Node admission" where
  "NodeMutator_Handle E lg req =
     (let reply = (\<lambda>r. case r of (True, n) \<Rightarrow> Patched n | (False, _) \<Rightarrow> Allowed) in
      case req of
        DeleteReq _ \<Rightarrow> Allowed
      | CreateReq (Inl e) \<Rightarrow> handleError (Some e)
      | UpdateReq (Inl e) _ \<Rightarrow> handleError (Some e)
      | CreateReq (Inr node) \<Rightarrow>
          if \<not> time_IsZero (om_DeletionTimestamp (n_Meta node)) then Allowed else reply (node_mutateOnCreation E lg node)
      | UpdateReq (Inr node) old \<Rightarrow>
          if \<not> time_IsZero (om_DeletionTimestamp (n_Meta node)) then Allowed
          else (case old of Inl e \<Rightarrow> handleError (Some e) | Inr oldNode \<Rightarrow> reply (node_mutateOnUpdate E lg node oldNode)))"

fun validate_taints :: "strset \<Rightarrow> Taint list \<Rightarrow> goerr option" where
  "validate_taints taintSet [] = None"
| "validate_taints taintSet (t # ts) =
     (if set_Has taintSet (taint_Key t) then Some (NewBadRequest (''repeat taint, key: '' @ taint_Key t))
      else if taint_Effect t \<notin> set SupportedTaintEffect then Some (NewBadRequest (''invalid taint effect. key: '' @ taint_Key t))
      else case validateLabelKey (taint_Key t) of
             Some e \<Rightarrow> Some e
           | None \<Rightarrow> validate_taints (set_Insert [taint_Key t] taintSet) ts)"

definition validateNodeTaints :: "'q Node \<Rightarrow> goerr option" where
  "validateNodeTaints node = validate_taints set_New (ns_Taints (n_Spec node))"

definition validateNodeWorkspace :: "('q, 'z) hook_scheme \<Rightarrow> wlog \<Rightarrow> 'q Node \<Rightarrow> goerr option" where
  "validateNodeWorkspace E lg node = (case hook_getWorkspace E lg (GetSpecWorkspace node) of Inl e \<Rightarrow> Some e | Inr _ \<Rightarrow> None)"

definition validateNodeFlavor :: "('q, 'z) hook_scheme \<Rightarrow> wlog \<Rightarrow> 'q Node \<Rightarrow> goerr option" where
  "validateNodeFlavor E lg node =
     (case ns_NodeFlavor (n_Spec node) of
        None \<Rightarrow> Some (NewBadRequest ''the flavor of node is not found'')
      | Some f \<Rightarrow> fail_if (or_nil (getNodeFlavor E lg f) = None) (NewBadRequest (''the flavor('' @ f @ '') is not found'')))"

definition validateNodeSSH :: "'q Node \<Rightarrow> goerr option" where
  "validateNodeSSH node = fail_if (ns_SSHSecret (n_Spec node) = None) (NewBadRequest ''the ssh secret of node is not found'')"

definition validateNodeSpec :: "('q, 'z) hook_scheme \<Rightarrow> wlog \<Rightarrow> 'q Node \<Rightarrow> goerr option" where
  "validateNodeSpec E lg node =
     first_error [validateNodeWorkspace E lg node, validateNodeFlavor E lg node, validateNodeSSH node,
       validatePort ''Node'' (GetSpecPort node), fail_if (ns_PrivateIP (n_Spec node) = '''') (NewBadRequest ''privateIp is required''),
       validateNodeTaints node]"

definition node_validateCommon :: "('q, 'z) hook_scheme \<Rightarrow> wlog \<Rightarrow> 'q Node \<Rightarrow> goerr option" where
  "node_validateCommon E lg node =
     first_error [validateDisplayName (GetDisplayName (n_Meta node)) '''', validateLabels (om_Labels (n_Meta node)), validateNodeSpec E lg node]"

definition node_validateImmutableFields :: "'q Node \<Rightarrow> 'q Node \<Rightarrow> goerr option" where
  "node_validateImmutableFields newNode oldNode =
     first_error
       [fail_if (GetSpecHostName oldNode \<noteq> GetSpecHostName newNode) (immutable ''hostname''),
        fail_if (GetSpecCluster oldNode \<noteq> '''' \<and> GetSpecCluster newNode \<noteq> '''' \<and> GetSpecCluster oldNode \<noteq> GetSpecCluster newNode) (immutable ''cluster''),
        fail_if (GetSpecWorkspace oldNode \<noteq> '''' \<and> GetSpecWorkspace newNode \<noteq> '''' \<and> GetSpecWorkspace oldNode \<noteq> GetSpecWorkspace newNode) (immutable ''workspace''),
        fail_if (ns_PrivateIP (n_Spec oldNode) \<noteq> ns_PrivateIP (n_Spec newNode) \<and> IsControlPlane (n_Meta newNode)) (immutable ''privateIP'')]"

definition node_validateOnCreation :: "('q, 'z) hook_scheme \<Rightarrow> wlog \<Rightarrow> 'q Node \<Rightarrow> goerr option" where
  "node_validateOnCreation E lg node = node_validateCommon E lg node"

definition node_validateOnUpdate :: "('q, 'z) hook_scheme \<Rightarrow> wlog \<Rightarrow> 'q Node \<Rightarrow> 'q Node \<Rightarrow> goerr option" where
  "node_validateOnUpdate E lg newNode oldNode = first_error [node_validateImmutableFields newNode oldNode, node_validateCommon E lg newNode]"

definition NodeValidator_Handle :: "('q, 'z) hook_scheme \<Rightarrow> wlog \<Rightarrow> 'q Node request \<Rightarrow> 'q Node admission" where
  "NodeValidator_Handle E lg req =
     handleError
       (case req of
          CreateReq (Inl e) \<Rightarrow> Some e
        | CreateReq (Inr node) \<Rightarrow> node_validateOnCreation E lg node
        | UpdateReq (Inl e) _ \<Rightarrow> Some e
        | UpdateReq (Inr node) old \<Rightarrow>
            if \<not> time_IsZero (om_DeletionTimestamp (n_Meta node)) then None
            else (case old of Inl e \<Rightarrow> Some e | Inr oldNode \<Rightarrow> node_validateOnUpdate E lg node oldNode)
        | DeleteReq _ \<Rightarrow> None)"

section \<open>A patched node is settled\<close>

lemma snd_SetLabel [simp]:
  "mget (om_Labels (snd (SetLabel m k v))) k' = (if k' = k then Some v else mget (om_Labels m) k')"
  "om_Annotations (snd (SetLabel m k v)) = om_Annotations m" "om_DeletionTimestamp (snd (SetLabel m k v)) = om_DeletionTimestamp m"
  by (auto simp: SetLabel_def)

lemma snd_SetAnnotation [simp]:
  "mget (om_Annotations (snd (SetAnnotation m k v))) k' = (if k' = k then Some v else mget (om_Annotations m) k')"
  "om_Labels (snd (SetAnnotation m k v)) = om_Labels m" "om_DeletionTimestamp (snd (SetAnnotation m k v)) = om_DeletionTimestamp m"
  by (auto simp: SetAnnotation_def)

lemma snd_RemoveLabel [simp]:
  "mget (om_Labels (snd (RemoveLabel m k))) k' = (if k' = k then None else mget (om_Labels m) k')"
  "om_Annotations (snd (RemoveLabel m k)) = om_Annotations m" "om_DeletionTimestamp (snd (RemoveLabel m k)) = om_DeletionTimestamp m"
  by (auto simp: RemoveLabel_def mhas_def)

lemma snd_RemoveEmptyLabel [simp]:
  "mget (om_Labels (snd (RemoveEmptyLabel m k))) k' =
     (if k' = k \<and> mget (om_Labels m) k = Some '''' then None else mget (om_Labels m) k')"
  "om_Annotations (snd (RemoveEmptyLabel m k)) = om_Annotations m"
  "om_DeletionTimestamp (snd (RemoveEmptyLabel m k)) = om_DeletionTimestamp m"
  by (auto simp: RemoveEmptyLabel_def)

lemma snd_RemoveAnnotation [simp]:
  "mget (om_Annotations (snd (RemoveAnnotation m k))) k' = (if k' = k then None else mget (om_Annotations m) k')"
  "om_Labels (snd (RemoveAnnotation m k)) = om_Labels m" "om_DeletionTimestamp (snd (RemoveAnnotation m k)) = om_DeletionTimestamp m"
  by (auto simp: RemoveAnnotation_def mhas_def)

lemma settled_ops:
  "mget (om_Labels m) k = Some v \<Longrightarrow> SetLabel m k v = (False, m)"
  "mget (om_Annotations m) k = Some v \<Longrightarrow> SetAnnotation m k v = (False, m)"
  "mget (om_Labels m) k = None \<Longrightarrow> RemoveLabel m k = (False, m)"
  "mget (om_Labels m) k \<noteq> Some '''' \<Longrightarrow> RemoveEmptyLabel m k = (False, m)"
  "mget (om_Annotations m) k = None \<Longrightarrow> RemoveAnnotation m k = (False, m)"
  by (auto simp: SetLabel_def SetAnnotation_def RemoveLabel_def RemoveEmptyLabel_def RemoveAnnotation_def mhas_def)

lemma snd_also_do [simp]: "snd (also_do f st) = snd (f (snd st))"
  by (simp add: also_do_def split: prod.splits)

lemma also_do_settled [simp]: "f m = (False, m) \<Longrightarrow> also_do f (False, m) = (False, m)"
  by (simp add: also_do_def)

lemma snd_on_meta [simp]: "snd (on_meta f n) = n\<lparr>n_Meta := snd (f (n_Meta n))\<rparr>"
  by (simp add: on_meta_def split: prod.splits)

lemma on_meta_settled: "f (n_Meta n) = (False, n_Meta n) \<Longrightarrow> on_meta f n = (False, n)"
  by (simp add: on_meta_def)

lemma node_keys_distinct [simp]:
  "NodeGpuCountLabel \<noteq> NodeHostnameLabel" "NodeGpuCountLabel \<noteq> NodeFlavorIdLabel" "NodeGpuCountLabel \<noteq> WorkspaceIdLabel"
  "NodeGpuCountLabel \<noteq> ClusterIdLabel" "NodeHostnameLabel \<noteq> NodeFlavorIdLabel" "NodeHostnameLabel \<noteq> WorkspaceIdLabel"
  "NodeHostnameLabel \<noteq> ClusterIdLabel" "NodeFlavorIdLabel \<noteq> WorkspaceIdLabel" "NodeFlavorIdLabel \<noteq> ClusterIdLabel"
  "WorkspaceIdLabel \<noteq> ClusterIdLabel" "NodeSubnetAnnotation \<noteq> NodeDiskAnnotation" "NodeSubnetAnnotation \<noteq> GpuResourceNameAnnotation"
  "NodeSubnetAnnotation \<noteq> NodeLabelAction" "NodeSubnetAnnotation \<noteq> NodeAnnotationAction" "NodeDiskAnnotation \<noteq> GpuResourceNameAnnotation"
  "NodeDiskAnnotation \<noteq> NodeLabelAction" "NodeDiskAnnotation \<noteq> NodeAnnotationAction" "GpuResourceNameAnnotation \<noteq> NodeLabelAction"
  "GpuResourceNameAnnotation \<noteq> NodeAnnotationAction" "NodeLabelAction \<noteq> NodeAnnotationAction"
  by (simp_all add: node_key_defs)

lemmas node_keys_distinct' [simp] = node_keys_distinct [symmetric]

text \<open>What each of the three steps leaves behind.\<close>

definition labels_settled :: "('q, 'z) hook_scheme \<Rightarrow> wlog \<Rightarrow> 'q Node \<Rightarrow> ObjectMeta \<Rightarrow> bool" where
  "labels_settled E lg n m \<longleftrightarrow>
     (case ns_NodeFlavor (n_Spec n) of None \<Rightarrow> True | Some f \<Rightarrow> mget (om_Labels m) NodeFlavorIdLabel = Some f) \<and>
     mget (om_Labels m) WorkspaceIdLabel \<noteq> Some '''' \<and> mget (om_Labels m) ClusterIdLabel \<noteq> Some '''' \<and>
     (GetSpecHostName n \<noteq> '''' \<longrightarrow> mget (om_Labels m) NodeHostnameLabel = Some (GetSpecHostName n)) \<and>
     (GetSpecCluster n \<noteq> '''' \<longrightarrow> (case getCluster E lg (GetSpecCluster n) of
        Inr (Some cluster) \<Rightarrow> mget (om_Annotations m) NodeSubnetAnnotation = cp_KubePodsSubnet (cl_ControlPlane cluster) | _ \<Rightarrow> True))"

definition gpu_settled :: "('q::linordered_ab_group_add, 'z) hook_scheme \<Rightarrow> 'q NodeFlavor \<Rightarrow> ObjectMeta \<Rightarrow> bool" where
  "gpu_settled E nf m \<longleftrightarrow>
     (case (if NodeFlavor_HasGpu nf then nfs_Gpu (nf_Spec nf) else None) of
        Some g \<Rightarrow> mget (om_Labels m) NodeGpuCountLabel = Some (q_String E (gpu_Quantity g)) \<and>
                  mget (om_Annotations m) GpuResourceNameAnnotation = Some (gpu_ResourceName g)
      | None \<Rightarrow> mget (om_Labels m) NodeGpuCountLabel = None \<and> mget (om_Annotations m) GpuResourceNameAnnotation = None)"

definition disk_settled :: "('q, 'z) hook_scheme \<Rightarrow> 'q NodeFlavor \<Rightarrow> ObjectMeta \<Rightarrow> bool" where
  "disk_settled E nf m \<longleftrightarrow>
     (case mget (nfs_ExtendResources (nf_Spec nf)) ResourceEphemeralStorage of
        None \<Rightarrow> True | Some storage \<Rightarrow> mget (om_Annotations m) NodeDiskAnnotation = Some (disk_info E nf storage))"

definition flavor_settled :: "('q::linordered_ab_group_add, 'z) hook_scheme \<Rightarrow> wlog \<Rightarrow> ObjectMeta \<Rightarrow> bool" where
  "flavor_settled E lg m \<longleftrightarrow>
     (case or_nil (getNodeFlavor E lg (GetNodeFlavorId m)) of None \<Rightarrow> True | Some nf \<Rightarrow> gpu_settled E nf m \<and> disk_settled E nf m)"

definition taints_settled :: "'q Node \<Rightarrow> bool" where
  "taints_settled n \<longleftrightarrow>
     (if GetSpecCluster n = '''' then ns_Taints (n_Spec n) = [] else list_all (\<lambda>x. taint_TimeAdded x \<noteq> None) (ns_Taints (n_Spec n)))"

definition node_settled :: "('q::linordered_ab_group_add, 'z) hook_scheme \<Rightarrow> wlog \<Rightarrow> 'q Node \<Rightarrow> bool" where
  "node_settled E lg n \<longleftrightarrow> labels_settled E lg n (n_Meta n) \<and> flavor_settled E lg (n_Meta n) \<and> taints_settled n"

lemma node_settled_fixed:
  assumes "node_settled E lg n"
  shows "node_mutateCommon E lg n = (False, n)"
proof -
  have "node_mutateLabels E lg n = (False, n)"
    using assms by (auto simp: node_settled_def labels_settled_def node_mutateLabels_def settled_ops
        intro!: on_meta_settled split: option.splits sum.splits)
  moreover have "node_mutateByNodeFlavor E lg n = (False, n)"
    using assms by (auto simp: node_settled_def flavor_settled_def gpu_settled_def disk_settled_def node_mutateByNodeFlavor_def settled_ops
        intro!: on_meta_settled split: option.splits)
  moreover have "node_mutateTaints t n = (False, n)" for t
  proof -
    have "taints_settled n" using assms by (simp add: node_settled_def)
    moreover have "n\<lparr>n_Spec := (n_Spec n)\<lparr>ns_Taints := xs\<rparr>\<rparr> = n" if "ns_Taints (n_Spec n) = xs" for xs
      using that by (cases n; cases "n_Spec n") simp
    moreover have "map (\<lambda>x. if taint_TimeAdded x = None then x\<lparr>taint_TimeAdded := Some t\<rparr> else x) xs = xs"
      if "list_all (\<lambda>x. taint_TimeAdded x \<noteq> None) xs" for xs :: "Taint list"
      using that by (induction xs) auto
    moreover have "list_ex (\<lambda>x. taint_TimeAdded x = None) xs \<longleftrightarrow> \<not> list_all (\<lambda>x. taint_TimeAdded x \<noteq> None) xs" for xs :: "Taint list"
      by (induction xs) auto
    ultimately show ?thesis
      by (cases "GetSpecCluster n = ''''") (simp_all add: taints_settled_def node_mutateTaints_def Let_def)
  qed
  ultimately show ?thesis by (simp add: node_mutateCommon_def)
qed

lemma mutateLabels_settles: "labels_settled E lg n (n_Meta (snd (node_mutateLabels E lg n)))"
  by (simp add: labels_settled_def node_mutateLabels_def split: option.split sum.split)

lemma flavor_step_keeps_spec [simp]:
  "n_Spec (snd (node_mutateLabels E lg n)) = n_Spec n"
  "n_Spec (snd (node_mutateByNodeFlavor E lg n)) = n_Spec n"
  "n_Meta (snd (node_mutateTaints t n)) = n_Meta n"
  by (simp_all add: node_mutateLabels_def node_mutateByNodeFlavor_def node_mutateTaints_def Let_def split: option.splits)

lemma flavor_step_labels:
  "k \<noteq> NodeGpuCountLabel \<Longrightarrow> mget (om_Labels (n_Meta (snd (node_mutateByNodeFlavor E lg n)))) k = mget (om_Labels (n_Meta n)) k"
  "k \<noteq> GpuResourceNameAnnotation \<Longrightarrow> k \<noteq> NodeDiskAnnotation \<Longrightarrow>
   mget (om_Annotations (n_Meta (snd (node_mutateByNodeFlavor E lg n)))) k = mget (om_Annotations (n_Meta n)) k"
  by (simp_all add: node_mutateByNodeFlavor_def split: option.splits)

lemma mutateByNodeFlavor_settles: "flavor_settled E lg (n_Meta (snd (node_mutateByNodeFlavor E lg n)))"
proof -
  have "GetNodeFlavorId (n_Meta (snd (node_mutateByNodeFlavor E lg n))) = GetNodeFlavorId (n_Meta n)"
    by (simp add: GetNodeFlavorId_def GetLabel_def flavor_step_labels)
  moreover have "gpu_settled E nf (n_Meta (snd (node_mutateByNodeFlavor E lg n))) \<and> disk_settled E nf (n_Meta (snd (node_mutateByNodeFlavor E lg n)))"
    if "or_nil (getNodeFlavor E lg (GetNodeFlavorId (n_Meta n))) = Some nf" for nf
    using that by (simp add: gpu_settled_def disk_settled_def node_mutateByNodeFlavor_def split: option.splits)
  ultimately show ?thesis by (simp add: flavor_settled_def split: option.splits)
qed

lemma mutateTaints_settles: "taints_settled (snd (node_mutateTaints t n))"
  by (auto simp: taints_settled_def node_mutateTaints_def GetSpecCluster_def Let_def list_all_iff)

lemma spec_readers_cong:
  "n_Spec n = n_Spec n' \<Longrightarrow> labels_settled E lg n m = labels_settled E lg n' m"
  by (simp add: labels_settled_def GetSpecHostName_def GetSpecCluster_def)

lemma taint_step_spec [simp]: "labels_settled E lg (snd (node_mutateTaints t n)) m = labels_settled E lg n m"
  by (simp add: labels_settled_def GetSpecHostName_def GetSpecCluster_def node_mutateTaints_def Let_def cong: option.case_cong)

lemma node_mutateCommon_settles: "node_settled E lg (snd (node_mutateCommon E lg node))"
proof -
  define n1 where "n1 = snd (node_mutateLabels E lg node)"
  define n2 where "n2 = snd (node_mutateByNodeFlavor E lg n1)"
  have n1: "labels_settled E lg n1 (n_Meta n1)"
    using mutateLabels_settles [of E lg node] spec_readers_cong [of n1 node E lg "n_Meta n1"] by (simp add: n1_def)
  have "labels_settled E lg n1 (n_Meta n2)"
    using n1 by (simp add: labels_settled_def n2_def flavor_step_labels cong: option.case_cong sum.case_cong)
  then have "labels_settled E lg n2 (n_Meta n2)"
    using spec_readers_cong [of n2 n1 E lg "n_Meta n2"] by (simp add: n2_def)
  moreover have "flavor_settled E lg (n_Meta n2)" unfolding n2_def by (rule mutateByNodeFlavor_settles)
  moreover have "snd (node_mutateCommon E lg node) = snd (node_mutateTaints (now E) n2)"
    by (simp add: node_mutateCommon_def n1_def n2_def)
  ultimately show ?thesis by (simp add: node_settled_def mutateTaints_settles)
qed

text \<open>The actions of an update only touch annotations that no step reads.\<close>

lemma action_annotations_settled:
  assumes "node_settled E lg n" "k \<in> {NodeLabelAction, NodeAnnotationAction}"
  shows "node_settled E lg (n\<lparr>n_Meta := snd (SetAnnotation (n_Meta n) k v)\<rparr>)"
proof -
  have "GetNodeFlavorId (snd (SetAnnotation (n_Meta n) k v)) = GetNodeFlavorId (n_Meta n)"
    by (simp add: GetNodeFlavorId_def GetLabel_def)
  moreover have "k \<noteq> NodeSubnetAnnotation" "k \<noteq> NodeDiskAnnotation" "k \<noteq> GpuResourceNameAnnotation"
    using assms(2) by auto
  moreover from this have "gpu_settled E nf (snd (SetAnnotation (n_Meta n) k v)) = gpu_settled E nf (n_Meta n)"
    "disk_settled E nf (snd (SetAnnotation (n_Meta n) k v)) = disk_settled E nf (n_Meta n)"
    "labels_settled E lg n (snd (SetAnnotation (n_Meta n) k v)) = labels_settled E lg n (n_Meta n)" for nf
    by (simp_all add: gpu_settled_def disk_settled_def labels_settled_def cong: option.case_cong sum.case_cong)
  moreover have "labels_settled E lg (n\<lparr>n_Meta := m\<rparr>) = labels_settled E lg n" "taints_settled (n\<lparr>n_Meta := m\<rparr>) = taints_settled n" for m
    by (simp_all add: labels_settled_def taints_settled_def GetSpecHostName_def GetSpecCluster_def fun_eq_iff)
  ultimately show ?thesis
    using assms(1) by (simp add: node_settled_def flavor_settled_def split: option.splits)
qed

lemma node_update_settled:
  assumes "node_settled E lg n"
  shows "node_mutateOnUpdate E lg n n = (False, n)"
  using assms by (simp add: node_mutateOnUpdate_def node_settled_fixed annotation_actions_def)

lemma node_mutateOnUpdate_settles: "node_settled E lg (snd (node_mutateOnUpdate E lg n old))"
proof -
  obtain c n0 where c: "node_mutateCommon E lg n = (c, n0)" by fastforce
  then have 0: "node_settled E lg n0" using node_mutateCommon_settles [of E lg n] by simp
  then have 1: "node_settled E lg (n0\<lparr>n_Meta := snd (SetAnnotation (n_Meta n0) NodeLabelAction v)\<rparr>)"
    "node_settled E lg (n0\<lparr>n_Meta := snd (SetAnnotation (n_Meta n0) NodeAnnotationAction v)\<rparr>)" for v
    by (simp_all add: action_annotations_settled)
  have "node_settled E lg (n0\<lparr>n_Meta := snd (SetAnnotation (snd (SetAnnotation (n_Meta n0) NodeLabelAction v)) NodeAnnotationAction w)\<rparr>)" for v w
    using action_annotations_settled [OF 1(1), of NodeAnnotationAction] by simp
  with 0 1 show ?thesis by (simp add: node_mutateOnUpdate_def c Let_def)
qed

text \<open>C17: The mutation of nodes settles: whatever the handler answers with a patch, the patched node is admitted without a
  further patch when it is submitted again. (The controllers update nodes on every event; a webhook that changed its own
  result would never end that.)\<close>

theorem node_patch_settles:
  assumes "NodeMutator_Handle E lg req = Patched n"
  shows "NodeMutator_Handle E lg (UpdateReq (Inr n) (Inr n)) = Allowed"
proof -
  have created: "n = snd (node_mutateOnCreation E lg node) \<Longrightarrow> node_settled E lg n" for node
    using node_mutateCommon_settles by (simp add: node_mutateOnCreation_def)
  have updated: "n = snd (node_mutateOnUpdate E lg node old) \<Longrightarrow> node_settled E lg n" for node old
    using node_mutateOnUpdate_settles by simp
  have "(\<exists>node. n = snd (node_mutateOnCreation E lg node)) \<or> (\<exists>node old. n = snd (node_mutateOnUpdate E lg node old))"
  proof -
    have reply: "(case x of (True, n) \<Rightarrow> Patched n | (False, _) \<Rightarrow> Allowed) = Patched n \<Longrightarrow> n = snd x" for x :: "bool \<times> 'a Node"
      by (auto split: prod.splits bool.splits)
    show ?thesis
      using assms unfolding NodeMutator_Handle_def Let_def
      by (cases req) (auto simp: handleError_def dest!: reply split: sum.splits if_splits)
  qed
  with created updated have "node_settled E lg n" by blast
  then show ?thesis by (simp add: NodeMutator_Handle_def node_update_settled Let_def)
qed

section \<open>Generated names\<close>

lemma generated_name_fits:
  assumes "length rand = randomLength"
  shows "length (GenerateName rand base) \<le> MaxNameLength"
  using assms by (simp add: GenerateName_def name_length_defs)

lemma name_round_trip:
  assumes "length rand = randomLength" "base \<noteq> ''''"
  shows "GetBaseFromName (GenerateName rand base) = take MaxGeneratedNameLength base"
proof -
  have "take (min (length base) n) base = take n base" for n by (cases "length base \<le> n") simp_all
  moreover have "\<not> (min (length base) n < length base \<and> min (length base) n < n)" for n by simp
  moreover from this have "\<not> (min (length base) 57 < length base \<and> min (length base) 57 < 57)" by blast
  ultimately show ?thesis using assms by (auto simp: GetBaseFromName_def GenerateName_def name_length_defs Let_def nth_append)
qed

text \<open>The rule counts the two end characters on top of the limit: a PyTorch job may be named so that its pods exceed the 63 characters.\<close>

definition longest_name :: "string \<Rightarrow> string" where
  "longest_name kind = replicate (getMaxNameLength kind + 2) CHR ''a''"

lemma longest_name_admitted: "validateDNSName (longest_name kind) kind = None"
proof -
  have "set (butlast (tl (longest_name kind))) \<subseteq> {CHR ''a''}"
    by (auto simp: longest_name_def dest!: in_set_butlastD)
  moreover have "hd (longest_name kind) = CHR ''a''" "last (longest_name kind) = CHR ''a''" "length (longest_name kind) = getMaxNameLength kind + 2"
    by (simp_all add: longest_name_def)
  moreover have "longest_name kind \<noteq> ''''" by (simp add: longest_name_def)
  ultimately show ?thesis by (auto simp: validateDNSName_def matches_name_def is_lower_def list_all_iff)
qed

lemma longest_name_overflows:
  assumes "length rand = randomLength"
  shows "length (GenerateName rand (longest_name PytorchJobKind)) + 13 = MaxNameLength + 2"
  using assms by (simp add: GenerateName_def longest_name_def getMaxNameLength_def name_length_defs)

section \<open>Witnesses\<close>

text \<open>A server whose store is given by lists; maps are written \<open>k:v,k:v\<close>.\<close>

definition read_pair :: "string \<Rightarrow> string \<times> string" where
  "read_pair s = (takeWhile (\<lambda>c. c \<noteq> CHR '':'') s, tl (dropWhile (\<lambda>c. c \<noteq> CHR '':'') s))"

definition write_map :: "strmap \<Rightarrow> string" where
  "write_map m = (case m of [] \<Rightarrow> '''' | (k, v) # r \<Rightarrow> k @ '':'' @ v @ concat (map (\<lambda>(k, v). '','' @ k @ '':'' @ v) r))"

definition updated_users :: "User list \<Rightarrow> hlog \<Rightarrow> User list" where
  "updated_users us hl = fold (\<lambda>wr us. case wr of HookUpdateUser u \<Rightarrow> map (\<lambda>x. if u_Meta x = u_Meta u then u else x) us | _ \<Rightarrow> us) (effective hl) us"

definition sample_control :: ControlPlane where
  "sample_control = \<lparr>cp_Nodes = [''m1''], cp_KubeSprayImage = Some ''kubespray'', cp_KubePodsSubnet = Some ''10.0.0.0/16'',
     cp_KubeServiceAddress = Some ''10.254.0.0/16'', cp_KubeNetworkPlugin = None, cp_NodeLocalDNSIP = Some ''169.254.25.10''\<rparr>"

definition sample_hook :: "Workload list \<Rightarrow> int Workspace list \<Rightarrow> int Node list \<Rightarrow> int NodeFlavor list \<Rightarrow> User list \<Rightarrow> int hook" where
  "sample_hook ws wks ns nfs us = env.extend (sample_env ws wks ns nfs)
     \<lparr>hook_order = (\<lambda>m. m), hook_result = (\<lambda>_ _. None),
      get_Cluster = (\<lambda>_ n. Inr \<lparr>cl_Meta = blank_meta n, cl_ControlPlane = sample_control\<rparr>),
      get_User = (\<lambda>hl n. find_by ''User'' n (\<lambda>u. om_Name (u_Meta u)) (updated_users us hl)), list_Users = (\<lambda>hl. Inr (updated_users us hl)),
      list_Nodes = (\<lambda>_ sel. Inr (filter (\<lambda>n. sel (n_Meta n)) ns)), get_Secret = (\<lambda>_ _. None),
      SetOwner = (\<lambda>kind owner obj. Inr (om_OwnerReferences obj @ [\<lparr>or_Kind = kind, or_Name = om_Name owner, or_UID = om_UID owner, or_Controller = True\<rparr>])),
      json_strmap = (\<lambda>s. Inr (map read_pair (go_split CHR '','' s))), json_Resource = (\<lambda>s. Inl (plain_error ''json'')),
      marshal_strmap = write_map, marshal_strings = concat, marshal_DiskInfo = (\<lambda>a b c. itoa a @ b @ itoa c),
      q_String = itoa, q_HalfString = (\<lambda>q. itoa (q div 2)), Base64Encode = (\<lambda>s. s), IsBase64 = (\<lambda>_. True), MD5 = (\<lambda>s. s),
      cfg_WorkloadTTLSecond = 60, cfg_ImageSecret = ''img''\<rparr>"

lemma node_patch_settles_witness:
  "\<exists>n. NodeMutator_Handle (sample_hook [] [] [] [sample_flavor] []) [] (CreateReq (Inr free_node)) = Patched n \<and>
       NodeMutator_Handle (sample_hook [] [] [] [sample_flavor] []) [] (UpdateReq (Inr n) (Inr n)) = Allowed"
proof -
  let ?E = "sample_hook [] [] [] [sample_flavor] []"
  have "NodeMutator_Handle ?E [] (CreateReq (Inr free_node)) = Patched (snd (node_mutateOnCreation ?E [] free_node))"
    by (simp add: NodeMutator_Handle_def node_mutateOnCreation_def free_node_def plain_node_def blank_meta_def time_IsZero_def Let_def)
  from node_patch_settles [OF this] this show ?thesis by blast
qed

end
