(* ===== verification/Workspace_Webhook.thy ===== *)
theory Workspace_Webhook
  imports Webhooks
begin

text \<open>
  \<^verbatim>\<open>webhooks/pkg/workspace_webhook.go\<close>: what the admission server does with a workspace before it is stored. The mutator
  writes users and workloads on the way; \<open>hl\<close> is the log of these writes, and a write that has been made stays made when
  a later step fails. \<open>lg\<close> is the state of the API server when the request arrives.
\<close>

definition GpuProductAnnotation :: string where "GpuProductAnnotation = ''primus-safe.gpu.product''"
definition QueueFifoPolicy :: string where "QueueFifoPolicy = ''fifo''"
definition QueueBalancePolicy :: string where "QueueBalancePolicy = ''balance''"
definition VolumeHOSTPATH :: string where "VolumeHOSTPATH = ''hostpath''"
definition VolumePFS :: string where "VolumePFS = ''pfs''"
definition ReadWriteMany :: string where "ReadWriteMany = ''ReadWriteMany''"

definition hbind :: "(goerr + 'a) \<times> hlog \<Rightarrow> ('a \<Rightarrow> hlog \<Rightarrow> (goerr + 'b) \<times> hlog) \<Rightarrow> (goerr + 'b) \<times> hlog" where
  "hbind x f = (case x of (Inl e, hl) \<Rightarrow> (Inl e, hl) | (Inr a, hl) \<Rightarrow> f a hl)"

definition hook_write :: "('q, 'z) hook_scheme \<Rightarrow> hlog \<Rightarrow> hwrite \<Rightarrow> goerr option \<times> hlog" where
  "hook_write E hl wr = (let r = hook_result E hl wr in (r, hl @ [(wr, r)]))"

lemma hbind_simps [simp]:
  "hbind (Inl e, hl) f = (Inl e, hl)" "hbind (Inr a, hl) f = f a hl"
  by (simp_all add: hbind_def)

abbreviation on_spec :: "(WorkspaceSpec \<Rightarrow> WorkspaceSpec) \<Rightarrow> 'q Workspace \<Rightarrow> 'q Workspace" where
  "on_spec f w \<equiv> w\<lparr>wk_Spec := f (wk_Spec w)\<rparr>"

abbreviation on_wmeta :: "(ObjectMeta \<Rightarrow> bool \<times> ObjectMeta) \<Rightarrow> 'q Workspace \<Rightarrow> 'q Workspace" where
  "on_wmeta f w \<equiv> w\<lparr>wk_Meta := snd (f (wk_Meta w))\<rparr>"

section \<open>Mutation\<close>

definition isMaxRuntimeEqual :: "(string, int) gomap \<Rightarrow> (string, int) gomap \<Rightarrow> bool" where
  "isMaxRuntimeEqual old new \<longleftrightarrow> (if length old \<noteq> length new then False else list_all (\<lambda>(k, v). mget0 0 new k = v) old)"

definition workspace_mutateMeta :: "('q, 'z) hook_scheme \<Rightarrow> wlog \<Rightarrow> 'q Workspace \<Rightarrow> goerr + 'q Workspace" where
  "workspace_mutateMeta E lg workspace =
     (let m0 = (wk_Meta workspace)\<lparr>om_Name := NormalizeName (wk_Name workspace)\<rparr>;
          finish = (\<lambda>m. workspace\<lparr>wk_Meta := AddFinalizer WorkspaceFinalizer (snd (SetLabel m WorkspaceIdLabel (om_Name m)))\<rparr>)
      in if wsp_Cluster (wk_Spec workspace) \<noteq> ''''
         then ebind (getCluster E lg (wsp_Cluster (wk_Spec workspace))) (\<lambda>cl.
                case cl of
                  None \<Rightarrow> Inr (finish m0)
                | Some c \<Rightarrow>
                    let m1 = (if HasOwnerReferences m0 (om_Name (cl_Meta c)) then m0 else with_owner E ''Cluster'' (cl_Meta c) m0)
                    in Inr (finish (snd (SetLabel m1 ClusterIdLabel (wsp_Cluster (wk_Spec workspace))))))
         else Inr (finish m0))"

definition parseNodesAction :: "('q, 'z) hook_scheme \<Rightarrow> 'q Workspace \<Rightarrow> goerr + strmap" where
  "parseNodesAction E w =
     (if GetWorkspaceNodesAction (wk_Meta w) = '''' then Inr []
      else ebind (json_strmap E (GetWorkspaceNodesAction (wk_Meta w))) (\<lambda>actions. if length actions = 0 then Inr [] else Inr actions))"

text \<open>The loop over the actions of the request: the actions that have an effect, and the workspace with its replica adjusted.\<close>

definition nodes_action :: "('q, 'z) hook_scheme \<Rightarrow> wlog \<Rightarrow> string \<Rightarrow> string \<Rightarrow> strmap \<times> 'q Workspace \<Rightarrow> goerr + (strmap \<times> 'q Workspace)" where
  "nodes_action E lg key val st =
     (case st of
        (newActions, ws) \<Rightarrow>
          (case or_nil (getNode E lg key) of
             None \<Rightarrow> Inl (NewNotFound ''Node'' key)
           | Some n \<Rightarrow>
               if GetClusterId (n_Meta n) \<noteq> wsp_Cluster (wk_Spec ws)
               then Inl (plain_error (''the cluster('' @ GetClusterId (n_Meta n) @ '') of the operation and the workspace's cluster do not match''))
               else if val = NodeActionAdd \<and> GetSpecWorkspace n = wk_Name ws then Inr st
               else if val = NodeActionRemove \<and> GetSpecWorkspace n = '''' then Inr st
               else if val \<noteq> NodeActionAdd \<and> val \<noteq> NodeActionRemove then Inr st
               else if wsp_Replica (wk_Spec ws) = 0
               then Inr (mput newActions key val,
                         if val = NodeActionAdd
                         then on_spec (\<lambda>s. s\<lparr>wsp_NodeFlavor := GetNodeFlavorId (n_Meta n), wsp_Replica := 1\<rparr>) ws else ws)
               else if GetNodeFlavorId (n_Meta n) \<noteq> wsp_NodeFlavor (wk_Spec ws)
               then Inl (plain_error (''the flavor('' @ GetNodeFlavorId (n_Meta n) @ '') of the operation and the workspace's flavor do not match''))
               else Inr (mput newActions key val,
                         on_spec (\<lambda>s. s\<lparr>wsp_Replica := wsp_Replica s + (if val = NodeActionAdd then 1 else - 1)\<rparr>) ws)))"

fun nodes_actions :: "('q, 'z) hook_scheme \<Rightarrow> wlog \<Rightarrow> strmap \<Rightarrow> strmap \<times> 'q Workspace \<Rightarrow> goerr + (strmap \<times> 'q Workspace)" where
  "nodes_actions E lg [] st = Inr st"
| "nodes_actions E lg ((key, val) # rest) st = ebind (nodes_action E lg key val st) (nodes_actions E lg rest)"

definition mutateNodesAction :: "('q, 'z) hook_scheme \<Rightarrow> wlog \<Rightarrow> 'q Workspace \<Rightarrow> 'q Workspace \<Rightarrow> goerr + 'q Workspace" where
  "mutateNodesAction E lg oldWorkspace newWorkspace =
     (if wsp_Replica (wk_Spec oldWorkspace) \<noteq> wsp_Replica (wk_Spec newWorkspace)
      then Inl (plain_error (''the operation of specifying nodes and the modification of workspace replica '' @ ''cannot be performed simultaneously''))
      else if GetWorkspaceNodesAction (wk_Meta newWorkspace) = '''' then Inr newWorkspace
      else
        ebind (parseNodesAction E newWorkspace) (\<lambda>currentActions.
        ebind (nodes_actions E lg (hook_order E currentActions) ([], newWorkspace)) (\<lambda>(newActions, ws).
          let oldActions = (case parseNodesAction E oldWorkspace of Inl _ \<Rightarrow> [] | Inr a \<Rightarrow> a) in
          if length newActions = 0
          then Inr (if length oldActions = 0
                    then on_wmeta (\<lambda>m. RemoveAnnotation (snd (RemoveAnnotation m WorkspaceNodesAction)) WorkspaceForcedAction) ws
                    else on_wmeta (\<lambda>m. SetAnnotation m WorkspaceNodesAction (GetWorkspaceNodesAction (wk_Meta oldWorkspace))) ws)
          else if length oldActions > 0 \<and> \<not> maps_EqualIgnoreOrder oldActions newActions
          then Inl (NewResourceProcessing (''another job('' @ GetWorkspaceNodesAction (wk_Meta oldWorkspace) @ '') is processing, please wait for it to complete''))
          else Inr (if length newActions \<noteq> length currentActions
                    then on_wmeta (\<lambda>m. SetAnnotation m WorkspaceNodesAction (marshal_strmap E newActions)) ws else ws))))"

definition mutateQueuePolicy :: "'q Workspace \<Rightarrow> 'q Workspace" where
  "mutateQueuePolicy workspace =
     (if wsp_QueuePolicy (wk_Spec workspace) = '''' then on_spec (\<lambda>s. s\<lparr>wsp_QueuePolicy := QueueFifoPolicy\<rparr>) workspace else workspace)"

definition trim_slash :: "string \<Rightarrow> string" where
  "trim_slash s = (if s \<noteq> [] \<and> last s = CHR ''/'' then butlast s else s)"

text \<open>One volume, after its id has been fixed; and the loop that hands out ids above the largest one.\<close>

definition normal_volume :: "WorkspaceVolume \<Rightarrow> WorkspaceVolume" where
  "normal_volume vol =
     vol\<lparr>wv_MountPath := trim_slash (if wv_MountPath vol = '''' \<and> wv_HostPath vol \<noteq> '''' then wv_HostPath vol else wv_MountPath vol),
         wv_SubPath := trim_char CHR ''/'' (wv_SubPath vol),
         wv_AccessMode := (if wv_AccessMode vol = '''' then ReadWriteMany else wv_AccessMode vol)\<rparr>"

definition max_volume_id :: "WorkspaceVolume list \<Rightarrow> int" where
  "max_volume_id vols = fold (\<lambda>vol m. if wv_Id vol > m then wv_Id vol else m) vols 0"

fun volumes_from :: "int \<Rightarrow> WorkspaceVolume list \<Rightarrow> WorkspaceVolume list" where
  "volumes_from maxId [] = []"
| "volumes_from maxId (vol # vols) =
     (if wv_Id vol \<le> 0 then normal_volume (vol\<lparr>wv_Id := maxId + 1\<rparr>) # volumes_from (maxId + 1) vols
      else normal_volume vol # volumes_from maxId vols)"

definition mutateVolumes :: "'q Workspace \<Rightarrow> 'q Workspace" where
  "mutateVolumes workspace =
     on_spec (\<lambda>s. s\<lparr>wsp_Volumes := volumes_from (max_volume_id (wsp_Volumes s)) (wsp_Volumes s)\<rparr>) workspace"

definition workspace_mutateByNodeFlavor ::
  "('q::linordered_ab_group_add, 'z) hook_scheme \<Rightarrow> wlog \<Rightarrow> 'q Workspace \<Rightarrow> goerr + 'q Workspace" where
  "workspace_mutateByNodeFlavor E lg workspace =
     (if wsp_NodeFlavor (wk_Spec workspace) = '''' then Inr (on_spec (\<lambda>s. s\<lparr>wsp_Replica := 0\<rparr>) workspace)
      else if GetAnnotation (wk_Meta workspace) GpuResourceNameAnnotation = ''''
      then ebind (getNodeFlavor E lg (wsp_NodeFlavor (wk_Spec workspace))) (\<lambda>nf.
             Inr (case nf of
                    None \<Rightarrow> workspace
                  | Some f \<Rightarrow>
                      (case (if NodeFlavor_HasGpu f then nfs_Gpu (nf_Spec f) else None) of
                         None \<Rightarrow> workspace
                       | Some g \<Rightarrow> on_wmeta (\<lambda>m. SetAnnotation m GpuResourceNameAnnotation (gpu_ResourceName g)) workspace)))
      else Inr workspace)"

definition BuildAction :: "('q, 'z) hook_scheme \<Rightarrow> string \<Rightarrow> string list \<Rightarrow> string" where
  "BuildAction E action keys = marshal_strmap E (fold (\<lambda>k m. mput m k action) keys [])"

definition mutateScaleDown :: "('q, 'z) hook_scheme \<Rightarrow> wlog \<Rightarrow> 'q Workspace \<Rightarrow> 'q Workspace \<Rightarrow> goerr + 'q Workspace" where
  "mutateScaleDown E lg oldWorkspace newWorkspace =
     (let oldCount = wsp_Replica (wk_Spec oldWorkspace); newCount = wsp_Replica (wk_Spec newWorkspace) in
      if oldCount \<le> newCount then Inr newWorkspace
      else if newCount \<ge> CurrentReplica oldWorkspace then Inr newWorkspace
      else let cnt = CurrentReplica oldWorkspace - newCount in
        ebind (GetNodesForScalingDown (list_Workloads E lg) (list_Nodes E lg) (wk_Name newWorkspace) cnt) (\<lambda>nodes.
          if int (length nodes) \<noteq> cnt then Inl (NewInternalError ''failed to get enough nodes for scaling down'')
          else Inr (on_wmeta (\<lambda>m. SetAnnotation m WorkspaceNodesAction (BuildAction E NodeActionRemove (map n_Name nodes))) newWorkspace)))"

definition retuned_workload :: "'q Workspace \<Rightarrow> Workload \<Rightarrow> bool \<times> Workload" where
  "retuned_workload workspace w =
     (let (c1, m1) = (if wsp_EnablePreempt (wk_Spec workspace)
                      then also_do (\<lambda>m. RemoveAnnotation m RetryOnOriginalNodesAnnotation)
                             (SetAnnotation (w_Meta w) WorkloadEnablePreemptAnnotation TrueStr)
                      else RemoveAnnotation (w_Meta w) WorkloadEnablePreemptAnnotation);
          maxRuntime = GetMaxRunTime workspace (GetScope w);
          w1 = w\<lparr>w_Meta := m1\<rparr>
      in if ws_Timeout (w_Spec w) = None \<and> maxRuntime > 0 then (True, w1\<lparr>w_Spec := (w_Spec w)\<lparr>ws_Timeout := Some maxRuntime\<rparr>\<rparr>)
         else (c1, w1))"

fun update_workloads :: "('q, 'z) hook_scheme \<Rightarrow> 'q Workspace \<Rightarrow> Workload list \<Rightarrow> hlog \<Rightarrow> hlog" where
  "update_workloads E workspace [] hl = hl"
| "update_workloads E workspace (w # rest) hl =
     (case retuned_workload workspace w of
        (True, w') \<Rightarrow> update_workloads E workspace rest (snd (hook_write E hl (HookUpdateWorkload w')))
      | (False, _) \<Rightarrow> update_workloads E workspace rest hl)"

definition mutateWorkloadsOfWorkspace :: "('q, 'z) hook_scheme \<Rightarrow> wlog \<Rightarrow> hlog \<Rightarrow> 'q Workspace \<Rightarrow> (goerr + unit) \<times> hlog" where
  "mutateWorkloadsOfWorkspace E lg hl workspace =
     (case GetWorkloadsOfWorkspace E lg (wsp_Cluster (wk_Spec workspace)) [wk_Name workspace] IsEnd of
        Inl e \<Rightarrow> (Inl e, hl)
      | Inr workloads \<Rightarrow> (Inr (), update_workloads E workspace workloads hl))"

text \<open>An update of a user that the caller needs to succeed, made only when the user has changed.\<close>

definition save_user :: "('q, 'z) hook_scheme \<Rightarrow> hlog \<Rightarrow> bool \<times> User \<Rightarrow> (goerr + unit) \<times> hlog" where
  "save_user E hl cu =
     (case cu of
        (False, _) \<Rightarrow> (Inr (), hl)
      | (True, user) \<Rightarrow> (case hook_write E hl (HookUpdateUser user) of (Some e, hl') \<Rightarrow> (Inl e, hl') | (None, hl') \<Rightarrow> (Inr (), hl')))"

fun give_all :: "('q, 'z) hook_scheme \<Rightarrow> string \<Rightarrow> User list \<Rightarrow> hlog \<Rightarrow> (goerr + unit) \<times> hlog" where
  "give_all E name [] hl = (Inr (), hl)"
| "give_all E name (user # rest) hl = hbind (save_user E hl (AddWorkspace user [name])) (\<lambda>_. give_all E name rest)"

definition mutateDefaultWorkspaceUsers ::
  "('q, 'z) hook_scheme \<Rightarrow> hlog \<Rightarrow> 'q Workspace option \<Rightarrow> 'q Workspace \<Rightarrow> (goerr + unit) \<times> hlog" where
  "mutateDefaultWorkspaceUsers E hl oldWorkspace newWorkspace =
     (if \<not> wsp_IsDefault (wk_Spec newWorkspace) then (Inr (), hl)
      else if (case oldWorkspace of None \<Rightarrow> False | Some old \<Rightarrow> wsp_IsDefault (wk_Spec old)) then (Inr (), hl)
      else case list_Users E hl of Inl e \<Rightarrow> (Inl e, hl) | Inr users \<Rightarrow> give_all E (wk_Name newWorkspace) users hl)"

definition promoted :: "string \<Rightarrow> User \<Rightarrow> bool \<times> User" where
  "promoted name user = also_do (\<lambda>u. AddManagedWorkspace u [name]) (AddWorkspace user [name])"

text \<open>The two loops of \<open>mutateManagers\<close>; the first gives the managers that remain.\<close>

fun add_managers :: "('q, 'z) hook_scheme \<Rightarrow> string \<Rightarrow> string list \<Rightarrow> string list \<Rightarrow> hlog \<Rightarrow> (goerr + string list) \<times> hlog" where
  "add_managers E name [] managers hl = (Inr managers, hl)"
| "add_managers E name (userId # rest) managers hl =
     (case getUser E hl userId of
        Inl err \<Rightarrow>
          if api_IsNotFound E err then add_managers E name rest (fst (RemoveString managers userId)) hl
          else (Inl err, hl)
      | Inr user \<Rightarrow> hbind (save_user E hl (promoted name user)) (\<lambda>_. add_managers E name rest managers))"

fun del_managers :: "('q, 'z) hook_scheme \<Rightarrow> string \<Rightarrow> string list \<Rightarrow> hlog \<Rightarrow> (goerr + unit) \<times> hlog" where
  "del_managers E name [] hl = (Inr (), hl)"
| "del_managers E name (userId # rest) hl =
     (case getUser E hl userId of
        Inl err \<Rightarrow> if api_IsNotFound E err then del_managers E name rest hl else (Inl err, hl)
      | Inr user \<Rightarrow> hbind (save_user E hl (RemoveManagedWorkspace user name)) (\<lambda>_. del_managers E name rest))"

definition mutateManagers ::
  "('q, 'z) hook_scheme \<Rightarrow> hlog \<Rightarrow> 'q Workspace option \<Rightarrow> 'q Workspace \<Rightarrow> (goerr + 'q Workspace) \<times> hlog" where
  "mutateManagers E hl oldWorkspace newWorkspace =
     (let currentManagers = (case oldWorkspace of None \<Rightarrow> [] | Some old \<Rightarrow> wsp_Managers (wk_Spec old));
          wanted = wsp_Managers (wk_Spec newWorkspace)
      in hbind (add_managers E (wk_Name newWorkspace) (slice_Difference wanted currentManagers) wanted hl) (\<lambda>managers hl1.
           hbind (del_managers E (wk_Name newWorkspace) (slice_Difference currentManagers managers) hl1) (\<lambda>_ hl2.
             (Inr (on_spec (\<lambda>s. s\<lparr>wsp_Managers := managers\<rparr>) newWorkspace), hl2))))"

definition mutateGpuProduct ::
  "('q::linordered_ab_group_add, 'z) hook_scheme \<Rightarrow> wlog \<Rightarrow> 'q Workspace \<Rightarrow> goerr + 'q Workspace" where
  "mutateGpuProduct E lg workspace =
     (if wsp_NodeFlavor (wk_Spec workspace) = '''' \<or> HasAnnotation (wk_Meta workspace) GpuProductAnnotation then Inr workspace
      else ebind (get_NodeFlavor E lg (wsp_NodeFlavor (wk_Spec workspace))) (\<lambda>nf.
             Inr (case (if NodeFlavor_HasGpu nf then nfs_Gpu (nf_Spec nf) else None) of
                    None \<Rightarrow> workspace
                  | Some g \<Rightarrow> on_wmeta (\<lambda>m. SetAnnotation m GpuProductAnnotation (gpu_Product g)) workspace)))"

definition needs_retuning :: "'q Workspace option \<Rightarrow> 'q Workspace \<Rightarrow> bool" where
  "needs_retuning oldWorkspace newWorkspace \<longleftrightarrow>
     (case oldWorkspace of
        None \<Rightarrow> False
      | Some old \<Rightarrow> wsp_EnablePreempt (wk_Spec old) \<noteq> wsp_EnablePreempt (wk_Spec newWorkspace) \<or>
                    \<not> isMaxRuntimeEqual (wsp_MaxRuntime (wk_Spec old)) (wsp_MaxRuntime (wk_Spec newWorkspace)))"

definition workspace_mutateCommon ::
  "('q::linordered_ab_group_add, 'z) hook_scheme \<Rightarrow> wlog \<Rightarrow> hlog \<Rightarrow> 'q Workspace option \<Rightarrow> 'q Workspace \<Rightarrow> (goerr + 'q Workspace) \<times> hlog" where
  "workspace_mutateCommon E lg hl oldWorkspace newWorkspace =
     hbind (workspace_mutateByNodeFlavor E lg newWorkspace, hl) (\<lambda>w0 hl0.
       let w1 = mutateQueuePolicy (mutateVolumes w0) in
       hbind (if needs_retuning oldWorkspace w1 then mutateWorkloadsOfWorkspace E lg hl0 w1 else (Inr (), hl0)) (\<lambda>_ hl1.
       hbind (mutateManagers E hl1 oldWorkspace w1) (\<lambda>w2 hl2.
       hbind (mutateDefaultWorkspaceUsers E hl2 oldWorkspace w2) (\<lambda>_ hl3.
         (mutateGpuProduct E lg w2, hl3)))))"

definition workspace_mutateOnCreation ::
  "('q::linordered_ab_group_add, 'z) hook_scheme \<Rightarrow> wlog \<Rightarrow> hlog \<Rightarrow> 'q Workspace \<Rightarrow> (goerr + 'q Workspace) \<times> hlog" where
  "workspace_mutateOnCreation E lg hl workspace =
     hbind (workspace_mutateMeta E lg workspace, hl) (\<lambda>w hl. workspace_mutateCommon E lg hl None w)"

definition workspace_mutateOnUpdate ::
  "('q::linordered_ab_group_add, 'z) hook_scheme \<Rightarrow> wlog \<Rightarrow> hlog \<Rightarrow> 'q Workspace \<Rightarrow> 'q Workspace \<Rightarrow> (goerr + 'q Workspace) \<times> hlog" where
  "workspace_mutateOnUpdate E lg hl oldWorkspace newWorkspace =
     hbind (workspace_mutateCommon E lg hl (Some oldWorkspace) newWorkspace) (\<lambda>w hl.
       (if GetWorkspaceNodesAction (wk_Meta oldWorkspace) \<noteq> GetWorkspaceNodesAction (wk_Meta w)
        then mutateNodesAction E lg oldWorkspace w else mutateScaleDown E lg oldWorkspace w, hl))"

definition WorkspaceMutator_Handle ::
  "('q::linordered_ab_group_add, 'z) hook_scheme \<Rightarrow> wlog \<Rightarrow> 'q Workspace request \<Rightarrow> 'q Workspace admission \<times> hlog" where
  "WorkspaceMutator_Handle E lg req =
     (let reply = (\<lambda>(r, hl). (case r of Inl e \<Rightarrow> handleError (Some e) | Inr w \<Rightarrow> Patched w, hl)) in
      case req of
        DeleteReq _ \<Rightarrow> (Allowed, [])
      | CreateReq (Inl e) \<Rightarrow> (handleError (Some e), [])
      | UpdateReq (Inl e) _ \<Rightarrow> (handleError (Some e), [])
      | CreateReq (Inr workspace) \<Rightarrow>
          if \<not> time_IsZero (om_DeletionTimestamp (wk_Meta workspace)) then (Allowed, [])
          else reply (workspace_mutateOnCreation E lg [] workspace)
      | UpdateReq (Inr workspace) old \<Rightarrow>
          if \<not> time_IsZero (om_DeletionTimestamp (wk_Meta workspace)) then (Allowed, [])
          else (case old of Inl _ \<Rightarrow> (Patched workspace, []) | Inr oldWorkspace \<Rightarrow> reply (workspace_mutateOnUpdate E lg [] oldWorkspace workspace)))"

section \<open>Validation\<close>

definition workspace_validateRequiredParams :: "'q Workspace \<Rightarrow> goerr option" where
  "workspace_validateRequiredParams workspace =
     NewAggregate
       (only_if (wsp_Cluster (wk_Spec workspace) = '''' \<or> GetClusterId (wk_Meta workspace) = '''') (plain_error ''the cluster is empty'') @
        only_if (wsp_QueuePolicy (wk_Spec workspace) \<noteq> QueueFifoPolicy \<and> wsp_QueuePolicy (wk_Spec workspace) \<noteq> QueueBalancePolicy)
          (plain_error (''invalid queue policy. unsupported: '' @ wsp_QueuePolicy (wk_Spec workspace) @ '', supported: [fifo, balance]'')) @
        only_if (wk_Name workspace \<in> {''default'', ''kube-public'', ''kube-system''})
          (plain_error ''the name of workspace is invalid. It cannot be reserved words'') @
        only_if (GetDisplayName (wk_Meta workspace) = '''') (plain_error ''the displayName is empty''))"

definition workspace_validateScaleDown :: "('q, 'z) hook_scheme \<Rightarrow> wlog \<Rightarrow> 'q Workspace \<Rightarrow> 'q Workspace \<Rightarrow> goerr option" where
  "workspace_validateScaleDown E lg newWorkspace oldWorkspace =
     (if wsp_Replica (wk_Spec oldWorkspace) \<le> wsp_Replica (wk_Spec newWorkspace) then None
      else let sourceWorkloadId = GetSourceWorkloadId (wk_Meta newWorkspace) in
        if sourceWorkloadId = '''' then None
        else case getWorkload E lg sourceWorkloadId of
               Inl _ \<Rightarrow> None
             | Inr workload \<Rightarrow> fail_if (\<not> IsEnd workload)
                 (NewConflict (''Scaling down is not allowed before the workload('' @ sourceWorkloadId @ '') finishes.'')))"

definition validateRelatedResource :: "('q, 'z) hook_scheme \<Rightarrow> wlog \<Rightarrow> 'q Workspace \<Rightarrow> goerr option" where
  "validateRelatedResource E lg workspace =
     (if wsp_Replica (wk_Spec workspace) \<le> 0 \<or> wsp_NodeFlavor (wk_Spec workspace) = '''' then None
      else first_error
        [fail_if (or_nil (getNodeFlavor E lg (wsp_NodeFlavor (wk_Spec workspace))) = None)
           (NewNotFound ''NodeFlavor'' (wsp_NodeFlavor (wk_Spec workspace))),
         fail_if (or_nil (getCluster E lg (wsp_Cluster (wk_Spec workspace))) = None)
           (NewNotFound ''Cluster'' (wsp_Cluster (wk_Spec workspace)))])"

definition volume_id :: "WorkspaceVolume \<Rightarrow> string" where
  "volume_id vol = GenFullVolumeId (wv_Type vol) (wv_Id vol)"

definition supportedTypes :: "string list" where "supportedTypes = [VolumeHOSTPATH, VolumePFS]"
definition supportedAccessMode :: "string list" where
  "supportedAccessMode = [''ReadWriteOnce'', ReadWriteMany, ''ReadOnlyMany'', ''ReadWriteOncePod'']"

definition volume_unchanged :: "WorkspaceVolume \<Rightarrow> WorkspaceVolume \<Rightarrow> goerr option" where
  "volume_unchanged oldVolume vol =
     first_error
       [fail_if (wv_StorageClass oldVolume \<noteq> wv_StorageClass vol) (plain_error (''the storageClass of volume('' @ volume_id vol @ '') can not be changed'')),
        fail_if (wv_Capacity oldVolume \<noteq> wv_Capacity vol) (plain_error (''the capacity of volume('' @ volume_id vol @ '') can not be changed'')),
        fail_if (\<not> maps_EqualIgnoreOrder (wv_Selector oldVolume) (wv_Selector vol))
          (plain_error (''the pv selector of volume('' @ volume_id vol @ '') can not be changed''))]"

definition validate_volume :: "('q::linordered_ab_group_add, 'z) hook_scheme \<Rightarrow> (string, WorkspaceVolume) gomap \<Rightarrow> WorkspaceVolume \<Rightarrow> goerr option" where
  "validate_volume E oldVolumeMap vol =
     (if wv_MountPath vol = '''' then Some (plain_error ''the mountPath of volume is required'')
      else if \<not> slice_Contains supportedTypes (wv_Type vol)
      then Some (plain_error ''invalid volume storage type. only [hostpath pfs] supported'')
      else if wv_Type vol = VolumeHOSTPATH
      then fail_if (wv_HostPath vol = '''') (plain_error ''the hostPath of volume is required for hostpath storage'')
      else if wv_StorageClass vol = '''' \<and> length (wv_Selector vol) = 0 then Some (plain_error ''the storageClass or pv selector is empty'')
      else if wv_Capacity vol = '''' then Some (plain_error ''the capacity of volume is empty'')
      else case q_Parse E (wv_Capacity vol) of
             Inl e \<Rightarrow> Some (plain_error e)
           | Inr q \<Rightarrow>
               if q = 0 then Some (plain_error ''the capacity of volume is zero'')
               else case (case mget oldVolumeMap (volume_id vol) of None \<Rightarrow> None | Some oldVolume \<Rightarrow> volume_unchanged oldVolume vol) of
                      Some e \<Rightarrow> Some e
                    | None \<Rightarrow> fail_if (\<not> slice_Contains supportedAccessMode (wv_AccessMode vol))
                        (plain_error ''invalid volume access mode. only [ReadWriteOnce ReadWriteMany ReadOnlyMany ReadWriteOncePod] supported''))"

definition validateVolumes :: "('q::linordered_ab_group_add, 'z) hook_scheme \<Rightarrow> 'q Workspace \<Rightarrow> 'q Workspace option \<Rightarrow> goerr option" where
  "validateVolumes E newWorkspace oldWorkspace =
     (let oldVolumeMap = (case oldWorkspace of
                            None \<Rightarrow> []
                          | Some old \<Rightarrow> fold (\<lambda>vol m. mput m (volume_id vol) vol) (wsp_Volumes (wk_Spec old)) [])
      in first_error (map (validate_volume E oldVolumeMap) (wsp_Volumes (wk_Spec newWorkspace))))"

definition workspace_validateImmutableFields :: "'q Workspace \<Rightarrow> 'q Workspace \<Rightarrow> goerr option" where
  "workspace_validateImmutableFields newWorkspace oldWorkspace =
     fail_if (wsp_Cluster (wk_Spec newWorkspace) \<noteq> '''' \<and> wsp_Cluster (wk_Spec newWorkspace) \<noteq> wsp_Cluster (wk_Spec oldWorkspace))
       (immutable ''cluster'')"

definition pvc_ids :: "'q Workspace \<Rightarrow> string list" where
  "pvc_ids w = map volume_id (filter (\<lambda>vol. wv_Type vol \<noteq> VolumeHOSTPATH) (wsp_Volumes (wk_Spec w)))"

definition not_running :: "Workload \<Rightarrow> bool" where
  "not_running w \<longleftrightarrow> IsEnd w \<or> \<not> IsWorkloadDispatched (w_Meta w)"

definition validateVolumeRemoved :: "('q, 'z) hook_scheme \<Rightarrow> wlog \<Rightarrow> 'q Workspace \<Rightarrow> 'q Workspace \<Rightarrow> goerr option" where
  "validateVolumeRemoved E lg newWorkspace oldWorkspace =
     (case find (\<lambda>i. \<not> set_Has (set_Insert (pvc_ids newWorkspace) set_New) i) (pvc_ids oldWorkspace) of
        None \<Rightarrow> None
      | Some volumeId \<Rightarrow>
          (case GetWorkloadsOfWorkspace E lg (GetClusterId (wk_Meta newWorkspace)) [wk_Name newWorkspace] not_running of
             Inl _ \<Rightarrow> None
           | Inr [] \<Rightarrow> None
           | Inr (w # _) \<Rightarrow> Some (NewConflict (''the pvc('' @ volumeId @ '') is used by workload('' @ om_Name (w_Meta w) @ ''), it can not be removed''))))"

definition in_use :: "string \<Rightarrow> Workload \<Rightarrow> goerr" where
  "in_use node w = NewForbidden (''the node('' @ node @ '') is currently in use by the workload('' @ om_Name (w_Meta w) @
     '') and cannot be removed. alternatively, you can force the unbinding.'')"

definition workload_blocks :: "strset \<Rightarrow> Workload \<Rightarrow> goerr option" where
  "workload_blocks nodeNamesSet w =
     (case find (set_Has nodeNamesSet)
             (if length (st_NodeUsage (w_Status w)) > 0 then map npu_Node (st_NodeUsage (w_Status w))
              else map pod_AdminNodeName (st_Pods (w_Status w))) of
        None \<Rightarrow> None | Some n \<Rightarrow> Some (in_use n w))"

definition validateNodesRemoved :: "('q, 'z) hook_scheme \<Rightarrow> wlog \<Rightarrow> 'q Workspace \<Rightarrow> string list \<Rightarrow> goerr option" where
  "validateNodesRemoved E lg workspace nodeNames =
     (if length nodeNames = 0 \<or> HasAnnotation (wk_Meta workspace) WorkspaceForcedAction then None
      else case GetWorkloadsOfWorkspace E lg (wsp_Cluster (wk_Spec workspace)) [wk_Name workspace] not_running of
             Inl err \<Rightarrow> Some err
           | Inr runningWorkloads \<Rightarrow> first_error (map (workload_blocks (NewSetByKeys nodeNames)) runningWorkloads))"

definition validate_action :: "('q, 'z) hook_scheme \<Rightarrow> wlog \<Rightarrow> 'q Workspace \<Rightarrow> string \<Rightarrow> string \<Rightarrow> goerr option" where
  "validate_action E lg newWorkspace key val =
     (case or_nil (getNode E lg key) of
        None \<Rightarrow> Some (NewNotFound ''Node'' key)
      | Some n \<Rightarrow>
          if GetClusterId (n_Meta n) \<noteq> wsp_Cluster (wk_Spec newWorkspace)
          then Some (plain_error (''the node '' @ n_Name n @ '' and workspace '' @ wk_Name newWorkspace @ '' are not in the same cluster''))
          else if val = NodeActionAdd
          then fail_if (GetSpecWorkspace n \<noteq> '''') (plain_error (''the node('' @ key @ '') is bound for '' @ GetSpecWorkspace n @ ''. it can't be added''))
          else if val = NodeActionRemove
          then fail_if (GetSpecWorkspace n \<noteq> wk_Name newWorkspace)
                 (plain_error (''the node('' @ key @ '') belongs to workspace('' @ GetSpecWorkspace n @ ''). it can't be removed''))
          else None)"

definition validateNodesAction :: "('q, 'z) hook_scheme \<Rightarrow> wlog \<Rightarrow> 'q Workspace \<Rightarrow> 'q Workspace \<Rightarrow> goerr option" where
  "validateNodesAction E lg newWorkspace oldWorkspace =
     (let oldActions = (case parseNodesAction E oldWorkspace of Inl _ \<Rightarrow> [] | Inr a \<Rightarrow> a) in
      case parseNodesAction E newWorkspace of
        Inl err \<Rightarrow> Some err
      | Inr newActions \<Rightarrow>
          if length oldActions > 0 \<and> length newActions > 0 \<and> \<not> maps_EqualIgnoreOrder oldActions newActions
          then Some (NewResourceProcessing (''another job('' @ GetWorkspaceNodesAction (wk_Meta oldWorkspace) @ '') is processing, please wait for it to complete''))
          else first_error
            [first_error (map (\<lambda>(key, val). validate_action E lg newWorkspace key val) (hook_order E newActions)),
             validateNodesRemoved E lg newWorkspace (map fst (filter (\<lambda>(_, val). val = NodeActionRemove) (hook_order E newActions)))])"

definition workspace_validateCommon ::
  "('q::linordered_ab_group_add, 'z) hook_scheme \<Rightarrow> wlog \<Rightarrow> 'q Workspace \<Rightarrow> 'q Workspace option \<Rightarrow> goerr option" where
  "workspace_validateCommon E lg newWorkspace oldWorkspace =
     first_error
       [workspace_validateRequiredParams newWorkspace, validateVolumes E newWorkspace oldWorkspace,
        validateDNSName (GetDisplayName (wk_Meta newWorkspace)) '''',
        if (case oldWorkspace of None \<Rightarrow> True | Some old \<Rightarrow> wsp_Replica (wk_Spec newWorkspace) > wsp_Replica (wk_Spec old))
        then validateRelatedResource E lg newWorkspace else None]"

definition workspace_validateOnCreation :: "('q::linordered_ab_group_add, 'z) hook_scheme \<Rightarrow> wlog \<Rightarrow> 'q Workspace \<Rightarrow> goerr option" where
  "workspace_validateOnCreation E lg workspace = workspace_validateCommon E lg workspace None"

definition workspace_validateOnUpdate ::
  "('q::linordered_ab_group_add, 'z) hook_scheme \<Rightarrow> wlog \<Rightarrow> 'q Workspace \<Rightarrow> 'q Workspace \<Rightarrow> goerr option" where
  "workspace_validateOnUpdate E lg newWorkspace oldWorkspace =
     first_error
       [workspace_validateImmutableFields newWorkspace oldWorkspace, workspace_validateCommon E lg newWorkspace (Some oldWorkspace),
        validateNodesAction E lg newWorkspace oldWorkspace, validateVolumeRemoved E lg newWorkspace oldWorkspace,
        workspace_validateScaleDown E lg newWorkspace oldWorkspace]"

definition WorkspaceValidator_Handle ::
  "('q::linordered_ab_group_add, 'z) hook_scheme \<Rightarrow> wlog \<Rightarrow> 'q Workspace request \<Rightarrow> 'q Workspace admission" where
  "WorkspaceValidator_Handle E lg req =
     handleError
       (case req of
          CreateReq (Inl e) \<Rightarrow> Some e
        | CreateReq (Inr workspace) \<Rightarrow> workspace_validateOnCreation E lg workspace
        | UpdateReq (Inl e) _ \<Rightarrow> Some e
        | UpdateReq (Inr workspace) old \<Rightarrow>
            if \<not> time_IsZero (om_DeletionTimestamp (wk_Meta workspace)) then None
            else (case old of Inl e \<Rightarrow> Some e | Inr oldWorkspace \<Rightarrow> workspace_validateOnUpdate E lg workspace oldWorkspace)
        | DeleteReq _ \<Rightarrow> None)"

section \<open>Volume ids\<close>

lemma normal_volume_id [simp]: "wv_Id (normal_volume vol) = wv_Id vol"
  by (simp add: normal_volume_def)

lemma max_volume_id_bound: "0 \<le> max_volume_id vols" "\<forall>v \<in> set vols. wv_Id v \<le> max_volume_id vols"
proof -
  have "m \<le> fold (\<lambda>vol m. if wv_Id vol > m then wv_Id vol else m) vols m \<and>
        (\<forall>v \<in> set vols. wv_Id v \<le> fold (\<lambda>vol m. if wv_Id vol > m then wv_Id vol else m) vols m)" for m :: int
  proof (induction vols arbitrary: m)
    case (Cons a vols)
    from Cons.IH [of m] Cons.IH [of "wv_Id a"] show ?case by (cases "m < wv_Id a") auto
  qed simp
  then show "0 \<le> max_volume_id vols" "\<forall>v \<in> set vols. wv_Id v \<le> max_volume_id vols"
    by (simp_all add: max_volume_id_def)
qed

lemma volumes_from_range:
  "v' \<in> set (volumes_from m vols) \<Longrightarrow> m < wv_Id v' \<or> 0 < wv_Id v' \<and> wv_Id v' \<in> wv_Id ` set vols"
  by (induction m vols rule: volumes_from.induct) (fastforce split: if_splits)+

lemma volumes_from_keeps: "list_all2 (\<lambda>v v'. 0 < wv_Id v \<longrightarrow> wv_Id v' = wv_Id v) vols (volumes_from m vols)"
  by (induction m vols rule: volumes_from.induct) auto

lemma volumes_from_distinct:
  assumes "\<forall>v \<in> set vols. wv_Id v \<le> m" "0 \<le> m" "distinct (filter (\<lambda>i. 0 < i) (map wv_Id vols))"
  shows "distinct (map wv_Id (volumes_from m vols))"
  using assms
proof (induction m vols rule: volumes_from.induct)
  case (2 m vol vols)
  show ?case
  proof (cases "wv_Id vol \<le> 0")
    case True
    have "m + 1 \<notin> wv_Id ` set (volumes_from (m + 1) vols)"
      using volumes_from_range [of _ "m + 1" vols] 2(3) by fastforce
    moreover have "distinct (map wv_Id (volumes_from (m + 1) vols))"
      using 2(1) [OF True] 2(3-5) True by fastforce
    ultimately show ?thesis using True by simp
  next
    case False
    have "wv_Id vol \<notin> wv_Id ` set (volumes_from m vols)"
      using volumes_from_range [of _ m vols] 2(3,5) False by fastforce
    then show ?thesis using 2(2) [OF False] 2(3-5) False by simp
  qed
qed simp

text \<open>The mutation of the volumes of a workspace gives every volume a positive id, leaves the positive ids as they are,
  and keeps the ids distinct: a volume id names the persistent volume claim of the volume, and two volumes never share
  one.\<close>

lemma volume_ids_assigned:
  assumes "distinct (filter (\<lambda>i. 0 < i) (map wv_Id (wsp_Volumes (wk_Spec w))))" and "vols' = wsp_Volumes (wk_Spec (mutateVolumes w))"
  shows "distinct (map wv_Id vols') \<and> (\<forall>v \<in> set vols'. 0 < wv_Id v) \<and>
         list_all2 (\<lambda>v v'. 0 < wv_Id v \<longrightarrow> wv_Id v' = wv_Id v) (wsp_Volumes (wk_Spec w)) vols'"
proof -
  let ?vols = "wsp_Volumes (wk_Spec w)" and ?m = "max_volume_id (wsp_Volumes (wk_Spec w))"
  have vols': "vols' = volumes_from ?m ?vols" by (simp add: assms(2) mutateVolumes_def)
  have "distinct (map wv_Id vols')"
    unfolding vols' using max_volume_id_bound [of ?vols] assms(1) by (intro volumes_from_distinct) auto
  moreover have "\<forall>v \<in> set vols'. 0 < wv_Id v"
    unfolding vols' using volumes_from_range [of _ ?m ?vols] max_volume_id_bound(1) [of ?vols] by fastforce
  ultimately show ?thesis using volumes_from_keeps [of ?vols ?m] by (simp add: vols')
qed

section \<open>Actions on nodes\<close>

lemma action_names [simp]: "NodeActionAdd \<noteq> NodeActionRemove" "NodeActionRemove \<noteq> NodeActionAdd"
  by (simp_all add: NodeActionAdd_def NodeActionRemove_def)

text \<open>An action on a node has an effect when it changes the workspace of the node.\<close>

definition action_counts :: "('q, 'z) hook_scheme \<Rightarrow> wlog \<Rightarrow> string \<Rightarrow> string \<times> string \<Rightarrow> bool" where
  "action_counts E lg name kv =
     (case or_nil (getNode E lg (fst kv)) of
        None \<Rightarrow> False
      | Some n \<Rightarrow> snd kv = NodeActionAdd \<and> GetSpecWorkspace n \<noteq> name \<or> snd kv = NodeActionRemove \<and> GetSpecWorkspace n \<noteq> '''')"

definition nodes_changed :: "('q, 'z) hook_scheme \<Rightarrow> wlog \<Rightarrow> string \<Rightarrow> string \<Rightarrow> strmap \<Rightarrow> int" where
  "nodes_changed E lg name val acts = int (length (filter (\<lambda>kv. snd kv = val \<and> action_counts E lg name kv) acts))"

definition removals :: "strmap \<Rightarrow> int" where
  "removals acts = int (length (filter (\<lambda>kv. snd kv = NodeActionRemove) acts))"

lemma nodes_changed_Nil: "nodes_changed E lg name val [] = 0"
  by (simp add: nodes_changed_def)

lemma nodes_changed_Cons:
  "nodes_changed E lg name val (kv # acts) = (if snd kv = val \<and> action_counts E lg name kv then 1 else 0) + nodes_changed E lg name val acts"
  by (simp add: nodes_changed_def)

lemma removals_Cons: "removals (kv # acts) = (if snd kv = NodeActionRemove then 1 else 0) + removals acts"
  by (simp add: removals_def)

lemma removals_nonneg: "0 \<le> removals acts"
  by (simp add: removals_def)

lemma nodes_action_step:
  assumes "nodes_action E lg key val (acts, ws) = Inr (acts', ws')" "0 < wsp_Replica (wk_Spec ws)"
  shows "wk_Meta ws' = wk_Meta ws \<and> wsp_NodeFlavor (wk_Spec ws') = wsp_NodeFlavor (wk_Spec ws) \<and>
         wsp_Replica (wk_Spec ws') = wsp_Replica (wk_Spec ws) + nodes_changed E lg (wk_Name ws) NodeActionAdd [(key, val)]
           - nodes_changed E lg (wk_Name ws) NodeActionRemove [(key, val)]"
  using assms by (auto simp: nodes_action_def nodes_changed_def action_counts_def split: option.splits if_splits)

lemma nodes_actions_accounting:
  assumes "nodes_actions E lg l (acts, ws) = Inr (acts', ws')" "removals l < wsp_Replica (wk_Spec ws)"
  shows "wk_Meta ws' = wk_Meta ws \<and> wsp_NodeFlavor (wk_Spec ws') = wsp_NodeFlavor (wk_Spec ws) \<and>
         wsp_Replica (wk_Spec ws') = wsp_Replica (wk_Spec ws) + nodes_changed E lg (wk_Name ws) NodeActionAdd l
           - nodes_changed E lg (wk_Name ws) NodeActionRemove l"
  using assms
proof (induction l arbitrary: acts ws)
  case (Cons kv l)
  obtain key val where kv: "kv = (key, val)" by fastforce
  from Cons.prems kv obtain acts1 ws1 where step: "nodes_action E lg key val (acts, ws) = Inr (acts1, ws1)"
      and rest: "nodes_actions E lg l (acts1, ws1) = Inr (acts', ws')"
    by (auto simp: ebind_def split: sum.splits)
  have "0 < wsp_Replica (wk_Spec ws)" using Cons.prems(2) removals_nonneg [of "kv # l"] by linarith
  note s = nodes_action_step [OF step this]
  have "removals l < wsp_Replica (wk_Spec ws1)"
    using Cons.prems(2) s by (simp add: kv removals_Cons nodes_changed_Cons nodes_changed_Nil split: if_splits)
  from Cons.IH [OF rest this] s show ?case by (simp add: kv nodes_changed_Cons nodes_changed_Nil)
qed (simp add: nodes_changed_Nil)


section \<open>Admitted removals\<close>

lemma workload_blocks_None:
  "workload_blocks (NewSetByKeys names) w = None \<longleftrightarrow>
   (\<forall>n \<in> set (if length (st_NodeUsage (w_Status w)) > 0 then map npu_Node (st_NodeUsage (w_Status w)) else map pod_AdminNodeName (st_Pods (w_Status w))).
      n \<notin> set names)"
proof -
  have "(case find P l of None \<Rightarrow> None | Some n \<Rightarrow> Some (f n)) = None \<longleftrightarrow> (\<forall>n \<in> set l. \<not> P n)" for P :: "string \<Rightarrow> bool" and l and f :: "string \<Rightarrow> goerr"
    using find_None_iff [of P l] by (cases "find P l") (simp_all, metis)
  then show ?thesis by (simp add: workload_blocks_def set_Has_NewSetByKeys)
qed

lemma using_nodes_running:
  "\<not> IsEnd w \<Longrightarrow> using_nodes w = (if length (st_NodeUsage (w_Status w)) > 0 then map npu_Node (st_NodeUsage (w_Status w)) else map pod_AdminNodeName (st_Pods (w_Status w)))"
  by (simp add: using_nodes_def)

lemma validateNodesRemoved_idle:
  assumes "validateNodesRemoved E lg w names = None" "\<not> HasAnnotation (wk_Meta w) WorkspaceForcedAction"
    and "GetWorkloadsOfWorkspace E lg (wsp_Cluster (wk_Spec w)) [wk_Name w] not_running = Inr ws" "x \<in> set ws" "n \<in> set names"
  shows "n \<notin> set (using_nodes x)"
proof -
  have "\<not> IsEnd x"
    using assms(3,4) by (auto simp: GetWorkloadsOfWorkspace_def ebind_def not_running_def split: sum.splits)
  moreover have "names \<noteq> []" using assms(5) by auto
  then have "workload_blocks (NewSetByKeys names) x = None"
    using assms(1-4) by (auto simp: validateNodesRemoved_def first_error_None)
  ultimately show ?thesis using assms(5) by (auto simp: workload_blocks_None using_nodes_running)
qed

text \<open>C8: An update of a workspace that the validator admits removes only nodes of the workspace itself, and unless the
  action is forced, only nodes no dispatched and unfinished workload of the workspace runs on.\<close>

theorem admitted_removals_idle:
  assumes "WorkspaceValidator_Handle E lg (UpdateReq (Inr newW) (Inr oldW)) = Allowed" and "time_IsZero (om_DeletionTimestamp (wk_Meta newW))"
    and "parseNodesAction E newW = Inr acts" and "set (hook_order E acts) = set acts" and "(node, NodeActionRemove) \<in> set acts"
  shows "(\<exists>n. getNode E lg node = Inr (Some n) \<and> GetSpecWorkspace n = wk_Name newW) \<and>
         (HasAnnotation (wk_Meta newW) WorkspaceForcedAction \<or>
          (\<exists>ws. GetWorkloadsOfWorkspace E lg (wsp_Cluster (wk_Spec newW)) [wk_Name newW] not_running = Inr ws \<and>
                (\<forall>x \<in> set ws. node \<notin> set (using_nodes x))))"
proof -
  let ?rm = "map fst (filter (\<lambda>(_, val). val = NodeActionRemove) (hook_order E acts))"
  have "workspace_validateOnUpdate E lg newW oldW = None"
    using assms(1,2) by (auto simp: WorkspaceValidator_Handle_def handleError_def split: option.splits)
  then have v: "validateNodesAction E lg newW oldW = None" by (auto simp: workspace_validateOnUpdate_def first_error_None)
  then have "validate_action E lg newW node NodeActionRemove = None" and r: "validateNodesRemoved E lg newW ?rm = None"
    using assms(3-5) by (auto simp: validateNodesAction_def Let_def first_error_None split: if_splits)
  moreover have m: "node \<in> set ?rm" using assms(4,5) by force
  moreover have "length ?rm \<noteq> 0" using m by (metis length_pos_if_in_set less_numeral_extra(3))
  ultimately show ?thesis
    using validateNodesRemoved_idle [OF r _ _ _ m]
    by (auto simp: validate_action_def or_nil_def validateNodesRemoved_def split: option.splits sum.splits if_splits)
qed

section \<open>Managers\<close>

lemma promoted_rights:
  "HasWorkspaceRight (snd (promoted name user)) [name]" "HasWorkspaceManagedRight (snd (promoted name user)) [name]"
  by (simp_all add: promoted_def HasWorkspaceRight_def HasWorkspaceManagedRight_def has_right_iff AddManagedWorkspace_def AddWorkspace_def add_workspace_at)

lemma promoted_unchanged: "\<not> fst (promoted name user) \<Longrightarrow> snd (promoted name user) = user"
  using add_workspace_unchanged [of user UserWorkspaces "[name]"] add_workspace_unchanged [of user UserManagedWorkspaces "[name]"]
  by (simp add: promoted_def also_do_def AddManagedWorkspace_def AddWorkspace_def split: prod.splits)

lemma demoted_right: "\<not> HasWorkspaceManagedRight (snd (RemoveManagedWorkspace user name)) [name]"
  by (simp add: HasWorkspaceManagedRight_def has_right_iff RemoveManagedWorkspace_def remove_workspace_at)

text \<open>The user as it is stored after the step: read at some moment of the request, then left alone or written.\<close>

definition stored_after :: "('q, 'z) hook_scheme \<Rightarrow> hlog \<Rightarrow> string \<Rightarrow> User \<Rightarrow> bool" where
  "stored_after E hl' u user' \<longleftrightarrow>
     (\<exists>hl0. prefix hl0 hl' \<and> (getUser E hl0 u = Inr user' \<or> (\<exists>user. getUser E hl0 u = Inr user) \<and> (HookUpdateUser user', None) \<in> set hl'))"

lemma stored_after_mono: "stored_after E hl u user' \<Longrightarrow> prefix hl hl' \<Longrightarrow> stored_after E hl' u user'"
  unfolding stored_after_def by (meson prefix_order.trans set_mono_prefix subsetD)

lemma save_user_stores:
  assumes "save_user E hl cu = (Inr (), hl')" "getUser E hl u = Inr user" "\<not> fst cu \<Longrightarrow> snd cu = user"
  shows "prefix hl hl' \<and> stored_after E hl' u (snd cu)"
  using assms by (cases cu) (force simp: save_user_def stored_after_def hook_write_def Let_def split: bool.splits option.splits prod.splits)

lemma add_managers_grants:
  assumes "add_managers E name l managers hl = (Inr ms, hl')"
  shows "prefix hl hl' \<and> set ms \<subseteq> set managers \<and>
         (\<forall>u \<in> set l. u \<in> set ms \<longrightarrow> (\<exists>user'. stored_after E hl' u user' \<and> HasWorkspaceRight user' [name] \<and> HasWorkspaceManagedRight user' [name]))"
  using assms
proof (induction l arbitrary: managers hl)
  case (Cons u l)
  show ?case
  proof (cases "getUser E hl u")
    case (Inl err)
    with Cons.prems have nf: "add_managers E name l (fst (RemoveString managers u)) hl = (Inr ms, hl')" by (auto split: if_splits)
    from Cons.IH [OF nf] show ?thesis by (auto simp: RemoveString_def)
  next
    case (Inr user)
    with Cons.prems obtain hl1 where s: "save_user E hl (promoted name user) = (Inr (), hl1)" and r: "add_managers E name l managers hl1 = (Inr ms, hl')"
      by (auto simp: hbind_def split: prod.splits sum.splits)
    have st: "prefix hl hl1" "stored_after E hl1 u (snd (promoted name user))"
      using save_user_stores [OF s Inr promoted_unchanged] by simp_all
    note IH = Cons.IH [OF r]
    have "stored_after E hl' u (snd (promoted name user))" using st(2) IH stored_after_mono by blast
    with IH st(1) promoted_rights show ?thesis by (auto intro: prefix_order.trans)
  qed
qed simp

lemma del_managers_revokes:
  assumes "del_managers E name l hl = (Inr (), hl')"
  shows "prefix hl hl' \<and> (\<forall>u \<in> set l. (\<exists>hl0 e. prefix hl0 hl' \<and> getUser E hl0 u = Inl e \<and> api_IsNotFound E e) \<or>
           (\<exists>user'. stored_after E hl' u user' \<and> \<not> HasWorkspaceManagedRight user' [name]))"
  using assms
proof (induction l arbitrary: hl)
  case (Cons u l)
  show ?case
  proof (cases "getUser E hl u")
    case (Inl err)
    with Cons show ?thesis by (auto split: if_splits)
  next
    case (Inr user)
    with Cons.prems obtain hl1 where s: "save_user E hl (RemoveManagedWorkspace user name) = (Inr (), hl1)" and r: "del_managers E name l hl1 = (Inr (), hl')"
      by (auto simp: hbind_def split: prod.splits sum.splits)
    have "snd (RemoveManagedWorkspace user name) = user" if "\<not> fst (RemoveManagedWorkspace user name)"
      using that by (simp add: RemoveManagedWorkspace_def remove_workspace_unchanged)
    then have st: "prefix hl hl1" "stored_after E hl1 u (snd (RemoveManagedWorkspace user name))"
      using save_user_stores [OF s Inr] by simp_all
    note IH = Cons.IH [OF r]
    have "stored_after E hl' u (snd (RemoveManagedWorkspace user name))" using st(2) IH stored_after_mono by blast
    with IH st(1) demoted_right show ?thesis by (auto intro: prefix_order.trans)
  qed
qed simp

lemma set_slice_Difference: "set (slice_Difference xs ys) = set xs - set ys"
  by (auto simp: slice_Difference_def)

lemma new_managers_granted:
  assumes "mutateManagers E hl None newW = (Inr w, hl')" "u \<in> set (wsp_Managers (wk_Spec w))"
  shows "\<exists>user. stored_after E hl' u user \<and> HasWorkspaceRight user [wk_Name newW] \<and> HasWorkspaceManagedRight user [wk_Name newW]"
proof -
  let ?wanted = "wsp_Managers (wk_Spec newW)"
  from assms(1) obtain ms hl1 where a: "add_managers E (wk_Name newW) (slice_Difference ?wanted []) ?wanted hl = (Inr ms, hl1)"
      and d: "del_managers E (wk_Name newW) (slice_Difference [] ms) hl1 = (Inr (), hl')" and w: "wsp_Managers (wk_Spec w) = ms"
    by (auto simp: mutateManagers_def Let_def hbind_def split: prod.splits sum.splits)
  note A = add_managers_grants [OF a] and D = del_managers_revokes [OF d]
  from A assms(2) have "u \<in> set (slice_Difference ?wanted [])" "u \<in> set ms" by (auto simp: set_slice_Difference w)
  with A obtain user where "stored_after E hl1 u user" "HasWorkspaceRight user [wk_Name newW]" "HasWorkspaceManagedRight user [wk_Name newW]"
    by blast
  moreover from D have "prefix hl1 hl'" by simp
  ultimately show ?thesis using stored_after_mono by blast
qed


section \<open>Witnesses and concrete runs\<close>

definition ws_node :: "string \<Rightarrow> string \<Rightarrow> string option \<Rightarrow> int Node" where
  "ws_node name flavor ws = free_node
     \<lparr>n_Meta := (blank_meta name)\<lparr>om_Labels := (ClusterIdLabel, ''c'') # (NodeFlavorIdLabel, flavor) # (case ws of None \<Rightarrow> [] | Some w \<Rightarrow> [(WorkspaceIdLabel, w)])\<rparr>,
      n_Spec := (n_Spec free_node)\<lparr>ns_Workspace := ws\<rparr>\<rparr>"

definition acting :: "string \<Rightarrow> int Workspace \<Rightarrow> int Workspace" where
  "acting acts w = w\<lparr>wk_Meta := (wk_Meta w)\<lparr>om_Annotations := [(WorkspaceNodesAction, acts)],
     om_Labels := [(ClusterIdLabel, ''c''), (DisplayNameLabel, ''wsp'')]\<rparr>,
     wk_Spec := (wk_Spec w)\<lparr>wsp_QueuePolicy := QueueFifoPolicy\<rparr>\<rparr>"

definition sample_volume :: "int \<Rightarrow> WorkspaceVolume" where
  "sample_volume i = \<lparr>wv_Id = i, wv_Type = VolumeHOSTPATH, wv_MountPath = '''', wv_EnableUserDir = False, wv_AccessMode = '''', wv_SubPath = '''',
     wv_HostPath = ''/data/'', wv_Capacity = '''', wv_Selector = [], wv_StorageClass = ''''\<rparr>"

definition sample_user :: "string \<Rightarrow> string list \<Rightarrow> User" where
  "sample_user name managed = \<lparr>u_Meta = blank_meta name, u_Type = '''', u_Password = '''', u_RestrictedType = 0, u_Roles = [],
     u_Resources = [(UserManagedWorkspaces, managed)]\<rparr>"

definition with_managers :: "string list \<Rightarrow> int Workspace" where
  "with_managers us = on_spec (\<lambda>s. s\<lparr>wsp_Managers := us\<rparr>) (sample_workspace '''' 1)"

abbreviation two_actions :: "int Node list" where
  "two_actions \<equiv> [ws_node ''a'' ''f'' (Some ''ws''), ws_node ''b'' ''g'' None]"

lemma volume_ids_assigned_witness:
  "\<exists>ids. map wv_Id (wsp_Volumes (wk_Spec (mutateVolumes (on_spec (\<lambda>s. s\<lparr>wsp_Volumes := [sample_volume 0, sample_volume 4, sample_volume (- 1)]\<rparr>) (sample_workspace '''' 1))))) = ids \<and>
         ids = [5, 4, 6] \<and> distinct ids"
proof -
  let ?w = "on_spec (\<lambda>s. s\<lparr>wsp_Volumes := [sample_volume 0, sample_volume 4, sample_volume (- 1)]\<rparr>) (sample_workspace '''' 1)"
  have d: "distinct (filter (\<lambda>i. 0 < i) (map wv_Id (wsp_Volumes (wk_Spec ?w))))" by (simp add: sample_volume_def)
  have ids: "map wv_Id (wsp_Volumes (wk_Spec (mutateVolumes ?w))) = [5, 4, 6]"
    by (simp add: mutateVolumes_def max_volume_id_def sample_volume_def)
  have "distinct (map wv_Id (wsp_Volumes (wk_Spec (mutateVolumes ?w))))" using volume_ids_assigned [OF d refl] by blast
  with ids show ?thesis by metis
qed


lemma admitted_removals_idle_witness:
  "\<exists>n. getNode (sample_hook [] [] two_actions [] []) [] ''a'' = Inr (Some n) \<and> GetSpecWorkspace n = ''ws''"
proof -
  let ?E = "sample_hook [] [] two_actions [] []" and ?o = "sample_workspace '''' 2" and ?n = "acting ''a:remove'' (sample_workspace '''' 2)"
  have v: "WorkspaceValidator_Handle ?E [] (UpdateReq (Inr ?n) (Inr ?o)) = Allowed" by code_simp
  have t: "time_IsZero (om_DeletionTimestamp (wk_Meta ?n))" by code_simp
  have p: "parseNodesAction ?E ?n = Inr [(''a'', NodeActionRemove)]" by code_simp
  have "set (hook_order ?E [(''a'', NodeActionRemove)]) = set [(''a'', NodeActionRemove)]" by (simp add: sample_hook_def env.defs sample_env_def ext.defs)
  from admitted_removals_idle [OF v t p this, of "''a''"] have "\<exists>n. getNode ?E [] ''a'' = Inr (Some n) \<and> GetSpecWorkspace n = wk_Name ?n" by simp
  moreover have "wk_Name ?n = ''ws''" by code_simp
  ultimately show ?thesis by simp
qed


text \<open>
  When the actions empty the workspace on the way, the order of the map decides: a node of another flavor is accepted
  after the last node has gone, and refused before.
\<close>

lemma nodes_action_order_matters:
  "let req = acting ''a:remove,b:add'' (sample_workspace '''' 1); E = sample_hook [] [] two_actions [] [] in
   isl (mutateNodesAction (E\<lparr>hook_order := rev\<rparr>) [] (sample_workspace '''' 1) req) \<and>
   \<not> isl (mutateNodesAction E [] (sample_workspace '''' 1) req)"
  by code_simp

text \<open>
  Scaling down picks idle nodes by the pods that run, but the validator looks at every pod: a node with only finished pods of
  an unfinished workload is chosen and then refused.
\<close>

definition half_done :: Workload where
  "half_done = (blank_workload ''w'')
     \<lparr>w_Meta := (blank_meta ''w'')\<lparr>om_Labels := [(ClusterIdLabel, ''c''), (WorkspaceIdLabel, ''ws'')], om_Annotations := [(WorkloadDispatchedAnnotation, ''t'')]\<rparr>,
      w_Status := blank_status\<lparr>st_Phase := ''Running'', st_Pods := [sample_pod ''a'' ''Succeeded'' 0]\<rparr>\<rparr>"

definition full_workspace :: "int \<Rightarrow> int Workspace" where
  "full_workspace replica = (acting '''' (sample_workspace ''Running'' replica))\<lparr>wk_Status := (wk_Status (sample_workspace ''Running'' 1))\<lparr>wss_AvailableReplica := 1\<rparr>\<rparr>"

lemma scale_down_refused:
  "let E = sample_hook [half_done] [] [ws_node ''a'' ''f'' (Some ''ws'')] [] [] in
   (case mutateScaleDown E [] (full_workspace 1) (full_workspace 0) of
      Inl _ \<Rightarrow> False
    | Inr w \<Rightarrow> WorkspaceValidator_Handle E [] (UpdateReq (Inr w) (Inr (full_workspace 1))) = Denied (in_use ''a'' half_done))"
  by code_simp

end
