(* ===== verification/Workload_Mutator.thy ===== *)
theory Workload_Mutator
  imports Workspace_Webhook
begin

text \<open>
  The mutator of \<^verbatim>\<open>webhooks/pkg/workload_webhook.go\<close>: the defaults and normal forms a workload gets before it is stored.
  A step that panics gives \<open>Panic\<close>. An empty map of environment variables is the nil map: the field is omitted from the JSON
  of an empty map, so this is what the decoder leaves.
\<close>

datatype 'a run = Ret 'a | Panic

definition rbind :: "'a run \<Rightarrow> ('a \<Rightarrow> 'b run) \<Rightarrow> 'b run" where
  "rbind x f = (case x of Ret a \<Rightarrow> f a | Panic \<Rightarrow> Panic)"

lemma rbind_simps [simp]: "rbind (Ret a) f = f a" "rbind Panic f = Panic"
  by (simp_all add: rbind_def)

definition DefaultEphemeralStorage :: string where "DefaultEphemeralStorage = ''50Gi''"
definition DefaultInitialDelaySeconds :: int where "DefaultInitialDelaySeconds = 600"
definition DefaultPeriodSeconds :: int where "DefaultPeriodSeconds = 3"
definition DefaultFailureThreshold :: int where "DefaultFailureThreshold = 3"
definition DefaultMaxFailover :: int where "DefaultMaxFailover = 50"
definition HighPriorityInt :: int where "HighPriorityInt = 2"
definition LowPriorityInt :: int where "LowPriorityInt = 0"
definition ScaleRunnerSetID :: string where "ScaleRunnerSetID = ''SCALE_RUNNER_SET_ID''"
definition ScaleRunnerID :: string where "ScaleRunnerID = ''SCALE_RUNNER_ID''"
definition MaxReplicaCount :: string where "MaxReplicaCount = ''MAX_REPLICA_COUNT''"
definition RayJobSubmitterCpu :: string where "RayJobSubmitterCpu = ''1''"
definition RayJobSubmitterMemory :: string where "RayJobSubmitterMemory = ''1Gi''"
definition RayJobSubmitterStorage :: string where "RayJobSubmitterStorage = ''10Gi''"
definition UserNameAnnotation :: string where "UserNameAnnotation = ''primus-safe.user.name''"
definition UserNameMd5Label :: string where "UserNameMd5Label = ''primus-safe.user.name.md5''"
definition UseWorkspaceStorageAnnotation :: string where "UseWorkspaceStorageAnnotation = ''primus-safe.workload.use.workspace.storage''"
definition EnvToBeRemovedAnnotation :: string where "EnvToBeRemovedAnnotation = ''primus-safe.workload.env.to.remove''"
definition GithubSecretIdAnnotation :: string where "GithubSecretIdAnnotation = ''primus-safe.github.secret.id''"
definition DynamoDefaultNatsURL :: string where "DynamoDefaultNatsURL = ''nats://nats.primus-safe.svc:4222''"
definition SecretImage :: string where "SecretImage = ''image''"

definition GetUserName :: "ObjectMeta \<Rightarrow> string" where
  "GetUserName obj = GetAnnotation obj UserNameAnnotation"

definition GetUserId :: "ObjectMeta \<Rightarrow> string" where
  "GetUserId obj = GetLabel obj UserIdLabel"

definition GenerateClusterSecret :: "string \<Rightarrow> string \<Rightarrow> string" where
  "GenerateClusterSecret clusterId secretName = clusterId @ ''-'' @ secretName"

definition to_upper :: "string \<Rightarrow> string" where
  "to_upper s = map (\<lambda>c. if is_lower c then char_of (of_char c - 32 :: nat) else c) s"

definition strings_Join :: "string list \<Rightarrow> string \<Rightarrow> string" where
  "strings_Join xs sep = (case xs of [] \<Rightarrow> '''' | x # r \<Rightarrow> x @ concat (map (\<lambda>y. sep @ y) r))"

abbreviation on_wl :: "(WorkloadSpec \<Rightarrow> WorkloadSpec) \<Rightarrow> Workload \<Rightarrow> Workload" where
  "on_wl f w \<equiv> w\<lparr>w_Spec := f (w_Spec w)\<rparr>"

definition set_annotation :: "string \<Rightarrow> string \<Rightarrow> Workload \<Rightarrow> Workload" where
  "set_annotation k v w = w\<lparr>w_Meta := snd (SetAnnotation (w_Meta w) k v)\<rparr>"

definition set_label :: "string \<Rightarrow> string \<Rightarrow> Workload \<Rightarrow> Workload" where
  "set_label k v w = w\<lparr>w_Meta := snd (SetLabel (w_Meta w) k v)\<rparr>"

definition set_env :: "string \<Rightarrow> string \<Rightarrow> Workload \<Rightarrow> Workload" where
  "set_env k v w = on_wl (\<lambda>s. s\<lparr>ws_Env := mput (ws_Env s) k v\<rparr>) w"

section \<open>Metadata\<close>

definition mutateGvk :: "Workload \<Rightarrow> Workload" where
  "mutateGvk workload =
     on_wl (\<lambda>s. s\<lparr>ws_GVK :=
       \<lparr>gvk_Group = '''', gvk_Version = (if gvk_Version (ws_GVK s) = '''' then ''v1'' else gvk_Version (ws_GVK s)),
        gvk_Kind = (if gvk_Kind (ws_GVK s) = '''' then PytorchJobKind else gvk_Kind (ws_GVK s))\<rparr>\<rparr>) workload"

definition own_by :: "('q, 'z) hook_scheme \<Rightarrow> string \<Rightarrow> ObjectMeta \<Rightarrow> Workload \<Rightarrow> Workload" where
  "own_by E kind owner w = w\<lparr>w_Meta := with_owner E kind owner (w_Meta w)\<rparr>"

definition mutateOwnerReference :: "('q, 'z) hook_scheme \<Rightarrow> wlog \<Rightarrow> 'q Workspace option \<Rightarrow> Workload \<Rightarrow> Workload" where
  "mutateOwnerReference E lg workspace workload =
     (if HasLabel (w_Meta workload) OwnerLabel then workload
      else if SpecKind workload = CICDEphemeralRunnerKind
      then (let scaleRunnerSetId = GetEnv workload ScaleRunnerSetID in
            if scaleRunnerSetId = '''' then workload
            else case get_Workload E lg scaleRunnerSetId of
                   Inl _ \<Rightarrow> workload
                 | Inr owner \<Rightarrow>
                     set_annotation CICDScaleSetIdAnnotation (st_RunnerScaleSetId (w_Status owner))
                       (if HasOwnerReferences (w_Meta workload) scaleRunnerSetId then workload else own_by E ''Workload'' (w_Meta owner) workload))
      else if SpecKind workload = UnifiedJobKind
      then (let scaleRunnerId = GetEnv workload ScaleRunnerID in
            if scaleRunnerId = '''' then workload
            else case list_Workloads E lg (\<lambda>w. label_is WorkloadKindLabel CICDEphemeralRunnerKind (w_Meta w) \<and>
                                            label_is CICDScaleRunnerIdLabel scaleRunnerId (w_Meta w)) of
                   Inr (owner # _) \<Rightarrow>
                     if HasOwnerReferences (w_Meta workload) (w_Name owner) then workload else own_by E ''Workload'' (w_Meta owner) workload
                 | _ \<Rightarrow> workload)
      else case workspace of
             Some ws \<Rightarrow> if om_Finalizers (w_Meta workload) = [] then own_by E ''Workspace'' (wk_Meta ws) workload else workload
           | None \<Rightarrow> workload)"

definition GetWorkloadTemplate :: "('q, 'z) env_scheme \<Rightarrow> wlog \<Rightarrow> GroupVersionKind \<Rightarrow> goerr + ObjectMeta" where
  "GetWorkloadTemplate E lg gvk =
     ebind (list_ConfigMaps E lg (\<lambda>m. label_is WorkloadVersionLabel (gvk_Version gvk) m \<and> label_is WorkloadKindLabel (gvk_Kind gvk) m)) (\<lambda>items.
       case items of
         cm # _ \<Rightarrow> Inr cm
       | [] \<Rightarrow> Inl (NewInternalError (''failed to find workload template. gvk: '' @ gvk_Group gvk @ ''/'' @ gvk_Version gvk @ '', Kind='' @ gvk_Kind gvk)))"

definition SetMainContainerViaTemplate :: "('q, 'z) env_scheme \<Rightarrow> wlog \<Rightarrow> Workload \<Rightarrow> bool \<times> Workload" where
  "SetMainContainerViaTemplate E lg workload =
     (if IsTorchFT workload \<or> GetMainContainer (w_Meta workload) \<noteq> '''' then (False, workload)
      else case GetWorkloadTemplate E lg (ws_GVK (w_Spec workload)) of
             Inr cm \<Rightarrow> (True, set_annotation MainContainerAnnotation (GetMainContainer cm) workload)
           | Inl _ \<Rightarrow> (True, workload))"

definition workspace_labels :: "'q Workspace option \<Rightarrow> Workload \<Rightarrow> Workload" where
  "workspace_labels workspace w =
     (case workspace of
        None \<Rightarrow> w
      | Some ws \<Rightarrow>
          let w1 = set_label NodeFlavorIdLabel (wsp_NodeFlavor (wk_Spec ws)) (set_label ClusterIdLabel (wsp_Cluster (wk_Spec ws)) w)
          in if wsp_EnablePreempt (wk_Spec ws) then set_annotation WorkloadEnablePreemptAnnotation TrueStr w1 else w1)"

definition workload_mutateMeta :: "('q, 'z) hook_scheme \<Rightarrow> wlog \<Rightarrow> 'q Workspace option \<Rightarrow> Workload \<Rightarrow> Workload" where
  "workload_mutateMeta E lg workspace workload =
     (let w0 = (if w_Name workload \<noteq> '''' then workload\<lparr>w_Meta := (w_Meta workload)\<lparr>om_Name := NormalizeName (w_Name workload)\<rparr>\<rparr> else workload);
          w1 = workspace_labels workspace (mutateOwnerReference E lg workspace w0);
          w2 = (if GetEnv w1 ScaleRunnerID \<noteq> '''' then set_label CICDScaleRunnerIdLabel (GetEnv w1 ScaleRunnerID) w1 else w1);
          w3 = set_label WorkloadIdLabel (w_Name w2) (set_label WorkloadKindLabel (SpecKind w2) (set_label WorkspaceIdLabel (ws_Workspace (w_Spec w2)) w2));
          w4 = (if GetUserName (w_Meta w3) = '''' then set_annotation UserNameAnnotation (GetUserId (w_Meta w3)) w3 else w3);
          w5 = (if \<not> HasAnnotation (w_Meta w4) UseWorkspaceStorageAnnotation then set_annotation UseWorkspaceStorageAnnotation TrueStr w4 else w4);
          w6 = snd (SetMainContainerViaTemplate E lg (set_label UserNameMd5Label (MD5 E (GetUserName (w_Meta w5))) w5))
      in w6\<lparr>w_Meta := AddFinalizer WorkloadFinalizer (w_Meta w6)\<rparr>)"

section \<open>Resources\<close>

definition normal_resource :: "('q, 'z) hook_scheme \<Rightarrow> 'q Workspace option \<Rightarrow> WorkloadResource \<Rightarrow> WorkloadResource" where
  "normal_resource E workspace res =
     (let r1 = (if wr_GPU res = ''0'' then res\<lparr>wr_GPU := ''''\<rparr>
                else case workspace of
                       Some ws \<Rightarrow> if wr_GPU res \<noteq> '''' then res\<lparr>wr_GPUName := GetAnnotation (wk_Meta ws) GpuResourceNameAnnotation\<rparr> else res
                     | None \<Rightarrow> res);
          r2 = (if wr_SharedMemory r1 = '''' \<and> wr_Memory r1 \<noteq> ''''
                then (case q_Parse E (wr_Memory r1) of
                        Inr q \<Rightarrow> if q_Value E q > 0 then r1\<lparr>wr_SharedMemory := q_HalfString E q\<rparr> else r1
                      | Inl _ \<Rightarrow> r1)
                else r1)
      in if wr_EphemeralStorage r2 = '''' then r2\<lparr>wr_EphemeralStorage := DefaultEphemeralStorage\<rparr> else r2)"

definition mutateResources :: "('q, 'z) hook_scheme \<Rightarrow> 'q Workspace option \<Rightarrow> Workload \<Rightarrow> Workload" where
  "mutateResources E workspace workload =
     on_wl (\<lambda>s. s\<lparr>ws_Resources := map (normal_resource E workspace) (filter (\<lambda>r. wr_Replica r > 0) (ws_Resources s))\<rparr>) workload"

definition mutatePriority :: "Workload \<Rightarrow> Workload" where
  "mutatePriority workload =
     on_wl (\<lambda>s. s\<lparr>ws_Priority := (if ws_Priority s > HighPriorityInt then HighPriorityInt
       else if ws_Priority s < LowPriorityInt then LowPriorityInt else ws_Priority s)\<rparr>) workload"

fun fresh_paths :: "strset \<Rightarrow> string list \<Rightarrow> string list" where
  "fresh_paths seen [] = []"
| "fresh_paths seen (path # paths) =
     (if set_Has seen path then fresh_paths seen paths else path # fresh_paths (set_Insert [path] seen) paths)"

definition mutateHostPath :: "'q Workspace option \<Rightarrow> Workload \<Rightarrow> Workload" where
  "mutateHostPath workspace workload =
     (if length (ws_Hostpath (w_Spec workload)) = 0 then workload
      else
        let hostPathSet = (case workspace of
                             None \<Rightarrow> set_New
                           | Some ws \<Rightarrow> set_Insert (map wv_HostPath (filter (\<lambda>vol. wv_Type vol = VolumeHOSTPATH) (wsp_Volumes (wk_Spec ws)))) set_New)
        in on_wl (\<lambda>s. s\<lparr>ws_Hostpath := fresh_paths hostPathSet (ws_Hostpath s)\<rparr>) workload)"

definition health_defaults :: "HealthCheck \<Rightarrow> HealthCheck" where
  "health_defaults field =
     field\<lparr>hc_InitialDelaySeconds := (if hc_InitialDelaySeconds field = 0 then DefaultInitialDelaySeconds else hc_InitialDelaySeconds field),
           hc_PeriodSeconds := (if hc_PeriodSeconds field = 0 then DefaultPeriodSeconds else hc_PeriodSeconds field),
           hc_FailureThreshold := (if hc_FailureThreshold field = 0 then DefaultFailureThreshold else hc_FailureThreshold field)\<rparr>"

definition mutateHealthCheck :: "Workload \<Rightarrow> Workload" where
  "mutateHealthCheck workload =
     (if \<not> IsApplication workload then on_wl (\<lambda>s. s\<lparr>ws_Readiness := None, ws_Liveness := None\<rparr>) workload
      else on_wl (\<lambda>s. s\<lparr>ws_Readiness := map_option health_defaults (ws_Readiness s), ws_Liveness := map_option health_defaults (ws_Liveness s)\<rparr>) workload)"

definition put_if_missing :: "strmap \<Rightarrow> string \<Rightarrow> string \<Rightarrow> strmap" where
  "put_if_missing m k v = (if mhas m k then m else mput m k v)"

definition normal_service :: "Service \<Rightarrow> Service" where
  "normal_service svc =
     svc\<lparr>svc_Protocol := (if svc_Protocol svc \<noteq> '''' then to_upper (svc_Protocol svc) else ''TCP''),
         svc_Port := (if svc_Port svc = 0 then svc_TargetPort svc else svc_Port svc),
         svc_Extends := put_if_missing (put_if_missing (svc_Extends svc) ''maxUnavailable'' ''25%'') ''maxSurge'' ''25%''\<rparr>"

definition mutateService :: "Workload \<Rightarrow> Workload" where
  "mutateService workload = on_wl (\<lambda>s. s\<lparr>ws_Service := map_option normal_service (ws_Service s)\<rparr>) workload"

section \<open>Kinds\<close>

definition mutateDeployment :: "Workload \<Rightarrow> Workload" where
  "mutateDeployment workload = on_wl (\<lambda>s. s\<lparr>ws_IsSupervised := False, ws_MaxRetry := 0, ws_Dependencies := []\<rparr>) workload"

definition one_replica :: "WorkloadResource list \<Rightarrow> WorkloadResource list" where
  "one_replica rs = (case rs of [] \<Rightarrow> [] | r # _ \<Rightarrow> [r\<lparr>wr_Replica := 1\<rparr>])"

definition mutateAuthoring :: "('q, 'z) hook_scheme \<Rightarrow> Workload \<Rightarrow> Workload" where
  "mutateAuthoring E workload =
     on_wl (\<lambda>s. s\<lparr>ws_EntryPoints := [Base64Encode E ''sleep infinity''], ws_Dependencies := []\<rparr>)
       (set_annotation WorkloadDisableFailoverAnnotation TrueStr
         (on_wl (\<lambda>s. s\<lparr>ws_IsSupervised := False, ws_MaxRetry := 0, ws_Resources := one_replica (ws_Resources s)\<rparr>) workload))"

definition mutateCICDScaleSet :: "Workload \<Rightarrow> Workload" where
  "mutateCICDScaleSet workload =
     on_wl (\<lambda>s. s\<lparr>ws_IsSupervised := False, ws_Resources := one_replica (ws_Resources s), ws_Dependencies := []\<rparr>) workload"

text \<open>A write to the nil map panics.\<close>

definition env_default :: "string \<Rightarrow> string \<Rightarrow> Workload \<Rightarrow> Workload run" where
  "env_default key val w =
     (case GetReplicaCount w key of
        Inr _ \<Rightarrow> Ret w
      | Inl _ \<Rightarrow> if ws_Env (w_Spec w) = [] then Panic else Ret (set_env key val w))"

definition mutateTorchFT :: "Workload \<Rightarrow> Workload run" where
  "mutateTorchFT workload =
     (let grp = (case GetReplicaCount workload ReplicaCount of Inl _ \<Rightarrow> 0 | Inr n \<Rightarrow> n) in
      rbind (env_default MaxReplicaCount (itoa grp) workload) (\<lambda>w1.
      rbind (env_default MinReplicaCount ''1'' w1) (\<lambda>w2.
        Ret (set_annotation WorkloadDisableFailoverAnnotation TrueStr w2))))"

definition mutateMonarchJob :: "Workload \<Rightarrow> Workload run" where
  "mutateMonarchJob workload =
     mutateTorchFT (on_wl (\<lambda>s. s\<lparr>ws_Resources := (case ws_Resources s of [] \<Rightarrow> [] | r # rs \<Rightarrow> r\<lparr>wr_Replica := 1\<rparr> # rs)\<rparr>) workload)"

definition mutateSandbox :: "Workload \<Rightarrow> Workload" where
  "mutateSandbox workload =
     on_wl (\<lambda>s. s\<lparr>ws_Dependencies := []\<rparr>)
       (set_annotation WorkloadDisableFailoverAnnotation TrueStr
         (on_wl (\<lambda>s. s\<lparr>ws_IsSupervised := False, ws_Resources := one_replica (ws_Resources s)\<rparr>) workload))"

definition default_annotation :: "string \<Rightarrow> string \<Rightarrow> Workload \<Rightarrow> Workload" where
  "default_annotation k v w = (if GetAnnotation (w_Meta w) k = '''' then set_annotation k v w else w)"

definition env_if_missing :: "string \<Rightarrow> string \<Rightarrow> Workload \<Rightarrow> Workload" where
  "env_if_missing k v w = on_wl (\<lambda>s. s\<lparr>ws_Env := put_if_missing (ws_Env s) k v\<rparr>) w"

definition mutateDynamoDeployment :: "Workload \<Rightarrow> Workload" where
  "mutateDynamoDeployment workload =
     (let w1 = default_annotation DynamoKVTransferBackendAnnotation ''nixl'' (default_annotation DynamoBackendFrameworkAnnotation ''sglang'' workload);
          w2 = (if GetAnnotation (w_Meta w1) DynamoServiceRolesAnnotation = '''' \<and> length (GetDynamoServiceRoles w1) > 0
                then set_annotation DynamoServiceRolesAnnotation (strings_Join (GetDynamoServiceRoles w1) '','') w1 else w1)
      in env_if_missing ''DYN_NAMESPACE'' (w_Name w2) (env_if_missing ''DYN_DISCOVERY_BACKEND'' ''kubernetes''
           (env_if_missing ''NATS_SERVER'' DynamoDefaultNatsURL w2)))"

definition mutateInferaDeployment :: "Workload \<Rightarrow> Workload" where
  "mutateInferaDeployment workload =
     (let w1 = default_annotation InferaKVTransferBackendAnnotation ''nixl'' (default_annotation InferaBackendFrameworkAnnotation ''sglang'' workload);
          w2 = (if GetAnnotation (w_Meta w1) InferaServiceRolesAnnotation = '''' \<and> length (GetInferaServiceRoles w1) > 0
                then set_annotation InferaServiceRolesAnnotation (strings_Join (GetInferaServiceRoles w1) '','') w1 else w1)
      in env_if_missing ''NATS_SERVER'' DynamoDefaultNatsURL w2)"

definition is_submitter :: "WorkloadResource \<Rightarrow> bool" where
  "is_submitter r \<longleftrightarrow> wr_Replica r = 1 \<and> wr_CPU r = RayJobSubmitterCpu \<and> wr_Memory r = RayJobSubmitterMemory \<and> wr_EphemeralStorage r = RayJobSubmitterStorage"

definition ray_submitter :: WorkloadResource where
  "ray_submitter = \<lparr>wr_Replica = 1, wr_CPU = RayJobSubmitterCpu, wr_GPU = '''', wr_GPUName = '''', wr_Memory = RayJobSubmitterMemory,
     wr_SharedMemory = '''', wr_EphemeralStorage = RayJobSubmitterStorage, wr_RdmaResource = ''''\<rparr>"

definition mutateRayJob :: "Workload \<Rightarrow> Workload" where
  "mutateRayJob workload =
     (if (case ws_Resources (w_Spec workload) of [] \<Rightarrow> False | r # _ \<Rightarrow> is_submitter r) then workload
      else on_wl (\<lambda>s. s\<lparr>ws_Images := (case ws_Images s of [] \<Rightarrow> [] | img # _ \<Rightarrow> img # ws_Images s),
                         ws_EntryPoints := '''' # ws_EntryPoints s, ws_Resources := ray_submitter # ws_Resources s\<rparr>) workload)"

definition mutate_kind :: "('q, 'z) hook_scheme \<Rightarrow> Workload \<Rightarrow> Workload run" where
  "mutate_kind E w =
     (if SpecKind w = DeploymentKind \<or> SpecKind w = StatefulSetKind then Ret (mutateDeployment w)
      else if SpecKind w = AuthoringKind then Ret (mutateAuthoring E w)
      else if SpecKind w = CICDScaleRunnerSetKind then Ret (mutateCICDScaleSet w)
      else if SpecKind w = MonarchJob then mutateMonarchJob w
      else if SpecKind w = RayJobKind then Ret (mutateRayJob w)
      else if SpecKind w = TorchFTKind then mutateTorchFT w
      else if SpecKind w = SandboxKind then Ret (mutateSandbox w)
      else if SpecKind w = DynamoDeploymentKind then Ret (mutateDynamoDeployment w)
      else if SpecKind w = InferaDeploymentKind then Ret (mutateInferaDeployment w)
      else Ret w)"

section \<open>The other fields\<close>

definition mutateImages :: "Workload \<Rightarrow> Workload" where
  "mutateImages workload = on_wl (\<lambda>s. s\<lparr>ws_Images := map trim_space (ws_Images s)\<rparr>) workload"

definition mutateMaxRetry :: "Workload \<Rightarrow> Workload" where
  "mutateMaxRetry workload =
     on_wl (\<lambda>s. s\<lparr>ws_MaxRetry := (let n = (if ws_MaxRetry s > DefaultMaxFailover then DefaultMaxFailover else ws_MaxRetry s) in if n < 0 then 0 else n)\<rparr>) workload"

definition mutateEnv :: "('q, 'z) hook_scheme \<Rightarrow> Workload option \<Rightarrow> Workload \<Rightarrow> Workload" where
  "mutateEnv E oldWorkload newWorkload =
     (let newEnv = fold (\<lambda>(key, val) m. mput m (trim_space key) val) (hook_order E (ws_Env (w_Spec newWorkload))) [];
          w1 = on_wl (\<lambda>s. s\<lparr>ws_Env := newEnv\<rparr>) newWorkload;
          secret = mget0 '''' newEnv ''GITHUB_SECRET_ID'';
          w2 = (if secret \<noteq> '''' then set_annotation GithubSecretIdAnnotation secret w1 else w1)
      in case oldWorkload of
           None \<Rightarrow> w2
         | Some old \<Rightarrow>
             let envToBeRemoved = map fst (filter (\<lambda>(key, _). \<not> mhas newEnv key) (hook_order E (ws_Env (w_Spec old))))
             in if length envToBeRemoved > 0 then set_annotation EnvToBeRemovedAnnotation (marshal_strings E envToBeRemoved) w2 else w2)"

definition mutateTTLSeconds :: "('q, 'z) hook_scheme \<Rightarrow> Workload \<Rightarrow> Workload" where
  "mutateTTLSeconds E workload =
     (if ws_TTLSecondsAfterFinished (w_Spec workload) = None
      then on_wl (\<lambda>s. s\<lparr>ws_TTLSecondsAfterFinished := Some (cfg_WorkloadTTLSecond E)\<rparr>) workload else workload)"

definition mutateEntryPoints :: "('q, 'z) hook_scheme \<Rightarrow> Workload \<Rightarrow> Workload" where
  "mutateEntryPoints E workload =
     on_wl (\<lambda>s. s\<lparr>ws_EntryPoints :=
       map (\<lambda>ep. let t = trim_space ep in
                 if IsAuthoring workload \<or> IsOpsJob workload then t
                 else if \<not> IsBase64 E t then Base64Encode E t else t) (ws_EntryPoints s)\<rparr>) workload"

text \<open>The first loop of \<open>mutateRdmaResource\<close>: the replicas with GPUs and whether some of them use a part of a node only.\<close>

fun rdma_scan :: "int \<Rightarrow> WorkloadResource list \<Rightarrow> int \<Rightarrow> int \<times> bool" where
  "rdma_scan gpus [] tot = (tot, False)"
| "rdma_scan gpus (res # rest) tot =
     (if \<not> HasGpu res then rdma_scan gpus rest tot
      else if go_atoi (wr_GPU res) \<noteq> Some gpus then (tot, True)
      else rdma_scan gpus rest (tot + wr_Replica res))"

definition mutateRdmaResource :: "('q::linordered_ab_group_add, 'z) hook_scheme \<Rightarrow> wlog \<Rightarrow> Workload \<Rightarrow> Workload" where
  "mutateRdmaResource E lg workload =
     (let flavorId = GetNodeFlavorId (w_Meta workload) in
      if flavorId = '''' then workload
      else case or_nil (getNodeFlavor E lg flavorId) of
             None \<Rightarrow> workload
           | Some nf \<Rightarrow>
               let (totalGpuReplica, isGpuPartiallyUsed) =
                     (if RdmaName E \<noteq> '''' then rdma_scan (GetGpuCount E nf) (ws_Resources (w_Spec workload)) 0 else (0, False));
                   rdma = (case mget (nfs_ExtendResources (nf_Spec nf)) (RdmaName E) of None \<Rightarrow> ''1'' | Some q \<Rightarrow> q_String E q)
               in on_wl (\<lambda>s. s\<lparr>ws_Resources :=
                    map (\<lambda>res. res\<lparr>wr_RdmaResource := (if totalGpuReplica \<le> 1 \<or> \<not> HasGpu res \<or> isGpuPartiallyUsed then '''' else rdma)\<rparr>)
                      (ws_Resources s)\<rparr>) workload)"

definition mutateCustomerLabels :: "Workload \<Rightarrow> Workload" where
  "mutateCustomerLabels workload =
     on_wl (\<lambda>s. s\<lparr>ws_CustomerLabels := filter (\<lambda>(key, val). \<not> (key = '''' \<or> val = '''')) (ws_CustomerLabels s)\<rparr>) workload"

definition mutateCronJobs :: "Workload \<Rightarrow> Workload" where
  "mutateCronJobs workload =
     on_wl (\<lambda>s. s\<lparr>ws_CronJobs := map (\<lambda>cj. if cj_Action cj = '''' then cj\<lparr>cj_Action := CronStart\<rparr> else cj) (ws_CronJobs s)\<rparr>) workload"

fun known_secrets :: "('q, 'z) hook_scheme \<Rightarrow> wlog \<Rightarrow> strset \<Rightarrow> SecretEntity list \<Rightarrow> strset \<times> SecretEntity list" where
  "known_secrets E lg seen [] = (seen, [])"
| "known_secrets E lg seen (s # rest) =
     (if set_Has seen (sec_Id s) then known_secrets E lg seen rest
      else if get_Secret E lg (sec_Id s) \<noteq> None then known_secrets E lg seen rest
      else case known_secrets E lg (set_Insert [sec_Id s] seen) rest of (seen', ss) \<Rightarrow> (seen', s # ss))"

fun image_secrets :: "strset \<Rightarrow> string list \<Rightarrow> SecretEntity list" where
  "image_secrets seen [] = []"
| "image_secrets seen (name # rest) =
     (if set_Has seen name then image_secrets seen rest
      else \<lparr>sec_Id = name, sec_Type = SecretImage\<rparr> # image_secrets (set_Insert [name] seen) rest)"

definition mutateSecrets :: "('q, 'z) hook_scheme \<Rightarrow> wlog \<Rightarrow> 'q Workspace option \<Rightarrow> Workload \<Rightarrow> Workload" where
  "mutateSecrets E lg workspace workload =
     (case known_secrets E lg set_New (ws_Secrets (w_Spec workload)) of
        (secretsSet, newSecrets) \<Rightarrow>
          let added = (case workspace of
                         Some ws \<Rightarrow> image_secrets secretsSet (wsp_ImageSecrets (wk_Spec ws))
                       | None \<Rightarrow>
                           if cfg_ImageSecret E \<noteq> ''''
                           then (let clusterSecretId = GenerateClusterSecret (GetClusterId (w_Meta workload)) (cfg_ImageSecret E) in
                                 if set_Has secretsSet clusterSecretId then [] else [\<lparr>sec_Id = clusterSecretId, sec_Type = SecretImage\<rparr>])
                           else [])
          in on_wl (\<lambda>s. s\<lparr>ws_Secrets := newSecrets @ added\<rparr>) workload)"

definition isDisableStickyNodes :: "('q::linordered_ab_group_add, 'z) hook_scheme \<Rightarrow> wlog \<Rightarrow> 'q Workspace option \<Rightarrow> Workload \<Rightarrow> bool" where
  "isDisableStickyNodes E lg workspace workload \<longleftrightarrow>
     (case workspace of
        None \<Rightarrow> True
      | Some ws \<Rightarrow>
          if wsp_EnablePreempt (wk_Spec ws) then True
          else if ws_MaxRetry (w_Spec workload) \<le> 0 then True
          else if \<not> slice_Contains [PytorchJobKind, TorchFTKind, RayJobKind] (SpecKind workload) then True
          else case or_nil (getNodeFlavor E lg (GetNodeFlavorId (w_Meta workload))) of
                 None \<Rightarrow> True
               | Some nf \<Rightarrow> list_ex (\<lambda>res. wr_GPU res \<noteq> itoa (GetGpuCount E nf) \<or> \<not> HasGpu res) (ws_Resources (w_Spec workload)))"

definition mutateStickNodes :: "('q::linordered_ab_group_add, 'z) hook_scheme \<Rightarrow> wlog \<Rightarrow> 'q Workspace option \<Rightarrow> Workload \<Rightarrow> Workload" where
  "mutateStickNodes E lg workspace workload =
     (if \<not> isDisableStickyNodes E lg workspace workload then set_annotation RetryOnOriginalNodesAnnotation TrueStr workload
      else workload\<lparr>w_Meta := snd (RemoveAnnotation (w_Meta workload) RetryOnOriginalNodesAnnotation)\<rparr>)"

definition mutateTimeout :: "'q Workspace option \<Rightarrow> Workload \<Rightarrow> Workload" where
  "mutateTimeout workspace workload =
     (case workspace of
        None \<Rightarrow> workload
      | Some ws \<Rightarrow>
          let maxRuntime = GetMaxRunTime ws (GetScope workload) in
          if maxRuntime > 0 \<and> ws_Timeout (w_Spec workload) = None
          then on_wl (\<lambda>s. s\<lparr>ws_Timeout := Some maxRuntime\<rparr>) workload else workload)"

section \<open>The handler\<close>

definition mutate_rest ::
  "('q::linordered_ab_group_add, 'z) hook_scheme \<Rightarrow> wlog \<Rightarrow> Workload option \<Rightarrow> 'q Workspace option \<Rightarrow> Workload \<Rightarrow> Workload" where
  "mutate_rest E lg oldWorkload workspace w0 =
     (let w1 = mutateEntryPoints E (mutateImages (mutatePriority (mutateHostPath workspace w0)));
          w2 = mutateRdmaResource E lg (mutateMaxRetry (mutateEnv E oldWorkload w1));
          w3 = mutateService (mutateHealthCheck (mutateCronJobs (mutateCustomerLabels w2)))
      in mutateStickNodes E lg workspace (mutateSecrets E lg workspace w3))"

definition workload_mutateCommon ::
  "('q::linordered_ab_group_add, 'z) hook_scheme \<Rightarrow> wlog \<Rightarrow> Workload option \<Rightarrow> 'q Workspace option \<Rightarrow> Workload \<Rightarrow> Workload run" where
  "workload_mutateCommon E lg oldWorkload workspace newWorkload =
     rbind (mutate_kind E (mutateResources E workspace newWorkload)) (\<lambda>w. Ret (mutate_rest E lg oldWorkload workspace w))"

definition workload_mutateOnCreation :: "('q::linordered_ab_group_add, 'z) hook_scheme \<Rightarrow> wlog \<Rightarrow> Workload \<Rightarrow> Workload run" where
  "workload_mutateOnCreation E lg workload =
     (let workspace = or_nil (hook_getWorkspace E lg (ws_Workspace (w_Spec workload))) in
      rbind (workload_mutateCommon E lg None workspace (mutateTTLSeconds E (workload_mutateMeta E lg workspace (mutateGvk workload)))) (\<lambda>w.
        Ret (set_annotation WorkloadStatusOffloadAnnotation TrueStr (mutateTimeout workspace w))))"

definition workload_mutateOnUpdate :: "('q::linordered_ab_group_add, 'z) hook_scheme \<Rightarrow> wlog \<Rightarrow> Workload \<Rightarrow> Workload \<Rightarrow> Workload run" where
  "workload_mutateOnUpdate E lg oldWorkload newWorkload =
     workload_mutateCommon E lg (Some oldWorkload) (or_nil (hook_getWorkspace E lg (ws_Workspace (w_Spec newWorkload)))) newWorkload"

definition WorkloadMutator_Handle :: "('q::linordered_ab_group_add, 'z) hook_scheme \<Rightarrow> wlog \<Rightarrow> Workload request \<Rightarrow> Workload admission run" where
  "WorkloadMutator_Handle E lg req =
     (let reply = (\<lambda>r. rbind r (\<lambda>w. Ret (Patched w))) in
      case req of
        DeleteReq _ \<Rightarrow> Ret Allowed
      | CreateReq (Inl e) \<Rightarrow> Ret (handleError (Some e))
      | UpdateReq (Inl e) _ \<Rightarrow> Ret (handleError (Some e))
      | CreateReq (Inr workload) \<Rightarrow>
          if \<not> time_IsZero (om_DeletionTimestamp (w_Meta workload)) then Ret Allowed else reply (workload_mutateOnCreation E lg workload)
      | UpdateReq (Inr workload) old \<Rightarrow>
          if \<not> time_IsZero (om_DeletionTimestamp (w_Meta workload)) then Ret Allowed
          else (case old of Inl _ \<Rightarrow> Ret (Patched workload) | Inr oldWorkload \<Rightarrow> reply (workload_mutateOnUpdate E lg oldWorkload workload)))"

section \<open>RDMA\<close>

definition full_nodes :: "int \<Rightarrow> WorkloadResource list \<Rightarrow> bool" where
  "full_nodes gpus rs \<longleftrightarrow> (\<forall>r \<in> set rs. HasGpu r \<longrightarrow> go_atoi (wr_GPU r) = Some gpus)"

definition gpu_replicas :: "WorkloadResource list \<Rightarrow> int" where
  "gpu_replicas rs = sum_list (map wr_Replica (filter HasGpu rs))"

lemma rdma_scan_spec:
  "snd (rdma_scan gpus rs tot) \<longleftrightarrow> \<not> full_nodes gpus rs"
  "full_nodes gpus rs \<Longrightarrow> fst (rdma_scan gpus rs tot) = tot + gpu_replicas rs"
  by (induction rs arbitrary: tot) (auto simp: full_nodes_def gpu_replicas_def)

text \<open>RDMA is decided for the workload as a whole: its GPU resources get the RDMA quantity of the flavor exactly when
  all of them take every GPU of a node and there is more than one GPU pod; otherwise, and for resources without GPUs, it
  is cleared.\<close>

lemma rdma_for_full_nodes:
  assumes "getNodeFlavor E lg (GetNodeFlavorId (w_Meta w)) = Inr (Some nf)" and "RdmaName E \<noteq> ''''"
    and "rdma = (case mget (nfs_ExtendResources (nf_Spec nf)) (RdmaName E) of None \<Rightarrow> ''1'' | Some q \<Rightarrow> q_String E q)"
    and "rs = ws_Resources (w_Spec w)"
  shows "ws_Resources (w_Spec (mutateRdmaResource E lg w)) =
         map (\<lambda>r. r\<lparr>wr_RdmaResource := if full_nodes (GetGpuCount E nf) rs \<and> 1 < gpu_replicas rs \<and> HasGpu r then rdma else ''''\<rparr>) rs"
proof -
  have "GetNodeFlavorId (w_Meta w) \<noteq> ''''" using assms(1) by (auto simp: getNodeFlavor_def split: if_splits)
  moreover obtain t p where s: "rdma_scan (GetGpuCount E nf) rs 0 = (t, p)" by fastforce
  ultimately have "ws_Resources (w_Spec (mutateRdmaResource E lg w)) = map (\<lambda>r. r\<lparr>wr_RdmaResource := if t \<le> 1 \<or> \<not> HasGpu r \<or> p then '''' else rdma\<rparr>) rs"
    unfolding mutateRdmaResource_def Let_def using assms by (simp add: or_nil_def)
  moreover have "p \<longleftrightarrow> \<not> full_nodes (GetGpuCount E nf) rs" "full_nodes (GetGpuCount E nf) rs \<Longrightarrow> t = gpu_replicas rs"
    using rdma_scan_spec [of "GetGpuCount E nf" rs 0] by (simp_all add: s)
  ultimately show ?thesis by (cases "full_nodes (GetGpuCount E nf) rs") (simp_all add: not_less [symmetric] conj_commute cong: if_cong)
qed

section \<open>The normal form of a workload\<close>

lemma spec_frames [simp]:
  "w_Spec (set_annotation k v w) = w_Spec w" "w_Spec (set_label k v w) = w_Spec w"
  "w_Spec (mutateStickNodes E lg workspace w) = w_Spec w"
  by (simp_all add: set_annotation_def set_label_def mutateStickNodes_def)

lemma hostpath_frame [simp]:
  "ws_Priority (w_Spec (mutateHostPath workspace w)) = ws_Priority (w_Spec w)"
  "ws_MaxRetry (w_Spec (mutateHostPath workspace w)) = ws_MaxRetry (w_Spec w)"
  "ws_Resources (w_Spec (mutateHostPath workspace w)) = ws_Resources (w_Spec w)"
  by (simp_all add: mutateHostPath_def Let_def)

lemma env_frame [simp]:
  "ws_Priority (w_Spec (mutateEnv E old w)) = ws_Priority (w_Spec w)" "ws_MaxRetry (w_Spec (mutateEnv E old w)) = ws_MaxRetry (w_Spec w)"
  "ws_Resources (w_Spec (mutateEnv E old w)) = ws_Resources (w_Spec w)" "ws_Hostpath (w_Spec (mutateEnv E old w)) = ws_Hostpath (w_Spec w)"
  by (simp_all add: mutateEnv_def Let_def split: option.split)

lemma rdma_frame [simp]:
  "ws_Priority (w_Spec (mutateRdmaResource E lg w)) = ws_Priority (w_Spec w)" "ws_MaxRetry (w_Spec (mutateRdmaResource E lg w)) = ws_MaxRetry (w_Spec w)"
  "ws_Hostpath (w_Spec (mutateRdmaResource E lg w)) = ws_Hostpath (w_Spec w)"
  "map wr_Replica (ws_Resources (w_Spec (mutateRdmaResource E lg w))) = map wr_Replica (ws_Resources (w_Spec w))"
  by (simp_all add: mutateRdmaResource_def Let_def split: option.split prod.split)

lemma secrets_frame [simp]:
  "ws_Priority (w_Spec (mutateSecrets E lg workspace w)) = ws_Priority (w_Spec w)" "ws_MaxRetry (w_Spec (mutateSecrets E lg workspace w)) = ws_MaxRetry (w_Spec w)"
  "ws_Resources (w_Spec (mutateSecrets E lg workspace w)) = ws_Resources (w_Spec w)" "ws_Hostpath (w_Spec (mutateSecrets E lg workspace w)) = ws_Hostpath (w_Spec w)"
  by (simp_all add: mutateSecrets_def Let_def split: prod.split)

lemma health_frame [simp]:
  "ws_Priority (w_Spec (mutateHealthCheck w)) = ws_Priority (w_Spec w)" "ws_MaxRetry (w_Spec (mutateHealthCheck w)) = ws_MaxRetry (w_Spec w)"
  "ws_Resources (w_Spec (mutateHealthCheck w)) = ws_Resources (w_Spec w)" "ws_Hostpath (w_Spec (mutateHealthCheck w)) = ws_Hostpath (w_Spec w)"
  by (simp_all add: mutateHealthCheck_def)

lemma flat_frames [simp]:
  "ws_Priority (w_Spec (mutateEntryPoints E w)) = ws_Priority (w_Spec w)" "ws_MaxRetry (w_Spec (mutateEntryPoints E w)) = ws_MaxRetry (w_Spec w)" "ws_Resources (w_Spec (mutateEntryPoints E w)) = ws_Resources (w_Spec w)" "ws_Hostpath (w_Spec (mutateEntryPoints E w)) = ws_Hostpath (w_Spec w)"
  "ws_Priority (w_Spec (mutateImages w)) = ws_Priority (w_Spec w)" "ws_MaxRetry (w_Spec (mutateImages w)) = ws_MaxRetry (w_Spec w)" "ws_Resources (w_Spec (mutateImages w)) = ws_Resources (w_Spec w)" "ws_Hostpath (w_Spec (mutateImages w)) = ws_Hostpath (w_Spec w)"
  "ws_Priority (w_Spec (mutateCustomerLabels w)) = ws_Priority (w_Spec w)" "ws_MaxRetry (w_Spec (mutateCustomerLabels w)) = ws_MaxRetry (w_Spec w)" "ws_Resources (w_Spec (mutateCustomerLabels w)) = ws_Resources (w_Spec w)" "ws_Hostpath (w_Spec (mutateCustomerLabels w)) = ws_Hostpath (w_Spec w)"
  "ws_Priority (w_Spec (mutateCronJobs w)) = ws_Priority (w_Spec w)" "ws_MaxRetry (w_Spec (mutateCronJobs w)) = ws_MaxRetry (w_Spec w)" "ws_Resources (w_Spec (mutateCronJobs w)) = ws_Resources (w_Spec w)" "ws_Hostpath (w_Spec (mutateCronJobs w)) = ws_Hostpath (w_Spec w)"
  "ws_Priority (w_Spec (mutateService w)) = ws_Priority (w_Spec w)" "ws_MaxRetry (w_Spec (mutateService w)) = ws_MaxRetry (w_Spec w)" "ws_Resources (w_Spec (mutateService w)) = ws_Resources (w_Spec w)" "ws_Hostpath (w_Spec (mutateService w)) = ws_Hostpath (w_Spec w)"
  "ws_MaxRetry (w_Spec (mutatePriority w)) = ws_MaxRetry (w_Spec w)" "ws_Resources (w_Spec (mutatePriority w)) = ws_Resources (w_Spec w)" "ws_Hostpath (w_Spec (mutatePriority w)) = ws_Hostpath (w_Spec w)"
  "ws_Priority (w_Spec (mutateMaxRetry w)) = ws_Priority (w_Spec w)" "ws_Resources (w_Spec (mutateMaxRetry w)) = ws_Resources (w_Spec w)" "ws_Hostpath (w_Spec (mutateMaxRetry w)) = ws_Hostpath (w_Spec w)"
  by (simp_all add: mutatePriority_def mutateMaxRetry_def mutateEntryPoints_def mutateImages_def mutateCustomerLabels_def mutateCronJobs_def mutateService_def)

lemma clamped:
  "LowPriorityInt \<le> ws_Priority (w_Spec (mutatePriority w))" "ws_Priority (w_Spec (mutatePriority w)) \<le> HighPriorityInt"
  "0 \<le> ws_MaxRetry (w_Spec (mutateMaxRetry w))" "ws_MaxRetry (w_Spec (mutateMaxRetry w)) \<le> DefaultMaxFailover"
  by (simp_all add: mutatePriority_def mutateMaxRetry_def HighPriorityInt_def LowPriorityInt_def DefaultMaxFailover_def Let_def)

text \<open>Distinctness of the two lists that are rebuilt with a set of what has been seen.\<close>

lemma fresh_paths_distinct: "distinct (fresh_paths seen ps) \<and> (\<forall>p \<in> set (fresh_paths seen ps). \<not> set_Has seen p)"
proof (induction ps arbitrary: seen)
  case (Cons p ps)
  from Cons.IH [of "set_Insert [p] seen"] Cons.IH [of seen] show ?case by auto
qed simp

lemma known_secrets_distinct:
  assumes "known_secrets E lg seen ss = (seen', ss')"
  shows "distinct (map sec_Id ss') \<and> (\<forall>s \<in> set ss'. \<not> set_Has seen (sec_Id s) \<and> set_Has seen' (sec_Id s)) \<and> (\<forall>k. set_Has seen k \<longrightarrow> set_Has seen' k)"
  using assms
proof (induction ss arbitrary: seen seen' ss')
  case (Cons s ss)
  show ?case
  proof (cases "set_Has seen (sec_Id s) \<or> get_Secret E lg (sec_Id s) \<noteq> None")
    case True
    then show ?thesis using Cons by (simp split: if_splits)
  next
    case False
    obtain s1 ss1 where k: "known_secrets E lg (set_Insert [sec_Id s] seen) ss = (s1, ss1)" by fastforce
    with False Cons.prems have eq: "seen' = s1" "ss' = s # ss1" by auto
    have IH: "distinct (map sec_Id ss1)" "\<forall>x \<in> set ss1. \<not> set_Has (set_Insert [sec_Id s] seen) (sec_Id x) \<and> set_Has s1 (sec_Id x)"
      "\<forall>k. set_Has (set_Insert [sec_Id s] seen) k \<longrightarrow> set_Has s1 k"
      using Cons.IH [OF k] by blast+
    then have "sec_Id s \<notin> sec_Id ` set ss1" by auto
    then show ?thesis using IH False by (auto simp: eq)
  qed
qed simp

lemma image_secrets_distinct: "distinct (map sec_Id (image_secrets seen names)) \<and> (\<forall>s \<in> set (image_secrets seen names). \<not> set_Has seen (sec_Id s))"
proof (induction names arbitrary: seen)
  case (Cons n names)
  from Cons.IH [of "set_Insert [n] seen"] Cons.IH [of seen] show ?case by auto
qed simp

lemma mutateSecrets_distinct: "distinct (map sec_Id (ws_Secrets (w_Spec (mutateSecrets E lg workspace w))))"
proof -
  obtain seen ss where k: "known_secrets E lg set_New (ws_Secrets (w_Spec w)) = (seen, ss)" by fastforce
  note d = known_secrets_distinct [OF k]
  have "sec_Id ` set ss \<inter> sec_Id ` set (image_secrets seen names) = {}" for names
    using d image_secrets_distinct [of seen names] by auto
  then show ?thesis
    using d image_secrets_distinct [of seen] by (auto simp: mutateSecrets_def k Let_def split: option.splits)
qed

lemma one_replica_pos: "\<forall>r \<in> set (one_replica rs). 0 < wr_Replica r"
  by (cases rs) (simp_all add: one_replica_def)

lemma env_default_resources: "env_default key val w = Ret w' \<Longrightarrow> ws_Resources (w_Spec w') = ws_Resources (w_Spec w)"
  by (auto simp: env_default_def set_env_def split: sum.splits if_splits)

lemma mutateTorchFT_resources: "mutateTorchFT w = Ret w' \<Longrightarrow> ws_Resources (w_Spec w') = ws_Resources (w_Spec w)"
  by (auto simp: mutateTorchFT_def Let_def rbind_def split: run.splits dest!: env_default_resources)

lemma serving_resources [simp]:
  "ws_Resources (w_Spec (mutateDynamoDeployment w)) = ws_Resources (w_Spec w)"
  "ws_Resources (w_Spec (mutateInferaDeployment w)) = ws_Resources (w_Spec w)"
  by (simp_all add: mutateDynamoDeployment_def mutateInferaDeployment_def default_annotation_def env_if_missing_def Let_def)

lemma mutate_kind_positive:
  assumes "mutate_kind E w = Ret w'" "\<forall>r \<in> set (ws_Resources (w_Spec w)). 0 < wr_Replica r"
  shows "\<forall>r \<in> set (ws_Resources (w_Spec w')). 0 < wr_Replica r"
proof -
  have "ws_Resources (w_Spec w') \<in> {ws_Resources (w_Spec w), one_replica (ws_Resources (w_Spec w)), ray_submitter # ws_Resources (w_Spec w),
      (case ws_Resources (w_Spec w) of [] \<Rightarrow> [] | r # rs \<Rightarrow> r\<lparr>wr_Replica := 1\<rparr> # rs)}"
    using assms(1) by (auto simp: mutate_kind_def mutateDeployment_def mutateAuthoring_def mutateCICDScaleSet_def mutateSandbox_def mutateRayJob_def
        mutateMonarchJob_def dest!: mutateTorchFT_resources split: if_splits)
  then show ?thesis
    using assms(2) one_replica_pos [of "ws_Resources (w_Spec w)"] by (auto simp: ray_submitter_def split: list.splits)
qed

definition normal_workload :: "Workload \<Rightarrow> bool" where
  "normal_workload w \<longleftrightarrow>
     LowPriorityInt \<le> ws_Priority (w_Spec w) \<and> ws_Priority (w_Spec w) \<le> HighPriorityInt \<and>
     0 \<le> ws_MaxRetry (w_Spec w) \<and> ws_MaxRetry (w_Spec w) \<le> DefaultMaxFailover \<and>
     (\<forall>r \<in> set (ws_Resources (w_Spec w)). 0 < wr_Replica r) \<and> distinct (ws_Hostpath (w_Spec w)) \<and> distinct (map sec_Id (ws_Secrets (w_Spec w)))"

lemma mutate_rest_normal:
  assumes "\<forall>r \<in> set (ws_Resources (w_Spec w)). 0 < wr_Replica r"
  shows "normal_workload (mutate_rest E lg old workspace w)"
proof -
  have pos: "\<forall>r \<in> set (ws_Resources (w_Spec (mutateRdmaResource E lg v))). 0 < wr_Replica r"
    if "ws_Resources (w_Spec v) = ws_Resources (w_Spec w)" for v
  proof -
    have "wr_Replica ` set (ws_Resources (w_Spec (mutateRdmaResource E lg v))) = wr_Replica ` set (ws_Resources (w_Spec w))"
      using rdma_frame(4) [of E lg v] that by (metis set_map)
    then show ?thesis using assms by (metis (no_types, lifting) image_iff)
  qed
  have "distinct (ws_Hostpath (w_Spec (mutateHostPath workspace w)))"
    using fresh_paths_distinct by (auto simp: mutateHostPath_def Let_def)
  moreover define v where "v = mutateMaxRetry (mutateEnv E old (mutateEntryPoints E (mutateImages (mutatePriority (mutateHostPath workspace w)))))"
  moreover have "\<forall>r \<in> set (ws_Resources (w_Spec (mutateRdmaResource E lg v))). 0 < wr_Replica r" by (rule pos) (simp add: v_def)
  ultimately show ?thesis
    by (simp add: normal_workload_def mutate_rest_def Let_def mutateSecrets_distinct clamped flip: v_def) (simp add: v_def clamped)
qed

lemma workload_mutateCommon_normal: "workload_mutateCommon E lg old workspace w = Ret w' \<Longrightarrow> normal_workload w'"
proof -
  assume "workload_mutateCommon E lg old workspace w = Ret w'"
  then obtain v where v: "mutate_kind E (mutateResources E workspace w) = Ret v" and w': "w' = mutate_rest E lg old workspace v"
    by (auto simp: workload_mutateCommon_def rbind_def split: run.splits)
  have "wr_Replica (normal_resource E workspace r) = wr_Replica r" for r
    by (simp add: normal_resource_def Let_def split: option.split sum.split)
  then have "\<forall>r \<in> set (ws_Resources (w_Spec (mutateResources E workspace w))). 0 < wr_Replica r" by (auto simp: mutateResources_def)
  from mutate_rest_normal [OF mutate_kind_positive [OF v this]] show ?thesis by (simp add: w')
qed

text \<open>C14: Every workload the mutator writes is in normal form: the priority between low and high, at most fifty retries and
  never a negative number, no resource without replicas, no host path twice and no secret twice.\<close>

theorem mutated_workload_normal:
  assumes "WorkloadMutator_Handle E lg req = Ret (Patched w)" and "\<forall>x e. req \<noteq> UpdateReq x (Inl e)"
  shows "normal_workload w"
proof -
  have timeout: "normal_workload (set_annotation k v (mutateTimeout workspace x)) = normal_workload x" for k v workspace x
    by (simp add: normal_workload_def mutateTimeout_def Let_def split: option.split)
  show ?thesis
    using assms by (auto simp: WorkloadMutator_Handle_def workload_mutateOnCreation_def workload_mutateOnUpdate_def rbind_def handleError_def Let_def timeout
        split: request.splits sum.splits if_splits run.splits dest: workload_mutateCommon_normal)
qed

section \<open>Kinds on creation\<close>

definition alive :: "Workload \<Rightarrow> bool" where
  "alive w \<longleftrightarrow> time_IsZero (om_DeletionTimestamp (w_Meta w))"

lemma spec_let: "(\<And>x. w_Spec x = w_Spec a \<Longrightarrow> w_Spec (f x) = c) \<Longrightarrow> w_Spec (let x = a in f x) = c"
  by simp

lemma meta_frame [simp]: "w_Spec (workload_mutateMeta E lg workspace w) = w_Spec w"
proof -
  have "w_Spec (mutateOwnerReference E lg workspace v) = w_Spec v" for v
    by (simp add: mutateOwnerReference_def own_by_def Let_def split: option.split sum.split list.split)
  moreover have "w_Spec (workspace_labels workspace v) = w_Spec v" for v
    by (simp add: workspace_labels_def Let_def split: option.split)
  moreover have "w_Spec (snd (SetMainContainerViaTemplate E lg v)) = w_Spec v" for v
    by (simp add: SetMainContainerViaTemplate_def split: sum.split)
  ultimately show ?thesis
    unfolding workload_mutateMeta_def by (intro spec_let) (simp add: if_distrib [of w_Spec])
qed

text \<open>What reaches the step of the kind on creation: the kind, the environment, the images and the resources with replicas.\<close>

definition prepared :: "('q::linordered_ab_group_add, 'z) hook_scheme \<Rightarrow> wlog \<Rightarrow> Workload \<Rightarrow> Workload" where
  "prepared E lg w =
     (let workspace = or_nil (hook_getWorkspace E lg (ws_Workspace (w_Spec w)))
      in mutateResources E workspace (mutateTTLSeconds E (workload_mutateMeta E lg workspace (mutateGvk w))))"

lemma prepared_fields [simp]:
  "ws_Env (w_Spec (prepared E lg w)) = ws_Env (w_Spec w)" "ws_Images (w_Spec (prepared E lg w)) = ws_Images (w_Spec w)"
  "length (ws_Resources (w_Spec (prepared E lg w))) = length (filter (\<lambda>r. wr_Replica r > 0) (ws_Resources (w_Spec w)))"
  "SpecKind w \<noteq> '''' \<Longrightarrow> SpecKind (prepared E lg w) = SpecKind w"
  by (simp_all add: prepared_def mutateResources_def mutateTTLSeconds_def mutateGvk_def SpecKind_def Let_def)

lemma mutator_created:
  assumes "alive w"
  shows "WorkloadMutator_Handle E lg (CreateReq (Inr w)) =
     rbind (mutate_kind E (prepared E lg w)) (\<lambda>v.
       let workspace = or_nil (hook_getWorkspace E lg (ws_Workspace (w_Spec w))) in
       Ret (Patched (set_annotation WorkloadStatusOffloadAnnotation TrueStr (mutateTimeout workspace (mutate_rest E lg None workspace v)))))"
  using assms by (simp add: WorkloadMutator_Handle_def workload_mutateOnCreation_def workload_mutateCommon_def prepared_def alive_def Let_def rbind_def split: run.splits)

lemma plain_kind_patched:
  assumes "alive w" "SpecKind w = PytorchJobKind"
  shows "\<exists>w'. WorkloadMutator_Handle E lg (CreateReq (Inr w)) = Ret (Patched w')"
proof -
  have "SpecKind (prepared E lg w) = PytorchJobKind" using assms(2) by (simp add: PytorchJobKind_def)
  then have "mutate_kind E (prepared E lg w) = Ret (prepared E lg w)" by (simp add: mutate_kind_def kind_defs)
  then show ?thesis by (simp add: mutator_created [OF assms(1)] Let_def)
qed

text \<open>An elastic workload without environment variables makes the mutator panic: the defaults for the bounds of the
  number of groups are written to a nil map, so the request fails instead of being refused by the validator.\<close>

lemma elastic_without_env_panics:
  assumes "alive w" and "SpecKind w = TorchFTKind \<or> SpecKind w = MonarchJob" and "ws_Env (w_Spec w) = []"
  shows "WorkloadMutator_Handle E lg (CreateReq (Inr w)) = Panic"
proof -
  have k: "SpecKind (prepared E lg w) = SpecKind w" using assms(2) by (intro prepared_fields(4)) (auto simp: kind_defs)
  have d: "env_default key val v = Panic" if "ws_Env (w_Spec v) = []" for key val v
    using that by (simp add: env_default_def GetReplicaCount_def mget0_def)
  have "mutateTorchFT v = Panic" if "ws_Env (w_Spec v) = []" for v
    using that by (simp add: mutateTorchFT_def d Let_def)
  then have "mutate_kind E (prepared E lg w) = Panic"
    using assms(2,3) by (auto simp: mutate_kind_def k mutateMonarchJob_def kind_defs)
  then show ?thesis by (simp add: mutator_created [OF assms(1)])
qed

text \<open>
  A resource without replicas is dropped while the images stay as they are, so the images of the later resources move; and the submitter a
  Ray job is given lacks the shared memory that the next update adds.
\<close>

lemma image_frames [simp]:
  "ws_Images (w_Spec (mutateHostPath ws v)) = ws_Images (w_Spec v)" "ws_Images (w_Spec (mutatePriority v)) = ws_Images (w_Spec v)"
  "ws_Images (w_Spec (mutateEntryPoints E v)) = ws_Images (w_Spec v)" "ws_Images (w_Spec (mutateEnv E old v)) = ws_Images (w_Spec v)"
  "ws_Images (w_Spec (mutateMaxRetry v)) = ws_Images (w_Spec v)" "ws_Images (w_Spec (mutateRdmaResource E lg v)) = ws_Images (w_Spec v)"
  "ws_Images (w_Spec (mutateCustomerLabels v)) = ws_Images (w_Spec v)" "ws_Images (w_Spec (mutateCronJobs v)) = ws_Images (w_Spec v)"
  "ws_Images (w_Spec (mutateHealthCheck v)) = ws_Images (w_Spec v)" "ws_Images (w_Spec (mutateService v)) = ws_Images (w_Spec v)"
  "ws_Images (w_Spec (mutateSecrets E lg ws v)) = ws_Images (w_Spec v)" "ws_Images (w_Spec (mutateTimeout ws v)) = ws_Images (w_Spec v)"
  "ws_Resources (w_Spec (mutateTimeout ws v)) = ws_Resources (w_Spec v)"
  by (simp_all add: mutateHostPath_def mutatePriority_def mutateEntryPoints_def mutateEnv_def mutateMaxRetry_def mutateRdmaResource_def mutateCustomerLabels_def
      mutateCronJobs_def mutateHealthCheck_def mutateService_def mutateSecrets_def mutateTimeout_def Let_def split: option.split prod.split)

lemma images_not_dropped:
  assumes "alive w" "SpecKind w = PytorchJobKind" "WorkloadMutator_Handle E lg (CreateReq (Inr w)) = Ret (Patched w')"
  shows "length (ws_Images (w_Spec w')) = length (ws_Images (w_Spec w)) \<and>
         length (ws_Resources (w_Spec w')) = length (filter (\<lambda>r. wr_Replica r > 0) (ws_Resources (w_Spec w)))"
proof -
  have "SpecKind (prepared E lg w) = PytorchJobKind" using assms(2) by (simp add: PytorchJobKind_def)
  then have k: "mutate_kind E (prepared E lg w) = Ret (prepared E lg w)" by (simp add: mutate_kind_def kind_defs)
  have "length (ws_Images (w_Spec (mutateImages v))) = length (ws_Images (w_Spec v))" for v by (simp add: mutateImages_def)
  moreover have "length (ws_Resources (w_Spec (mutateRdmaResource E lg v))) = length (ws_Resources (w_Spec v))" for v
    using rdma_frame(4) [of E lg v] by (metis length_map)
  ultimately show ?thesis
    using assms(3) by (auto simp: mutator_created [OF assms(1)] k mutate_rest_def Let_def)
qed

lemma ray_submitter_changes:
  assumes "q_Parse E RayJobSubmitterMemory = Inr q" "0 < q_Value E q" "q_HalfString E q \<noteq> ''''"
  shows "normal_resource E workspace ray_submitter \<noteq> ray_submitter"
  using assms by (simp add: normal_resource_def ray_submitter_def RayJobSubmitterMemory_def RayJobSubmitterStorage_def Let_def split: option.split)

section \<open>Witnesses and concrete runs\<close>

definition gpu_flavor :: "int NodeFlavor" where
  "gpu_flavor = sample_flavor\<lparr>nf_Spec := (nf_Spec sample_flavor)\<lparr>nfs_Cpu := \<lparr>cpu_Product = '''', cpu_Quantity = 8\<rparr>, nfs_Memory := 64,
     nfs_Gpu := Some \<lparr>gpu_Product = '''', gpu_ResourceName = ''amd.com/gpu'', gpu_Quantity = 8\<rparr>, nfs_ExtendResources := [(ResourceEphemeralStorage, 100)]\<rparr>\<rparr>"

definition any_template :: ResourceTemplate where
  "any_template = nested_template\<lparr>rt_Meta := (blank_meta ''t'')\<lparr>om_Annotations := [(WorkloadKindLabel, ''PyTorchJob,Deployment,RayJob'')]\<rparr>\<rparr>"

definition demo_hook :: "Workload list \<Rightarrow> int hook" where
  "demo_hook ws = (sample_hook ws [sample_workspace '''' 9] [] [gpu_flavor] [])
     \<lparr>list_ResourceTemplates := (\<lambda>_ _. Inr [any_template]), list_ConfigMaps := (\<lambda>_ _. Inr [blank_meta ''t''])\<rparr>"

definition full_resource :: "int \<Rightarrow> string \<Rightarrow> WorkloadResource" where
  "full_resource replica gpus = (gpu_resource replica gpus)\<lparr>wr_CPU := ''4'', wr_Memory := ''8'', wr_EphemeralStorage := ''5''\<rparr>"

definition demo_workload :: "string \<Rightarrow> strmap \<Rightarrow> WorkloadResource list \<Rightarrow> Workload" where
  "demo_workload kind env rs = (blank_workload ''w'')
     \<lparr>w_Meta := (blank_meta ''w'')\<lparr>om_Labels := [(ClusterIdLabel, ''c''), (NodeFlavorIdLabel, ''f''), (DisplayNameLabel, ''job'')]\<rparr>,
      w_Spec := blank_spec\<lparr>ws_Env := env, ws_Resources := rs, ws_GVK := \<lparr>gvk_Group = '''', gvk_Version = ''v1'', gvk_Kind = kind\<rparr>\<rparr>\<rparr>"

abbreviation two_replicas :: Workload where
  "two_replicas \<equiv> demo_workload PytorchJobKind [] [full_resource 2 ''8'']"

lemma rdma_for_full_nodes_witness:
  "map wr_RdmaResource (ws_Resources (w_Spec (mutateRdmaResource (demo_hook []) [] (demo_workload PytorchJobKind [] [full_resource 1 ''8'', full_resource 3 ''8''])))) = [''1'', ''1'']"
proof -
  let ?w = "demo_workload PytorchJobKind [] [full_resource 1 ''8'', full_resource 3 ''8'']"
  have f: "getNodeFlavor (demo_hook []) [] (GetNodeFlavorId (w_Meta ?w)) = Inr (Some gpu_flavor)" by code_simp
  have r: "RdmaName (demo_hook []) \<noteq> ''''" by code_simp
  have v: "''1'' = (case mget (nfs_ExtendResources (nf_Spec gpu_flavor)) (RdmaName (demo_hook [])) of None \<Rightarrow> ''1'' | Some q \<Rightarrow> q_String (demo_hook []) q)"
    by code_simp
  have "full_nodes (GetGpuCount (demo_hook []) gpu_flavor) (ws_Resources (w_Spec ?w)) \<and> 1 < gpu_replicas (ws_Resources (w_Spec ?w))" by code_simp
  moreover have "list_all HasGpu (ws_Resources (w_Spec ?w))" "length (ws_Resources (w_Spec ?w)) = 2" by code_simp+
  moreover have "map wr_RdmaResource (map (\<lambda>r. r\<lparr>wr_RdmaResource := if P \<and> HasGpu r then v else ''''\<rparr>) rs) = replicate (length rs) v"
    if "list_all HasGpu rs" P for rs P v
    using that by (induction rs) auto
  ultimately show ?thesis
    unfolding rdma_for_full_nodes [OF f r v refl] by (simp add: numeral_2_eq_2 flip: conj_assoc)
qed

lemma mutated_workload_normal_witness:
  "\<exists>w. WorkloadMutator_Handle (demo_hook []) [] (CreateReq (Inr (on_wl (\<lambda>s. s\<lparr>ws_Priority := 7, ws_MaxRetry := - 3\<rparr>) two_replicas))) = Ret (Patched w) \<and> normal_workload w"
proof -
  let ?x = "on_wl (\<lambda>s. s\<lparr>ws_Priority := 7, ws_MaxRetry := - 3\<rparr>) two_replicas"
  have "alive ?x" by code_simp
  moreover have "SpecKind ?x = PytorchJobKind" by code_simp
  ultimately obtain w where w: "WorkloadMutator_Handle (demo_hook []) [] (CreateReq (Inr ?x)) = Ret (Patched w)"
    using plain_kind_patched [of ?x "demo_hook []" "[]"] by blast
  from mutated_workload_normal [OF w] w show ?thesis by blast
qed

lemma elastic_without_env_panics_witness:
  "WorkloadMutator_Handle (demo_hook []) [] (CreateReq (Inr (demo_workload TorchFTKind [] [full_resource 1 '''', full_resource 4 ''8'']))) = Panic"
proof (rule elastic_without_env_panics)
  show "alive (demo_workload TorchFTKind [] [full_resource 1 '''', full_resource 4 ''8''])" by code_simp
qed (simp_all add: demo_workload_def SpecKind_def)

end
