(* ===== verification/Workload_Validator.thy ===== *)
theory Workload_Validator
  imports Workload_Mutator
begin

text \<open>
  The validator of \<^verbatim>\<open>webhooks/pkg/workload_webhook.go\<close>: which workloads are admitted, and which changes. An index out of
  range, a division by zero and a nil dereference give \<open>Panic\<close>.
\<close>

definition UnifiedJobEnable :: string where "UnifiedJobEnable = ''UNIFIED_JOB_ENABLE''"
definition RayJobEntrypoint :: string where "RayJobEntrypoint = ''RAY_JOB_ENTRYPOINT''"
definition NodesAffinityRequired :: string where "NodesAffinityRequired = ''required''"

definition GetNodesAffinity :: "ObjectMeta \<Rightarrow> string" where
  "GetNodesAffinity obj = GetAnnotation obj NodesAffinityAnnotation"

definition IsEnableWorkspaceStorage :: "ObjectMeta \<Rightarrow> bool" where
  "IsEnableWorkspaceStorage obj \<longleftrightarrow> GetAnnotation obj UseWorkspaceStorageAnnotation = TrueStr"

definition GetOwnerWorkloadId :: "Workload \<Rightarrow> string" where
  "GetOwnerWorkloadId w = GetLabel (w_Meta w) OwnerLabel"

text \<open>Checks in sequence, where some may panic.\<close>

definition and_then :: "goerr option run \<Rightarrow> goerr option run \<Rightarrow> goerr option run" where
  "and_then x y = rbind x (\<lambda>e. case e of Some err \<Rightarrow> Ret (Some err) | None \<Rightarrow> y)"

lemma and_then_ok: "and_then x y = Ret None \<longleftrightarrow> x = Ret None \<and> y = Ret None"
  by (auto simp: and_then_def rbind_def split: run.splits option.splits)

section \<open>Single workloads\<close>

definition validateOwnerWorkload :: "('q, 'z) hook_scheme \<Rightarrow> wlog \<Rightarrow> Workload \<Rightarrow> goerr option" where
  "validateOwnerWorkload E lg workload =
     (let ownerId = GetOwnerWorkloadId workload in
      if ownerId = '''' then None
      else if ownerId = w_Name workload then Some (NewBadRequest ''ownerWorkloadId must not reference the workload itself'')
      else case get_Workload E lg ownerId of
             Inl err \<Rightarrow> if api_IsNotFound E err then None else Some (NewInternalError (''failed to verify ownerWorkloadId '' @ ownerId))
           | Inr owner \<Rightarrow>
               if ws_Workspace (w_Spec owner) \<noteq> ws_Workspace (w_Spec workload)
               then Some (NewBadRequest (''ownerWorkloadId '' @ ownerId @ '' lives in workspace '' @ ws_Workspace (w_Spec owner)))
               else fail_if (GetOwnerWorkloadId owner = w_Name workload) (NewBadRequest (''ownerWorkloadId '' @ ownerId @ '' creates a cycle with this workload'')))"

definition validateResource :: "WorkloadResource \<Rightarrow> string \<Rightarrow> goerr option" where
  "validateResource res workspaceName =
     (if workspaceName = ''default'' then None
      else NewAggregate
        (only_if (wr_Replica res \<le> 0) (plain_error ''the replica is empty'') @ only_if (wr_CPU res = '''') (plain_error ''the cpu is empty'') @
         only_if (wr_Memory res = '''') (plain_error ''the memory is empty'') @
         only_if (wr_EphemeralStorage res = '''') (plain_error ''the ephemeralStorage is empty'')))"

definition workload_validateRequiredParams :: "Workload \<Rightarrow> goerr option" where
  "workload_validateRequiredParams workload =
     (let name = GetDisplayName (w_Meta workload); s = w_Spec workload in
      NewAggregate
        (only_if (name = '''') (plain_error ''the displayName is empty'') @
         (case validateDNSName name (SpecKind workload) of None \<Rightarrow> [] | Some e \<Rightarrow> [e]) @
         only_if (GetClusterId (w_Meta workload) = '''' \<and> ws_Workspace s \<noteq> ''default'') (plain_error ''the cluster is empty'') @
         only_if (ws_Workspace s = '''') (plain_error ''the workspace is empty'') @
         only_if (gvk_Kind (ws_GVK s) = '''' \<or> gvk_Version (ws_GVK s) = '''') (plain_error ''the gvk is empty'') @
         only_if (length (ws_Resources s) = 0) (plain_error ''the resources are empty'') @
         concat (map (\<lambda>res. case validateResource res (ws_Workspace s) of None \<Rightarrow> [] | Some e \<Rightarrow> [e]) (ws_Resources s))))"

definition validateAuthoring :: "Workload \<Rightarrow> goerr option" where
  "validateAuthoring workload =
     fail_if (GetNodesAffinity (w_Meta workload) = NodesAffinityRequired \<and> length (GetSpecifiedNodes workload) > 1)
       (plain_error ''the authoring can only be created with one node'')"

definition validateCICDScalingRunnerSet :: "('q, 'z) hook_scheme \<Rightarrow> Workload \<Rightarrow> goerr option" where
  "validateCICDScalingRunnerSet E workload =
     (if length (ws_Env (w_Spec workload)) = 0 then Some (plain_error ''the environment variables of workload is empty'')
      else case find (\<lambda>key. mget0 '''' (ws_Env (w_Spec workload)) key = '''') [''RESOURCES'', ''ENTRYPOINT'', ''IMAGE'', ''GITHUB_CONFIG_URL''] of
             Some key \<Rightarrow> Some (plain_error (''the '' @ key @ '' of workload environment variables is empty''))
           | None \<Rightarrow>
               case json_Resource E (mget0 '''' (ws_Env (w_Spec workload)) ''RESOURCES'') of
                 Inl err \<Rightarrow> Some err
               | Inr res \<Rightarrow>
                   first_error [validateResource res (ws_Workspace (w_Spec workload)),
                     fail_if (\<not> IsEnableWorkspaceStorage (w_Meta workload) \<and> GetEnv workload UnifiedJobEnable = TrueStr)
                       (plain_error ''unified job must use workspace storage'')])"

definition empty_image :: "Workload \<Rightarrow> goerr option" where
  "empty_image w = fail_if (list_ex (\<lambda>img. img = '''') (ws_Images (w_Spec w))) (plain_error ''images must not be empty'')"

text \<open>\<^verbatim>\<open>GetReplicaCount\<close> with its error ignored.\<close>

definition count_or_zero :: "Workload \<Rightarrow> string \<Rightarrow> int" where
  "count_or_zero w key = (case GetReplicaCount w key of Inl _ \<Rightarrow> 0 | Inr n \<Rightarrow> n)"

definition worker_nodes :: "Workload \<Rightarrow> int run" where
  "worker_nodes w = (case ws_Resources (w_Spec w) of _ # r # _ \<Rightarrow> Ret (wr_Replica r) | _ \<Rightarrow> Panic)"

definition same_groups :: "Workload \<Rightarrow> int \<Rightarrow> int \<Rightarrow> int \<Rightarrow> int \<Rightarrow> goerr option run" where
  "same_groups old nodes grp maxGroup minGroup =
     (if maxGroup \<noteq> count_or_zero old MaxReplicaCount then Ret (Some (plain_error ''the MAX_REPLICA_COUNT of workload environment can not be changed''))
      else if minGroup \<noteq> count_or_zero old MinReplicaCount then Ret (Some (plain_error ''the MIN_REPLICA_COUNT of workload environment can not be changed''))
      else rbind (worker_nodes old) (\<lambda>oldNodes.
             if count_or_zero old ReplicaCount = 0 then Panic
             else Ret (fail_if (go_div oldNodes (count_or_zero old ReplicaCount) \<noteq> go_div nodes grp)
                         (plain_error ''the count of group nodes can not be changed''))))"

definition validateReplicaCount :: "Workload \<Rightarrow> Workload option \<Rightarrow> goerr option run" where
  "validateReplicaCount newWorkload oldWorkload =
     (case GetReplicaCount newWorkload ReplicaCount of
        Inl err \<Rightarrow> Ret (Some err)
      | Inr grp \<Rightarrow>
          let invalid = Ret (Some (plain_error ''the REPLICA_COUNT of workload environment is invalid'')) in
          if grp \<le> 0 then invalid
          else rbind (worker_nodes newWorkload) (\<lambda>nodes.
            if grp > nodes \<or> nodes mod grp \<noteq> 0 then invalid
            else case GetReplicaCount newWorkload MaxReplicaCount of
                   Inl err \<Rightarrow> Ret (Some err)
                 | Inr maxGroup \<Rightarrow>
                     case GetReplicaCount newWorkload MinReplicaCount of
                       Inl err \<Rightarrow> Ret (Some err)
                     | Inr minGroup \<Rightarrow>
                         if grp < minGroup \<or> grp > maxGroup then invalid
                         else case oldWorkload of
                                None \<Rightarrow> Ret None
                              | Some old \<Rightarrow> same_groups old nodes grp maxGroup minGroup))"

definition validateTorchFT :: "Workload \<Rightarrow> Workload option \<Rightarrow> goerr option run" where
  "validateTorchFT newWorkload oldWorkload =
     (if length (ws_Resources (w_Spec newWorkload)) < 2 then Ret (Some (plain_error ''insufficient resources for TorchFT''))
      else and_then (Ret (empty_image newWorkload)) (validateReplicaCount newWorkload oldWorkload))"

definition validateRayJob :: "Workload \<Rightarrow> goerr option" where
  "validateRayJob newWorkload =
     first_error
       [fail_if (length (ws_Resources (w_Spec newWorkload)) > 4) (plain_error ''Expected at most 3 resource configurations (header and two worker groups)''),
        fail_if (length (ws_Resources (w_Spec newWorkload)) < 2 \<or> length (ws_Images (w_Spec newWorkload)) < 2)
          (plain_error ''Expected at least 1 resource configurations (header)''),
        empty_image newWorkload,
        fail_if (mget0 '''' (ws_Env (w_Spec newWorkload)) RayJobEntrypoint = '''') (plain_error ''RayJob entrypoint is missing'')]"

definition validateMonarchJob :: "Workload \<Rightarrow> Workload option \<Rightarrow> goerr option run" where
  "validateMonarchJob newWorkload oldWorkload =
     (if length (ws_Resources (w_Spec newWorkload)) < 2 then Ret (Some (plain_error ''insufficient resources for Monarch''))
      else if (case ws_EntryPoints (w_Spec newWorkload) of [] \<Rightarrow> True | ep # _ \<Rightarrow> ep = '''') then Ret (Some (plain_error ''the entryPoint of client is empty''))
      else validateReplicaCount newWorkload oldWorkload)"

text \<open>The checks the two serving kinds share: how often each allowed role occurs, and what is wrong with it.\<close>

definition role_count :: "string list \<Rightarrow> string list \<Rightarrow> string \<Rightarrow> nat" where
  "role_count allowed roles r = (if r \<in> set allowed then count_list roles r else 0)"

definition unknown_roles :: "string list \<Rightarrow> string list \<Rightarrow> goerr list" where
  "unknown_roles allowed roles = map (\<lambda>r. plain_error (''unknown service-role '' @ r)) (filter (\<lambda>r. r \<notin> set allowed) roles)"

definition role_errors :: "string list \<Rightarrow> string list \<Rightarrow> string list \<Rightarrow> bool \<Rightarrow> goerr list" where
  "role_errors allowed roles multinode onePlanner =
     (let cnt = role_count allowed roles in
      only_if (cnt ''frontend'' \<noteq> 1) (plain_error ''service-roles must contain exactly one frontend'') @
      only_if (onePlanner \<and> cnt ''planner'' > 1) (plain_error ''service-roles must contain at most one planner'') @
      only_if (cnt ''worker'' > 0 \<and> (cnt ''prefill'' > 0 \<or> cnt ''decode'' > 0)) (plain_error ''service-roles cannot mix worker with prefill/decode'') @
      only_if (cnt ''prefill'' \<noteq> cnt ''decode'') (plain_error ''service-roles must declare matching prefill and decode counts'') @
      map (\<lambda>role. plain_error (''multinode-roles references undeclared role '' @ role)) (filter (\<lambda>role. cnt role = 0) multinode))"

definition validate_serving ::
  "string \<Rightarrow> string list \<Rightarrow> string list \<Rightarrow> string \<Rightarrow> string \<Rightarrow> string list \<Rightarrow> string list \<Rightarrow> bool \<Rightarrow> Workload \<Rightarrow> goerr option" where
  "validate_serving kind frameworks allowed framework backend roles multinode onePlanner workload =
     (let n = length (ws_Resources (w_Spec workload)) in
      if n = 0 then Some (NewBadRequest (kind @ '' requires at least one resource (frontend)''))
      else if n > 5 then Some (NewBadRequest (kind @ '' resources length exceeds maximum 5 (role0..role4 slots)''))
      else if length roles = 0 then Some (NewBadRequest (kind @ '' requires explicit service-roles annotation''))
      else NewAggregate
        (only_if (framework \<notin> set frameworks) (plain_error (''unknown backend-framework '' @ framework)) @
         only_if (backend \<notin> {''nixl'', ''mori'', ''mooncake''}) (plain_error (''unknown kv-transfer-backend '' @ backend)) @
         only_if (length roles \<noteq> n) (plain_error ''service-roles length must equal Resources length'') @
         unknown_roles allowed roles @ role_errors allowed roles multinode onePlanner))"

definition validateDynamoDeployment :: "Workload \<Rightarrow> goerr option" where
  "validateDynamoDeployment workload =
     validate_serving ''DynamoDeployment'' [''sglang'', ''vllm'', ''trtllm''] [''frontend'', ''worker'', ''prefill'', ''decode'', ''planner'', ''epp'']
       (GetDynamoBackendFramework workload) (GetDynamoKVTransferBackend workload) (GetDynamoServiceRoles workload)
       (GetDynamoMultinodeRoles workload) True workload"

definition validateInferaDeployment :: "Workload \<Rightarrow> goerr option" where
  "validateInferaDeployment workload =
     validate_serving ''InferaDeployment'' [''sglang'', ''vllm''] [''frontend'', ''worker'', ''prefill'', ''decode'']
       (GetInferaBackendFramework workload) (GetInferaKVTransferBackend workload) (GetInferaServiceRoles workload)
       (GetInferaMultinodeRoles workload) False workload"

definition validateSandbox :: "Workload \<Rightarrow> goerr option" where
  "validateSandbox newWorkload =
     fail_if (length (GetDisplayName (w_Meta newWorkload)) > MaxGeneratedNameLength)
       (plain_error (''the displayName is too long, maximum length is '' @ itoa (int MaxGeneratedNameLength)))"

definition validate_service :: "('q, 'z) hook_scheme \<Rightarrow> wlog \<Rightarrow> Workload \<Rightarrow> Service \<Rightarrow> goerr option" where
  "validate_service E lg workload svc =
     first_error
       [validatePort ''service'' (svc_Port svc), validatePort ''service/target'' (svc_TargetPort svc),
        if svc_NodePort svc > 0
        then first_error [validatePort ''service/node'' (svc_NodePort svc),
               fail_if (svc_NodePort svc \<in> GetUsedHostPorts E lg (GetClusterId (w_Meta workload)))
                 (plain_error (''the nodePort '' @ itoa (svc_NodePort svc) @ '' is already used''))]
        else None,
        fail_if (svc_Protocol svc \<noteq> ''TCP'' \<and> svc_Protocol svc \<noteq> ''UDP'') (plain_error ''the service protocol only supports TCP and UDP''),
        fail_if (svc_ServiceType svc \<noteq> ''ClusterIP'' \<and> svc_ServiceType svc \<noteq> ''NodePort'') (plain_error ''the service type only supports ClusterIP and NodePort''),
        fail_if (svc_ServiceType svc = ''NodePort'' \<and> svc_NodePort svc \<le> 0) (plain_error ''the nodePort is empty'')]"

definition validateService :: "('q, 'z) hook_scheme \<Rightarrow> wlog \<Rightarrow> Workload \<Rightarrow> goerr option" where
  "validateService E lg workload = (case ws_Service (w_Spec workload) of None \<Rightarrow> None | Some svc \<Rightarrow> validate_service E lg workload svc)"

definition validate_probe :: "string \<Rightarrow> HealthCheck option \<Rightarrow> goerr option" where
  "validate_probe name probe =
     (case probe of
        None \<Rightarrow> None
      | Some hc \<Rightarrow> first_error [fail_if (hc_Path hc = '''') (plain_error (''the path for '' @ name @ '' is not found'')), validatePort name (hc_Port hc)])"

definition validateHealthCheck :: "Workload \<Rightarrow> goerr option" where
  "validateHealthCheck workload =
     first_error [validate_probe ''liveness'' (ws_Liveness (w_Spec workload)), validate_probe ''readiness'' (ws_Readiness (w_Spec workload))]"

definition validateWorkspace :: "('q::linordered_ab_group_add, 'z) hook_scheme \<Rightarrow> wlog \<Rightarrow> Workload \<Rightarrow> goerr option" where
  "validateWorkspace E lg workload =
     (case or_nil (hook_getWorkspace E lg (ws_Workspace (w_Spec workload))) of
        None \<Rightarrow> fail_if (GetOpsJobId (w_Meta workload) = '''') (NewNotFound ''Workspace'' (ws_Workspace (w_Spec workload)))
      | Some workspace \<Rightarrow>
          if GetTotalReplica workload > wsp_Replica (wk_Spec workspace)
          then (case GetTotalResourceList E workload of
                  Inl err \<Rightarrow> Some err
                | Inr requestResources \<Rightarrow>
                    fail_if (\<not> fst (IsSubResource requestResources (wss_TotalResources (wk_Status workspace)))) (NewQuotaInsufficient ''Insufficient resource''))
          else None)"

section \<open>Resources against the node flavor\<close>

definition shared_memory_ok :: "('q, 'z) hook_scheme \<Rightarrow> 'q resource_list \<Rightarrow> WorkloadResource \<Rightarrow> goerr option" where
  "shared_memory_ok E avail res =
     (if wr_SharedMemory res = '''' then None
      else case q_Parse E (wr_SharedMemory res) of
             Inl e \<Rightarrow> Some (plain_error e)
           | Inr q \<Rightarrow>
               let maxMemory = (case mget avail ResourceMemory of None \<Rightarrow> 0 | Some m \<Rightarrow> q_Value E m) in
               fail_if (q_Value E q \<le> 0 \<or> q_Value E q > maxMemory) (plain_error ''invalid share memory''))"

definition ephemeral_ok :: "('q::linordered_ab_group_add, 'z) hook_scheme \<Rightarrow> 'q resource_list \<Rightarrow> 'q resource_list \<Rightarrow> goerr option run" where
  "ephemeral_ok E nodeResources podResourceList =
     (if FloatEqual (MaxEphemeralStorePercent E) 0 then Ret None
      else case mget podResourceList ResourceEphemeralStorage of
             None \<Rightarrow> Ret None
           | Some requestQuantity \<Rightarrow>
               (case GetMaxEphemeralStoreQuantity E nodeResources of
                  Inl _ \<Rightarrow> Panic
                | Inr maxQuantity \<Rightarrow> Ret (fail_if (maxQuantity < requestQuantity) (NewForbidden ''Resource request exceeds maximum available: ephemeral-storage''))))"

text \<open>The check against the resources of a node, and \<^verbatim>\<open>validateResourceEnough\<close>, which takes them from the flavor.\<close>

definition list_enough :: "('q::linordered_ab_group_add, 'z) hook_scheme \<Rightarrow> 'q resource_list \<Rightarrow> WorkloadResource \<Rightarrow> goerr option run" where
  "list_enough E nodeResources res =
     (let avail = GetAvailableResource E nodeResources in
      case GetPodResourceList E res of
        Inl err \<Rightarrow> Ret (Some err)
      | Inr podResourceList \<Rightarrow>
          if \<not> fst (IsSubResource podResourceList avail)
          then Ret (Some (NewForbidden (''Resource request exceeds maximum available: '' @ snd (IsSubResource podResourceList avail))))
          else and_then (Ret (shared_memory_ok E avail res)) (ephemeral_ok E nodeResources podResourceList))"

definition resource_enough :: "('q::linordered_ab_group_add, 'z) hook_scheme \<Rightarrow> 'q NodeFlavor \<Rightarrow> WorkloadResource \<Rightarrow> goerr option run" where
  "resource_enough E nf res = list_enough E (ToResourceList nf (RdmaName E)) res"

fun all_enough :: "('q::linordered_ab_group_add, 'z) hook_scheme \<Rightarrow> 'q NodeFlavor \<Rightarrow> WorkloadResource list \<Rightarrow> goerr option run" where
  "all_enough E nf [] = Ret None"
| "all_enough E nf (res # rest) = and_then (resource_enough E nf res) (all_enough E nf rest)"

definition validateResourceEnough :: "('q::linordered_ab_group_add, 'z) hook_scheme \<Rightarrow> wlog \<Rightarrow> Workload \<Rightarrow> goerr option run" where
  "validateResourceEnough E lg workload =
     (if GetTotalReplica workload \<le> 0 then Ret None
      else case getNodeFlavor E lg (GetNodeFlavorId (w_Meta workload)) of
             Inl err \<Rightarrow> Ret (Some err)
           | Inr None \<Rightarrow> Ret None
           | Inr (Some nf) \<Rightarrow> all_enough E nf (ws_Resources (w_Spec workload)))"

section \<open>Templates, immutable fields, scopes, cron jobs\<close>

fun templates_exist :: "('q, 'z) hook_scheme \<Rightarrow> wlog \<Rightarrow> GroupVersionKind list \<Rightarrow> goerr option" where
  "templates_exist E lg [] = None"
| "templates_exist E lg (gvk # rest) =
     (case GetResourceTemplateByGVK E lg gvk of
        Inl err \<Rightarrow> Some err
      | Inr _ \<Rightarrow> (case GetWorkloadTemplate E lg gvk of Inl err \<Rightarrow> Some err | Inr _ \<Rightarrow> templates_exist E lg rest))"

definition validateTemplate :: "('q, 'z) hook_scheme \<Rightarrow> wlog \<Rightarrow> Workload \<Rightarrow> goerr option" where
  "validateTemplate E lg workload = templates_exist E lg (GetWorkloadGVK workload)"

definition workload_validateImmutableFields :: "Workload \<Rightarrow> Workload \<Rightarrow> goerr option" where
  "workload_validateImmutableFields newWorkload oldWorkload =
     first_error
       [fail_if (ws_Workspace (w_Spec newWorkload) \<noteq> ws_Workspace (w_Spec oldWorkload)) (immutable ''workspace''),
        fail_if (ws_GVK (w_Spec newWorkload) \<noteq> ws_GVK (w_Spec oldWorkload)) (immutable ''gvk''),
        fail_if (GetOwnerWorkloadId newWorkload \<noteq> GetOwnerWorkloadId oldWorkload) (plain_error ''labels[primus-safe.owner]: Forbidden: immutable''),
        fail_if (IsCICDScalingRunnerSet newWorkload \<and>
            mget0 '''' (ws_Env (w_Spec oldWorkload)) UnifiedJobEnable \<noteq> mget0 '''' (ws_Env (w_Spec newWorkload)) UnifiedJobEnable)
          (immutable ''env'')]"

definition validateScope :: "('q, 'z) hook_scheme \<Rightarrow> wlog \<Rightarrow> Workload \<Rightarrow> goerr option" where
  "validateScope E lg workload =
     (if IsOpsJob workload then None
      else let scope = GetScope workload in
        if scope = '''' then Some (NewBadRequest (''unknown workload kind, '' @ SpecKind workload))
        else case hook_getWorkspace E lg (ws_Workspace (w_Spec workload)) of
               Inl err \<Rightarrow> Some err
             | Inr None \<Rightarrow> None
             | Inr (Some workspace) \<Rightarrow>
                 fail_if (length (wsp_Scopes (wk_Spec workspace)) > 0 \<and> \<not> HasScope workspace scope)
                   (NewForbidden (''The workspace does not support '' @ scope)))"

text \<open>\<^verbatim>\<open>Time.AddDate(1, 0, 0)\<close>: the same day and clock of the next year; the 29th of February becomes the 1st of March.\<close>

definition civil_year :: "int \<Rightarrow> int" where
  "civil_year days =
     (let z = days + 719468;
          era = z div 146097;
          doe = z - era * 146097;
          yoe = (doe - doe div 1460 + doe div 36524 - doe div 146096) div 365
      in yoe + era * 400 + (if fst (civil_month_day days) \<le> 2 then 1 else 0))"

definition days_from_civil :: "int \<Rightarrow> int \<Rightarrow> int \<Rightarrow> int" where
  "days_from_civil y m d =
     (let y' = (if m \<le> 2 then y - 1 else y);
          era = y' div 400;
          yoe = y' - era * 400;
          doy = (153 * (if m > 2 then m - 3 else m + 9) + 2) div 5 + d - 1;
          doe = yoe * 365 + yoe div 4 - yoe div 100 + doy
      in era * 146097 + doe - 719468)"

definition time_AddYear :: "gotime \<Rightarrow> gotime" where
  "time_AddYear t =
     (let day = 86400 * nano; days = t div day; (m, d) = civil_month_day days
      in days_from_civil (civil_year days + 1) m d * day + t mod day)"

definition parse_cron_job :: "('q, 'z) hook_scheme \<Rightarrow> Workload \<Rightarrow> CronJob \<Rightarrow> goerr option" where
  "parse_cron_job E workload job =
     (if cj_Schedule job = '''' then Some (NewBadRequest ''CronJob schedule is empty'')
      else case CvtTime3339ToCronStandard E (cj_Schedule job) of
             Inl err \<Rightarrow> Some err
           | Inr (_, scheduleTime) \<Rightarrow>
               if cj_Action job = CronStart \<and> \<not> HasScheduled workload
               then fail_if (\<not> scheduleTime > now E \<or> scheduleTime > time_AddYear (now E) - 60 * nano)
                      (NewBadRequest (''Invalid schedulerTime('' @ cj_Schedule job @ '') of request, it must be within one year in the future''))
               else None)"

definition validateCronJobs :: "('q, 'z) hook_scheme \<Rightarrow> Workload \<Rightarrow> goerr option" where
  "validateCronJobs E workload = first_error (map (parse_cron_job E workload) (ws_CronJobs (w_Spec workload)))"

text \<open>\<^verbatim>\<open>reflect.DeepEqual\<close> on string maps, and on the optional service.\<close>

definition deep_equal_map :: "strmap \<Rightarrow> strmap \<Rightarrow> bool" where
  "deep_equal_map m1 m2 \<longleftrightarrow> length m1 = length m2 \<and> list_all (\<lambda>(key, val). mget m2 key = Some val) m1"

definition deep_equal_service :: "Service \<Rightarrow> Service \<Rightarrow> bool" where
  "deep_equal_service s1 s2 \<longleftrightarrow>
     s1\<lparr>svc_ExtraSelectors := [], svc_Extends := []\<rparr> = s2\<lparr>svc_ExtraSelectors := [], svc_Extends := []\<rparr> \<and>
     deep_equal_map (svc_ExtraSelectors s1) (svc_ExtraSelectors s2) \<and> deep_equal_map (svc_Extends s1) (svc_Extends s2)"

definition isServiceChanged :: "Workload \<Rightarrow> Workload \<Rightarrow> bool" where
  "isServiceChanged newWorkload oldWorkload \<longleftrightarrow>
     (case (ws_Service (w_Spec newWorkload), ws_Service (w_Spec oldWorkload)) of
        (None, None) \<Rightarrow> False
      | (None, Some _) \<Rightarrow> True
      | (Some _, None) \<Rightarrow> True
      | (Some s1, Some s2) \<Rightarrow> \<not> deep_equal_service s1 s2)"

definition validateSpecChanged :: "Workload \<Rightarrow> Workload \<Rightarrow> goerr option" where
  "validateSpecChanged newWorkload oldWorkload =
     (let new = w_Spec newWorkload; old = w_Spec oldWorkload in
      if IsApplication newWorkload \<or> IsCICDScalingRunnerSet oldWorkload then None
      else if \<not> IsWorkloadDispatched (w_Meta newWorkload) then None
      else fail_if (ws_Resources new \<noteq> ws_Resources old \<or> ws_Images new \<noteq> ws_Images old \<or> ws_EntryPoints new \<noteq> ws_EntryPoints old \<or>
             \<not> deep_equal_map (ws_Env new) (ws_Env old) \<or> \<not> deep_equal_map (ws_CustomerLabels new) (ws_CustomerLabels old) \<or>
             isServiceChanged newWorkload oldWorkload)
             (NewConflict ''Cannot update resource for a dispatched workload''))"

section \<open>The handler\<close>

definition validate_kind :: "('q, 'z) hook_scheme \<Rightarrow> Workload \<Rightarrow> Workload option \<Rightarrow> goerr option run" where
  "validate_kind E w oldWorkload =
     (if SpecKind w = AuthoringKind then Ret (validateAuthoring w)
      else if SpecKind w = CICDScaleRunnerSetKind then Ret (validateCICDScalingRunnerSet E w)
      else if SpecKind w = TorchFTKind then validateTorchFT w oldWorkload
      else if SpecKind w = RayJobKind then Ret (validateRayJob w)
      else if SpecKind w = MonarchJob then validateMonarchJob w oldWorkload
      else if SpecKind w = SandboxKind then Ret (validateSandbox w)
      else if SpecKind w = DynamoDeploymentKind then Ret (validateDynamoDeployment w)
      else if SpecKind w = InferaDeploymentKind then Ret (validateInferaDeployment w)
      else Ret None)"

definition workload_validateCommon ::
  "('q::linordered_ab_group_add, 'z) hook_scheme \<Rightarrow> wlog \<Rightarrow> Workload \<Rightarrow> Workload option \<Rightarrow> goerr option run" where
  "workload_validateCommon E lg newWorkload oldWorkload =
     and_then (validate_kind E newWorkload oldWorkload)
     (and_then (Ret (first_error [workload_validateRequiredParams newWorkload, validateWorkspace E lg newWorkload, validateService E lg newWorkload,
                   validateHealthCheck newWorkload]))
      (and_then (validateResourceEnough E lg newWorkload)
        (Ret (first_error [validateTemplate E lg newWorkload, validateLabels (ws_CustomerLabels (w_Spec newWorkload)),
           validateOwnerWorkload E lg newWorkload]))))"

definition workload_validateOnCreation :: "('q::linordered_ab_group_add, 'z) hook_scheme \<Rightarrow> wlog \<Rightarrow> Workload \<Rightarrow> goerr option run" where
  "workload_validateOnCreation E lg workload =
     and_then (workload_validateCommon E lg workload None) (Ret (first_error [validateScope E lg workload, validateCronJobs E workload]))"

definition workload_validateOnUpdate ::
  "('q::linordered_ab_group_add, 'z) hook_scheme \<Rightarrow> wlog \<Rightarrow> Workload \<Rightarrow> Workload \<Rightarrow> goerr option run" where
  "workload_validateOnUpdate E lg newWorkload oldWorkload =
     and_then (Ret (workload_validateImmutableFields newWorkload oldWorkload))
     (and_then (workload_validateCommon E lg newWorkload (Some oldWorkload))
       (Ret (first_error
         [if ws_CronJobs (w_Spec oldWorkload) \<noteq> ws_CronJobs (w_Spec newWorkload) then validateCronJobs E newWorkload else None,
          validateSpecChanged newWorkload oldWorkload])))"

definition WorkloadValidator_Handle ::
  "('q::linordered_ab_group_add, 'z) hook_scheme \<Rightarrow> wlog \<Rightarrow> Workload request \<Rightarrow> Workload admission run" where
  "WorkloadValidator_Handle E lg req =
     rbind
       (case req of
          CreateReq (Inl e) \<Rightarrow> Ret (Some e)
        | CreateReq (Inr workload) \<Rightarrow>
            if \<not> time_IsZero (om_DeletionTimestamp (w_Meta workload)) then Ret None else workload_validateOnCreation E lg workload
        | UpdateReq (Inl e) _ \<Rightarrow> Ret (Some e)
        | UpdateReq (Inr workload) old \<Rightarrow>
            if \<not> time_IsZero (om_DeletionTimestamp (w_Meta workload)) then Ret None
            else (case old of Inl e \<Rightarrow> Ret (Some e) | Inr oldWorkload \<Rightarrow> workload_validateOnUpdate E lg workload oldWorkload)
        | DeleteReq _ \<Rightarrow> Ret None)
       (\<lambda>e. Ret (handleError e))"

section \<open>Admitted workloads fit the nodes\<close>

definition admits :: "('q::linordered_ab_group_add, 'z) hook_scheme \<Rightarrow> wlog \<Rightarrow> Workload request \<Rightarrow> bool" where
  "admits E lg req \<longleftrightarrow> WorkloadValidator_Handle E lg req = Ret Allowed"

lemma handleError_Allowed: "handleError e = Allowed \<longleftrightarrow> e = None"
  by (simp add: handleError_def split: option.splits)

lemma admits_create: "alive w \<Longrightarrow> admits E lg (CreateReq (Inr w)) \<longleftrightarrow> workload_validateOnCreation E lg w = Ret None"
  by (auto simp: admits_def alive_def WorkloadValidator_Handle_def rbind_def handleError_Allowed split: run.splits)

lemma admits_update: "alive w \<Longrightarrow> admits E lg (UpdateReq (Inr w) (Inr old)) \<longleftrightarrow> workload_validateOnUpdate E lg w old = Ret None"
  by (auto simp: admits_def alive_def WorkloadValidator_Handle_def rbind_def handleError_Allowed split: run.splits)

lemma admitted_common:
  assumes "alive w" "admits E lg (CreateReq (Inr w)) \<and> prev = None \<or> (\<exists>old. admits E lg (UpdateReq (Inr w) (Inr old)) \<and> prev = Some old)"
  shows "workload_validateCommon E lg w prev = Ret None"
  using assms by (auto simp: admits_create admits_update workload_validateOnCreation_def workload_validateOnUpdate_def and_then_ok)

lemma all_enough_ok: "all_enough E nf rs = Ret None \<longleftrightarrow> (\<forall>res \<in> set rs. resource_enough E nf res = Ret None)"
  by (induction rs) (auto simp: and_then_ok)

text \<open>C13: A workload that the validator admits, on creation or on update, fits the nodes of its flavor: every pod of every
  resource converts to a resource list that is within what a node has after the reserved share.\<close>

theorem admitted_pods_fit:
  assumes "alive w" and "admits E lg (CreateReq (Inr w)) \<or> admits E lg (UpdateReq (Inr w) (Inr old))"
    and "getNodeFlavor E lg (GetNodeFlavorId (w_Meta w)) = Inr (Some nf)" and "0 < GetTotalReplica w" and "res \<in> set (ws_Resources (w_Spec w))"
  shows "\<exists>rl. GetPodResourceList E res = Inr rl \<and> fst (IsSubResource rl (GetAvailableResource E (ToResourceList nf (RdmaName E))))"
proof -
  from assms(1,2) obtain prev where "workload_validateCommon E lg w prev = Ret None"
    using admitted_common [of w E lg] by blast
  then have "all_enough E nf (ws_Resources (w_Spec w)) = Ret None"
    using assms(3,4) by (simp add: workload_validateCommon_def and_then_ok validateResourceEnough_def)
  then have "resource_enough E nf res = Ret None" using assms(5) by (simp add: all_enough_ok)
  then show ?thesis by (auto simp: resource_enough_def list_enough_def Let_def split: sum.splits if_splits)
qed

section \<open>Dispatched workloads are frozen\<close>


section \<open>A used node port\<close>

text \<open>C16: The check of node ports does not leave out the workload itself: when the API server lists a workload with a node
  port, every update of it that keeps the port is refused, whatever it changes.\<close>

theorem own_node_port_refused:
  assumes "list_Workloads E lg (\<lambda>x. label_is ClusterIdLabel (GetClusterId (w_Meta w)) (w_Meta x)) = Inr items" and "old \<in> set items"
    and "ws_Service (w_Spec old) = Some svc" and "0 < svc_NodePort svc"
    and "ws_Service (w_Spec w) = Some svc'" and "svc_NodePort svc' = svc_NodePort svc" and "alive w"
  shows "\<not> admits E lg (UpdateReq (Inr w) (Inr old))"
proof
  assume "admits E lg (UpdateReq (Inr w) (Inr old))"
  then have "workload_validateCommon E lg w (Some old) = Ret None" using assms(7) admitted_common by blast
  then have "validate_service E lg w svc' = None"
    using assms(5) by (simp add: workload_validateCommon_def and_then_ok first_error_None validateService_def)
  then have "svc_NodePort svc \<notin> GetUsedHostPorts E lg (GetClusterId (w_Meta w))"
    using assms(4,6) by (simp add: validate_service_def first_error_None)
  moreover have "svc_NodePort svc \<in> GetUsedHostPorts E lg (GetClusterId (w_Meta w))"
    using assms(1-4) by (auto simp: GetUsedHostPorts_def ports_of_def intro!: bexI [of _ old])
  ultimately show False by simp
qed

section \<open>Elastic workloads over their updates\<close>

inductive admitted_update :: "('q::linordered_ab_group_add, 'z) hook_scheme \<Rightarrow> Workload \<Rightarrow> Workload \<Rightarrow> bool" for E where
  "alive w' \<Longrightarrow> admits E lg (UpdateReq (Inr w') (Inr w)) \<Longrightarrow> admitted_update E w w'"

inductive_cases admitted_updateE: "admitted_update E w w'"

definition elastic :: "Workload \<Rightarrow> bool" where
  "elastic w \<longleftrightarrow> SpecKind w = TorchFTKind \<or> SpecKind w = MonarchJob"

definition group_ok :: "Workload \<Rightarrow> bool" where
  "group_ok w \<longleftrightarrow>
     (\<exists>grp nodes maxGroup minGroup. GetReplicaCount w ReplicaCount = Inr grp \<and> worker_nodes w = Ret nodes \<and>
        GetReplicaCount w MaxReplicaCount = Inr maxGroup \<and> GetReplicaCount w MinReplicaCount = Inr minGroup \<and>
        0 < grp \<and> minGroup \<le> grp \<and> grp \<le> maxGroup \<and> grp \<le> nodes \<and> nodes mod grp = 0)"

definition group_size :: "Workload \<Rightarrow> int" where
  "group_size w = (case worker_nodes w of Panic \<Rightarrow> 0 | Ret nodes \<Rightarrow> nodes div count_or_zero w ReplicaCount)"

definition same_elastic_shape :: "Workload \<Rightarrow> Workload \<Rightarrow> bool" where
  "same_elastic_shape w0 w \<longleftrightarrow>
     group_size w = group_size w0 \<and> count_or_zero w MaxReplicaCount = count_or_zero w0 MaxReplicaCount \<and>
     count_or_zero w MinReplicaCount = count_or_zero w0 MinReplicaCount"

lemma validateReplicaCount_ok: "validateReplicaCount w prev = Ret None \<Longrightarrow> group_ok w"
  by (auto simp: validateReplicaCount_def group_ok_def Let_def rbind_def split: sum.splits run.splits if_splits option.splits)

lemma go_div_pos: "0 \<le> a \<Longrightarrow> 0 < b \<Longrightarrow> go_div a b = a div b"
  by (simp add: go_div_def)

lemma validateReplicaCount_shape:
  assumes "validateReplicaCount w (Some old) = Ret None" "group_ok old"
  shows "same_elastic_shape old w"
proof -
  from assms(2) obtain g n where old: "GetReplicaCount old ReplicaCount = Inr g" "worker_nodes old = Ret n" "0 < g" "g \<le> n"
    by (auto simp: group_ok_def)
  have "group_ok w" using assms(1) by (rule validateReplicaCount_ok)
  then obtain grp nodes maxGroup minGroup where new: "GetReplicaCount w ReplicaCount = Inr grp" "worker_nodes w = Ret nodes"
      "GetReplicaCount w MaxReplicaCount = Inr maxGroup" "GetReplicaCount w MinReplicaCount = Inr minGroup" "0 < grp" "grp \<le> nodes"
      "\<not> grp < minGroup" "\<not> maxGroup < grp" "nodes mod grp = 0"
    by (auto simp: group_ok_def not_less)
  have "same_groups old nodes grp maxGroup minGroup = Ret None"
    using assms(1) new by (simp add: validateReplicaCount_def Let_def)
  then show ?thesis
    using old new by (simp add: same_groups_def same_elastic_shape_def group_size_def count_or_zero_def go_div_pos split: if_splits)
qed

lemma elastic_common:
  "workload_validateCommon E lg w prev = Ret None \<Longrightarrow> elastic w \<Longrightarrow> validateReplicaCount w prev = Ret None"
  by (auto simp: workload_validateCommon_def validate_kind_def elastic_def and_then_ok validateTorchFT_def validateMonarchJob_def kind_defs
      split: if_splits)

lemma admitted_update_gvk: "admitted_update E w w' \<Longrightarrow> ws_GVK (w_Spec w') = ws_GVK (w_Spec w)"
  by (erule admitted_updateE)
    (simp add: admits_update workload_validateOnUpdate_def and_then_ok workload_validateImmutableFields_def first_error_None)

lemma admitted_update_shape:
  assumes "admitted_update E w w'" "elastic w'" "group_ok w"
  shows "group_ok w' \<and> same_elastic_shape w w'"
proof -
  from assms(1) obtain lg where "alive w'" "admits E lg (UpdateReq (Inr w') (Inr w))" by (rule admitted_updateE)
  then have "workload_validateCommon E lg w' (Some w) = Ret None" using admitted_common by blast
  then have "validateReplicaCount w' (Some w) = Ret None" using assms(2) by (rule elastic_common)
  then show ?thesis using validateReplicaCount_ok validateReplicaCount_shape assms(3) by blast
qed

lemma elastic_history:
  assumes "(admitted_update E)\<^sup>*\<^sup>* w0 w" "group_ok w0" "elastic w0"
  shows "elastic w \<and> group_ok w \<and> same_elastic_shape w0 w"
  using assms(1)
proof (induction rule: rtranclp_induct)
  case base
  then show ?case using assms(2,3) by (simp add: same_elastic_shape_def)
next
  case (step w w')
  have "elastic w'" using step admitted_update_gvk [OF step(2)] by (simp add: elastic_def SpecKind_def)
  with admitted_update_shape [OF step(2)] step show ?case by (simp add: same_elastic_shape_def)
qed


section \<open>The validator answers\<close>

lemma rbind_Panic: "rbind x f = Panic \<longleftrightarrow> x = Panic \<or> (\<exists>a. x = Ret a \<and> f a = Panic)"
  by (cases x) auto

lemma and_then_Panic: "and_then x y = Panic \<Longrightarrow> x = Panic \<or> y = Panic"
  by (auto simp: and_then_def rbind_def split: run.splits option.splits)

lemma available_keys: "mhas (GetAvailableResource E rl) k \<longleftrightarrow> mhas rl k"
proof -
  have "mhas (reserve E key percent rl) k \<longleftrightarrow> mhas rl k" for key percent rl
    by (cases "mget rl key") (auto simp: reserve_def mhas_def)
  then show ?thesis by (simp add: GetAvailableResource_def)
qed

lemma resource_enough_answers: "resource_enough E nf res \<noteq> Panic"
proof
  assume "resource_enough E nf res = Panic"
  then obtain rl where "fst (IsSubResource rl (GetAvailableResource E (ToResourceList nf (RdmaName E))))"
      and p: "ephemeral_ok E (ToResourceList nf (RdmaName E)) rl = Panic"
    by (auto simp: resource_enough_def list_enough_def Let_def split: sum.splits if_splits dest: and_then_Panic)
  moreover from p have "mhas rl ResourceEphemeralStorage" "\<not> mhas (ToResourceList nf (RdmaName E)) ResourceEphemeralStorage"
    by (auto simp: ephemeral_ok_def GetMaxEphemeralStoreQuantity_def mhas_def Let_def split: if_splits option.splits sum.splits)
  ultimately show False using IsSubResource_dom available_keys by blast
qed

lemma validateResourceEnough_answers: "validateResourceEnough E lg w \<noteq> Panic"
proof -
  have "all_enough E nf rs \<noteq> Panic" for nf rs
    by (induction rs) (auto simp: resource_enough_answers dest: and_then_Panic)
  then show ?thesis by (simp add: validateResourceEnough_def split: sum.splits option.splits)
qed

lemma validateReplicaCount_answers:
  assumes "length (ws_Resources (w_Spec w)) \<ge> 2" "group_ok old"
  shows "validateReplicaCount w (Some old) \<noteq> Panic"
proof -
  from assms(1) obtain nodes where n: "worker_nodes w = Ret nodes"
    by (cases "ws_Resources (w_Spec w)" rule: remdups_adj.cases) (auto simp: worker_nodes_def)
  have "same_groups old nodes grp mx mn \<noteq> Panic" for grp mx mn
    using assms(2) by (auto simp: same_groups_def group_ok_def count_or_zero_def)
  then show ?thesis by (simp add: validateReplicaCount_def n Let_def split: sum.splits)
qed

lemma validate_kind_answers:
  assumes "elastic w \<Longrightarrow> group_ok old"
  shows "validate_kind E w (Some old) \<noteq> Panic"
  using assms validateReplicaCount_answers [of w old]
  by (auto simp: validate_kind_def elastic_def validateTorchFT_def validateMonarchJob_def not_less dest: and_then_Panic)

text \<open>C15: The validator always answers: for a workload that was created through the webhook and changed by admitted updates
  only, no update request makes it panic. (The index of the worker resource, the division by the number of groups and
  the quantity of ephemeral storage are read without a check of their own; earlier checks exclude the bad values.)\<close>

theorem validator_answers:
  assumes "alive w0" and "admits E lg0 (CreateReq (Inr w0))" and "(admitted_update E)\<^sup>*\<^sup>* w0 w"
  shows "WorkloadValidator_Handle E lg (UpdateReq (Inr x) (Inr w)) \<noteq> Panic"
proof
  assume "WorkloadValidator_Handle E lg (UpdateReq (Inr x) (Inr w)) = Panic"
  then have "workload_validateOnUpdate E lg x w = Panic"
    by (auto simp: WorkloadValidator_Handle_def rbind_Panic split: if_splits)
  then have gvk: "ws_GVK (w_Spec x) = ws_GVK (w_Spec w)" and "workload_validateCommon E lg x (Some w) = Panic"
    by (auto simp: workload_validateOnUpdate_def and_then_def rbind_def workload_validateImmutableFields_def first_error_None
        split: run.splits option.splits)
  then have "validate_kind E x (Some w) = Panic"
    using validateResourceEnough_answers [of E lg x] by (auto simp: workload_validateCommon_def dest!: and_then_Panic)
  moreover have "group_ok w" if "elastic x"
  proof -
    have "elastic w" using that gvk by (simp add: elastic_def SpecKind_def)
    moreover have "ws_GVK (w_Spec w) = ws_GVK (w_Spec w0)"
      using assms(3) by (induction rule: rtranclp_induct) (simp_all add: admitted_update_gvk)
    ultimately have "elastic w0" by (simp add: elastic_def SpecKind_def)
    moreover have "workload_validateCommon E lg0 w0 None = Ret None" using assms(1,2) admitted_common by blast
    ultimately show ?thesis using elastic_common validateReplicaCount_ok elastic_history [OF assms(3)] by blast
  qed
  ultimately show False using validate_kind_answers by blast
qed

section \<open>Witnesses\<close>

definition elastic_workload :: "string \<Rightarrow> int \<Rightarrow> Workload" where
  "elastic_workload grp nodes =
     demo_workload TorchFTKind [(ReplicaCount, grp), (MaxReplicaCount, ''4''), (MinReplicaCount, ''1'')] [full_resource 1 '''', full_resource nodes ''8'']"

definition sent :: "Workload \<Rightarrow> Workload" where
  "sent w = w\<lparr>w_Meta := (w_Meta w)\<lparr>om_Annotations := [(WorkloadDispatchedAnnotation, ''t'')]\<rparr>\<rparr>"

definition node_port :: Service where
  "node_port = \<lparr>svc_Protocol = ''TCP'', svc_Port = 80, svc_NodePort = 30080, svc_TargetPort = 80, svc_ServiceType = ''NodePort'', svc_ExtraSelectors = [], svc_Extends = []\<rparr>"

definition served :: Workload where
  "served = on_wl (\<lambda>s. s\<lparr>ws_Service := Some node_port\<rparr>) (demo_workload DeploymentKind [] [full_resource 1 ''''])"

text \<open>The checks that compare floats are evaluated apart from the others.\<close>

lemma admits_createI:
  assumes "alive w" "validate_kind E w None = Ret None"
    "first_error [workload_validateRequiredParams w, validateWorkspace E lg w, validateService E lg w, validateHealthCheck w] = None"
    "validateResourceEnough E lg w = Ret None"
    "first_error [validateTemplate E lg w, validateLabels (ws_CustomerLabels (w_Spec w)), validateOwnerWorkload E lg w, validateScope E lg w, validateCronJobs E w] = None"
  shows "admits E lg (CreateReq (Inr w))"
  using assms by (auto simp: admits_create workload_validateOnCreation_def workload_validateCommon_def and_then_ok first_error_None)

lemma admits_updateI:
  assumes "alive w" "workload_validateImmutableFields w old = None" "validate_kind E w (Some old) = Ret None"
    "first_error [workload_validateRequiredParams w, validateWorkspace E lg w, validateService E lg w, validateHealthCheck w] = None"
    "validateResourceEnough E lg w = Ret None"
    "first_error [validateTemplate E lg w, validateLabels (ws_CustomerLabels (w_Spec w)), validateOwnerWorkload E lg w, validateCronJobs E w, validateSpecChanged w old] = None"
  shows "admits E lg (UpdateReq (Inr w) (Inr old))"
  using assms by (auto simp: admits_update workload_validateOnUpdate_def workload_validateCommon_def and_then_ok first_error_None)

lemma flavor_enough:
  fixes E :: "(int, 'z) hook_scheme"
  assumes "g \<in> {'''', ''8''}"
    and p: "MemoryReservePercent E = 0" "CpuReservePercent E = 0" "EphemeralStoreReservePercent E = 0" "MaxEphemeralStorePercent E = 0"
    "RdmaName E = ''rdma/hca''" "q_Value E = (\<lambda>x. x)" "q_Parse E = (\<lambda>s. case go_atoi s of None \<Rightarrow> Inl ''bad quantity'' | Some n \<Rightarrow> Inr n)"
  shows "resource_enough E gpu_flavor (full_resource n g) = Ret None"
proof -
  let ?E = E
  have f: "FloatEqual 0 0" using FloatEqual_int [of 0 0] by simp
  have n: "go_atoi ''8'' = Some 8" "go_atoi ''4'' = Some 4" "go_atoi ''5'' = Some 5" by code_simp+
  have l: "ToResourceList gpu_flavor ''rdma/hca'' = [(ResourceCPU, 8), (ResourceMemory, 64), (ResourceEphemeralStorage, 100), (''amd.com/gpu'', 8)]" by code_simp
  let ?L = "[(ResourceCPU, 8), (ResourceMemory, 64), (ResourceEphemeralStorage, 100), (''amd.com/gpu'', 8)] :: int resource_list"
  let ?rl = "\<lambda>g. [(ResourceCPU, 4), (ResourceMemory, 8)] @ (if g = '''' then [] else [(''amd.com/gpu'', 8)]) @ [(ResourceEphemeralStorage, 5)] :: int resource_list"
  have keys: "ResourceMemory \<noteq> ResourceCPU" "ResourceEphemeralStorage \<noteq> ResourceCPU" "ResourceEphemeralStorage \<noteq> ResourceMemory" "ResourceCPU \<noteq> ResourceMemory"
    "''amd.com/gpu'' \<noteq> ResourceCPU" "''amd.com/gpu'' \<noteq> ResourceMemory" "ResourceEphemeralStorage \<noteq> ''amd.com/gpu''" "''amd.com/gpu'' \<noteq> ResourceEphemeralStorage"
    by (simp_all add: resource_name_defs)
  have r: "GetPodResourceList ?E (full_resource n g) = Inr (?rl g)"
    using assms(1) unfolding GetPodResourceList_def CvtToResourceList_def MultiResource_one
    by (elim insertE emptyE) (simp_all add: full_resource_def gpu_resource_def cvt_field_def p n mput_def keys keys [symmetric] ebind_def)
  have "fst (IsSubResource (?rl '''') ?L)" "fst (IsSubResource (?rl ''8'') ?L)" by code_simp+
  with assms(1) have s: "fst (IsSubResource (?rl g) ?L)" by auto
  have a: "GetAvailableResource ?E ?L = ?L" by (simp add: GetAvailableResource_def p f)
  have "shared_memory_ok ?E ?L (full_resource n g) = None" "ephemeral_ok ?E ?L (?rl g) = Ret None"
    by (simp_all add: shared_memory_ok_def full_resource_def gpu_resource_def ephemeral_ok_def p f)
  then show ?thesis unfolding resource_enough_def list_enough_def Let_def p(5) l a r using s by (simp add: and_then_def)
qed

lemma demo_resource_enough:
  assumes "g \<in> {'''', ''8''}"
  shows "resource_enough (demo_hook ws) gpu_flavor (full_resource n g) = Ret None"
  by (rule flavor_enough [OF assms]) (simp_all add: demo_hook_def sample_hook_def env.defs sample_env_def ext.defs int_ext_def)

lemma demo_enough:
  assumes "GetNodeFlavorId (w_Meta w) = ''f''" "\<forall>r \<in> set (ws_Resources (w_Spec w)). \<exists>n. r = full_resource n '''' \<or> r = full_resource n ''8''"
  shows "validateResourceEnough (demo_hook []) [] w = Ret None"
proof -
  have "getNodeFlavor (demo_hook []) [] ''f'' = Inr (Some gpu_flavor)"
    by code_simp
  moreover have "\<forall>r \<in> set (ws_Resources (w_Spec w)). resource_enough (demo_hook []) gpu_flavor r = Ret None"
    using assms(2) demo_resource_enough [of "''''" "[]"] demo_resource_enough [of "''8''" "[]"] by auto
  ultimately show ?thesis by (simp add: validateResourceEnough_def assms(1) all_enough_ok)
qed

lemma demo_workload_enough:
  "\<forall>r \<in> set rs. \<exists>n. r = full_resource n '''' \<or> r = full_resource n ''8'' \<Longrightarrow> validateResourceEnough (demo_hook []) [] (demo_workload kind env rs) = Ret None"
  by (rule demo_enough) (simp_all add: demo_workload_def GetNodeFlavorId_def GetLabel_def ClusterIdLabel_def NodeFlavorIdLabel_def)

lemma admitted_pods_fit_witness:
  "\<exists>rl. GetPodResourceList (demo_hook []) (full_resource 2 ''8'') = Inr rl \<and> fst (IsSubResource rl (GetAvailableResource (demo_hook []) (ToResourceList gpu_flavor (RdmaName (demo_hook [])))))"
proof (rule admitted_pods_fit [where w = two_replicas and lg = "[]" and old = two_replicas])
  have "validateResourceEnough (demo_hook []) [] two_replicas = Ret None" by (rule demo_workload_enough) auto
  moreover have "alive two_replicas" "validate_kind (demo_hook []) two_replicas None = Ret None"
    "first_error [workload_validateRequiredParams two_replicas, validateWorkspace (demo_hook []) [] two_replicas, validateService (demo_hook []) [] two_replicas, validateHealthCheck two_replicas] = None"
    "first_error [validateTemplate (demo_hook []) [] two_replicas, validateLabels (ws_CustomerLabels (w_Spec two_replicas)), validateOwnerWorkload (demo_hook []) [] two_replicas,
       validateScope (demo_hook []) [] two_replicas, validateCronJobs (demo_hook []) two_replicas] = None"
    by code_simp+
  ultimately show "admits (demo_hook []) [] (CreateReq (Inr two_replicas)) \<or> admits (demo_hook []) [] (UpdateReq (Inr two_replicas) (Inr two_replicas))"
    by (intro disjI1 admits_createI)
  show "alive two_replicas" "getNodeFlavor (demo_hook []) [] (GetNodeFlavorId (w_Meta two_replicas)) = Inr (Some gpu_flavor)" "0 < GetTotalReplica two_replicas"
    by code_simp+
  show "full_resource 2 ''8'' \<in> set (ws_Resources (w_Spec two_replicas))" by (simp add: demo_workload_def)
qed


lemma own_node_port_refused_witness:
  "\<not> admits (demo_hook [served]) [] (UpdateReq (Inr served) (Inr served))"
proof (rule own_node_port_refused [where items = "[served]" and svc = node_port and svc' = node_port])
  show "list_Workloads (demo_hook [served]) [] (\<lambda>x. label_is ClusterIdLabel (GetClusterId (w_Meta served)) (w_Meta x)) = Inr [served]" by code_simp
  show "alive served" by code_simp
qed (simp_all add: served_def node_port_def)

lemma elastic_enough: "validateResourceEnough (demo_hook []) [] (elastic_workload grp nodes) = Ret None"
  unfolding elastic_workload_def by (rule demo_workload_enough) auto

lemma elastic_created: "elastic (elastic_workload ''1'' 2) \<and> alive (elastic_workload ''1'' 2) \<and> admits (demo_hook []) [] (CreateReq (Inr (elastic_workload ''1'' 2)))"
proof -
  let ?w = "elastic_workload ''1'' 2"
  have "elastic ?w" "alive ?w" "validate_kind (demo_hook []) ?w None = Ret None"
    "first_error [workload_validateRequiredParams ?w, validateWorkspace (demo_hook []) [] ?w, validateService (demo_hook []) [] ?w, validateHealthCheck ?w] = None"
    "first_error [validateTemplate (demo_hook []) [] ?w, validateLabels (ws_CustomerLabels (w_Spec ?w)), validateOwnerWorkload (demo_hook []) [] ?w,
       validateScope (demo_hook []) [] ?w, validateCronJobs (demo_hook []) ?w] = None"
    by code_simp+
  then show ?thesis using elastic_enough by (intro conjI admits_createI)
qed


lemma validator_answers_witness:
  "WorkloadValidator_Handle (demo_hook []) [] (UpdateReq (Inr (elastic_workload ''0'' 4)) (Inr (elastic_workload ''1'' 2))) \<noteq> Panic"
  using validator_answers [of "elastic_workload ''1'' 2" "demo_hook []" "[]" "elastic_workload ''1'' 2"] elastic_created by blast

end
