(* ===== verification/Admin_Webhooks.thy ===== *)
theory Admin_Webhooks
  imports Workload_Validator
begin

text \<open>
  \<^verbatim>\<open>webhooks/pkg\<close>, continued: the handlers of users, roles, clusters, resource templates and addon templates. The
  parameter \<open>admin_hook\<close> extends \<open>hook\<close> by what these handlers and the one of operations jobs read.
\<close>

record PolicyRule =
  pr_Resources :: "string list"
  pr_GrantedUsers :: "string list"
  pr_Verbs :: "string list"

record Role =
  role_Meta :: ObjectMeta
  role_Rules :: "PolicyRule list"

record AddonTemplate =
  at_Meta :: ObjectMeta
  at_Type :: string
  at_Action :: string

record Parameter =
  par_Name :: string
  par_Value :: string

record OpsJobSpec =
  oj_Type :: string
  oj_Resource :: "WorkloadResource option"
  oj_Image :: "string option"
  oj_EntryPoint :: "string option"
  oj_Inputs :: "Parameter list"
  oj_TTLSecondsAfterFinished :: int
  oj_TimeoutSecond :: int
  oj_IsTolerateAll :: bool

record OpsJob =
  job_Meta :: ObjectMeta
  job_Spec :: OpsJobSpec
  job_FinishedAt :: "gotime option"

record 'q admin_hook = "'q hook" +
  get_Role :: "wlog \<Rightarrow> string \<Rightarrow> goerr option"
  list_Clusters :: "wlog \<Rightarrow> goerr + Cluster list"
  get_NodeTemplate :: "wlog \<Rightarrow> string \<Rightarrow> goerr + string list"
  get_AddonTemplate :: "wlog \<Rightarrow> string \<Rightarrow> goerr + AddonTemplate"
  list_OpsJobs :: "wlog \<Rightarrow> (ObjectMeta \<Rightarrow> bool) \<Rightarrow> goerr + OpsJob list"
  cfg_OpsJobTTLSecond :: int
  cfg_OpsJobTimeoutSecond :: int

definition UserEmailAnnotation :: string where "UserEmailAnnotation = ''primus-safe.user.email''"
definition UserEmailMd5Label :: string where "UserEmailMd5Label = ''primus-safe.user.email.md5''"
definition UserTypeLabel :: string where "UserTypeLabel = ''primus-safe.user.type''"
definition UserSelf :: string where "UserSelf = ''self''"
definition UserSystem :: string where "UserSystem = ''primus-safe-system''"
definition ClusterFinalizer :: string where "ClusterFinalizer = ''primus-safe/cluster.finalizer''"
definition FlannelNetworkPlugin :: string where "FlannelNetworkPlugin = ''flannel''"
definition AddonTemplateHelm :: string where "AddonTemplateHelm = ''helm''"
definition AddonTemplateDefault :: string where "AddonTemplateDefault = ''default''"

definition GetUserEmail :: "ObjectMeta \<Rightarrow> string" where
  "GetUserEmail obj = GetAnnotation obj UserEmailAnnotation"

section \<open>Users\<close>

definition user_mutateMetadata :: "User \<Rightarrow> User" where
  "user_mutateMetadata user =
     (let u1 = (if u_Type user = '''' then user\<lparr>u_Type := DefaultUserType\<rparr> else user)
      in u1\<lparr>u_Meta := snd (SetLabel (u_Meta u1) UserIdLabel (om_Name (u_Meta u1)))\<rparr>)"

text \<open>A hash of the value as a label, or no label.\<close>

definition md5_label :: "('q, 'z) hook_scheme \<Rightarrow> string \<Rightarrow> string \<Rightarrow> ObjectMeta \<Rightarrow> ObjectMeta" where
  "md5_label E key val m = (if val \<noteq> '''' then snd (SetLabel m key (MD5 E val)) else snd (RemoveLabel m key))"

definition user_mutateLabels :: "('q, 'z) hook_scheme \<Rightarrow> User \<Rightarrow> User" where
  "user_mutateLabels E user =
     (let m1 = md5_label E UserEmailMd5Label (GetUserEmail (u_Meta user)) (u_Meta user);
          m2 = md5_label E UserNameMd5Label (GetUserName m1) m1
      in user\<lparr>u_Meta := snd (SetLabel m2 UserTypeLabel (u_Type user))\<rparr>)"

fun distinct_roles :: "strset \<Rightarrow> string list \<Rightarrow> string list" where
  "distinct_roles roleSet [] = []"
| "distinct_roles roleSet (r # rs) =
     (if set_Has roleSet r \<or> r = WorkspaceAdminRole then distinct_roles roleSet rs
      else r # distinct_roles (set_Insert [r] roleSet) rs)"

definition mutateRoles :: "User \<Rightarrow> User" where
  "mutateRoles user =
     (let u1 = (if IsSystemAdmin user \<and> length (u_Roles user) > 1 then user\<lparr>u_Roles := [SystemAdminRole]\<rparr>
                else let newRoles = distinct_roles set_New (u_Roles user)
                     in if length newRoles \<noteq> length (u_Roles user) then user\<lparr>u_Roles := newRoles\<rparr> else user)
      in if \<not> IsSystemAdmin u1 \<and> \<not> IsContainRole (u_Roles u1) DefaultRole then u1\<lparr>u_Roles := u_Roles u1 @ [DefaultRole]\<rparr> else u1)"

text \<open>The loop over the workspaces of a user: every name once, and only those that pass the test.\<close>

fun valid_workspaces :: "(string \<Rightarrow> bool) \<Rightarrow> strset \<Rightarrow> string list \<Rightarrow> string list" where
  "valid_workspaces ok workspaceSet [] = []"
| "valid_workspaces ok workspaceSet (w # ws) =
     (if set_Has workspaceSet w then valid_workspaces ok workspaceSet ws
      else if ok w then w # valid_workspaces ok (set_Insert [w] workspaceSet) ws
      else valid_workspaces ok (set_Insert [w] workspaceSet) ws)"

definition workspace_known :: "('q, 'z) hook_scheme \<Rightarrow> wlog \<Rightarrow> string \<Rightarrow> bool" where
  "workspace_known E lg w \<longleftrightarrow> (case hook_getWorkspace E lg w of Inl _ \<Rightarrow> False | Inr _ \<Rightarrow> True)"

definition mutateWorkspace :: "('q, 'z) hook_scheme \<Rightarrow> wlog \<Rightarrow> User \<Rightarrow> User" where
  "mutateWorkspace E lg user =
     (let currentWorkspaces = GetUserWorkspace user;
          valid = valid_workspaces (workspace_known E lg) set_New currentWorkspaces
      in case list_Workspaces E lg (\<lambda>_. True) of
           Inl _ \<Rightarrow> user
         | Inr items \<Rightarrow>
             let workspaces = fold (\<lambda>w acc. if wsp_IsDefault (wk_Spec w) \<and> \<not> slice_Contains acc (wk_Name w) then acc @ [wk_Name w] else acc) items valid
             in if length currentWorkspaces \<noteq> length workspaces then AssignWorkspace user workspaces else user)"

definition mutateManagedWorkspaces :: "('q, 'z) hook_scheme \<Rightarrow> wlog \<Rightarrow> User \<Rightarrow> bool \<Rightarrow> User" where
  "mutateManagedWorkspaces E lg user isCheckAccessRight =
     AssignManagedWorkspace user
       (valid_workspaces (\<lambda>w. (isCheckAccessRight \<longrightarrow> HasWorkspaceRight user [w]) \<and> workspace_known E lg w) set_New (GetManagedWorkspace user))"

definition user_mutateCommon :: "('q, 'z) hook_scheme \<Rightarrow> wlog \<Rightarrow> User \<Rightarrow> User" where
  "user_mutateCommon E lg user = user_mutateLabels E (mutateWorkspace E lg (mutateRoles user))"

definition user_mutateOnCreation :: "('q, 'z) hook_scheme \<Rightarrow> wlog \<Rightarrow> User \<Rightarrow> User" where
  "user_mutateOnCreation E lg user = mutateManagedWorkspaces E lg (user_mutateCommon E lg (user_mutateMetadata user)) True"

definition user_mutateOnUpdate :: "('q, 'z) hook_scheme \<Rightarrow> wlog \<Rightarrow> User \<Rightarrow> User" where
  "user_mutateOnUpdate E lg user = mutateManagedWorkspaces E lg (user_mutateCommon E lg user) False"

definition UserMutator_Handle :: "('q, 'z) hook_scheme \<Rightarrow> wlog \<Rightarrow> User request \<Rightarrow> User admission" where
  "UserMutator_Handle E lg req =
     (case req of
        DeleteReq _ \<Rightarrow> Allowed
      | CreateReq (Inl e) \<Rightarrow> handleError (Some e)
      | UpdateReq (Inl e) _ \<Rightarrow> handleError (Some e)
      | CreateReq (Inr user) \<Rightarrow> if \<not> time_IsZero (om_DeletionTimestamp (u_Meta user)) then Allowed else Patched (user_mutateOnCreation E lg user)
      | UpdateReq (Inr user) _ \<Rightarrow> if \<not> time_IsZero (om_DeletionTimestamp (u_Meta user)) then Allowed else Patched (user_mutateOnUpdate E lg user))"

definition user_validateMetadata :: "User \<Rightarrow> goerr option" where
  "user_validateMetadata user =
     fail_if (om_Name (u_Meta user) = UserSelf \<or> om_Name (u_Meta user) = UserSystem)
       (NewForbidden (om_Name (u_Meta user) @ '' is a system reserved word that cannot be used''))"

definition user_validateImmutableFields :: "User \<Rightarrow> User \<Rightarrow> goerr option" where
  "user_validateImmutableFields newUser oldUser =
     first_error
       [fail_if (u_Type newUser \<noteq> u_Type oldUser) (immutable ''type''),
        fail_if (u_Type newUser = DefaultUserType \<and> GetUserName (u_Meta newUser) \<noteq> GetUserName (u_Meta oldUser))
          (plain_error ''user[name]: Forbidden: immutable'')]"

definition user_validateRequiredParams :: "User \<Rightarrow> goerr option" where
  "user_validateRequiredParams user =
     NewAggregate
       (only_if (u_Type user \<noteq> DefaultUserType \<and> u_Type user \<noteq> SSOUserType) (plain_error ''the user's type is not supported'') @
        only_if (length (u_Roles user) = 0) (plain_error ''the user's roles is empty'') @
        only_if (u_Type user = DefaultUserType \<and> u_Password user = '''') (plain_error ''the user's password is empty''))"

definition validateRoles :: "('q, 'z) admin_hook_scheme \<Rightarrow> wlog \<Rightarrow> User \<Rightarrow> goerr option" where
  "validateRoles E lg user = first_error (map (get_Role E lg) (u_Roles user))"

definition validateAccessRemoved :: "User \<Rightarrow> User \<Rightarrow> goerr option" where
  "validateAccessRemoved newUser oldUser =
     (let newUserAccessibleSet = NewSetByKeys (GetUserWorkspace newUser); newUserManagedSet = NewSetByKeys (GetManagedWorkspace newUser) in
      first_error (map (\<lambda>w. fail_if (\<not> set_Has newUserAccessibleSet w \<and> set_Has newUserManagedSet w)
        (NewForbidden (''Please remove the user's workspace('' @ w @ '') management first.''))) (GetUserWorkspace oldUser)))"

definition user_validateCommon :: "('q, 'z) admin_hook_scheme \<Rightarrow> wlog \<Rightarrow> User \<Rightarrow> goerr option" where
  "user_validateCommon E lg user = first_error [user_validateRequiredParams user, validateRoles E lg user]"

definition user_validateOnCreation :: "('q, 'z) admin_hook_scheme \<Rightarrow> wlog \<Rightarrow> User \<Rightarrow> goerr option" where
  "user_validateOnCreation E lg user = first_error [user_validateMetadata user, user_validateCommon E lg user]"

definition user_validateOnUpdate :: "('q, 'z) admin_hook_scheme \<Rightarrow> wlog \<Rightarrow> User \<Rightarrow> User \<Rightarrow> goerr option" where
  "user_validateOnUpdate E lg newUser oldUser =
     first_error [user_validateImmutableFields newUser oldUser, user_validateCommon E lg newUser, validateAccessRemoved newUser oldUser]"

definition UserValidator_Handle :: "('q, 'z) admin_hook_scheme \<Rightarrow> wlog \<Rightarrow> User request \<Rightarrow> User admission" where
  "UserValidator_Handle E lg req =
     handleError
       (case req of
          CreateReq (Inl e) \<Rightarrow> Some e
        | CreateReq (Inr user) \<Rightarrow> if \<not> time_IsZero (om_DeletionTimestamp (u_Meta user)) then None else user_validateOnCreation E lg user
        | UpdateReq (Inl e) _ \<Rightarrow> Some e
        | UpdateReq (Inr user) old \<Rightarrow>
            if \<not> time_IsZero (om_DeletionTimestamp (u_Meta user)) then None
            else (case old of Inl e \<Rightarrow> Some e | Inr oldUser \<Rightarrow> user_validateOnUpdate E lg user oldUser)
        | DeleteReq (Inl e) \<Rightarrow> Some e
        | DeleteReq (Inr _) \<Rightarrow> None)"

section \<open>Roles, resource templates and addon templates\<close>

definition role_mutateOnCreation :: "Role \<Rightarrow> Role" where
  "role_mutateOnCreation role =
     role\<lparr>role_Meta := (role_Meta role)\<lparr>om_Name := NormalizeName (om_Name (role_Meta role))\<rparr>,
          role_Rules := map (\<lambda>r. r\<lparr>pr_Resources := map to_lower (pr_Resources r)\<rparr>) (role_Rules role)\<rparr>"

text \<open>The three mutators that only answer to creations, and the three validators that check the new object alone.\<close>

definition on_creation :: "('a \<Rightarrow> 'a) \<Rightarrow> 'a request \<Rightarrow> 'a admission" where
  "on_creation f req = (case req of CreateReq (Inl e) \<Rightarrow> handleError (Some e) | CreateReq (Inr x) \<Rightarrow> Patched (f x) | _ \<Rightarrow> Allowed)"

definition on_new_object :: "('a \<Rightarrow> ObjectMeta) \<Rightarrow> ('a \<Rightarrow> goerr option) \<Rightarrow> 'a request \<Rightarrow> 'a admission" where
  "on_new_object meta f req =
     handleError
       (case (case req of CreateReq x \<Rightarrow> Some x | UpdateReq x _ \<Rightarrow> Some x | DeleteReq _ \<Rightarrow> None) of
          None \<Rightarrow> None
        | Some (Inl e) \<Rightarrow> Some e
        | Some (Inr x) \<Rightarrow> if \<not> time_IsZero (om_DeletionTimestamp (meta x)) then None else f x)"

definition RoleMutator_Handle :: "Role request \<Rightarrow> Role admission" where
  "RoleMutator_Handle = on_creation role_mutateOnCreation"

definition role_validate :: "Role \<Rightarrow> goerr option" where
  "role_validate role =
     (if length (role_Rules role) = 0 then Some (plain_error ''invalid rules of role'')
      else first_error (map (\<lambda>r. first_error
        [fail_if (length (pr_Resources r) = 0) (plain_error ''invalid resources of role''),
         fail_if (length (pr_Verbs r) = 0) (plain_error ''invalid verbs of role'')]) (role_Rules role)))"

definition RoleValidator_Handle :: "Role request \<Rightarrow> Role admission" where
  "RoleValidator_Handle = on_new_object role_Meta role_validate"

definition template_mutateOnCreation :: "ResourceTemplate \<Rightarrow> ResourceTemplate" where
  "template_mutateOnCreation rt = rt\<lparr>rt_Meta := (rt_Meta rt)\<lparr>om_Name := NormalizeName (om_Name (rt_Meta rt))\<rparr>\<rparr>"

definition ResourceTemplateMutator_Handle :: "ResourceTemplate request \<Rightarrow> ResourceTemplate admission" where
  "ResourceTemplateMutator_Handle = on_creation template_mutateOnCreation"

definition template_validate :: "ResourceTemplate \<Rightarrow> goerr option" where
  "template_validate rt =
     first_error [fail_if (gvk_Kind (rt_GVK rt) = '''') (plain_error ''invalid kind''), fail_if (gvk_Version (rt_GVK rt) = '''') (plain_error ''invalid version'')]"

definition ResourceTemplateValidator_Handle :: "ResourceTemplate request \<Rightarrow> ResourceTemplate admission" where
  "ResourceTemplateValidator_Handle = on_new_object rt_Meta template_validate"

definition addon_mutateOnCreation :: "AddonTemplate \<Rightarrow> AddonTemplate" where
  "addon_mutateOnCreation addon =
     addon\<lparr>at_Meta := (at_Meta addon)\<lparr>om_Name := NormalizeName (om_Name (at_Meta addon))\<rparr>,
           at_Type := (if at_Type addon = '''' then AddonTemplateDefault else at_Type addon), at_Action := trim_char CHR '' '' (at_Action addon)\<rparr>"

definition AddOnTemplateMutator_Handle :: "AddonTemplate request \<Rightarrow> AddonTemplate admission" where
  "AddOnTemplateMutator_Handle = on_creation addon_mutateOnCreation"

definition addon_validateRequiredParams :: "AddonTemplate \<Rightarrow> goerr option" where
  "addon_validateRequiredParams addon =
     (if at_Type addon = AddonTemplateDefault then fail_if (at_Action addon = '''') (NewBadRequest ''the action of spec is empty'')
      else if at_Type addon = AddonTemplateHelm then None
      else Some (NewBadRequest ''invalid addon-template type''))"

definition addon_validate :: "AddonTemplate \<Rightarrow> goerr option" where
  "addon_validate addon = first_error [addon_validateRequiredParams addon, validateDisplayName (GetDisplayName (at_Meta addon)) '''']"

definition AddOnTemplateValidator_Handle :: "AddonTemplate request \<Rightarrow> AddonTemplate admission" where
  "AddOnTemplateValidator_Handle = on_new_object at_Meta addon_validate"

section \<open>Clusters\<close>

definition unset :: "string option \<Rightarrow> bool" where "unset v \<longleftrightarrow> v = None \<or> v = Some ''''"

definition cluster_mutateOnCreation :: "Cluster \<Rightarrow> Cluster" where
  "cluster_mutateOnCreation cluster =
     cluster\<lparr>cl_Meta := AddFinalizer ClusterFinalizer ((cl_Meta cluster)\<lparr>om_Name := NormalizeName (om_Name (cl_Meta cluster))\<rparr>),
             cl_ControlPlane := (let cp = cl_ControlPlane cluster in
               if unset (cp_KubeNetworkPlugin cp) then cp\<lparr>cp_KubeNetworkPlugin := Some FlannelNetworkPlugin\<rparr> else cp)\<rparr>"

definition ClusterMutator_Handle :: "Cluster request \<Rightarrow> Cluster admission" where
  "ClusterMutator_Handle = on_creation cluster_mutateOnCreation"

definition validateNodesInUse :: "('q, 'z) admin_hook_scheme \<Rightarrow> wlog \<Rightarrow> Cluster \<Rightarrow> goerr option" where
  "validateNodesInUse E lg cluster =
     (case list_Clusters E lg of
        Inl e \<Rightarrow> Some e
      | Inr items \<Rightarrow>
          let currentNodesSet = fold (\<lambda>cl s. set_Insert (cp_Nodes (cl_ControlPlane cl)) s) items set_New
          in first_error (map (\<lambda>n. fail_if (set_Has currentNodesSet n) (NewAlreadyExist (''the node('' @ n @ '') is already in use'')))
               (cp_Nodes (cl_ControlPlane cluster))))"

text \<open>\<^verbatim>\<open>IsMachineReady\<close> of a nil node is false.\<close>

definition node_ready :: "('q, 'z) hook_scheme \<Rightarrow> wlog \<Rightarrow> string \<Rightarrow> goerr option" where
  "node_ready E lg n =
     (case getNode E lg n of
        Inl e \<Rightarrow> Some e
      | Inr adminNode \<Rightarrow> fail_if (case adminNode of None \<Rightarrow> True | Some nd \<Rightarrow> \<not> IsMachineReady nd) (NewConflict (''the node('' @ n @ '') is not ready'')))"

definition validateNodesReady :: "('q, 'z) hook_scheme \<Rightarrow> wlog \<Rightarrow> Cluster \<Rightarrow> goerr option" where
  "validateNodesReady E lg cluster = first_error (map (node_ready E lg) (cp_Nodes (cl_ControlPlane cluster)))"

definition validateControlPlane :: "('q, 'z) admin_hook_scheme \<Rightarrow> wlog \<Rightarrow> Cluster \<Rightarrow> goerr option" where
  "validateControlPlane E lg cluster =
     (let cp = cl_ControlPlane cluster in
      first_error
        [fail_if (length (cp_Nodes cp) = 0) (plain_error ''the KubeControlPlane nodes of spec are empty''),
         validateNodesInUse E lg cluster, validateNodesReady E lg cluster,
         fail_if (unset (cp_KubePodsSubnet cp)) (plain_error ''the KubePodsSubnet of spec is empty''),
         fail_if (unset (cp_KubeServiceAddress cp)) (plain_error ''the KubeServiceAddress of spec is empty''),
         fail_if (unset (cp_NodeLocalDNSIP cp)) (plain_error ''the NodeLocalDNSIP of spec is empty''),
         fail_if (unset (cp_KubeSprayImage cp)) (plain_error ''the KubeSprayImage of spec is empty'')])"

definition cluster_validateOnCreation :: "('q, 'z) admin_hook_scheme \<Rightarrow> wlog \<Rightarrow> Cluster \<Rightarrow> goerr option" where
  "cluster_validateOnCreation E lg cluster =
     first_error [validateDisplayName (GetDisplayName (cl_Meta cluster)) '''', validateControlPlane E lg cluster, validateLabels (om_Labels (cl_Meta cluster))]"

definition cluster_validateImmutableFields :: "Cluster \<Rightarrow> Cluster \<Rightarrow> goerr option" where
  "cluster_validateImmutableFields newCluster oldCluster =
     fail_if (\<not> EqualIgnoreOrder (cp_Nodes (cl_ControlPlane newCluster)) (cp_Nodes (cl_ControlPlane oldCluster)))
       (plain_error ''spec[controlPlane][nodes]: Forbidden: immutable'')"

definition cluster_validateOnUpdate :: "Cluster \<Rightarrow> Cluster \<Rightarrow> goerr option" where
  "cluster_validateOnUpdate newCluster oldCluster =
     first_error [cluster_validateImmutableFields newCluster oldCluster, validateLabels (om_Labels (cl_Meta newCluster))]"

definition ClusterValidator_Handle :: "('q, 'z) admin_hook_scheme \<Rightarrow> wlog \<Rightarrow> Cluster request \<Rightarrow> Cluster admission" where
  "ClusterValidator_Handle E lg req =
     handleError
       (case req of
          CreateReq (Inl e) \<Rightarrow> Some e
        | CreateReq (Inr cluster) \<Rightarrow> if \<not> time_IsZero (om_DeletionTimestamp (cl_Meta cluster)) then None else cluster_validateOnCreation E lg cluster
        | UpdateReq (Inl e) _ \<Rightarrow> Some e
        | UpdateReq (Inr cluster) old \<Rightarrow>
            if \<not> time_IsZero (om_DeletionTimestamp (cl_Meta cluster)) then None
            else (case old of Inl e \<Rightarrow> Some e | Inr oldCluster \<Rightarrow> cluster_validateOnUpdate cluster oldCluster)
        | DeleteReq _ \<Rightarrow> None)"

section \<open>Mutated users\<close>

lemma set_distinct_roles: "set (distinct_roles seen rs) = {r \<in> set rs. \<not> set_Has seen r \<and> r \<noteq> WorkspaceAdminRole}"
  by (induction seen rs rule: distinct_roles.induct) auto

lemma distinct_distinct_roles: "distinct (distinct_roles seen rs)"
  by (induction seen rs rule: distinct_roles.induct) (auto simp: set_distinct_roles)

lemma length_distinct_roles: "length (distinct_roles seen rs) \<le> length rs"
  by (induction seen rs rule: distinct_roles.induct) (auto simp: le_SucI)

lemma distinct_roles_same: "length (distinct_roles seen rs) = length rs \<Longrightarrow> distinct_roles seen rs = rs"
proof (induction seen rs rule: distinct_roles.induct)
  case (2 seen r rs)
  then show ?case using length_distinct_roles [of seen rs] by (simp split: if_splits)
qed simp

text \<open>The roles of a mutated user are without repetition, never contain the internal role, and contain the default role
  unless the user is a system administrator, who has no other role.\<close>

lemma mutated_roles_cases:
  fixes u defines "new \<equiv> distinct_roles set_New (u_Roles u)"
  shows "u_Roles (mutateRoles u) =
    (if IsSystemAdmin u \<and> length (u_Roles u) > 1 then [SystemAdminRole]
     else if SystemAdminRole \<notin> set new \<and> DefaultRole \<notin> set new then new @ [DefaultRole] else new)"
proof -
  have "length new = length (u_Roles u) \<Longrightarrow> new = u_Roles u"
    using distinct_roles_same [of set_New "u_Roles u"] by (simp add: new_def)
  then have "(if length new \<noteq> length (u_Roles u) then u\<lparr>u_Roles := new\<rparr> else u) = u\<lparr>u_Roles := new\<rparr>"
    by (cases "length new = length (u_Roles u)") simp_all
  then show ?thesis
    unfolding mutateRoles_def Let_def new_def [symmetric] by (simp add: IsSystemAdmin_def IsContainRole_def list_ex_iff)
qed

lemma mutated_roles:
  "distinct (u_Roles (mutateRoles u))" "WorkspaceAdminRole \<notin> set (u_Roles (mutateRoles u))"
  "SystemAdminRole \<in> set (u_Roles (mutateRoles u)) \<Longrightarrow> u_Roles (mutateRoles u) = [SystemAdminRole]"
  "SystemAdminRole \<notin> set (u_Roles (mutateRoles u)) \<Longrightarrow> DefaultRole \<in> set (u_Roles (mutateRoles u))"
proof -
  let ?new = "distinct_roles set_New (u_Roles u)"
  have ne: "SystemAdminRole \<noteq> WorkspaceAdminRole" "DefaultRole \<noteq> WorkspaceAdminRole" "SystemAdminRole \<noteq> DefaultRole"
    by (simp_all add: SystemAdminRole_def WorkspaceAdminRole_def DefaultRole_def)
  have D: "distinct ?new" "set ?new = set (u_Roles u) - {WorkspaceAdminRole}"
    using distinct_distinct_roles by (auto simp: set_distinct_roles)
  have S: "?new = [SystemAdminRole]" if "SystemAdminRole \<in> set ?new" "\<not> (IsSystemAdmin u \<and> length (u_Roles u) > 1)"
  proof -
    have "length (u_Roles u) \<le> 1" using that D(2) by (auto simp: IsSystemAdmin_def IsContainRole_def list_ex_iff)
    then show ?thesis using that(1) D(2) ne by (cases "u_Roles u" rule: remdups_adj.cases) auto
  qed
  note R = mutated_roles_cases [of u]
  show "distinct (u_Roles (mutateRoles u))" using D(1) by (simp add: R)
  show "WorkspaceAdminRole \<notin> set (u_Roles (mutateRoles u))" using D(2) ne by (simp add: R)
  show "SystemAdminRole \<in> set (u_Roles (mutateRoles u)) \<Longrightarrow> u_Roles (mutateRoles u) = [SystemAdminRole]"
    using S ne unfolding R by (auto split: if_splits)
  show "SystemAdminRole \<notin> set (u_Roles (mutateRoles u)) \<Longrightarrow> DefaultRole \<in> set (u_Roles (mutateRoles u))"
    unfolding R by (auto split: if_splits)
qed

lemma valid_workspaces_props:
  "distinct (valid_workspaces ok seen ws) \<and> set (valid_workspaces ok seen ws) = {w \<in> set ws. ok w \<and> \<not> set_Has seen w}"
  by (induction ok seen ws rule: valid_workspaces.induct) auto

lemma AssignManaged_at: "set (GetManagedWorkspace (AssignManagedWorkspace user ws)) = set ws"
proof -
  have "workspaces_at (DelManagedWorkspace user) UserManagedWorkspaces = []"
    by (simp add: DelManagedWorkspace_def del_workspace_def workspaces_at_mget mget0_def)
  then show ?thesis by (simp add: GetManagedWorkspace_def AssignManagedWorkspace_def AddManagedWorkspace_def add_workspace_at)
qed

text \<open>Whoever writes a user, the server stores only management rights for workspaces it knows.\<close>

lemma mutated_managed_known: "w \<in> set (GetManagedWorkspace (mutateManagedWorkspaces E lg x b)) \<Longrightarrow> workspace_known E lg w"
  by (simp add: mutateManagedWorkspaces_def AssignManaged_at valid_workspaces_props)

lemma updated_managed_known: "w \<in> set (GetManagedWorkspace (user_mutateOnUpdate E lg user)) \<Longrightarrow> workspace_known E lg w"
  by (simp add: user_mutateOnUpdate_def mutated_managed_known)

lemma managed_workspaces_known:
  assumes "UserMutator_Handle E lg req = Patched u" "w \<in> set (GetManagedWorkspace u)"
  shows "workspace_known E lg w"
proof -
  note m = mutated_managed_known [of w E lg]
  show ?thesis
    using assms m by (auto simp: UserMutator_Handle_def user_mutateOnCreation_def user_mutateOnUpdate_def handleError_def
        split: request.splits sum.splits if_splits)
qed

lemma admitted_access_removed:
  assumes "UserValidator_Handle E lg (UpdateReq (Inr newUser) (Inr oldUser)) = Allowed" "time_IsZero (om_DeletionTimestamp (u_Meta newUser))"
    "w \<in> set (GetUserWorkspace oldUser)" "w \<notin> set (GetUserWorkspace newUser)"
  shows "w \<notin> set (GetManagedWorkspace newUser)"
proof -
  have "validateAccessRemoved newUser oldUser = None"
    using assms(1,2) by (auto simp: UserValidator_Handle_def handleError_def user_validateOnUpdate_def first_error_None split: option.splits)
  then show ?thesis using assms(3,4) by (auto simp: validateAccessRemoved_def first_error_None NewSetByKeys_def Let_def)
qed

text \<open>The list of workspaces is replaced only when its length changes: a user of a workspace that is gone keeps it, and does
  not get the default workspace.\<close>

definition plain_user :: "string list \<Rightarrow> string list \<Rightarrow> User" where
  "plain_user ws managed = \<lparr>u_Meta = blank_meta ''u'', u_Type = DefaultUserType, u_Password = ''pw'', u_RestrictedType = 0, u_Roles = [DefaultRole],
     u_Resources = [(UserWorkspaces, ws), (UserManagedWorkspaces, managed)]\<rparr>"

definition base_workspace :: "int Workspace" where
  "base_workspace = sample_workspace ''Running'' 1\<lparr>wk_Spec := (wk_Spec (sample_workspace ''Running'' 1))\<lparr>wsp_IsDefault := True\<rparr>\<rparr>"

lemma swapped_workspace_missed:
  "GetUserWorkspace (user_mutateOnUpdate (sample_hook [] [base_workspace] [] [] []) [] (plain_user [''gone''] [])) = [''gone'']"
  "GetUserWorkspace (user_mutateOnUpdate (sample_hook [] [base_workspace] [] [] []) [] (plain_user [''gone'', ''gone''] [])) = [''ws'']"
  by code_simp+

end
