(* ===== verification/Ops_Job_Webhook.thy ===== *)
theory Ops_Job_Webhook
  imports Admin_Webhooks Pod_Sync
begin

text \<open>
  \<^verbatim>\<open>webhooks/pkg/ops_job_webhook.go\<close>: operations jobs (addons, preflight checks, log dumps, downloads, reboots) name the nodes
  or workloads they work on as inputs. The mutator completes and cleans the inputs, the validator refuses jobs that
  would meet another one. A nil workspace, node or flavor that the code dereferences is a panic of the run.
\<close>

definition OpsJobAddonType :: string where "OpsJobAddonType = ''addon''"
definition OpsJobDumpLogType :: string where "OpsJobDumpLogType = ''dumplog''"
definition OpsJobRebootType :: string where "OpsJobRebootType = ''reboot''"
definition OpsJobDownloadType :: string where "OpsJobDownloadType = ''download''"
definition ParameterNode :: string where "ParameterNode = ''node''"
definition ParameterNodeTemplate :: string where "ParameterNodeTemplate = ''node.template''"
definition ParameterAddonTemplate :: string where "ParameterAddonTemplate = ''addon.template''"
definition ParameterWorkload :: string where "ParameterWorkload = ''workload''"
definition ParameterWorkspace :: string where "ParameterWorkspace = ''workspace''"
definition ParameterEndpoint :: string where "ParameterEndpoint = ''endpoint''"
definition ParameterSecret :: string where "ParameterSecret = ''secret''"
definition ParameterDestPath :: string where "ParameterDestPath = ''dest.path''"
definition ParameterScript :: string where "ParameterScript = ''script''"
definition OpsJobFinalizer :: string where "OpsJobFinalizer = ''primus-safe/ops.job.finalizer''"

lemmas ops_defs = OpsJobAddonType_def OpsJobDumpLogType_def OpsJobPreflightType_def OpsJobRebootType_def OpsJobDownloadType_def ParameterNode_def
  ParameterNodeTemplate_def ParameterAddonTemplate_def ParameterWorkload_def ParameterWorkspace_def ParameterEndpoint_def ParameterSecret_def
  ParameterDestPath_def ParameterScript_def

abbreviation job_Name :: "OpsJob \<Rightarrow> string" where "job_Name job \<equiv> om_Name (job_Meta job)"

definition on_job :: "(OpsJobSpec \<Rightarrow> OpsJobSpec) \<Rightarrow> OpsJob \<Rightarrow> OpsJob" where
  "on_job f job = job\<lparr>job_Spec := f (job_Spec job)\<rparr>"

definition IsFinished :: "OpsJob \<Rightarrow> bool" where
  "IsFinished job \<longleftrightarrow> job_FinishedAt job \<noteq> None"

definition job_IsEnd :: "OpsJob \<Rightarrow> bool" where
  "job_IsEnd job \<longleftrightarrow> IsFinished job \<or> \<not> time_IsZero (om_DeletionTimestamp (job_Meta job))"

definition GetParameter :: "OpsJob \<Rightarrow> string \<Rightarrow> Parameter option" where
  "GetParameter job name = find (\<lambda>p. par_Name p = name) (oj_Inputs (job_Spec job))"

definition GetParameters :: "OpsJob \<Rightarrow> string \<Rightarrow> Parameter list" where
  "GetParameters job name = filter (\<lambda>p. par_Name p = name) (oj_Inputs (job_Spec job))"

definition GetRequiredParameter :: "OpsJob \<Rightarrow> string \<Rightarrow> goerr + Parameter" where
  "GetRequiredParameter job paramName =
     (case GetParameter job paramName of None \<Rightarrow> Inl (NewBadRequest (paramName @ '' must be specified in the job.'')) | Some p \<Rightarrow> Inr p)"

section \<open>Paths\<close>

text \<open>\<^verbatim>\<open>path.Clean\<close> and \<^verbatim>\<open>path.Join\<close>; the stack holds the elements in reverse order.\<close>

definition clean_step :: "bool \<Rightarrow> string \<Rightarrow> string list \<Rightarrow> string list" where
  "clean_step rooted p st =
     (if p = '''' \<or> p = ''.'' then st
      else if p = ''..'' then (case st of [] \<Rightarrow> if rooted then [] else [p] | x # xs \<Rightarrow> if x = ''..'' then p # st else xs)
      else p # st)"

definition path_Clean :: "string \<Rightarrow> string" where
  "path_Clean s =
     (if s = '''' then ''.''
      else let rooted = (hd s = CHR ''/''); body = strings_Join (rev (fold (clean_step rooted) (go_split CHR ''/'' s) [])) ''/''
           in if rooted then CHR ''/'' # body else if body = '''' then ''.'' else body)"

definition path_Join :: "string list \<Rightarrow> string" where
  "path_Join elems = (case filter (\<lambda>e. e \<noteq> '''') elems of [] \<Rightarrow> '''' | es \<Rightarrow> path_Clean (strings_Join es ''/''))"

section \<open>The mutator\<close>

definition generateAddonTemplates :: "('q, 'z) admin_hook_scheme \<Rightarrow> wlog \<Rightarrow> OpsJob \<Rightarrow> OpsJob" where
  "generateAddonTemplates E lg job =
     (case GetParameter job ParameterNodeTemplate of
        None \<Rightarrow> job
      | Some param \<Rightarrow>
          case get_NodeTemplate E lg (par_Value param) of
            Inl _ \<Rightarrow> job
          | Inr addOns \<Rightarrow> on_job (\<lambda>s. s\<lparr>oj_Inputs := oj_Inputs s @ map (\<lambda>a. \<lparr>par_Name = ParameterAddonTemplate, par_Value = a\<rparr>) addOns\<rparr>) job)"

fun uniq_inputs :: "strmap \<Rightarrow> Parameter list \<Rightarrow> Parameter list" where
  "uniq_inputs uniqMap [] = []"
| "uniq_inputs uniqMap (p # ps) =
     (if mget uniqMap (par_Name p) = Some (par_Value p) then uniq_inputs uniqMap ps
      else if par_Name p = ParameterNode \<and> par_Value p = '''' then uniq_inputs uniqMap ps
      else p # uniq_inputs (mput uniqMap (par_Name p) (par_Value p)) ps)"

definition removeDuplicates :: "OpsJob \<Rightarrow> OpsJob" where
  "removeDuplicates job = on_job (\<lambda>s. s\<lparr>oj_Inputs := uniq_inputs [] (oj_Inputs s)\<rparr>) job"

definition healthy_node :: "('q, 'z) hook_scheme \<Rightarrow> wlog \<Rightarrow> bool \<Rightarrow> string \<Rightarrow> bool" where
  "healthy_node E lg tolerateAll name \<longleftrightarrow>
     (case getNode E lg name of
        Inr (Some node) \<Rightarrow>
          IsMachineReady node \<and> time_IsZero (om_DeletionTimestamp (n_Meta node)) \<and>
          (tolerateAll \<or> list_all (\<lambda>t. IsSystemReservedTaint (taint_Key t)) (nst_Taints (n_Status node)))
      | _ \<Rightarrow> False)"

definition filterUnhealthyNodes :: "('q, 'z) hook_scheme \<Rightarrow> wlog \<Rightarrow> OpsJob \<Rightarrow> OpsJob" where
  "filterUnhealthyNodes E lg job =
     (if oj_Type (job_Spec job) \<noteq> OpsJobPreflightType \<and> oj_Type (job_Spec job) \<noteq> OpsJobAddonType then job
      else let newInputs = filter (\<lambda>p. par_Name p \<noteq> ParameterNode \<or> healthy_node E lg (oj_IsTolerateAll (job_Spec job)) (par_Value p)) (oj_Inputs (job_Spec job))
           in if length (oj_Inputs (job_Spec job)) = length newInputs then job else on_job (\<lambda>s. s\<lparr>oj_Inputs := newInputs\<rparr>) job)"

definition getNfsPathFromWorkspace :: "'q Workspace \<Rightarrow> string" where
  "getNfsPathFromWorkspace workspace =
     (let vols = wsp_Volumes (wk_Spec workspace);
          result = (case find (\<lambda>vol. wv_Type vol = VolumePFS) vols of None \<Rightarrow> '''' | Some vol \<Rightarrow> wv_MountPath vol)
      in case vols of v # _ \<Rightarrow> (if result = '''' then wv_MountPath v else result) | [] \<Rightarrow> result)"

text \<open>Writing through the pointer that \<^verbatim>\<open>GetParameter\<close> returns.\<close>

fun set_parameter :: "string \<Rightarrow> string \<Rightarrow> Parameter list \<Rightarrow> Parameter list" where
  "set_parameter name val [] = []"
| "set_parameter name val (p # ps) = (if par_Name p = name then p\<lparr>par_Value := val\<rparr> # ps else p # set_parameter name val ps)"

definition generateDestPath :: "('q, 'z) hook_scheme \<Rightarrow> wlog \<Rightarrow> OpsJob \<Rightarrow> (goerr + OpsJob) run" where
  "generateDestPath E lg job =
     (if oj_Type (job_Spec job) \<noteq> OpsJobDownloadType then Ret (Inr job)
      else case (GetParameter job ParameterDestPath, GetParameter job ParameterWorkspace) of
             (Some destParam, Some workspaceParam) \<Rightarrow>
               (case hook_getWorkspace E lg (par_Value workspaceParam) of
                  Inl err \<Rightarrow> Ret (Inl err)
                | Inr workspace \<Rightarrow>
                    if has_prefix (par_Value destParam) ''/'' then Ret (Inr job)
                    else case workspace of
                           None \<Rightarrow> Panic
                         | Some ws \<Rightarrow>
                             let nfsPath = getNfsPathFromWorkspace ws in
                             if nfsPath = '''' then Ret (Inl (plain_error (''workspace '' @ wk_Name ws @ '' has no volume mount path'')))
                             else Ret (Inr (on_job (\<lambda>s. s\<lparr>oj_Inputs := set_parameter ParameterDestPath (path_Join [nfsPath, par_Value destParam]) (oj_Inputs s)\<rparr>) job)))
           | _ \<Rightarrow> Ret (Inr job))"

definition mutateJobInputs :: "('q, 'z) admin_hook_scheme \<Rightarrow> wlog \<Rightarrow> OpsJob \<Rightarrow> (goerr + OpsJob) run" where
  "mutateJobInputs E lg job = generateDestPath E lg (filterUnhealthyNodes E lg (removeDuplicates (generateAddonTemplates E lg job)))"

definition job_labels :: "('q, 'z) hook_scheme \<Rightarrow> wlog \<Rightarrow> OpsJob \<Rightarrow> ObjectMeta \<Rightarrow> ObjectMeta run" where
  "job_labels E lg job m =
     (if GetClusterId m \<noteq> '''' \<and> GetNodeFlavorId m \<noteq> '''' then Ret m
      else case GetParameter job ParameterNode of
             None \<Rightarrow> Ret m
           | Some nodeParam \<Rightarrow>
               (case getNode E lg (par_Value nodeParam) of
                  Inl _ \<Rightarrow> Ret m
                | Inr None \<Rightarrow> Panic
                | Inr (Some node) \<Rightarrow> Ret (snd (SetLabel (snd (SetLabel m ClusterIdLabel (GetClusterId (n_Meta node)))) NodeFlavorIdLabel (GetSpecNodeFlavor node)))))"

definition job_mutateMeta :: "('q, 'z) hook_scheme \<Rightarrow> wlog \<Rightarrow> OpsJob \<Rightarrow> OpsJob run" where
  "job_mutateMeta E lg job =
     (let m0 = (job_Meta job)\<lparr>om_Name := NormalizeName (job_Name job)\<rparr>; m1 = snd (SetLabel m0 OpsJobTypeLabel (oj_Type (job_Spec job)))
      in rbind (job_labels E lg job m1) (\<lambda>m2.
         let m3 = (if GetClusterId m2 = '''' then m2
                   else case getCluster E lg (GetClusterId m2) of
                          Inr (Some cl) \<Rightarrow> if HasOwnerReferences m2 (om_Name (cl_Meta cl)) then m2 else with_owner E ''Cluster'' (cl_Meta cl) m2
                        | _ \<Rightarrow> m2)
         in Ret (job\<lparr>job_Meta := AddFinalizer OpsJobFinalizer m3\<rparr>)))"

definition job_resource :: "('q::linordered_ab_group_add, 'z) hook_scheme \<Rightarrow> wlog \<Rightarrow> string \<Rightarrow> Parameter list \<Rightarrow> WorkloadResource \<Rightarrow> WorkloadResource" where
  "job_resource E lg flavorId inputs res =
     (let r1 = (if HasGpu res
                then (case getNodeFlavor E lg flavorId of
                        Inr (Some nf) \<Rightarrow> (case nfs_Gpu (nf_Spec nf) of
                                            Some g \<Rightarrow> if NodeFlavor_HasGpu nf then res\<lparr>wr_GPUName := gpu_ResourceName g\<rparr> else res | None \<Rightarrow> res)
                      | _ \<Rightarrow> res)
                else res)
      in r1\<lparr>wr_Replica := int (length (filter (\<lambda>p. par_Name p = ParameterNode) inputs))\<rparr>)"

definition mutateJobSpec :: "('q::linordered_ab_group_add, 'z) admin_hook_scheme \<Rightarrow> wlog \<Rightarrow> OpsJob \<Rightarrow> OpsJob" where
  "mutateJobSpec E lg job =
     on_job (\<lambda>s.
       let inputs = map (\<lambda>p. p\<lparr>par_Name := NormalizeName (par_Name p)\<rparr>) (oj_Inputs s)
       in s\<lparr>oj_TTLSecondsAfterFinished := (if oj_TTLSecondsAfterFinished s \<le> 0 then cfg_OpsJobTTLSecond E else oj_TTLSecondsAfterFinished s),
            oj_TimeoutSecond := (if oj_TimeoutSecond s = 0 then cfg_OpsJobTimeoutSecond E else oj_TimeoutSecond s),
            oj_Inputs := inputs,
            oj_Resource := map_option (job_resource E lg (GetNodeFlavorId (job_Meta job)) inputs) (oj_Resource s)\<rparr>) job"

definition job_mutateOnCreation :: "('q::linordered_ab_group_add, 'z) admin_hook_scheme \<Rightarrow> wlog \<Rightarrow> OpsJob \<Rightarrow> (goerr + OpsJob) run" where
  "job_mutateOnCreation E lg job =
     rbind (mutateJobInputs E lg job) (\<lambda>r. case r of
       Inl err \<Rightarrow> Ret (Inl err)
     | Inr job1 \<Rightarrow> rbind (job_mutateMeta E lg job1) (\<lambda>job2. Ret (Inr (mutateJobSpec E lg job2))))"

definition OpsJobMutator_Handle :: "('q::linordered_ab_group_add, 'z) admin_hook_scheme \<Rightarrow> wlog \<Rightarrow> OpsJob request \<Rightarrow> OpsJob admission run" where
  "OpsJobMutator_Handle E lg req =
     (case req of
        CreateReq (Inl e) \<Rightarrow> Ret (handleError (Some e))
      | CreateReq (Inr job) \<Rightarrow> rbind (job_mutateOnCreation E lg job) (\<lambda>r. Ret (case r of Inl err \<Rightarrow> handleError (Some err) | Inr job' \<Rightarrow> Patched job'))
      | _ \<Rightarrow> Ret Allowed)"

section \<open>The validator\<close>

definition job_validateRequiredParams :: "('q, 'z) hook_scheme \<Rightarrow> wlog \<Rightarrow> OpsJob \<Rightarrow> goerr option" where
  "job_validateRequiredParams E lg job =
     (let errs = (\<lambda>e. case e of None \<Rightarrow> [] | Some x \<Rightarrow> [x]);
          s = job_Spec job
      in map_option (\<lambda>e. NewBadRequest (err_Message e)) (NewAggregate
           (only_if (GetDisplayName (job_Meta job) = '''') (plain_error ''the displayName is empty'') @
            errs (validateDisplayName (GetDisplayName (job_Meta job)) PytorchJobKind) @
            only_if (oj_Type s = '''') (plain_error ''the type of ops job is empty'') @
            (case getCluster E lg (GetClusterId (job_Meta job)) of Inl e \<Rightarrow> [e] | Inr _ \<Rightarrow> []) @
            only_if (length (oj_Inputs s) = 0) (plain_error ''the inputs of ops job are empty'') @
            only_if (oj_Type s \<in> {OpsJobAddonType, OpsJobPreflightType, OpsJobRebootType} \<and> GetParameter job ParameterNode = None)
              (plain_error ''opsJob nodes are either empty or unhealthy'') @
            (case oj_Resource s of None \<Rightarrow> [] | Some res \<Rightarrow> errs (validateResource res (GetWorkspaceId (job_Meta job)))))))"

text \<open>The last value of the parameter in the first list, if it occurs there.\<close>

definition hasDuplicateInput :: "Parameter list \<Rightarrow> Parameter list \<Rightarrow> string \<Rightarrow> bool" where
  "hasDuplicateInput params1 params2 paramName \<longleftrightarrow>
     (let params1Map = fold (\<lambda>p m. if paramName = par_Name p then mput m (par_Name p) (par_Value p) else m) params1 [] in
      list_ex (\<lambda>p. par_Name p = paramName \<and> mget params1Map (par_Name p) = Some (par_Value p)) params2)"

definition listRelatedRunningJobs :: "('q, 'z) admin_hook_scheme \<Rightarrow> wlog \<Rightarrow> string \<Rightarrow> string list \<Rightarrow> goerr + OpsJob list" where
  "listRelatedRunningJobs E lg cluster jobTypes =
     (case list_OpsJobs E lg (\<lambda>m. label_is ClusterIdLabel cluster m \<and> (\<exists>t \<in> set jobTypes. label_is OpsJobTypeLabel t m)) of
        Inl e \<Rightarrow> if api_IsNotFound E e then Inr [] else Inl e
      | Inr items \<Rightarrow> Inr (filter (\<lambda>j. \<not> job_IsEnd j) items))"

text \<open>The loop shared by three checks: another unfinished job of the type with the same value of the parameter.\<close>

definition no_other_job :: "('q, 'z) admin_hook_scheme \<Rightarrow> wlog \<Rightarrow> OpsJob \<Rightarrow> string \<Rightarrow> string \<Rightarrow> goerr option" where
  "no_other_job E lg job jobType paramName =
     (case listRelatedRunningJobs E lg (GetClusterId (job_Meta job)) [jobType] of
        Inl e \<Rightarrow> Some e
      | Inr currentJobs \<Rightarrow>
          first_error (map (\<lambda>currentJob.
            fail_if (job_Name job \<noteq> job_Name currentJob \<and> hasDuplicateInput (oj_Inputs (job_Spec job)) (oj_Inputs (job_Spec currentJob)) paramName)
              (NewResourceProcessing (''another ops job ('' @ job_Name currentJob @ '') is running''))) currentJobs))"

definition validateNodeDuplicated :: "('q, 'z) admin_hook_scheme \<Rightarrow> wlog \<Rightarrow> OpsJob \<Rightarrow> goerr option" where
  "validateNodeDuplicated E lg job = no_other_job E lg job (oj_Type (job_Spec job)) ParameterNode"

definition node_fits :: "OpsJob \<Rightarrow> string \<Rightarrow> string \<Rightarrow> 'q Node \<Rightarrow> goerr + (string \<times> string)" where
  "node_fits job clusterId nodeFlavor n =
     (if GetWorkspaceId (job_Meta job) \<noteq> '''' \<and> GetWorkspaceId (n_Meta n) \<noteq> GetWorkspaceId (job_Meta job)
      then Inl (plain_error (''The node('' @ GetWorkspaceId (job_Meta job) @ '') is not managed by the workspace.''))
      else if clusterId = '''' \<and> GetClusterId (n_Meta n) = '''' then Inl (plain_error ''The node is not managed by the cluster.'')
      else if clusterId \<noteq> '''' \<and> clusterId \<noteq> GetClusterId (n_Meta n) then Inl (plain_error ''The nodes to be operated must belong to the same cluster.'')
      else if nodeFlavor = '''' \<and> GetSpecNodeFlavor n = '''' then Inl (plain_error ''The node does not have node flavor.'')
      else if nodeFlavor \<noteq> '''' \<and> nodeFlavor \<noteq> GetSpecNodeFlavor n then Inl (plain_error ''The nodes to be operated must have the same node flavor.'')
      else Inr (GetClusterId (n_Meta n), GetSpecNodeFlavor n))"

fun validate_nodes :: "('q, 'z) hook_scheme \<Rightarrow> wlog \<Rightarrow> OpsJob \<Rightarrow> string \<Rightarrow> string \<Rightarrow> Parameter list \<Rightarrow> goerr option run" where
  "validate_nodes E lg job clusterId nodeFlavor [] = Ret None"
| "validate_nodes E lg job clusterId nodeFlavor (param # params) =
     (case getNode E lg (par_Value param) of
        Inl e \<Rightarrow> Ret (Some e)
      | Inr None \<Rightarrow> Panic
      | Inr (Some adminNode) \<Rightarrow>
          (case node_fits job clusterId nodeFlavor adminNode of
             Inl e \<Rightarrow> Ret (Some e) | Inr (c, f) \<Rightarrow> validate_nodes E lg job c f params))"

definition validateNodes :: "('q, 'z) hook_scheme \<Rightarrow> wlog \<Rightarrow> OpsJob \<Rightarrow> goerr option run" where
  "validateNodes E lg job = validate_nodes E lg job '''' '''' (GetParameters job ParameterNode)"

text \<open>A nil flavor has no resources.\<close>

definition validatePreflight :: "('q::linordered_ab_group_add, 'z) admin_hook_scheme \<Rightarrow> wlog \<Rightarrow> OpsJob \<Rightarrow> goerr option run" where
  "validatePreflight E lg job =
     and_then (Ret (validateNodeDuplicated E lg job))
       (and_then (validateNodes E lg job)
         (case oj_Resource (job_Spec job) of
            None \<Rightarrow> Ret (Some (plain_error ''the resource of job is empty''))
          | Some res \<Rightarrow>
              if unset (oj_Image (job_Spec job)) then Ret (Some (plain_error ''the image of job is empty''))
              else if unset (oj_EntryPoint (job_Spec job)) then Ret (Some (plain_error ''the entryPoint of job is empty''))
              else case getNodeFlavor E lg (GetNodeFlavorId (job_Meta job)) of
                     Inl e \<Rightarrow> Ret (Some e)
                   | Inr None \<Rightarrow> list_enough E [] res
                   | Inr (Some nf) \<Rightarrow> resource_enough E nf res))"

definition validateDumpling :: "('q, 'z) admin_hook_scheme \<Rightarrow> wlog \<Rightarrow> OpsJob \<Rightarrow> goerr option" where
  "validateDumpling E lg job = no_other_job E lg job OpsJobDumpLogType ParameterWorkload"

fun addon_inputs :: "('q, 'z) admin_hook_scheme \<Rightarrow> wlog \<Rightarrow> bool \<Rightarrow> Parameter list \<Rightarrow> goerr + bool" where
  "addon_inputs E lg hasFound [] = Inr hasFound"
| "addon_inputs E lg hasFound (p # ps) =
     (if par_Name p = ParameterScript
      then (if par_Value p = '''' then Inl (NewBadRequest ''The script parameter cannot be empty.'')
            else if \<not> IsBase64 E (par_Value p) then Inl (NewBadRequest ''The script must be base64-encoded.'')
            else addon_inputs E lg True ps)
      else if par_Name p = ParameterAddonTemplate
      then (case get_AddonTemplate E lg (par_Value p) of
              Inl e \<Rightarrow> Inl e
            | Inr addonTemplate \<Rightarrow>
                if at_Type addonTemplate = AddonTemplateHelm then Inl (NewBadRequest ''The addon job does not support Helm installation.'')
                else addon_inputs E lg True ps)
      else addon_inputs E lg hasFound ps)"

definition validateAddon :: "('q, 'z) admin_hook_scheme \<Rightarrow> wlog \<Rightarrow> OpsJob \<Rightarrow> goerr option" where
  "validateAddon E lg job =
     (case validateNodeDuplicated E lg job of
        Some e \<Rightarrow> Some e
      | None \<Rightarrow>
          (case addon_inputs E lg False (oj_Inputs (job_Spec job)) of
             Inl e \<Rightarrow> Some e
           | Inr hasFound \<Rightarrow> fail_if (\<not> hasFound) (NewBadRequest ''either addon.template or node.template or script must be specified in the job.'')))"

definition validateDownload :: "('q, 'z) admin_hook_scheme \<Rightarrow> wlog \<Rightarrow> OpsJob \<Rightarrow> goerr option" where
  "validateDownload E lg job =
     first_error
       (map (\<lambda>name. case GetRequiredParameter job name of Inl e \<Rightarrow> Some e | Inr _ \<Rightarrow> None)
          [ParameterEndpoint, ParameterDestPath, ParameterSecret, ParameterWorkspace] @
        [no_other_job E lg job OpsJobDownloadType ParameterDestPath])"

definition job_validateImmutableFields :: "OpsJob \<Rightarrow> OpsJob \<Rightarrow> goerr option" where
  "job_validateImmutableFields newJob oldJob =
     first_error
       [fail_if (GetClusterId (job_Meta newJob) \<noteq> GetClusterId (job_Meta oldJob)) (immutable ''cluster''),
        fail_if (oj_Type (job_Spec newJob) \<noteq> oj_Type (job_Spec oldJob)) (immutable ''type''),
        fail_if (oj_Inputs (job_Spec newJob) \<noteq> oj_Inputs (job_Spec oldJob)) (immutable ''inputs'')]"

definition job_validateOnCreation :: "('q::linordered_ab_group_add, 'z) admin_hook_scheme \<Rightarrow> wlog \<Rightarrow> OpsJob \<Rightarrow> goerr option run" where
  "job_validateOnCreation E lg job =
     and_then (Ret (job_validateRequiredParams E lg job))
       (if oj_Type (job_Spec job) = OpsJobAddonType then Ret (validateAddon E lg job)
        else if oj_Type (job_Spec job) = OpsJobPreflightType then validatePreflight E lg job
        else if oj_Type (job_Spec job) = OpsJobDumpLogType then Ret (validateDumpling E lg job)
        else if oj_Type (job_Spec job) = OpsJobDownloadType then Ret (validateDownload E lg job)
        else Ret None)"

definition job_validateOnUpdate :: "('q, 'z) hook_scheme \<Rightarrow> wlog \<Rightarrow> OpsJob \<Rightarrow> OpsJob \<Rightarrow> goerr option" where
  "job_validateOnUpdate E lg newJob oldJob = first_error [job_validateRequiredParams E lg newJob, job_validateImmutableFields newJob oldJob]"

definition OpsJobValidator_Handle :: "('q::linordered_ab_group_add, 'z) admin_hook_scheme \<Rightarrow> wlog \<Rightarrow> OpsJob request \<Rightarrow> OpsJob admission run" where
  "OpsJobValidator_Handle E lg req =
     rbind
       (case req of
          CreateReq (Inl e) \<Rightarrow> Ret (Some e)
        | CreateReq (Inr job) \<Rightarrow> job_validateOnCreation E lg job
        | UpdateReq (Inl e) _ \<Rightarrow> Ret (Some e)
        | UpdateReq (Inr job) old \<Rightarrow>
            if \<not> time_IsZero (om_DeletionTimestamp (job_Meta job)) then Ret None
            else (case old of Inl e \<Rightarrow> Ret (Some e) | Inr oldJob \<Rightarrow> Ret (job_validateOnUpdate E lg job oldJob))
        | DeleteReq _ \<Rightarrow> Ret None)
       (\<lambda>err. Ret (handleError err))"

section \<open>What an admitted job works on\<close>

lemma and_then_Ret_None: "and_then x y = Ret None \<longleftrightarrow> x = Ret None \<and> y = Ret None"
  by (auto simp: and_then_def rbind_def split: run.splits option.splits)

lemma job_admitted: "OpsJobValidator_Handle E lg (CreateReq (Inr job)) = Ret Allowed \<longleftrightarrow> job_validateOnCreation E lg job = Ret None"
  by (auto simp: OpsJobValidator_Handle_def rbind_def handleError_def split: run.splits option.splits)

lemma validate_nodes_uniform:
  assumes "validate_nodes E lg job c f ps = Ret None" "p \<in> set ps"
  shows "\<exists>n. getNode E lg (par_Value p) = Inr (Some n) \<and> GetClusterId (n_Meta n) \<noteq> '''' \<and> GetSpecNodeFlavor n \<noteq> '''' \<and>
    (c \<noteq> '''' \<longrightarrow> GetClusterId (n_Meta n) = c) \<and> (f \<noteq> '''' \<longrightarrow> GetSpecNodeFlavor n = f) \<and>
    (GetWorkspaceId (job_Meta job) = '''' \<or> GetWorkspaceId (n_Meta n) = GetWorkspaceId (job_Meta job))"
  using assms
proof (induction ps arbitrary: c f)
  case (Cons q ps)
  from Cons.prems(1) obtain n where n: "getNode E lg (par_Value q) = Inr (Some n)"
      and ok: "node_fits job c f n = Inr (GetClusterId (n_Meta n), GetSpecNodeFlavor n)"
      and rest: "validate_nodes E lg job (GetClusterId (n_Meta n)) (GetSpecNodeFlavor n) ps = Ret None"
    by (auto simp: node_fits_def split: sum.splits option.splits if_splits)
  have q: "GetClusterId (n_Meta n) \<noteq> ''''" "GetSpecNodeFlavor n \<noteq> ''''" "c \<noteq> '''' \<longrightarrow> GetClusterId (n_Meta n) = c"
    "f \<noteq> '''' \<longrightarrow> GetSpecNodeFlavor n = f" "GetWorkspaceId (job_Meta job) = '''' \<or> GetWorkspaceId (n_Meta n) = GetWorkspaceId (job_Meta job)"
    using ok by (auto simp: node_fits_def split: if_splits)
  show ?case
  proof (cases "p = q")
    case False
    with Cons.IH [OF rest] Cons.prems(2) q show ?thesis by auto
  qed (use n q in blast)
qed simp

lemma validate_nodes_first:
  assumes "validate_nodes E lg job '''' '''' ps = Ret None" "p \<in> set ps" "q \<in> set ps"
    "getNode E lg (par_Value p) = Inr (Some n)" "getNode E lg (par_Value q) = Inr (Some m)"
  shows "GetClusterId (n_Meta n) = GetClusterId (n_Meta m) \<and> GetSpecNodeFlavor n = GetSpecNodeFlavor m"
proof (cases ps)
  case (Cons r rs)
  from assms(1) Cons obtain k where k: "getNode E lg (par_Value r) = Inr (Some k)" "GetClusterId (n_Meta k) \<noteq> ''''" "GetSpecNodeFlavor k \<noteq> ''''"
      and rest: "validate_nodes E lg job (GetClusterId (n_Meta k)) (GetSpecNodeFlavor k) rs = Ret None"
    by (auto simp: node_fits_def split: sum.splits option.splits if_splits)
  have "GetClusterId (n_Meta x) = GetClusterId (n_Meta k) \<and> GetSpecNodeFlavor x = GetSpecNodeFlavor k"
    if "y \<in> set ps" "getNode E lg (par_Value y) = Inr (Some x)" for x y
    using that k validate_nodes_uniform [OF rest, of y] by (cases "y = r") (auto simp: Cons)
  with assms show ?thesis by simp
qed (use assms in simp)


section \<open>One job at a time\<close>

lemma last_value: "mget (fold (\<lambda>p m. if name = par_Name p then mput m (par_Name p) (par_Value p) else m) ps m) name =
   (case filter (\<lambda>p. par_Name p = name) ps of [] \<Rightarrow> mget m name | qs \<Rightarrow> Some (par_Value (last qs)))"
  by (induction ps arbitrary: m) (auto split: list.splits)

lemma hasDuplicateInput_iff:
  "hasDuplicateInput ps qs name \<longleftrightarrow>
     (case filter (\<lambda>p. par_Name p = name) ps of [] \<Rightarrow> False | rs \<Rightarrow> \<exists>q \<in> set qs. par_Name q = name \<and> par_Value q = par_Value (last rs))"
proof -
  have "hasDuplicateInput ps qs name \<longleftrightarrow> (\<exists>q \<in> set qs. par_Name q = name \<and>
      mget (fold (\<lambda>p m. if name = par_Name p then mput m (par_Name p) (par_Value p) else m) ps []) name = Some (par_Value q))"
    by (auto simp: hasDuplicateInput_def list_ex_iff)
  then show ?thesis by (auto simp: last_value split: list.splits)
qed

text \<open>An admitted job on one node meets no other unfinished job of its type there.\<close>

lemma single_node_exclusive:
  assumes "OpsJobValidator_Handle E lg (CreateReq (Inr job)) = Ret Allowed" "oj_Type (job_Spec job) \<in> {OpsJobPreflightType, OpsJobAddonType}"
    "GetParameters job ParameterNode = [p]"
    "listRelatedRunningJobs E lg (GetClusterId (job_Meta job)) [oj_Type (job_Spec job)] = Inr js" "j \<in> set js" "job_Name j \<noteq> job_Name job"
    "q \<in> set (GetParameters j ParameterNode)"
  shows "par_Value q \<noteq> par_Value p"
proof -
  have "validateNodeDuplicated E lg job = None"
    using assms(1,2) by (auto simp: job_admitted job_validateOnCreation_def and_then_Ret_None validatePreflight_def validateAddon_def ops_defs
        split: option.splits if_splits)
  then have "\<not> hasDuplicateInput (oj_Inputs (job_Spec job)) (oj_Inputs (job_Spec j)) ParameterNode"
    using assms(4-6) by (auto simp: validateNodeDuplicated_def no_other_job_def first_error_None)
  then show ?thesis using assms(3,7) by (auto simp: hasDuplicateInput_iff GetParameters_def)
qed

section \<open>Witnesses and concrete runs\<close>

definition node_input :: "string \<Rightarrow> Parameter" where "node_input n = \<lparr>par_Name = ParameterNode, par_Value = n\<rparr>"

definition sample_job :: "string \<Rightarrow> string \<Rightarrow> Parameter list \<Rightarrow> OpsJob" where
  "sample_job name jobType inputs =
     \<lparr>job_Meta = (blank_meta name)\<lparr>om_Labels := [(ClusterIdLabel, ''c''), (DisplayNameLabel, ''job''), (OpsJobTypeLabel, jobType), (NodeFlavorIdLabel, ''f'')]\<rparr>,
      job_Spec = \<lparr>oj_Type = jobType, oj_Resource = Some (full_resource 1 ''8''), oj_Image = Some ''img'', oj_EntryPoint = Some ''run'', oj_Inputs = inputs,
        oj_TTLSecondsAfterFinished = 0, oj_TimeoutSecond = 0, oj_IsTolerateAll = False\<rparr>,
      job_FinishedAt = None\<rparr>"

definition job_hook :: "OpsJob list \<Rightarrow> int Node list \<Rightarrow> int admin_hook" where
  "job_hook jobs ns = hook.extend (demo_hook [])
     \<lparr>get_Role = (\<lambda>_ _. None), list_Clusters = (\<lambda>_. Inr []), get_NodeTemplate = (\<lambda>_ _. Inl (plain_error ''template'')),
      get_AddonTemplate = (\<lambda>_ _. Inl (plain_error ''addon'')), list_OpsJobs = (\<lambda>_ sel. Inr (filter (\<lambda>j. sel (job_Meta j)) jobs)),
      cfg_OpsJobTTLSecond = 60, cfg_OpsJobTimeoutSecond = 600\<rparr>\<lparr>get_Node := (\<lambda>_ n. find_by ''Node'' n (\<lambda>x. om_Name (n_Meta x)) ns)\<rparr>"

definition script_job :: "string \<Rightarrow> string list \<Rightarrow> OpsJob" where
  "script_job name nodes = (sample_job name OpsJobAddonType (map node_input nodes @ [\<lparr>par_Name = ParameterScript, par_Value = ''ls''\<rparr>]))"

text \<open>\<^verbatim>\<open>hasDuplicateInput\<close> keeps one value per name: the running job on node \<open>a\<close> is missed when the new job asks for \<open>a\<close> and then \<open>b\<close>,
  and found when it asks for them in the other order.\<close>

lemma overlapping_jobs_admitted:
  "OpsJobValidator_Handle (job_hook [script_job ''old'' [''a'']] []) [] (CreateReq (Inr (script_job ''new'' [''a'', ''b'']))) = Ret Allowed"
  "OpsJobValidator_Handle (job_hook [script_job ''old'' [''a'']] []) [] (CreateReq (Inr (script_job ''new'' [''b'', ''a'']))) \<noteq> Ret Allowed"
  by code_simp+

text \<open>\<^verbatim>\<open>removeDuplicates\<close> only compares with the last value of a name.\<close>

lemma repeated_nodes_kept:
  "map par_Value (GetParameters (removeDuplicates (script_job ''j'' [''a'', ''a'', ''b''])) ParameterNode) = [''a'', ''b'']"
  "map par_Value (GetParameters (removeDuplicates (script_job ''j'' [''a'', ''b'', ''a''])) ParameterNode) = [''a'', ''b'', ''a'']"
  by code_simp+

text \<open>The names of the inputs are normalised after the nodes were checked: a node that does not exist passes as \<^verbatim>\<open>Node\<close>.\<close>

lemma late_normalisation:
  "map par_Value (GetParameters (mutateJobSpec (job_hook [] []) [] (filterUnhealthyNodes (job_hook [] []) []
     (sample_job ''j'' OpsJobPreflightType [\<lparr>par_Name = ''Node'', par_Value = ''gone''\<rparr>]))) ParameterNode) = [''gone'']"
  "map par_Value (GetParameters (mutateJobSpec (job_hook [] []) [] (filterUnhealthyNodes (job_hook [] []) []
     (sample_job ''j'' OpsJobPreflightType [\<lparr>par_Name = ''node'', par_Value = ''gone''\<rparr>]))) ParameterNode) = []"
  by code_simp+

text \<open>A download with a relative path into the namespace \<^verbatim>\<open>default\<close> dereferences a nil workspace.\<close>

lemma download_to_default_panics:
  "OpsJobMutator_Handle (job_hook [] []) [] (CreateReq (Inr (sample_job ''j'' OpsJobDownloadType
     [\<lparr>par_Name = ParameterDestPath, par_Value = ''models''\<rparr>, \<lparr>par_Name = ParameterWorkspace, par_Value = ''default''\<rparr>]))) = Panic"
  by code_simp

lemma join_examples:
  "path_Join [''/mnt/ws'', ''models/a''] = ''/mnt/ws/models/a''" "path_Join [''/mnt/ws/'', ''./a/../b''] = ''/mnt/ws/b''"
  "path_Join [''/mnt'', ''../../etc''] = ''/etc''"
  by code_simp+

definition job_node :: "int Node" where
  "job_node = (ws_node ''n'' ''f'' (Some ''ws''))\<lparr>n_Spec := (n_Spec free_node)\<lparr>ns_NodeFlavor := Some ''f''\<rparr>\<rparr>"


end
