(* ===== verification/Spec2Isabelle.thy ===== *)
theory Spec2Isabelle
  imports Scheduler_Reconcile Topology_Sort Collections Failover Syncer Workspaces Ops_Job_Webhook
begin

text \<open>
  Verification of the job manager and of controllers of the resource manager of Primus-SaFE, of its
  admission webhooks, and of what they stand on.

  Primus-SaFE runs training and inference workloads on GPU clusters. The admin plane keeps workloads,
  workspaces, nodes, faults and resource templates as Kubernetes objects; each data-plane cluster runs the
  pods. The job manager (\<^verbatim>\<open>src/SaFE/job-manager\<close>) connects them: the scheduler admits workloads of a workspace
  when their resources fit, the dispatcher creates the object of a workload in its cluster, the syncer carries
  events of these objects and their pods back into the status of the workload, the failover controller stops
  workloads on faulty nodes so that they run again elsewhere, and the TTL and cron controllers end and start
  workloads by the clock. The resource manager (\<^verbatim>\<open>src/SaFE/resource-manager\<close>) keeps the nodes: it follows the nodes of
  the clusters, turns their conditions into faults and faults into taints, and binds nodes to workspaces. The two
  processes meet in these objects: a fault leads to a failover, a node in a workspace is where its workloads run, and the
  sticky faults of the syncer reserve the nodes of a workload. Every object passes through the admission webhooks
  (\<^verbatim>\<open>src/SaFE/webhooks\<close>) before it is stored: a mutator completes it, a validator admits or refuses it. Inside a cluster, the plugin \<^verbatim>\<open>src/Scheduler-Plugins/pkg/topologyipsort\<close> places the
  pods of a gang on racks.

  \<^bold>\<open>Shape of the model.\<close> Every Go function is one HOL function of the same name (prefixed where the name
  clashes, such as \<open>set_Union\<close>, \<open>om_Get\<close>, \<open>TTL_handle\<close>, \<open>syncer_Do\<close>). Errors are values (\<open>goerr\<close>, with \<open>Inl\<close> or an
  option), panics are \<open>None\<close> of an outer option. Structs are records, string enumerations are the strings of the
  source. Go maps are association lists with distinct keys (\<open>wf_map\<close>), iterated in insertion order; where the
  source iterates a map, the theorems hold for every order of the list. Machine integers are integers with
  \<open>wrap64\<close>, \<open>wrap32\<close> and \<open>wrap8\<close> where the source can overflow. Stateful code threads the log \<open>wlog\<close> of
  the writes sent to the API server and the database with the answer each one got; reads are functions of that
  log, so every interleaving of other writers is covered by the choice of these functions. One run of a handler sees
  one clock value \<open>now\<close>.

  \<^bold>\<open>Parameters.\<close> Code outside the repository is a field of a parameter: \<open>ext\<close> (quantity arithmetic, string and
  time formatting), \<open>env\<close> (the admin-plane client and configuration), \<open>plane\<close>, \<open>fplane\<close>, \<open>splane\<close>, \<open>cplane\<close>
  (data-plane clients, informers, database, decoders), \<open>rm\<close> (what the resource manager reads and writes, with a log
  of its own), \<open>hook\<close> (what the admission webhooks read and write), \<open>ulib\<close> (nested fields of unstructured objects), \<open>json_lib\<close>
  (JSON encoding), \<open>workqueue\<close> with the laws \<open>wq_ok\<close>, \<open>fw\<close> (the scheduler framework). What a theorem needs of them is
  a hypothesis of it, and its witness instantiates the parameter.

  \<^bold>\<open>Theories.\<close>
  \<^item> \<open>Go_Prelude\<close>, \<open>Go_Float\<close>, \<open>Go_Sort\<close>: maps, strings, decimal numbers, \<^verbatim>\<open>float64\<close> and \<^verbatim>\<open>sort.Slice\<close>. Sorting is insertion
    sort, which is what the library does up to twelve elements; the theorems on sorted results hold for every
    sorting of a strict weak order.
  \<^item> \<open>Quantity\<close>, \<open>Errors\<close>, \<open>Collections\<close>: \<^verbatim>\<open>common/pkg/quantity\<close>, \<^verbatim>\<open>common/pkg/errors\<close> and \<^verbatim>\<open>utils/pkg\<close>; resource lists are
    summed and subtracted exactly, and where \<^verbatim>\<open>equal\<close> loses a difference is proved.
  \<^item> \<open>Api_Types\<close>, \<open>Pod_Rows\<close>, \<open>Env\<close>, \<open>Samples\<close>: \<^verbatim>\<open>apis/pkg/apis/amd/v1\<close>, the status rows of \<^verbatim>\<open>common/pkg/database/client\<close>
    with their round trip, the environment, and sample data for witnesses.
  \<^item> \<open>Workload_Common\<close>, \<open>Node_Usage\<close>, \<open>Nodes\<close>, \<open>Job_Utils\<close>: \<^verbatim>\<open>common/pkg/workload\<close>, \<^verbatim>\<open>common/pkg/nodes\<close>, \<^verbatim>\<open>job-manager/pkg/utils\<close>;
    the aggregate of node usage gives the same answers as the pods it replaces, and scaling down takes idle nodes.
  \<^item> \<open>Keyed_Controller\<close>: \<^verbatim>\<open>common/pkg/controller\<close> as a step relation over a parameter work queue; no message is lost, one
    worker per key, coalescing, and the priority of a pending delete, through a locale on merge functions.
  \<^item> \<open>Preempt\<close>, \<open>Scheduler\<close>, \<open>Scheduler_Reconcile\<close>, \<open>Ttl_Cron\<close>: \<^verbatim>\<open>job-manager/pkg/scheduler\<close>; capacity, order, preemption,
    dependencies, deletion and finalizers, expiry.
  \<^item> \<open>Unstructured\<close>, \<open>Data_Plane\<close>: reading objects of the data plane and the registry of clusters.
  \<^item> \<open>Job_Sync\<close>, \<open>Pod_Sync\<close>, \<open>Syncer\<close>: \<^verbatim>\<open>job-manager/pkg/syncer\<close>; from events to messages to the status of a workload,
    its history of nodes, and the offloading of the status to the database.
  \<^item> \<open>Failover\<close>: \<^verbatim>\<open>job-manager/pkg/failover\<close>; which faults lead to which failovers.
  \<^item> \<open>Fault_Common\<close>, \<open>Rm_Env\<close>, \<open>Faults\<close>: \<^verbatim>\<open>common/pkg/faults\<close>, \<^verbatim>\<open>resource-manager/pkg/utils\<close> and the fault controller; taints are
    added and removed again, retries end, the finalizer outlives the taint, and which faults a restart loses.
  \<^item> \<open>Node_Sync\<close>: \<^verbatim>\<open>node_k8s_controller.go\<close>; the admin node mirrors the node of the cluster and its faults agree with its
    conditions.
  \<^item> \<open>Workspace_Plane\<close>, \<open>Workspaces\<close>: the workspace controller; expectations as a contract (a locale, interpreted on the
    controller's table), bounds of scaling, release of everything before the finalizer, and what blocks a workspace.
  \<^item> \<open>Users\<close>: \<^verbatim>\<open>common/pkg/user\<close>, the workspaces a user may enter and manage.
  \<^item> \<open>Webhooks\<close>: \<^verbatim>\<open>webhooks/pkg\<close>, requests, answers, names, labels and ports, and the mutators and validators of faults, node
    flavors and nodes; the patch of a node settles, and what the rules for names really admit.
  \<^item> \<open>Workspace_Webhook\<close>: \<^verbatim>\<open>workspace_webhook.go\<close>; accounting of node actions, what an admitted removal leaves running, volumes,
    and the users that follow the list of managers.
  \<^item> \<open>Workload_Mutator\<close>, \<open>Workload_Validator\<close>: \<^verbatim>\<open>workload_webhook.go\<close>; the normal form of mutated workloads, RDMA for full nodes,
    admitted pods fit their nodes, dispatched requests are frozen, elastic groups keep their shape over every history of
    admitted updates, and the panics and refusals of the code.
  \<^item> \<open>Admin_Webhooks\<close>, \<open>Ops_Job_Webhook\<close>: the other handlers of \<^verbatim>\<open>webhooks/pkg\<close>; roles and workspaces of mutated users, clusters and
    templates, and the nodes an operations job is admitted for. This theory composes the webhooks of workspaces and users.
  \<^item> \<open>Topology_Sort\<close>: the scheduler plugin; selection of nodes, one-to-one placement and gang admission.

  \<^bold>\<open>Bounds.\<close> Loops of the source that retry take the number of attempts as fuel, equal to the source's constant
  where it has one (\<open>MaxRetryAttempts\<close>, the attempts of \<open>ConflictRetry\<close> and of \<open>RemoveFinalizer\<close>) and as a parameter for the time-bounded
  \<^verbatim>\<open>backoff.Retry\<close>; everything else is structural recursion or has a termination proof.

  \<^bold>\<open>Not modelled.\<close> Registration with the controller manager, logging and metrics; the dispatcher, which
  rewrites untyped objects from templates, and the node controller;
  the controllers of clusters, addons, models and operations
  jobs, which drive kubespray, helm and SSH; the API server, the node agent, the web front end and Lens, which are input and output around databases and HTTP.
\<close>

section \<open>Two webhooks in a row\<close>

text \<open>C18: Managers named when a workspace is created do not get their rights. The webhook of the workspace sends every
  manager to the API server with the right to manage it; the update passes the webhook of users while the workspace is
  not stored yet, and that webhook removes the management of every workspace it cannot read.\<close>

theorem new_workspace_managers_lost:
  assumes "mutateManagers E hl None newW = (Inr w, hl')" and "u \<in> set (wsp_Managers (wk_Spec w))"
    and "get_Workspace E lg (wk_Name newW) = Inl e" and "wk_Name newW \<notin> {'''', ''default''}"
  shows "\<exists>user. stored_after E hl' u user \<and> HasWorkspaceManagedRight user [wk_Name newW] \<and>
    \<not> HasWorkspaceManagedRight (user_mutateOnUpdate E lg user) [wk_Name newW]"
proof -
  have "\<not> workspace_known E lg (wk_Name newW)"
    using assms(3,4) by (simp add: workspace_known_def hook_getWorkspace_def ebind_def)
  then have "\<not> HasWorkspaceManagedRight (user_mutateOnUpdate E lg user) [wk_Name newW]" for user
    using updated_managed_known [of "wk_Name newW" E lg user] by (auto simp: HasWorkspaceManagedRight_def has_right_iff GetManagedWorkspace_def)
  with new_managers_granted [OF assms(1,2)] show ?thesis by blast
qed

lemma new_workspace_managers_lost_witness:
  "\<exists>user. HasWorkspaceManagedRight user [''ws''] \<and>
     \<not> HasWorkspaceManagedRight (user_mutateOnUpdate (sample_hook [] [] [] [] [sample_user ''u'' []]) [] user) [''ws'']"
proof -
  let ?E = "sample_hook [] [] [] [] [sample_user ''u'' []]"
  let ?r = "mutateManagers ?E [] None (with_managers [''u''])"
  have f: "fst ?r = Inr (with_managers [''u''])" by code_simp
  then obtain hl' where r: "?r = (Inr (with_managers [''u'']), hl')" by (metis prod.collapse)
  have n: "wk_Name (with_managers [''u'']) = ''ws''" by code_simp
  have e: "get_Workspace ?E [] (wk_Name (with_managers [''u''])) = Inl (NewNotFound ''Workspace'' ''ws'')" by code_simp
  have "''u'' \<in> set (wsp_Managers (wk_Spec (with_managers [''u''])))" by (simp add: with_managers_def)
  from new_workspace_managers_lost [OF r this e] show ?thesis by (auto simp: n)
qed

end
